(* ===== verification/Prelude.thy ===== *)
theory Prelude
  imports Main "HOL-Library.Word"
begin

text \<open>
  Shared material of the development: the names of the machine types, the byte-order
  conversions between integers and byte strings, and the arithmetic lemmas on words that the
  component theories use. \<open>word_nat\<close> collects the equations that move a word computation to
  the natural numbers.
\<close>

unbundle bit_operations_syntax

named_theorems word_nat

type_synonym u8 = "8 word"
type_synonym u16 = "16 word"
type_synonym u32 = "32 word"
type_synonym u64 = "64 word"
type_synonym byte = "8 word"

section \<open>Byte strings and integers\<close>

text \<open>
  \<open>le_nat\<close> reads a byte string as a little-endian number, \<open>be_nat\<close> as a big-endian one;
  \<open>le_bytes n\<close> writes the \<open>n\<close> low bytes of a number, lowest first.
\<close>

fun le_nat :: "byte list \<Rightarrow> nat" where
  "le_nat [] = 0"
| "le_nat (b # bs) = unat b + 256 * le_nat bs"

fun le_bytes :: "nat \<Rightarrow> nat \<Rightarrow> byte list" where
  "le_bytes 0 x = []"
| "le_bytes (Suc n) x = word_of_nat (x mod 256) # le_bytes n (x div 256)"

definition be_nat :: "byte list \<Rightarrow> nat" where
  "be_nat bs = le_nat (rev bs)"

lemma length_le_bytes [simp]: "length (le_bytes n x) = n"
  by (induction n arbitrary: x) auto

lemma unat_byte_lt [simp]: "unat (b :: byte) < 256"
  using unsigned_less [of b] by simp

lemma unat_of_nat_byte [simp]: "unat (word_of_nat (x mod 256) :: byte) = x mod 256"
  by (simp add: unat_of_nat take_bit_eq_mod)

lemma word_of_nat_unat_byte [simp]: "word_of_nat (unat (b :: byte)) = b"
  by simp

lemma le_nat_bound: "le_nat bs < 256 ^ length bs"
proof (induction bs)
  case Nil
  then show ?case by simp
next
  case (Cons b bs)
  have "le_nat (b # bs) < 256 + 256 * le_nat bs" by simp
  also have "\<dots> \<le> 256 * 256 ^ length bs" using Cons.IH by simp
  finally show ?case by simp
qed

lemma le_nat_append: "le_nat (xs @ ys) = le_nat xs + 256 ^ length xs * le_nat ys"
  by (induction xs) (auto simp: algebra_simps)

lemma le_nat_replicate_0 [simp]: "le_nat (replicate n 0) = 0"
  by (induction n) auto

lemma le_nat_le_bytes [simp]: "le_nat (le_bytes n x) = x mod 256 ^ n"
proof (induction n arbitrary: x)
  case 0
  then show ?case by simp
next
  case (Suc n)
  have "x mod 256 ^ Suc n = x mod 256 + 256 * (x div 256 mod 256 ^ n)"
    by (simp add: mod_mult2_eq)
  then show ?case by (simp add: Suc.IH)
qed

lemma le_bytes_le_nat: "length bs = n \<Longrightarrow> le_bytes n (le_nat bs) = bs"
proof (induction bs arbitrary: n)
  case Nil
  then show ?case by simp
next
  case (Cons b bs)
  then obtain m where n: "n = Suc m" and m: "length bs = m" by auto
  have "(unat b + 256 * le_nat bs) mod 256 = unat b" by simp
  moreover have "(unat b + 256 * le_nat bs) div 256 = le_nat bs" by simp
  ultimately show ?case using Cons.IH [OF m] by (simp add: n)
qed

lemma le_bytes_nth: "i < n \<Longrightarrow> le_bytes n x ! i = word_of_nat (x div 256 ^ i mod 256)"
proof (induction n arbitrary: x i)
  case 0
  then show ?case by simp
next
  case (Suc n)
  then show ?case by (cases i) (simp_all add: div_mult2_eq)
qed

lemma le_nat_inj: "length xs = length ys \<Longrightarrow> le_nat xs = le_nat ys \<Longrightarrow> xs = ys"
  by (metis le_bytes_le_nat)

lemma be_nat_bound: "be_nat bs < 256 ^ length bs"
  using le_nat_bound [of "rev bs"] by (simp add: be_nat_def)

lemma be_nat_simps [simp]:
  "be_nat [] = 0"
  "be_nat (b # bs) = unat b * 256 ^ length bs + be_nat bs"
  by (simp_all add: be_nat_def le_nat_append)

lemma be_nat_snoc: "be_nat (bs @ [b]) = be_nat bs * 256 + unat b"
  by (simp add: be_nat_def)

lemma be_nat_rev_le_bytes: "be_nat (rev (le_bytes n x)) = x mod 256 ^ n"
  by (simp add: be_nat_def)

lemma rev_le_bytes_be_nat: "length bs = n \<Longrightarrow> rev (le_bytes n (be_nat bs)) = bs"
  by (metis be_nat_def le_bytes_le_nat length_rev rev_rev_ident)

lemma take_le_bytes: "m \<le> n \<Longrightarrow> take m (le_bytes n x) = le_bytes m x"
proof (induction n arbitrary: m x)
  case (Suc n)
  then show ?case by (cases m) simp_all
qed simp

section \<open>Lists and options\<close>

lemma those_eq_Some: "those zs = Some ys \<longleftrightarrow> zs = map Some ys"
proof (induction zs arbitrary: ys)
  case (Cons z zs)
  then show ?case by (cases ys) (auto split: option.splits)
qed auto

text \<open>A list cut into blocks of the same size with a shorter rest.\<close>

lemma blocks_view:
  assumes "0 < n"
  shows "\<exists>bs r. xs = concat bs @ r \<and> (\<forall>b \<in> set bs. length b = n) \<and> length r < n"
proof (induction xs rule: length_induct)
  case (1 xs)
  show ?case
  proof (cases "length xs < n")
    case True
    then show ?thesis by (intro exI [of _ "[]"] exI [of _ xs]) simp
  next
    case False
    then have "length (drop n xs) < length xs" using assms by simp
    with "1.IH" obtain bs r where "drop n xs = concat bs @ r" "\<forall>b \<in> set bs. length b = n" "length r < n" by blast
    moreover have "xs = take n xs @ drop n xs" by simp
    ultimately show ?thesis using False
      by (intro exI [of _ "take n xs # bs"] exI [of _ r]) auto
  qed
qed

lemma length_concat_blocks: "\<forall>b \<in> set bs. length b = n \<Longrightarrow> length (concat bs) = length bs * n"
  by (induction bs) auto

lemma blocks_div_mod:
  assumes "\<forall>b \<in> set bs. length b = n" and "length r < n"
  shows "length (concat bs @ r) div n = length bs" and "length (concat bs @ r) mod n = length r"
    and "drop (length bs * n) (concat bs @ r) = r"
  using length_concat_blocks [OF assms(1)] assms(2) by simp_all

lemma nth_block:
  "\<forall>b \<in> set bs. length b = n \<Longrightarrow> i < length bs \<Longrightarrow> take n (drop (i * n) (concat bs @ r)) = bs ! i"
proof (induction bs arbitrary: i)
  case (Cons b bs)
  then show ?case by (cases i) simp_all
qed simp

section \<open>Digits in a base\<close>

text \<open>Lists of digits, least significant first.\<close>

fun base_val :: "nat \<Rightarrow> nat list \<Rightarrow> nat" where
  "base_val B [] = 0"
| "base_val B (d # ds) = d + B * base_val B ds"

fun base_digits :: "nat \<Rightarrow> nat \<Rightarrow> nat \<Rightarrow> nat list" where
  "base_digits B 0 x = []"
| "base_digits B (Suc n) x = x mod B # base_digits B n (x div B)"

lemma length_base_digits [simp]: "length (base_digits B n x) = n"
  by (induction n arbitrary: x) auto

lemma base_digits_lt: "0 < B \<Longrightarrow> d \<in> set (base_digits B n x) \<Longrightarrow> d < B"
  by (induction n arbitrary: x) auto

lemma base_digits_0: "base_digits B n 0 = replicate n 0"
  by (induction n) auto

lemma base_val_base_digits: "base_val B (base_digits B n x) = x mod B ^ n"
  by (induction n arbitrary: x) (auto simp: mod_mult2_eq)

lemma base_digits_base_val:
  "\<forall>d \<in> set ds. d < B \<Longrightarrow> base_digits B (length ds) (base_val B ds) = ds"
  by (induction ds) auto

lemma base_val_bound:
  assumes "\<forall>d \<in> set ds. d < B"
  shows "base_val B ds < B ^ length ds"
  using assms
proof (induction ds)
  case (Cons d ds)
  then have "base_val B (d # ds) < B + B * base_val B ds" by simp
  also have "\<dots> = B * (base_val B ds + 1)" by simp
  also have "\<dots> \<le> B * B ^ length ds" using Cons by (intro mult_left_mono) (simp_all add: Suc_leI)
  finally show ?case by simp
qed simp

section \<open>Word arithmetic on the natural numbers\<close>

lemma unat_u64_lt: "unat (x :: u64) < 2 ^ 64"
  using unsigned_less [of x] by simp

lemma unat_u32_lt: "unat (x :: u32) < 2 ^ 32"
  using unsigned_less [of x] by simp

lemma unat_u64_lt_numeral [simp]: "unat (x :: u64) < 18446744073709551616"
  using unat_u64_lt [of x] by simp

lemma unat_u32_lt_numeral [simp]: "unat (x :: u32) < 4294967296"
  using unat_u32_lt [of x] by simp

lemma unat_add_u64 [word_nat]: "unat (x + y :: u64) = (unat x + unat y) mod 2 ^ 64"
  by (simp add: unat_word_ariths)

lemma unat_mult_u64 [word_nat]: "unat (x * y :: u64) = (unat x * unat y) mod 2 ^ 64"
  by (simp add: unat_word_ariths)

lemma unat_drop_u64 [word_nat]: "unat (drop_bit n (x :: u64)) = unat x div 2 ^ n"
  by (subst unsigned_drop_bit_eq) (simp add: drop_bit_eq_div take_bit_eq_mod)

lemma unat_push_u64 [word_nat]: "unat (push_bit n (x :: u64)) = (unat x * 2 ^ n) mod 2 ^ 64"
  by (subst unsigned_push_bit_eq) (simp add: push_bit_eq_mult take_bit_eq_mod)

lemma unat_mask_u64 [word_nat]: "unat ((x :: u64) AND mask n) = unat x mod 2 ^ n"
  by (metis take_bit_eq_mask take_bit_eq_mod unsigned_take_bit_eq)

lemma unat_sub_u64: "unat (y :: u64) \<le> unat x \<Longrightarrow> unat (x - y) = unat x - unat y"
  by (simp add: unat_sub word_le_nat_alt)

lemma unat_add_no_overflow_u64:
  "unat x + unat y < 2 ^ 64 \<Longrightarrow> unat (x + y :: u64) = unat x + unat y"
  by (simp add: unat_add_u64)

lemma unat_mult_no_overflow_u64:
  "unat x * unat y < 2 ^ 64 \<Longrightarrow> unat (x * y :: u64) = unat x * unat y"
  by (simp add: unat_mult_u64)

lemma mult_lt_pow2:
  fixes a b :: nat
  assumes "a < 2 ^ m" and "b < 2 ^ n"
  shows "a * b < 2 ^ (m + n)"
proof (cases "b = 0")
  case False
  then have "a * b < 2 ^ m * b" using assms(1) by simp
  also have "\<dots> \<le> 2 ^ m * 2 ^ n" using assms(2) by simp
  finally show ?thesis by (simp add: power_add)
qed simp

lemma carry_u64: "(x + y < (x :: u64)) \<longleftrightarrow> 2 ^ 64 \<le> unat x + unat y"
  using no_olen_add_nat [of x y] by (simp add: linorder_not_le [symmetric])

lemma add_carry_u64:
  "unat (x + y) + 2 ^ 64 * unat (if x + y < x then 1 else 0 :: u64) = unat x + unat (y :: u64)"
proof (cases "unat x + unat y < 2 ^ 64")
  case True
  then show ?thesis by (simp add: carry_u64 unat_add_no_overflow_u64)
next
  case False
  moreover have "unat x + unat y - 2 ^ 64 < 2 ^ 64"
    using unat_u64_lt [of x] unat_u64_lt [of y] by linarith
  ultimately have "(unat x + unat y) mod 2 ^ 64 = unat x + unat y - 2 ^ 64"
    by (simp add: le_mod_geq)
  with False show ?thesis by (simp add: carry_u64 unat_add_u64)
qed

text \<open>Widening a 32-bit word.\<close>

lemma unat_ucast_u32_u64 [simp]: "unat (ucast (x :: u32) :: u64) = unat x"
  using unat_u32_lt [of x]
  by (simp add: unsigned_ucast_eq take_bit_eq_mod order_less_trans [OF unat_u32_lt])

text \<open>Bytes inside a word and disjoint bit fields.\<close>

lemma unat_ucast_byte_u64 [simp]: "unat (ucast (b :: byte) :: u64) = unat b"
proof -
  have "unat b < 2 ^ 64" by (rule order.strict_trans [OF unat_byte_lt]) simp
  then show ?thesis by (simp add: unsigned_ucast_eq take_bit_nat_eq_self)
qed

lemma unat_ucast_u64_byte: "unat (ucast (i :: u64) :: byte) = unat i mod 256"
  by (simp add: unsigned_ucast_eq take_bit_eq_mod)

lemma unat_or_push:
  fixes w x :: u64
  assumes "unat w < 2 ^ s" and "2 ^ s * unat x < 2 ^ 64"
  shows "unat (w OR push_bit s x) = unat w + 2 ^ s * unat x"
proof -
  have low: "w = take_bit s w"
    using assms(1) by (simp add: word_unat_eq_iff unsigned_take_bit_eq take_bit_nat_eq_self)
  have "w AND push_bit s x = 0"
    by (subst low) (auto intro!: bit_eqI simp: bit_simps)
  then have eq: "w OR push_bit s x = w + push_bit s x" by (simp add: disjunctive_add_eq_or)
  have p: "unat (push_bit s x) = 2 ^ s * unat x"
    using assms(2) by (simp add: unat_push_u64 mult.commute)
  show ?thesis
  proof (cases "s < 64")
    case True
    have "2 ^ s * (unat x + 1) \<le> (2 :: nat) ^ 64"
    proof -
      have "2 ^ s * unat x < 2 ^ s * (2 :: nat) ^ (64 - s)"
        using assms(2) True by (simp flip: power_add)
      then have "unat x + 1 \<le> 2 ^ (64 - s)" by simp
      then have "2 ^ s * (unat x + 1) \<le> 2 ^ s * (2 :: nat) ^ (64 - s)" by (rule mult_left_mono) simp
      then show ?thesis using True by (simp flip: power_add)
    qed
    then have "unat w + unat (push_bit s x) < 2 ^ 64" using assms(1) p by simp
    then show ?thesis using eq p unat_add_no_overflow_u64 by metis
  next
    case False
    then have "(2 :: nat) ^ 64 \<le> 2 ^ s" by (intro power_increasing) simp_all
    then have "2 ^ s * unat x < 2 ^ s" using assms(2) by linarith
    then have "unat x = 0" by simp
    then show ?thesis by (simp add: unsigned_eq_0_iff)
  qed
qed

end
