(* ===== verification/Limbs.thy ===== *)
theory Limbs
  imports Prelude
begin

text \<open>
  What the scalar and the field arithmetic of \<open>crypto-ops.c\<close> share: numbers split into signed
  machine words, the functions that load such words from byte strings, and the ranges of integers
  that bound them. \<open>ranged_step\<close> is the interface of one step of a pass over the limbs: an invariant
  indexed by the list of ranges, and a transformer that computes the ranges after the step or fails
  when a word could overflow.
\<close>

type_synonym i64 = "64 word"

section \<open>Loading\<close>

definition load_3 :: "byte list \<Rightarrow> u64" where
  "load_3 b = ucast (b ! 0) OR push_bit 8 (ucast (b ! 1)) OR push_bit 16 (ucast (b ! 2))"

definition load_4 :: "byte list \<Rightarrow> u64" where
  "load_4 b = ucast (b ! 0) OR push_bit 8 (ucast (b ! 1)) OR push_bit 16 (ucast (b ! 2))
     OR push_bit 24 (ucast (b ! 3))"

lemma unat_load_3:
  "3 \<le> length b \<Longrightarrow> unat (load_3 b) = le_nat (take 3 b)"
proof -
  assume "3 \<le> length b"
  then obtain b0 b1 b2 bs where b: "b = b0 # b1 # b2 # bs"
    by (cases b; cases "tl b"; cases "tl (tl b)") auto
  have 1: "unat (ucast b0 OR push_bit 8 (ucast b1) :: u64) = unat b0 + 256 * unat b1"
    using unat_or_push [of "ucast b0" 8 "ucast b1"] unat_byte_lt [of b0] unat_byte_lt [of b1] by simp
  have "unat (load_3 b) = unat b0 + 256 * unat b1 + 65536 * unat b2"
    using unat_or_push [of "ucast b0 OR push_bit 8 (ucast b1)" 16 "ucast b2"] 1
      unat_byte_lt [of b0] unat_byte_lt [of b1] unat_byte_lt [of b2]
    by (simp add: b load_3_def or.assoc)
  then show ?thesis by (simp add: b numeral_3_eq_3)
qed

lemma unat_load_4:
  "4 \<le> length b \<Longrightarrow> unat (load_4 b) = le_nat (take 4 b)"
proof -
  assume "4 \<le> length b"
  then have l: "3 \<le> length b" "3 < length b" by simp_all
  have t: "take 4 b = take 3 b @ [b ! 3]" using take_Suc_conv_app_nth [OF l(2)] by simp
  have "le_nat (take 3 b) < 256 ^ 3" using le_nat_bound [of "take 3 b"] l by simp
  then have "unat (load_4 b) = le_nat (take 3 b) + 16777216 * unat (b ! 3)"
    using unat_or_push [of "load_3 b" 24 "ucast (b ! 3)"] unat_load_3 [OF l(1)] unat_byte_lt [of "b ! 3"]
    by (simp add: load_4_def load_3_def or.assoc)
  then show ?thesis using l by (simp add: t le_nat_append)
qed

lemma le_nat_slice:
  assumes "k + n \<le> length s"
  shows "le_nat (take n (drop k s)) = le_nat s div 256 ^ k mod 256 ^ n"
proof -
  let ?a = "take k s" and ?b = "take n (drop k s)" and ?c = "drop n (drop k s)"
  have s: "s = ?a @ ?b @ ?c" by (metis append_take_drop_id)
  have len: "length ?a = k" "length ?b = n" using assms by simp_all
  have lt: "le_nat ?a < 256 ^ k" "le_nat ?b < 256 ^ n"
    using le_nat_bound [of ?a] le_nat_bound [of ?b] len by simp_all
  have "le_nat s = le_nat ?a + 256 ^ k * (le_nat ?b + 256 ^ n * le_nat ?c)"
    using arg_cong [OF s, of le_nat] by (simp only: le_nat_append len)
  then show ?thesis using lt by simp
qed

lemma le_nat_step: "4 \<le> length s \<Longrightarrow> le_nat s = unat (load_4 s) + 4294967296 * le_nat (drop 4 s)"
  using le_nat_append [of "take 4 s" "drop 4 s"] by (simp add: unat_load_4)

lemma le_nat_step_3: "3 \<le> length s \<Longrightarrow> le_nat s = unat (load_3 s) + 16777216 * le_nat (drop 3 s)"
  using le_nat_append [of "take 3 s" "drop 3 s"] by (simp add: unat_load_3)

lemma load_3_bound: "3 \<le> length b \<Longrightarrow> unat (load_3 b) < 16777216"
  using le_nat_bound [of "take 3 b"] by (simp add: unat_load_3)

lemma load_4_less: "4 \<le> length b \<Longrightarrow> unat (load_4 b) < 4294967296"
  using le_nat_bound [of "take 4 b"] by (simp add: unat_load_4)

lemma load_4_bound: "4 \<le> length b \<Longrightarrow> 0 \<le> int (unat (load_4 b)) \<and> int (unat (load_4 b)) < 2 ^ 32"
proof -
  assume "4 \<le> length b"
  then have "unat (load_4 b) < 256 ^ 4" using le_nat_bound [of "take 4 b"] by (simp add: unat_load_4)
  then have "int (unat (load_4 b)) < int (256 ^ 4)" by (simp only: of_nat_less_iff)
  then show ?thesis by simp
qed

section \<open>Ranges\<close>

type_synonym range = "int \<times> int"

definition in_range :: "range \<Rightarrow> int \<Rightarrow> bool" where
  "in_range r x \<longleftrightarrow> fst r \<le> x \<and> x \<le> snd r"

definition word_range :: "range \<Rightarrow> bool" where
  "word_range r \<longleftrightarrow> - 9223372036854775808 \<le> fst r \<and> snd r < 9223372036854775808"

definition range_add :: "range \<Rightarrow> range \<Rightarrow> range" where
  "range_add r t = (fst r + fst t, snd r + snd t)"

definition range_scale :: "int \<Rightarrow> range \<Rightarrow> range" where
  "range_scale k r = (if 0 \<le> k then (k * fst r, k * snd r) else (k * snd r, k * fst r))"

lemma in_range_add: "in_range r x \<Longrightarrow> in_range t y \<Longrightarrow> in_range (range_add r t) (x + y)"
  by (simp add: in_range_def range_add_def)

lemma in_range_scale: "in_range r x \<Longrightarrow> in_range (range_scale k r) (k * x)"
  by (auto simp: in_range_def range_scale_def mult_left_mono mult_left_mono_neg)

lemma word_range_sint:
  assumes "word_range r" and "in_range r x"
  shows "sint (word_of_int x :: i64) = x"
  using assms by (simp add: word_range_def in_range_def signed_of_int signed_take_bit_int_eq_self)

lemma sint_eq:
  assumes "in_range r x" and "word_range r" and "w = (word_of_int x :: i64)"
  shows "sint w = x"
  using word_range_sint [OF assms(2,1)] assms(3) by simp

lemma word_of_sint: "word_of_int (sint w) = (w :: 'a::len word)"
  by simp

lemma nonneg_word:
  assumes "0 \<le> sint (w :: i64)"
  shows "int (unat w) = sint w"
proof -
  have "sint w < 2 ^ 63" using sint_lt [of w] by simp
  then have "sint w mod 2 ^ 64 = sint w" using assms by simp
  moreover have "uint w = sint w mod 2 ^ 64"
    using uint_word_of_int [of "sint w", where 'a = 64] by simp
  ultimately show ?thesis by simp
qed

lemma unat_signed_shift:
  assumes "0 \<le> sint (w :: i64)"
  shows "unat (signed_drop_bit r w) = unat w div 2 ^ r"
proof -
  have "sint (signed_drop_bit r w) = int (unat w) div 2 ^ r"
    using nonneg_word [OF assms] by (simp add: sint_signed_drop_bit_eq drop_bit_eq_div)
  then have "int (unat (signed_drop_bit r w)) = int (unat w div 2 ^ r)"
    using nonneg_word [of "signed_drop_bit r w"] by (simp only: zdiv_int of_nat_power of_nat_numeral)
      (simp add: pos_imp_zdiv_nonneg_iff)
  then show ?thesis by (simp only: of_nat_eq_iff)
qed

lemma sint_small: "unat (w :: i64) < 2 ^ 63 \<Longrightarrow> sint w = int (unat w)"
proof -
  assume "unat w < 2 ^ 63"
  then have "int (unat w) < int (2 ^ 63)" by (simp only: of_nat_less_iff)
  then have "in_range (0, 9223372036854775807) (int (unat w))" by (simp only: in_range_def fst_conv snd_conv) simp
  then show ?thesis by (rule sint_eq) (simp_all add: word_range_def)
qed

section \<open>A test for zero\<close>

lemma fold_or_zero: "fold (\<lambda>b r. r OR ucast b) bs r = (0 :: u32) \<longleftrightarrow> r = 0 \<and> (\<forall>b \<in> set bs. b = (0 :: byte))"
proof (induction bs arbitrary: r)
  case (Cons b bs)
  have "take_bit 32 (unat b) = unat b"
    by (rule take_bit_nat_eq_self) (rule less_trans [OF unat_byte_lt], simp)
  then have "ucast b = (0 :: u32) \<longleftrightarrow> b = 0" by (simp add: word_unat_eq_iff unsigned_ucast_eq)
  then show ?case using Cons by (auto simp: or_eq_0_iff)
qed simp

lemma fold_or_bound: "unat r < 256 \<Longrightarrow> unat (fold (\<lambda>b r. r OR ucast (b :: byte)) bs (r :: u32)) < 256"
proof (induction bs arbitrary: r)
  case (Cons b bs)
  have "take_bit 8 r = r" using Cons.prems by (simp add: word_unat_eq_iff unsigned_take_bit_eq take_bit_nat_eq_self)
  moreover have "take_bit 8 (ucast b :: u32) = ucast b" by (rule bit_word_eqI) (auto simp: bit_simps dest: bit_imp_le_length)
  ultimately have "r OR ucast b = take_bit 8 (r OR ucast b)" by (simp add: take_bit_or)
  then have "unat (r OR ucast b) < 2 ^ 8"
    by (metis take_bit_nat_less_exp unsigned_take_bit_eq)
  then show ?case using Cons.IH by simp
qed simp

lemma le_nat_eq_0: "le_nat bs = 0 \<longleftrightarrow> (\<forall>b \<in> set bs. b = 0)"
  by (induction bs) (auto simp: unsigned_eq_0_iff)

lemma nonzero_bytes:
  "signed_drop_bit 8 (fold (\<lambda>b r. r OR ucast b) s (0 :: u32) - 1) + 1 = (if le_nat s = 0 then 0 else 1 :: u32)"
proof -
  define r where "r = fold (\<lambda>b r. r OR ucast b) s (0 :: u32)"
  have r0: "r = 0 \<longleftrightarrow> le_nat s = 0" by (simp add: r_def fold_or_zero le_nat_eq_0)
  have "signed_drop_bit 8 (r - 1) + 1 = (if le_nat s = 0 then 0 else 1)"
  proof (cases "r = 0")
    case True
    have "signed_drop_bit 8 (- 1 :: u32) + 1 = 0" by code_simp
    then show ?thesis using True r0 by simp
  next
    case False
    have "unat r < 256" unfolding r_def by (rule fold_or_bound) simp
    moreover have "0 < unat r" using False by (simp add: unsigned_eq_0_iff zero_less_iff_neq_zero)
    ultimately have n: "0 \<le> int (unat r) - 1" "int (unat r) - 1 < 256" by linarith+
    have w: "r - 1 = word_of_int (int (unat r) - 1)" by simp
    have "sint (r - 1) = int (unat r) - 1"
      unfolding w using n by (simp only: signed_of_int) (simp add: signed_take_bit_int_eq_self)
    then have "sint (signed_drop_bit 8 (r - 1)) = 0"
      using n by (simp only: sint_signed_drop_bit_eq drop_bit_eq_div) simp
    then show ?thesis using False r0 by (simp add: signed_eq_0_iff)
  qed
  then show ?thesis by (simp add: r_def)
qed

section \<open>Passes\<close>

primrec pass_ranges ::
    "('i \<Rightarrow> range list \<Rightarrow> range list option) \<Rightarrow> 'i list \<Rightarrow> range list \<Rightarrow> range list option" where
  "pass_ranges ranges [] R = Some R"
| "pass_ranges ranges (i # is) R = Option.bind (ranges i R) (pass_ranges ranges is)"

locale ranged_step =
  fixes holds :: "range list \<Rightarrow> 's \<Rightarrow> bool"
    and step :: "'i \<Rightarrow> 's \<Rightarrow> 's"
    and ranges :: "'i \<Rightarrow> range list \<Rightarrow> range list option"
  assumes sound: "holds R s \<Longrightarrow> ranges i R = Some R' \<Longrightarrow> holds R' (step i s)"
begin

lemma pass_sound:
  "holds R s \<Longrightarrow> pass_ranges ranges is R = Some R' \<Longrightarrow> holds R' (fold step is s)"
proof (induction "is" arbitrary: R s)
  case (Cons i "is")
  then obtain R1 where "ranges i R = Some R1" "pass_ranges ranges is R1 = Some R'"
    by (auto simp: bind_eq_Some_conv)
  then show ?case using Cons.IH [OF sound [OF Cons.prems(1)]] by simp
qed simp

end

end
