(* ===== verification/CurveScalar.thy ===== *)
theory CurveScalar
  imports Limbs
begin

text \<open>
  The scalar arithmetic of \<open>crypto-ops.c\<close>: reduction, addition, subtraction and multiplication of
  32-byte numbers modulo the order of the curve's base point. A number is held in 64-bit signed
  limbs of 21 bits, so the state of a function is the list of its variables \<open>s0\<close>, \<open>s1\<close>, ... and
  the passes of the code are folds of three steps over limb indices: the rounding carry, the
  flooring carry and the replacement of a high limb by its residue.

  The proofs follow the range of every limb through the passes. \<open>limbs R M X s\<close> says that the
  live limbs of \<open>s\<close> lie in the ranges \<open>R\<close> and represent \<open>X\<close> modulo \<open>M\<close>; every step has a transformer
  of ranges that fails when a variable could leave the 64-bit range, and the interface
  \<open>ranged_step\<close> carries the predicate through a whole pass. What remains is to evaluate the
  transformers on the initial ranges.
\<close>

section \<open>Loading and storing\<close>

text \<open>The lower eleven limbs of a number, read alike by every function.\<close>

definition load_low_limbs :: "byte list \<Rightarrow> i64 list" where
  "load_low_limbs s =
    [2097151 AND load_3 s,
     2097151 AND drop_bit 5 (load_4 (drop 2 s)),
     2097151 AND drop_bit 2 (load_3 (drop 5 s)),
     2097151 AND drop_bit 7 (load_4 (drop 7 s)),
     2097151 AND drop_bit 4 (load_4 (drop 10 s)),
     2097151 AND drop_bit 1 (load_3 (drop 13 s)),
     2097151 AND drop_bit 6 (load_4 (drop 15 s)),
     2097151 AND drop_bit 3 (load_3 (drop 18 s)),
     2097151 AND load_3 (drop 21 s),
     2097151 AND drop_bit 5 (load_4 (drop 23 s)),
     2097151 AND drop_bit 2 (load_3 (drop 26 s))]"

definition load_scalar :: "byte list \<Rightarrow> i64 list" where
  "load_scalar s = load_low_limbs s @ [drop_bit 7 (load_4 (drop 28 s))]"

definition load_wide :: "byte list \<Rightarrow> i64 list" where
  "load_wide s = load_low_limbs s @
    [2097151 AND drop_bit 7 (load_4 (drop 28 s)),
     2097151 AND drop_bit 4 (load_4 (drop 31 s)),
     2097151 AND drop_bit 1 (load_3 (drop 34 s)),
     2097151 AND drop_bit 6 (load_4 (drop 36 s)),
     2097151 AND drop_bit 3 (load_3 (drop 39 s)),
     2097151 AND load_3 (drop 42 s),
     2097151 AND drop_bit 5 (load_4 (drop 44 s)),
     2097151 AND drop_bit 2 (load_3 (drop 47 s)),
     2097151 AND drop_bit 7 (load_4 (drop 49 s)),
     2097151 AND drop_bit 4 (load_4 (drop 52 s)),
     2097151 AND drop_bit 1 (load_3 (drop 55 s)),
     2097151 AND drop_bit 6 (load_4 (drop 57 s)),
     drop_bit 3 (load_4 (drop 60 s))]"

definition store_scalar :: "i64 list \<Rightarrow> byte list" where
  "store_scalar s =
    [ucast (signed_drop_bit 0 (s ! 0)),
     ucast (signed_drop_bit 8 (s ! 0)),
     ucast (signed_drop_bit 16 (s ! 0) OR push_bit 5 (s ! 1)),
     ucast (signed_drop_bit 3 (s ! 1)),
     ucast (signed_drop_bit 11 (s ! 1)),
     ucast (signed_drop_bit 19 (s ! 1) OR push_bit 2 (s ! 2)),
     ucast (signed_drop_bit 6 (s ! 2)),
     ucast (signed_drop_bit 14 (s ! 2) OR push_bit 7 (s ! 3)),
     ucast (signed_drop_bit 1 (s ! 3)),
     ucast (signed_drop_bit 9 (s ! 3)),
     ucast (signed_drop_bit 17 (s ! 3) OR push_bit 4 (s ! 4)),
     ucast (signed_drop_bit 4 (s ! 4)),
     ucast (signed_drop_bit 12 (s ! 4)),
     ucast (signed_drop_bit 20 (s ! 4) OR push_bit 1 (s ! 5)),
     ucast (signed_drop_bit 7 (s ! 5)),
     ucast (signed_drop_bit 15 (s ! 5) OR push_bit 6 (s ! 6)),
     ucast (signed_drop_bit 2 (s ! 6)),
     ucast (signed_drop_bit 10 (s ! 6)),
     ucast (signed_drop_bit 18 (s ! 6) OR push_bit 3 (s ! 7)),
     ucast (signed_drop_bit 5 (s ! 7)),
     ucast (signed_drop_bit 13 (s ! 7)),
     ucast (signed_drop_bit 0 (s ! 8)),
     ucast (signed_drop_bit 8 (s ! 8)),
     ucast (signed_drop_bit 16 (s ! 8) OR push_bit 5 (s ! 9)),
     ucast (signed_drop_bit 3 (s ! 9)),
     ucast (signed_drop_bit 11 (s ! 9)),
     ucast (signed_drop_bit 19 (s ! 9) OR push_bit 2 (s ! 10)),
     ucast (signed_drop_bit 6 (s ! 10)),
     ucast (signed_drop_bit 14 (s ! 10) OR push_bit 7 (s ! 11)),
     ucast (signed_drop_bit 1 (s ! 11)),
     ucast (signed_drop_bit 9 (s ! 11)),
     ucast (signed_drop_bit 17 (s ! 11))]"

section \<open>Passes over the limbs\<close>

definition round_carry :: "nat \<Rightarrow> i64 list \<Rightarrow> i64 list" where
  "round_carry i s = (let carry = signed_drop_bit 21 (s ! i + push_bit 20 1) in
     s[i + 1 := s ! (i + 1) + carry, i := s ! i - push_bit 21 carry])"

definition floor_carry :: "nat \<Rightarrow> i64 list \<Rightarrow> i64 list" where
  "floor_carry i s = (let carry = signed_drop_bit 21 (s ! i) in
     s[i + 1 := s ! (i + 1) + carry, i := s ! i - push_bit 21 carry])"

definition reduce_limb :: "nat \<Rightarrow> i64 list \<Rightarrow> i64 list" where
  "reduce_limb i s = (let x = s ! i in
     s[i - 12 := s ! (i - 12) + x * 666643,
       i - 11 := s ! (i - 11) + x * 470296,
       i - 10 := s ! (i - 10) + x * 654183,
       i - 9 := s ! (i - 9) - x * 997805,
       i - 8 := s ! (i - 8) + x * 136657,
       i - 7 := s ! (i - 7) - x * 683901])"

text \<open>The end of every function, from thirteen limbs to the bytes.\<close>

definition sc_finish :: "i64 list \<Rightarrow> byte list" where
  "sc_finish s0 = (
     let s1 = fold round_carry [0, 2, 4, 6, 8, 10, 1, 3, 5, 7, 9, 11] s0;
         s2 = (reduce_limb 12 s1)[12 := 0];
         s3 = fold floor_carry [0, 1, 2, 3, 4, 5, 6, 7, 8, 9, 10, 11] s2;
         s4 = reduce_limb 12 s3;
         s5 = fold floor_carry [0, 1, 2, 3, 4, 5, 6, 7, 8, 9, 10] s4
     in store_scalar s5)"

text \<open>The reduction of twenty-four limbs, shared by \<open>sc_reduce\<close> and the multiplications.\<close>

definition sc_reduce_limbs :: "i64 list \<Rightarrow> byte list" where
  "sc_reduce_limbs s0 = (
     let s1 = fold reduce_limb [23, 22, 21, 20, 19, 18] s0;
         s2 = fold round_carry [6, 8, 10, 12, 14, 16, 7, 9, 11, 13, 15] s1;
         s3 = (fold reduce_limb [17, 16, 15, 14, 13, 12] s2)[12 := 0]
     in sc_finish s3)"

section \<open>The operations\<close>

definition sc_0 :: "byte list" where
  "sc_0 = replicate 32 0"

definition sc_reduce :: "byte list \<Rightarrow> byte list" where
  "sc_reduce s = sc_reduce_limbs (load_wide s)"

definition sc_reduce32 :: "byte list \<Rightarrow> byte list" where
  "sc_reduce32 s = sc_finish (load_scalar s @ [0])"

definition sc_add :: "byte list \<Rightarrow> byte list \<Rightarrow> byte list" where
  "sc_add a b = sc_finish (map2 (+) (load_scalar a) (load_scalar b) @ [0])"

definition sc_sub :: "byte list \<Rightarrow> byte list \<Rightarrow> byte list" where
  "sc_sub a b = sc_finish (map2 (-) (load_scalar a) (load_scalar b) @ [0])"

text \<open>The terms of the product that belong to limb \<open>k\<close>, in the order of the code.\<close>

definition product_limb :: "i64 list \<Rightarrow> i64 list \<Rightarrow> nat \<Rightarrow> i64" where
  "product_limb a b k = sum_list (map (\<lambda>i. a ! i * b ! (k - i)) [k - 11 ..< min 12 (k + 1)])"

definition carry_product :: "i64 list \<Rightarrow> i64 list" where
  "carry_product s = fold round_carry
     [0, 2, 4, 6, 8, 10, 12, 14, 16, 18, 20, 22, 1, 3, 5, 7, 9, 11, 13, 15, 17, 19, 21] s"

definition sc_mul :: "byte list \<Rightarrow> byte list \<Rightarrow> byte list" where
  "sc_mul a b = (let la = load_scalar a; lb = load_scalar b in
     sc_reduce_limbs (carry_product (map (product_limb la lb) [0..<23] @ [0])))"

definition sc_muladd :: "byte list \<Rightarrow> byte list \<Rightarrow> byte list \<Rightarrow> byte list" where
  "sc_muladd a b c = (let la = load_scalar a; lb = load_scalar b; lc = load_scalar c in
     sc_reduce_limbs (carry_product
       (map (\<lambda>k. (if k < 12 then lc ! k else 0) + product_limb la lb k) [0..<23] @ [0])))"

definition sc_mulsub :: "byte list \<Rightarrow> byte list \<Rightarrow> byte list \<Rightarrow> byte list" where
  "sc_mulsub a b c = (let la = load_scalar a; lb = load_scalar b; lc = load_scalar c in
     sc_reduce_limbs (carry_product
       (map (\<lambda>k. (if k < 12 then lc ! k else 0) - product_limb la lb k) [0..<23] @ [0])))"

definition signum :: "i64 \<Rightarrow> i64" where
  "signum a = signed_drop_bit 63 a - signed_drop_bit 63 (- a)"

definition sc_check :: "byte list \<Rightarrow> u32" where
  "sc_check s = (
     let s0 = load_4 s; s1 = load_4 (drop 4 s); s2 = load_4 (drop 8 s); s3 = load_4 (drop 12 s);
         s4 = load_4 (drop 16 s); s5 = load_4 (drop 20 s); s6 = load_4 (drop 24 s);
         s7 = load_4 (drop 28 s)
     in ucast (signed_drop_bit 8
       (signum (1559614444 - s0) + push_bit 1 (signum (1477600026 - s1))
        + push_bit 2 (signum (2734136534 - s2)) + push_bit 3 (signum (350157278 - s3))
        + push_bit 4 (signum (- s4)) + push_bit 5 (signum (- s5))
        + push_bit 6 (signum (- s6)) + push_bit 7 (signum (268435456 - s7)))))"

text \<open>The bytes are promoted to the 32-bit \<open>int\<close>.\<close>

definition sc_isnonzero :: "byte list \<Rightarrow> u32" where
  "sc_isnonzero s =
     signed_drop_bit 8 (fold (\<lambda>b r. r OR ucast b) (take 32 s) (0 :: u32) - 1) + 1"

section \<open>Ranges of limbs\<close>

definition sc_order :: int where
  "sc_order = 2 ^ 252 + 27742317777372353535851937790883648493"

definition live_value :: "nat \<Rightarrow> i64 list \<Rightarrow> int" where
  "live_value n s = (\<Sum>i<n. sint (s ! i) * 2 ^ (21 * i))"

definition limbs :: "range list \<Rightarrow> int \<Rightarrow> int \<Rightarrow> i64 list \<Rightarrow> bool" where
  "limbs R M X s \<longleftrightarrow> length R \<le> length s \<and> (\<forall>i < length R. in_range (R ! i) (sint (s ! i)))
     \<and> live_value (length R) s mod M = X mod M"

definition range_shift :: "int \<Rightarrow> range \<Rightarrow> range" where
  "range_shift d r = ((fst r + d) div 2097152, (snd r + d) div 2097152)"

lemma in_range_shift: "in_range r x \<Longrightarrow> in_range (range_shift d r) ((x + d) div 2097152)"
  by (simp add: in_range_def range_shift_def zdiv_mono1)

text \<open>The arithmetic shift is the floor of the quotient.\<close>

lemma sint_shift_21: "sint (signed_drop_bit 21 (w :: i64)) = sint w div 2097152"
  by (simp add: sint_signed_drop_bit_eq drop_bit_eq_div)

section \<open>Values of updated limbs\<close>

lemma live_value_update:
  assumes "j < n" and "n \<le> length s"
  shows "live_value n (s[j := w]) = live_value n s + (sint w - sint (s ! j)) * 2 ^ (21 * j)"
proof -
  have split: "live_value n t = sint (t ! j) * 2 ^ (21 * j) + (\<Sum>i\<in>{..<n} - {j}. sint (t ! i) * 2 ^ (21 * i))"
    for t using assms(1) by (simp add: live_value_def sum.remove)
  have "(\<Sum>i\<in>{..<n} - {j}. sint (s[j := w] ! i) * 2 ^ (21 * i)) = (\<Sum>i\<in>{..<n} - {j}. sint (s ! i) * 2 ^ (21 * i))"
    by (rule sum.cong) auto
  then show ?thesis using split [of s] split [of "s[j := w]"] assms by (simp add: algebra_simps)
qed

lemma live_value_Suc: "live_value (Suc n) s = live_value n s + sint (s ! n) * 2 ^ (21 * n)"
  by (simp add: live_value_def)

lemma live_value_beyond: "n \<le> j \<Longrightarrow> live_value n (s[j := w]) = live_value n s"
  unfolding live_value_def by (rule sum.cong) auto

section \<open>The steps and their range transformers\<close>

text \<open>Both carries are instances of one: the quotient rounded after adding \<open>d\<close>.\<close>

definition carry_limb :: "int \<Rightarrow> nat \<Rightarrow> i64 list \<Rightarrow> i64 list" where
  "carry_limb d i s = (let carry = signed_drop_bit 21 (s ! i + word_of_int d) in
     s[i + 1 := s ! (i + 1) + carry, i := s ! i - push_bit 21 carry])"

lemma round_carry_eq: "round_carry = carry_limb 1048576"
  by (rule ext)+ (simp add: round_carry_def carry_limb_def)

lemma floor_carry_eq: "floor_carry = carry_limb 0"
  by (rule ext)+ (simp add: floor_carry_def carry_limb_def)

definition carry_ranges :: "int \<Rightarrow> nat \<Rightarrow> range list \<Rightarrow> range list option" where
  "carry_ranges d i R = (
     let up = range_add (R ! (i + 1)) (range_shift d (R ! i)) in
     if i + 1 < length R \<and> 0 \<le> d \<and> d < 2097152 \<and> word_range (range_add (R ! i) (d, d)) \<and> word_range up
     then Some (R[i + 1 := up, i := (- d, 2097151 - d)]) else None)"

lemma limb_rest: "x - 2097152 * ((x + d) div 2097152) = (x + d) mod 2097152 - (d :: int)"
  using mult_div_mod_eq [of 2097152 "x + d"] by linarith

lemma carry_limb_nth:
  assumes "i + 1 < length s" and "in_range r (sint (s ! i))" and "word_range (range_add r (d, d))"
    and "0 \<le> d" and "d < 2097152"
    and "in_range t (sint (s ! (i + 1)))" and "word_range (range_add t (range_shift d r))"
  shows "sint (carry_limb d i s ! i) = (sint (s ! i) + d) mod 2097152 - d"
    and "sint (carry_limb d i s ! (i + 1)) = sint (s ! (i + 1)) + (sint (s ! i) + d) div 2097152"
proof -
  let ?x = "sint (s ! i)" and ?y = "sint (s ! (i + 1))"
  let ?c = "(?x + d) div 2097152"
  have "in_range (range_add r (d, d)) (?x + d)"
    using assms(2) by (rule in_range_add) (simp add: in_range_def)
  then have "sint (s ! i + word_of_int d) = ?x + d"
    by (rule sint_eq [OF _ assms(3)]) simp
  then have c: "sint (signed_drop_bit 21 (s ! i + word_of_int d)) = ?c"
    by (simp add: sint_shift_21)
  then have cw: "signed_drop_bit 21 (s ! i + word_of_int d) = word_of_int ?c"
    by (metis word_of_sint)
  have "sint (s ! i - push_bit 21 (word_of_int ?c)) = (?x + d) mod 2097152 - d"
  proof (rule sint_eq [of "(- d, 2097151 - d)"])
    show "in_range (- d, 2097151 - d) ((?x + d) mod 2097152 - d)" by (simp add: in_range_def)
    show "word_range (- d, 2097151 - d)" using assms(4,5) by (simp add: word_range_def)
    show "s ! i - push_bit 21 (word_of_int ?c) = word_of_int ((?x + d) mod 2097152 - d)"
      by (simp add: push_bit_eq_mult mult.commute flip: limb_rest)
  qed
  then show "sint (carry_limb d i s ! i) = (?x + d) mod 2097152 - d"
    using assms(1) by (simp add: carry_limb_def Let_def cw)
  have "sint (s ! (i + 1) + word_of_int ?c) = ?y + ?c"
    by (rule sint_eq [OF in_range_add [OF assms(6) in_range_shift [OF assms(2)]] assms(7)]) simp
  then show "sint (carry_limb d i s ! (i + 1)) = ?y + ?c"
    using assms(1) by (simp add: carry_limb_def Let_def cw)
qed

lemma carry_limb_value:
  assumes "i + 1 < n" and "n \<le> length s"
    and "sint (carry_limb d i s ! i) = (sint (s ! i) + d) mod 2097152 - d"
    and "sint (carry_limb d i s ! (i + 1)) = sint (s ! (i + 1)) + (sint (s ! i) + d) div 2097152"
  shows "live_value n (carry_limb d i s) = live_value n s"
proof -
  let ?c = "(sint (s ! i) + d) div 2097152"
  obtain u v where t: "carry_limb d i s = s[i + 1 := u, i := v]" by (simp add: carry_limb_def Let_def)
  have uv: "sint v = sint (s ! i) - 2097152 * ?c" "sint u = sint (s ! (i + 1)) + ?c"
    using assms t limb_rest [of "sint (s ! i)" d] by simp_all
  have pow: "(2 :: int) ^ (21 * (i + 1)) = 2097152 * 2 ^ (21 * i)" by (simp add: power_add)
  show ?thesis unfolding t using assms(1,2)
    by (simp add: live_value_update uv pow algebra_simps power_add)
qed

lemma carry_sound:
  assumes "limbs R M X s" and "carry_ranges d i R = Some R'"
  shows "limbs R' M X (carry_limb d i s)"
proof -
  let ?up = "range_add (R ! (i + 1)) (range_shift d (R ! i))"
  have g: "i + 1 < length R" "word_range (range_add (R ! i) (d, d))" "word_range ?up" "0 \<le> d" "d < 2097152"
    and R': "R' = R[i + 1 := ?up, i := (- d, 2097151 - d)]"
    using assms(2) by (simp_all add: carry_ranges_def Let_def split: if_splits)
  have len: "length R \<le> length s" and val: "live_value (length R) s mod M = X mod M"
    and rng: "in_range (R ! j) (sint (s ! j))" if "j < length R" for j
    using assms(1) that by (auto simp: limbs_def)
  have "0 < length R" using g(1) by linarith
  note len = len [OF this] and val = val [OF this]
  have i: "i + 1 < length s" using g(1) len by simp
  note nth = carry_limb_nth [OF i rng g(2,4,5) rng g(3)]
  have nth: "sint (carry_limb d i s ! i) = (sint (s ! i) + d) mod 2097152 - d"
    "sint (carry_limb d i s ! (i + 1)) = sint (s ! (i + 1)) + (sint (s ! i) + d) div 2097152"
    using nth g(1) by simp_all
  have new: "in_range ?up (sint (carry_limb d i s ! (i + 1)))"
    "in_range (- d, 2097151 - d) (sint (carry_limb d i s ! i))"
    unfolding nth using g(1) rng [of "i + 1"] rng [of i]
    by (simp_all add: in_range_add in_range_shift) (simp add: in_range_def)
  have "in_range (R' ! j) (sint (carry_limb d i s ! j))" if j: "j < length R" for j
  proof -
    consider "j = i" | "j = i + 1" | "j \<noteq> i" "j \<noteq> i + 1" by blast
    then show ?thesis
    proof cases
      case 3
      then have "carry_limb d i s ! j = s ! j" by (simp add: carry_limb_def Let_def)
      then show ?thesis using 3 rng [OF j] by (simp add: R')
    qed (use new g(1) in \<open>simp_all add: R'\<close>)
  qed
  moreover have "length (carry_limb d i s) = length s" by (simp add: carry_limb_def Let_def)
  ultimately show ?thesis
    using carry_limb_value [OF g(1) len nth] len val by (simp add: limbs_def R')
qed

text \<open>
  A reduction is six additions of multiples of the top limb, which is no longer live afterwards.
  The six multiples are the digits of \<open>2 ^ 252 - sc_order\<close>.
\<close>

definition add_multiple :: "i64 \<Rightarrow> nat \<Rightarrow> int \<Rightarrow> i64 list \<Rightarrow> i64 list" where
  "add_multiple x j k s = s[j := s ! j + x * word_of_int k]"

definition add_ranges :: "range \<Rightarrow> nat \<Rightarrow> int \<Rightarrow> range list \<Rightarrow> range list option" where
  "add_ranges x j k R = (let r = range_add (R ! j) (range_scale k x) in
     if j < length R \<and> word_range r then Some (R[j := r]) else None)"

lemma limbs_exact: "limbs R 0 V s \<longleftrightarrow>
    length R \<le> length s \<and> (\<forall>i < length R. in_range (R ! i) (sint (s ! i))) \<and> live_value (length R) s = V"
  by (simp add: limbs_def)

lemma add_sound:
  assumes "limbs R 0 V s" and "in_range r (sint x)" and "add_ranges r j k R = Some R'"
  shows "limbs R' 0 (V + k * sint x * 2 ^ (21 * j)) (add_multiple x j k s)"
proof -
  let ?r = "range_add (R ! j) (range_scale k r)"
  have g: "j < length R" "word_range ?r" and R': "R' = R[j := ?r]"
    using assms(3) by (simp_all add: add_ranges_def Let_def split: if_splits)
  have len: "length R \<le> length s" and val: "live_value (length R) s = V"
    and rng: "\<And>j. j < length R \<Longrightarrow> in_range (R ! j) (sint (s ! j))"
    using assms(1) by (auto simp: limbs_exact)
  have new: "in_range ?r (sint (s ! j) + k * sint x)"
    by (intro in_range_add in_range_scale rng g(1) assms(2))
  have eq: "sint (s ! j + x * word_of_int k) = sint (s ! j) + k * sint x"
    by (rule sint_eq [OF new g(2)]) (simp add: mult.commute)
  show ?thesis
    using len g(1) rng new
    by (simp add: limbs_exact R' add_multiple_def live_value_update eq val nth_list_update)
qed

definition reduce_ranges :: "nat \<Rightarrow> range list \<Rightarrow> range list option" where
  "reduce_ranges i R = (if length R = i + 1 \<and> 12 \<le> i then
     Option.bind (Option.bind (Option.bind (Option.bind (Option.bind
       (add_ranges (R ! i) (i - 12) 666643 (take i R))
       (add_ranges (R ! i) (i - 11) 470296))
       (add_ranges (R ! i) (i - 10) 654183))
       (add_ranges (R ! i) (i - 9) (- 997805)))
       (add_ranges (R ! i) (i - 8) 136657))
       (add_ranges (R ! i) (i - 7) (- 683901)) else None)"

lemma reduce_limb_eq:
  assumes "12 \<le> i" and "i < length s"
  shows "reduce_limb i s = add_multiple (s ! i) (i - 7) (- 683901) (add_multiple (s ! i) (i - 8) 136657
    (add_multiple (s ! i) (i - 9) (- 997805) (add_multiple (s ! i) (i - 10) 654183
    (add_multiple (s ! i) (i - 11) 470296 (add_multiple (s ! i) (i - 12) 666643 s)))))"
proof -
  obtain m where m: "i = m + 12" using assms(1) by (metis add.commute le_Suc_ex)
  show ?thesis using assms(2) by (simp add: m reduce_limb_def add_multiple_def Let_def)
qed

lemma drop_top:
  assumes "limbs R M X s" and "length R = Suc i"
  shows "limbs (take i R) 0 (live_value (length R) s - sint (s ! i) * 2 ^ (21 * i)) s"
  using assms by (auto simp: limbs_def live_value_Suc min_def)

lemma top_residue:
  assumes "12 \<le> i"
  shows "(V - x * 2 ^ (21 * i) + 666643 * x * 2 ^ (21 * (i - 12)) + 470296 * x * 2 ^ (21 * (i - 11))
    + 654183 * x * 2 ^ (21 * (i - 10)) + - 997805 * x * 2 ^ (21 * (i - 9))
    + 136657 * x * 2 ^ (21 * (i - 8)) + - 683901 * x * 2 ^ (21 * (i - 7)))
    = V + sc_order * (- x * 2 ^ (21 * (i - 12)))"
proof -
  obtain m where m: "i = m + 12" using assms by (metis add.commute le_Suc_ex)
  have e: "21 * i = 252 + 21 * m" "21 * (i - 12) = 21 * m" "21 * (i - 11) = 21 + 21 * m"
    "21 * (i - 10) = 42 + 21 * m" "21 * (i - 9) = 63 + 21 * m" "21 * (i - 8) = 84 + 21 * m"
    "21 * (i - 7) = 105 + 21 * m"
    by (simp_all add: m)
  show ?thesis unfolding e power_add sc_order_def by (simp add: algebra_simps)
qed

lemma reduce_exact:
  assumes "limbs R M X s" and "reduce_ranges i R = Some R'"
  shows "limbs R' 0 (live_value (length R) s + sc_order * (- sint (s ! i) * 2 ^ (21 * (i - 12)))) (reduce_limb i s)"
proof -
  have i: "length R = Suc i" "12 \<le> i" and "i < length s" and x: "in_range (R ! i) (sint (s ! i))"
    using assms by (auto simp: reduce_ranges_def limbs_def split: if_splits)
  obtain R1 R2 R3 R4 R5 where R:
      "add_ranges (R ! i) (i - 12) 666643 (take i R) = Some R1"
      "add_ranges (R ! i) (i - 11) 470296 R1 = Some R2"
      "add_ranges (R ! i) (i - 10) 654183 R2 = Some R3"
      "add_ranges (R ! i) (i - 9) (- 997805) R3 = Some R4"
      "add_ranges (R ! i) (i - 8) 136657 R4 = Some R5"
      "add_ranges (R ! i) (i - 7) (- 683901) R5 = Some R'"
    using assms(2) i by (auto simp: reduce_ranges_def bind_eq_Some_conv)
  show ?thesis
    unfolding reduce_limb_eq [OF i(2) \<open>i < length s\<close>]
    using drop_top [OF assms(1) i(1), THEN add_sound, OF x R(1), THEN add_sound, OF x R(2),
        THEN add_sound, OF x R(3), THEN add_sound, OF x R(4), THEN add_sound, OF x R(5),
        THEN add_sound, OF x R(6)]
    by (simp only: top_residue [OF i(2)])
qed

lemma reduce_sound:
  assumes "limbs R sc_order X s" and "reduce_ranges i R = Some R'"
  shows "limbs R' sc_order X (reduce_limb i s)"
proof -
  have "live_value (length R') (reduce_limb i s)
      = live_value (length R) s + sc_order * (- sint (s ! i) * 2 ^ (21 * (i - 12)))"
    using reduce_exact [OF assms] by (simp add: limbs_exact)
  then have "live_value (length R') (reduce_limb i s) mod sc_order = X mod sc_order"
    using assms(1) by (simp only: mod_mult_self2 limbs_def)
  then show ?thesis using reduce_exact [OF assms] by (simp add: limbs_def)
qed

section \<open>Whole passes\<close>

interpretation rounding: ranged_step "\<lambda>R s. limbs R M X s" round_carry "carry_ranges 1048576"
  by unfold_locales (simp add: round_carry_eq carry_sound)

interpretation flooring: ranged_step "\<lambda>R s. limbs R M X s" floor_carry "carry_ranges 0"
  by unfold_locales (simp add: floor_carry_eq carry_sound)

interpretation reducing: ranged_step "\<lambda>R s. limbs R sc_order X s" reduce_limb reduce_ranges
  by unfold_locales (rule reduce_sound)

section \<open>The stored bytes\<close>

lemma base_val_div:
  assumes "\<forall>d \<in> set (take i ds). d < B" and "i \<le> length ds" and "0 < B"
  shows "base_val B ds div B ^ i = base_val B (drop i ds)"
  using assms(1,2)
proof (induction i arbitrary: ds)
  case (Suc i)
  then obtain d ds' where ds: "ds = d # ds'" by (cases ds) auto
  then have d: "d < B" "base_val B ds' div B ^ i = base_val B (drop i ds')" using Suc by auto
  have "base_val B ds div B = base_val B ds'" using d(1) assms(3) by (simp add: ds)
  then have "base_val B ds div (B * B ^ i) = base_val B ds' div B ^ i" by (simp add: div_mult2_eq)
  then show ?case using d(2) by (simp add: ds)
qed simp

lemma digit_bits:
  fixes d e :: nat
  assumes "r \<le> 21"
  shows "(d + 2097152 * e) div 2 ^ r = d div 2 ^ r + 2 ^ (21 - r) * e"
proof -
  have "(2 :: nat) ^ r * 2 ^ (21 - r) = 2 ^ 21" using assms by (simp flip: power_add)
  then have "(d + 2097152 * e) div 2 ^ r = (d + 2 ^ r * (2 ^ (21 - r) * e)) div 2 ^ r"
    by (simp flip: mult.assoc)
  also have "\<dots> = d div 2 ^ r + 2 ^ (21 - r) * e" by simp
  finally show ?thesis .
qed

lemma byte_of_digits:
  assumes "\<forall>d \<in> set (take i ds). d < 2097152" and "i < length ds" and "8 * j = 21 * i + r" and "r \<le> 21"
  shows "base_val 2097152 ds div 256 ^ j mod 256
    = (ds ! i div 2 ^ r + 2 ^ (21 - r) * base_val 2097152 (drop (Suc i) ds)) mod 256"
proof -
  have "(256 :: nat) ^ j = 2 ^ (8 * j)" by (simp add: power_mult)
  also have "\<dots> = 2097152 ^ i * 2 ^ r" by (simp add: assms(3) power_add power_mult)
  finally have "base_val 2097152 ds div 256 ^ j = base_val 2097152 (drop i ds) div 2 ^ r"
    using base_val_div [OF assms(1)] assms(2) by (simp add: div_mult2_eq)
  also have "drop i ds = ds ! i # drop (Suc i) ds" using assms(2) by (simp add: Cons_nth_drop_Suc)
  finally show ?thesis using digit_bits [OF assms(4)] by simp
qed

lemma byte_inner:
  assumes "\<forall>d \<in> set (take i ds). d < 2097152" and "i < length ds" and "8 * j = 21 * i + r" and "r \<le> 13"
  shows "base_val 2097152 ds div 256 ^ j mod 256 = ds ! i div 2 ^ r mod 256"
proof -
  have "21 - r = 8 + (13 - r)" using assms(4) by simp
  then have "(2 :: nat) ^ (21 - r) = 2 ^ 8 * 2 ^ (13 - r)" by (simp only: power_add)
  then show ?thesis using byte_of_digits [OF assms(1-3)] assms(4) by (simp add: mult.assoc)
qed

lemma byte_split:
  assumes "\<forall>d \<in> set (take i ds). d < 2097152" and "Suc i < length ds" and "8 * j = 21 * i + r" and "r \<le> 21"
  shows "base_val 2097152 ds div 256 ^ j mod 256 = (ds ! i div 2 ^ r + 2 ^ (21 - r) * ds ! Suc i) mod 256"
proof -
  have "drop (Suc i) ds = ds ! Suc i # drop (Suc (Suc i)) ds"
    using assms(2) by (simp add: Cons_nth_drop_Suc)
  then have "ds ! i div 2 ^ r + 2 ^ (21 - r) * base_val 2097152 (drop (Suc i) ds)
      = ds ! i div 2 ^ r + 2 ^ (21 - r) * ds ! Suc i
        + 256 * (8192 * 2 ^ (21 - r) * base_val 2097152 (drop (Suc (Suc i)) ds))"
    by (simp add: algebra_simps)
  then show ?thesis using byte_of_digits [OF assms(1) _ assms(3,4)] assms(2) by (simp only: mod_mult_self2 Suc_lessD)
qed

lemma stored_inner:
  assumes "0 \<le> sint (w :: i64)"
  shows "ucast (signed_drop_bit r w) = (word_of_nat (unat w div 2 ^ r mod 256) :: byte)"
  using unat_signed_shift [OF assms] by (simp add: word_unat_eq_iff unat_ucast_u64_byte)

lemma stored_split:
  assumes "0 \<le> sint (w :: i64)" "unat w < 2097152" and "unat v < 1099511627776" "r + k = 21"
  shows "ucast (signed_drop_bit r w OR push_bit k v) = (word_of_nat ((unat w div 2 ^ r + 2 ^ k * unat v) mod 256) :: byte)"
proof -
  have "unat w < 2 ^ k * 2 ^ r" using assms(2,4) by (simp add: add.commute flip: power_add)
  then have "unat (signed_drop_bit r w) < 2 ^ k"
    using unat_signed_shift [OF assms(1)] by (simp add: less_mult_imp_div_less)
  moreover have "2 ^ k * unat v < 2 ^ 64"
  proof -
    have "2 ^ k * unat v \<le> 2 ^ 21 * unat v" using assms(4) by (intro mult_right_mono power_increasing) simp_all
    also have "\<dots> < 2 ^ 64" using assms(3) by simp
    finally show ?thesis .
  qed
  ultimately show ?thesis
    using unat_signed_shift [OF assms(1)] by (simp add: unat_or_push word_unat_eq_iff unat_ucast_u64_byte)
qed

lemma store_scalar_eq:
  assumes "length s = 12" and "\<forall>i < 11. 0 \<le> sint (s ! i) \<and> unat (s ! i) < 2097152"
    and "0 \<le> sint (s ! 11)" and "unat (s ! 11) < 1099511627776"
  shows "store_scalar s = le_bytes 32 (base_val 2097152 (map unat s))"
proof -
  let ?V = "base_val 2097152 (map unat s)"
  have dig: "\<forall>d \<in> set (take i (map unat s)). d < 2097152" if "i \<le> 11" for i
    using assms(1,2) that by (auto simp: in_set_conv_nth)
  have pos: "0 \<le> sint (s ! i)" if "i < 12" for i using assms(2,3) that by (cases "i = 11") auto
  have small: "unat (s ! i) < 1099511627776" if "i < 12" for i
  proof (cases "i = 11")
    case False
    then have "unat (s ! i) < 2097152" using assms(2) that by simp
    then show ?thesis by simp
  qed (simp add: assms(4))
  have inner: "ucast (signed_drop_bit r (s ! i)) = (word_of_nat (?V div 256 ^ j mod 256) :: byte)"
    if "8 * j = 21 * i + r" "r \<le> 13" "i < 12" for i j r
    using stored_inner [OF pos [OF that(3)], of r] byte_inner [OF dig _ that(1,2)] that(3) assms(1)
    by simp
  have top: "ucast (signed_drop_bit 17 (s ! 11)) = (word_of_nat (?V div 256 ^ 31 mod 256) :: byte)"
    using stored_inner [OF pos, of 11 17] byte_of_digits [OF dig, of 11 31 17] assms(1) by simp
  have split: "ucast (signed_drop_bit r (s ! i) OR push_bit k (s ! i')) = (word_of_nat (?V div 256 ^ j mod 256) :: byte)"
    if "8 * j = 21 * i + r" "r + k = 21" "i < 11" "i' = Suc i" for i i' j r k
  proof -
    have k: "21 - r = k" "r \<le> 21" using that(2) by simp_all
    have i: "i < 12" "i' < 12" "i \<le> 11" "Suc i < length (map unat s)" "unat (s ! i) < 2097152"
      using that(3,4) assms(1,2) by simp_all
    show ?thesis
      using stored_split [OF pos [OF i(1)] i(5) small [OF i(2)] that(2)]
        byte_split [OF dig [OF i(3)] i(4) that(1) k(2)] that(3,4) assms(1) by (simp add: k(1))
  qed
  have bytes: "le_bytes 32 ?V = map (\<lambda>j. word_of_nat (?V div 256 ^ j mod 256)) [0..<32]"
    by (rule nth_equalityI) (simp_all add: le_bytes_nth)
  have idx: "[0..<32] = [0, 1, 2, 3, 4, 5, 6, 7, 8, 9, 10, 11, 12, 13, 14, 15, 16, 17, 18, 19, 20, 21,
      22, 23, 24, 25, 26, 27, 28, 29, 30, 31 :: nat]" by code_simp
  show ?thesis unfolding bytes idx store_scalar_def list.map
    by (intro arg_cong2 [where f = Cons] refl top inner split; simp)
qed

lemma base_val_sum: "base_val B ds = (\<Sum>i<length ds. ds ! i * B ^ i)"
proof (induction ds)
  case (Cons d ds)
  show ?case
    by (simp add: Cons.IH sum.lessThan_Suc_shift sum_distrib_left ac_simps del: sum.lessThan_Suc)
qed simp

lemma store_limbs:
  assumes "12 \<le> length s" and "\<forall>i < 11. 0 \<le> sint (s ! i) \<and> sint (s ! i) < 2097152"
    and "0 \<le> sint (s ! 11)" and "sint (s ! 11) < 1099511627776"
  shows "store_scalar s = le_bytes 32 (nat (live_value 12 s))"
proof -
  let ?t = "take 12 s"
  have len: "length ?t = 12" using assms(1) by simp
  have pos: "0 \<le> sint (s ! i)" if "i < 12" for i using assms(2,3) that by (cases "i = 11") auto
  then have val: "int (unat (s ! i)) = sint (s ! i)" if "i < 12" for i
    using that by (intro nonneg_word) simp
  have small: "unat (s ! i) < n" if "i < 12" "sint (s ! i) < int n" for i n
    using val [OF that(1)] that(2) by linarith
  have "live_value 12 s = (\<Sum>i<12. int (unat (s ! i)) * 2097152 ^ i)"
    unfolding live_value_def by (rule sum.cong) (simp_all only: val lessThan_iff power_mult, simp)
  also have "\<dots> = int (base_val 2097152 (map unat ?t))"
    using assms(1) by (simp add: base_val_sum min_def)
  finally have v: "nat (live_value 12 s) = base_val 2097152 (map unat ?t)" by simp
  have "store_scalar s = store_scalar ?t" by (simp add: store_scalar_def)
  also have "\<dots> = le_bytes 32 (base_val 2097152 (map unat ?t))"
  proof (rule store_scalar_eq [OF len])
    show "\<forall>i < 11. 0 \<le> sint (?t ! i) \<and> unat (?t ! i) < 2097152"
      using assms(2) small by simp
    show "0 \<le> sint (?t ! 11)" "unat (?t ! 11) < 1099511627776"
      using assms(3,4) small by simp_all
  qed
  finally show ?thesis by (simp add: v)
qed

section \<open>The final reduction\<close>

fun range_value :: "range list \<Rightarrow> range" where
  "range_value [] = (0, 0)"
| "range_value (r # R) = range_add r (range_scale 2097152 (range_value R))"

lemma live_value_Cons: "live_value (Suc n) (w # s) = sint w + 2097152 * live_value n s"
proof -
  have "sint ((w # s) ! Suc i) * 2 ^ (21 * Suc i) = 2097152 * (sint (s ! i) * 2 ^ (21 * i))" for i
    by (simp add: power_add)
  then show ?thesis unfolding live_value_def sum.lessThan_Suc_shift by (simp only: sum_distrib_left) simp
qed

lemma live_value_in_range:
  "length R \<le> length s \<Longrightarrow> (\<forall>i < length R. in_range (R ! i) (sint (s ! i)))
    \<Longrightarrow> in_range (range_value R) (live_value (length R) s)"
proof (induction R arbitrary: s)
  case Nil
  then show ?case by (simp add: live_value_def in_range_def)
next
  case (Cons r R)
  then obtain w s' where s: "s = w # s'" by (cases s) auto
  have "in_range (range_value R) (live_value (length R) s')"
    using Cons.prems by (intro Cons.IH) (auto simp: s)
  moreover have "in_range r (sint w)" using Cons.prems(2) by (auto simp: s)
  ultimately show ?case by (simp add: s live_value_Cons in_range_add in_range_scale)
qed

text \<open>
  The ranges through the last passes: rounding and reduction to twelve limbs whose value is below
  \<open>2 ^ 252\<close> in magnitude, then the two flooring passes with the last subtraction of the order.
\<close>

definition finish_ranges :: "range list \<Rightarrow> range list option" where
  "finish_ranges R = Option.bind
     (pass_ranges (carry_ranges 1048576) [0, 2, 4, 6, 8, 10, 1, 3, 5, 7, 9, 11] (R @ [(0, 0)]))
     (reduce_ranges 12)"

definition floor_ranges :: "range list \<Rightarrow> range list option" where
  "floor_ranges R = pass_ranges (carry_ranges 0) [0, 1, 2, 3, 4, 5, 6, 7, 8, 9, 10, 11] (R @ [(0, 0)])"

definition last_ranges :: "range list \<Rightarrow> range list option" where
  "last_ranges R = Option.bind (reduce_ranges 12 R)
     (pass_ranges (carry_ranges 0) [0, 1, 2, 3, 4, 5, 6, 7, 8, 9, 10])"

definition finish_ok :: "range list \<Rightarrow> bool" where
  "finish_ok R \<longleftrightarrow> (case finish_ranges R of None \<Rightarrow> False | Some R1 \<Rightarrow>
     - (2 ^ 252) \<le> fst (range_value R1) \<and> snd (range_value R1) < 2 ^ 252 \<and> length R1 = 12 \<and>
     (case floor_ranges R1 of None \<Rightarrow> False | Some R2 \<Rightarrow>
        take 12 R2 = replicate 12 (0, 2097151) \<and> length R2 = 13 \<and>
        (case last_ranges R2 of None \<Rightarrow> False | Some R3 \<Rightarrow>
           take 11 R3 = replicate 11 (0, 2097151) \<and> length R3 = 12 \<and> snd (R3 ! 11) < 1099511627776)))"

lemma length_steps [simp]:
  "length (round_carry i s) = length s" "length (floor_carry i s) = length s"
  "length (reduce_limb i s) = length s"
  by (simp_all add: round_carry_def floor_carry_def reduce_limb_def Let_def)

lemma length_passes [simp]:
  "length (fold round_carry is s) = length s" "length (fold floor_carry is s) = length s"
  "length (fold reduce_limb is s) = length s"
  by (induction "is" arbitrary: s) simp_all

lemma limbs_length: "limbs R M X s \<Longrightarrow> length R \<le> length s"
  by (simp add: limbs_def)

lemma limbs_clear:
  assumes "limbs R M X s" and "length R = n" and "n < length s"
  shows "limbs (R @ [(0, 0)]) M X (s[n := 0])"
  using assms by (auto simp: limbs_def live_value_Suc live_value_beyond nth_append in_range_def less_Suc_eq)

lemma range_value_floor:
  "range_value (replicate n (0, 2097151)) = (0, 2097152 ^ n - 1)"
  by (induction n) (simp_all add: range_add_def range_scale_def)

lemma floored_value:
  assumes "limbs R M X s" and "take n R = replicate n (0, 2097151)" and "n \<le> length R"
  shows "0 \<le> live_value n s" and "live_value n s < 2097152 ^ n"
proof -
  have "\<forall>i < n. in_range (take n R ! i) (sint (s ! i))" using assms(1,3) by (simp add: limbs_def)
  then have "in_range (range_value (replicate n (0, 2097151))) (live_value n s)"
    using live_value_in_range [of "replicate n (0, 2097151)" s] assms limbs_length [OF assms(1)] by simp
  then show "0 \<le> live_value n s" "live_value n s < 2097152 ^ n"
    by (simp_all add: range_value_floor in_range_def)
qed

lemma last_subtraction:
  fixes V t low :: int
  assumes "V = low + t * 2 ^ 252" and "0 \<le> low" "low < 2 ^ 252" and "- (2 ^ 252) \<le> V" "V < 2 ^ 252"
  shows "V - sc_order * t = V mod sc_order"
proof -
  have "- 2 < t" "t < 1" using assms by simp_all
  then consider "t = 0" | "t = - 1" by force
  then show ?thesis
  proof cases
    case 1
    then show ?thesis using assms by (simp add: sc_order_def)
  next
    case 2
    then have "V mod sc_order = (V + sc_order) mod sc_order" by simp
    also have "\<dots> = V + sc_order" using assms 2 by (intro mod_pos_pos_trivial) (simp_all add: sc_order_def)
    finally show ?thesis using 2 by simp
  qed
qed

lemma sc_finish_eq:
  assumes "limbs R sc_order X s" and "length R = 12" and "12 < length s" and "finish_ok R"
  shows "sc_finish (s[12 := 0]) = le_bytes 32 (nat (X mod sc_order))"
proof -
  define s1 where "s1 = reduce_limb 12 (fold round_carry [0, 2, 4, 6, 8, 10, 1, 3, 5, 7, 9, 11] (s[12 := 0]))"
  define s3 where "s3 = fold floor_carry [0, 1, 2, 3, 4, 5, 6, 7, 8, 9, 10, 11] (s1[12 := 0])"
  define s5 where "s5 = fold floor_carry [0, 1, 2, 3, 4, 5, 6, 7, 8, 9, 10] (reduce_limb 12 s3)"
  obtain R1 R2 R3 where R: "finish_ranges R = Some R1" "floor_ranges R1 = Some R2" "last_ranges R2 = Some R3"
    and ok1: "- (2 ^ 252) \<le> fst (range_value R1)" "snd (range_value R1) < 2 ^ 252" "length R1 = 12"
    and ok2: "take 12 R2 = replicate 12 (0, 2097151)" "length R2 = 13"
    and ok3: "take 11 R3 = replicate 11 (0, 2097151)" "length R3 = 12" "snd (R3 ! 11) < 1099511627776"
    using assms(4) by (auto simp: finish_ok_def split: option.splits)
  obtain R0 where R0: "pass_ranges (carry_ranges 1048576) [0, 2, 4, 6, 8, 10, 1, 3, 5, 7, 9, 11] (R @ [(0, 0)]) = Some R0"
      "reduce_ranges 12 R0 = Some R1"
    using R(1) unfolding finish_ranges_def bind_eq_Some_conv by blast
  have l1: "limbs R1 sc_order X s1" unfolding s1_def
    by (rule reduce_sound [OF rounding.pass_sound [OF limbs_clear [OF assms(1-3)] R0(1)] R0(2)])
  let ?V = "live_value 12 s1"
  have len1: "12 < length s1" using assms(3) by (simp add: s1_def del: fold_simps)
  have l1': "limbs R1 0 ?V s1" and V: "?V mod sc_order = X mod sc_order" using l1 ok1(3) by (auto simp: limbs_def)
  have l3: "limbs R2 0 ?V s3" unfolding s3_def
    by (rule flooring.pass_sound [OF limbs_clear [OF l1' ok1(3) len1] R(2) [unfolded floor_ranges_def]])
  have Vr: "- (2 ^ 252) \<le> ?V" "?V < 2 ^ 252"
    using live_value_in_range [of R1 s1] l1 ok1 by (auto simp: limbs_def in_range_def)
  let ?W = "?V - sc_order * sint (s3 ! 12)"
  have V3: "?V = live_value 12 s3 + sint (s3 ! 12) * 2 ^ 252"
    using l3 ok2(2) live_value_Suc [of 12 s3] by (simp add: limbs_exact)
  have W: "?W = X mod sc_order"
    using last_subtraction [OF V3 _ _ Vr] floored_value [OF l3 ok2(1)] ok2(2) V by simp
  obtain R4 where R4: "reduce_ranges 12 R2 = Some R4"
      "pass_ranges (carry_ranges 0) [0, 1, 2, 3, 4, 5, 6, 7, 8, 9, 10] R4 = Some R3"
    using R(3) unfolding last_ranges_def bind_eq_Some_conv by blast
  have "limbs R4 0 ?W (reduce_limb 12 s3)"
    using reduce_exact [OF l3 R4(1)] l3 ok2(2) by (simp add: limbs_exact)
  then have l5: "limbs R3 0 ?W s5" unfolding s5_def by (rule flooring.pass_sound [OF _ R4(2)])
  have len5: "12 \<le> length s5" and val5: "live_value 12 s5 = ?W"
    and rng5: "\<And>i. i < 12 \<Longrightarrow> in_range (R3 ! i) (sint (s5 ! i))"
    using l5 ok3(2) by (auto simp: limbs_exact)
  have low: "\<forall>i < 11. 0 \<le> sint (s5 ! i) \<and> sint (s5 ! i) < 2097152"
  proof (intro allI impI)
    fix i :: nat assume "i < 11"
    then have "R3 ! i = (0, 2097151)" using nth_take [of i 11 R3] ok3(1) by simp
    then show "0 \<le> sint (s5 ! i) \<and> sint (s5 ! i) < 2097152"
      using rng5 [of i] \<open>i < 11\<close> by (simp add: in_range_def)
  qed
  have "?W = live_value 11 s5 + sint (s5 ! 11) * 2 ^ 231"
    using val5 live_value_Suc [of 11 s5] by simp
  moreover have "0 \<le> ?W" unfolding W by (simp add: sc_order_def)
  ultimately have top: "0 \<le> sint (s5 ! 11)"
    using floored_value(2) [OF l5 ok3(1)] ok3(2) by simp
  have "sint (s5 ! 11) < 1099511627776" using rng5 [of 11] ok3(3) by (simp add: in_range_def)
  then have "store_scalar s5 = le_bytes 32 (nat (X mod sc_order))"
    using store_limbs [OF len5 low top] val5 W by simp
  then show ?thesis by (simp only: sc_finish_def Let_def s1_def s3_def s5_def)
qed

section \<open>The reduction of twenty-four limbs\<close>

definition wide_ranges :: "range list \<Rightarrow> range list option" where
  "wide_ranges R = Option.bind (Option.bind
     (pass_ranges reduce_ranges [23, 22, 21, 20, 19, 18] R)
     (pass_ranges (carry_ranges 1048576) [6, 8, 10, 12, 14, 16, 7, 9, 11, 13, 15]))
     (pass_ranges reduce_ranges [17, 16, 15, 14, 13, 12])"

definition wide_ok :: "range list \<Rightarrow> bool" where
  "wide_ok R \<longleftrightarrow> (case wide_ranges R of None \<Rightarrow> False | Some R1 \<Rightarrow> length R1 = 12 \<and> finish_ok R1)"

lemma sc_reduce_limbs_eq:
  assumes "limbs R sc_order X s" and "length s = 24" and "wide_ok R"
  shows "sc_reduce_limbs s = le_bytes 32 (nat (X mod sc_order))"
proof -
  obtain R3 where "wide_ranges R = Some R3" and ok: "length R3 = 12" "finish_ok R3"
    using assms(3) by (auto simp: wide_ok_def split: option.splits)
  then obtain R1 R2 where R: "pass_ranges reduce_ranges [23, 22, 21, 20, 19, 18] R = Some R1"
      "pass_ranges (carry_ranges 1048576) [6, 8, 10, 12, 14, 16, 7, 9, 11, 13, 15] R1 = Some R2"
      "pass_ranges reduce_ranges [17, 16, 15, 14, 13, 12] R2 = Some R3"
    unfolding wide_ranges_def bind_eq_Some_conv by blast
  note l = reducing.pass_sound [OF rounding.pass_sound [OF reducing.pass_sound [OF assms(1) R(1)] R(2)] R(3)]
  show ?thesis
    unfolding sc_reduce_limbs_def Let_def
    by (rule sc_finish_eq [OF l ok(1) _ ok(2)]) (simp add: assms(2) del: fold_simps)
qed

lemma wide_ok_load: "wide_ok (replicate 23 (0, 2097151) @ [(0, 536870911)])"
  by code_simp

lemma finish_ok_scalar: "finish_ok (replicate 11 (0, 2097151) @ [(0, 33554431)])"
  by code_simp

lemma finish_ok_sum: "finish_ok (replicate 11 (0, 4194302) @ [(0, 67108862)])"
  by code_simp

lemma finish_ok_difference: "finish_ok (replicate 11 (- 2097151, 2097151) @ [(- 33554431, 33554431)])"
  by code_simp

section \<open>The loaded limbs\<close>

lemma masked_word: "unat (2097151 AND w :: u64) = unat w mod 2097152"
  using unat_mask_u64 [of w 21] by (simp add: mask_eq_exp_minus_1 and.commute)

lemma field_of_slice:
  fixes N :: nat
  assumes "8 * k + r = 21 * i" and "r + 21 \<le> 8 * n"
  shows "N div 256 ^ k mod 256 ^ n div 2 ^ r mod 2097152 = N div 2097152 ^ i mod 2097152"
proof -
  have "(256 :: nat) ^ n = 2 ^ r * 2 ^ (8 * n - r)" using assms(2) by (simp add: power_mult flip: power_add)
  then have "N div 256 ^ k mod 256 ^ n div 2 ^ r = N div 256 ^ k div 2 ^ r mod 2 ^ (8 * n - r)"
    by (simp add: mod_mult2_eq)
  also have "N div 256 ^ k div 2 ^ r = N div 2097152 ^ i"
  proof -
    have "(256 :: nat) ^ k * 2 ^ r = 2 ^ (8 * k + r)" by (simp add: power_mult power_add)
    also have "\<dots> = 2097152 ^ i" by (simp add: assms(1) power_mult)
    finally show ?thesis by (simp flip: div_mult2_eq)
  qed
  finally have e: "N div 256 ^ k mod 256 ^ n div 2 ^ r = N div 2097152 ^ i mod 2 ^ (8 * n - r)" .
  have "(2 :: nat) ^ 21 dvd 2 ^ (8 * n - r)" using assms(2) by (intro le_imp_power_dvd) simp
  then show ?thesis using mod_mod_cancel by (simp add: e)
qed

lemma masked_load_3:
  assumes "k + 3 \<le> length s" and "8 * k + r = 21 * i" and "r \<le> 3"
  shows "unat (2097151 AND drop_bit r (load_3 (drop k s))) = le_nat s div 2097152 ^ i mod 2097152"
  using field_of_slice [OF assms(2), of 3 "le_nat s"] assms(1,3) le_nat_slice [OF assms(1)]
  by (simp add: masked_word unat_drop_u64 unat_load_3)

lemma masked_load_4:
  assumes "k + 4 \<le> length s" and "8 * k + r = 21 * i" and "r \<le> 11"
  shows "unat (2097151 AND drop_bit r (load_4 (drop k s))) = le_nat s div 2097152 ^ i mod 2097152"
  using field_of_slice [OF assms(2), of 4 "le_nat s"] assms(1,3) le_nat_slice [OF assms(1)]
  by (simp add: masked_word unat_drop_u64 unat_load_4)

lemma top_load:
  assumes "k + 4 = length s" and "8 * k + r = 21 * i"
  shows "unat (drop_bit r (load_4 (drop k s))) = le_nat s div 2097152 ^ i"
proof -
  have "le_nat s < 256 ^ 4 * 256 ^ k"
    using le_nat_bound [of s] assms(1) by (metis add.commute power_add)
  then have "le_nat s div 256 ^ k < 256 ^ 4" by (rule less_mult_imp_div_less)
  moreover have "(256 :: nat) ^ k * 2 ^ r = 2097152 ^ i"
  proof -
    have "(256 :: nat) ^ k * 2 ^ r = 2 ^ (8 * k + r)" by (simp add: power_mult power_add)
    also have "\<dots> = 2097152 ^ i" by (simp add: assms(2) power_mult)
    finally show ?thesis .
  qed
  ultimately show ?thesis
    using le_nat_slice [of k 4 s] assms(1) by (simp add: unat_drop_u64 unat_load_4 flip: div_mult2_eq)
qed

lemma base_digits_eq: "base_digits B n x = map (\<lambda>i. x div B ^ i mod B) [0..<n]"
proof (induction n arbitrary: x)
  case (Suc n)
  then show ?case by (simp add: div_mult2_eq upt_conv_Cons map_Suc_upt [symmetric] del: upt_Suc)
qed simp

lemma load_low_digits:
  assumes "32 \<le> length s"
  shows "map unat (load_low_limbs s) = base_digits 2097152 11 (le_nat s)"
proof -
  have idx: "[0..<11] = [0, 1, 2, 3, 4, 5, 6, 7, 8, 9, 10 :: nat]" by code_simp
  show ?thesis unfolding base_digits_eq idx load_low_limbs_def list.map
    using assms masked_load_3 [of 0 s 0 0] masked_load_3 [of 21 s 0 8]
    by (intro arg_cong2 [where f = Cons] refl masked_load_3 masked_load_4) simp_all
qed

lemma load_scalar_digits:
  assumes "length s = 32"
  shows "map unat (load_scalar s) = base_digits 2097152 11 (le_nat s) @ [le_nat s div 2097152 ^ 11]"
  using load_low_digits [of s] top_load [of 28 s 7 11] assms by (simp add: load_scalar_def)

lemma load_wide_digits:
  assumes "length s = 64"
  shows "map unat (load_wide s) = base_digits 2097152 23 (le_nat s) @ [le_nat s div 2097152 ^ 23]"
proof -
  have idx: "[0..<23] = [0..<11] @ [11, 12, 13, 14, 15, 16, 17, 18, 19, 20, 21, 22 :: nat]" by code_simp
  have top: "unat (drop_bit 3 (load_4 (drop 60 s))) = le_nat s div 2097152 ^ 23"
    by (rule top_load) (simp_all add: assms)
  have "map unat [2097151 AND drop_bit 7 (load_4 (drop 28 s)),
     2097151 AND drop_bit 4 (load_4 (drop 31 s)),
     2097151 AND drop_bit 1 (load_3 (drop 34 s)),
     2097151 AND drop_bit 6 (load_4 (drop 36 s)),
     2097151 AND drop_bit 3 (load_3 (drop 39 s)),
     2097151 AND load_3 (drop 42 s),
     2097151 AND drop_bit 5 (load_4 (drop 44 s)),
     2097151 AND drop_bit 2 (load_3 (drop 47 s)),
     2097151 AND drop_bit 7 (load_4 (drop 49 s)),
     2097151 AND drop_bit 4 (load_4 (drop 52 s)),
     2097151 AND drop_bit 1 (load_3 (drop 55 s)),
     2097151 AND drop_bit 6 (load_4 (drop 57 s))]
    = map (\<lambda>i. le_nat s div 2097152 ^ i mod 2097152) [11, 12, 13, 14, 15, 16, 17, 18, 19, 20, 21, 22]"
    unfolding list.map using assms masked_load_3 [of 42 s 0 16]
    by (intro arg_cong2 [where f = Cons] refl masked_load_3 masked_load_4) simp_all
  then show ?thesis
    using load_low_digits [of s] assms
    unfolding load_wide_def base_digits_eq idx map_append by (simp add: top)
qed

text \<open>A list of words that are small as unsigned numbers.\<close>

lemma limbs_of_digits:
  assumes "map unat s = ds" and "list_all2 (\<lambda>r d. fst r \<le> 0 \<and> int d \<le> snd r) R ds"
    and "\<forall>d \<in> set ds. d < 2 ^ 63"
  shows "limbs R 0 (int (base_val 2097152 ds)) s"
proof -
  have len: "length R = length s" "length ds = length s"
    using assms(1,2) by (auto simp: list_all2_lengthD)
  have sint: "sint (s ! i) = int (ds ! i)" if "i < length s" for i
  proof -
    have "unat (s ! i) = ds ! i" using assms(1) that by auto
    moreover have "ds ! i < 2 ^ 63" using assms(3) that len(2) by simp
    ultimately show ?thesis using sint_small [of "s ! i"] by (simp only:)
  qed
  have "live_value (length s) s = (\<Sum>i<length s. int (ds ! i) * 2097152 ^ i)"
    unfolding live_value_def by (rule sum.cong) (simp_all only: sint lessThan_iff power_mult, simp)
  then have "live_value (length s) s = int (base_val 2097152 ds)" by (simp add: base_val_sum len)
  moreover have "in_range (R ! i) (sint (s ! i))" if "i < length s" for i
  proof -
    have "fst (R ! i) \<le> 0 \<and> int (ds ! i) \<le> snd (R ! i)"
      using list_all2_nthD [OF assms(2)] that len(1) by simp
    moreover have "0 \<le> int (ds ! i)" by simp
    ultimately show ?thesis unfolding sint [OF that] in_range_def by linarith
  qed
  ultimately show ?thesis by (simp add: limbs_exact len)
qed

lemma base_val_append: "base_val B (xs @ ys) = base_val B xs + B ^ length xs * base_val B ys"
  by (induction xs) (simp_all add: algebra_simps)

lemma base_val_split: "base_val B (base_digits B n N @ [N div B ^ n]) = N"
  by (simp add: base_val_append base_val_base_digits)

lemma list_all2_digits:
  "list_all2 (\<lambda>r d. fst r \<le> 0 \<and> int d \<le> snd r) (replicate n (0 :: int, 2097151)) (base_digits 2097152 n N)"
proof -
  have "d \<le> 2097151" if "d \<in> set (base_digits 2097152 n N)" for d
    using base_digits_lt [OF _ that] by simp
  then have "int d \<le> 2097151" if "d \<in> set (base_digits 2097152 n N)" for d
    using that by fastforce
  then show ?thesis by (auto simp: list_all2_conv_all_nth)
qed

lemma limbs_split_digits:
  assumes "map unat s = base_digits 2097152 n N @ [N div 2097152 ^ n]"
    and "N div 2097152 ^ n \<le> m" and "m < 2 ^ 63"
  shows "limbs (replicate n (0, 2097151) @ [(0, int m)]) 0 (int N) s"
proof -
  have "\<forall>d \<in> set (base_digits 2097152 n N @ [N div 2097152 ^ n]). d < 2 ^ 63"
    using assms(2,3) base_digits_lt [of 2097152 _ n N] by fastforce
  moreover have "list_all2 (\<lambda>r d. fst r \<le> 0 \<and> int d \<le> snd r) (replicate n (0 :: int, 2097151) @ [(0, int m)])
      (base_digits 2097152 n N @ [N div 2097152 ^ n])"
    using assms(2) by (intro list_all2_appendI list_all2_digits) simp
  ultimately have "limbs (replicate n (0, 2097151) @ [(0, int m)]) 0
      (int (base_val 2097152 (base_digits 2097152 n N @ [N div 2097152 ^ n]))) s"
    using limbs_of_digits [OF assms(1)] by blast
  then show ?thesis by (simp only: base_val_split)
qed

lemma limbs_mod: "limbs R 0 X s \<Longrightarrow> limbs R M X s"
  by (simp add: limbs_def)

lemma scalar_limbs:
  assumes "length s = 32"
  shows "limbs (replicate 11 (0, 2097151) @ [(0, 33554431)]) 0 (int (le_nat s)) (load_scalar s)"
proof -
  have "le_nat s div 2097152 ^ 11 \<le> 33554431" using le_nat_bound [of s] assms by simp
  then show ?thesis using limbs_split_digits [OF load_scalar_digits [OF assms], of 33554431] by simp
qed

lemma wide_limbs:
  assumes "length s = 64"
  shows "limbs (replicate 23 (0, 2097151) @ [(0, 536870911)]) 0 (int (le_nat s)) (load_wide s)"
proof -
  have "le_nat s div 2097152 ^ 23 \<le> 536870911" using le_nat_bound [of s] assms by simp
  then show ?thesis using limbs_split_digits [OF load_wide_digits [OF assms], of 536870911] by simp
qed

lemma length_load [simp]: "length (load_scalar s) = 12" "length (load_wide s) = 24"
  by (simp_all add: load_scalar_def load_wide_def load_low_limbs_def)

lemma sc_finish_snoc:
  assumes "limbs R sc_order X s" and "length R = 12" and "length s = 12" and "finish_ok R"
  shows "sc_finish (s @ [0]) = le_bytes 32 (nat (X mod sc_order))"
proof -
  have "limbs R sc_order X (s @ [0])"
    using assms(1-3) by (simp add: limbs_def live_value_def nth_append)
  moreover have "(s @ [0])[12 := 0] = s @ [0]" using assms(3) by (simp add: list_update_append)
  ultimately show ?thesis using sc_finish_eq [OF _ assms(2) _ assms(4), of X "s @ [0]"] assms(3) by simp
qed

section \<open>Products of limbs\<close>

definition conv :: "(nat \<Rightarrow> int) \<Rightarrow> (nat \<Rightarrow> int) \<Rightarrow> nat \<Rightarrow> int" where
  "conv f g k = (\<Sum>i = k - 11..<min 12 (k + 1). f i * g (k - i))"

lemma convolution:
  fixes f g :: "nat \<Rightarrow> int"
  shows "(\<Sum>k<23. conv f g k * x ^ k)
    = (\<Sum>i<12. f i * x ^ i) * (\<Sum>j<12. g j * x ^ j)"
proof -
  have "(\<Sum>k<23. conv f g k * x ^ k)
      = (\<Sum>k<23. \<Sum>i = k - 11..<min 12 (k + 1). f i * g (k - i) * x ^ k)"
    by (simp only: sum_distrib_right conv_def)
  also have "\<dots> = (\<Sum>(k, i)\<in>(SIGMA k:{..<23}. {k - 11..<min 12 (k + 1)}). f i * g (k - i) * x ^ k)"
    by (rule sum.Sigma) simp_all
  also have "\<dots> = (\<Sum>(i, j)\<in>{..<12} \<times> {..<12}. f i * g j * x ^ (i + j))"
    by (rule sum.reindex_bij_witness [of _ "\<lambda>(i, j). (i + j, i)" "\<lambda>(k, i). (i, k - i)"])
      (auto split: prod.splits)
  also have "\<dots> = (\<Sum>i<12. \<Sum>j<12. f i * g j * x ^ (i + j))" by (simp add: sum.cartesian_product)
  also have "\<dots> = (\<Sum>i<12. f i * x ^ i) * (\<Sum>j<12. g j * x ^ j)"
    by (simp add: sum_product power_add ac_simps)
  finally show ?thesis .
qed

lemma product_limb_eq:
  "product_limb a b k = word_of_int (conv (\<lambda>i. sint (a ! i)) (\<lambda>i. sint (b ! i)) k)"
proof -
  have "word_of_int (sum_list (map (\<lambda>i. sint (a ! i) * sint (b ! (k - i))) is)) =
      sum_list (map (\<lambda>i. a ! i * b ! (k - i)) is)" for "is"
    by (induction "is") simp_all
  then show ?thesis
    unfolding product_limb_def conv_def atLeastLessThan_upt sum_set_upt_conv_sum_list_nat by (rule sym)
qed

lemma product_bound:
  fixes f g :: "nat \<Rightarrow> int"
  assumes "\<And>i. i < 12 \<Longrightarrow> 0 \<le> f i \<and> f i \<le> 33554431" and "\<And>i. i < 12 \<Longrightarrow> 0 \<le> g i \<and> g i \<le> 33554431"
  shows "0 \<le> conv f g k"
    and "conv f g k \<le> 12 * (33554431 * 33554431)"
proof -
  have b: "0 \<le> f i * g (k - i)" "f i * g (k - i) \<le> 33554431 * 33554431"
    if "i \<in> {k - 11..<min 12 (k + 1)}" for i
  proof -
    have i: "i < 12" "k - i < 12" using that by auto
    show "0 \<le> f i * g (k - i)" using assms(1) [OF i(1)] assms(2) [OF i(2)] by simp
    show "f i * g (k - i) \<le> 33554431 * 33554431"
      using assms(1) [OF i(1)] assms(2) [OF i(2)] by (intro mult_mono) simp_all
  qed
  show "0 \<le> conv f g k" unfolding conv_def using b(1) by (rule sum_nonneg)
  have "(\<Sum>i = k - 11..<min 12 (k + 1). f i * g (k - i))
      \<le> of_nat (card {k - 11..<min 12 (k + 1)}) * (33554431 * 33554431)"
    using b(2) by (rule sum_bounded_above)
  also have "\<dots> \<le> 12 * (33554431 * 33554431)" by (intro mult_right_mono) (simp_all)
  finally show "conv f g k \<le> 12 * (33554431 * 33554431)" by (simp only: conv_def)
qed

definition product_ranges :: "range list" where
  "product_ranges = replicate 23 (- 13510798110359563, 13510798110359563) @ [(0, 0)]"

lemma product_limbs:
  fixes a b :: "i64 list" and c :: "nat \<Rightarrow> int"
  assumes "\<And>i. i < 12 \<Longrightarrow> in_range (0, 33554431) (sint (a ! i))"
    and "\<And>i. i < 12 \<Longrightarrow> in_range (0, 33554431) (sint (b ! i))"
    and "\<And>i. in_range (0, 33554431) (c i)" and "\<And>i. 12 \<le> i \<Longrightarrow> c i = 0" and "\<bar>g\<bar> = 1"
    and "\<And>k. u k = word_of_int (c k) + word_of_int g * product_limb a b k"
  shows "limbs product_ranges 0 ((\<Sum>i<12. c i * 2 ^ (21 * i)) + g * (live_value 12 a * live_value 12 b))
    (map u [0..<23] @ [0])"
proof -
  define P where "P k = conv (\<lambda>i. sint (a ! i)) (\<lambda>i. sint (b ! i)) k" for k
  have P: "0 \<le> P k" "P k \<le> 13510798076805132" for k
    using product_bound [of "\<lambda>i. sint (a ! i)" "\<lambda>i. sint (b ! i)" k] assms(1,2)
    by (simp_all add: P_def in_range_def)
  have g: "g = 1 \<or> g = - 1" using assms(5) by linarith
  have r: "in_range (- 13510798110359563, 13510798110359563) (c k + g * P k)" for k
    using P [of k] g assms(3) [of k] by (auto simp: in_range_def)
  have u: "sint (u k) = c k + g * P k" for k
    by (rule sint_eq [OF r]) (simp_all add: word_range_def assms(6) product_limb_eq P_def)
  have "live_value 24 (map u [0..<23] @ [0]) = live_value 23 (map u [0..<23] @ [0])"
    using live_value_Suc [of 23 "map u [0..<23] @ [0]"] by (simp add: nth_append del: upt_Suc)
  also have "\<dots> = (\<Sum>k<23. (c k + g * P k) * 2097152 ^ k)"
    unfolding live_value_def by (rule sum.cong) (simp_all add: nth_append u power_mult del: upt_Suc)
  also have "\<dots> = (\<Sum>k<23. c k * 2097152 ^ k) + g * (\<Sum>k<23. P k * 2097152 ^ k)"
    unfolding sum_distrib_left sum.distrib [symmetric] by (rule sum.cong) (simp_all add: algebra_simps)
  also have "(\<Sum>k<23. c k * 2097152 ^ k) = (\<Sum>i<12. c i * 2 ^ (21 * i))"
    by (rule sum.mono_neutral_cong_right) (auto simp: assms(4) power_mult)
  also have "(\<Sum>k<23. P k * 2097152 ^ k) = live_value 12 a * live_value 12 b"
    unfolding P_def convolution live_value_def power_mult by simp
  finally show ?thesis
    using r by (auto simp: limbs_exact product_ranges_def nth_append u in_range_def less_Suc_eq_le nth_Cons' simp del: upt_Suc)
qed

lemma product_ok: "wide_ok (the (pass_ranges (carry_ranges 1048576)
    [0, 2, 4, 6, 8, 10, 12, 14, 16, 18, 20, 22, 1, 3, 5, 7, 9, 11, 13, 15, 17, 19, 21] product_ranges))
  \<and> pass_ranges (carry_ranges 1048576)
    [0, 2, 4, 6, 8, 10, 12, 14, 16, 18, 20, 22, 1, 3, 5, 7, 9, 11, 13, 15, 17, 19, 21] product_ranges \<noteq> None"
  by code_simp

lemma reduce_product:
  assumes "limbs product_ranges 0 X s" and "length s = 24"
  shows "sc_reduce_limbs (carry_product s) = le_bytes 32 (nat (X mod sc_order))"
proof -
  obtain R where R: "pass_ranges (carry_ranges 1048576)
      [0, 2, 4, 6, 8, 10, 12, 14, 16, 18, 20, 22, 1, 3, 5, 7, 9, 11, 13, 15, 17, 19, 21] product_ranges = Some R"
    "wide_ok R"
    using product_ok by (metis option.exhaust_sel)
  show ?thesis
    unfolding carry_product_def
    by (rule sc_reduce_limbs_eq [OF rounding.pass_sound [OF limbs_mod [OF assms(1)] R(1)] _ R(2)])
      (simp add: assms(2) del: fold_simps)
qed

lemma scalar_nth:
  assumes "length s = 32" and "i < 12"
  shows "in_range (0, 33554431) (sint (load_scalar s ! i))"
proof -
  let ?R = "replicate 11 (0, 2097151) @ [(0, 33554431)] :: range list"
  have "in_range (?R ! i) (sint (load_scalar s ! i))"
    using scalar_limbs [OF assms(1)] assms(2) by (simp add: limbs_def)
  moreover have "?R ! i = (0, 2097151) \<or> ?R ! i = (0, 33554431)"
    using assms(2) by (cases "i = 11") (simp_all add: nth_append)
  ultimately show ?thesis by (auto simp: in_range_def)
qed

lemma scalar_value: "length s = 32 \<Longrightarrow> live_value 12 (load_scalar s) = int (le_nat s)"
  using scalar_limbs [of s] by (simp add: limbs_exact)

lemma scalar_ranges_word: "word_range (0, 33554431)"
  by (simp add: word_range_def)

text \<open>What every operation stores: the canonical bytes of a residue.\<close>

definition scalar_bytes :: "int \<Rightarrow> byte list" where
  "scalar_bytes x = le_bytes 32 (nat (x mod sc_order))"

lemma product_exact:
  assumes "length a = 32" and "length b = 32" and "\<bar>g\<bar> = 1"
    and "\<And>i. in_range (0, 33554431) (c i)" and "\<And>i. 12 \<le> i \<Longrightarrow> c i = 0"
    and "\<And>k. u k = word_of_int (c k) + word_of_int g * product_limb (load_scalar a) (load_scalar b) k"
  shows "sc_reduce_limbs (carry_product (map u [0..<23] @ [0]))
    = scalar_bytes ((\<Sum>i<12. c i * 2 ^ (21 * i)) + g * (int (le_nat a) * int (le_nat b)))"
  unfolding scalar_bytes_def
  by (rule reduce_product)
    (use product_limbs [OF scalar_nth [OF assms(1)] scalar_nth [OF assms(2)] assms(4,5,3,6)]
      in \<open>simp_all add: scalar_value assms(1,2) del: upt_Suc\<close>)

definition summand :: "byte list \<Rightarrow> nat \<Rightarrow> int" where
  "summand c k = (if k < 12 then sint (load_scalar c ! k) else 0)"

lemma summand:
  assumes "length c = 32"
  shows "in_range (0, 33554431) (summand c k)" and "12 \<le> k \<Longrightarrow> summand c k = 0"
    and "(\<Sum>i<12. summand c i * 2 ^ (21 * i)) = int (le_nat c)"
    and "word_of_int (summand c k) = (if k < 12 then load_scalar c ! k else 0)"
  using scalar_nth [OF assms] scalar_value [OF assms]
  by (simp_all add: summand_def live_value_def in_range_def)

lemma sc_muladd_eq:
  assumes "length a = 32" and "length b = 32" and "length c = 32"
  shows "sc_muladd a b c = scalar_bytes (int (le_nat c) + int (le_nat a) * int (le_nat b))"
  unfolding sc_muladd_def Let_def
  by (subst product_exact [OF assms(1,2), of 1 "summand c"]) (simp_all add: summand [OF assms(3)])

lemma sc_mulsub_eq:
  assumes "length a = 32" and "length b = 32" and "length c = 32"
  shows "sc_mulsub a b c = scalar_bytes (int (le_nat c) - int (le_nat a) * int (le_nat b))"
  unfolding sc_mulsub_def Let_def
  by (subst product_exact [OF assms(1,2), of "- 1" "summand c"]) (simp_all add: summand [OF assms(3)])

lemma sc_mul_eq:
  assumes "length a = 32" and "length b = 32"
  shows "sc_mul a b = scalar_bytes (int (le_nat a) * int (le_nat b))"
  unfolding sc_mul_def Let_def
  by (subst product_exact [OF assms(1,2), of 1 "\<lambda>_. 0"]) (simp_all add: in_range_def)

section \<open>Sums and differences\<close>

lemma combine_limbs:
  fixes R T :: "range list"
  assumes "limbs R 0 X s" and "limbs T 0 Y t" and "length R = length s" "length T = length s" "length t = length s"
    and "list_all word_range (map2 range_add R (map (range_scale g) T))"
    and "\<And>x y. f x y = x + word_of_int g * y"
  shows "limbs (map2 range_add R (map (range_scale g) T)) 0 (X + g * Y) (map2 f s t)"
proof -
  let ?n = "length s"
  let ?R = "map2 range_add R (map (range_scale g) T)"
  have r: "in_range (?R ! i) (sint (s ! i) + g * sint (t ! i))" if "i < ?n" for i
    using assms(1-5) that by (auto simp: limbs_exact intro!: in_range_add in_range_scale)
  have w: "word_range (?R ! i)" if "i < ?n" for i
    using assms(3-6) that by (auto simp: list_all_length)
  have v: "sint (map2 f s t ! i) = sint (s ! i) + g * sint (t ! i)" if "i < ?n" for i
    by (rule sint_eq [OF r [OF that] w [OF that]]) (use that assms(5,7) in simp)
  have "live_value ?n (map2 f s t) = (\<Sum>i<?n. (sint (s ! i) + g * sint (t ! i)) * 2 ^ (21 * i))"
    unfolding live_value_def by (rule sum.cong) (simp_all only: v lessThan_iff)
  also have "\<dots> = live_value ?n s + g * live_value ?n t"
    unfolding live_value_def sum_distrib_left sum.distrib [symmetric]
    by (rule sum.cong) (simp_all add: algebra_simps)
  finally have "live_value ?n (map2 f s t) = X + g * Y" using assms(1-5) by (simp add: limbs_exact)
  then show ?thesis using r v assms(3-5) by (simp only: limbs_exact) simp
qed

lemma sc_add_eq:
  assumes "length a = 32" and "length b = 32"
  shows "sc_add a b = scalar_bytes (int (le_nat a) + int (le_nat b))"
proof -
  let ?R = "replicate 11 (0, 2097151) @ [(0, 33554431)] :: range list"
  have ranges: "map2 range_add ?R (map (range_scale 1) ?R) = replicate 11 (0, 4194302) @ [(0, 67108862)]"
    by code_simp
  have "limbs (replicate 11 (0, 4194302) @ [(0, 67108862)]) 0 (int (le_nat a) + 1 * int (le_nat b))
      (map2 (+) (load_scalar a) (load_scalar b))"
    unfolding ranges [symmetric]
    by (rule combine_limbs [OF scalar_limbs [OF assms(1)] scalar_limbs [OF assms(2)]])
      (simp_all only: ranges, simp_all add: word_range_def list_all_iff)
  from sc_finish_snoc [OF limbs_mod [OF this] _ _ finish_ok_sum] show ?thesis
    by (simp add: sc_add_def scalar_bytes_def)
qed

lemma sc_sub_eq:
  assumes "length a = 32" and "length b = 32"
  shows "sc_sub a b = scalar_bytes (int (le_nat a) - int (le_nat b))"
proof -
  let ?R = "replicate 11 (0, 2097151) @ [(0, 33554431)] :: range list"
  have ranges: "map2 range_add ?R (map (range_scale (- 1)) ?R)
      = replicate 11 (- 2097151, 2097151) @ [(- 33554431, 33554431)]"
    by code_simp
  have "limbs (replicate 11 (- 2097151, 2097151) @ [(- 33554431, 33554431)]) 0
      (int (le_nat a) + - 1 * int (le_nat b)) (map2 (-) (load_scalar a) (load_scalar b))"
    unfolding ranges [symmetric]
    by (rule combine_limbs [OF scalar_limbs [OF assms(1)] scalar_limbs [OF assms(2)]])
      (simp_all only: ranges, simp_all add: word_range_def list_all_iff)
  from sc_finish_snoc [OF limbs_mod [OF this] _ _ finish_ok_difference] show ?thesis
    by (simp add: sc_sub_def scalar_bytes_def)
qed

section \<open>The comparison with the order\<close>

lemma sint_signum:
  assumes "sint (w :: i64) = x" and "\<bar>x\<bar> < 2 ^ 63"
  shows "signum w = word_of_int (sgn x)"
proof -
  have m: "sint (- w) = - x"
    by (rule sint_eq [of "(- 9223372036854775807, 9223372036854775807)"])
      (use assms in \<open>auto simp: in_range_def word_range_def\<close>)
  have shift: "signed_drop_bit 63 v = word_of_int (sint v div 2 ^ 63)" for v :: i64
    by (metis word_of_sint sint_signed_drop_bit_eq drop_bit_eq_div)
  have d: "y div 2 ^ 63 = (if y < 0 then - 1 else 0)" if "\<bar>y\<bar> < 2 ^ 63" for y :: int
  proof (cases "y < 0")
    case True
    then have "y div 2 ^ 63 = - 1" using that by (intro int_div_pos_eq [of _ _ _ "y + 2 ^ 63"]) simp_all
    then show ?thesis using True by simp
  qed (use that in simp)
  show ?thesis
    unfolding signum_def shift m assms(1) using d [OF assms(2)] d [of "- x"] assms(2)
    by (auto simp: sgn_if)
qed

fun sign_sum :: "int list \<Rightarrow> int" where
  "sign_sum [] = 0"
| "sign_sum (d # ds) = sgn d + 2 * sign_sum ds"

fun weighted :: "int list \<Rightarrow> int" where
  "weighted [] = 0"
| "weighted (d # ds) = d + 2 ^ 32 * weighted ds"

lemma sign_sum_weighted:
  "\<forall>d \<in> set ds. \<bar>d\<bar> < 2 ^ 32 \<Longrightarrow> sgn (sign_sum ds) = sgn (weighted ds)"
proof (induction ds)
  case (Cons d ds)
  then have IH: "sgn (sign_sum ds) = sgn (weighted ds)" and d: "\<bar>d\<bar> < 2 ^ 32" by simp_all
  consider "weighted ds = 0" | "0 < weighted ds" | "weighted ds < 0" by linarith
  then show ?case
  proof cases
    case 1
    then have "sign_sum ds = 0" using IH by (simp add: sgn_0_0)
    then show ?thesis using 1 by simp
  next
    case 2
    then have "0 < sign_sum ds" using IH by (simp add: sgn_if split: if_splits)
    then have "0 < sign_sum (d # ds)" "0 < weighted (d # ds)" using 2 d by (auto simp: sgn_if)
    then show ?thesis by simp
  next
    case 3
    then have "sign_sum ds < 0" using IH by (simp add: sgn_if split: if_splits)
    then have "sign_sum (d # ds) < 0" "weighted (d # ds) < 0" using 3 d by (auto simp: sgn_if)
    then show ?thesis by simp
  qed
qed simp

definition order_words :: "int list" where
  "order_words = [1559614444, 1477600026, 2734136534, 350157278, 0, 0, 0, 268435456]"

lemma load_words:
  assumes "length s = 32"
  shows "weighted (map (\<lambda>j. order_words ! j - int (unat (load_4 (drop (4 * j) s)))) [0, 1, 2, 3, 4, 5, 6, 7])
    = sc_order - 1 - int (le_nat s)"
proof -
  have "le_nat s = unat (load_4 s) + 4294967296 * (unat (load_4 (drop 4 s)) + 4294967296 *
      (unat (load_4 (drop 8 s)) + 4294967296 * (unat (load_4 (drop 12 s)) + 4294967296 *
      (unat (load_4 (drop 16 s)) + 4294967296 * (unat (load_4 (drop 20 s)) + 4294967296 *
      (unat (load_4 (drop 24 s)) + 4294967296 * unat (load_4 (drop 28 s))))))))"
    using assms by (simp add: le_nat_step)
  then show ?thesis
    by (simp only: list.map order_words_def weighted.simps) (simp add: sc_order_def algebra_simps)
qed

lemma signum_difference:
  assumes "4 \<le> length b" and "\<bar>d\<bar> < 2 ^ 62"
  shows "signum (word_of_int d - load_4 b) = word_of_int (sgn (d - int (unat (load_4 b))))"
proof -
  have r: "\<bar>d - int (unat (load_4 b))\<bar> < 2 ^ 63"
  proof -
    have "\<bar>d - int (unat (load_4 b))\<bar> < 2 ^ 62 + 2 ^ 32" using load_4_bound [OF assms(1)] assms(2) by linarith
    also have "\<dots> < 2 ^ 63" by simp
    finally show ?thesis .
  qed
  have "sint (word_of_int d - load_4 b) = d - int (unat (load_4 b))"
    by (rule sint_eq [of "(- 9223372036854775807, 9223372036854775807)"])
      (use r in \<open>auto simp: in_range_def word_range_def\<close>)
  from sint_signum [OF this r] show ?thesis .
qed

lemma sign_sum_bound: "\<bar>sign_sum ds\<bar> < 2 ^ length ds"
proof (induction ds)
  case (Cons d ds)
  then show ?case by (auto simp: sgn_if)
qed simp

lemma negative_shift:
  assumes "\<bar>t\<bar> < 256"
  shows "signed_drop_bit 8 (word_of_int t :: i64) = (if t < 0 then - 1 else 0)"
proof -
  have "sint (word_of_int t :: i64) = t"
    by (rule sint_eq [of "(- 256, 256)"]) (use assms in \<open>auto simp: in_range_def word_range_def\<close>)
  then have "sint (signed_drop_bit 8 (word_of_int t :: i64)) = t div 256"
    by (simp add: sint_signed_drop_bit_eq drop_bit_eq_div)
  moreover have "t div 256 = (if t < 0 then - 1 else 0)"
    using assms int_div_pos_eq [of t 256 "- 1" "t + 256"] by auto
  ultimately have "sint (signed_drop_bit 8 (word_of_int t :: i64)) = (if t < 0 then - 1 else 0)" by simp
  then show ?thesis using word_of_sint [of "signed_drop_bit 8 (word_of_int t :: i64)"]
    by (cases "t < 0") simp_all
qed

lemma sc_check_eq:
  assumes "length s = 32"
  shows "sc_check s = (if int (le_nat s) < sc_order then 0 else - 1)"
proof -
  define ds where "ds = map (\<lambda>j. order_words ! j - int (unat (load_4 (drop (4 * j) s)))) [0, 1, 2, 3, 4, 5, 6, 7]"
  have load: "4 \<le> length (drop k s)" if "k \<le> 28" for k using assms that by simp
  have sg: "signum (word_of_int d - load_4 (drop k s)) = word_of_int (sgn (d - int (unat (load_4 (drop k s)))))"
    if "k \<le> 28" "\<bar>d\<bar> < 2 ^ 62" for d k
    using signum_difference [OF load [OF that(1)] that(2)] .
  have word: "sc_check s = ucast (signed_drop_bit 8 (word_of_int (sign_sum ds) :: i64))"
    using sg [of 0 1559614444] sg [of 4 1477600026] sg [of 8 2734136534] sg [of 12 350157278]
      sg [of 16 0] sg [of 20 0] sg [of 24 0] sg [of 28 268435456]
    by (simp add: ds_def sc_check_def order_words_def push_bit_eq_mult algebra_simps)
  have "\<bar>d - int (unat (load_4 (drop k s)))\<bar> < 2 ^ 32" if "k \<le> 28" "0 \<le> d" "d < 2 ^ 32" for d k
    using load_4_bound [OF load [OF that(1)]] that(2,3) by linarith
  from this [of 0 1559614444] this [of 4 1477600026] this [of 8 2734136534] this [of 12 350157278]
    this [of 16 0] this [of 20 0] this [of 24 0] this [of 28 268435456]
  have "\<forall>d \<in> set ds. \<bar>d\<bar> < 2 ^ 32" by (simp add: ds_def order_words_def)
  then have "sgn (sign_sum ds) = sgn (sc_order - 1 - int (le_nat s))"
    using sign_sum_weighted [of ds] load_words [OF assms] by (simp only: ds_def)
  then have neg: "sign_sum ds < 0 \<longleftrightarrow> sc_order \<le> int (le_nat s)"
    using sgn_less [of "sign_sum ds"] sgn_less [of "sc_order - 1 - int (le_nat s)"] by linarith
  have "\<bar>sign_sum ds\<bar> < 256" using sign_sum_bound [of ds] by (simp add: ds_def)
  moreover have "(ucast (- 1 :: i64) :: u32) = - 1" by code_simp
  ultimately show ?thesis using negative_shift [of "sign_sum ds"] word by (simp add: neg not_less)
qed

lemma sc_isnonzero_eq: "length s = 32 \<Longrightarrow> sc_isnonzero s = (if le_nat s = 0 then 0 else 1)"
  by (simp add: sc_isnonzero_def nonzero_bytes)

section \<open>Arithmetic modulo the order\<close>

lemma le_nat_scalar_bytes: "int (le_nat (scalar_bytes x)) = x mod sc_order"
proof -
  have "0 \<le> x mod sc_order" "x mod sc_order < sc_order" by (simp_all add: sc_order_def)
  moreover have "sc_order < 256 ^ 32" by (simp add: sc_order_def)
  ultimately have "nat (x mod sc_order) < 256 ^ 32" "int (nat (x mod sc_order)) = x mod sc_order"
    by (simp_all add: nat_less_iff)
  then show ?thesis by (simp add: scalar_bytes_def)
qed

lemma length_scalar_bytes: "length (scalar_bytes x) = 32"
  by (simp add: scalar_bytes_def)

lemma sc_reduce_eq: "length s = 64 \<Longrightarrow> sc_reduce s = scalar_bytes (int (le_nat s))"
  unfolding sc_reduce_def scalar_bytes_def
  by (rule sc_reduce_limbs_eq [OF limbs_mod [OF wide_limbs] _ wide_ok_load]) simp_all

lemma sc_reduce32_eq: "length s = 32 \<Longrightarrow> sc_reduce32 s = scalar_bytes (int (le_nat s))"
  unfolding sc_reduce32_def scalar_bytes_def
  by (rule sc_finish_snoc [OF limbs_mod [OF scalar_limbs] _ _ finish_ok_scalar]) simp_all

lemmas sc_operations = sc_reduce_eq sc_reduce32_eq sc_add_eq sc_sub_eq sc_mul_eq sc_muladd_eq sc_mulsub_eq

text \<open>C5: \<open>sc_reduce\<close> maps every 64-byte number to the 32-byte little-endian form of its residue
  modulo the order of the base point: the limb passes neither overflow nor lose a carry, and the
  result is the canonical representative.\<close>

theorem sc_reduce_exact:
  assumes "length s = 64"
  shows "length (sc_reduce s) = 32 \<and> int (le_nat (sc_reduce s)) = int (le_nat s) mod sc_order"
  using assms by (simp_all add: sc_reduce_eq length_scalar_bytes le_nat_scalar_bytes)

theorem sc_reduce_exact_witness:
  "int (le_nat (sc_reduce (replicate 64 0xff))) = int (le_nat (replicate 64 0xff)) mod sc_order"
  using sc_reduce_exact [OF length_replicate [of 64 "0xff"]] by (rule conjunct2)

text \<open>C2: On arbitrary 32-byte operands, reduced or not, the six scalar operations compute in the
  integers modulo the order: \<open>sc_add\<close>, \<open>sc_sub\<close> and \<open>sc_mul\<close> the ring operations, \<open>sc_muladd\<close>
  \<open>c + a * b\<close>, \<open>sc_mulsub\<close> \<open>c - a * b\<close>, and \<open>sc_reduce32\<close> the residue itself.\<close>

theorem scalar_arithmetic:
  assumes "length a = 32" and "length b = 32" and "length c = 32"
  shows "int (le_nat (sc_reduce32 a)) = int (le_nat a) mod sc_order
    \<and> int (le_nat (sc_add a b)) = (int (le_nat a) + int (le_nat b)) mod sc_order
    \<and> int (le_nat (sc_sub a b)) = (int (le_nat a) - int (le_nat b)) mod sc_order
    \<and> int (le_nat (sc_mul a b)) = (int (le_nat a) * int (le_nat b)) mod sc_order
    \<and> int (le_nat (sc_muladd a b c)) = (int (le_nat c) + int (le_nat a) * int (le_nat b)) mod sc_order
    \<and> int (le_nat (sc_mulsub a b c)) = (int (le_nat c) - int (le_nat a) * int (le_nat b)) mod sc_order"
  using assms by (simp add: sc_operations le_nat_scalar_bytes)

theorem scalar_arithmetic_witness:
  "int (le_nat (sc_muladd (le_bytes 32 2) (le_bytes 32 3) (le_bytes 32 5))) = 11"
  using scalar_arithmetic [of "le_bytes 32 2" "le_bytes 32 3" "le_bytes 32 5"]
  by (simp only: length_le_bytes le_nat_le_bytes) (simp add: sc_order_def)

text \<open>C27: \<open>sc_check\<close> returns zero exactly for the canonical scalars, the numbers below the order,
  and \<open>-1\<close> for every other 32-byte string; \<open>sc_isnonzero\<close> tells zero apart. Every result of
  \<open>sc_reduce\<close>, \<open>sc_add\<close>, \<open>sc_sub\<close>, \<open>sc_mul\<close>, \<open>sc_muladd\<close> and \<open>sc_mulsub\<close> passes \<open>sc_check\<close>.\<close>

theorem canonical_scalars:
  assumes "length s = 32" "length a = 32" "length b = 32" "length w = 64"
  shows "sc_check s = (if int (le_nat s) < sc_order then 0 else - 1)
    \<and> sc_isnonzero s = (if le_nat s = 0 then 0 else 1)
    \<and> sc_check (sc_reduce w) = 0 \<and> sc_check (sc_reduce32 a) = 0
    \<and> sc_check (sc_add a b) = 0 \<and> sc_check (sc_sub a b) = 0
    \<and> sc_check (sc_mul a b) = 0 \<and> sc_check (sc_muladd a b s) = 0 \<and> sc_check (sc_mulsub a b s) = 0"
proof -
  have "sc_check (scalar_bytes x) = 0" for x
  proof -
    have "x mod sc_order < sc_order" by (simp add: sc_order_def)
    then show ?thesis by (simp add: sc_check_eq length_scalar_bytes le_nat_scalar_bytes)
  qed
  then show ?thesis using assms by (simp add: sc_operations sc_check_eq sc_isnonzero_eq)
qed

theorem canonical_scalars_witness:
  "sc_check (le_bytes 32 (nat sc_order)) = - 1 \<and> sc_check (le_bytes 32 (nat (sc_order - 1))) = 0"
  using canonical_scalars [of "le_bytes 32 (nat sc_order)" "le_bytes 32 0" "le_bytes 32 0" "le_bytes 64 0"]
    canonical_scalars [of "le_bytes 32 (nat (sc_order - 1))" "le_bytes 32 0" "le_bytes 32 0" "le_bytes 64 0"]
  by (simp only: length_le_bytes le_nat_le_bytes) (simp add: sc_order_def)

end
