(* ===== verification/CurveField.thy ===== *)
theory CurveField
  imports Limbs
begin

text \<open>
  The arithmetic of \<open>crypto-ops.c\<close> in the field of integers modulo \<open>2 ^ 255 - 19\<close>. An element is an
  array of ten 32-bit signed limbs of alternately 26 and 25 bits, here a list of words; products
  are sums of 64-bit terms that a chain of rounding carries brings back to 32 bits.

  \<open>fe_value\<close> is the integer that an array stands for and \<open>fe_bounded n\<close> the size of its limbs in
  hundredths of \<open>2 ^ 25, 2 ^ 24, 2 ^ 25, ...\<close>, the unit of the comments in the source. For every
  operation the theory shows the value modulo the prime and the bounds that the comments state.
\<close>

type_synonym fe = "u32 list"

section \<open>Simple operations\<close>

definition fe_0 :: fe where
  "fe_0 = [0, 0, 0, 0, 0, 0, 0, 0, 0, 0]"

definition fe_1 :: fe where
  "fe_1 = [1, 0, 0, 0, 0, 0, 0, 0, 0, 0]"

definition fe_add :: "fe \<Rightarrow> fe \<Rightarrow> fe" where
  "fe_add f g = map (\<lambda>i. f ! i + g ! i) [0..<10]"

definition fe_sub :: "fe \<Rightarrow> fe \<Rightarrow> fe" where
  "fe_sub f g = map (\<lambda>i. f ! i - g ! i) [0..<10]"

definition fe_neg :: "fe \<Rightarrow> fe" where
  "fe_neg f = map (\<lambda>i. - (f ! i)) [0..<10]"

definition fe_copy :: "fe \<Rightarrow> fe" where
  "fe_copy f = map (\<lambda>i. f ! i) [0..<10]"

text \<open>The assertion admits the selectors 0 and 1 only; a failed assertion is \<open>None\<close>.\<close>

definition fe_cmov :: "fe \<Rightarrow> fe \<Rightarrow> u32 \<Rightarrow> fe option" where
  "fe_cmov f g b =
     (if ((b - 1) AND NOT b) OR ((b - 2) AND NOT (b - 1)) = - 1
      then Some (map (\<lambda>i. f ! i XOR ((f ! i XOR g ! i) AND (- b))) [0..<10])
      else None)"

section \<open>Products\<close>

definition limb_bits :: "nat \<Rightarrow> nat" where
  "limb_bits i = (if even i then 26 else 25)"

text \<open>The product of two 32-bit numbers in 64 bits.\<close>

definition wide :: "u32 \<Rightarrow> u32 \<Rightarrow> i64" where
  "wide a b = scast a * scast b"

text \<open>
  The term of \<open>f i\<close> and \<open>g j\<close>: the factor 2 that two odd limbs need and the factor 19 of a
  product beyond the top limb are multiplied into one operand in 32 bits.
\<close>

definition fe_term :: "fe \<Rightarrow> fe \<Rightarrow> nat \<Rightarrow> nat \<Rightarrow> i64" where
  "fe_term f g i j =
     wide (if odd i \<and> odd j then 2 * f ! i else f ! i) (if 10 \<le> i + j then 19 * g ! j else g ! j)"

definition fe_product :: "fe \<Rightarrow> fe \<Rightarrow> i64 list" where
  "fe_product f g = map (\<lambda>k. sum_list (map (\<lambda>i. fe_term f g i ((k + 10 - i) mod 10)) [0..<10])) [0..<10]"

definition fe_square :: "fe \<Rightarrow> i64 list" where
  "fe_square f = (
     let f0 = f ! 0; f1 = f ! 1; f2 = f ! 2; f3 = f ! 3; f4 = f ! 4;
         f5 = f ! 5; f6 = f ! 6; f7 = f ! 7; f8 = f ! 8; f9 = f ! 9;
         f0_2 = 2 * f0; f1_2 = 2 * f1; f2_2 = 2 * f2; f3_2 = 2 * f3;
         f4_2 = 2 * f4; f5_2 = 2 * f5; f6_2 = 2 * f6; f7_2 = 2 * f7;
         f5_38 = 38 * f5; f6_19 = 19 * f6; f7_38 = 38 * f7; f8_19 = 19 * f8; f9_38 = 38 * f9
     in [wide f0 f0 + wide f1_2 f9_38 + wide f2_2 f8_19 + wide f3_2 f7_38 + wide f4_2 f6_19 + wide f5 f5_38,
         wide f0_2 f1 + wide f2 f9_38 + wide f3_2 f8_19 + wide f4 f7_38 + wide f5_2 f6_19,
         wide f0_2 f2 + wide f1_2 f1 + wide f3_2 f9_38 + wide f4_2 f8_19 + wide f5_2 f7_38 + wide f6 f6_19,
         wide f0_2 f3 + wide f1_2 f2 + wide f4 f9_38 + wide f5_2 f8_19 + wide f6 f7_38,
         wide f0_2 f4 + wide f1_2 f3_2 + wide f2 f2 + wide f5_2 f9_38 + wide f6_2 f8_19 + wide f7 f7_38,
         wide f0_2 f5 + wide f1_2 f4 + wide f2_2 f3 + wide f6 f9_38 + wide f7_2 f8_19,
         wide f0_2 f6 + wide f1_2 f5_2 + wide f2_2 f4 + wide f3_2 f3 + wide f7_2 f9_38 + wide f8 f8_19,
         wide f0_2 f7 + wide f1_2 f6 + wide f2_2 f5 + wide f3_2 f4 + wide f8 f9_38,
         wide f0_2 f8 + wide f1_2 f7_2 + wide f2_2 f6 + wide f3_2 f5_2 + wide f4 f4 + wide f9 f9_38,
         wide f0_2 f9 + wide f1_2 f8 + wide f2_2 f7 + wide f3_2 f6 + wide f4_2 f5])"

text \<open>A carry out of limb \<open>i\<close>; the carry out of the top limb returns to the bottom times 19.\<close>

definition fe_carry :: "nat \<Rightarrow> i64 list \<Rightarrow> i64 list" where
  "fe_carry i h = (
     let carry = signed_drop_bit (limb_bits i) (h ! i + push_bit (limb_bits i - 1) 1);
         h' = (if i = 9 then h[0 := h ! 0 + carry * 19] else h[i + 1 := h ! (i + 1) + carry])
     in h'[i := h ! i - push_bit (limb_bits i) carry])"

definition fe_reduce :: "i64 list \<Rightarrow> fe" where
  "fe_reduce h = map ucast (fold fe_carry [0, 4, 1, 5, 2, 6, 3, 7, 4, 8, 9, 0] h)"

definition fe_mul :: "fe \<Rightarrow> fe \<Rightarrow> fe" where
  "fe_mul f g = fe_reduce (fe_product f g)"

definition fe_sq :: "fe \<Rightarrow> fe" where
  "fe_sq f = fe_reduce (fe_square f)"

definition fe_sq2 :: "fe \<Rightarrow> fe" where
  "fe_sq2 f = fe_reduce (map (\<lambda>h. h + h) (fe_square f))"

section \<open>Powers\<close>

definition fe_invert :: "fe \<Rightarrow> fe" where
  "fe_invert z = (
     let t0 = fe_sq z;
         t1 = fe_sq t0;
         t1 = fe_sq t1;
         t1 = fe_mul z t1;
         t0 = fe_mul t0 t1;
         t2 = fe_sq t0;
         t1 = fe_mul t1 t2;
         t2 = fe_sq t1;
         t2 = (fe_sq ^^ 4) t2;
         t1 = fe_mul t2 t1;
         t2 = fe_sq t1;
         t2 = (fe_sq ^^ 9) t2;
         t2 = fe_mul t2 t1;
         t3 = fe_sq t2;
         t3 = (fe_sq ^^ 19) t3;
         t2 = fe_mul t3 t2;
         t2 = fe_sq t2;
         t2 = (fe_sq ^^ 9) t2;
         t1 = fe_mul t2 t1;
         t2 = fe_sq t1;
         t2 = (fe_sq ^^ 49) t2;
         t2 = fe_mul t2 t1;
         t3 = fe_sq t2;
         t3 = (fe_sq ^^ 99) t3;
         t2 = fe_mul t3 t2;
         t2 = fe_sq t2;
         t2 = (fe_sq ^^ 49) t2;
         t1 = fe_mul t2 t1;
         t1 = fe_sq t1;
         t1 = (fe_sq ^^ 4) t1
     in fe_mul t1 t0)"

definition fe_divpowm1 :: "fe \<Rightarrow> fe \<Rightarrow> fe" where
  "fe_divpowm1 u v = (
     let v3 = fe_sq v;
         v3 = fe_mul v3 v;
         uv7 = fe_sq v3;
         uv7 = fe_mul uv7 v;
         uv7 = fe_mul uv7 u;
         t0 = fe_sq uv7;
         t1 = fe_sq t0;
         t1 = fe_sq t1;
         t1 = fe_mul uv7 t1;
         t0 = fe_mul t0 t1;
         t0 = fe_sq t0;
         t0 = fe_mul t1 t0;
         t1 = fe_sq t0;
         t1 = (fe_sq ^^ 4) t1;
         t0 = fe_mul t1 t0;
         t1 = fe_sq t0;
         t1 = (fe_sq ^^ 9) t1;
         t1 = fe_mul t1 t0;
         t2 = fe_sq t1;
         t2 = (fe_sq ^^ 19) t2;
         t1 = fe_mul t2 t1;
         t1 = (fe_sq ^^ 10) t1;
         t0 = fe_mul t1 t0;
         t1 = fe_sq t0;
         t1 = (fe_sq ^^ 49) t1;
         t1 = fe_mul t1 t0;
         t2 = fe_sq t1;
         t2 = (fe_sq ^^ 99) t2;
         t1 = fe_mul t2 t1;
         t1 = (fe_sq ^^ 50) t1;
         t0 = fe_mul t1 t0;
         t0 = fe_sq t0;
         t0 = fe_sq t0;
         t0 = fe_mul t0 uv7;
         t0 = fe_mul t0 v3
     in fe_mul t0 u)"

section \<open>Bytes\<close>

definition fe_floor_carry :: "nat \<Rightarrow> u32 list \<Rightarrow> u32 list" where
  "fe_floor_carry i h = (
     let carry = signed_drop_bit (limb_bits i) (h ! i);
         h' = (if i = 9 then h else h[i + 1 := h ! (i + 1) + carry])
     in h'[i := h ! i - push_bit (limb_bits i) carry])"

definition fe_quotient :: "fe \<Rightarrow> u32" where
  "fe_quotient h = fold (\<lambda>i q. signed_drop_bit (limb_bits i) (h ! i + q)) [0, 1, 2, 3, 4, 5, 6, 7, 8, 9]
     (signed_drop_bit 25 (19 * h ! 9 + push_bit 24 1))"

definition fe_store :: "fe \<Rightarrow> byte list" where
  "fe_store h =
    [ucast (signed_drop_bit 0 (h ! 0)),
     ucast (signed_drop_bit 8 (h ! 0)),
     ucast (signed_drop_bit 16 (h ! 0)),
     ucast (signed_drop_bit 24 (h ! 0) OR push_bit 2 (h ! 1)),
     ucast (signed_drop_bit 6 (h ! 1)),
     ucast (signed_drop_bit 14 (h ! 1)),
     ucast (signed_drop_bit 22 (h ! 1) OR push_bit 3 (h ! 2)),
     ucast (signed_drop_bit 5 (h ! 2)),
     ucast (signed_drop_bit 13 (h ! 2)),
     ucast (signed_drop_bit 21 (h ! 2) OR push_bit 5 (h ! 3)),
     ucast (signed_drop_bit 3 (h ! 3)),
     ucast (signed_drop_bit 11 (h ! 3)),
     ucast (signed_drop_bit 19 (h ! 3) OR push_bit 6 (h ! 4)),
     ucast (signed_drop_bit 2 (h ! 4)),
     ucast (signed_drop_bit 10 (h ! 4)),
     ucast (signed_drop_bit 18 (h ! 4)),
     ucast (signed_drop_bit 0 (h ! 5)),
     ucast (signed_drop_bit 8 (h ! 5)),
     ucast (signed_drop_bit 16 (h ! 5)),
     ucast (signed_drop_bit 24 (h ! 5) OR push_bit 1 (h ! 6)),
     ucast (signed_drop_bit 7 (h ! 6)),
     ucast (signed_drop_bit 15 (h ! 6)),
     ucast (signed_drop_bit 23 (h ! 6) OR push_bit 3 (h ! 7)),
     ucast (signed_drop_bit 5 (h ! 7)),
     ucast (signed_drop_bit 13 (h ! 7)),
     ucast (signed_drop_bit 21 (h ! 7) OR push_bit 4 (h ! 8)),
     ucast (signed_drop_bit 4 (h ! 8)),
     ucast (signed_drop_bit 12 (h ! 8)),
     ucast (signed_drop_bit 20 (h ! 8) OR push_bit 6 (h ! 9)),
     ucast (signed_drop_bit 2 (h ! 9)),
     ucast (signed_drop_bit 10 (h ! 9)),
     ucast (signed_drop_bit 18 (h ! 9))]"

definition fe_tobytes :: "fe \<Rightarrow> byte list" where
  "fe_tobytes h = (
     let q = fe_quotient h
     in fe_store (fold fe_floor_carry [0, 1, 2, 3, 4, 5, 6, 7, 8, 9] (h[0 := h ! 0 + 19 * q])))"

definition fe_isnegative :: "fe \<Rightarrow> u32" where
  "fe_isnegative f = (let s = fe_tobytes f in ucast (s ! 0) AND 1)"

definition fe_isnonzero :: "fe \<Rightarrow> u32" where
  "fe_isnonzero f = (let s = fe_tobytes f in
     signed_drop_bit 8 (fold (\<lambda>b r. r OR ucast b) s (0 :: u32) - 1) + 1)"

section \<open>Values and bounds\<close>

definition fe_prime :: int where
  "fe_prime = 2 ^ 255 - 19"

definition fe_weight :: "nat \<Rightarrow> nat" where
  "fe_weight i = (51 * i + 1) div 2"

definition fe_value :: "'a::len word list \<Rightarrow> int" where
  "fe_value h = (\<Sum>i<10. sint (h ! i) * 2 ^ fe_weight i)"

definition fe_bounded :: "int \<Rightarrow> fe \<Rightarrow> bool" where
  "fe_bounded n f \<longleftrightarrow> length f = 10 \<and> (\<forall>i < 10. 100 * \<bar>sint (f ! i)\<bar> \<le> n * 2 ^ (limb_bits i - 1))"

lemma fe_weight_Suc: "fe_weight (Suc i) = fe_weight i + limb_bits i"
  by (cases "even i") (auto simp: fe_weight_def limb_bits_def elim!: evenE oddE)

lemma lt_10E: "i < (10 :: nat) \<Longrightarrow> i = 0 \<or> i = 1 \<or> i = 2 \<or> i = 3 \<or> i = 4 \<or> i = 5 \<or> i = 6 \<or> i = 7 \<or> i = 8 \<or> i = 9"
  by presburger

lemma fe_bounded_limb:
  assumes "fe_bounded n f" and "i < 10" and "0 \<le> n"
  shows "100 * \<bar>sint (f ! i)\<bar> \<le> n * 33554432" and "odd i \<Longrightarrow> 100 * \<bar>sint (f ! i)\<bar> \<le> n * 16777216"
  using assms(1,3) bspec [of "{..<10}" _ i] assms(2) by (auto simp: fe_bounded_def limb_bits_def split: if_splits dest!: spec [of _ i])

lemma fe_bounded_mono: "fe_bounded m f \<Longrightarrow> m \<le> n \<Longrightarrow> fe_bounded n f"
  by (fastforce simp: fe_bounded_def intro: order_trans mult_right_mono)

text \<open>A 32-bit word that an integer in range determines.\<close>

lemma sint_u32:
  assumes "w = (word_of_int x :: u32)" and "- 2147483648 \<le> x" and "x < 2147483648"
  shows "sint w = x"
  using assms by (simp add: signed_of_int signed_take_bit_int_eq_self)

lemma fe_pointwise:
  assumes "\<And>i. i < 10 \<Longrightarrow> sint (h ! i) = a * sint (f ! i) + b * sint (g ! i)"
  shows "fe_value h = a * fe_value f + b * fe_value g"
proof -
  have "fe_value h = (\<Sum>i<10. (a * sint (f ! i) + b * sint (g ! i)) * 2 ^ fe_weight i)"
    unfolding fe_value_def by (rule sum.cong) (simp_all add: assms)
  also have "\<dots> = a * fe_value f + b * fe_value g"
    unfolding fe_value_def sum_distrib_left sum.distrib [symmetric]
    by (rule sum.cong) (simp_all add: algebra_simps)
  finally show ?thesis .
qed

lemma fe_add_limb:
  assumes "fe_bounded m f" and "fe_bounded n g" and "m + n \<le> 6000" and "0 \<le> m" "0 \<le> n" and "i < 10"
  shows "sint (f ! i + g ! i) = sint (f ! i) + sint (g ! i)" and "sint (f ! i - g ! i) = sint (f ! i) - sint (g ! i)"
proof -
  have "100 * \<bar>sint (f ! i)\<bar> + 100 * \<bar>sint (g ! i)\<bar> \<le> (m + n) * 33554432"
    using fe_bounded_limb(1) [OF assms(1,6,4)] fe_bounded_limb(1) [OF assms(2,6,5)] by (simp add: algebra_simps)
  also have "\<dots> \<le> 6000 * 33554432" using assms(3) by (rule mult_right_mono) simp
  finally have r: "\<bar>sint (f ! i)\<bar> + \<bar>sint (g ! i)\<bar> \<le> 2013265920" by simp
  show "sint (f ! i + g ! i) = sint (f ! i) + sint (g ! i)"
    by (rule sint_u32) (use r in \<open>auto simp: abs_if split: if_splits\<close>)
  show "sint (f ! i - g ! i) = sint (f ! i) - sint (g ! i)"
    by (rule sint_u32) (use r in \<open>auto simp: abs_if split: if_splits\<close>)
qed

lemma fe_add_spec:
  assumes "fe_bounded m f" and "fe_bounded n g" and "m + n \<le> 6000" and "0 \<le> m" "0 \<le> n"
  shows "fe_bounded (m + n) (fe_add f g) \<and> fe_value (fe_add f g) = fe_value f + fe_value g"
proof -
  have l: "sint (fe_add f g ! i) = sint (f ! i) + sint (g ! i)" if "i < 10" for i
    using fe_add_limb(1) [OF assms that] that by (simp add: fe_add_def)
  have "100 * \<bar>sint (fe_add f g ! i)\<bar> \<le> (m + n) * 2 ^ (limb_bits i - 1)" if "i < 10" for i
  proof -
    have "100 * \<bar>sint (f ! i)\<bar> \<le> m * 2 ^ (limb_bits i - 1)" "100 * \<bar>sint (g ! i)\<bar> \<le> n * 2 ^ (limb_bits i - 1)"
      using assms(1,2) that by (simp_all add: fe_bounded_def)
    then show ?thesis unfolding l [OF that] distrib_right
      using abs_triangle_ineq [of "sint (f ! i)" "sint (g ! i)"] by linarith
  qed
  then show ?thesis using fe_pointwise [of "fe_add f g" 1 f 1 g] l by (simp add: fe_bounded_def fe_add_def)
qed

lemma fe_sub_spec:
  assumes "fe_bounded m f" and "fe_bounded n g" and "m + n \<le> 6000" and "0 \<le> m" "0 \<le> n"
  shows "fe_bounded (m + n) (fe_sub f g) \<and> fe_value (fe_sub f g) = fe_value f - fe_value g"
proof -
  have l: "sint (fe_sub f g ! i) = sint (f ! i) - sint (g ! i)" if "i < 10" for i
    using fe_add_limb(2) [OF assms that] that by (simp add: fe_sub_def)
  have "100 * \<bar>sint (fe_sub f g ! i)\<bar> \<le> (m + n) * 2 ^ (limb_bits i - 1)" if "i < 10" for i
  proof -
    have "100 * \<bar>sint (f ! i)\<bar> \<le> m * 2 ^ (limb_bits i - 1)" "100 * \<bar>sint (g ! i)\<bar> \<le> n * 2 ^ (limb_bits i - 1)"
      using assms(1,2) that by (simp_all add: fe_bounded_def)
    then show ?thesis unfolding l [OF that] distrib_right
      using abs_triangle_ineq4 [of "sint (f ! i)" "sint (g ! i)"] by linarith
  qed
  then show ?thesis using fe_pointwise [of "fe_sub f g" 1 f "- 1" g] l by (simp add: fe_bounded_def fe_sub_def)
qed

lemma fe_0_spec: "fe_bounded 0 fe_0 \<and> fe_value fe_0 = 0"
  by (auto simp: fe_bounded_def fe_0_def fe_value_def lessThan_nat_numeral dest!: lt_10E)

lemma fe_1_spec: "fe_bounded 1 fe_1 \<and> fe_value fe_1 = 1"
  by (auto simp: fe_bounded_def fe_1_def fe_value_def fe_weight_def limb_bits_def lessThan_nat_numeral dest!: lt_10E)

lemma fe_neg_spec:
  assumes "fe_bounded n f" and "n \<le> 6000" and "0 \<le> n"
  shows "fe_bounded n (fe_neg f) \<and> fe_value (fe_neg f) = - fe_value f"
proof -
  have "fe_neg f = fe_sub fe_0 f"
    by (rule nth_equalityI) (auto simp: fe_neg_def fe_sub_def fe_0_def dest!: lt_10E)
  then show ?thesis using fe_sub_spec [of 0 fe_0 n f] fe_0_spec assms by simp
qed

lemma fe_copy_eq: "length f = 10 \<Longrightarrow> fe_copy f = f"
  by (rule nth_equalityI) (simp_all add: fe_copy_def)

lemma fe_cmov_eq:
  assumes "length f = 10" and "length g = 10"
  shows "fe_cmov f g 0 = Some f" and "fe_cmov f g 1 = Some g"
proof -
  have "map (\<lambda>i. f ! i) [0..<10] = f" "map (\<lambda>i. g ! i) [0..<10] = g"
    using assms map_nth [of f] map_nth [of g] by simp_all
  then show "fe_cmov f g 0 = Some f" "fe_cmov f g 1 = Some g"
    by (simp_all add: fe_cmov_def xor.left_commute flip: xor.assoc)
qed

section \<open>The carry chain\<close>

definition fe_limbs :: "range list \<Rightarrow> int \<Rightarrow> i64 list \<Rightarrow> bool" where
  "fe_limbs R X h \<longleftrightarrow> length R = 10 \<and> length h = 10 \<and> (\<forall>i < 10. in_range (R ! i) (sint (h ! i)))
     \<and> fe_value h mod fe_prime = X mod fe_prime"

definition fe_carry_ranges :: "nat \<Rightarrow> range list \<Rightarrow> range list option" where
  "fe_carry_ranges i R = (
     let b = limb_bits i; d = 2 ^ (b - 1); j = (if i = 9 then 0 else i + 1); k = (if i = 9 then 19 else 1);
         c = ((fst (R ! i) + d) div 2 ^ b, (snd (R ! i) + d) div 2 ^ b);
         up = range_add (R ! j) (range_scale k c)
     in if i < 10 \<and> word_range (range_add (R ! i) (d, d)) \<and> word_range up
        then Some (R[j := up, i := (- d, d - 1)]) else None)"

lemma fe_value_update:
  assumes "j < 10" and "length h = 10"
  shows "fe_value (h[j := w]) = fe_value h + (sint w - sint (h ! j)) * 2 ^ fe_weight j"
proof -
  have split: "fe_value t = sint (t ! j) * 2 ^ fe_weight j + (\<Sum>i\<in>{..<10} - {j}. sint (t ! i) * 2 ^ fe_weight i)"
    for t :: "'a word list" using assms(1) by (simp add: fe_value_def sum.remove)
  have "(\<Sum>i\<in>{..<10} - {j}. sint (h[j := w] ! i) * 2 ^ fe_weight i) = (\<Sum>i\<in>{..<10} - {j}. sint (h ! i) * 2 ^ fe_weight i)"
    by (rule sum.cong) auto
  then show ?thesis using split [of h] split [of "h[j := w]"] assms by (simp add: algebra_simps)
qed

lemma limb_bits_pos: "limb_bits i = Suc (limb_bits i - 1)" "limb_bits i \<le> 26" "limb_bits i < 64" "limb_bits i < 32"
  by (simp_all add: limb_bits_def)

lemma carry_weight:
  assumes "i < 10" and "j = (if i = 9 then 0 else i + 1)" and "k = (if i = 9 then 19 else 1)"
  shows "(k * 2 ^ fe_weight j) mod fe_prime = (2 ^ limb_bits i * 2 ^ fe_weight i) mod fe_prime"
proof (cases "i = 9")
  case True
  then show ?thesis using assms by (simp add: fe_weight_def limb_bits_def fe_prime_def)
next
  case False
  then show ?thesis using assms fe_weight_Suc [of i] by (simp add: power_add mult.commute)
qed

lemma fe_carry_sound:
  assumes "fe_limbs R X h" and "fe_carry_ranges i R = Some R'"
  shows "fe_limbs R' X (fe_carry i h)"
proof -
  define b where "b = limb_bits i"
  define d :: int where "d = 2 ^ (b - 1)"
  define j where "j = (if i = 9 then 0 else i + 1)"
  define k :: int where "k = (if i = 9 then 19 else 1)"
  define cr where "cr = ((fst (R ! i) + d) div 2 ^ b, (snd (R ! i) + d) div 2 ^ b)"
  define up where "up = range_add (R ! j) (range_scale k cr)"
  have g: "i < 10" "word_range (range_add (R ! i) (d, d))" "word_range up" and R': "R' = R[j := up, i := (- d, d - 1)]"
    using assms(2) unfolding fe_carry_ranges_def Let_def up_def cr_def k_def j_def d_def b_def
    by (simp_all split: if_splits)
  have ij: "j < 10" "j \<noteq> i" using g(1) by (auto simp: j_def)
  have len: "length R = 10" "length h = 10" and val: "fe_value h mod fe_prime = X mod fe_prime"
    and rng: "\<And>l. l < 10 \<Longrightarrow> in_range (R ! l) (sint (h ! l))"
    using assms(1) by (auto simp: fe_limbs_def)
  have d: "0 < d" "2 ^ b = 2 * d" "d < 2 ^ 32" 
    using limb_bits_pos [of i] by (auto simp: d_def b_def limb_bits_def)
  let ?x = "sint (h ! i)"
  let ?c = "(?x + d) div 2 ^ b"
  have dw: "push_bit (b - 1) 1 = (word_of_int d :: i64)" by (simp add: d_def push_bit_eq_mult)
  have "in_range (range_add (R ! i) (d, d)) (?x + d)"
    by (rule in_range_add [OF rng [OF g(1)]]) (simp add: in_range_def)
  then have "sint (h ! i + word_of_int d) = ?x + d" by (rule sint_eq [OF _ g(2)]) simp
  then have "sint (signed_drop_bit b (h ! i + word_of_int d)) = ?c"
    by (simp add: sint_signed_drop_bit_eq drop_bit_eq_div)
  then have cw: "signed_drop_bit b (h ! i + push_bit (b - 1) 1) = word_of_int ?c"
    unfolding dw by (metis word_of_sint)
  have cr: "in_range cr ?c"
    using rng [OF g(1)] by (auto simp: cr_def in_range_def intro!: zdiv_mono1)
  define u v where "u = h ! j + word_of_int (k * ?c)" and "v = h ! i - push_bit b (word_of_int ?c)"
  have h': "fe_carry i h = h[j := u, i := v]"
    unfolding fe_carry_def Let_def b_def [symmetric] cw u_def v_def j_def k_def
    by (simp add: mult.commute)
  have u: "sint u = sint (h ! j) + k * ?c" and ur: "in_range up (sint (h ! j) + k * ?c)"
  proof -
    show r: "in_range up (sint (h ! j) + k * ?c)"
      unfolding up_def by (intro in_range_add in_range_scale rng ij(1) cr)
    show "sint u = sint (h ! j) + k * ?c" unfolding u_def by (rule sint_eq [OF r g(3)]) simp
  qed
  have rest: "?x - 2 ^ b * ?c = (?x + d) mod 2 ^ b - d"
    using mult_div_mod_eq [of "2 ^ b" "?x + d"] by linarith
  have vr: "in_range (- d, d - 1) ((?x + d) mod 2 ^ b - d)"
    using d pos_mod_bound [of "2 ^ b" "?x + d"] by (simp add: in_range_def)
  have "v = word_of_int (?x - 2 ^ b * ?c)" by (simp add: v_def push_bit_eq_mult mult.commute)
  then have v: "sint v = (?x + d) mod 2 ^ b - d"
    unfolding rest by (rule sint_eq [OF vr, rotated]) (use d in \<open>simp add: word_range_def\<close>)
  have "fe_value (fe_carry i h) = fe_value h + ?c * (k * 2 ^ fe_weight j - 2 ^ b * 2 ^ fe_weight i)"
    unfolding h' using len ij g(1)
    by (simp add: fe_value_update u v [folded rest]) (simp only: algebra_simps)
  moreover have "fe_prime dvd k * 2 ^ fe_weight j - 2 ^ b * 2 ^ fe_weight i"
    using carry_weight [OF g(1) j_def k_def] by (simp add: b_def mod_eq_dvd_iff)
  ultimately have "fe_value (fe_carry i h) mod fe_prime = fe_value h mod fe_prime"
    by (simp add: mod_eq_dvd_iff)
  moreover have "in_range (R' ! l) (sint (fe_carry i h ! l))" if "l < 10" for l
  proof -
    consider "l = i" | "l = j" | "l \<noteq> i" "l \<noteq> j" by blast
    then show ?thesis
      unfolding h' R' using len ij g(1) rng [OF that] u ur v vr by cases simp_all
  qed
  ultimately show ?thesis using val len by (simp add: fe_limbs_def h' R')
qed

interpretation carrying: ranged_step "\<lambda>R h. fe_limbs R X h" fe_carry fe_carry_ranges
  by unfold_locales (rule fe_carry_sound)

definition ranges_within :: "int \<Rightarrow> range list \<Rightarrow> bool" where
  "ranges_within n R \<longleftrightarrow> length R = 10 \<and> list_all (\<lambda>i. - (n * 2 ^ (limb_bits i - 1)) \<le> 100 * fst (R ! i)
     \<and> 100 * snd (R ! i) \<le> n * 2 ^ (limb_bits i - 1)) [0..<10]"

definition fe_reduced_ranges :: "range list \<Rightarrow> range list option" where
  "fe_reduced_ranges R = pass_ranges fe_carry_ranges [0, 4, 1, 5, 2, 6, 3, 7, 4, 8, 9, 0] R"

definition product_ranges :: "range list" where
  "product_ranges = replicate 10 (- 4659200000000000000, 4659200000000000000)"

lemma product_ranges_reduced:
  "case fe_reduced_ranges product_ranges of None \<Rightarrow> False | Some R \<Rightarrow> ranges_within 101 R"
  by code_simp

lemma sint_narrow:
  assumes "\<bar>sint (w :: i64)\<bar> < 2147483648"
  shows "sint (ucast w :: u32) = sint w"
proof -
  have "ucast w = (word_of_int (sint w) :: u32)" by (rule bit_word_eqI) (simp add: bit_simps min_def)
  then show ?thesis using assms by (intro sint_u32) auto
qed

lemma fe_limbs_narrow:
  assumes l: "fe_limbs R X t" and ok: "ranges_within 101 R"
  shows "fe_bounded 101 (map ucast t) \<and> fe_value (map ucast t :: fe) mod fe_prime = X mod fe_prime"
proof -
  have small: "100 * \<bar>sint (t ! i)\<bar> \<le> 101 * 2 ^ (limb_bits i - 1)" if "i < 10" for i
  proof -
    have "in_range (R ! i) (sint (t ! i))" using l that by (simp add: fe_limbs_def)
    moreover have "- (101 * 2 ^ (limb_bits i - 1)) \<le> 100 * fst (R ! i)" "100 * snd (R ! i) \<le> 101 * 2 ^ (limb_bits i - 1)"
      using ok that by (auto simp: ranges_within_def list_all_iff)
    ultimately show ?thesis unfolding in_range_def by linarith
  qed
  have narrow: "sint (map ucast t ! i :: u32) = sint (t ! i)" if "i < 10" for i
  proof -
    have "(2 :: int) ^ (limb_bits i - 1) \<le> 2 ^ 25" by (simp add: limb_bits_def)
    then have "\<bar>sint (t ! i)\<bar> < 2147483648" using small [OF that] by simp
    then show ?thesis using l that by (simp add: fe_limbs_def sint_narrow)
  qed
  have "fe_value (map ucast t :: fe) = fe_value t"
    unfolding fe_value_def by (rule sum.cong) (simp_all add: narrow)
  then show ?thesis using l small narrow by (simp add: fe_limbs_def fe_bounded_def)
qed

lemma fe_reduce_spec:
  assumes "fe_limbs product_ranges X h"
  shows "fe_bounded 101 (fe_reduce h) \<and> fe_value (fe_reduce h) mod fe_prime = X mod fe_prime"
proof -
  obtain R where R: "pass_ranges fe_carry_ranges [0, 4, 1, 5, 2, 6, 3, 7, 4, 8, 9, 0] product_ranges = Some R"
    and ok: "ranges_within 101 R"
    using product_ranges_reduced by (auto simp: fe_reduced_ranges_def simp del: pass_ranges.simps split: option.splits)
  show ?thesis
    using fe_limbs_narrow [OF carrying.pass_sound [OF assms R] ok] by (simp add: fe_reduce_def del: fold_simps)
qed

section \<open>Multiplication\<close>

definition fe_coeff :: "nat \<Rightarrow> nat \<Rightarrow> int" where
  "fe_coeff i j = (if odd i \<and> odd j then 2 else 1) * (if 10 \<le> i + j then 19 else 1)"

definition fe_conv :: "(nat \<Rightarrow> int) \<Rightarrow> (nat \<Rightarrow> int) \<Rightarrow> nat \<Rightarrow> int" where
  "fe_conv F G k = (\<Sum>i<10. fe_coeff i ((k + 10 - i) mod 10) * F i * G ((k + 10 - i) mod 10))"

lemma fe_weight_add: "fe_weight i + fe_weight j = fe_weight (i + j) + (if odd i \<and> odd j then 1 else 0)"
proof -
  have e: "fe_weight n = 51 * b" if "n = 2 * b" for n b using that by (simp add: fe_weight_def)
  have o: "fe_weight n = 51 * b + 26" if "n = 2 * b + 1" for n b using that by (simp add: fe_weight_def)
  obtain b c where "i = 2 * b \<or> i = 2 * b + 1" and "j = 2 * c \<or> j = 2 * c + 1" by (metis oddE evenE)
  then consider "i = 2 * b" "j = 2 * c" | "i = 2 * b + 1" "j = 2 * c" | "i = 2 * b" "j = 2 * c + 1"
    | "i = 2 * b + 1" "j = 2 * c + 1" by blast
  then show ?thesis
  proof cases
    case 1
    then show ?thesis using e [of "i + j" "b + c"] e [OF 1(1)] e [OF 1(2)] by simp
  next
    case 2
    then show ?thesis using o [of "i + j" "b + c"] o [OF 2(1)] e [OF 2(2)] by simp
  next
    case 3
    then show ?thesis using o [of "i + j" "b + c"] e [OF 3(1)] o [OF 3(2)] by simp
  next
    case 4
    then show ?thesis using e [of "i + j" "b + c + 1"] o [OF 4(1)] o [OF 4(2)] by simp
  qed
qed

lemma fe_weight_10: "fe_weight (n + 10) = fe_weight n + 255"
  by (simp add: fe_weight_def)

lemma fe_coeff_weight:
  assumes "i < 10" and "j < 10"
  shows "fe_prime dvd fe_coeff i j * 2 ^ fe_weight ((i + j) mod 10) - 2 ^ (fe_weight i + fe_weight j)"
proof (cases "10 \<le> i + j")
  case True
  then obtain n where n: "i + j = n + 10" by (metis add.commute le_Suc_ex)
  then have "n < 10" using assms by simp
  define e :: int where "e = (if odd i \<and> odd j then 2 else 1)"
  have "(2 :: int) ^ (fe_weight i + fe_weight j) = e * (2 ^ 255 * 2 ^ fe_weight n)"
    by (simp add: fe_weight_add n fe_weight_10 power_add e_def)
  moreover have "fe_coeff i j * 2 ^ fe_weight ((i + j) mod 10) = e * (19 * 2 ^ fe_weight n)"
    using n \<open>n < 10\<close> by (simp add: fe_coeff_def e_def)
  ultimately have "fe_coeff i j * 2 ^ fe_weight ((i + j) mod 10) - 2 ^ (fe_weight i + fe_weight j)
      = fe_prime * (- e * 2 ^ fe_weight n)"
    by (simp add: fe_prime_def algebra_simps)
  then show ?thesis by (metis dvd_triv_left)
next
  case False
  then show ?thesis by (simp add: fe_coeff_def fe_weight_add power_add)
qed

lemma index_shift: "i < 10 \<Longrightarrow> j < 10 \<Longrightarrow> ((i + j) mod 10 + 10 - i) mod 10 = (j :: nat)"
  by (cases "i + j < 10") (simp_all add: mod_if)

lemma fe_conv_value:
  "fe_prime dvd (\<Sum>k<10. fe_conv F G k * 2 ^ fe_weight k)
    - (\<Sum>i<10. F i * 2 ^ fe_weight i) * (\<Sum>j<10. G j * 2 ^ fe_weight j)"
proof -
  let ?t = "\<lambda>i j. fe_coeff i j * F i * G j"
  have "(\<Sum>k<10. fe_conv F G k * 2 ^ fe_weight k)
      = (\<Sum>(k, i)\<in>{..<10} \<times> {..<10}. ?t i ((k + 10 - i) mod 10) * 2 ^ fe_weight k)"
    unfolding fe_conv_def sum_distrib_right by (simp add: sum.cartesian_product)
  also have "\<dots> = (\<Sum>(i, j)\<in>{..<10} \<times> {..<10}. ?t i j * 2 ^ fe_weight ((i + j) mod 10))"
    by (rule sum.reindex_bij_witness [of _ "\<lambda>(i, j). ((i + j) mod 10, i)" "\<lambda>(k, i). (i, (k + 10 - i) mod 10)"])
      (auto simp: mod_simps index_shift)
  finally have "(\<Sum>k<10. fe_conv F G k * 2 ^ fe_weight k)
      - (\<Sum>i<10. F i * 2 ^ fe_weight i) * (\<Sum>j<10. G j * 2 ^ fe_weight j)
      = (\<Sum>(i, j)\<in>{..<10} \<times> {..<10}. F i * G j *
          (fe_coeff i j * 2 ^ fe_weight ((i + j) mod 10) - 2 ^ (fe_weight i + fe_weight j)))"
    unfolding sum_product sum.cartesian_product
    by (simp only: sum_subtractf [symmetric]) (rule sum.cong, auto simp: algebra_simps power_add)
  also have "fe_prime dvd \<dots>"
    by (rule dvd_sum) (auto intro!: dvd_mult fe_coeff_weight)
  finally show ?thesis .
qed

lemma wide_eq: "wide a b = word_of_int (sint a * sint b)"
  by (simp add: wide_def)

lemma sint_scaled:
  assumes "0 \<le> c" and "c * \<bar>sint (w :: u32)\<bar> < 2147483648"
  shows "sint (word_of_int c * w) = c * sint w"
proof (rule sint_u32)
  have "\<bar>c * sint w\<bar> < 2147483648" using assms by (simp add: abs_mult)
  then show "- 2147483648 \<le> c * sint w" "c * sint w < 2147483648" by (simp_all add: abs_less_iff)
qed simp

text \<open>The bounds under which the products are formed, as the comments give them.\<close>

lemma mul_limb:
  assumes "fe_bounded 330 f" and "i < 10"
  shows "\<bar>sint (f ! i)\<bar> \<le> 110729625" and "odd i \<Longrightarrow> \<bar>sint (f ! i)\<bar> \<le> 55364812"
  using fe_bounded_limb [OF assms] by simp_all

lemma fe_term_eq:
  assumes "fe_bounded 330 f" and "fe_bounded 330 g" and "i < 10" and "j < 10"
  shows "fe_term f g i j = word_of_int (fe_coeff i j * sint (f ! i) * sint (g ! j))"
proof -
  have "sint (if odd i \<and> odd j then 2 * f ! i else f ! i) = (if odd i \<and> odd j then 2 else 1) * sint (f ! i)"
    using sint_scaled [of 2 "f ! i"] mul_limb(1) [OF assms(1,3)] by simp
  moreover have "sint (if 10 \<le> i + j then 19 * g ! j else g ! j) = (if 10 \<le> i + j then 19 else 1) * sint (g ! j)"
    using sint_scaled [of 19 "g ! j"] mul_limb(1) [OF assms(2,4)] by simp
  ultimately show ?thesis by (simp only: fe_term_def wide_eq fe_coeff_def) (simp add: ac_simps)
qed

lemma fe_product_nth:
  assumes "fe_bounded 330 f" and "fe_bounded 330 g" and "k < 10"
  shows "fe_product f g ! k = word_of_int (fe_conv (\<lambda>i. sint (f ! i)) (\<lambda>i. sint (g ! i)) k)"
proof -
  have "fe_product f g ! k = sum_list (map (\<lambda>i. fe_term f g i ((k + 10 - i) mod 10)) [0..<10])"
    using assms(3) by (simp add: fe_product_def)
  also have "\<dots> = (\<Sum>i\<in>{0..<10}. fe_term f g i ((k + 10 - i) mod 10))"
    by (simp only: atLeastLessThan_upt sum_set_upt_conv_sum_list_nat)
  also have "\<dots> = (\<Sum>i<10. word_of_int (fe_coeff i ((k + 10 - i) mod 10) * sint (f ! i) * sint (g ! ((k + 10 - i) mod 10))))"
    by (rule sum.cong) (simp_all only: lessThan_atLeast0 atLeastLessThan_iff fe_term_eq [OF assms(1,2)] mod_less_divisor zero_less_numeral)
  finally show ?thesis by (simp add: fe_conv_def)
qed

lemma fe_coeff_bound:
  assumes "fe_bounded 330 f" and "fe_bounded 330 g" and "i < 10" and "j < 10"
  shows "\<bar>fe_coeff i j * sint (f ! i) * sint (g ! j)\<bar> \<le> 19 * (110729625 * 110729625)"
proof (cases "odd i \<and> odd j")
  case True
  then have "\<bar>sint (f ! i)\<bar> * \<bar>sint (g ! j)\<bar> \<le> 55364812 * 55364812"
    using mul_limb(2) [OF assms(1,3)] mul_limb(2) [OF assms(2,4)] by (intro mult_mono) simp_all
  then show ?thesis by (simp add: fe_coeff_def abs_mult mult.assoc)
next
  case False
  have "\<bar>sint (f ! i)\<bar> * \<bar>sint (g ! j)\<bar> \<le> 110729625 * 110729625"
    using mul_limb(1) [OF assms(1,3)] mul_limb(1) [OF assms(2,4)] by (intro mult_mono) simp_all
  then show ?thesis using False by (auto simp: fe_coeff_def abs_mult mult.assoc)
qed

lemma fe_conv_bound:
  assumes "fe_bounded 330 f" and "fe_bounded 330 g"
  shows "\<bar>fe_conv (\<lambda>i. sint (f ! i)) (\<lambda>i. sint (g ! i)) k\<bar> \<le> 2329600000000000000"
proof -
  have "\<bar>fe_conv (\<lambda>i. sint (f ! i)) (\<lambda>i. sint (g ! i)) k\<bar>
      \<le> (\<Sum>i<10. \<bar>fe_coeff i ((k + 10 - i) mod 10) * sint (f ! i) * sint (g ! ((k + 10 - i) mod 10))\<bar>)"
    unfolding fe_conv_def by (rule sum_abs)
  also have "\<dots> \<le> of_nat (card {..<10::nat}) * (19 * (110729625 * 110729625))"
    by (rule sum_bounded_above) (simp only: lessThan_iff fe_coeff_bound [OF assms] mod_less_divisor zero_less_numeral)
  also have "\<dots> \<le> 2329600000000000000" by simp
  finally show ?thesis .
qed

lemma fe_limbs_product:
  assumes "fe_bounded 330 f" and "fe_bounded 330 g" and "length h = 10" and "\<bar>c\<bar> \<le> 2"
    and "\<And>k. k < 10 \<Longrightarrow> h ! k = word_of_int (c * fe_conv (\<lambda>i. sint (f ! i)) (\<lambda>i. sint (g ! i)) k)"
  shows "fe_limbs product_ranges (c * (fe_value f * fe_value g)) h"
proof -
  let ?P = "fe_conv (\<lambda>i. sint (f ! i)) (\<lambda>i. sint (g ! i))"
  have r: "in_range (- 4659200000000000000, 4659200000000000000) (c * ?P k)" for k
  proof -
    have "\<bar>c\<bar> * \<bar>?P k\<bar> \<le> 2 * 2329600000000000000"
      using assms(4) fe_conv_bound [OF assms(1,2)] by (intro mult_mono) simp_all
    then have "\<bar>c * ?P k\<bar> \<le> 4659200000000000000" by (simp add: abs_mult)
    then show ?thesis by (simp add: in_range_def abs_le_iff)
  qed
  have s: "sint (h ! k) = c * ?P k" if "k < 10" for k
    by (rule sint_eq [OF r]) (simp_all add: word_range_def assms(5) [OF that])
  have "fe_value h = (\<Sum>k<10. c * ?P k * 2 ^ fe_weight k)"
    unfolding fe_value_def by (rule sum.cong) (simp_all add: s)
  also have "\<dots> = c * (\<Sum>k<10. ?P k * 2 ^ fe_weight k)" by (simp add: sum_distrib_left mult.assoc)
  finally have "fe_prime dvd fe_value h - c * (fe_value f * fe_value g)"
    using fe_conv_value [of "\<lambda>i. sint (f ! i)" "\<lambda>i. sint (g ! i)"]
    by (simp add: fe_value_def dvd_mult flip: right_diff_distrib)
  then show ?thesis
    using r s assms(3) by (simp add: fe_limbs_def product_ranges_def mod_eq_dvd_iff)
qed

lemma length_fe_product: "length (fe_product f g) = 10"
  by (simp add: fe_product_def)

lemma fe_mul_spec:
  assumes "fe_bounded 330 f" and "fe_bounded 330 g"
  shows "fe_bounded 101 (fe_mul f g) \<and> fe_value (fe_mul f g) mod fe_prime = (fe_value f * fe_value g) mod fe_prime"
  using fe_reduce_spec [OF fe_limbs_product [OF assms, of "fe_product f g" 1]] fe_product_nth [OF assms]
  by (simp add: fe_mul_def fe_product_def)

lemma sum_10: "(\<Sum>i<(10 :: nat). t i) = t 0 + t 1 + t 2 + t 3 + t 4 + t 5 + t 6 + t 7 + t 8 + (t 9 :: int)"
proof -
  have "{..<10} = {0, 1, 2, 3, 4, 5, 6, 7, 8, 9 :: nat}" using lt_10E by auto
  then show ?thesis by (simp add: add.assoc)
qed

lemma fe_conv_square:
  "map (fe_conv x x) [0, 1, 2, 3, 4, 5, 6, 7, 8, 9] =
    [x 0 * x 0 + 2 * x 1 * (38 * x 9) + 2 * x 2 * (19 * x 8) + 2 * x 3 * (38 * x 7) + 2 * x 4 * (19 * x 6) + x 5 * (38 * x 5),
     2 * x 0 * x 1 + x 2 * (38 * x 9) + 2 * x 3 * (19 * x 8) + x 4 * (38 * x 7) + 2 * x 5 * (19 * x 6),
     2 * x 0 * x 2 + 2 * x 1 * x 1 + 2 * x 3 * (38 * x 9) + 2 * x 4 * (19 * x 8) + 2 * x 5 * (38 * x 7) + x 6 * (19 * x 6),
     2 * x 0 * x 3 + 2 * x 1 * x 2 + x 4 * (38 * x 9) + 2 * x 5 * (19 * x 8) + x 6 * (38 * x 7),
     2 * x 0 * x 4 + 2 * x 1 * (2 * x 3) + x 2 * x 2 + 2 * x 5 * (38 * x 9) + 2 * x 6 * (19 * x 8) + x 7 * (38 * x 7),
     2 * x 0 * x 5 + 2 * x 1 * x 4 + 2 * x 2 * x 3 + x 6 * (38 * x 9) + 2 * x 7 * (19 * x 8),
     2 * x 0 * x 6 + 2 * x 1 * (2 * x 5) + 2 * x 2 * x 4 + 2 * x 3 * x 3 + 2 * x 7 * (38 * x 9) + x 8 * (19 * x 8),
     2 * x 0 * x 7 + 2 * x 1 * x 6 + 2 * x 2 * x 5 + 2 * x 3 * x 4 + x 8 * (38 * x 9),
     2 * x 0 * x 8 + 2 * x 1 * (2 * x 7) + 2 * x 2 * x 6 + 2 * x 3 * (2 * x 5) + x 4 * x 4 + x 9 * (38 * x 9),
     2 * x 0 * x 9 + 2 * x 1 * x 8 + 2 * x 2 * x 7 + 2 * x 3 * x 6 + 2 * x 4 * x 5]"
  by (simp add: fe_conv_def fe_coeff_def sum_10)

lemma fe_square_eq:
  assumes "fe_bounded 330 f"
  shows "fe_square f = fe_product f f"
proof -
  let ?x = "\<lambda>i. sint (f ! i)"
  have two: "sint (2 * f ! i) = 2 * sint (f ! i)" if "i < 10" for i
    using sint_scaled [of 2 "f ! i"] mul_limb(1) [OF assms that] by simp
  have nineteen: "sint (19 * f ! i) = 19 * sint (f ! i)" if "i < 10" for i
    using sint_scaled [of 19 "f ! i"] mul_limb(1) [OF assms that] by simp
  have more: "sint (38 * f ! i) = 38 * sint (f ! i)" if "i < 10" "odd i" for i
    using sint_scaled [of 38 "f ! i"] mul_limb(2) [OF assms that] by simp
  have two_all: "sint (2 * f ! 0) = 2 * ?x 0" "sint (2 * f ! 1) = 2 * ?x 1" "sint (2 * f ! 2) = 2 * ?x 2"
    "sint (2 * f ! 3) = 2 * ?x 3" "sint (2 * f ! 4) = 2 * ?x 4" "sint (2 * f ! 5) = 2 * ?x 5"
    "sint (2 * f ! 6) = 2 * ?x 6" "sint (2 * f ! 7) = 2 * ?x 7" by (simp_all add: two)
  have more_all: "sint (38 * f ! 5) = 38 * ?x 5" "sint (38 * f ! 7) = 38 * ?x 7" "sint (38 * f ! 9) = 38 * ?x 9"
    "sint (19 * f ! 6) = 19 * ?x 6" "sint (19 * f ! 8) = 19 * ?x 8" by (simp_all add: more nineteen)
  have "fe_square f = map word_of_int (map (fe_conv ?x ?x) [0, 1, 2, 3, 4, 5, 6, 7, 8, 9])"
    unfolding fe_conv_square fe_square_def Let_def wide_eq two_all more_all
    by (simp only: list.map of_int_add)
  moreover have "fe_product f f = map word_of_int (map (fe_conv ?x ?x) [0..<10])"
    by (rule nth_equalityI)
      (simp_all only: fe_product_nth [OF assms assms] length_fe_product length_map length_upt nth_map nth_upt, simp_all)
  moreover have "[0..<10] = [0, 1, 2, 3, 4, 5, 6, 7, 8, 9 :: nat]" by code_simp
  ultimately show ?thesis by (simp only:)
qed

lemma fe_sq_spec:
  assumes "fe_bounded 330 f"
  shows "fe_bounded 101 (fe_sq f) \<and> fe_value (fe_sq f) mod fe_prime = (fe_value f * fe_value f) mod fe_prime"
  using fe_mul_spec [OF assms assms] by (simp add: fe_sq_def fe_mul_def fe_square_eq [OF assms])

lemma fe_sq2_spec:
  assumes "fe_bounded 330 f"
  shows "fe_bounded 101 (fe_sq2 f) \<and> fe_value (fe_sq2 f) mod fe_prime = (2 * (fe_value f * fe_value f)) mod fe_prime"
  using fe_reduce_spec [OF fe_limbs_product [OF assms assms, of "map (\<lambda>h. h + h) (fe_product f f)" 2]]
    fe_product_nth [OF assms assms] length_fe_product [of f f]
  by (simp add: fe_sq2_def fe_square_eq [OF assms])

section \<open>Addition chains\<close>

text \<open>
  What the power functions and the curve formulas rely on: a multiplication and a squaring that
  keep elements reduced and act on their values modulo a number. \<open>monomial u v a b x\<close> says that \<open>x\<close>
  holds the product of powers \<open>u ^ a * v ^ b\<close>.
\<close>

locale modular_arithmetic =
  fixes mul :: "'e \<Rightarrow> 'e \<Rightarrow> 'e"
    and sq :: "'e \<Rightarrow> 'e"
    and usable :: "'e \<Rightarrow> bool"
    and val :: "'e \<Rightarrow> int"
    and p :: int
  assumes mul_law: "usable x \<Longrightarrow> usable y \<Longrightarrow> usable (mul x y) \<and> val (mul x y) mod p = (val x * val y) mod p"
    and sq_law: "usable x \<Longrightarrow> usable (sq x) \<and> val (sq x) mod p = (val x * val x) mod p"
begin

definition monomial :: "int \<Rightarrow> int \<Rightarrow> nat \<Rightarrow> nat \<Rightarrow> 'e \<Rightarrow> bool" where
  "monomial u v a b x \<longleftrightarrow> usable x \<and> val x mod p = (u ^ a * v ^ b) mod p"

lemma monomial_first: "usable x \<Longrightarrow> val x mod p = u mod p \<Longrightarrow> monomial u v 1 0 x"
  by (simp add: monomial_def)

lemma monomial_second: "usable x \<Longrightarrow> val x mod p = v mod p \<Longrightarrow> monomial u v 0 1 x"
  by (simp add: monomial_def)

lemma monomial_mul:
  assumes "monomial u v a b x" and "monomial u v c d y"
  shows "monomial u v (a + c) (b + d) (mul x y)"
proof -
  have "val (mul x y) mod p = (val x * val y) mod p" using assms mul_law by (simp add: monomial_def)
  also have "\<dots> = (val x mod p * (val y mod p)) mod p" by (simp only: mod_mult_eq)
  also have "\<dots> = (u ^ a * v ^ b mod p * (u ^ c * v ^ d mod p)) mod p"
    using assms by (simp add: monomial_def)
  also have "\<dots> = (u ^ (a + c) * v ^ (b + d)) mod p"
    by (simp add: mod_mult_eq power_add ac_simps)
  finally show ?thesis using assms mul_law by (simp add: monomial_def)
qed

lemma monomial_sq:
  assumes "monomial u v a b x"
  shows "monomial u v (2 * a) (2 * b) (sq x)"
proof -
  have "val (sq x) mod p = val (mul x x) mod p"
    using assms mul_law [of x x] sq_law by (simp add: monomial_def)
  then show ?thesis
    using monomial_mul [OF assms assms] sq_law assms by (simp add: monomial_def mult_2)
qed

lemma monomial_sqs: "monomial u v a b x \<Longrightarrow> monomial u v (2 ^ n * a) (2 ^ n * b) ((sq ^^ n) x)"
proof (induction n)
  case (Suc n)
  then show ?case using monomial_sq [of u v "2 ^ n * a" "2 ^ n * b"] by (simp add: mult.assoc)
qed simp

end

interpretation field: modular_arithmetic fe_mul fe_sq "fe_bounded 330" fe_value fe_prime
proof
  fix x y assume "fe_bounded 330 x" and "fe_bounded 330 y"
  then show "fe_bounded 330 (fe_mul x y) \<and> fe_value (fe_mul x y) mod fe_prime = fe_value x * fe_value y mod fe_prime"
    using fe_mul_spec fe_bounded_mono [of 101 _ 330] by simp
next
  fix x assume "fe_bounded 330 x"
  then show "fe_bounded 330 (fe_sq x) \<and> fe_value (fe_sq x) mod fe_prime = fe_value x * fe_value x mod fe_prime"
    using fe_sq_spec fe_bounded_mono [of 101 _ 330] by simp
qed

lemma fe_invert_monomial:
  assumes z: "field.monomial u v a b z"
  shows "fe_bounded 101 (fe_invert z) \<and> field.monomial u v ((2 ^ 255 - 21) * a) ((2 ^ 255 - 21) * b) (fe_invert z)"
proof -
  define x2 where "x2 = fe_sq z"
  define x9 where "x9 = fe_mul z (fe_sq (fe_sq x2))"
  define x11 where "x11 = fe_mul x2 x9"
  define y5 where "y5 = fe_mul x9 (fe_sq x11)"
  define y10 where "y10 = fe_mul ((fe_sq ^^ 4) (fe_sq y5)) y5"
  define y20 where "y20 = fe_mul ((fe_sq ^^ 9) (fe_sq y10)) y10"
  define y40 where "y40 = fe_mul ((fe_sq ^^ 19) (fe_sq y20)) y20"
  define y50 where "y50 = fe_mul ((fe_sq ^^ 9) (fe_sq y40)) y10"
  define y100 where "y100 = fe_mul ((fe_sq ^^ 49) (fe_sq y50)) y50"
  define y200 where "y200 = fe_mul ((fe_sq ^^ 99) (fe_sq y100)) y100"
  define y250 where "y250 = fe_mul ((fe_sq ^^ 49) (fe_sq y200)) y50"
  have inv: "fe_invert z = fe_mul ((fe_sq ^^ 4) (fe_sq y250)) x11"
    by (simp only: fe_invert_def Let_def x2_def x9_def x11_def y5_def y10_def y20_def y40_def y50_def y100_def y200_def y250_def)
  have x2: "field.monomial u v (2 * a) (2 * b) x2" unfolding x2_def by (rule field.monomial_sq [OF z])
  have x9: "field.monomial u v (9 * a) (9 * b) x9"
    unfolding x9_def using field.monomial_mul [OF z field.monomial_sq [OF field.monomial_sq [OF x2]]]
    by (simp add: algebra_simps)
  have x11: "field.monomial u v (11 * a) (11 * b) x11"
    unfolding x11_def using field.monomial_mul [OF x2 x9] by (simp add: algebra_simps)
  have y5: "field.monomial u v (31 * a) (31 * b) y5"
    unfolding y5_def using field.monomial_mul [OF x9 field.monomial_sq [OF x11]] by (simp add: algebra_simps)
  have step: "field.monomial u v ((2 ^ Suc m * k + l) * a) ((2 ^ Suc m * k + l) * b) (fe_mul ((fe_sq ^^ m) (fe_sq s)) t)"
    if "field.monomial u v (k * a) (k * b) s" and "field.monomial u v (l * a) (l * b) t" for k l m s t
    using field.monomial_mul [OF field.monomial_sqs [OF field.monomial_sq [OF that(1)]] that(2), of m]
    by (simp add: algebra_simps)
  have y10: "field.monomial u v ((2 ^ 10 - 1) * a) ((2 ^ 10 - 1) * b) y10"
    unfolding y10_def using step [OF y5 y5, of 4] by simp
  have y20: "field.monomial u v ((2 ^ 20 - 1) * a) ((2 ^ 20 - 1) * b) y20"
    unfolding y20_def using step [OF y10 y10, of 9] by simp
  have y40: "field.monomial u v ((2 ^ 40 - 1) * a) ((2 ^ 40 - 1) * b) y40"
    unfolding y40_def using step [OF y20 y20, of 19] by simp
  have y50: "field.monomial u v ((2 ^ 50 - 1) * a) ((2 ^ 50 - 1) * b) y50"
    unfolding y50_def using step [OF y40 y10, of 9] by simp
  have y100: "field.monomial u v ((2 ^ 100 - 1) * a) ((2 ^ 100 - 1) * b) y100"
    unfolding y100_def using step [OF y50 y50, of 49] by simp
  have y200: "field.monomial u v ((2 ^ 200 - 1) * a) ((2 ^ 200 - 1) * b) y200"
    unfolding y200_def using step [OF y100 y100, of 99] by simp
  have y250: "field.monomial u v ((2 ^ 250 - 1) * a) ((2 ^ 250 - 1) * b) y250"
    unfolding y250_def using step [OF y200 y50, of 49] by simp
  have "fe_bounded 330 ((fe_sq ^^ 4) (fe_sq y250))" "fe_bounded 330 x11"
    using field.monomial_sqs [OF field.monomial_sq [OF y250], of 4] x11 by (simp_all add: field.monomial_def)
  from fe_mul_spec [OF this] show ?thesis unfolding inv using step [OF y250 x11, of 4] by simp
qed

lemma fe_divpowm1_monomial:
  assumes x: "field.monomial u v 1 0 x" and y: "field.monomial u v 0 1 y"
  shows "fe_bounded 101 (fe_divpowm1 x y) \<and> field.monomial u v (2 ^ 252 - 2) (7 * (2 ^ 252 - 3) + 3) (fe_divpowm1 x y)"
proof -
  define v3 where "v3 = fe_mul (fe_sq y) y"
  define w where "w = fe_mul (fe_mul (fe_sq v3) y) x"
  define w9 where "w9 = fe_mul w (fe_sq (fe_sq (fe_sq w)))"
  define y5 where "y5 = fe_mul w9 (fe_sq (fe_mul (fe_sq w) w9))"
  define y10 where "y10 = fe_mul ((fe_sq ^^ 4) (fe_sq y5)) y5"
  define y20 where "y20 = fe_mul ((fe_sq ^^ 9) (fe_sq y10)) y10"
  define y40 where "y40 = fe_mul ((fe_sq ^^ 19) (fe_sq y20)) y20"
  define y50 where "y50 = fe_mul ((fe_sq ^^ 10) y40) y10"
  define y100 where "y100 = fe_mul ((fe_sq ^^ 49) (fe_sq y50)) y50"
  define y200 where "y200 = fe_mul ((fe_sq ^^ 99) (fe_sq y100)) y100"
  define y250 where "y250 = fe_mul ((fe_sq ^^ 50) y200) y50"
  have div: "fe_divpowm1 x y = fe_mul (fe_mul (fe_mul (fe_sq (fe_sq y250)) w) v3) x"
    by (simp only: fe_divpowm1_def Let_def v3_def w_def w9_def y5_def y10_def y20_def y40_def y50_def y100_def y200_def y250_def)
  note mul = field.monomial_mul and sq = field.monomial_sq
  have v3: "field.monomial u v 0 3 v3" unfolding v3_def using mul [OF sq [OF y] y] by simp
  have w: "field.monomial u v 1 7 w" unfolding w_def using mul [OF mul [OF sq [OF v3] y] x] by simp
  have w9: "field.monomial u v 9 (9 * 7) w9" unfolding w9_def using mul [OF w sq [OF sq [OF sq [OF w]]]] by simp
  have y5: "field.monomial u v 31 (31 * 7) y5"
    unfolding y5_def using mul [OF w9 sq [OF mul [OF sq [OF w] w9]]] by simp
  have step: "field.monomial u v (2 ^ m * k + l) ((2 ^ m * k + l) * 7) (fe_mul ((fe_sq ^^ m) s) t)"
    if "field.monomial u v k (k * 7) s" and "field.monomial u v l (l * 7) t" for k l m s t
    using mul [OF field.monomial_sqs [OF that(1)] that(2), of m] by (simp add: algebra_simps)
  have step': "field.monomial u v (2 ^ Suc m * k + l) ((2 ^ Suc m * k + l) * 7) (fe_mul ((fe_sq ^^ m) (fe_sq s)) t)"
    if "field.monomial u v k (k * 7) s" and "field.monomial u v l (l * 7) t" for k l m s t
    using step [OF that, of "Suc m"] by (simp add: funpow_swap1)
  have y10: "field.monomial u v (2 ^ 10 - 1) ((2 ^ 10 - 1) * 7) y10"
    unfolding y10_def using step' [OF y5 y5, of 4] by simp
  have y20: "field.monomial u v (2 ^ 20 - 1) ((2 ^ 20 - 1) * 7) y20"
    unfolding y20_def using step' [OF y10 y10, of 9] by simp
  have y40: "field.monomial u v (2 ^ 40 - 1) ((2 ^ 40 - 1) * 7) y40"
    unfolding y40_def using step' [OF y20 y20, of 19] by simp
  have y50: "field.monomial u v (2 ^ 50 - 1) ((2 ^ 50 - 1) * 7) y50"
    unfolding y50_def using step [OF y40 y10, of 10] by simp
  have y100: "field.monomial u v (2 ^ 100 - 1) ((2 ^ 100 - 1) * 7) y100"
    unfolding y100_def using step' [OF y50 y50, of 49] by simp
  have y200: "field.monomial u v (2 ^ 200 - 1) ((2 ^ 200 - 1) * 7) y200"
    unfolding y200_def using step' [OF y100 y100, of 99] by simp
  have y250: "field.monomial u v (2 ^ 250 - 1) ((2 ^ 250 - 1) * 7) y250"
    unfolding y250_def using step [OF y200 y50, of 50] by simp
  note last = mul [OF mul [OF sq [OF sq [OF y250]] w] v3]
  have "fe_bounded 330 (fe_mul (fe_mul (fe_sq (fe_sq y250)) w) v3)" "fe_bounded 330 x"
    using last x by (simp_all add: field.monomial_def)
  from fe_mul_spec [OF this] show ?thesis unfolding div using mul [OF last x] by simp
qed

section \<open>Canonical bytes\<close>

lemma stored_limb_inner:
  fixes w :: u32 and n :: nat
  assumes "\<And>m. bit w m \<longleftrightarrow> m < b \<and> bit n (e + m)" and "s + 8 \<le> b \<or> (\<forall>m \<ge> e + b. \<not> bit n m)" and "b \<le> 31"
    and "8 * j = e + s" and "s + 8 \<le> 31"
  shows "ucast (signed_drop_bit s w) = (word_of_nat (n div 256 ^ j mod 256) :: byte)"
proof (rule bit_word_eqI)
  fix m assume "m < LENGTH(8)"
  then have m: "m < 8" by simp
  have "n div 256 ^ j mod 256 = take_bit 8 (drop_bit (8 * j) n)"
    by (simp add: take_bit_eq_mod drop_bit_eq_div power_mult)
  then have "bit (word_of_nat (n div 256 ^ j mod 256) :: byte) m \<longleftrightarrow> bit n (e + s + m)"
    using m assms(4) by (simp add: bit_simps)
  moreover have "bit (ucast (signed_drop_bit s w) :: byte) m \<longleftrightarrow> bit w (s + m)"
    using m assms(5) by (auto simp: bit_simps)
  ultimately show "bit (ucast (signed_drop_bit s w) :: byte) m \<longleftrightarrow> bit (word_of_nat (n div 256 ^ j mod 256) :: byte) m"
    using assms(1) [of "s + m"] assms(2) m by (auto simp: add.assoc)
qed

lemma stored_limb_split:
  fixes w v :: u32 and n :: nat
  assumes "\<And>m. bit w m \<longleftrightarrow> m < b \<and> bit n (e + m)" and "\<And>m. bit v m \<longleftrightarrow> m < b' \<and> bit n (e + b + m)"
    and "s + k = b" and "b \<le> 31" and "8 \<le> b'" and "8 * j = e + s"
  shows "ucast (signed_drop_bit s w OR push_bit k v) = (word_of_nat (n div 256 ^ j mod 256) :: byte)"
proof (rule bit_word_eqI)
  fix m assume "m < LENGTH(8)"
  then have m: "m < 8" by simp
  have "n div 256 ^ j mod 256 = take_bit 8 (drop_bit (8 * j) n)"
    by (simp add: take_bit_eq_mod drop_bit_eq_div power_mult)
  then have r: "bit (word_of_nat (n div 256 ^ j mod 256) :: byte) m \<longleftrightarrow> bit n (e + s + m)"
    using m assms(6) by (simp add: bit_simps)
  have hi: "\<not> bit w 31" "\<And>i. b \<le> i \<Longrightarrow> \<not> bit w i" using assms(1,4) by auto
  have "bit (signed_drop_bit s w) m \<longleftrightarrow> bit w (s + m)"
    using hi m by (auto simp: bit_signed_drop_bit_iff dest: bit_imp_le_length)
  then have l: "bit (ucast (signed_drop_bit s w OR push_bit k v) :: byte) m \<longleftrightarrow> bit w (s + m) \<or> k \<le> m \<and> bit v (m - k)"
    using m by (auto simp: bit_simps)
  show "bit (ucast (signed_drop_bit s w OR push_bit k v) :: byte) m \<longleftrightarrow> bit (word_of_nat (n div 256 ^ j mod 256) :: byte) m"
  proof (cases "k \<le> m")
    case True
    then have "e + b + (m - k) = e + s + m" using assms(3) by simp
    then show ?thesis unfolding l r using assms(1) [of "s + m"] assms(2) [of "m - k"] assms(3,5) True m by auto
  next
    case False
    then show ?thesis unfolding l r using assms(1) [of "s + m"] assms(3) by (auto simp: add.assoc)
  qed
qed

lemma fe_store_eq:
  fixes n :: nat
  assumes "\<And>i m. i < 10 \<Longrightarrow> bit (h ! i) m \<longleftrightarrow> m < limb_bits i \<and> bit n (fe_weight i + m)" and "n < 2 ^ 255"
  shows "fe_store h = le_bytes 32 n"
proof -
  let ?B = "\<lambda>j. word_of_nat (n div 256 ^ j mod 256) :: byte"
  have top: "\<not> bit n m" if "255 \<le> m" for m
  proof -
    have "n < 2 ^ m" using assms(2) power_increasing [OF that, of "2 :: nat"] by linarith
    then show ?thesis by (simp add: bit_iff_odd)
  qed
  have inner: "ucast (signed_drop_bit s (h ! i)) = ?B j"
    if "i < 10" "8 * j = fe_weight i + s" "s + 8 \<le> limb_bits i \<or> i = 9" "s + 8 \<le> 31" for i j s
    by (rule stored_limb_inner [OF assms(1) [OF that(1)] _ _ that(2)])
      (use that top fe_weight_Suc [of 9] in \<open>auto simp: limb_bits_def fe_weight_def\<close>)
  have split: "ucast (signed_drop_bit s (h ! i) OR push_bit k (h ! i')) = ?B j"
    if "i < 9" "i' = Suc i" "8 * j = fe_weight i + s" "s + k = limb_bits i" for i i' j s k
    by (rule stored_limb_split [where b = "limb_bits i" and b' = "limb_bits i'" and e = "fe_weight i"])
      (use that assms(1) fe_weight_Suc [of i] in \<open>auto simp: limb_bits_def\<close>)
  have bytes: "le_bytes 32 n = map ?B [0..<32]"
    by (rule nth_equalityI) (simp_all add: le_bytes_nth)
  have idx: "[0..<32] = [0, 1, 2, 3, 4, 5, 6, 7, 8, 9, 10, 11, 12, 13, 14, 15, 16, 17, 18, 19, 20, 21,
      22, 23, 24, 25, 26, 27, 28, 29, 30, 31 :: nat]" by code_simp
  show ?thesis unfolding bytes idx fe_store_def list.map
    by (intro arg_cong2 [where f = Cons] refl inner split; simp add: fe_weight_def limb_bits_def)
qed

text \<open>The value of the limbs below a position.\<close>

definition low_value :: "nat \<Rightarrow> u32 list \<Rightarrow> int" where
  "low_value n h = (\<Sum>i<n. sint (h ! i) * 2 ^ fe_weight i)"

lemma low_value_Suc: "low_value (Suc n) h = low_value n h + sint (h ! n) * 2 ^ fe_weight n"
  by (simp add: low_value_def)

lemma low_value_10: "low_value 10 h = fe_value h"
  by (simp add: low_value_def fe_value_def)

lemma nested_floor:
  fixes a x :: int
  shows "(x + a div 2 ^ m) div 2 ^ b = (a + x * 2 ^ m) div 2 ^ (m + b)"
proof -
  have "x + a div 2 ^ m = (a + x * 2 ^ m) div 2 ^ m" by simp
  then show ?thesis by (simp add: power_add zdiv_zmult2_eq)
qed

lemma tobytes_limb:
  assumes "fe_bounded 220 h" and "i < 10"
  shows "\<bar>sint (h ! i)\<bar> \<le> 73819750" and "odd i \<Longrightarrow> \<bar>sint (h ! i)\<bar> \<le> 36909875"
    and "\<bar>sint (h ! i)\<bar> < 2 * 2 ^ limb_bits i"
  using fe_bounded_limb [OF assms] by (auto simp: limb_bits_def)

lemma div_bound:
  fixes y m k :: int
  assumes "\<bar>y\<bar> \<le> k * m" and "0 < m"
  shows "\<bar>y div m\<bar> \<le> k"
proof -
  have "- k * m \<le> y" "y \<le> k * m" using assms(1) by (simp_all add: abs_le_iff)
  then have "- k * m div m \<le> y div m" "y div m \<le> k * m div m" using assms(2) by (simp_all only: zdiv_mono1)
  moreover have "- k * m div m = - k" "k * m div m = k"
    using assms(2) by (intro nonzero_mult_div_cancel_right; simp)+
  ultimately show ?thesis unfolding abs_le_iff by linarith
qed

lemma quotient_step:
  assumes "fe_bounded 220 h" and "i < 10" and "\<bar>sint q\<bar> \<le> 100"
  shows "sint (signed_drop_bit (limb_bits i) (h ! i + q)) = (sint (h ! i) + sint q) div 2 ^ limb_bits i"
    and "\<bar>(sint (h ! i) + sint q) div 2 ^ limb_bits i\<bar> \<le> 3"
proof -
  have "sint (h ! i + q) = sint (h ! i) + sint q"
    by (rule sint_u32) (use tobytes_limb(1) [OF assms(1,2)] assms(3) in \<open>auto simp: abs_le_iff\<close>)
  then show "sint (signed_drop_bit (limb_bits i) (h ! i + q)) = (sint (h ! i) + sint q) div 2 ^ limb_bits i"
    by (simp add: sint_signed_drop_bit_eq drop_bit_eq_div)
  have "\<bar>sint (h ! i) + sint q\<bar> \<le> 3 * 2 ^ limb_bits i"
    using tobytes_limb(3) [OF assms(1,2)] assms(3) by (auto simp: limb_bits_def split: if_splits)
  then show "\<bar>(sint (h ! i) + sint q) div 2 ^ limb_bits i\<bar> \<le> 3" by (rule div_bound) simp
qed

lemma fe_quotient_eq:
  assumes "fe_bounded 220 h"
  shows "sint (fe_quotient h) = ((19 * sint (h ! 9) + 2 ^ 24) div 2 ^ 25 + fe_value h) div 2 ^ 255"
    and "\<bar>sint (fe_quotient h)\<bar> \<le> 3"
proof -
  define q0 where "q0 = signed_drop_bit 25 (19 * h ! 9 + push_bit 24 1)"
  define a where "a = (19 * sint (h ! 9) + 2 ^ 24) div 2 ^ 25"
  have x9: "\<bar>sint (h ! 9)\<bar> \<le> 36909875" using tobytes_limb(2) [OF assms, of 9] by simp
  have "sint (19 * h ! 9 + push_bit 24 1) = 19 * sint (h ! 9) + 2 ^ 24"
    by (rule sint_u32) (use x9 in \<open>auto simp: abs_le_iff push_bit_eq_mult\<close>)
  then have q0: "sint q0 = a" by (simp add: q0_def a_def sint_signed_drop_bit_eq drop_bit_eq_div)
  have a: "\<bar>a\<bar> \<le> 100" unfolding a_def by (rule div_bound) (use x9 in \<open>auto simp: abs_le_iff\<close>)
  have "sint (fold (\<lambda>i q. signed_drop_bit (limb_bits i) (h ! i + q)) [0..<n] q0)
        = (a + low_value n h) div 2 ^ fe_weight n
      \<and> \<bar>(a + low_value n h) div 2 ^ fe_weight n\<bar> \<le> (if n = 0 then 100 else 3)" if "n \<le> 10" for n
    using that
  proof (induction n)
    case 0
    then show ?case using q0 a by (simp add: low_value_def fe_weight_def)
  next
    case (Suc n)
    let ?q = "fold (\<lambda>i q. signed_drop_bit (limb_bits i) (h ! i + q)) [0..<n] q0"
    have IH: "sint ?q = (a + low_value n h) div 2 ^ fe_weight n" and b: "\<bar>sint ?q\<bar> \<le> 100"
      using Suc by (auto split: if_splits)
    have eq: "(sint (h ! n) + sint ?q) div 2 ^ limb_bits n = (a + low_value (Suc n) h) div 2 ^ fe_weight (Suc n)"
      unfolding IH nested_floor fe_weight_Suc low_value_Suc by (simp add: add.assoc)
    have "n < 10" using Suc.prems by simp
    from quotient_step [OF assms this b] show ?case unfolding eq by simp
  qed
  from this [of 10] have "sint (fold (\<lambda>i q. signed_drop_bit (limb_bits i) (h ! i + q)) [0..<10] q0)
      = (a + fe_value h) div 2 ^ 255 \<and> \<bar>(a + fe_value h) div 2 ^ 255\<bar> \<le> 3"
    by (simp only: low_value_10) (simp add: fe_weight_def)
  moreover have "[0..<10] = [0, 1, 2, 3, 4, 5, 6, 7, 8, 9 :: nat]" by code_simp
  ultimately show "sint (fe_quotient h) = ((19 * sint (h ! 9) + 2 ^ 24) div 2 ^ 25 + fe_value h) div 2 ^ 255" "\<bar>sint (fe_quotient h)\<bar> \<le> 3"
    unfolding fe_quotient_def q0_def [symmetric] a_def [symmetric] by (simp_all only:)
qed

lemma floor_bounds: "0 < (m :: int) \<Longrightarrow> m * (y div m) \<le> y \<and> y < m * (y div m + 1)"
  using mult_div_mod_eq [of m y] pos_mod_bound [of m y] pos_mod_sign [of m y]
  unfolding distrib_left by linarith

text \<open>The quotient is the one that makes the remainder canonical.\<close>

lemma canonical_remainder:
  fixes V x a :: int
  assumes "a = (19 * x + 2 ^ 24) div 2 ^ 25" and "\<bar>V - x * 2 ^ 230\<bar> < 2 ^ 231" and "\<bar>a\<bar> \<le> 100"
    and "q = (a + V) div 2 ^ 255"
  shows "V - fe_prime * q = V mod fe_prime"
proof -
  define t where "t = (a + V) mod 2 ^ 255"
  have t: "0 \<le> t" "t < 2 ^ 255" by (simp_all add: t_def)
  have V: "V = 2 ^ 255 * q + t - a" using mult_div_mod_eq [of "2 ^ 255" "a + V"] by (simp add: t_def assms(4))
  define d where "d = a - 19 * q"
  have r: "V - fe_prime * q = t - d" by (simp add: V fe_prime_def d_def algebra_simps)
  have "2 ^ 25 * a \<le> 19 * x + 2 ^ 24" "19 * x + 2 ^ 24 < 2 ^ 25 * (a + 1)"
    using floor_bounds [of "2 ^ 25" "19 * x + 2 ^ 24"] by (simp_all add: assms(1))
  then have "2 ^ 255 * d \<le> 19 * t + 2 ^ 254 + 2 ^ 237" "19 * t + 2 ^ 254 - 2 ^ 237 < 2 ^ 255 * (d + 1)"
    using assms(2,3) by (simp_all add: V d_def abs_less_iff abs_le_iff)
  then have "d \<le> t" "t - d < 2 ^ 255 - 19"
    using t by simp_all
  then have "(t - d) mod fe_prime = t - d" by (intro mod_pos_pos_trivial) (simp_all add: fe_prime_def)
  moreover have "V mod fe_prime = (t - d) mod fe_prime"
  proof -
    have "V = t - d + fe_prime * q" using r by linarith
    then show ?thesis by (simp only: mod_mult_self2)
  qed
  ultimately show ?thesis using r by simp
qed

section \<open>The digits after the flooring carries\<close>

lemma floor_carry_step:
  assumes "i < 10" and "length h = 10" and "\<bar>sint (h ! i)\<bar> \<le> 1000000000" and "i < 9 \<Longrightarrow> \<bar>sint (h ! Suc i)\<bar> \<le> 1000000000"
  shows "sint (fe_floor_carry i h ! i) = sint (h ! i) mod 2 ^ limb_bits i"
    and "i < 9 \<Longrightarrow> sint (fe_floor_carry i h ! Suc i) = sint (h ! Suc i) + sint (h ! i) div 2 ^ limb_bits i"
    and "j \<noteq> i \<Longrightarrow> j \<noteq> Suc i \<Longrightarrow> fe_floor_carry i h ! j = h ! j"
    and "length (fe_floor_carry i h) = 10"
proof -
  let ?c = "sint (h ! i) div 2 ^ limb_bits i"
  have "sint (signed_drop_bit (limb_bits i) (h ! i)) = ?c"
    by (simp add: sint_signed_drop_bit_eq drop_bit_eq_div)
  then have cw: "signed_drop_bit (limb_bits i) (h ! i) = word_of_int ?c"
    by (metis word_of_sint)
  have "h ! i - push_bit (limb_bits i) (word_of_int ?c) = word_of_int (sint (h ! i) - 2 ^ limb_bits i * ?c)"
    by (simp add: push_bit_eq_mult mult.commute)
  also have "sint (h ! i) - 2 ^ limb_bits i * ?c = sint (h ! i) mod 2 ^ limb_bits i"
    by (simp add: minus_mult_div_eq_mod)
  finally have "sint (h ! i - push_bit (limb_bits i) (word_of_int ?c)) = sint (h ! i) mod 2 ^ limb_bits i"
    by (rule sint_u32) (use pos_mod_bound [of "2 ^ limb_bits i" "sint (h ! i)"] in \<open>auto simp: limb_bits_def split: if_splits\<close>)
  then show "sint (fe_floor_carry i h ! i) = sint (h ! i) mod 2 ^ limb_bits i"
    using assms(1,2) by (simp add: fe_floor_carry_def Let_def cw)
  show "sint (fe_floor_carry i h ! Suc i) = sint (h ! Suc i) + ?c" if "i < 9"
  proof -
    have "\<bar>?c\<bar> \<le> 1000" using assms(3) by (intro div_bound) (auto simp: limb_bits_def)
    then have "sint (h ! Suc i + word_of_int ?c) = sint (h ! Suc i) + ?c"
      by (intro sint_u32) (use assms(4) [OF that] in \<open>auto simp: abs_le_iff\<close>)
    then show ?thesis using that assms(2) by (simp add: fe_floor_carry_def Let_def cw)
  qed
  show "j \<noteq> i \<Longrightarrow> j \<noteq> Suc i \<Longrightarrow> fe_floor_carry i h ! j = h ! j" "length (fe_floor_carry i h) = 10"
    using assms(2) by (simp_all add: fe_floor_carry_def Let_def)
qed

text \<open>After the first \<open>n\<close> carries the lower limbs are digits and limb \<open>n\<close> has absorbed the rest.\<close>

lemma low_value_split:
  assumes "n \<le> m"
  shows "\<exists>K. low_value m h = low_value n h + 2 ^ fe_weight n * K"
  using assms
proof (induction rule: dec_induct)
  case base
  show ?case by (intro exI [of _ 0]) simp
next
  case (step m)
  then obtain K where K: "low_value m h = low_value n h + 2 ^ fe_weight n * K" by blast
  have "fe_weight n \<le> fe_weight m" using step.hyps(1) by (simp add: fe_weight_def div_le_mono)
  then have "(2 :: int) ^ fe_weight m = 2 ^ fe_weight n * 2 ^ (fe_weight m - fe_weight n)" by (simp flip: power_add)
  then have "low_value (Suc m) h = low_value n h + 2 ^ fe_weight n * (K + sint (h ! m) * 2 ^ (fe_weight m - fe_weight n))"
    by (simp add: low_value_Suc K algebra_simps)
  then show ?case by blast
qed

lemma digit_of_value:
  assumes "n < 10"
  shows "(sint (h ! n) + low_value n h div 2 ^ fe_weight n) mod 2 ^ limb_bits n = fe_value h div 2 ^ fe_weight n mod 2 ^ limb_bits n"
proof -
  obtain K where "fe_value h = low_value (Suc n) h + 2 ^ fe_weight (Suc n) * K"
    using low_value_split [of "Suc n" 10 h] assms by (auto simp: low_value_10)
  then have "fe_value h = low_value n h + (sint (h ! n) + 2 ^ limb_bits n * K) * 2 ^ fe_weight n"
    by (simp add: low_value_Suc fe_weight_Suc power_add algebra_simps)
  then have "fe_value h div 2 ^ fe_weight n = sint (h ! n) + 2 ^ limb_bits n * K + low_value n h div 2 ^ fe_weight n"
    by simp
  also have "\<dots> = sint (h ! n) + low_value n h div 2 ^ fe_weight n + 2 ^ limb_bits n * K" by simp
  finally show ?thesis by simp
qed

lemma floor_carries:
  assumes "length h = 10" and "\<And>i. i < 10 \<Longrightarrow> \<bar>sint (h ! i)\<bar> \<le> 100000000" and "n \<le> 10"
  shows "length (fold fe_floor_carry [0..<n] h) = 10
    \<and> (\<forall>i < n. sint (fold fe_floor_carry [0..<n] h ! i) = fe_value h div 2 ^ fe_weight i mod 2 ^ limb_bits i)
    \<and> (n < 10 \<longrightarrow> sint (fold fe_floor_carry [0..<n] h ! n) = sint (h ! n) + low_value n h div 2 ^ fe_weight n)
    \<and> (\<forall>i > n. fold fe_floor_carry [0..<n] h ! i = h ! i) \<and> \<bar>low_value n h div 2 ^ fe_weight n\<bar> \<le> 100000000"
  using assms(3)
proof (induction n)
  case 0
  then show ?case using assms(1) by (simp add: low_value_def)
next
  case (Suc n)
  define t where "t = fold fe_floor_carry [0..<n] h"
  have n: "n < 10" using Suc.prems by simp
  have len: "length t = 10" and dig: "\<forall>i < n. sint (t ! i) = fe_value h div 2 ^ fe_weight i mod 2 ^ limb_bits i"
    and tn: "sint (t ! n) = sint (h ! n) + low_value n h div 2 ^ fe_weight n"
    and rest: "\<forall>i > n. t ! i = h ! i" and b: "\<bar>low_value n h div 2 ^ fe_weight n\<bar> \<le> 100000000"
    using Suc by (auto simp: t_def)
  have bn: "\<bar>sint (t ! n)\<bar> \<le> 200000000" unfolding tn using assms(2) [OF n] b by linarith
  have carry: "sint (t ! n) div 2 ^ limb_bits n = low_value (Suc n) h div 2 ^ fe_weight (Suc n)"
    unfolding tn nested_floor fe_weight_Suc low_value_Suc ..
  have bs: "\<bar>low_value (Suc n) h div 2 ^ fe_weight (Suc n)\<bar> \<le> 100000000"
    unfolding carry [symmetric] using bn by (intro div_bound) (auto simp: limb_bits_def)
  have up: "n < 9 \<Longrightarrow> \<bar>sint (t ! Suc n)\<bar> \<le> 1000000000" using rest assms(2) [of "Suc n"] by simp
  have bn': "\<bar>sint (t ! n)\<bar> \<le> 1000000000" using bn by simp
  note step = floor_carry_step [OF n len bn' up]
  have f: "fold fe_floor_carry [0..<Suc n] h = fe_floor_carry n t" by (simp add: t_def)
  have "sint (fe_floor_carry n t ! i) = fe_value h div 2 ^ fe_weight i mod 2 ^ limb_bits i" if "i < Suc n" for i
  proof (cases "i = n")
    case True
    then show ?thesis using step(1) digit_of_value [OF n, of h] by (simp add: tn)
  next
    case False
    then show ?thesis using that step(3) [of i] dig by simp
  qed
  moreover have "sint (fe_floor_carry n t ! Suc n) = sint (h ! Suc n) + low_value (Suc n) h div 2 ^ fe_weight (Suc n)" if "Suc n < 10"
    using step(2) that rest carry by simp
  moreover have "\<forall>i > Suc n. fe_floor_carry n t ! i = h ! i" using step(3) rest by simp
  ultimately show ?case unfolding f using step(4) bs by blast
qed

lemma low_value_bound:
  assumes "fe_bounded 220 h" and "n \<le> 10"
  shows "\<bar>low_value n h\<bar> < 2 * 2 ^ fe_weight n"
  using assms(2)
proof (induction n)
  case 0
  then show ?case by (simp add: low_value_def)
next
  case (Suc n)
  let ?W = "(2 :: int) ^ fe_weight n" and ?B = "(2 :: int) ^ limb_bits n"
  have x: "10 * \<bar>sint (h ! n)\<bar> \<le> 11 * ?B" and B: "33554432 \<le> ?B"
    using assms(1) Suc.prems by (auto simp: fe_bounded_def limb_bits_def dest!: spec [of _ n])
  have "\<bar>sint (h ! n) * ?W\<bar> = \<bar>sint (h ! n)\<bar> * ?W" by (simp add: abs_mult)
  then have "\<bar>low_value (Suc n) h\<bar> \<le> \<bar>low_value n h\<bar> + \<bar>sint (h ! n)\<bar> * ?W"
    unfolding low_value_Suc by linarith
  also have "\<dots> < (2 + \<bar>sint (h ! n)\<bar>) * ?W" using Suc by (simp add: distrib_right)
  also have "\<dots> \<le> (2 * ?B) * ?W" using x B by (intro mult_right_mono) simp_all
  finally show ?case by (simp add: fe_weight_Suc power_add ac_simps)
qed

lemma word_digit_bits:
  fixes w :: u32 and n :: nat
  assumes "sint w = int n div 2 ^ e mod 2 ^ b" and "b \<le> 31"
  shows "bit w m \<longleftrightarrow> m < b \<and> bit n (e + m)"
proof -
  have "w = word_of_int (take_bit b (drop_bit e (int n)))"
    using assms(1) word_of_sint [of w] by (simp add: take_bit_eq_mod drop_bit_eq_div)
  then show ?thesis using assms(2) by (auto simp: bit_simps)
qed

lemma fe_tobytes_eq:
  assumes "fe_bounded 220 h"
  shows "fe_tobytes h = le_bytes 32 (nat (fe_value h mod fe_prime))"
proof -
  define q where "q = fe_quotient h"
  define h' where "h' = h[0 := h ! 0 + 19 * q]"
  define r where "r = fe_value h mod fe_prime"
  have len: "length h = 10" using assms by (simp add: fe_bounded_def)
  have q: "\<bar>sint q\<bar> \<le> 3" using fe_quotient_eq(2) [OF assms] by (simp add: q_def)
  have x0: "\<bar>sint (h ! 0)\<bar> \<le> 73819750" using tobytes_limb(1) [OF assms, of 0] by simp
  have x9: "\<bar>sint (h ! 9)\<bar> \<le> 36909875" using tobytes_limb(2) [OF assms, of 9] by simp
  have h0: "sint (h ! 0 + 19 * q) = sint (h ! 0) + 19 * sint q"
    by (rule sint_u32) (use q x0 in \<open>auto simp: abs_le_iff\<close>)
  have small: "\<bar>sint (h' ! i)\<bar> \<le> 100000000" if "i < 10" for i
    using tobytes_limb(1) [OF assms that] h0 q len by (cases "i = 0") (auto simp: h'_def abs_le_iff)
  have "low_value 9 h = fe_value h - sint (h ! 9) * 2 ^ 230"
    using low_value_Suc [of 9 h] low_value_10 [of h] by (simp add: fe_weight_def)
  then have rest: "\<bar>fe_value h - sint (h ! 9) * 2 ^ 230\<bar> < 2 ^ 231"
    using low_value_bound [OF assms, of 9] by (simp add: fe_weight_def)
  have "\<bar>(19 * sint (h ! 9) + 2 ^ 24) div 2 ^ 25\<bar> \<le> 100"
    by (rule div_bound) (use x9 in \<open>auto simp: abs_le_iff\<close>)
  then have "fe_value h - fe_prime * sint q = r"
    unfolding r_def by (rule canonical_remainder [OF refl rest _ fe_quotient_eq(1) [OF assms, folded q_def]])
  moreover have "fe_value h' = fe_value h + 19 * sint q"
    using fe_value_update [of 0 h "h ! 0 + 19 * q"] len by (simp add: h'_def h0 fe_weight_def)
  ultimately have val: "fe_value h' = r + 2 ^ 255 * sint q" by (simp add: fe_prime_def)
  have r: "0 \<le> r" "r < 2 ^ 255" using pos_mod_bound [of fe_prime "fe_value h"] by (auto simp: r_def fe_prime_def)
  define t where "t = fold fe_floor_carry [0..<10] h'"
  have "sint (t ! i) = int (nat r) div 2 ^ fe_weight i mod 2 ^ limb_bits i" if "i < 10" for i
  proof -
    have "fe_weight (Suc i) \<le> fe_weight 10" using that by (simp add: fe_weight_def div_le_mono)
    then have w: "fe_weight i + limb_bits i \<le> 255" by (simp add: fe_weight_Suc) (simp add: fe_weight_def)
    have "sint (t ! i) = fe_value h' div 2 ^ fe_weight i mod 2 ^ limb_bits i"
      using floor_carries [of h' 10] small that len by (simp add: t_def h'_def)
    moreover have "(2 :: int) ^ 255 = 2 ^ fe_weight i * (2 ^ limb_bits i * 2 ^ (255 - (fe_weight i + limb_bits i)))"
      using w by (simp flip: power_add)
    then have "fe_value h' = r + 2 ^ fe_weight i * (2 ^ limb_bits i * (2 ^ (255 - (fe_weight i + limb_bits i)) * sint q))"
      by (simp only: val mult.assoc)
    ultimately show ?thesis using r by simp
  qed
  then have bits: "bit (t ! i) m \<longleftrightarrow> m < limb_bits i \<and> bit (nat r) (fe_weight i + m)" if "i < 10" for i m
    using that by (intro word_digit_bits) (simp_all add: limb_bits_def)
  have "nat r < 2 ^ 255" using r by (simp add: nat_less_iff)
  from fe_store_eq [OF bits this] have "fe_store t = le_bytes 32 (nat r)" .
  moreover have "[0..<10] = [0, 1, 2, 3, 4, 5, 6, 7, 8, 9 :: nat]" by code_simp
  ultimately show ?thesis by (simp only: fe_tobytes_def Let_def t_def h'_def q_def r_def)
qed

section \<open>Field operations\<close>

lemma fe_residue_range: "0 \<le> x mod fe_prime" "x mod fe_prime < fe_prime" "nat (x mod fe_prime) < 256 ^ 32"
proof -
  show "0 \<le> x mod fe_prime" "x mod fe_prime < fe_prime" by (simp_all add: fe_prime_def)
  then show "nat (x mod fe_prime) < 256 ^ 32" by (simp add: nat_less_iff fe_prime_def)
qed

lemma le_nat_fe_tobytes: "fe_bounded 220 f \<Longrightarrow> int (le_nat (fe_tobytes f)) = fe_value f mod fe_prime"
  using fe_residue_range [of "fe_value f"] by (simp add: fe_tobytes_eq)

lemma fe_isnegative_eq:
  assumes "fe_bounded 220 f"
  shows "fe_isnegative f = (if odd (fe_value f mod fe_prime) then 1 else 0)"
proof -
  let ?n = "nat (fe_value f mod fe_prime)"
  have "fe_tobytes f ! 0 = word_of_nat ?n" using assms by (simp add: fe_tobytes_eq le_bytes_nth word_unat_eq_iff unat_of_nat take_bit_eq_mod)
  then have "bit (fe_tobytes f ! 0) 0 \<longleftrightarrow> odd ?n" by (simp add: bit_simps bit_0)
  then have "(ucast (fe_tobytes f ! 0) AND 1 :: u32) = of_bool (odd ?n)"
    by (intro bit_word_eqI) (auto simp: bit_simps bit_0)
  moreover have "odd ?n \<longleftrightarrow> odd (fe_value f mod fe_prime)"
    using fe_residue_range(1) [of "fe_value f"] by (simp add: even_nat_iff)
  ultimately show ?thesis by (simp add: fe_isnegative_def)
qed

lemma fe_isnonzero_eq:
  "fe_bounded 220 f \<Longrightarrow> fe_isnonzero f = (if fe_value f mod fe_prime = 0 then 0 else 1)"
  using le_nat_fe_tobytes [of f] by (simp add: fe_isnonzero_def nonzero_bytes)

lemma fe_invert_spec:
  assumes "fe_bounded 330 z"
  shows "fe_bounded 101 (fe_invert z) \<and> fe_value (fe_invert z) mod fe_prime = fe_value z ^ (2 ^ 255 - 21) mod fe_prime"
  using fe_invert_monomial [OF field.monomial_first [OF assms refl, of 1]] unfolding field.monomial_def
  by (simp only: mult_0_right power_0 mult_1_right)

lemma fe_divpowm1_spec:
  assumes "fe_bounded 330 u" and "fe_bounded 330 v"
  shows "fe_bounded 101 (fe_divpowm1 u v) \<and> fe_value (fe_divpowm1 u v) mod fe_prime
    = (fe_value u ^ (2 ^ 252 - 2) * fe_value v ^ (7 * (2 ^ 252 - 3) + 3)) mod fe_prime"
  using fe_divpowm1_monomial [OF field.monomial_first [OF assms(1) refl] field.monomial_second [OF assms(2) refl]]
  unfolding field.monomial_def by (simp only: simp_thms)

text \<open>C1: Within the bounds that the comments of the source state, the field operations compute
  modulo \<open>2 ^ 255 - 19\<close> and keep the promised size of the limbs: products and squares of limbs up to
  \<open>1.65 * 2 ^ 26\<close> come back below \<open>1.01 * 2 ^ 25\<close> without any overflow of the 32-bit and 64-bit
  terms, and sums and differences of limbs up to \<open>1.1 * 2 ^ 25\<close> are exact and below
  \<open>1.1 * 2 ^ 26\<close>.\<close>

theorem field_arithmetic:
  assumes "fe_bounded 330 f" and "fe_bounded 330 g" and "fe_bounded 110 x" and "fe_bounded 110 y"
  shows "(fe_bounded 101 (fe_mul f g) \<and> fe_value (fe_mul f g) mod fe_prime = (fe_value f * fe_value g) mod fe_prime)
    \<and> (fe_bounded 101 (fe_sq f) \<and> fe_value (fe_sq f) mod fe_prime = (fe_value f)\<^sup>2 mod fe_prime)
    \<and> (fe_bounded 101 (fe_sq2 f) \<and> fe_value (fe_sq2 f) mod fe_prime = (2 * (fe_value f)\<^sup>2) mod fe_prime)
    \<and> (fe_bounded 220 (fe_add x y) \<and> fe_value (fe_add x y) = fe_value x + fe_value y)
    \<and> (fe_bounded 220 (fe_sub x y) \<and> fe_value (fe_sub x y) = fe_value x - fe_value y)
    \<and> (fe_bounded 110 (fe_neg x) \<and> fe_value (fe_neg x) = - fe_value x)"
  using fe_mul_spec [OF assms(1,2)] fe_sq_spec [OF assms(1)] fe_sq2_spec [OF assms(1)]
    fe_add_spec [OF assms(3,4)] fe_sub_spec [OF assms(3,4)] fe_neg_spec [OF assms(3)]
  by (simp add: power2_eq_square)

text \<open>C28: \<open>fe_tobytes\<close> writes the canonical little-endian form of an element: the residue of its value
  modulo the prime, whatever limbs represent it, so equal elements have equal bytes and unequal
  elements different ones. \<open>fe_isnegative\<close> is the parity of that residue and \<open>fe_isnonzero\<close> tells
  it apart from zero.\<close>

theorem field_bytes_canonical:
  assumes "fe_bounded 220 f" and "fe_bounded 220 g"
  shows "fe_tobytes f = le_bytes 32 (nat (fe_value f mod fe_prime))
    \<and> (fe_tobytes f = fe_tobytes g \<longleftrightarrow> fe_value f mod fe_prime = fe_value g mod fe_prime)
    \<and> fe_isnegative f = (if odd (fe_value f mod fe_prime) then 1 else 0)
    \<and> fe_isnonzero f = (if fe_value f mod fe_prime = 0 then 0 else 1)"
proof -
  have "fe_tobytes f = fe_tobytes g \<longleftrightarrow> fe_value f mod fe_prime = fe_value g mod fe_prime"
    using le_nat_fe_tobytes [OF assms(1)] le_nat_fe_tobytes [OF assms(2)]
      fe_tobytes_eq [OF assms(1)] fe_tobytes_eq [OF assms(2)] by metis
  then show ?thesis
    using fe_tobytes_eq [OF assms(1)] fe_isnegative_eq [OF assms(1)] fe_isnonzero_eq [OF assms(1)] by blast
qed

text \<open>\<open>fe_invert\<close> raises its argument to the power \<open>p - 2\<close> and \<open>fe_divpowm1\<close> computes
  \<open>u ^ (m + 1) * v ^ (7 m + 3)\<close> for \<open>m = (p - 5) / 8\<close>, the candidate for the square root of \<open>u / v\<close>;
  both chains of squarings and products stay within the bounds of the multiplication.\<close>

theorem field_powers:
  assumes "fe_bounded 330 u" and "fe_bounded 330 v"
  shows "(fe_bounded 101 (fe_invert u) \<and>
      fe_value (fe_invert u) mod fe_prime = fe_value u ^ nat (fe_prime - 2) mod fe_prime)
    \<and> (fe_bounded 101 (fe_divpowm1 u v) \<and>
      fe_value (fe_divpowm1 u v) mod fe_prime =
        (fe_value u ^ (nat ((fe_prime - 5) div 8) + 1) * fe_value v ^ (7 * nat ((fe_prime - 5) div 8) + 3)) mod fe_prime)"
proof -
  have "nat (fe_prime - 2) = 2 ^ 255 - 21" by (simp add: fe_prime_def)
  moreover have "nat ((fe_prime - 5) div 8) = 2 ^ 252 - 3" by (simp add: fe_prime_def)
  ultimately show ?thesis using fe_invert_spec [OF assms(1)] fe_divpowm1_spec [OF assms] by simp
qed

text \<open>A sample element with large limbs, the representation of \<open>p + 1\<close>.\<close>

definition sample_fe :: fe where
  "sample_fe = [word_of_int (2 ^ 26 - 18), 33554431, 67108863, 33554431, 67108863, 33554431, 67108863, 33554431,
     67108863, 33554431]"

lemma sample_fe: "fe_bounded 220 sample_fe" "fe_value sample_fe = fe_prime + 1"
  unfolding fe_bounded_def fe_value_def sum_10
  by (auto simp: sample_fe_def limb_bits_def fe_prime_def fe_weight_def dest!: lt_10E)

lemma fe_1_bounded: "0 < n \<Longrightarrow> fe_bounded n fe_1"
  using fe_1_spec fe_bounded_mono [of 1 fe_1 n] by simp

theorem field_arithmetic_witness:
  "fe_value (fe_mul sample_fe sample_fe) mod fe_prime = (fe_prime + 1) * (fe_prime + 1) mod fe_prime"
  using field_arithmetic [of sample_fe sample_fe fe_1 fe_1] sample_fe fe_bounded_mono [of 220 sample_fe 330]
    fe_1_bounded [of 110] by simp

theorem field_bytes_canonical_witness:
  "fe_tobytes sample_fe = le_bytes 32 1 \<and> fe_isnegative sample_fe = 1 \<and> fe_isnonzero sample_fe = 1"
  using field_bytes_canonical [of sample_fe fe_1] sample_fe fe_1_spec fe_1_bounded [of 220]
  by (simp add: fe_prime_def)

theorem field_powers_witness:
  "fe_bounded 101 (fe_divpowm1 sample_fe fe_1) \<and>
    fe_value (fe_invert sample_fe) mod fe_prime = (fe_prime + 1) ^ nat (fe_prime - 2) mod fe_prime"
  using field_powers [of sample_fe fe_1] sample_fe fe_bounded_mono [of 220 sample_fe 330] fe_1_bounded [of 330]
  by (simp only: sample_fe)

end
