(* ===== verification/CurveGroup.thy ===== *)
theory CurveGroup
  imports CurveField "HOL-Library.Numeral_Type" "HOL-Library.Monad_Syntax"
begin

text \<open>
  The points of the curve in \<open>crypto-ops.c\<close>: the four coordinate systems with their conversions,
  addition, subtraction and doubling, the compressed form of a point, and the scalar
  multiplications. The coordinates of every system are field elements of \<open>CurveField\<close>.

  The theory reads an element as a member of \<open>fp\<close>, the ring of integers modulo \<open>2 ^ 255 - 19\<close>, where
  the curve is \<open>- x ^ 2 + y ^ 2 = 1 + d * x ^ 2 * y ^ 2\<close>. It shows that the formulas are those of the
  twisted Edwards addition law, that every operation keeps the limb bounds its successors need and
  stays on the curve, and that decompression accepts only canonical encodings of points on the
  curve.
\<close>

section \<open>Coordinate systems\<close>

record ge_p2 =
  p2_X :: fe
  p2_Y :: fe
  p2_Z :: fe

record ge_p3 =
  p3_X :: fe
  p3_Y :: fe
  p3_Z :: fe
  p3_T :: fe

record ge_p1p1 =
  p1_X :: fe
  p1_Y :: fe
  p1_Z :: fe
  p1_T :: fe

record ge_precomp =
  yplusx :: fe
  yminusx :: fe
  xy2d :: fe

record ge_cached =
  YplusX :: fe
  YminusX :: fe
  c_Z :: fe
  T2d :: fe

section \<open>Constants\<close>

definition fe_d :: fe where
  "fe_d = map word_of_int [- 10913610, 13857413, - 15372611, 6949391, 114729, - 8787816, - 6275908, - 3247719, - 18696448, - 12055116]"

definition fe_sqrtm1 :: fe where
  "fe_sqrtm1 = map word_of_int [- 32595792, - 7943725, 9377950, 3500415, 12389472, - 272473, - 25146209, - 2005654, 326686, 11406482]"

definition fe_d2 :: fe where
  "fe_d2 = map word_of_int [- 21827239, - 5839606, - 30745221, 13898782, 229458, 15978800, - 12551817, - 6495438, 29715968, 9444199]"

definition ge_Bi :: "ge_precomp list" where
  "ge_Bi =
    [\<lparr>yplusx = map word_of_int [25967493, - 14356035, 29566456, 3660896, - 12694345, 4014787, 27544626, - 11754271, - 6079156, 2047605],
       yminusx = map word_of_int [- 12545711, 934262, - 2722910, 3049990, - 727428, 9406986, 12720692, 5043384, 19500929, - 15469378],
       xy2d = map word_of_int [- 8738181, 4489570, 9688441, - 14785194, 10184609, - 12363380, 29287919, 11864899, - 24514362, - 4438546]\<rparr>,
     \<lparr>yplusx = map word_of_int [15636291, - 9688557, 24204773, - 7912398, 616977, - 16685262, 27787600, - 14772189, 28944400, - 1550024],
       yminusx = map word_of_int [16568933, 4717097, - 11556148, - 1102322, 15682896, - 11807043, 16354577, - 11775962, 7689662, 11199574],
       xy2d = map word_of_int [30464156, - 5976125, - 11779434, - 15670865, 23220365, 15915852, 7512774, 10017326, - 17749093, - 9920357]\<rparr>,
     \<lparr>yplusx = map word_of_int [10861363, 11473154, 27284546, 1981175, - 30064349, 12577861, 32867885, 14515107, - 15438304, 10819380],
       yminusx = map word_of_int [4708026, 6336745, 20377586, 9066809, - 11272109, 6594696, - 25653668, 12483688, - 12668491, 5581306],
       xy2d = map word_of_int [19563160, 16186464, - 29386857, 4097519, 10237984, - 4348115, 28542350, 13850243, - 23678021, - 15815942]\<rparr>,
     \<lparr>yplusx = map word_of_int [5153746, 9909285, 1723747, - 2777874, 30523605, 5516873, 19480852, 5230134, - 23952439, - 15175766],
       yminusx = map word_of_int [- 30269007, - 3463509, 7665486, 10083793, 28475525, 1649722, 20654025, 16520125, 30598449, 7715701],
       xy2d = map word_of_int [28881845, 14381568, 9657904, 3680757, - 20181635, 7843316, - 31400660, 1370708, 29794553, - 1409300]\<rparr>,
     \<lparr>yplusx = map word_of_int [- 22518993, - 6692182, 14201702, - 8745502, - 23510406, 8844726, 18474211, - 1361450, - 13062696, 13821877],
       yminusx = map word_of_int [- 6455177, - 7839871, 3374702, - 4740862, - 27098617, - 10571707, 31655028, - 7212327, 18853322, - 14220951],
       xy2d = map word_of_int [4566830, - 12963868, - 28974889, - 12240689, - 7602672, - 2830569, - 8514358, - 10431137, 2207753, - 3209784]\<rparr>,
     \<lparr>yplusx = map word_of_int [- 25154831, - 4185821, 29681144, 7868801, - 6854661, - 9423865, - 12437364, - 663000, - 31111463, - 16132436],
       yminusx = map word_of_int [25576264, - 2703214, 7349804, - 11814844, 16472782, 9300885, 3844789, 15725684, 171356, 6466918],
       xy2d = map word_of_int [23103977, 13316479, 9739013, - 16149481, 817875, - 15038942, 8965339, - 14088058, - 30714912, 16193877]\<rparr>,
     \<lparr>yplusx = map word_of_int [- 33521811, 3180713, - 2394130, 14003687, - 16903474, - 16270840, 17238398, 4729455, - 18074513, 9256800],
       yminusx = map word_of_int [- 25182317, - 4174131, 32336398, 5036987, - 21236817, 11360617, 22616405, 9761698, - 19827198, 630305],
       xy2d = map word_of_int [- 13720693, 2639453, - 24237460, - 7406481, 9494427, - 5774029, - 6554551, - 15960994, - 2449256, - 14291300]\<rparr>,
     \<lparr>yplusx = map word_of_int [- 3151181, - 5046075, 9282714, 6866145, - 31907062, - 863023, - 18940575, 15033784, 25105118, - 7894876],
       yminusx = map word_of_int [- 24326370, 15950226, - 31801215, - 14592823, - 11662737, - 5090925, 1573892, - 2625887, 2198790, - 15804619],
       xy2d = map word_of_int [- 3099351, 10324967, - 2241613, 7453183, - 5446979, - 2735503, - 13812022, - 16236442, - 32461234, - 12290683]\<rparr>]"

definition fe_ma2 :: fe where
  "fe_ma2 = map word_of_int [- 12721188, - 3529, 0, 0, 0, 0, 0, 0, 0, 0]"

definition fe_ma :: fe where
  "fe_ma = map word_of_int [- 486662, 0, 0, 0, 0, 0, 0, 0, 0, 0]"

definition fe_fffb1 :: fe where
  "fe_fffb1 = map word_of_int [- 31702527, - 2466483, - 26106795, - 12203692, - 12169197, - 321052, 14850977, - 10296299, - 16929438, - 407568]"

definition fe_fffb2 :: fe where
  "fe_fffb2 = map word_of_int [8166131, - 6741800, - 17040804, 3154616, 21461005, 1466302, - 30876704, - 6368709, 10503587, - 13363080]"

definition fe_fffb3 :: fe where
  "fe_fffb3 = map word_of_int [- 13620103, 14639558, 4532995, 7679154, 16815101, - 15883539, - 22863840, - 14813421, 13716513, - 6477756]"

definition fe_fffb4 :: fe where
  "fe_fffb4 = map word_of_int [- 21786234, - 12173074, 21573800, 4524538, - 4645904, 16204591, 8012863, - 8444712, 3212926, 6885324]"

definition ge_p3_identity :: ge_p3 where
  "ge_p3_identity = \<lparr>p3_X = fe_0, p3_Y = fe_1, p3_Z = fe_1, p3_T = fe_0\<rparr>"

definition ge_p3_H :: ge_p3 where
  "ge_p3_H = \<lparr>p3_X = map word_of_int [7329926, - 15101362, 31411471, 7614783, 27996851, - 3197071, - 11157635, - 6878293, 466949, - 7986503],
     p3_Y = map word_of_int [5858699, 5096796, 21321203, - 7536921, - 5553480, - 11439507, - 5627669, 15045946, 19977121, 5275251],
     p3_Z = map word_of_int [1, 0, 0, 0, 0, 0, 0, 0, 0, 0],
     p3_T = map word_of_int [23443568, - 5110398, - 8776029, - 4345135, 6889568, - 14710814, 7474843, 3279062, 14550766, - 7453428]\<rparr>"

section \<open>Addition and doubling\<close>

definition ge_add :: "ge_p3 \<Rightarrow> ge_cached \<Rightarrow> ge_p1p1" where
  "ge_add p q = (
     let rX = fe_add (p3_Y p) (p3_X p);
         rY = fe_sub (p3_Y p) (p3_X p);
         rZ = fe_mul rX (YplusX q);
         rY = fe_mul rY (YminusX q);
         rT = fe_mul (T2d q) (p3_T p);
         rX = fe_mul (p3_Z p) (c_Z q);
         t0 = fe_add rX rX;
         rX = fe_sub rZ rY;
         rY = fe_add rZ rY;
         rZ = fe_add t0 rT;
         rT = fe_sub t0 rT
     in \<lparr>p1_X = rX, p1_Y = rY, p1_Z = rZ, p1_T = rT\<rparr>)"

definition ge_sub :: "ge_p3 \<Rightarrow> ge_cached \<Rightarrow> ge_p1p1" where
  "ge_sub p q = (
     let rX = fe_add (p3_Y p) (p3_X p);
         rY = fe_sub (p3_Y p) (p3_X p);
         rZ = fe_mul rX (YminusX q);
         rY = fe_mul rY (YplusX q);
         rT = fe_mul (T2d q) (p3_T p);
         rX = fe_mul (p3_Z p) (c_Z q);
         t0 = fe_add rX rX;
         rX = fe_sub rZ rY;
         rY = fe_add rZ rY;
         rZ = fe_sub t0 rT;
         rT = fe_add t0 rT
     in \<lparr>p1_X = rX, p1_Y = rY, p1_Z = rZ, p1_T = rT\<rparr>)"

definition ge_madd :: "ge_p3 \<Rightarrow> ge_precomp \<Rightarrow> ge_p1p1" where
  "ge_madd p q = (
     let rX = fe_add (p3_Y p) (p3_X p);
         rY = fe_sub (p3_Y p) (p3_X p);
         rZ = fe_mul rX (yplusx q);
         rY = fe_mul rY (yminusx q);
         rT = fe_mul (xy2d q) (p3_T p);
         t0 = fe_add (p3_Z p) (p3_Z p);
         rX = fe_sub rZ rY;
         rY = fe_add rZ rY;
         rZ = fe_add t0 rT;
         rT = fe_sub t0 rT
     in \<lparr>p1_X = rX, p1_Y = rY, p1_Z = rZ, p1_T = rT\<rparr>)"

definition ge_msub :: "ge_p3 \<Rightarrow> ge_precomp \<Rightarrow> ge_p1p1" where
  "ge_msub p q = (
     let rX = fe_add (p3_Y p) (p3_X p);
         rY = fe_sub (p3_Y p) (p3_X p);
         rZ = fe_mul rX (yminusx q);
         rY = fe_mul rY (yplusx q);
         rT = fe_mul (xy2d q) (p3_T p);
         t0 = fe_add (p3_Z p) (p3_Z p);
         rX = fe_sub rZ rY;
         rY = fe_add rZ rY;
         rZ = fe_sub t0 rT;
         rT = fe_add t0 rT
     in \<lparr>p1_X = rX, p1_Y = rY, p1_Z = rZ, p1_T = rT\<rparr>)"

definition ge_p1p1_to_p2 :: "ge_p1p1 \<Rightarrow> ge_p2" where
  "ge_p1p1_to_p2 p = \<lparr>p2_X = fe_mul (p1_X p) (p1_T p), p2_Y = fe_mul (p1_Y p) (p1_Z p),
     p2_Z = fe_mul (p1_Z p) (p1_T p)\<rparr>"

definition ge_p1p1_to_p3 :: "ge_p1p1 \<Rightarrow> ge_p3" where
  "ge_p1p1_to_p3 p = \<lparr>p3_X = fe_mul (p1_X p) (p1_T p), p3_Y = fe_mul (p1_Y p) (p1_Z p),
     p3_Z = fe_mul (p1_Z p) (p1_T p), p3_T = fe_mul (p1_X p) (p1_Y p)\<rparr>"

definition ge_p2_0 :: ge_p2 where
  "ge_p2_0 = \<lparr>p2_X = fe_0, p2_Y = fe_1, p2_Z = fe_1\<rparr>"

definition ge_p2_dbl :: "ge_p2 \<Rightarrow> ge_p1p1" where
  "ge_p2_dbl p = (
     let rX = fe_sq (p2_X p);
         rZ = fe_sq (p2_Y p);
         rT = fe_sq2 (p2_Z p);
         rY = fe_add (p2_X p) (p2_Y p);
         t0 = fe_sq rY;
         rY = fe_add rZ rX;
         rZ = fe_sub rZ rX;
         rX = fe_sub t0 rY;
         rT = fe_sub rT rZ
     in \<lparr>p1_X = rX, p1_Y = rY, p1_Z = rZ, p1_T = rT\<rparr>)"

definition ge_p3_0 :: ge_p3 where
  "ge_p3_0 = \<lparr>p3_X = fe_0, p3_Y = fe_1, p3_Z = fe_1, p3_T = fe_0\<rparr>"

definition ge_p3_to_p2 :: "ge_p3 \<Rightarrow> ge_p2" where
  "ge_p3_to_p2 p = \<lparr>p2_X = fe_copy (p3_X p), p2_Y = fe_copy (p3_Y p), p2_Z = fe_copy (p3_Z p)\<rparr>"

definition ge_p3_dbl :: "ge_p3 \<Rightarrow> ge_p1p1" where
  "ge_p3_dbl p = ge_p2_dbl (ge_p3_to_p2 p)"

definition ge_p3_to_cached :: "ge_p3 \<Rightarrow> ge_cached" where
  "ge_p3_to_cached p = \<lparr>YplusX = fe_add (p3_Y p) (p3_X p), YminusX = fe_sub (p3_Y p) (p3_X p),
     c_Z = fe_copy (p3_Z p), T2d = fe_mul (p3_T p) fe_d2\<rparr>"

definition ge_mul8 :: "ge_p2 \<Rightarrow> ge_p1p1" where
  "ge_mul8 t = (
     let r = ge_p2_dbl t;
         u = ge_p1p1_to_p2 r;
         r = ge_p2_dbl u;
         u = ge_p1p1_to_p2 r
     in ge_p2_dbl u)"

definition ge_p3_is_point_at_infinity :: "ge_p3 \<Rightarrow> bool" where
  "ge_p3_is_point_at_infinity p = list_all
     (\<lambda>n. p3_X p ! n OR p3_T p ! n = 0 \<and> p3_Y p ! n = p3_Z p ! n) [0..<10]"

section \<open>The compressed form\<close>

text \<open>\<open>s[31] ^= fe_isnegative(x) << 7\<close>\<close>

definition ge_tobytes :: "ge_p2 \<Rightarrow> byte list" where
  "ge_tobytes h = (
     let recip = fe_invert (p2_Z h);
         x = fe_mul (p2_X h) recip;
         y = fe_mul (p2_Y h) recip;
         s = fe_tobytes y
     in s[31 := s ! 31 XOR ucast (push_bit 7 (fe_isnegative x))])"

definition ge_p3_tobytes :: "ge_p3 \<Rightarrow> byte list" where
  "ge_p3_tobytes h = (
     let recip = fe_invert (p3_Z h);
         x = fe_mul (p3_X h) recip;
         y = fe_mul (p3_Y h) recip;
         s = fe_tobytes y
     in s[31 := s ! 31 XOR ucast (push_bit 7 (fe_isnegative x))])"

definition load_fe :: "byte list \<Rightarrow> i64 list" where
  "load_fe s =
    [load_4 s,
     push_bit 6 (load_3 (drop 4 s)),
     push_bit 5 (load_3 (drop 7 s)),
     push_bit 3 (load_3 (drop 10 s)),
     push_bit 2 (load_3 (drop 13 s)),
     load_4 (drop 16 s),
     push_bit 7 (load_3 (drop 20 s)),
     push_bit 5 (load_3 (drop 23 s)),
     push_bit 4 (load_3 (drop 26 s)),
     push_bit 2 (load_3 (drop 29 s) AND 8388607)]"

definition fe_noncanonical :: "i64 list \<Rightarrow> bool" where
  "fe_noncanonical h \<longleftrightarrow> h ! 9 = 33554428 \<and> h ! 8 = 268435440 \<and> h ! 7 = 536870880 \<and> h ! 6 = 2147483520 \<and>
     h ! 5 = 4294967295 \<and> h ! 4 = 67108860 \<and> h ! 3 = 134217720 \<and> h ! 2 = 536870880 \<and>
     h ! 1 = 1073741760 \<and> 4294967277 \<le>s h ! 0"

definition fe_normalize :: "i64 list \<Rightarrow> fe" where
  "fe_normalize h = map ucast (fold fe_carry [9, 1, 3, 5, 7, 0, 2, 4, 6, 8] h)"

text \<open>The two error returns and the success of \<open>ge_frombytes_vartime\<close>; the point that a failed call
  leaves behind is not used by its callers.\<close>

definition ge_frombytes_vartime :: "byte list \<Rightarrow> ge_p3 option" where
  "ge_frombytes_vartime s = (
     let h = load_fe s in
     if fe_noncanonical h then None
     else
       let hY = fe_normalize h;
           hZ = fe_1;
           u = fe_sq hY;
           v = fe_mul u fe_d;
           u = fe_sub u hZ;
           v = fe_add v hZ;
           hX = fe_divpowm1 u v;
           vxx = fe_sq hX;
           vxx = fe_mul vxx v
       in do {
         hX \<leftarrow> (if fe_isnonzero (fe_sub vxx u) \<noteq> 0
                then if fe_isnonzero (fe_add vxx u) \<noteq> 0 then None else Some (fe_mul hX fe_sqrtm1)
                else Some hX);
         hX \<leftarrow> (if fe_isnegative hX \<noteq> ucast (drop_bit 7 (s ! 31))
                then if fe_isnonzero hX = 0 then None else Some (fe_neg hX)
                else Some hX);
         Some \<lparr>p3_X = hX, p3_Y = hY, p3_Z = hZ, p3_T = fe_mul hX hY\<rparr>
       })"

section \<open>Field elements\<close>

type_synonym fp = "57896044618658097711785492504343953926634992332820282019728792003956564819949"

lemma card_fp: "int CARD(fp) = fe_prime"
  by (simp add: fe_prime_def)

lemma fp_of_int_eq: "(of_int x :: fp) = of_int y \<longleftrightarrow> x mod fe_prime = y mod fe_prime"
proof -
  have "(of_int x :: fp) = of_int y \<longleftrightarrow> Rep_bit1 (of_int x :: fp) = Rep_bit1 (of_int y :: fp)"
    by (simp add: Rep_bit1_inject)
  also have "\<dots> \<longleftrightarrow> x mod int CARD(fp) = y mod int CARD(fp)"
    unfolding bit1.of_int_eq bit1.Rep_Abs_mod ..
  finally show ?thesis by (simp only: card_fp)
qed

lemma fp_of_int_eq_0: "(of_int x :: fp) = 0 \<longleftrightarrow> x mod fe_prime = 0"
  using fp_of_int_eq [of x 0] by simp

definition fe_el :: "fe \<Rightarrow> fp" where
  "fe_el f = of_int (fe_value f)"

text \<open>\<open>elem n x f\<close>: the array \<open>f\<close> holds the field element \<open>x\<close> in limbs of size \<open>n\<close>.\<close>

definition elem :: "int \<Rightarrow> fp \<Rightarrow> fe \<Rightarrow> bool" where
  "elem n x f \<longleftrightarrow> fe_bounded n f \<and> fe_el f = x"

lemma elem_bounded: "elem n x f \<Longrightarrow> fe_bounded n f"
  by (simp add: elem_def)

lemma elem_mono: "elem m x f \<Longrightarrow> m \<le> n \<Longrightarrow> elem n x f"
  using fe_bounded_mono by (auto simp: elem_def)

lemma elem_self: "fe_bounded n f \<Longrightarrow> elem n (fe_el f) f"
  by (simp add: elem_def)

lemma elem_mul:
  assumes "elem m x f" and "elem n y g" and "m \<le> 330" and "n \<le> 330"
  shows "elem 101 (x * y) (fe_mul f g)"
proof -
  have "fe_bounded 330 f" "fe_bounded 330 g" using assms elem_mono elem_bounded by blast+
  from fe_mul_spec [OF this] show ?thesis
    using assms(1,2) fp_of_int_eq [of "fe_value (fe_mul f g)" "fe_value f * fe_value g"]
    by (auto simp: elem_def fe_el_def)
qed

lemma elem_sq:
  assumes "elem m x f" and "m \<le> 330"
  shows "elem 101 (x * x) (fe_sq f)"
proof -
  have "fe_bounded 330 f" using assms elem_mono elem_bounded by blast
  from fe_sq_spec [OF this] show ?thesis
    using assms(1) fp_of_int_eq [of "fe_value (fe_sq f)" "fe_value f * fe_value f"]
    by (auto simp: elem_def fe_el_def)
qed

lemma elem_sq2:
  assumes "elem m x f" and "m \<le> 330"
  shows "elem 101 (2 * (x * x)) (fe_sq2 f)"
proof -
  have "fe_bounded 330 f" using assms elem_mono elem_bounded by blast
  from fe_sq2_spec [OF this] show ?thesis
    using assms(1) fp_of_int_eq [of "fe_value (fe_sq2 f)" "2 * (fe_value f * fe_value f)"]
    by (auto simp: elem_def fe_el_def)
qed

lemma elem_add:
  assumes "elem m x f" and "elem n y g" and "m + n \<le> 6000" and "0 \<le> m" "0 \<le> n"
  shows "elem (m + n) (x + y) (fe_add f g)"
  using assms fe_add_spec [of m f n g] by (auto simp: elem_def fe_el_def)

lemma elem_sub:
  assumes "elem m x f" and "elem n y g" and "m + n \<le> 6000" and "0 \<le> m" "0 \<le> n"
  shows "elem (m + n) (x - y) (fe_sub f g)"
  using assms fe_sub_spec [of m f n g] by (auto simp: elem_def fe_el_def)

lemma elem_neg: "elem n x f \<Longrightarrow> n \<le> 6000 \<Longrightarrow> 0 \<le> n \<Longrightarrow> elem n (- x) (fe_neg f)"
  using fe_neg_spec [of n f] by (auto simp: elem_def fe_el_def)

lemma elem_copy: "elem n x f \<Longrightarrow> elem n x (fe_copy f)"
  by (simp add: elem_def fe_bounded_def fe_copy_eq)

lemma elem_0: "elem 0 0 fe_0" and elem_1: "elem 1 1 fe_1"
  using fe_0_spec fe_1_spec by (simp_all add: elem_def fe_el_def)

lemma elem_nonzero:
  assumes "elem n x f" and "n \<le> 220"
  shows "fe_isnonzero f = (if x = 0 then 0 else 1)"
proof -
  have "fe_bounded 220 f" using assms elem_mono elem_bounded by blast
  then show ?thesis using fe_isnonzero_eq assms(1) by (auto simp: elem_def fe_el_def fp_of_int_eq_0)
qed

section \<open>The curve constants\<close>

definition curve_d :: fp where
  "curve_d = fe_el fe_d"

lemma fe_d_value: "fe_bounded 101 fe_d" "fe_value fe_d = - 20800338683988658368647408995589388737092878452977063003340006470870624536394"
  unfolding fe_bounded_def fe_value_def sum_10
  by (auto simp: fe_d_def limb_bits_def fe_weight_def dest!: lt_10E)

lemma fe_sqrtm1_value: "fe_bounded 101 fe_sqrtm1" "fe_value fe_sqrtm1 = 19681161376707505956807079304988542015446066515923890162744021073123829784752"
  unfolding fe_bounded_def fe_value_def sum_10
  by (auto simp: fe_sqrtm1_def limb_bits_def fe_weight_def dest!: lt_10E)

lemma fe_d2_value: "fe_bounded 101 fe_d2" "fe_value fe_d2 = 16295367250680780974490674513165176452449235426866156013048779062215315747161"
  unfolding fe_bounded_def fe_value_def sum_10
  by (auto simp: fe_d2_def limb_bits_def fe_weight_def dest!: lt_10E)

lemma fe_ma2_value: "fe_bounded 101 fe_ma2" "fe_value fe_ma2 = - 236839902244"
  unfolding fe_bounded_def fe_value_def sum_10
  by (auto simp: fe_ma2_def limb_bits_def fe_weight_def dest!: lt_10E)

lemma fe_ma_value: "fe_bounded 101 fe_ma" "fe_value fe_ma = - 486662"
  unfolding fe_bounded_def fe_value_def sum_10
  by (auto simp: fe_ma_def limb_bits_def fe_weight_def dest!: lt_10E)

lemma fe_fffb1_value: "fe_bounded 101 fe_fffb1" "fe_value fe_fffb1 = - 703233174040119856926594035342289954908528790615891058923819529064776187391"
  unfolding fe_bounded_def fe_value_def sum_10
  by (auto simp: fe_fffb1_def limb_bits_def fe_weight_def dest!: lt_10E)

lemma fe_fffb2_value: "fe_bounded 101 fe_fffb2" "fe_value fe_fffb2 = - 23057146872909699840411355416938605094565363926207269214935344372714976797965"
  unfolding fe_bounded_def fe_value_def sum_10
  by (auto simp: fe_fffb2_def limb_bits_def fe_weight_def dest!: lt_10E)

lemma fe_fffb3_value: "fe_bounded 101 fe_fffb3" "fe_value fe_fffb3 = - 11176956849434789991742380690798157569828417567795689078005762421825100305287"
  unfolding fe_bounded_def fe_value_def sum_10
  by (auto simp: fe_fffb3_def limb_bits_def fe_weight_def dest!: lt_10E)

lemma fe_fffb4_value: "fe_bounded 101 fe_fffb4" "fe_value fe_fffb4 = 11880190023474909848668974726140447524736946358411580136929581950889876492678"
  unfolding fe_bounded_def fe_value_def sum_10
  by (auto simp: fe_fffb4_def limb_bits_def fe_weight_def dest!: lt_10E)

lemma curve_d_eq: "curve_d * 121666 = - 121665"
proof -
  have "(fe_value fe_d * 121666) mod fe_prime = - 121665 mod fe_prime"
    unfolding fe_d_value(2) fe_prime_def by simp
  then have "(of_int (fe_value fe_d * 121666) :: fp) = of_int (- 121665)" unfolding fp_of_int_eq .
  then show ?thesis by (simp add: curve_d_def fe_el_def)
qed

lemma elem_d: "elem 101 curve_d fe_d"
  using fe_d_value(1) by (simp add: elem_def curve_d_def)

lemma elem_d2: "elem 101 (2 * curve_d) fe_d2"
proof -
  have "(fe_value fe_d2) mod fe_prime = (2 * fe_value fe_d) mod fe_prime"
    unfolding fe_d_value(2) fe_d2_value(2) fe_prime_def by simp
  then have "(of_int (fe_value fe_d2) :: fp) = of_int (2 * fe_value fe_d)" unfolding fp_of_int_eq .
  then show ?thesis using fe_d2_value(1) by (simp add: elem_def fe_el_def curve_d_def)
qed

lemma sqrtm1_squared: "fe_el fe_sqrtm1 * fe_el fe_sqrtm1 = - 1"
proof -
  have "(fe_value fe_sqrtm1 * fe_value fe_sqrtm1) mod fe_prime = - 1 mod fe_prime"
    unfolding fe_sqrtm1_value(2) fe_prime_def by code_simp
  then have "(of_int (fe_value fe_sqrtm1 * fe_value fe_sqrtm1) :: fp) = of_int (- 1)" unfolding fp_of_int_eq .
  then show ?thesis by (simp add: fe_el_def)
qed

lemma elem_sqrtm1: "elem 101 (fe_el fe_sqrtm1) fe_sqrtm1"
  using fe_sqrtm1_value(1) by (simp add: elem_def)

section \<open>The addition law\<close>

text \<open>
  Extended coordinates \<open>(X, Y, Z, T)\<close> stand for the affine point \<open>(X / Z, Y / Z)\<close> with \<open>T = X * Y / Z\<close>;
  completed coordinates \<open>(E, H, G, F)\<close> for \<open>(E / G, H / F)\<close>.
\<close>

type_synonym coords = "fp \<times> fp \<times> fp \<times> fp"

definition p3_rep :: "ge_p3 \<Rightarrow> coords \<Rightarrow> bool" where
  "p3_rep P q = (case q of (X, Y, Z, T) \<Rightarrow>
     elem 110 X (p3_X P) \<and> elem 110 Y (p3_Y P) \<and> elem 110 Z (p3_Z P) \<and> elem 110 T (p3_T P))"

definition p2_rep :: "ge_p2 \<Rightarrow> fp \<times> fp \<times> fp \<Rightarrow> bool" where
  "p2_rep P q = (case q of (X, Y, Z) \<Rightarrow> elem 110 X (p2_X P) \<and> elem 110 Y (p2_Y P) \<and> elem 110 Z (p2_Z P))"

definition p1_rep :: "ge_p1p1 \<Rightarrow> coords \<Rightarrow> bool" where
  "p1_rep P q = (case q of (E, H, G, F) \<Rightarrow>
     elem 330 E (p1_X P) \<and> elem 330 H (p1_Y P) \<and> elem 330 G (p1_Z P) \<and> elem 330 F (p1_T P))"

definition cached_rep :: "ge_cached \<Rightarrow> coords \<Rightarrow> bool" where
  "cached_rep C q = (case q of (X, Y, Z, T) \<Rightarrow>
     elem 220 (Y + X) (YplusX C) \<and> elem 220 (Y - X) (YminusX C) \<and> elem 110 Z (c_Z C)
     \<and> elem 110 (2 * curve_d * T) (T2d C))"

definition precomp_rep :: "ge_precomp \<Rightarrow> fp \<times> fp \<Rightarrow> bool" where
  "precomp_rep C q = (case q of (x, y) \<Rightarrow>
     elem 220 (y + x) (yplusx C) \<and> elem 220 (y - x) (yminusx C) \<and> elem 110 (2 * curve_d * (x * y)) (xy2d C))"

definition ed_add :: "coords \<Rightarrow> coords \<Rightarrow> coords" where
  "ed_add p q = (case p of (X1, Y1, Z1, T1) \<Rightarrow> case q of (X2, Y2, Z2, T2) \<Rightarrow>
     (2 * (X1 * Y2 + X2 * Y1), 2 * (Y1 * Y2 + X1 * X2),
      2 * (Z1 * Z2 + curve_d * T1 * T2), 2 * (Z1 * Z2 - curve_d * T1 * T2)))"

definition ed_neg :: "coords \<Rightarrow> coords" where
  "ed_neg p = (case p of (X, Y, Z, T) \<Rightarrow> (- X, Y, Z, - T))"

definition ed_extend :: "coords \<Rightarrow> coords" where
  "ed_extend p = (case p of (E, H, G, F) \<Rightarrow> (E * F, H * G, G * F, E * H))"

definition ed_double :: "fp \<times> fp \<times> fp \<Rightarrow> coords" where
  "ed_double p = (case p of (X, Y, Z) \<Rightarrow>
     (2 * (X * Y), Y * Y + X * X, Y * Y - X * X, 2 * (Z * Z) - (Y * Y - X * X)))"

definition on_curve :: "coords \<Rightarrow> bool" where
  "on_curve p = (case p of (X, Y, Z, T) \<Rightarrow> Y * Y - X * X = Z * Z + curve_d * (T * T) \<and> X * Y = Z * T)"

definition on_curve2 :: "fp \<times> fp \<times> fp \<Rightarrow> bool" where
  "on_curve2 p = (case p of (X, Y, Z) \<Rightarrow>
     (Y * Y - X * X) * (Z * Z) = Z * Z * (Z * Z) + curve_d * (X * X * (Y * Y)))"

lemmas ed_defs = ed_add_def ed_neg_def ed_extend_def ed_double_def

lemma ge_add_rep:
  assumes "p3_rep P p" and "cached_rep C q"
  shows "p1_rep (ge_add P C) (ed_add p q)"
proof -
  obtain X1 Y1 Z1 T1 where p: "p = (X1, Y1, Z1, T1)" by (cases p) auto
  obtain X2 Y2 Z2 T2 where q: "q = (X2, Y2, Z2, T2)" by (cases q) auto
  have P: "elem 110 X1 (p3_X P)" "elem 110 Y1 (p3_Y P)" "elem 110 Z1 (p3_Z P)" "elem 110 T1 (p3_T P)"
    using assms(1) by (simp_all add: p3_rep_def p)
  have C: "elem 220 (Y2 + X2) (YplusX C)" "elem 220 (Y2 - X2) (YminusX C)" "elem 110 Z2 (c_Z C)"
      "elem 110 (2 * curve_d * T2) (T2d C)"
    using assms(2) by (simp_all add: cached_rep_def q)
  note B = elem_mul [OF elem_add [OF P(2,1)] C(1), simplified]
  note A = elem_mul [OF elem_sub [OF P(2,1)] C(2), simplified]
  note T = elem_mul [OF C(4) P(4), simplified]
  note Z = elem_mul [OF P(3) C(3), simplified]
  note t0 = elem_add [OF Z Z, simplified]
  show ?thesis
    using elem_mono [OF elem_sub [OF B A, simplified], of 330] elem_mono [OF elem_add [OF B A, simplified], of 330]
      elem_mono [OF elem_add [OF t0 T, simplified], of 330] elem_mono [OF elem_sub [OF t0 T, simplified], of 330]
    by (simp add: p1_rep_def ge_add_def Let_def ed_add_def p q algebra_simps)
qed

lemma ge_sub_rep:
  assumes "p3_rep P p" and "cached_rep C q"
  shows "p1_rep (ge_sub P C) (ed_add p (ed_neg q))"
proof -
  obtain X1 Y1 Z1 T1 where p: "p = (X1, Y1, Z1, T1)" by (cases p) auto
  obtain X2 Y2 Z2 T2 where q: "q = (X2, Y2, Z2, T2)" by (cases q) auto
  have P: "elem 110 X1 (p3_X P)" "elem 110 Y1 (p3_Y P)" "elem 110 Z1 (p3_Z P)" "elem 110 T1 (p3_T P)"
    using assms(1) by (simp_all add: p3_rep_def p)
  have C: "elem 220 (Y2 + X2) (YplusX C)" "elem 220 (Y2 - X2) (YminusX C)" "elem 110 Z2 (c_Z C)"
      "elem 110 (2 * curve_d * T2) (T2d C)"
    using assms(2) by (simp_all add: cached_rep_def q)
  note B = elem_mul [OF elem_add [OF P(2,1)] C(2), simplified]
  note A = elem_mul [OF elem_sub [OF P(2,1)] C(1), simplified]
  note T = elem_mul [OF C(4) P(4), simplified]
  note Z = elem_mul [OF P(3) C(3), simplified]
  note t0 = elem_add [OF Z Z, simplified]
  show ?thesis
    using elem_mono [OF elem_sub [OF B A, simplified], of 330] elem_mono [OF elem_add [OF B A, simplified], of 330]
      elem_mono [OF elem_sub [OF t0 T, simplified], of 330] elem_mono [OF elem_add [OF t0 T, simplified], of 330]
    by (simp add: p1_rep_def ge_sub_def Let_def ed_add_def ed_neg_def p q algebra_simps)
qed

text \<open>A precomputed point has the coordinates \<open>(x, y, 1, x * y)\<close>.\<close>

lemma ge_madd_rep:
  assumes "p3_rep P p" and "precomp_rep C (x, y)"
  shows "p1_rep (ge_madd P C) (ed_add p (x, y, 1, x * y))"
proof -
  obtain X1 Y1 Z1 T1 where p: "p = (X1, Y1, Z1, T1)" by (cases p) auto
  have P: "elem 110 X1 (p3_X P)" "elem 110 Y1 (p3_Y P)" "elem 110 Z1 (p3_Z P)" "elem 110 T1 (p3_T P)"
    using assms(1) by (simp_all add: p3_rep_def p)
  have C: "elem 220 (y + x) (yplusx C)" "elem 220 (y - x) (yminusx C)" "elem 110 (2 * curve_d * (x * y)) (xy2d C)"
    using assms(2) by (simp_all add: precomp_rep_def)
  note B = elem_mul [OF elem_add [OF P(2,1)] C(1), simplified]
  note A = elem_mul [OF elem_sub [OF P(2,1)] C(2), simplified]
  note T = elem_mul [OF C(3) P(4), simplified]
  note t0 = elem_add [OF P(3) P(3), simplified]
  show ?thesis
    using elem_mono [OF elem_sub [OF B A, simplified], of 330] elem_mono [OF elem_add [OF B A, simplified], of 330]
      elem_mono [OF elem_add [OF t0 T, simplified], of 330] elem_mono [OF elem_sub [OF t0 T, simplified], of 330]
    by (simp add: p1_rep_def ge_madd_def Let_def ed_add_def p algebra_simps)
qed

lemma ge_msub_rep:
  assumes "p3_rep P p" and "precomp_rep C (x, y)"
  shows "p1_rep (ge_msub P C) (ed_add p (ed_neg (x, y, 1, x * y)))"
proof -
  obtain X1 Y1 Z1 T1 where p: "p = (X1, Y1, Z1, T1)" by (cases p) auto
  have P: "elem 110 X1 (p3_X P)" "elem 110 Y1 (p3_Y P)" "elem 110 Z1 (p3_Z P)" "elem 110 T1 (p3_T P)"
    using assms(1) by (simp_all add: p3_rep_def p)
  have C: "elem 220 (y + x) (yplusx C)" "elem 220 (y - x) (yminusx C)" "elem 110 (2 * curve_d * (x * y)) (xy2d C)"
    using assms(2) by (simp_all add: precomp_rep_def)
  note B = elem_mul [OF elem_add [OF P(2,1)] C(2), simplified]
  note A = elem_mul [OF elem_sub [OF P(2,1)] C(1), simplified]
  note T = elem_mul [OF C(3) P(4), simplified]
  note t0 = elem_add [OF P(3) P(3), simplified]
  show ?thesis
    using elem_mono [OF elem_sub [OF B A, simplified], of 330] elem_mono [OF elem_add [OF B A, simplified], of 330]
      elem_mono [OF elem_sub [OF t0 T, simplified], of 330] elem_mono [OF elem_add [OF t0 T, simplified], of 330]
    by (simp add: p1_rep_def ge_msub_def Let_def ed_add_def ed_neg_def p algebra_simps)
qed

lemma ge_p2_dbl_rep:
  assumes "p2_rep P p"
  shows "p1_rep (ge_p2_dbl P) (ed_double p)"
proof -
  obtain X Y Z where p: "p = (X, Y, Z)" by (cases p) auto
  have P: "elem 110 X (p2_X P)" "elem 110 Y (p2_Y P)" "elem 110 Z (p2_Z P)"
    using assms by (simp_all add: p2_rep_def p)
  note XX = elem_sq [OF P(1), simplified]
  note YY = elem_sq [OF P(2), simplified]
  note ZZ = elem_sq2 [OF P(3), simplified]
  note t0 = elem_sq [OF elem_add [OF P(1,2)], simplified]
  note S = elem_add [OF YY XX, simplified]
  note D = elem_sub [OF YY XX, simplified]
  show ?thesis
    using elem_mono [OF elem_sub [OF t0 S, simplified], of 330] elem_mono [OF S, of 330] elem_mono [OF D, of 330]
      elem_mono [OF elem_sub [OF ZZ D, simplified], of 330]
    by (simp add: p1_rep_def ge_p2_dbl_def Let_def ed_double_def p algebra_simps)
qed

lemma ge_p1p1_to_p3_rep:
  assumes "p1_rep P p"
  shows "p3_rep (ge_p1p1_to_p3 P) (ed_extend p)"
proof -
  obtain E H G F where p: "p = (E, H, G, F)" by (cases p) auto
  have P: "elem 330 E (p1_X P)" "elem 330 H (p1_Y P)" "elem 330 G (p1_Z P)" "elem 330 F (p1_T P)"
    using assms by (simp_all add: p1_rep_def p)
  show ?thesis
    using elem_mono [OF elem_mul [OF P(1,4), simplified], of 110] elem_mono [OF elem_mul [OF P(2,3), simplified], of 110]
      elem_mono [OF elem_mul [OF P(3,4), simplified], of 110] elem_mono [OF elem_mul [OF P(1,2), simplified], of 110]
    by (simp add: p3_rep_def ge_p1p1_to_p3_def ed_extend_def p)
qed

definition forget_T :: "coords \<Rightarrow> fp \<times> fp \<times> fp" where
  "forget_T p = (case p of (X, Y, Z, T) \<Rightarrow> (X, Y, Z))"

lemma ge_p1p1_to_p2_rep: "p1_rep P p \<Longrightarrow> p2_rep (ge_p1p1_to_p2 P) (forget_T (ed_extend p))"
  using ge_p1p1_to_p3_rep [of P p]
  by (auto simp: p2_rep_def p3_rep_def ge_p1p1_to_p2_def ge_p1p1_to_p3_def forget_T_def ed_extend_def split: prod.splits)

lemma ge_p3_to_p2_rep: "p3_rep P p \<Longrightarrow> p2_rep (ge_p3_to_p2 P) (forget_T p)"
  by (auto simp: p2_rep_def p3_rep_def ge_p3_to_p2_def forget_T_def elem_copy split: prod.splits)

lemma ge_p3_dbl_rep: "p3_rep P p \<Longrightarrow> p1_rep (ge_p3_dbl P) (ed_double (forget_T p))"
  unfolding ge_p3_dbl_def by (intro ge_p2_dbl_rep ge_p3_to_p2_rep)

lemma ge_p3_to_cached_rep:
  assumes "p3_rep P p"
  shows "cached_rep (ge_p3_to_cached P) p"
proof -
  obtain X Y Z T where p: "p = (X, Y, Z, T)" by (cases p) auto
  have P: "elem 110 X (p3_X P)" "elem 110 Y (p3_Y P)" "elem 110 Z (p3_Z P)" "elem 110 T (p3_T P)"
    using assms by (simp_all add: p3_rep_def p)
  show ?thesis
    using elem_add [OF P(2,1), simplified] elem_sub [OF P(2,1), simplified] elem_copy [OF P(3)]
      elem_mono [OF elem_mul [OF P(4) elem_d2, simplified], of 110]
    by (simp add: cached_rep_def ge_p3_to_cached_def p ac_simps)
qed

lemma ge_p3_0_rep: "p3_rep ge_p3_0 (0, 1, 1, 0)" and ge_p2_0_rep: "p2_rep ge_p2_0 (0, 1, 1)"
  using elem_mono [OF elem_0, of 110] elem_mono [OF elem_1, of 110]
  by (simp_all add: p3_rep_def p2_rep_def ge_p3_0_def ge_p2_0_def)

lemmas ge_reps = ge_add_rep ge_sub_rep ge_madd_rep ge_msub_rep ge_p2_dbl_rep ge_p1p1_to_p3_rep ge_p1p1_to_p2_rep
  ge_p3_to_p2_rep ge_p3_dbl_rep ge_p3_to_cached_rep ge_p3_0_rep ge_p2_0_rep

section \<open>Closure on the curve\<close>

lemma add_on_curve:
  assumes "on_curve p" and "on_curve q"
  shows "on_curve (ed_extend (ed_add p q))"
proof -
  obtain X1 Y1 Z1 T1 where p: "p = (X1, Y1, Z1, T1)" by (cases p) auto
  obtain X2 Y2 Z2 T2 where q: "q = (X2, Y2, Z2, T2)" by (cases q) auto
  let ?d = curve_d
  have c1: "Y1 * Y1 - X1 * X1 = Z1 * Z1 + ?d * (T1 * T1)" "X1 * Y1 = Z1 * T1" using assms(1) by (simp_all add: on_curve_def p)
  have c2: "Y2 * Y2 - X2 * X2 = Z2 * Z2 + ?d * (T2 * T2)" "X2 * Y2 = Z2 * T2" using assms(2) by (simp_all add: on_curve_def q)
  define E H G F where "E = X1 * Y2 + X2 * Y1" and "H = Y1 * Y2 + X1 * X2"
    and "G = Z1 * Z2 + ?d * T1 * T2" and "F = Z1 * Z2 - ?d * T1 * T2"
  have HE: "H * H - E * E = (Z1 * Z1 + ?d * (T1 * T1)) * (Z2 * Z2 + ?d * (T2 * T2))"
    unfolding c1(1) [symmetric] c2(1) [symmetric] E_def H_def by (simp add: algebra_simps)
  have cross: "H * (X1 * Y2 - X2 * Y1) = F * (T1 * Z2 - T2 * Z1)"
  proof -
    have "H * (X1 * Y2 - X2 * Y1) = X1 * Y1 * (Y2 * Y2 - X2 * X2) - X2 * Y2 * (Y1 * Y1 - X1 * X1)"
      unfolding H_def by (simp add: algebra_simps)
    also have "\<dots> = F * (T1 * Z2 - T2 * Z1)"
      unfolding c1 c2 F_def by (simp add: algebra_simps)
    finally show ?thesis .
  qed
  have GF: "G * G - F * F = 4 * ?d * (Z1 * T1) * (Z2 * T2)" unfolding G_def F_def by (simp add: algebra_simps)
  have EE: "E * E - 4 * (Z1 * T1) * (Z2 * T2) = (X1 * Y2 - X2 * Y1) * (X1 * Y2 - X2 * Y1)"
    unfolding c1(2) [symmetric] c2(2) [symmetric] E_def by (simp add: algebra_simps)
  have NG: "(Z1 * Z1 + ?d * (T1 * T1)) * (Z2 * Z2 + ?d * (T2 * T2)) - G * G = ?d * ((T1 * Z2 - T2 * Z1) * (T1 * Z2 - T2 * Z1))"
    unfolding G_def by (simp add: algebra_simps)
  have "H * G * (H * G) - E * F * (E * F) = F * F * (H * H - E * E) + H * H * (G * G - F * F)"
    by (simp add: algebra_simps)
  also have "\<dots> = G * F * (G * F) + F * F * (?d * ((T1 * Z2 - T2 * Z1) * (T1 * Z2 - T2 * Z1)))
      + H * H * (4 * ?d * (Z1 * T1) * (Z2 * T2))"
    unfolding HE GF NG [symmetric] by (simp add: algebra_simps)
  also have "F * F * (?d * ((T1 * Z2 - T2 * Z1) * (T1 * Z2 - T2 * Z1))) = ?d * ((F * (T1 * Z2 - T2 * Z1)) * (F * (T1 * Z2 - T2 * Z1)))"
    by (simp add: algebra_simps)
  also have "\<dots> = ?d * (H * H * (E * E - 4 * (Z1 * T1) * (Z2 * T2)))"
    unfolding cross [symmetric] EE by (simp add: algebra_simps)
  finally have main: "H * G * (H * G) - E * F * (E * F) = G * F * (G * F) + ?d * (E * H * (E * H))"
    by (simp add: algebra_simps)
  have "ed_extend (ed_add p q) = (4 * (E * F), 4 * (H * G), 4 * (G * F), 4 * (E * H))"
    by (simp add: p q ed_extend_def ed_add_def E_def H_def G_def F_def algebra_simps)
  then show ?thesis using arg_cong [OF main, of "\<lambda>x. 16 * x"] by (simp add: on_curve_def algebra_simps)
qed

lemma neg_on_curve: "on_curve p \<Longrightarrow> on_curve (ed_neg p)"
  by (auto simp: on_curve_def ed_neg_def split: prod.splits)

lemma forget_T_on_curve: "on_curve p \<Longrightarrow> on_curve2 (forget_T p)"
proof -
  assume c: "on_curve p"
  obtain X Y Z T where p: "p = (X, Y, Z, T)" by (cases p) auto
  have "Y * Y - X * X = Z * Z + curve_d * (T * T)" and t: "X * Y = Z * T" using c by (simp_all add: on_curve_def p)
  then have "(Y * Y - X * X) * (Z * Z) = Z * Z * (Z * Z) + curve_d * (Z * T * (Z * T))" by (simp add: algebra_simps)
  then show ?thesis unfolding t [symmetric] by (simp add: on_curve2_def forget_T_def p algebra_simps)
qed

lemma double_on_curve:
  assumes "on_curve2 p"
  shows "on_curve (ed_extend (ed_double p))"
proof -
  obtain X Y Z where p: "p = (X, Y, Z)" by (cases p) auto
  define E H G F where "E = 2 * (X * Y)" and "H = Y * Y + X * X" and "G = Y * Y - X * X" and "F = 2 * (Z * Z) - G"
  have c: "G * (Z * Z) = Z * Z * (Z * Z) + curve_d * (X * X * (Y * Y))"
    using assms by (simp add: on_curve2_def p G_def)
  have "G * G - F * F = 4 * (G * (Z * Z) - Z * Z * (Z * Z))" unfolding F_def by (simp add: algebra_simps)
  then have GF: "G * G - F * F = curve_d * (E * E)" unfolding c E_def by (simp add: algebra_simps)
  have HE: "H * H - E * E = G * G" unfolding H_def E_def G_def by (simp add: algebra_simps)
  have "H * G * (H * G) - E * F * (E * F) = F * F * (H * H - E * E) + H * H * (G * G - F * F)"
    by (simp add: algebra_simps)
  then have "H * G * (H * G) - E * F * (E * F) = G * F * (G * F) + curve_d * (E * H * (E * H))"
    unfolding HE GF by (simp add: algebra_simps)
  moreover have "ed_double p = (E, H, G, F)" by (simp add: p ed_double_def E_def H_def G_def F_def)
  ultimately show ?thesis by (simp add: on_curve_def ed_extend_def algebra_simps)
qed

text \<open>Doubling is addition of a point to itself, with all four coordinates divided by two.\<close>

lemma double_is_add:
  assumes "on_curve p"
  shows "ed_add p p = (case ed_double (forget_T p) of (E, H, G, F) \<Rightarrow> (2 * E, 2 * H, 2 * G, 2 * F))"
proof -
  obtain X Y Z T where p: "p = (X, Y, Z, T)" by (cases p) auto
  have c: "Y * Y - X * X = Z * Z + curve_d * (T * T)" using assms by (simp add: on_curve_def p)
  show ?thesis by (simp add: p ed_add_def ed_double_def forget_T_def c)
qed

lemma identity_on_curve: "on_curve (0, 1, 1, 0)"
  by (simp add: on_curve_def)

lemma add_identity: "ed_extend (ed_add p (0, 1, 1, 0)) = (case p of (X, Y, Z, T) \<Rightarrow> (4 * (Z * X), 4 * (Z * Y), 4 * (Z * Z), 4 * (X * Y)))"
  by (simp add: ed_extend_def ed_add_def split: prod.splits)

text \<open>On affine points the law reads \<open>x = (x1 y2 + x2 y1) / (1 + d x1 x2 y1 y2)\<close> and
  \<open>y = (y1 y2 + x1 x2) / (1 - d x1 x2 y1 y2)\<close>.\<close>

definition affine :: "fp \<Rightarrow> fp \<Rightarrow> fp \<Rightarrow> coords" where
  "affine x y z = (x * z, y * z, z, x * y * z)"

lemma add_affine:
  "ed_add (affine x1 y1 z1) (affine x2 y2 z2) =
    (let w = 2 * (z1 * z2); e = curve_d * x1 * x2 * y1 * y2 in
     (w * (x1 * y2 + x2 * y1), w * (y1 * y2 + x1 * x2), w * (1 + e), w * (1 - e)))"
  by (simp add: ed_add_def affine_def Let_def algebra_simps)

lemma affine_on_curve:
  "y * y - x * x = 1 + curve_d * (x * x * (y * y)) \<Longrightarrow> on_curve (affine x y z)"
proof -
  assume "y * y - x * x = 1 + curve_d * (x * x * (y * y))"
  then have "(y * y - x * x) * (z * z) = (1 + curve_d * (x * x * (y * y))) * (z * z)" by simp
  then show ?thesis by (simp add: on_curve_def affine_def algebra_simps)
qed

section \<open>Decompression\<close>

lemma drop_lengths:
  assumes "length (s :: byte list) = 32"
  shows "k \<le> 28 \<Longrightarrow> 4 \<le> length (drop k s)" and "k \<le> 29 \<Longrightarrow> 3 \<le> length (drop k s)"
  using assms by simp_all

lemma load_fe_parts:
  assumes "length s = 32"
  obtains a :: "nat \<Rightarrow> nat" where "\<forall>i < 10. a i < (if i = 0 \<or> i = 5 then 4294967296 else if i = 9 then 8388608 else 16777216)"
    and "load_fe s = map word_of_nat [a 0, 64 * a 1, 32 * a 2, 8 * a 3, 4 * a 4, a 5, 128 * a 6, 32 * a 7, 16 * a 8, 4 * a 9]"
    and "le_nat s mod 2 ^ 255 = a 0 + 2 ^ 32 * a 1 + 2 ^ 56 * a 2 + 2 ^ 80 * a 3 + 2 ^ 104 * a 4 + 2 ^ 128 * a 5
      + 2 ^ 160 * a 6 + 2 ^ 184 * a 7 + 2 ^ 208 * a 8 + 2 ^ 232 * a 9"
proof -
  define a where "a = (!) [unat (load_4 s), unat (load_3 (drop 4 s)), unat (load_3 (drop 7 s)), unat (load_3 (drop 10 s)),
    unat (load_3 (drop 13 s)), unat (load_4 (drop 16 s)), unat (load_3 (drop 20 s)), unat (load_3 (drop 23 s)),
    unat (load_3 (drop 26 s)), unat (load_3 (drop 29 s)) mod 8388608]"
  note len = drop_lengths [OF assms]
  have b: "a i < (if i = 0 \<or> i = 5 then 4294967296 else if i = 9 then 8388608 else 16777216)" if "i < 10" for i
    using lt_10E [OF that] len load_3_bound load_4_less [OF len(1)] load_4_less [of s] assms
    by (elim disjE) (simp_all add: a_def)
  have push: "push_bit n w = word_of_nat (2 ^ n * unat w)" for n and w :: u64
    by (simp add: push_bit_eq_mult mult.commute)
  have mask: "w AND 8388607 = word_of_nat (unat w mod 8388608)" for w :: u64
    using unat_mask_u64 [of w 23] by (simp add: word_unat_eq_iff mask_eq_exp_minus_1 unat_of_nat take_bit_nat_eq_self)
  have load: "load_fe s = map word_of_nat [a 0, 64 * a 1, 32 * a 2, 8 * a 3, 4 * a 4, a 5, 128 * a 6, 32 * a 7, 16 * a 8, 4 * a 9]"
    unfolding load_fe_def mask push a_def by simp
  have full: "le_nat s = a 0 + 2 ^ 32 * a 1 + 2 ^ 56 * a 2 + 2 ^ 80 * a 3 + 2 ^ 104 * a 4 + 2 ^ 128 * a 5
      + 2 ^ 160 * a 6 + 2 ^ 184 * a 7 + 2 ^ 208 * a 8 + 2 ^ 232 * unat (load_3 (drop 29 s))"
    using assms le_nat_step [of s] le_nat_step_3 [of "drop 4 s"] le_nat_step_3 [of "drop 7 s"]
      le_nat_step_3 [of "drop 10 s"] le_nat_step_3 [of "drop 13 s"] le_nat_step [of "drop 16 s"]
      le_nat_step_3 [of "drop 20 s"] le_nat_step_3 [of "drop 23 s"] le_nat_step_3 [of "drop 26 s"]
      le_nat_step_3 [of "drop 29 s"]
    by (simp add: a_def)
  define L where "L = a 0 + 2 ^ 32 * a 1 + 2 ^ 56 * a 2 + 2 ^ 80 * a 3 + 2 ^ 104 * a 4 + 2 ^ 128 * a 5
      + 2 ^ 160 * a 6 + 2 ^ 184 * a 7 + 2 ^ 208 * a 8"
  have "L < 2 ^ 232"
    using b [of 0] b [of 1] b [of 2] b [of 3] b [of 4] b [of 5] b [of 6] b [of 7] b [of 8] by (simp add: L_def)
  moreover have "le_nat s = L + 2 ^ 232 * unat (load_3 (drop 29 s))" using full by (simp add: L_def)
  ultimately have "le_nat s mod (2 ^ 232 * 2 ^ 23) = L + 2 ^ 232 * (unat (load_3 (drop 29 s)) mod 2 ^ 23)"
    by (simp only: mod_mult2_eq) simp
  then have "le_nat s mod 2 ^ 255 = L + 2 ^ 232 * a 9" by (simp add: a_def)
  then show thesis using b load by (intro that [of a]) (simp_all add: L_def)
qed

lemma sint_word_of_nat: "n < 2 ^ 40 \<Longrightarrow> sint (word_of_nat n :: i64) = int n"
proof -
  assume n: "n < 2 ^ 40"
  then have "unat (word_of_nat n :: i64) = n" by (simp add: unat_of_nat take_bit_nat_eq_self)
  then show ?thesis using sint_small [of "word_of_nat n"] n by (simp only:) simp
qed

definition load_ranges :: "range list" where
  "load_ranges = [(0, 4294967295), (0, 1073741823), (0, 536870911), (0, 134217727), (0, 67108863), (0, 4294967295),
     (0, 2147483647), (0, 536870911), (0, 268435455), (0, 33554431)]"

lemma load_ranges_normalized:
  "case pass_ranges fe_carry_ranges [9, 1, 3, 5, 7, 0, 2, 4, 6, 8] load_ranges of
     None \<Rightarrow> False | Some R \<Rightarrow> ranges_within 101 R"
  by code_simp

lemma small_word_eq:
  "sint w = x \<Longrightarrow> - 9223372036854775808 \<le> y \<Longrightarrow> y < 9223372036854775808 \<Longrightarrow> (w :: i64) = word_of_int y \<longleftrightarrow> x = y"
  using word_range_sint [of "(y, y)" y] word_of_sint [of w] by (auto simp: word_range_def in_range_def)

lemma load_fe_sint:
  assumes "length s = 32"
  obtains a :: "nat \<Rightarrow> int" where "\<forall>i < 10. 0 \<le> a i \<and> a i < (if i = 0 \<or> i = 5 then 4294967296 else if i = 9 then 8388608 else 16777216)"
    and "map sint (load_fe s) = [a 0, 64 * a 1, 32 * a 2, 8 * a 3, 4 * a 4, a 5, 128 * a 6, 32 * a 7, 16 * a 8, 4 * a 9]"
    and "int (le_nat s mod 2 ^ 255) = a 0 + 2 ^ 32 * a 1 + 2 ^ 56 * a 2 + 2 ^ 80 * a 3 + 2 ^ 104 * a 4 + 2 ^ 128 * a 5
      + 2 ^ 160 * a 6 + 2 ^ 184 * a 7 + 2 ^ 208 * a 8 + 2 ^ 232 * a 9"
proof -
  obtain a :: "nat \<Rightarrow> nat" where b: "\<forall>i < 10. a i < (if i = 0 \<or> i = 5 then 4294967296 else if i = 9 then 8388608 else 16777216)"
    and l: "load_fe s = map word_of_nat [a 0, 64 * a 1, 32 * a 2, 8 * a 3, 4 * a 4, a 5, 128 * a 6, 32 * a 7, 16 * a 8, 4 * a 9]"
    and v: "le_nat s mod 2 ^ 255 = a 0 + 2 ^ 32 * a 1 + 2 ^ 56 * a 2 + 2 ^ 80 * a 3 + 2 ^ 104 * a 4 + 2 ^ 128 * a 5
      + 2 ^ 160 * a 6 + 2 ^ 184 * a 7 + 2 ^ 208 * a 8 + 2 ^ 232 * a 9"
    using load_fe_parts [OF assms] by blast
  have c: "c * a i < 2 ^ 40" if "i < 10" "c \<le> 128" for c i
  proof -
    have "a i < 2 ^ 32" using b [rule_format, OF that(1)] by (auto split: if_splits)
    then have "c * a i < 128 * 2 ^ 32" using that(2) by (meson le_less_trans less_le_trans mult_le_mono mult_less_cancel1 le_refl nat_less_le zero_less_numeral)
    then show ?thesis by simp
  qed
  have m: "map sint (load_fe s) = map int [a 0, 64 * a 1, 32 * a 2, 8 * a 3, 4 * a 4, a 5, 128 * a 6, 32 * a 7, 16 * a 8, 4 * a 9]"
    unfolding l using sint_word_of_nat [OF c [of 0 1]] sint_word_of_nat [OF c [of 1 64]] sint_word_of_nat [OF c [of 2 32]]
      sint_word_of_nat [OF c [of 3 8]] sint_word_of_nat [OF c [of 4 4]] sint_word_of_nat [OF c [of 5 1]]
      sint_word_of_nat [OF c [of 6 128]] sint_word_of_nat [OF c [of 7 32]] sint_word_of_nat [OF c [of 8 16]]
      sint_word_of_nat [OF c [of 9 4]] by simp
  have v': "int (le_nat s mod 2 ^ 255) = int (a 0) + 2 ^ 32 * int (a 1) + 2 ^ 56 * int (a 2) + 2 ^ 80 * int (a 3)
      + 2 ^ 104 * int (a 4) + 2 ^ 128 * int (a 5) + 2 ^ 160 * int (a 6) + 2 ^ 184 * int (a 7) + 2 ^ 208 * int (a 8)
      + 2 ^ 232 * int (a 9)"
    unfolding v by simp
  have b': "0 \<le> int (a i) \<and> int (a i) < (if i = 0 \<or> i = 5 then 4294967296 else if i = 9 then 8388608 else 16777216)"
    if "i < 10" for i using b [rule_format, OF that] by (auto split: if_splits)
  show thesis using b' by (intro that [of "\<lambda>i. int (a i)", OF _ _ v']) (simp_all add: m)
qed

lemma load_fe_limbs:
  assumes "length s = 32"
  shows "fe_limbs load_ranges (int (le_nat s mod 2 ^ 255)) (load_fe s)"
    and "fe_noncanonical (load_fe s) \<longleftrightarrow> fe_prime \<le> int (le_nat s mod 2 ^ 255)"
proof -
  obtain a :: "nat \<Rightarrow> int" where b: "\<forall>i < 10. 0 \<le> a i \<and> a i < (if i = 0 \<or> i = 5 then 4294967296 else if i = 9 then 8388608 else 16777216)"
    and m: "map sint (load_fe s) = [a 0, 64 * a 1, 32 * a 2, 8 * a 3, 4 * a 4, a 5, 128 * a 6, 32 * a 7, 16 * a 8, 4 * a 9]"
    and v: "int (le_nat s mod 2 ^ 255) = a 0 + 2 ^ 32 * a 1 + 2 ^ 56 * a 2 + 2 ^ 80 * a 3 + 2 ^ 104 * a 4 + 2 ^ 128 * a 5
      + 2 ^ 160 * a 6 + 2 ^ 184 * a 7 + 2 ^ 208 * a 8 + 2 ^ 232 * a 9"
    using load_fe_sint [OF assms] by blast
  have bs: "0 \<le> a 0" "a 0 < 4294967296" "0 \<le> a 1" "a 1 < 16777216" "0 \<le> a 2" "a 2 < 16777216" "0 \<le> a 3" "a 3 < 16777216"
      "0 \<le> a 4" "a 4 < 16777216" "0 \<le> a 5" "a 5 < 4294967296" "0 \<le> a 6" "a 6 < 16777216" "0 \<le> a 7" "a 7 < 16777216"
      "0 \<le> a 8" "a 8 < 16777216" "0 \<le> a 9" "a 9 < 8388608"
    using b [rule_format, of 0] b [rule_format, of 1] b [rule_format, of 2] b [rule_format, of 3] b [rule_format, of 4]
      b [rule_format, of 5] b [rule_format, of 6] b [rule_format, of 7] b [rule_format, of 8] b [rule_format, of 9]
    by simp_all
  have len: "length (load_fe s) = 10" by (simp add: load_fe_def)
  have s: "sint (load_fe s ! i) = [a 0, 64 * a 1, 32 * a 2, 8 * a 3, 4 * a 4, a 5, 128 * a 6, 32 * a 7, 16 * a 8, 4 * a 9] ! i"
    if "i < 10" for i
    using nth_map [of i "load_fe s" sint] m len that by simp
  have sum10: "(\<Sum>i<10. f i) = f 0 + f 1 + f 2 + f 3 + f 4 + f 5 + f 6 + f 7 + f 8 + f 9" for f :: "nat \<Rightarrow> int"
    by (simp add: eval_nat_numeral)
  have "fe_value (load_fe s) = int (le_nat s mod 2 ^ 255)"
    unfolding fe_value_def sum10 v by (simp add: s fe_weight_def)
  moreover have "in_range (load_ranges ! i) (sint (load_fe s ! i))" if "i < 10" for i
    using lt_10E [OF that] bs by (elim disjE) (simp_all add: s load_ranges_def in_range_def)
  ultimately show "fe_limbs load_ranges (int (le_nat s mod 2 ^ 255)) (load_fe s)"
    using len by (simp add: fe_limbs_def load_ranges_def)
  have eq: "load_fe s ! i = word_of_int y \<longleftrightarrow> [a 0, 64 * a 1, 32 * a 2, 8 * a 3, 4 * a 4, a 5, 128 * a 6, 32 * a 7, 16 * a 8, 4 * a 9] ! i = y"
    if "i < 10" "0 \<le> y" "y < 9223372036854775808" for i y
    using small_word_eq [OF s [OF that(1)], of y] that by simp
  have "4294967277 \<le>s load_fe s ! 0 \<longleftrightarrow> 4294967277 \<le> a 0" using s [of 0] by (simp add: word_sle_eq)
  then have "fe_noncanonical (load_fe s) \<longleftrightarrow> a 9 = 8388607 \<and> a 8 = 16777215 \<and> a 7 = 16777215 \<and> a 6 = 16777215 \<and> a 5 = 4294967295
    \<and> a 4 = 16777215 \<and> a 3 = 16777215 \<and> a 2 = 16777215 \<and> a 1 = 16777215 \<and> 4294967277 \<le> a 0"
    using eq [of 9 33554428] eq [of 8 268435440] eq [of 7 536870880] eq [of 6 2147483520] eq [of 5 4294967295]
      eq [of 4 67108860] eq [of 3 134217720] eq [of 2 536870880] eq [of 1 1073741760]
    by (simp add: fe_noncanonical_def)
  also have "\<dots> \<longleftrightarrow> fe_prime \<le> int (le_nat s mod 2 ^ 255)"
    unfolding v fe_prime_def using bs by (simp, linarith)
  finally show "fe_noncanonical (load_fe s) \<longleftrightarrow> fe_prime \<le> int (le_nat s mod 2 ^ 255)" .
qed

lemma fe_normalize_spec:
  assumes "fe_limbs load_ranges X h"
  shows "fe_bounded 101 (fe_normalize h) \<and> fe_value (fe_normalize h) mod fe_prime = X mod fe_prime"
proof -
  obtain R where R: "pass_ranges fe_carry_ranges [9, 1, 3, 5, 7, 0, 2, 4, 6, 8] load_ranges = Some R"
    and ok: "ranges_within 101 R"
    using load_ranges_normalized by (auto simp del: pass_ranges.simps split: option.splits)
  show ?thesis
    using fe_limbs_narrow [OF carrying.pass_sound [OF assms R] ok] by (simp add: fe_normalize_def del: fold_simps)
qed

definition residue :: "fp \<Rightarrow> int" where
  "residue x = Rep_bit1 x"

lemma residue_of_int: "residue (of_int k) = k mod fe_prime"
  unfolding residue_def bit1.of_int_eq bit1.Rep_Abs_mod unfolding card_fp ..

lemma of_int_residue: "of_int (residue x) = x"
proof -
  have "x = of_int (Rep_bit1 x)"
    unfolding bit1.of_int_eq bit1.Rep_mod by (simp only: Rep_bit1_inverse)
  then obtain k where "x = of_int k" ..
  then show ?thesis by (simp add: residue_of_int fp_of_int_eq)
qed

lemma residue_range: "0 \<le> residue x" "residue x < fe_prime" "nat (residue x) < 2 ^ 255"
proof -
  have "residue x = residue x mod fe_prime" using residue_of_int [of "residue x"] by (simp add: of_int_residue)
  then show "0 \<le> residue x" "residue x < fe_prime" using fe_residue_range by metis+
  then show "nat (residue x) < 2 ^ 255" by (simp add: nat_less_iff fe_prime_def)
qed

lemma residue_inject: "residue x = residue y \<longleftrightarrow> x = y"
  using of_int_residue by metis

lemma residue_neg: "x \<noteq> 0 \<Longrightarrow> residue (- x) = fe_prime - residue x"
proof -
  assume x: "x \<noteq> 0"
  have "residue x \<noteq> 0" using x of_int_residue [of x] by auto
  then have "0 < residue x" using residue_range(1) [of x] by simp
  have "- x = of_int (- residue x)" by (simp add: of_int_residue)
  then have "residue (- x) = (- residue x) mod fe_prime" by (simp only: residue_of_int)
  also have "\<dots> = (fe_prime - residue x) mod fe_prime" by simp
  also have "\<dots> = fe_prime - residue x" using \<open>0 < residue x\<close> residue_range(2) [of x] by (intro mod_pos_pos_trivial) simp_all
  finally show ?thesis .
qed

lemma odd_residue_neg: "x \<noteq> 0 \<Longrightarrow> odd (residue (- x)) \<longleftrightarrow> even (residue x)"
  by (simp add: residue_neg fe_prime_def)

lemma elem_residue: "elem n x f \<Longrightarrow> fe_value f mod fe_prime = residue x"
  by (auto simp: elem_def fe_el_def residue_of_int)

lemma elem_negative:
  assumes "elem n x f" and "n \<le> 220"
  shows "fe_isnegative f = (if odd (residue x) then 1 else 0)"
  using fe_isnegative_eq [OF elem_bounded [OF elem_mono [OF assms]]] elem_residue [OF assms(1)] by simp

lemma elem_tobytes:
  assumes "elem n x f" and "n \<le> 220"
  shows "fe_tobytes f = le_bytes 32 (nat (residue x))"
  using fe_tobytes_eq [OF elem_bounded [OF elem_mono [OF assms]]] elem_residue [OF assms(1)] by simp

definition fp_inverse :: "fp \<Rightarrow> fp" where
  "fp_inverse x = x ^ (2 ^ 255 - 21)"

definition fp_sqrt_candidate :: "fp \<Rightarrow> fp \<Rightarrow> fp" where
  "fp_sqrt_candidate u v = u ^ (2 ^ 252 - 2) * v ^ (7 * (2 ^ 252 - 3) + 3)"

lemma elem_invert:
  assumes "elem n x f" and "n \<le> 330"
  shows "elem 101 (fp_inverse x) (fe_invert f)"
proof -
  note s = fe_invert_spec [OF elem_bounded [OF elem_mono [OF assms]]]
  have "fe_el (fe_invert f) = of_int (fe_value f ^ (2 ^ 255 - 21))"
    unfolding fe_el_def fp_of_int_eq using s by blast
  also have "\<dots> = of_int (fe_value f) ^ (2 ^ 255 - 21)" by (rule of_int_power)
  also have "\<dots> = fp_inverse x" using assms(1) by (simp only: fp_inverse_def elem_def fe_el_def)
  finally show ?thesis using s by (simp only: elem_def simp_thms)
qed

lemma elem_divpowm1:
  assumes "elem m u f" and "m \<le> 330" and "elem n v g" and "n \<le> 330"
  shows "elem 101 (fp_sqrt_candidate u v) (fe_divpowm1 f g)"
proof -
  note s = fe_divpowm1_spec [OF elem_bounded [OF elem_mono [OF assms(1,2)]] elem_bounded [OF elem_mono [OF assms(3,4)]]]
  have "fe_el (fe_divpowm1 f g) = of_int (fe_value f ^ (2 ^ 252 - 2) * fe_value g ^ (7 * (2 ^ 252 - 3) + 3))"
    unfolding fe_el_def fp_of_int_eq using s by blast
  also have "\<dots> = of_int (fe_value f) ^ (2 ^ 252 - 2) * of_int (fe_value g) ^ (7 * (2 ^ 252 - 3) + 3)"
    by (simp only: of_int_power of_int_mult)
  also have "\<dots> = fp_sqrt_candidate u v" using assms(1,3) by (simp only: fp_sqrt_candidate_def elem_def fe_el_def)
  finally show ?thesis using s by (simp only: elem_def simp_thms)
qed

text \<open>The encoding of an affine point: \<open>y\<close> in 255 bits and the parity of \<open>x\<close> above it.\<close>

definition encode_point :: "fp \<Rightarrow> fp \<Rightarrow> byte list" where
  "encode_point x y = le_bytes 32 (nat (residue y) + 2 ^ 255 * of_bool (odd (residue x)))"

lemma set_top_bit:
  assumes "n < 2 ^ 255"
  shows "(le_bytes 32 n)[31 := le_bytes 32 n ! 31 XOR ucast (push_bit 7 (if b then 1 else 0 :: u32))] = le_bytes 32 (n + 2 ^ 255 * of_bool b)"
proof (cases b)
  case True
  show ?thesis
  proof (rule nth_equalityI)
    fix i assume "i < length ((le_bytes 32 n)[31 := le_bytes 32 n ! 31 XOR ucast (push_bit 7 (if b then 1 else 0 :: u32))])"
    then consider "i = 31" | "i < 31" by fastforce
    then show "(le_bytes 32 n)[31 := le_bytes 32 n ! 31 XOR ucast (push_bit 7 (if b then 1 else 0 :: u32))] ! i
        = le_bytes 32 (n + 2 ^ 255 * of_bool b) ! i"
    proof cases
      case 1
      have lt: "n div 256 ^ 31 < 128" using assms by (simp add: less_mult_imp_div_less)
      have "(n + 2 ^ 255) div 256 ^ 31 = n div 256 ^ 31 + 128" by simp
      moreover have "(word_of_nat k :: byte) XOR 128 = word_of_nat (k + 128)" if "k < 128" for k
      proof (rule bit_word_eqI)
        fix m assume "m < LENGTH(8)"
        have "k + 128 = set_bit 7 k" using that by (simp add: set_bit_eq bit_iff_odd)
        moreover have "bit (128 :: byte) m \<longleftrightarrow> m = 7" using bit_exp_iff [of 7 m, where 'a = byte] by auto
        moreover have "\<not> bit k 7" using that by (simp add: bit_iff_odd)
        ultimately show "bit ((word_of_nat k :: byte) XOR 128) m \<longleftrightarrow> bit (word_of_nat (k + 128) :: byte) m"
          using that by (auto simp: bit_simps)
      qed
      ultimately show ?thesis using lt True 1 by (simp add: le_bytes_nth)
    next
      case 2
      have "(2 :: nat) ^ 255 = 256 ^ i * (256 * 2 ^ (247 - 8 * i))"
      proof -
        have "(2 :: nat) ^ 255 = 2 ^ (8 * i) * (2 ^ 8 * 2 ^ (247 - 8 * i))"
          unfolding power_add [symmetric] using 2 by (intro arg_cong [of _ _ "(^) 2"]) linarith
        then show ?thesis by (simp add: power_mult)
      qed
      moreover have "(256 :: nat) ^ i \<noteq> 0" by simp
      ultimately have "(n + 2 ^ 255) div 256 ^ i mod 256 = n div 256 ^ i mod 256"
        by (simp only: div_mult_self2 mod_mult_self4 simp_thms)
      then show ?thesis using 2 True by (simp add: le_bytes_nth)
    qed
  qed simp
qed (simp add: list_update_id)

lemma encode_elem:
  assumes "elem 101 x f" and "elem 101 y g"
  shows "(fe_tobytes g)[31 := fe_tobytes g ! 31 XOR ucast (push_bit 7 (fe_isnegative f))] = encode_point x y"
  using elem_negative [OF assms(1)] elem_tobytes [OF assms(2)] set_top_bit [OF residue_range(3) [of y], of "odd (residue x)"]
  by (simp add: encode_point_def del: le_bytes.simps)

lemma ge_tobytes_rep:
  assumes "p2_rep P (X, Y, Z)"
  shows "ge_tobytes P = encode_point (X * fp_inverse Z) (Y * fp_inverse Z)"
proof -
  have P: "elem 110 X (p2_X P)" "elem 110 Y (p2_Y P)" "elem 110 Z (p2_Z P)"
    using assms by (simp_all add: p2_rep_def)
  note i = elem_invert [OF P(3), simplified]
  show ?thesis
    using encode_elem [OF elem_mul [OF P(1) i, simplified] elem_mul [OF P(2) i, simplified]] by (simp add: ge_tobytes_def Let_def)
qed

lemma ge_p3_tobytes_eq: "ge_p3_tobytes P = ge_tobytes \<lparr>p2_X = p3_X P, p2_Y = p3_Y P, p2_Z = p3_Z P\<rparr>"
  by (simp add: ge_p3_tobytes_def ge_tobytes_def)

lemma ge_p3_tobytes_rep:
  assumes "p3_rep P (X, Y, Z, T)"
  shows "ge_p3_tobytes P = encode_point (X * fp_inverse Z) (Y * fp_inverse Z)"
  unfolding ge_p3_tobytes_eq using assms by (intro ge_tobytes_rep) (simp add: p3_rep_def p2_rep_def)

text \<open>The reference decoding of a point over the field.\<close>

definition choose_sign :: "bool \<Rightarrow> fp \<Rightarrow> fp option" where
  "choose_sign b x = (if odd (residue x) = b then Some x else if x = 0 then None else Some (- x))"

definition sqrt_ratio :: "fp \<Rightarrow> fp \<Rightarrow> fp option" where
  "sqrt_ratio u v = (
     let c = fp_sqrt_candidate u v in
     if c * c * v = u then Some c
     else if c * c * v = - u then Some (c * fe_el fe_sqrtm1)
     else None)"

definition decode_point :: "byte list \<Rightarrow> (fp \<times> fp) option" where
  "decode_point s = (
     let n = le_nat s mod 2 ^ 255; y = of_int (int n) in
     if fe_prime \<le> int n then None
     else do {
       x \<leftarrow> sqrt_ratio (y * y - 1) (y * y * curve_d + 1);
       x \<leftarrow> choose_sign (bit (s ! 31) 7) x;
       Some (x, y)
     })"

lemma sign_bit: "(ucast (drop_bit 7 (b :: byte)) :: u32) = (if bit b 7 then 1 else 0)"
proof (rule bit_word_eqI)
  fix n assume "n < LENGTH(32)"
  have "bit b (7 + n) \<longleftrightarrow> n = 0 \<and> bit b 7" using bit_imp_le_length [of b "7 + n"] by auto
  then show "bit (ucast (drop_bit 7 b) :: u32) n \<longleftrightarrow> bit (if bit b 7 then 1 else 0 :: u32) n"
    using \<open>n < LENGTH(32)\<close> by (auto simp: bit_simps bit_1_iff)
qed

lemma sqrt_ratio_sound:
  assumes "sqrt_ratio u v = Some x"
  shows "x * x * v = u"
proof -
  define c where "c = fp_sqrt_candidate u v"
  have "c * fe_el fe_sqrtm1 * (c * fe_el fe_sqrtm1) * v = (fe_el fe_sqrtm1 * fe_el fe_sqrtm1) * (c * c * v)"
    by (simp only: ac_simps)
  then show ?thesis using assms unfolding sqrt_ratio_def c_def [symmetric] Let_def
    by (auto simp: sqrtm1_squared split: if_splits)
qed

lemma choose_sign_sound:
  assumes "choose_sign b x = Some z"
  shows "z * z = x * x \<and> (odd (residue z) \<longleftrightarrow> b)"
  using assms odd_residue_neg [of x] by (auto simp: choose_sign_def split: if_splits)

lemma decode_point_sound:
  assumes "decode_point s = Some (x, y)"
  shows "on_curve (x, y, 1, x * y) \<and> int (le_nat s mod 2 ^ 255) < fe_prime \<and> y = of_int (int (le_nat s mod 2 ^ 255))
    \<and> (odd (residue x) \<longleftrightarrow> bit (s ! 31) 7)"
proof -
  define n where "n = le_nat s mod 2 ^ 255"
  obtain z where r: "sqrt_ratio (y * y - 1) (y * y * curve_d + 1) = Some z"
    and c: "choose_sign (bit (s ! 31) 7) z = Some x" and n: "int n < fe_prime" and y: "y = of_int (int n)"
    using assms unfolding decode_point_def n_def [symmetric] Let_def
    by (auto split: if_splits simp: bind_eq_Some_conv)
  have "x * x * (y * y * curve_d + 1) = y * y - 1"
    using sqrt_ratio_sound [OF r] choose_sign_sound [OF c] by simp
  then have "on_curve (x, y, 1, x * y)" by (simp add: on_curve_def algebra_simps)
  then show ?thesis using n y choose_sign_sound [OF c] by (simp add: n_def)
qed

lemma frombytes_sqrt:
  assumes "elem 102 u f" and "elem 102 v g"
  shows "case (let c = fe_divpowm1 f g; w = fe_mul (fe_sq c) g in
      if fe_isnonzero (fe_sub w f) \<noteq> 0
      then if fe_isnonzero (fe_add w f) \<noteq> 0 then None else Some (fe_mul c fe_sqrtm1) else Some c) of
    None \<Rightarrow> sqrt_ratio u v = None
  | Some h \<Rightarrow> (\<exists>x. sqrt_ratio u v = Some x \<and> elem 101 x h)"
proof -
  note c = elem_divpowm1 [OF assms(1) _ assms(2), simplified]
  note w = elem_mul [OF elem_sq [OF c, simplified] assms(2), simplified]
  show ?thesis
    using c elem_mul [OF c elem_sqrtm1, simplified] elem_nonzero [OF elem_sub [OF w assms(1), simplified], simplified]
      elem_nonzero [OF elem_add [OF w assms(1), simplified], simplified]
    by (auto simp: sqrt_ratio_def Let_def eq_neg_iff_add_eq_0)
qed

lemma frombytes_sign:
  assumes "elem 101 x h"
  shows "case (if fe_isnegative h \<noteq> ucast (drop_bit 7 (b :: byte))
      then if fe_isnonzero h = 0 then None else Some (fe_neg h) else Some h) of
    None \<Rightarrow> choose_sign (bit b 7) x = None
  | Some g \<Rightarrow> (\<exists>z. choose_sign (bit b 7) x = Some z \<and> elem 101 z g)"
  using assms elem_neg [OF assms] elem_negative [OF assms] elem_nonzero [OF assms]
  by (auto simp: choose_sign_def sign_bit)

lemma ge_frombytes_vartime_refines:
  assumes "length s = 32"
  shows "case ge_frombytes_vartime s of
      None \<Rightarrow> decode_point s = None
    | Some P \<Rightarrow> (\<exists>x y. decode_point s = Some (x, y) \<and> p3_rep P (x, y, 1, x * y))"
proof (cases "fe_noncanonical (load_fe s)")
  case True
  then show ?thesis using load_fe_limbs(2) [OF assms] by (simp add: ge_frombytes_vartime_def decode_point_def)
next
  case False
  define n where "n = le_nat s mod 2 ^ 255"
  define y :: fp where "y = of_int (int n)"
  define hY where "hY = fe_normalize (load_fe s)"
  define u where "u = fe_sub (fe_sq hY) fe_1"
  define v where "v = fe_add (fe_mul (fe_sq hY) fe_d) fe_1"
  have small: "\<not> fe_prime \<le> int n" using False load_fe_limbs(2) [OF assms] by (simp add: n_def)
  have Y: "elem 101 y hY"
    using fe_normalize_spec [OF load_fe_limbs(1) [OF assms]] unfolding elem_def fe_el_def hY_def y_def n_def fp_of_int_eq .
  have U: "elem 102 (y * y - 1) u"
    using elem_sub [OF elem_sq [OF Y] elem_1] by (simp add: u_def)
  have V: "elem 102 (y * y * curve_d + 1) v"
    using elem_add [OF elem_mul [OF elem_sq [OF Y] elem_d] elem_1] by (simp add: v_def)
  define r where "r = (let c = fe_divpowm1 u v; w = fe_mul (fe_sq c) v in
      if fe_isnonzero (fe_sub w u) \<noteq> 0
      then if fe_isnonzero (fe_add w u) \<noteq> 0 then None else Some (fe_mul c fe_sqrtm1) else Some c)"
  define g where "g h = (if fe_isnegative h \<noteq> ucast (drop_bit 7 (s ! 31))
      then if fe_isnonzero h = 0 then None else Some (fe_neg h) else Some h)" for h
  have ge: "ge_frombytes_vartime s = r \<bind> (\<lambda>h. g h \<bind> (\<lambda>h. Some \<lparr>p3_X = h, p3_Y = hY, p3_Z = fe_1, p3_T = fe_mul h hY\<rparr>))"
    using False by (simp only: ge_frombytes_vartime_def Let_def if_False r_def g_def hY_def u_def v_def)
  have dec: "decode_point s = sqrt_ratio (y * y - 1) (y * y * curve_d + 1) \<bind> (\<lambda>x. choose_sign (bit (s ! 31) 7) x \<bind> (\<lambda>x. Some (x, y)))"
    unfolding decode_point_def n_def [symmetric] Let_def y_def [symmetric] using small by simp
  show ?thesis
  proof (cases r)
    case None
    then show ?thesis using frombytes_sqrt [OF U V] by (simp add: ge dec flip: r_def)
  next
    case (Some h)
    then obtain x where x: "sqrt_ratio (y * y - 1) (y * y * curve_d + 1) = Some x" "elem 101 x h"
      using frombytes_sqrt [OF U V] by (auto simp flip: r_def)
    show ?thesis
    proof (cases "g h")
      case None
      then show ?thesis using frombytes_sign [OF x(2), of "s ! 31"] Some x(1) by (simp add: ge dec flip: g_def)
    next
      case G: (Some k)
      then obtain z where z: "choose_sign (bit (s ! 31) 7) x = Some z" "elem 101 z k"
        using frombytes_sign [OF x(2), of "s ! 31"] by (auto simp flip: g_def)
      have "p3_rep \<lparr>p3_X = k, p3_Y = hY, p3_Z = fe_1, p3_T = fe_mul k hY\<rparr> (z, y, 1, z * y)"
        using elem_mono [OF z(2), of 110] elem_mono [OF Y, of 110] elem_mono [OF elem_1, of 110]
          elem_mono [OF elem_mul [OF z(2) Y, simplified], of 110] by (simp add: p3_rep_def)
      then show ?thesis using Some G x(1) z(1) by (simp add: ge dec)
    qed
  qed
qed

lemma encode_decode:
  assumes "length s = 32" and "decode_point s = Some (x, y)"
  shows "encode_point x y = s"
proof -
  define n where "n = le_nat s mod 2 ^ 255"
  have d: "int n < fe_prime" "y = of_int (int n)" "odd (residue x) \<longleftrightarrow> bit (s ! 31) 7"
    using decode_point_sound [OF assms(2)] by (simp_all add: n_def)
  have y: "nat (residue y) = n" unfolding d(2) residue_of_int using d(1) by simp
  have top: "s ! 31 = word_of_nat (le_nat s div 256 ^ 31 mod 256)"
    using le_bytes_nth [of 31 32 "le_nat s"] le_bytes_le_nat [OF assms(1)] by simp
  have lt: "le_nat s < 256 ^ 32" using le_nat_bound [of s] assms(1) by simp
  have "bit (s ! 31) 7 \<longleftrightarrow> odd (le_nat s div 256 ^ 31 mod 256 div 2 ^ 7)"
  proof -
    have "bit (word_of_nat k :: byte) 7 \<longleftrightarrow> odd (k div 2 ^ 7)" for k by (simp add: bit_simps) (simp add: bit_iff_odd)
    then show ?thesis unfolding top .
  qed
  also have "le_nat s div 256 ^ 31 mod 256 div 2 ^ 7 = le_nat s div 2 ^ 255"
  proof -
    have "le_nat s div 256 ^ 31 < 256" using lt by (simp add: less_mult_imp_div_less)
    then have "le_nat s div 256 ^ 31 mod 256 div 2 ^ 7 = le_nat s div (256 ^ 31 * 2 ^ 7)" by (simp add: div_mult2_eq)
    then show ?thesis by simp
  qed
  finally have b: "odd (residue x) \<longleftrightarrow> odd (le_nat s div 2 ^ 255)" using d(3) by simp
  have "le_nat s div 2 ^ 255 < 2" using lt by (simp add: less_mult_imp_div_less)
  then have "le_nat s div 2 ^ 255 = of_bool (odd (residue x))" unfolding b by (cases "le_nat s div 2 ^ 255") auto
  then have "le_nat s = n + 2 ^ 255 * of_bool (odd (residue x))"
    using mod_mult_div_eq [of "le_nat s" "2 ^ 255"] by (simp only: n_def)
  then show ?thesis using le_bytes_le_nat [OF assms(1)] by (simp only: encode_point_def y)
qed

lemma fp_inverse_1 [simp]: "fp_inverse 1 = 1"
  unfolding fp_inverse_def by (rule power_one)


lemma zero_sqrt: "sqrt_ratio 0 v = Some 0"
proof -
  have "(0 :: fp) ^ (2 ^ 252 - 2) = 0" by (rule power_0_left [THEN trans]) simp
  then have "fp_sqrt_candidate 0 v = 0" by (simp only: fp_sqrt_candidate_def mult_zero_left)
  then show ?thesis by (simp add: sqrt_ratio_def)
qed

lemma decode_identity: "decode_point (le_bytes 32 1) = Some (0, 1)"
proof -
  have "le_bytes 32 1 ! 31 = 0" by (simp add: le_bytes_nth del: le_bytes.simps)
  moreover have "residue 0 = 0" using residue_of_int [of 0] by simp
  ultimately have "choose_sign (bit (le_bytes 32 1 ! 31) 7) 0 = Some 0" by (simp add: choose_sign_def)
  then show ?thesis by (simp add: decode_point_def zero_sqrt fe_prime_def del: le_bytes.simps)
qed


end
