(* ===== verification/IntUtil.thy ===== *)
theory IntUtil
  imports Prelude
begin

text \<open>
  The 128-bit helpers of \<^verbatim>\<open>src/common/int-util.h\<close> and the two implementations of \<open>mul\<close> in
  \<^verbatim>\<open>src/cryptonote_basic/difficulty.cpp\<close> (the one for x86-64, which calls \<open>mul128\<close>, and the
  portable one). The interface \<open>wide_mul\<close> is what the difficulty code relies on: a 64 by 64
  bit multiplication that returns the low and the high word of the product.
\<close>

section \<open>Halves of a 64-bit word\<close>

definition hi_dword :: "u64 \<Rightarrow> u64" where
  "hi_dword val = drop_bit 32 val"

definition lo_dword :: "u64 \<Rightarrow> u64" where
  "lo_dword val = val AND 0xFFFFFFFF"

lemma unat_hi_dword [word_nat]: "unat (hi_dword x) = unat x div 2 ^ 32"
  by (simp add: hi_dword_def unat_drop_u64)

lemma unat_lo_dword [word_nat]: "unat (lo_dword x) = unat x mod 2 ^ 32"
proof -
  have "(0xFFFFFFFF :: u64) = mask 32" by (simp add: mask_eq_exp_minus_1)
  then show ?thesis by (simp only: lo_dword_def unat_mask_u64)
qed

lemma unat_hi_dword_lt: "unat (hi_dword x) < 2 ^ 32"
  using unat_u64_lt [of x] by (simp add: unat_hi_dword less_mult_imp_div_less)

lemma unat_lo_dword_lt: "unat (lo_dword x) < 2 ^ 32"
  by (simp add: unat_lo_dword)

section \<open>64 by 64 bit multiplication\<close>

text \<open>\<open>mul128\<close> returns the low word; the high word it stores through \<open>product_hi\<close> is the
  second component here.\<close>

definition mul128 :: "u64 \<Rightarrow> u64 \<Rightarrow> u64 \<times> u64" where
  "mul128 multiplier multiplicand =
     (let a = hi_dword multiplier;
          b = lo_dword multiplier;
          c = hi_dword multiplicand;
          d = lo_dword multiplicand;
          ac = a * c;
          ad = a * d;
          bc = b * c;
          bd = b * d;
          adbc = ad + bc;
          adbc_carry = (if adbc < ad then 1 else 0);
          product_lo = bd + push_bit 32 adbc;
          product_lo_carry = (if product_lo < bd then 1 else 0);
          product_hi = ac + drop_bit 32 adbc + push_bit 32 adbc_carry + product_lo_carry
      in (product_lo, product_hi))"

text \<open>\<open>mul\<close> on x86-64.\<close>

definition mul_x86_64 :: "u64 \<Rightarrow> u64 \<Rightarrow> u64 \<times> u64" where
  "mul_x86_64 a b = mul128 a b"

text \<open>\<open>mul\<close> on every other target.\<close>

definition mul_portable :: "u64 \<Rightarrow> u64 \<Rightarrow> u64 \<times> u64" where
  "mul_portable a b =
     (let aLow = a AND 0xFFFFFFFF;
          aHigh = drop_bit 32 a;
          bLow = b AND 0xFFFFFFFF;
          bHigh = drop_bit 32 b;
          res = aLow * bLow;
          lowRes1 = res AND 0xFFFFFFFF;
          carry = drop_bit 32 res;
          res = aHigh * bLow + carry;
          highResHigh1 = drop_bit 32 res;
          highResLow1 = res AND 0xFFFFFFFF;
          res = aLow * bHigh;
          lowRes2 = res AND 0xFFFFFFFF;
          carry = drop_bit 32 res;
          res = aHigh * bHigh + carry;
          highResHigh2 = drop_bit 32 res;
          highResLow2 = res AND 0xFFFFFFFF;
          r = highResLow1 + lowRes2;
          carry = drop_bit 32 r;
          low = push_bit 32 r OR lowRes1;
          r = highResHigh1 + highResLow2 + carry;
          d3 = r AND 0xFFFFFFFF;
          carry = drop_bit 32 r;
          r = highResHigh2 + carry;
          high = d3 OR push_bit 32 r
      in (low, high))"

section \<open>128 by 32 bit division\<close>

text \<open>\<open>div_with_reminder\<close> takes the running remainder and returns the quotient digit and the
  new remainder (\<open>*remainder\<close>).\<close>

definition div_with_reminder :: "u64 \<Rightarrow> u32 \<Rightarrow> u32 \<Rightarrow> u64 \<times> u32" where
  "div_with_reminder dividend divisor remainder =
     (let dividend = dividend OR push_bit 32 (ucast remainder)
      in (dividend div ucast divisor, ucast (dividend mod ucast divisor)))"

definition div128_32 :: "u64 \<Rightarrow> u64 \<Rightarrow> u32 \<Rightarrow> u64 \<times> u64 \<times> u32" where
  "div128_32 dividend_hi dividend_lo divisor =
     (let d3 = hi_dword dividend_hi;
          d2 = lo_dword dividend_hi;
          d1 = hi_dword dividend_lo;
          d0 = lo_dword dividend_lo;
          (q3, remainder) = div_with_reminder d3 divisor 0;
          (q2, remainder) = div_with_reminder d2 divisor remainder;
          (q1, remainder) = div_with_reminder d1 divisor remainder;
          (q0, remainder) = div_with_reminder d0 divisor remainder;
          quotient_hi = push_bit 32 q3 OR q2;
          quotient_lo = push_bit 32 q1 OR q0
      in (quotient_hi, quotient_lo, remainder))"

section \<open>Byte swapping\<close>

definition SWAP64 :: "u64 \<Rightarrow> u64" where
  "SWAP64 x =
     push_bit 56 (x AND 0x00000000000000ff) OR
     push_bit 40 (x AND 0x000000000000ff00) OR
     push_bit 24 (x AND 0x0000000000ff0000) OR
     push_bit 8 (x AND 0x00000000ff000000) OR
     drop_bit 8 (x AND 0x000000ff00000000) OR
     drop_bit 24 (x AND 0x0000ff0000000000) OR
     drop_bit 40 (x AND 0x00ff000000000000) OR
     drop_bit 56 (x AND 0xff00000000000000)"

definition swap64 :: "u64 \<Rightarrow> u64" where
  "swap64 x =
     (let x = push_bit 8 (x AND 0x00ff00ff00ff00ff) OR drop_bit 8 (x AND 0xff00ff00ff00ff00);
          x = push_bit 16 (x AND 0x0000ffff0000ffff) OR drop_bit 16 (x AND 0xffff0000ffff0000)
      in push_bit 32 x OR drop_bit 32 x)"

text \<open>The object representation of a \<open>uint64_t\<close> on a little-endian machine, which
  \<open>memcpy\<close> copies.\<close>

definition u64_bytes :: "u64 \<Rightarrow> byte list" where
  "u64_bytes x = le_bytes 8 (unat x)"

definition u64_of_bytes :: "byte list \<Rightarrow> u64" where
  "u64_of_bytes bs = word_of_nat (le_nat bs)"

section \<open>Correctness of the multiplication\<close>

lemma unat_hi_lo: "unat x = unat (hi_dword x) * 2 ^ 32 + unat (lo_dword x)"
  by (simp add: unat_hi_dword unat_lo_dword)

lemma mult_dwords_lt:
  assumes "unat (x :: u64) < 2 ^ 32" and "unat (y :: u64) < 2 ^ 32"
  shows "unat (x * y) = unat x * unat y" and "unat x * unat y \<le> (2 ^ 32 - 1) * (2 ^ 32 - 1)"
proof -
  show le: "unat x * unat y \<le> (2 ^ 32 - 1) * (2 ^ 32 - 1)"
    using assms by (intro mult_le_mono) auto
  then show "unat (x * y) = unat x * unat y"
    by (intro unat_mult_no_overflow_u64) simp
qed

lemma push32_or:
  assumes "unat (x :: u64) < 2 ^ 32"
  shows "unat (push_bit 32 r OR x) = unat r mod 2 ^ 32 * 2 ^ 32 + unat x"
proof -
  have "\<not> bit x n" if "32 \<le> n" for n
  proof -
    have "drop_bit 32 x = 0" using assms by (simp add: word_unat_eq_iff unat_drop_u64)
    then have "\<not> bit (drop_bit 32 x) (n - 32)" by simp
    with that show ?thesis by (simp add: bit_drop_bit_eq)
  qed
  then have "push_bit 32 r AND x = 0"
    by (auto intro!: bit_word_eqI simp: bit_and_iff bit_push_bit_iff) 
  then have eq: "push_bit 32 r OR x = push_bit 32 r + x" by (simp add: disjunctive_add_eq_or)
  have push: "unat (push_bit 32 r) = unat r mod 2 ^ 32 * 2 ^ 32"
    by (simp add: unat_push_u64 mod_mult_mult2 [of "unat r" "2 ^ 32" "2 ^ 32", simplified])
  have "unat r mod 2 ^ 32 * 2 ^ 32 \<le> (2 ^ 32 - 1) * 2 ^ 32"
    by (intro mult_le_mono1) (use mod_less_divisor [of "2 ^ 32" "unat r"] in auto)
  with assms have "unat (push_bit 32 r) + unat x < 2 ^ 64" by (simp add: push)
  with push eq show ?thesis by (simp add: unat_add_no_overflow_u64)
qed

lemma mul128_arith:
  fixes s :: nat
  assumes "s + 2 ^ 64 * ch = ad + bc" and "lo + 2 ^ 64 * cl = bd + s mod 2 ^ 32 * 2 ^ 32"
  shows "lo + 2 ^ 64 * (ac + s div 2 ^ 32 + ch * 2 ^ 32 + cl) = ac * 2 ^ 64 + (ad + bc) * 2 ^ 32 + bd"
proof -
  define q r where "q = s div 2 ^ 32" and "r = s mod 2 ^ 32"
  then have "s = 2 ^ 32 * q + r" by simp
  with assms show ?thesis unfolding q_def [symmetric] r_def [symmetric] by simp
qed

lemma dwords_product:
  fixes a :: nat
  shows "(a * 2 ^ 32 + b) * (c * 2 ^ 32 + d) = a * c * 2 ^ 64 + (a * d + b * c) * 2 ^ 32 + b * d"
  by (simp add: algebra_simps)

lemma mul128_value:
  "unat (fst (mul128 x y)) + 2 ^ 64 * unat (snd (mul128 x y)) = unat x * unat y"
proof -
  define a b c d where abcd: "a = hi_dword x" "b = lo_dword x" "c = hi_dword y" "d = lo_dword y"
  have lt: "unat a < 2 ^ 32" "unat b < 2 ^ 32" "unat c < 2 ^ 32" "unat d < 2 ^ 32"
    by (simp_all only: abcd unat_hi_dword_lt unat_lo_dword_lt)
  note ac = mult_dwords_lt [OF lt(1,3)] and ad = mult_dwords_lt [OF lt(1,4)]
    and bc = mult_dwords_lt [OF lt(2,3)] and bd = mult_dwords_lt [OF lt(2,4)]
  define s lo :: u64 where s: "s = a * d + b * c" and lo: "lo = b * d + push_bit 32 s"
  define ch cl :: u64 where ch: "ch = (if s < a * d then 1 else 0)"
    and cl: "cl = (if lo < b * d then 1 else 0)"
  define hi where hi: "hi = a * c + drop_bit 32 s + push_bit 32 ch + cl"
  have res: "mul128 x y = (lo, hi)"
    by (simp add: mul128_def Let_def abcd s lo ch cl hi)
  have S: "unat s + 2 ^ 64 * unat ch = unat a * unat d + unat b * unat c"
    using add_carry_u64 [of "a * d" "b * c"] by (simp only: s ch ad bc)
  have push: "unat (push_bit 32 s) = unat s mod 2 ^ 32 * 2 ^ 32"
    by (simp add: unat_push_u64 mod_mult_mult2 [of "unat s" "2 ^ 32" "2 ^ 32", simplified])
  have L: "unat lo + 2 ^ 64 * unat cl = unat b * unat d + unat s mod 2 ^ 32 * 2 ^ 32"
    using add_carry_u64 [of "b * d" "push_bit 32 s"] by (simp only: lo cl bd push)
  define H where "H = unat a * unat c + unat s div 2 ^ 32 + unat ch * 2 ^ 32 + unat cl"
  have xy: "unat x * unat y = (unat a * 2 ^ 32 + unat b) * (unat c * 2 ^ 32 + unat d)"
    by (simp only: abcd unat_hi_lo [symmetric])
  have total: "unat lo + 2 ^ 64 * H = unat x * unat y"
    unfolding xy H_def dwords_product by (rule mul128_arith [OF S L])
  then have "2 ^ 64 * H < 2 ^ 64 * 2 ^ 64"
    using mult_lt_pow2 [OF unat_u64_lt [of x] unat_u64_lt [of y]] by simp
  then have Hlt: "H < 2 ^ 64" by simp
  have "unat (push_bit 32 ch) = unat ch * 2 ^ 32" by (simp add: ch)
  then have "unat hi = H mod 2 ^ 64"
    using ac by (simp add: hi H_def unat_add_u64 unat_drop_u64 mod_simps)
  with Hlt have "unat hi = H" by simp
  with res total show ?thesis by simp
qed

lemma mul_portable_value:
  "unat (fst (mul_portable x y)) + 2 ^ 64 * unat (snd (mul_portable x y)) = unat x * unat y"
proof -
  define a b c d where abcd: "a = hi_dword x" "b = lo_dword x" "c = hi_dword y" "d = lo_dword y"
  have lt: "unat a < 2 ^ 32" "unat b < 2 ^ 32" "unat c < 2 ^ 32" "unat d < 2 ^ 32"
    by (simp_all only: abcd unat_hi_dword_lt unat_lo_dword_lt)
  note ac = mult_dwords_lt [OF lt(1,3)] and ad = mult_dwords_lt [OF lt(1,4)]
    and bc = mult_dwords_lt [OF lt(2,3)] and bd = mult_dwords_lt [OF lt(2,4)]
  define r1 where "r1 = b * d"
  define r2 where "r2 = a * d + hi_dword r1"
  define r3 where "r3 = b * c"
  define r4 where "r4 = a * c + hi_dword r3"
  define r5 where "r5 = lo_dword r2 + lo_dword r3"
  define r6 where "r6 = hi_dword r2 + lo_dword r4 + hi_dword r5"
  define r7 where "r7 = hi_dword r4 + hi_dword r6"
  have res: "mul_portable x y = (push_bit 32 r5 OR lo_dword r1, push_bit 32 r7 OR lo_dword r6)"
    by (simp add: mul_portable_def Let_def abcd hi_dword_def lo_dword_def or.commute
        r1_def r2_def r3_def r4_def r5_def r6_def r7_def)
  note small = unat_hi_dword_lt unat_lo_dword_lt
  have R1: "unat r1 = unat b * unat d" by (simp add: r1_def bd)
  have R2: "unat r2 = unat a * unat d + unat (hi_dword r1)"
    using ad small(1) [of r1] by (simp add: r2_def unat_add_no_overflow_u64)
  have R3: "unat r3 = unat b * unat c" by (simp add: r3_def bc)
  have R4: "unat r4 = unat a * unat c + unat (hi_dword r3)"
    using ac small(1) [of r3] by (simp add: r4_def unat_add_no_overflow_u64)
  have R5: "unat r5 = unat (lo_dword r2) + unat (lo_dword r3)"
    using small(2) [of r2] small(2) [of r3] by (simp add: r5_def unat_add_no_overflow_u64)
  have R6: "unat r6 = unat (hi_dword r2) + unat (lo_dword r4) + unat (hi_dword r5)"
    using small(1) [of r2] small(2) [of r4] small(1) [of r5]
    by (simp add: r6_def unat_add_no_overflow_u64)
  have R7: "unat r7 = unat (hi_dword r4) + unat (hi_dword r6)"
    using small(1) [of r4] small(1) [of r6] by (simp add: r7_def unat_add_no_overflow_u64)
  have LO: "unat (push_bit 32 r5 OR lo_dword r1) = unat (lo_dword r5) * 2 ^ 32 + unat (lo_dword r1)"
    using push32_or [OF small(2) [of r1]] by (simp only: unat_lo_dword)
  have HI: "unat (push_bit 32 r7 OR lo_dword r6) = unat (lo_dword r7) * 2 ^ 32 + unat (lo_dword r6)"
    using push32_or [OF small(2) [of r6]] by (simp only: unat_lo_dword)
  have xy: "unat x * unat y = (unat a * 2 ^ 32 + unat b) * (unat c * 2 ^ 32 + unat d)"
    by (simp only: abcd unat_hi_lo [symmetric])
  have prod: "unat x * unat y = unat r1 + unat a * unat d * 2 ^ 32 + unat b * unat c * 2 ^ 32
      + unat a * unat c * 2 ^ 64"
    unfolding xy dwords_product by (simp add: R1)
  have total: "unat x * unat y = unat (lo_dword r1) + unat (lo_dword r5) * 2 ^ 32
      + unat (lo_dword r6) * 2 ^ 64 + unat r7 * 2 ^ 96"
    using unat_hi_lo [of r1] unat_hi_lo [of r2] unat_hi_lo [of r3] unat_hi_lo [of r4]
      unat_hi_lo [of r5] unat_hi_lo [of r6] R2 R3 R4 R5 R6 R7 prod
    by simp
  have "unat r7 * 2 ^ 96 < 2 ^ 32 * 2 ^ 96"
    using total mult_lt_pow2 [OF unat_u64_lt [of x] unat_u64_lt [of y]] by simp
  then have "unat r7 < 2 ^ 32" by simp
  then have "unat (lo_dword r7) = unat r7" by (simp add: unat_lo_dword)
  then show ?thesis using total by (simp add: res LO HI)
qed

text \<open>What a client of a 64 by 64 bit multiplication relies on.\<close>

locale wide_mul =
  fixes mul :: "u64 \<Rightarrow> u64 \<Rightarrow> u64 \<times> u64"
  assumes mul_value: "unat (fst (mul x y)) + 2 ^ 64 * unat (snd (mul x y)) = unat x * unat y"
begin

lemma mul_pair:
  assumes "mul x y = (lo, hi)"
  shows "unat x * unat y = unat lo + 2 ^ 64 * unat hi"
  using mul_value [of x y] assms by simp

lemma mul_lo: "unat (fst (mul x y)) = (unat x * unat y) mod 2 ^ 64"
proof -
  have "(unat x * unat y) mod 2 ^ 64 = unat (fst (mul x y)) mod 2 ^ 64"
    unfolding mul_value [symmetric] by simp
  then show ?thesis by simp
qed

lemma mul_hi: "unat (snd (mul x y)) = (unat x * unat y) div 2 ^ 64"
  unfolding mul_value [symmetric] by simp

lemma mul_hi_zero: "snd (mul x y) = 0 \<longleftrightarrow> unat x * unat y < 2 ^ 64"
  using mul_hi [of x y] by (simp add: word_unat_eq_iff div_eq_0_iff)

end

interpretation mul_x86: wide_mul mul_x86_64
  by unfold_locales (simp only: mul_x86_64_def mul128_value)

interpretation mul_port: wide_mul mul_portable
  by unfold_locales (rule mul_portable_value)

section \<open>Correctness of the division\<close>

lemma long_division_arith:
  fixes d :: nat
  assumes 3: "x3 = q3 * d + r3" and 2: "r3 * B + x2 = q2 * d + r2"
    and 1: "r2 * B + x1 = q1 * d + r1" and 0: "r1 * B + x0 = q0 * d + r0"
  shows "(x3 * B + x2) * (B * B) + (x1 * B + x0) = d * ((q3 * B + q2) * (B * B) + (q1 * B + q0)) + r0"
proof -
  have "x3 * B + x2 = (q3 * B + q2) * d + r2"
    using 2 by (simp add: 3 algebra_simps)
  moreover have "r2 * (B * B) + (x1 * B + x0) = (r2 * B + x1) * B + x0"
    by (simp add: algebra_simps)
  moreover have "(r2 * B + x1) * B + x0 = (q1 * B + q0) * d + r0"
    unfolding 1 using 0 by (simp add: algebra_simps)
  ultimately show ?thesis by (simp add: algebra_simps)
qed

lemma div_with_reminder_step:
  assumes x: "unat x < 2 ^ 32" and r: "unat r < unat d"
    and res: "div_with_reminder x d r = (q, r')"
  shows "unat r * 2 ^ 32 + unat x = unat q * unat d + unat r'"
    and "unat r' < unat d" and "unat q < 2 ^ 32"
proof -
  define n where "n = x OR push_bit 32 (ucast r :: u64)"
  have n: "unat n = unat r * 2 ^ 32 + unat x"
    using push32_or [OF x, of "ucast r"] unat_u32_lt [of r] by (simp add: n_def or.commute)
  have q: "unat q = unat n div unat d" and m: "r' = ucast (n mod ucast d)"
    using res by (auto simp: div_with_reminder_def Let_def n_def unat_div)
  have lt: "unat n mod unat d < unat d" using r by simp
  then have "unat n mod unat d < 2 ^ 32" using unat_u32_lt [of d] by (rule order_less_trans)
  then have r': "unat r' = unat n mod unat d"
    by (simp add: m unsigned_ucast_eq take_bit_eq_mod unat_mod)
  show "unat r * 2 ^ 32 + unat x = unat q * unat d + unat r'" 
    unfolding q r' n [symmetric] by (metis div_mult_mod_eq)
  show "unat r' < unat d" using lt r' by simp
  have "unat r * 2 ^ 32 + unat x < (unat r + 1) * 2 ^ 32" using x by simp
  also have "\<dots> \<le> unat d * 2 ^ 32" using r by (intro mult_le_mono1) simp
  finally show "unat q < 2 ^ 32" unfolding q n
    by (intro less_mult_imp_div_less) (simp add: mult.commute)
qed

lemma div128_32_value:
  assumes d: "d \<noteq> 0" and res: "div128_32 hi lo d = (qh, ql, r)"
  shows "unat qh * 2 ^ 64 + unat ql = (unat hi * 2 ^ 64 + unat lo) div unat d"
    and "unat r = (unat hi * 2 ^ 64 + unat lo) mod unat d"
proof -
  have z: "unat (0 :: u32) < unat d" using d by (simp add: unat_gt_0)
  obtain q3 r3 where 3: "div_with_reminder (hi_dword hi) d 0 = (q3, r3)" by fastforce
  obtain q2 r2 where 2: "div_with_reminder (lo_dword hi) d r3 = (q2, r2)" by fastforce
  obtain q1 r1 where 1: "div_with_reminder (hi_dword lo) d r2 = (q1, r1)" by fastforce
  obtain q0 r0 where 0: "div_with_reminder (lo_dword lo) d r1 = (q0, r0)" by fastforce
  note s3 = div_with_reminder_step [OF unat_hi_dword_lt z 3]
  note s2 = div_with_reminder_step [OF unat_lo_dword_lt s3(2) 2]
  note s1 = div_with_reminder_step [OF unat_hi_dword_lt s2(2) 1]
  note s0 = div_with_reminder_step [OF unat_lo_dword_lt s1(2) 0]
  have out: "qh = push_bit 32 q3 OR q2" "ql = push_bit 32 q1 OR q0" "r = r0"
    using res by (simp_all add: div128_32_def Let_def 3 2 1 0)
  have QH: "unat qh = unat q3 * 2 ^ 32 + unat q2" and QL: "unat ql = unat q1 * 2 ^ 32 + unat q0"
    using push32_or [OF s2(3), of q3] push32_or [OF s0(3), of q1] s3(3) s1(3)
    by (simp_all add: out)
  have "unat hi * 2 ^ 64 + unat lo
      = unat d * (unat qh * 2 ^ 64 + unat ql) + unat r"
    using long_division_arith [OF _ s2(1) s1(1) s0(1), of "unat (hi_dword hi)" "unat q3"] s3(1)
      unat_hi_lo [of hi] unat_hi_lo [of lo] by (simp add: QH QL out(3))
  moreover have "unat r < unat d" using s0(2) by (simp add: out)
  ultimately show "unat qh * 2 ^ 64 + unat ql = (unat hi * 2 ^ 64 + unat lo) div unat d"
    and "unat r = (unat hi * 2 ^ 64 + unat lo) mod unat d" by simp_all
qed

section \<open>Correctness of the byte swaps\<close>

lemma byte_masks64:
  "(0x00000000000000ff :: u64) = mask 8"
  "(0x000000000000ff00 :: u64) = push_bit 8 (mask 8)"
  "(0x0000000000ff0000 :: u64) = push_bit 16 (mask 8)"
  "(0x00000000ff000000 :: u64) = push_bit 24 (mask 8)"
  "(0x000000ff00000000 :: u64) = push_bit 32 (mask 8)"
  "(0x0000ff0000000000 :: u64) = push_bit 40 (mask 8)"
  "(0x00ff000000000000 :: u64) = push_bit 48 (mask 8)"
  "(0xff00000000000000 :: u64) = push_bit 56 (mask 8)"
  by (simp_all add: mask_eq_exp_minus_1)

lemma wide_masks64:
  "(0x00ff00ff00ff00ff :: u64) = mask 8 OR push_bit 16 (mask 8) OR push_bit 32 (mask 8) OR push_bit 48 (mask 8)"
  "(0xff00ff00ff00ff00 :: u64) = push_bit 8 (mask 8) OR push_bit 24 (mask 8) OR push_bit 40 (mask 8) OR push_bit 56 (mask 8)"
  "(0x0000ffff0000ffff :: u64) = mask 16 OR push_bit 32 (mask 16)"
  "(0xffff0000ffff0000 :: u64) = push_bit 16 (mask 16) OR push_bit 48 (mask 16)"
  by (simp_all add: mask_eq_exp_minus_1)

lemma lt_8_cases: "k < (8 :: nat) \<Longrightarrow> k = 0 \<or> k = 1 \<or> k = 2 \<or> k = 3 \<or> k = 4 \<or> k = 5 \<or> k = 6 \<or> k = 7"
  by arith

lemma bit_SWAP64:
  assumes "j < 8" and "k < 8"
  shows "bit (SWAP64 x) (8 * k + j) = bit x (8 * (7 - k) + j)"
  using lt_8_cases [OF assms(2)] assms(1)
  by (elim disjE; simp add: SWAP64_def byte_masks64 bit_simps)

lemma bit_swap64:
  assumes "j < 8" and "k < 8"
  shows "bit (swap64 x) (8 * k + j) = bit x (8 * (7 - k) + j)"
  using lt_8_cases [OF assms(2)] assms(1)
  by (elim disjE; simp add: swap64_def Let_def wide_masks64 bit_simps)

lemma u64_eqI:
  assumes "\<And>k j. k < 8 \<Longrightarrow> j < 8 \<Longrightarrow> bit (x :: u64) (8 * k + j) = bit y (8 * k + j)"
  shows "x = y"
proof (rule bit_word_eqI)
  fix n assume "n < LENGTH(64)"
  then have "n div 8 < 8" and "n mod 8 < 8" by auto
  from assms [OF this] show "bit x n = bit y n" by simp
qed

lemma swap64_eq_SWAP64: "swap64 x = SWAP64 x"
  by (rule u64_eqI) (simp add: bit_SWAP64 bit_swap64)

lemma SWAP64_SWAP64 [simp]: "SWAP64 (SWAP64 x) = x"
proof (rule u64_eqI)
  fix k j :: nat assume "k < 8" and "j < 8"
  then show "bit (SWAP64 (SWAP64 x)) (8 * k + j) = bit x (8 * k + j)"
    by (simp only: bit_SWAP64 [of j k] bit_SWAP64 [of j "7 - k"]) simp
qed

lemma bit_u64_bytes:
  assumes "k < 8" and "j < 8"
  shows "bit (u64_bytes x ! k) j = bit x (8 * k + j)"
proof -
  have "unat x div 256 ^ k = unat (drop_bit (8 * k) x)"
    by (simp only: unat_drop_u64) (simp add: power_mult)
  then have "u64_bytes x ! k = word_of_nat (unat (drop_bit (8 * k) x) mod 256)"
    using assms(1) by (simp add: u64_bytes_def le_bytes_nth)
  also have "\<dots> = ucast (drop_bit (8 * k) x)"
    by (rule word_unat_eq_iff [THEN iffD2]) (simp add: unsigned_ucast_eq take_bit_eq_mod)
  finally show ?thesis using assms by (simp add: bit_ucast_iff bit_drop_bit_eq)
qed

lemma length_u64_bytes [simp]: "length (u64_bytes x) = 8"
  by (simp add: u64_bytes_def)

lemma u64_bytes_SWAP64: "u64_bytes (SWAP64 x) = rev (u64_bytes x)"
proof (rule nth_equalityI)
  show "length (u64_bytes (SWAP64 x)) = length (rev (u64_bytes x))" by simp
next
  fix k assume "k < length (u64_bytes (SWAP64 x))"
  then have k: "k < 8" by simp
  show "u64_bytes (SWAP64 x) ! k = rev (u64_bytes x) ! k"
  proof (rule bit_word_eqI)
    fix j assume "j < LENGTH(8)"
    then have j: "j < 8" by simp
    have "bit (u64_bytes (SWAP64 x) ! k) j = bit x (8 * (7 - k) + j)"
      using k j by (simp only: bit_u64_bytes bit_SWAP64)
    also have "\<dots> = bit (u64_bytes x ! (7 - k)) j"
      using k j by (simp only: bit_u64_bytes)
    finally show "bit (u64_bytes (SWAP64 x) ! k) j = bit (rev (u64_bytes x) ! k) j"
      using k by (simp add: rev_nth)
  qed
qed

section \<open>Properties\<close>

text \<open>The two implementations of \<open>mul\<close>, the one through \<open>mul128\<close> and the portable one,
  return the same pair of words on every input, and it is the exact 128-bit product.\<close>

theorem mul_implementations_agree:
  "mul_x86_64 x y = mul_portable x y \<and>
   unat (fst (mul_x86_64 x y)) + 2 ^ 64 * unat (snd (mul_x86_64 x y)) = unat x * unat y"
proof -
  have "fst (mul_x86_64 x y) = fst (mul_portable x y)"
    by (simp only: word_unat_eq_iff mul_x86.mul_lo mul_port.mul_lo)
  moreover have "snd (mul_x86_64 x y) = snd (mul_portable x y)"
    by (simp only: word_unat_eq_iff mul_x86.mul_hi mul_port.mul_hi)
  ultimately have "mul_x86_64 x y = mul_portable x y" by (rule prod_eqI)
  then show ?thesis using mul_x86.mul_value [of x y] by (rule conjI)
qed

text \<open>\<open>div128_32\<close> is the exact quotient and remainder of a 128-bit number by a non-zero
  32-bit one.\<close>

theorem div128_32_exact:
  assumes "d \<noteq> 0" and "div128_32 hi lo d = (qh, ql, r)"
  shows "unat qh * 2 ^ 64 + unat ql = (unat hi * 2 ^ 64 + unat lo) div unat d
    \<and> unat r = (unat hi * 2 ^ 64 + unat lo) mod unat d"
  using div128_32_value [OF assms] by (rule conjI)

theorem div128_32_exact_witness:
  "(7 :: u32) \<noteq> 0 \<and> div128_32 3 5 7 = (0, 7905747460161236407, 4) \<and>
   unat (0 :: u64) * 2 ^ 64 + unat (7905747460161236407 :: u64) = (3 * 2 ^ 64 + 5) div (7 :: nat)
   \<and> unat (4 :: u32) = (3 * 2 ^ 64 + 5) mod (7 :: nat)"
proof -
  have h: "(7 :: u32) \<noteq> 0" by simp
  have e: "div128_32 3 5 7 = (0, 7905747460161236407, 4)"
    by (simp add: div128_32_def div_with_reminder_def Let_def hi_dword_def lo_dword_def)
  show ?thesis using h e div128_32_exact [OF h e] by simp
qed

end
