(* ===== verification/Difficulty.thy ===== *)
theory Difficulty
  imports IntUtil "HOL-Library.Multiset"
begin

text \<open>
  \<^verbatim>\<open>src/cryptonote_basic/difficulty.cpp\<close>: the proof-of-work test \<open>check_hash\<close> and the four
  difficulty adjustment rules, with the constants of \<^verbatim>\<open>src/cryptonote_config.h\<close> and the
  \<open>median\<close> helper of \<^verbatim>\<open>contrib/epee/include/misc_language.h\<close>.

  A \<open>std::vector<uint64_t>\<close> is a list of 64-bit words; a \<open>size_t\<close> index is a natural number.
  The multiplication \<open>mul\<close>, which the source selects at compile time, is an argument.
\<close>

section \<open>Constants\<close>

definition DIFFICULTY_TARGET :: u64 where "DIFFICULTY_TARGET = 240"
definition DIFFICULTY_WINDOW_V1 :: nat where "DIFFICULTY_WINDOW_V1 = 720"
definition DIFFICULTY_CUT_V1 :: nat where "DIFFICULTY_CUT_V1 = 60"
definition DIFFICULTY_WINDOW_V2 :: nat where "DIFFICULTY_WINDOW_V2 = 17"
definition DIFFICULTY_CUT_V2 :: nat where "DIFFICULTY_CUT_V2 = 6"
definition DIFFICULTY_BLOCKS_COUNT_V2 :: nat where
  "DIFFICULTY_BLOCKS_COUNT_V2 = DIFFICULTY_WINDOW_V2 + DIFFICULTY_CUT_V2 * 2"
definition DIFFICULTY_WINDOW_V3 :: nat where "DIFFICULTY_WINDOW_V3 = 60"
definition BLOCK_FUTURE_TIME_LIMIT_V3 :: u64 where
  "BLOCK_FUTURE_TIME_LIMIT_V3 = DIFFICULTY_TARGET * 3"
definition DIFFICULTY_WINDOW_V4 :: nat where "DIFFICULTY_WINDOW_V4 = 45"

lemmas v1_consts = DIFFICULTY_WINDOW_V1_def DIFFICULTY_CUT_V1_def
lemmas v2_consts = DIFFICULTY_WINDOW_V2_def DIFFICULTY_CUT_V2_def DIFFICULTY_BLOCKS_COUNT_V2_def

section \<open>Proof of work\<close>

definition cadd :: "u64 \<Rightarrow> u64 \<Rightarrow> bool" where
  "cadd a b \<longleftrightarrow> a + b < a"

definition cadc :: "u64 \<Rightarrow> u64 \<Rightarrow> bool \<Rightarrow> bool" where
  "cadc a b c \<longleftrightarrow> a + b < a \<or> (c \<and> a + b = - 1)"

text \<open>\<open>((const uint64_t *)&hash)[i]\<close>; \<open>swap64le\<close> is the identity on a little-endian machine.\<close>

definition hash_word :: "byte list \<Rightarrow> nat \<Rightarrow> u64" where
  "hash_word hash i = u64_of_bytes (take 8 (drop (8 * i) hash))"

definition check_hash :: "(u64 \<Rightarrow> u64 \<Rightarrow> u64 \<times> u64) \<Rightarrow> byte list \<Rightarrow> u64 \<Rightarrow> bool" where
  "check_hash mul hash difficulty =
     (let (top, high) = mul (hash_word hash 3) difficulty
      in if high \<noteq> 0 then False
         else
           let (low, cur) = mul (hash_word hash 0) difficulty;
               (low, high) = mul (hash_word hash 1) difficulty;
               carry = cadd cur low;
               cur = high;
               (low, high) = mul (hash_word hash 2) difficulty;
               carry = cadc cur low carry;
               carry = cadc high top carry
           in \<not> carry)"

section \<open>Version 1 and version 2\<close>

text \<open>The part of the window that is left after cutting outliers, for a window of \<open>keep\<close> entries.\<close>

definition cut_window :: "nat \<Rightarrow> nat \<Rightarrow> nat \<times> nat" where
  "cut_window keep len =
     (if len \<le> keep then (0, len)
      else let cut_begin = (len - keep + 1) div 2 in (cut_begin, cut_begin + keep))"

definition next_difficulty_v1 ::
  "(u64 \<Rightarrow> u64 \<Rightarrow> u64 \<times> u64) \<Rightarrow> u64 list \<Rightarrow> u64 list \<Rightarrow> u64 \<Rightarrow> u64" where
  "next_difficulty_v1 mul timestamps cumulative_difficulties target_seconds =
     (let (timestamps, cumulative_difficulties) =
            (if length timestamps > DIFFICULTY_WINDOW_V1
             then (take DIFFICULTY_WINDOW_V1 timestamps,
                   take DIFFICULTY_WINDOW_V1 cumulative_difficulties)
             else (timestamps, cumulative_difficulties));
          len = length timestamps
      in if len \<le> 1 then 1
         else
           let timestamps = sort timestamps;
               (cut_begin, cut_end) =
                 cut_window (DIFFICULTY_WINDOW_V1 - 2 * DIFFICULTY_CUT_V1) len;
               time_span = timestamps ! (cut_end - 1) - timestamps ! cut_begin;
               time_span = (if time_span = 0 then 1 else time_span);
               total_work = cumulative_difficulties ! (cut_end - 1)
                 - cumulative_difficulties ! cut_begin;
               (low, high) = mul total_work target_seconds
           in if high \<noteq> 0 \<or> low + time_span - 1 < low then 0
              else (low + time_span - 1) div time_span)"

definition median :: "u64 list \<Rightarrow> u64" where
  "median v =
     (if v = [] then 0
      else if length v = 1 then v ! 0
      else
        let n = length v div 2;
            v = sort v
        in if length v mod 2 = 1 then v ! n else (v ! (n - 1) + v ! n) div 2)"

text \<open>The spans between consecutive sorted timestamps of the \<open>for\<close> loop of version 2.\<close>

definition v2_time_spans :: "u64 list \<Rightarrow> nat \<Rightarrow> nat \<Rightarrow> u64 list" where
  "v2_time_spans timestamps len cut_begin =
     map (\<lambda>i. let time_span = timestamps ! (i + 1) - timestamps ! i
              in if time_span = 0 then 1 else time_span)
       [len - cut_begin * 2 - 3 ..< len - 1]"

definition v2_adjusted_timespan :: "u64 list \<Rightarrow> nat \<Rightarrow> nat \<Rightarrow> nat \<Rightarrow> u64" where
  "v2_adjusted_timespan timestamps len cut_begin cut_end =
     (let MAX_AVERAGE_TIMESPAN = DIFFICULTY_TARGET * 6;
          MIN_AVERAGE_TIMESPAN = DIFFICULTY_TARGET div 24;
          total_timespan = timestamps ! (cut_end - 1) - timestamps ! cut_begin;
          total_timespan = (if total_timespan = 0 then 1 else total_timespan);
          timespan_median =
            (if cut_begin > 0 \<and> len \<ge> cut_begin * 2 + 3
             then median (v2_time_spans timestamps len cut_begin) else 0);
          timespan_length = word_of_nat (len - cut_begin * 2 - 1);
          total_timespan_median =
            (if timespan_median > 0 then timespan_median * timespan_length
             else total_timespan * 7 div 10);
          adjusted_total_timespan = (total_timespan * 8 + total_timespan_median * 3) div 10;
          adjusted_total_timespan =
            (if adjusted_total_timespan > MAX_AVERAGE_TIMESPAN * timespan_length
             then MAX_AVERAGE_TIMESPAN * timespan_length else adjusted_total_timespan)
      in if adjusted_total_timespan < MIN_AVERAGE_TIMESPAN * timespan_length
         then MIN_AVERAGE_TIMESPAN * timespan_length else adjusted_total_timespan)"

definition next_difficulty_v2 ::
  "(u64 \<Rightarrow> u64 \<Rightarrow> u64 \<times> u64) \<Rightarrow> u64 list \<Rightarrow> u64 list \<Rightarrow> u64 \<Rightarrow> u64" where
  "next_difficulty_v2 mul timestamps cumulative_difficulties target_seconds =
     (let (timestamps, cumulative_difficulties) =
            (if length timestamps > DIFFICULTY_BLOCKS_COUNT_V2
             then (take DIFFICULTY_BLOCKS_COUNT_V2 timestamps,
                   take DIFFICULTY_BLOCKS_COUNT_V2 cumulative_difficulties)
             else (timestamps, cumulative_difficulties));
          len = length timestamps
      in if len \<le> 1 then 1
         else
           let timestamps = sort timestamps;
               (cut_begin, cut_end) =
                 cut_window (DIFFICULTY_BLOCKS_COUNT_V2 - 2 * DIFFICULTY_CUT_V2) len;
               adjusted_total_timespan = v2_adjusted_timespan timestamps len cut_begin cut_end;
               total_work = cumulative_difficulties ! (cut_end - 1)
                 - cumulative_difficulties ! cut_begin;
               (low, high) = mul total_work target_seconds
           in if high \<noteq> 0 then 0
              else
                let next_diff = (low + adjusted_total_timespan - 1) div adjusted_total_timespan
                in if next_diff < 1 then 1 else next_diff)"

section \<open>Version 3: linearly weighted moving average\<close>

text \<open>
  The sum \<open>L\<close> is over \<open>int64_t\<close>. Signed overflow has no defined result in C++; the model keeps
  the exact integers, and every term is clamped before it is added.
\<close>

definition clamp :: "'a::linorder \<Rightarrow> 'a \<Rightarrow> 'a \<Rightarrow> 'a" where
  "clamp lo v hi = (if v < lo then lo else if v > hi then hi else v)"

definition v3_weighted_sum :: "u64 list \<Rightarrow> int" where
  "v3_weighted_sum timestamps =
     (let T = uint DIFFICULTY_TARGET; FTL = uint BLOCK_FUTURE_TIME_LIMIT_V3
      in sum_list (map (\<lambda>i. clamp (- FTL) (sint (timestamps ! i) - sint (timestamps ! (i - 1))) (6 * T)
                             * int i)
           [1 ..< DIFFICULTY_WINDOW_V3 + 1]))"

definition v3_clamp_increase :: int where
  "v3_clamp_increase =
     (let T = uint DIFFICULTY_TARGET; N = int DIFFICULTY_WINDOW_V3
      in (T * N * (N + 1) * 99) div 500)"

definition v3_clamp_decrease :: int where
  "v3_clamp_decrease =
     (let T = uint DIFFICULTY_TARGET; N = int DIFFICULTY_WINDOW_V3
      in (T * N * (N + 1) * 99) div 40)"

definition next_difficulty_v3 :: "u64 list \<Rightarrow> u64 list \<Rightarrow> u64" where
  "next_difficulty_v3 timestamps cumulative_difficulties =
     (let N = DIFFICULTY_WINDOW_V3;
          L = v3_weighted_sum timestamps;
          L = clamp v3_clamp_increase L v3_clamp_decrease;
          next_D = ((cumulative_difficulties ! N - cumulative_difficulties ! 0)
                     * DIFFICULTY_TARGET * (word_of_nat N + 1)) div word_of_int (2 * L)
      in (next_D * 99) div 100)"

section \<open>Version 4: quadratically weighted moving average\<close>

text \<open>\<open>findLastValid\<close> is called with \<open>1 \<le> i\<close> only.\<close>

fun findLastValid :: "u64 list \<Rightarrow> nat \<Rightarrow> u64" where
  "findLastValid timestamps 0 = timestamps ! 0"
| "findLastValid timestamps (Suc i) =
     (if i \<ge> 1
      then if timestamps ! i \<noteq> 0 then timestamps ! i else findLastValid timestamps i
      else timestamps ! 0)"

text \<open>The three loops of \<open>interpolate_timestamps\<close>: masking, numbering the masked entries, and
  interpolating downwards. The last loop computes an index from an entry; an index below 0 is
  an access out of the vector, which is the value \<open>None\<close>.\<close>

definition mask_step :: "u64 \<Rightarrow> nat \<Rightarrow> u64 list \<Rightarrow> u64 list" where
  "mask_step maxValid i timestamps =
     (if timestamps ! i \<le> findLastValid timestamps i \<or> timestamps ! i \<ge> maxValid
      then (if i \<noteq> 1 then timestamps[i - 1 := 0] else timestamps)[i := 0]
      else timestamps)"

definition mask_timestamps :: "nat \<Rightarrow> u64 list \<Rightarrow> u64 list" where
  "mask_timestamps N timestamps = fold (mask_step (timestamps ! N)) [1 ..< N] timestamps"

fun number_masked :: "nat \<Rightarrow> nat \<Rightarrow> u64 \<Rightarrow> u64 list \<Rightarrow> u64 list" where
  "number_masked 0 i mctr timestamps = timestamps"
| "number_masked (Suc k) i mctr timestamps =
     (if timestamps ! i = 0
      then number_masked k (Suc i) (mctr + 1) (timestamps[i := mctr + 1])
      else number_masked k (Suc i) 0 timestamps)"

fun interpolate_down :: "nat \<Rightarrow> nat \<Rightarrow> u64 list \<Rightarrow> u64 list option" where
  "interpolate_down N 0 timestamps = Some timestamps"
| "interpolate_down N (Suc j) timestamps =
     (let i = Suc j in
      if unat (timestamps ! i) \<le> N
      then
        let den = timestamps ! i + 1;
            num = timestamps ! i
        in if unat num > i then None
           else
             let base = timestamps ! (i - unat num);
                 delta = timestamps ! (i + 1) - base
             in interpolate_down N j (timestamps[i := base + (delta * num) div den])
      else interpolate_down N j timestamps)"

definition interpolate_timestamps :: "nat \<Rightarrow> u64 list \<Rightarrow> u64 list option" where
  "interpolate_timestamps N timestamps =
     interpolate_down N (N - 1) (number_masked (N - 1) 1 0 (mask_timestamps N timestamps))"

definition v4_prepare :: "u64 list \<Rightarrow> u64 list" where
  "v4_prepare timestamps =
     (let N = DIFFICULTY_WINDOW_V4;
          T = DIFFICULTY_TARGET;
          t_last = max (timestamps ! N) (timestamps ! (N - 1));
          timestamps = timestamps[N := min t_last (timestamps ! (N - 1) + 5 * T)]
      in timestamps[N := max (timestamps ! N) (timestamps ! 0 + 1)])"

definition v4_weighted_sum :: "u64 list \<Rightarrow> u64" where
  "v4_weighted_sum timestamps =
     max (fold (\<lambda>i L. L + min (timestamps ! i - timestamps ! (i - 1)) (5 * DIFFICULTY_TARGET)
                          * word_of_nat i * word_of_nat i)
            [1 ..< DIFFICULTY_WINDOW_V4 + 1] 0) 1"

definition next_difficulty_v4 :: "u64 list \<Rightarrow> u64 list \<Rightarrow> u64 option" where
  "next_difficulty_v4 timestamps cumulative_difficulties =
     (let N = DIFFICULTY_WINDOW_V4;
          T = DIFFICULTY_TARGET
      in case interpolate_timestamps N (v4_prepare timestamps) of
           None \<Rightarrow> None
         | Some timestamps \<Rightarrow>
             let L = v4_weighted_sum timestamps;
                 TSUM = (T * (word_of_nat N + 1) * (2 * word_of_nat N + 1)) div 6;
                 next_D = ((cumulative_difficulties ! N - cumulative_difficulties ! 0) * TSUM) div L;
                 prev_D = cumulative_difficulties ! N - cumulative_difficulties ! (N - 1)
             in Some (max ((prev_D * 67) div 100) (min next_D ((prev_D * 150) div 100))))"

section \<open>Correctness of the proof-of-work test\<close>

lemma cadd_iff: "cadd a b \<longleftrightarrow> 2 ^ 64 \<le> unat a + unat b"
  by (simp only: cadd_def carry_u64)

lemma cadc_iff: "cadc a b c \<longleftrightarrow> 2 ^ 64 \<le> unat a + unat b + (if c then 1 else 0)"
proof (cases "2 ^ 64 \<le> unat a + unat b")
  case True
  then show ?thesis by (simp only: cadc_def carry_u64) simp
next
  case False
  then have "unat (a + b) = unat a + unat b" by (simp add: unat_add_no_overflow_u64)
  then have "a + b = - 1 \<longleftrightarrow> unat a + unat b = 2 ^ 64 - 1"
    by (simp add: word_unat_eq_iff unsigned_minus_1_eq_mask mask_eq_exp_minus_1)
  with False show ?thesis unfolding cadc_def carry_u64 by auto
qed

lemma carry_step:
  fixes M :: nat
  assumes "r < 2 * M" and "0 < M"
  shows "M * B \<le> r + M * s \<longleftrightarrow> B \<le> s + (if M \<le> r then 1 else 0)"
proof (cases "M \<le> r")
  case True
  have "M * B \<le> r + M * s \<longleftrightarrow> M * B \<le> (r - M) + M * (s + 1)" using True by simp
  also have "\<dots> \<longleftrightarrow> B \<le> s + 1"
  proof
    assume "M * B \<le> (r - M) + M * (s + 1)"
    then have "M * B < M * (s + 2)" using assms True by (simp add: algebra_simps)
    then have "B < s + 2" by (metis mult_less_cancel1)
    then show "B \<le> s + 1" by simp
  next
    assume "B \<le> s + 1"
    then have "M * B \<le> M * (s + 1)" by (rule mult_le_mono2)
    then show "M * B \<le> (r - M) + M * (s + 1)" by linarith
  qed
  finally show ?thesis using True by simp
next
  case False
  have "M * B \<le> r + M * s \<longleftrightarrow> B \<le> s"
  proof
    assume "M * B \<le> r + M * s"
    then have "M * B < M * (s + 1)" using False by (simp add: algebra_simps)
    then have "B < s + 1" by (metis mult_less_cancel1)
    then show "B \<le> s" by simp
  next
    assume "B \<le> s"
    then have "M * B \<le> M * s" by (rule mult_le_mono2)
    then show "M * B \<le> r + M * s" by linarith
  qed
  with False show ?thesis by simp
qed

lemma carry_chain:
  fixes l0 :: nat
  assumes l0: "l0 < B" and B: "0 < B"
    and s1: "s1 < 2 * B - 1" and s2: "s2 < 2 * B - 1" and s3: "s3 < 2 * B - 1"
    and ca: "ca \<longleftrightarrow> B \<le> s1"
    and cb: "cb \<longleftrightarrow> B \<le> s2 + (if ca then 1 else 0)"
    and cc: "cc \<longleftrightarrow> B \<le> s3 + (if cb then 1 else 0)"
  shows "B * B * B * B \<le> l0 + B * s1 + B * B * s2 + B * B * B * s3 \<longleftrightarrow> cc"
proof -
  have r1: "B * B \<le> l0 + B * s1 \<longleftrightarrow> ca"
    using carry_step [of l0 B B s1] l0 B ca by simp
  have bound: "x + M * s < 2 * (M * B)" if "x < 2 * M" and "s < 2 * B - 1" for x M s
  proof -
    have "M * (s + 2) \<le> M * (2 * B)" using that(2) by (intro mult_le_mono2) simp
    with that(1) show ?thesis by simp
  qed
  have b1: "l0 + B * s1 < 2 * (B * B)" using bound [of l0 B s1] l0 s1 by simp
  have r2: "B * B * B \<le> l0 + B * s1 + B * B * s2 \<longleftrightarrow> cb"
    using carry_step [OF b1, of B s2] B cb r1 by simp
  have b2: "l0 + B * s1 + B * B * s2 < 2 * (B * B * B)" by (rule bound [OF b1 s2])
  show ?thesis
    using carry_step [OF b2, of B s3] B cc r2 by simp
qed

lemma hash_words:
  assumes "length hash = 32"
  shows "le_nat hash = unat (hash_word hash 0) + 2 ^ 64 * unat (hash_word hash 1)
    + 2 ^ 64 * 2 ^ 64 * unat (hash_word hash 2) + 2 ^ 64 * 2 ^ 64 * 2 ^ 64 * unat (hash_word hash 3)"
proof -
  have word: "unat (hash_word hash i) = le_nat (take 8 (drop (8 * i) hash))" if "i < 4" for i
  proof -
    have "length (take 8 (drop (8 * i) hash)) = 8" using assms that by simp
    then have "le_nat (take 8 (drop (8 * i) hash)) < 256 ^ 8"
      using le_nat_bound [of "take 8 (drop (8 * i) hash)"] by simp
    then show ?thesis by (simp add: hash_word_def u64_of_bytes_def unat_of_nat)
  qed
  have split: "le_nat bs = le_nat (take 8 bs) + 2 ^ 64 * le_nat (drop 8 bs)"
    if "8 \<le> length bs" for bs
    using le_nat_append [of "take 8 bs" "drop 8 bs"] that by simp
  have "le_nat hash = le_nat (take 8 hash) + 2 ^ 64 * (le_nat (take 8 (drop 8 hash))
      + 2 ^ 64 * (le_nat (take 8 (drop 16 hash)) + 2 ^ 64 * le_nat (drop 24 hash)))"
    using split [of hash] split [of "drop 8 hash"] split [of "drop 16 hash"] assms by simp
  then show ?thesis using word [of 0] word [of 1] word [of 2] word [of 3] assms by simp
qed

lemma no_room: "low + M * h < M \<longleftrightarrow> h = 0 \<and> low < (M :: nat)"
  by (cases h) auto

lemma limb_product:
  fixes B :: nat
  assumes "x0 * d = l0 + B * h0" and "x1 * d = l1 + B * h1"
    and "x2 * d = l2 + B * h2" and "x3 * d = l3 + B * h3"
  shows "(x0 + B * x1 + B * B * x2 + B * B * B * x3) * d
    = l0 + B * (h0 + l1) + B * B * (h1 + l2) + B * B * B * (h2 + l3) + B * B * B * B * h3"
proof -
  have "(x0 + B * x1 + B * B * x2 + B * B * B * x3) * d
      = x0 * d + B * (x1 * d) + B * B * (x2 * d) + B * B * B * (x3 * d)"
    by (simp add: algebra_simps)
  then show ?thesis unfolding assms by (simp add: algebra_simps)
qed

context wide_mul
begin

lemma check_hash_correct:
  assumes len: "length hash = 32"
  shows "check_hash mul hash difficulty \<longleftrightarrow> le_nat hash * unat difficulty < 2 ^ 256"
proof -
  define d where "d = unat difficulty"
  obtain l0 h0 where m0: "mul (hash_word hash 0) difficulty = (l0, h0)" by fastforce
  obtain l1 h1 where m1: "mul (hash_word hash 1) difficulty = (l1, h1)" by fastforce
  obtain l2 h2 where m2: "mul (hash_word hash 2) difficulty = (l2, h2)" by fastforce
  obtain l3 h3 where m3: "mul (hash_word hash 3) difficulty = (l3, h3)" by fastforce
  let ?B = "2 ^ 64 :: nat"
  define s1 s2 s3 where "s1 = unat h0 + unat l1" and "s2 = unat h1 + unat l2"
    and "s3 = unat h2 + unat l3"
  have lt: "s1 < 2 * ?B - 1" "s2 < 2 * ?B - 1" "s3 < 2 * ?B - 1"
    using unat_u64_lt [of h0] unat_u64_lt [of l1] unat_u64_lt [of h1] unat_u64_lt [of l2]
      unat_u64_lt [of h2] unat_u64_lt [of l3] unfolding s1_def s2_def s3_def by linarith+
  define low where "low = unat l0 + ?B * s1 + ?B * ?B * s2 + ?B * ?B * ?B * s3"
  have prod: "le_nat hash * d = low + ?B * ?B * ?B * ?B * unat h3"
    unfolding hash_words [OF len] low_def s1_def s2_def s3_def d_def
    by (rule limb_product [OF mul_pair [OF m0] mul_pair [OF m1] mul_pair [OF m2] mul_pair [OF m3]])
  have ovf: "?B * ?B * ?B * ?B \<le> low \<longleftrightarrow> cadc h2 l3 (cadc h1 l2 (cadd h0 l1))"
    unfolding low_def
    by (rule carry_chain [OF unat_u64_lt [of l0] _ lt, where ca = "cadd h0 l1"
          and cb = "cadc h1 l2 (cadd h0 l1)"])
      (simp_all only: cadd_iff cadc_iff s1_def s2_def s3_def, simp)
  have "check_hash mul hash difficulty \<longleftrightarrow> h3 = 0 \<and> \<not> ?B * ?B * ?B * ?B \<le> low"
    unfolding ovf by (simp add: check_hash_def m0 m1 m2 m3 Let_def del: One_nat_def)
  also have "\<dots> \<longleftrightarrow> le_nat hash * d < ?B * ?B * ?B * ?B"
    unfolding prod using no_room [of low "?B * ?B * ?B * ?B" "unat h3"]
    by (simp only: unat_eq_zero not_le)
  finally show ?thesis by (simp add: d_def)
qed

end

section \<open>Versions 1 and 2: exactness and bounds\<close>

lemma cut_window_bounds:
  assumes "cut_window keep len = (b, e)" and "2 \<le> len" and "2 \<le> keep"
  shows "b + 2 \<le> e" and "e \<le> len" and "e \<le> b + keep"
  using assms by (auto simp: cut_window_def Let_def split: if_splits)

lemma sorted_unat_sub:
  assumes "sorted xs" and "i \<le> j" and "j < length xs"
  shows "unat (xs ! j - xs ! i :: u64) = unat (xs ! j) - unat (xs ! i)"
  using sorted_nth_mono [OF assms] by (intro unat_sub_u64) (simp add: word_le_nat_alt)

lemma wrap_check:
  assumes "time_span \<noteq> (0 :: u64)"
  shows "low + time_span - 1 < low \<longleftrightarrow> 2 ^ 64 \<le> unat low + unat time_span - 1"
    and "unat low + unat time_span - 1 < 2 ^ 64 \<Longrightarrow>
      unat (low + time_span - 1) = unat low + unat time_span - 1"
proof -
  have one: "1 \<le> unat time_span" using assms by (simp add: unat_gt_0 Suc_le_eq)
  have pred: "unat (time_span - 1) = unat time_span - 1"
    using unat_sub_u64 [of 1 time_span] one by simp
  have eq: "low + time_span - 1 = low + (time_span - 1)" by simp
  show "low + time_span - 1 < low \<longleftrightarrow> 2 ^ 64 \<le> unat low + unat time_span - 1"
    unfolding eq carry_u64 pred using one by simp
  show "unat low + unat time_span - 1 < 2 ^ 64 \<Longrightarrow>
      unat (low + time_span - 1) = unat low + unat time_span - 1"
    unfolding eq using one pred by (subst unat_add_no_overflow_u64) simp_all
qed

text \<open>The work done in, and the time spent on, the part of the window that is kept.\<close>

definition window_work :: "nat \<Rightarrow> nat \<Rightarrow> u64 list \<Rightarrow> nat" where
  "window_work window keep cumulative_difficulties =
     (let cd = take window cumulative_difficulties; (b, e) = cut_window keep (length cd)
      in unat (cd ! (e - 1)) - unat (cd ! b))"

definition window_span :: "nat \<Rightarrow> nat \<Rightarrow> u64 list \<Rightarrow> nat" where
  "window_span window keep timestamps =
     (let ts = sort (take window timestamps); (b, e) = cut_window keep (length ts)
      in max 1 (unat (ts ! (e - 1)) - unat (ts ! b)))"

context wide_mul
begin

lemma next_difficulty_v1_exact:
  fixes ts cd :: "u64 list"
  assumes len: "length cd = length ts" "2 \<le> length ts" and cd: "sorted cd"
    and work: "work = window_work DIFFICULTY_WINDOW_V1 600 cd"
    and span: "span = window_span DIFFICULTY_WINDOW_V1 600 ts"
  shows "unat (next_difficulty_v1 mul ts cd target) =
    (if work * unat target + span - 1 < 2 ^ 64 then (work * unat target + span - 1) div span else 0)"
proof -
  define ts' cd' where "ts' = sort (take DIFFICULTY_WINDOW_V1 ts)"
    and "cd' = take DIFFICULTY_WINDOW_V1 cd"
  define n where "n = length cd'"
  have n: "length (take DIFFICULTY_WINDOW_V1 ts) = n" "length ts' = n" "2 \<le> n"
    using len by (auto simp: n_def ts'_def cd'_def v1_consts)
  have trunc: "(if length ts > DIFFICULTY_WINDOW_V1
      then (take DIFFICULTY_WINDOW_V1 ts, take DIFFICULTY_WINDOW_V1 cd) else (ts, cd))
      = (take DIFFICULTY_WINDOW_V1 ts, cd')"
    using len by (auto simp: cd'_def)
  have keep: "DIFFICULTY_WINDOW_V1 - 2 * DIFFICULTY_CUT_V1 = 600" by (simp add: v1_consts)
  obtain b e where cut: "cut_window 600 n = (b, e)" by fastforce
  note be = cut_window_bounds [OF cut n(3)]
  define t where "t = (if ts' ! (e - 1) - ts' ! b = 0 then 1 else ts' ! (e - 1) - ts' ! b)"
  define w where "w = cd' ! (e - 1) - cd' ! b"
  have "unat (ts' ! (e - 1) - ts' ! b) = unat (ts' ! (e - 1)) - unat (ts' ! b)"
    using be n by (intro sorted_unat_sub) (auto simp: ts'_def)
  then have t: "unat t = span" and t0: "t \<noteq> 0"
    using n cut by (auto simp: t_def span window_span_def ts'_def [symmetric] Let_def unat_eq_zero [symmetric])
  have "unat w = unat (cd' ! (e - 1)) - unat (cd' ! b)"
    using be n cd unfolding w_def
    by (intro sorted_unat_sub) (auto simp: n_def cd'_def sorted_wrt_take)
  then have w: "unat w = work"
    using cut by (simp add: work window_work_def cd'_def [symmetric] n_def [symmetric] Let_def)
  obtain low high where m: "mul w target = (low, high)" by fastforce
  have prod: "work * unat target = unat low + 2 ^ 64 * unat high"
    using mul_pair [OF m] by (simp add: w)
  have eval: "next_difficulty_v1 mul ts cd target =
      (if high \<noteq> 0 \<or> low + t - 1 < low then 0 else (low + t - 1) div t)"
    using n(3) unfolding next_difficulty_v1_def trunc Let_def prod.case n(1) keep cut ts'_def [symmetric]
      w_def [symmetric] t_def [symmetric] m by simp
  show ?thesis
  proof (cases "high = 0")
    case True
    then have p: "work * unat target = unat low" using prod by simp
    show ?thesis unfolding eval p t [symmetric]
      using True wrap_check [OF t0, of low] by (auto simp: unat_div)
  next
    case False
    then have "2 ^ 64 \<le> 2 ^ 64 * unat high" by (simp add: unat_gt_0 Suc_le_eq)
    then have "\<not> work * unat target + span - 1 < 2 ^ 64"
      using prod t t0 unat_gt_0 [of t] by linarith
    with False show ?thesis by (simp add: eval)
  qed
qed

end

definition v2_intervals :: "nat \<Rightarrow> nat" where
  "v2_intervals len = len - fst (cut_window 17 len) * 2 - 1"

lemma v2_intervals_bounds: "2 \<le> len \<Longrightarrow> len \<le> 29 \<Longrightarrow> 1 \<le> v2_intervals len \<and> v2_intervals len \<le> 16"
  by (auto simp: v2_intervals_def cut_window_def Let_def)

lemma v2_adjusted_bounds:
  assumes "k = len - cut_begin * 2 - 1" and "1 \<le> k" and "k \<le> 16"
  shows "10 * k \<le> unat (v2_adjusted_timespan ts len cut_begin cut_end)"
    and "unat (v2_adjusted_timespan ts len cut_begin cut_end) \<le> 1440 * k"
proof -
  have k: "unat (word_of_nat k :: u64) = k" using assms(3) by (simp add: unat_of_nat)
  have hi: "unat (DIFFICULTY_TARGET * 6 * word_of_nat k) = 1440 * k"
    using assms(3) unat_mult_u64 [of "1440" "word_of_nat k"] k
    by (simp add: DIFFICULTY_TARGET_def)
  have lo: "unat (DIFFICULTY_TARGET div 24 * word_of_nat k) = 10 * k"
    using assms(3) unat_mult_u64 [of "10" "word_of_nat k"] k
    by (simp add: DIFFICULTY_TARGET_def)
  define hi_lim lo_lim where "hi_lim = DIFFICULTY_TARGET * 6 * word_of_nat k"
    and "lo_lim = DIFFICULTY_TARGET div 24 * word_of_nat k"
  have le: "lo_lim \<le> hi_lim" using hi lo by (simp add: word_le_nat_alt hi_lim_def lo_lim_def)
  obtain x where "v2_adjusted_timespan ts len cut_begin cut_end =
      (let y = (if x > hi_lim then hi_lim else x) in if y < lo_lim then lo_lim else y)"
    unfolding v2_adjusted_timespan_def Let_def assms(1) [symmetric] hi_lim_def lo_lim_def by blast
  then have "lo_lim \<le> v2_adjusted_timespan ts len cut_begin cut_end
      \<and> v2_adjusted_timespan ts len cut_begin cut_end \<le> hi_lim"
    using le by (auto simp: Let_def)
  then show "10 * k \<le> unat (v2_adjusted_timespan ts len cut_begin cut_end)"
    and "unat (v2_adjusted_timespan ts len cut_begin cut_end) \<le> 1440 * k"
    using hi lo by (simp_all add: word_le_nat_alt hi_lim_def lo_lim_def)
qed

lemma ceil_div_bounds:
  fixes x :: nat
  assumes "0 < d" and "r = max 1 ((x + d - 1) div d)"
  shows "x \<le> r * d" and "r = 1 \<or> (r - 1) * d < x"
proof -
  define q where "q = (x + d - 1) div d"
  have e: "x + d - 1 = q * d + (x + d - 1) mod d" by (simp add: q_def)
  have m: "(x + d - 1) mod d < d" using assms(1) by simp
  have "x \<le> q * d" using e m by linarith
  also have "q * d \<le> r * d" using assms(2) by (intro mult_le_mono1) (simp add: q_def)
  finally show "x \<le> r * d" .
  show "r = 1 \<or> (r - 1) * d < x"
  proof (cases "q \<le> 1")
    case True
    then show ?thesis using assms(2) by (simp add: q_def)
  next
    case False
    then have r: "r = q" using assms(2) by (simp add: q_def)
    have "(q - 1) * d + d = q * d" using False by (cases q) auto
    moreover have "q * d \<le> x + d - 1" using e by linarith
    ultimately have "(q - 1) * d < x" using assms(1) by linarith
    then show ?thesis by (simp add: r)
  qed
qed

context wide_mul
begin

lemma next_difficulty_v2_bounds:
  fixes ts cd :: "u64 list"
  assumes len: "length cd = length ts" "2 \<le> length ts" and cd: "sorted cd"
    and work: "work = window_work DIFFICULTY_BLOCKS_COUNT_V2 17 cd"
    and k: "k = v2_intervals (min 29 (length ts))"
    and small: "work * unat target + 1440 * k < 2 ^ 64"
    and r: "r = unat (next_difficulty_v2 mul ts cd target)"
  shows "work * unat target \<le> r * (1440 * k)" and "r = 1 \<or> (r - 1) * (10 * k) < work * unat target"
    and "1 \<le> r"
proof -
  define ts' cd' where "ts' = sort (take DIFFICULTY_BLOCKS_COUNT_V2 ts)"
    and "cd' = take DIFFICULTY_BLOCKS_COUNT_V2 cd"
  define n where "n = length cd'"
  have n: "length (take DIFFICULTY_BLOCKS_COUNT_V2 ts) = n" "2 \<le> n" "n \<le> 29" "n = min 29 (length ts)"
    using len by (auto simp: n_def ts'_def cd'_def v2_consts)
  have trunc: "(if length ts > DIFFICULTY_BLOCKS_COUNT_V2
      then (take DIFFICULTY_BLOCKS_COUNT_V2 ts, take DIFFICULTY_BLOCKS_COUNT_V2 cd) else (ts, cd))
      = (take DIFFICULTY_BLOCKS_COUNT_V2 ts, cd')"
    using len by (auto simp: cd'_def)
  have keep: "DIFFICULTY_BLOCKS_COUNT_V2 - 2 * DIFFICULTY_CUT_V2 = 17" by (simp add: v2_consts)
  obtain b e where cut: "cut_window 17 n = (b, e)" by fastforce
  note be = cut_window_bounds [OF cut n(2)]
  have k': "k = n - b * 2 - 1" using cut by (simp add: k v2_intervals_def n(4))
  have kb: "1 \<le> k" "k \<le> 16" using v2_intervals_bounds [OF n(2,3)] by (simp_all add: k n(4))
  define a where "a = v2_adjusted_timespan ts' n b e"
  note adj = v2_adjusted_bounds [OF k' kb, of ts' e, folded a_def]
  have a0: "a \<noteq> 0" using adj(1) kb(1) by auto
  define w where "w = cd' ! (e - 1) - cd' ! b"
  have "unat w = unat (cd' ! (e - 1)) - unat (cd' ! b)"
    using be n cd unfolding w_def
    by (intro sorted_unat_sub) (auto simp: n_def cd'_def sorted_wrt_take)
  then have w: "unat w = work"
    using cut by (simp add: work window_work_def cd'_def [symmetric] n_def [symmetric] Let_def)
  obtain low high where m: "mul w target = (low, high)" by fastforce
  have "work * unat target < 2 ^ 64" using small by simp
  then have high: "high = 0" using mul_hi_zero [of w target] by (simp add: m w)
  then have low: "work * unat target = unat low" using mul_pair [OF m] by (simp add: w)
  have eval: "next_difficulty_v2 mul ts cd target =
      (if (low + a - 1) div a < 1 then 1 else (low + a - 1) div a)"
    using n(2) high unfolding next_difficulty_v2_def trunc Let_def prod.case n(1) keep cut
      ts'_def [symmetric] w_def [symmetric] a_def [symmetric] m by simp
  have ceil: "unat ((low + a - 1) div a) = (unat low + unat a - 1) div unat a"
    using wrap_check(2) [OF a0, of low] small adj(2) by (simp add: low unat_div)
  have "r = max 1 ((unat low + unat a - 1) div unat a)"
    unfolding r eval ceil [symmetric] by (auto simp: word_less_nat_alt max_def)
  from ceil_div_bounds [OF _ this] a0
  have r': "unat low \<le> r * unat a" "r = 1 \<or> (r - 1) * unat a < unat low" "1 \<le> r"
    using \<open>r = max 1 _\<close> by (simp_all add: unat_gt_0)
  show "work * unat target \<le> r * (1440 * k)"
    unfolding low using r'(1) mult_le_mono2 [OF adj(2), of r] by linarith
  show "r = 1 \<or> (r - 1) * (10 * k) < work * unat target"
    unfolding low using r'(2) mult_le_mono2 [OF adj(1), of "r - 1"] by linarith
  show "1 \<le> r" by (rule r'(3))
qed

end

text \<open>Version 2 has no check that the addition of \<open>adjusted_total_timespan\<close> stays in 64 bits.\<close>

lemma next_difficulty_v2_wrap_example:
  "next_difficulty_v2 mul_x86_64 [0, 240] [0, 76861433640456465] 240 = 1"
  by (simp add: next_difficulty_v2_def v2_consts cut_window_def v2_adjusted_timespan_def
      DIFFICULTY_TARGET_def Let_def mul_x86_64_def mul128_def hi_dword_def lo_dword_def)

section \<open>Version 3: exactness and bounds\<close>

lemma clamp_bounds: "lo \<le> hi \<Longrightarrow> lo \<le> clamp lo v hi \<and> clamp lo v hi \<le> hi"
  by (auto simp: clamp_def)

lemma v3_clamps: "v3_clamp_increase = 173923" "v3_clamp_decrease = 2174040"
  by (simp_all add: v3_clamp_increase_def v3_clamp_decrease_def DIFFICULTY_TARGET_def
      DIFFICULTY_WINDOW_V3_def)

definition v3_timespan :: "u64 list \<Rightarrow> nat" where
  "v3_timespan timestamps = nat (clamp v3_clamp_increase (v3_weighted_sum timestamps) v3_clamp_decrease)"

lemma v3_timespan_bounds: "173923 \<le> v3_timespan ts" "v3_timespan ts \<le> 2174040"
  using clamp_bounds [of v3_clamp_increase v3_clamp_decrease "v3_weighted_sum ts"]
  unfolding v3_timespan_def v3_clamps by (simp_all add: le_nat_iff nat_le_iff)

lemma next_difficulty_v3_exact:
  assumes len: "length cd = 61" and cd: "sorted cd"
    and work: "work = unat (cd ! 60) - unat (cd ! 0)" and small: "work * 14640 < 2 ^ 64"
  shows "unat (next_difficulty_v3 ts cd) = work * 14640 div (2 * v3_timespan ts) * 99 div 100"
proof -
  define w where "w = cd ! 60 - cd ! 0"
  have w: "unat w = work"
    using sorted_unat_sub [OF cd, of 0 60] len by (simp add: work w_def)
  define L where "L = clamp v3_clamp_increase (v3_weighted_sum ts) v3_clamp_decrease"
  have L: "int (v3_timespan ts) = L" and L1: "nat L = v3_timespan ts"
    using v3_timespan_bounds [of ts] by (simp_all add: v3_timespan_def L_def)
  have "word_of_int (2 * L) = (word_of_nat (2 * v3_timespan ts) :: u64)"
    by (simp add: L [symmetric])
  then have d: "unat (word_of_int (2 * L) :: u64) = 2 * v3_timespan ts"
    using v3_timespan_bounds [of ts] by (simp only: unat_of_nat) simp
  have p: "unat (w * 240 * 61) = work * 14640"
    using small unat_mult_u64 [of w 14640] by (simp add: w mult.assoc)
  define q where "q = work * 14640 div (2 * v3_timespan ts)"
  have "q \<le> work * 14640 div (2 * 173923)"
    unfolding q_def using v3_timespan_bounds(1) [of ts] by (intro div_le_mono2) simp_all
  also have "\<dots> \<le> work" by simp
  finally have q99: "q * 99 < 2 ^ 64" using small by simp
  have e: "next_difficulty_v3 ts cd = (w * 240 * 61) div word_of_int (2 * L) * 99 div 100"
    by (simp add: next_difficulty_v3_def Let_def DIFFICULTY_WINDOW_V3_def DIFFICULTY_TARGET_def
        w_def L_def)
  have "unat ((w * 240 * 61) div word_of_int (2 * L)) = q"
    by (simp only: unat_div p d q_def)
  then show ?thesis
    unfolding e q_def [symmetric] using q99 by (simp add: unat_div unat_mult_u64)
qed

lemma next_difficulty_v3_bounds:
  assumes len: "length cd = 61" and cd: "sorted cd"
    and work: "work = unat (cd ! 60) - unat (cd ! 0)" and small: "work * 14640 < 2 ^ 64"
  shows "work * 14640 div 4348080 * 99 div 100 \<le> unat (next_difficulty_v3 ts cd)"
    and "unat (next_difficulty_v3 ts cd) \<le> work * 14640 div 347846 * 99 div 100"
  unfolding next_difficulty_v3_exact [OF assms]
  using v3_timespan_bounds [of ts]
  by (intro div_le_mono mult_le_mono1 div_le_mono2; simp)+

section \<open>Version 4: the interpolation is sorted and the result limited\<close>

text \<open>The last kept (non-zero) entry below \<open>i\<close>, or entry 0 when all of them are masked.\<close>

lemma findLastValid_cases:
  assumes "1 \<le> i"
  obtains (valid) j where "1 \<le> j" "j < i" "ts ! j \<noteq> 0" "findLastValid ts i = ts ! j"
      "\<And>k. j < k \<Longrightarrow> k < i \<Longrightarrow> ts ! k = 0"
    | (none) "findLastValid ts i = ts ! 0" "\<And>k. 1 \<le> k \<Longrightarrow> k < i \<Longrightarrow> ts ! k = 0"
  using assms
proof (induction i arbitrary: thesis)
  case 0
  then show ?case by simp
next
  case (Suc i)
  show ?case
  proof (cases "i = 0")
    case True
    then show ?thesis using Suc.prems by simp
  next
    case False
    show ?thesis
    proof (cases "ts ! i = 0")
      case True
      have "1 \<le> i" using False by simp
      then show ?thesis
      proof (rule Suc.IH [rotated 2])
        fix j assume "1 \<le> j" "j < i" "ts ! j \<noteq> 0" "findLastValid ts i = ts ! j"
          "\<And>k. j < k \<Longrightarrow> k < i \<Longrightarrow> ts ! k = 0"
        then show ?thesis using Suc.prems(1) [of j] True False less_Suc_eq by auto
      next
        assume "findLastValid ts i = ts ! 0" "\<And>k. 1 \<le> k \<Longrightarrow> k < i \<Longrightarrow> ts ! k = 0"
        then show ?thesis using Suc.prems(2) True False less_Suc_eq by auto
      qed
    next
      case nz: False
      show ?thesis using Suc.prems(1) [of i] nz False by auto
    qed
  qed
qed

text \<open>What the masking loop keeps true of the entries \<open>1 \<dots> i\<close>: the kept ones increase strictly
  and lie strictly between the first and the largest timestamp.\<close>

definition kept_increasing :: "u64 \<Rightarrow> u64 \<Rightarrow> nat \<Rightarrow> u64 list \<Rightarrow> bool" where
  "kept_increasing t0 M i ts \<longleftrightarrow>
     (\<forall>j. 1 \<le> j \<longrightarrow> j < i \<longrightarrow> ts ! j \<noteq> 0 \<longrightarrow> t0 < ts ! j \<and> ts ! j < M) \<and>
     (\<forall>j k. 1 \<le> j \<longrightarrow> j < k \<longrightarrow> k < i \<longrightarrow> ts ! j \<noteq> 0 \<longrightarrow> ts ! k \<noteq> 0 \<longrightarrow> ts ! j < ts ! k)"

lemma kept_increasing_zero:
  assumes "kept_increasing t0 M i ts" and "j < length ts"
  shows "kept_increasing t0 M i (ts[j := 0])"
  using assms by (auto simp: kept_increasing_def nth_list_update split: if_splits)

lemma findLastValid_upper:
  assumes "kept_increasing (ts ! 0) M i ts" and "1 \<le> i"
  shows "ts ! 0 \<le> findLastValid ts i"
    and "\<And>j. 1 \<le> j \<Longrightarrow> j < i \<Longrightarrow> ts ! j \<noteq> 0 \<Longrightarrow> ts ! j \<le> findLastValid ts i"
proof -
  show "ts ! 0 \<le> findLastValid ts i"
    using assms(2) by (cases rule: findLastValid_cases [of i ts])
      (use assms(1) in \<open>auto simp: kept_increasing_def less_imp_le\<close>)
  show "ts ! j \<le> findLastValid ts i" if j: "1 \<le> j" "j < i" "ts ! j \<noteq> 0" for j
    using assms(2)
  proof (cases rule: findLastValid_cases [of i ts])
    case (valid k)
    have "j \<le> k" using valid(5) [of j] j by (meson leI)
    then show ?thesis
      using assms(1) j valid by (cases "j = k") (auto simp: kept_increasing_def less_imp_le)
  next
    case none
    then show ?thesis using j by blast
  qed
qed

lemma mask_step_kept:
  assumes "kept_increasing (ts ! 0) M i ts" and "1 \<le> i" and "i < length ts"
  shows "kept_increasing (ts ! 0) M (Suc i) (mask_step M i ts)"
proof (cases "ts ! i \<le> findLastValid ts i \<or> ts ! i \<ge> M")
  case True
  define us where "us = (if i \<noteq> 1 then ts[i - 1 := 0] else ts)"
  have us: "kept_increasing (ts ! 0) M i us"
    using kept_increasing_zero [OF assms(1), of "i - 1"] assms by (auto simp: us_def)
  have "kept_increasing (ts ! 0) M i (us[i := 0])"
    using kept_increasing_zero [OF us, of i] assms(3) by (simp add: us_def)
  moreover have "us[i := 0] ! i = 0" using assms(3) by (simp add: us_def)
  ultimately have "kept_increasing (ts ! 0) M (Suc i) (us[i := 0])"
    by (auto simp: kept_increasing_def less_Suc_eq)
  then show ?thesis using True by (simp add: mask_step_def us_def)
next
  case False
  then have up: "findLastValid ts i < ts ! i" "ts ! i < M" by auto
  have "ts ! 0 < ts ! i" using findLastValid_upper(1) [OF assms(1,2)] up(1) by simp
  moreover have "ts ! j < ts ! i" if "1 \<le> j" "j < i" "ts ! j \<noteq> 0" for j
    using findLastValid_upper(2) [OF assms(1,2) that] up(1) by simp
  ultimately have "kept_increasing (ts ! 0) M (Suc i) ts"
    using assms(1) up(2) by (auto simp: kept_increasing_def less_Suc_eq)
  then show ?thesis using False by (simp add: mask_step_def)
qed

lemma mask_step_frame:
  assumes "1 \<le> i"
  shows "length (mask_step M i ts) = length ts" "mask_step M i ts ! 0 = ts ! 0"
    and "\<And>k. i < k \<Longrightarrow> mask_step M i ts ! k = ts ! k"
  using assms by (auto simp: mask_step_def)

lemma mask_fold:
  assumes "1 \<le> i" and "i \<le> N" and "N < length ts"
  shows "length (fold (mask_step M) [1 ..< i] ts) = length ts
    \<and> fold (mask_step M) [1 ..< i] ts ! 0 = ts ! 0
    \<and> (\<forall>k \<ge> i. fold (mask_step M) [1 ..< i] ts ! k = ts ! k)
    \<and> kept_increasing (ts ! 0) M i (fold (mask_step M) [1 ..< i] ts)"
  using assms
proof (induction i rule: nat_induct_at_least)
  case base
  then show ?case by (auto simp: kept_increasing_def)
next
  case (Suc i)
  let ?f = "fold (mask_step M) [1 ..< i] ts"
  have step: "fold (mask_step M) [1 ..< Suc i] ts = mask_step M i ?f" using Suc.hyps by simp
  have IH: "length ?f = length ts" "?f ! 0 = ts ! 0" "\<forall>k \<ge> i. ?f ! k = ts ! k"
    "kept_increasing (ts ! 0) M i ?f" using Suc.IH Suc.prems by simp_all
  show ?case unfolding step
    using mask_step_frame [OF Suc.hyps, where ts = ?f] IH Suc.hyps Suc.prems
      mask_step_kept [where ts = ?f and M = M and i = i] by simp
qed

lemma mask_timestamps_kept:
  assumes "length ts = N + 1" and "1 \<le> N" and "ms = mask_timestamps N ts"
  shows "length ms = N + 1" "ms ! 0 = ts ! 0" "ms ! N = ts ! N"
    and "kept_increasing (ts ! 0) (ts ! N) N ms"
  using mask_fold [of N N ts "ts ! N"] assms by (auto simp: mask_timestamps_def)


text \<open>The length of the run of masked entries that ends at \<open>j\<close>.\<close>

definition masked_run :: "u64 list \<Rightarrow> nat \<Rightarrow> nat \<Rightarrow> bool" where
  "masked_run ms j c \<longleftrightarrow>
     c \<le> j \<and> (j - c = 0 \<or> ms ! (j - c) \<noteq> 0) \<and> (\<forall>k. j - c < k \<longrightarrow> k \<le> j \<longrightarrow> ms ! k = 0)"

text \<open>The list after the second loop has reached entry \<open>i\<close>.\<close>

definition numbered :: "u64 list \<Rightarrow> nat \<Rightarrow> u64 list \<Rightarrow> bool" where
  "numbered ms i ys \<longleftrightarrow>
     length ys = length ms \<and> ys ! 0 = ms ! 0 \<and> (\<forall>j. i \<le> j \<longrightarrow> ys ! j = ms ! j) \<and>
     (\<forall>j. 1 \<le> j \<longrightarrow> j < i \<longrightarrow>
        (if ms ! j \<noteq> 0 then ys ! j = ms ! j
         else \<exists>c. 1 \<le> c \<and> masked_run ms j c \<and> ys ! j = word_of_nat c))"

lemma numbered_step:
  assumes ys: "numbered ms i ys" and i: "1 \<le> i" "i < length ms"
    and c: "masked_run ms (i - 1) c" and mctr: "mctr = word_of_nat c"
  shows "ys ! i = 0 \<Longrightarrow> numbered ms (Suc i) (ys[i := mctr + 1]) \<and> masked_run ms i (Suc c)"
    and "ys ! i \<noteq> 0 \<Longrightarrow> numbered ms (Suc i) ys \<and> masked_run ms i 0"
proof -
  have eq: "ys ! i = ms ! i" and len: "length ys = length ms" using ys by (simp_all add: numbered_def)
  show "numbered ms (Suc i) (ys[i := mctr + 1]) \<and> masked_run ms i (Suc c)" if "ys ! i = 0"
  proof -
    have "ms ! k = 0" if "i - Suc c < k" "k \<le> i" for k
      using c that \<open>ys ! i = 0\<close> eq by (cases "k = i") (auto simp: masked_run_def)
    then have run: "masked_run ms i (Suc c)"
      using c i unfolding masked_run_def by auto
    moreover have "(ys[i := mctr + 1]) ! i = word_of_nat (Suc c)"
      using i len by (simp add: mctr)
    ultimately show ?thesis
      using ys i that eq len unfolding numbered_def
      by (auto simp: less_Suc_eq nth_list_update)
  qed
  show "numbered ms (Suc i) ys \<and> masked_run ms i 0" if "ys ! i \<noteq> 0"
    using ys that eq by (auto simp: numbered_def masked_run_def less_Suc_eq)
qed

lemma number_masked_numbered:
  assumes "numbered ms i ys" and "1 \<le> i" and "i + k < length ms"
    and "masked_run ms (i - 1) c" and "mctr = word_of_nat c"
  shows "numbered ms (i + k) (number_masked k i mctr ys)"
  using assms
proof (induction k arbitrary: i mctr ys c)
  case 0
  then show ?case by simp
next
  case (Suc k)
  have i: "i < length ms" "Suc i + k < length ms" using Suc.prems by simp_all
  note step = numbered_step [OF Suc.prems(1,2) i(1) Suc.prems(4,5)]
  show ?case
  proof (cases "ys ! i = 0")
    case True
    have "mctr + 1 = word_of_nat (Suc c)" using Suc.prems(5) by simp
    then show ?thesis
      using Suc.IH [of "Suc i" "ys[i := mctr + 1]" "Suc c" "mctr + 1"] step(1) [OF True] i True by simp
  next
    case False
    then show ?thesis
      using Suc.IH [of "Suc i" ys 0 0] step(2) [OF False] i by simp
  qed
qed

lemma number_masked_all:
  assumes "length ms = N + 1" and "1 \<le> N"
  shows "numbered ms N (number_masked (N - 1) 1 0 ms)"
proof -
  have "numbered ms 1 ms" "masked_run ms (1 - 1) 0" by (auto simp: numbered_def masked_run_def)
  then show ?thesis using number_masked_numbered [of ms 1 ms "N - 1" 0 0] assms by simp
qed


text \<open>The interpolated value lies between the last kept timestamp and the next one.\<close>

lemma interpolated_between:
  assumes le: "base \<le> (up :: u64)" and c: "unat num * unat up < 2 ^ 64" "unat num + 1 < 2 ^ 64"
  shows "base \<le> base + (up - base) * num div (num + 1)"
    and "base + (up - base) * num div (num + 1) \<le> up"
proof -
  define d q where "d = unat up - unat base" and "q = d * unat num div (unat num + 1)"
  have up: "unat up = unat base + d" using le by (simp add: d_def word_le_nat_alt)
  have d: "unat (up - base) = d" using le by (simp add: d_def unat_sub)
  have "unat num * d \<le> unat num * unat up" by (intro mult_le_mono2) (simp add: d_def)
  then have "unat num * d < 2 ^ 64" using c(1) by linarith
  then have p: "unat ((up - base) * num) = d * unat num" by (simp add: unat_mult_u64 d mult.commute)
  have "unat (num + 1) = unat num + 1" using c(2) by (simp add: unat_add_u64)
  then have q: "unat ((up - base) * num div (num + 1)) = q" by (simp add: unat_div p q_def)
  have "q \<le> d * (unat num + 1) div (unat num + 1)"
    unfolding q_def by (intro div_le_mono) simp
  also have "\<dots> = d" by (rule nonzero_mult_div_cancel_right) simp
  finally have le_d: "q \<le> d" .
  then have "unat base + q < 2 ^ 64" using unat_u64_lt [of up] up by linarith
  then have "unat (base + (up - base) * num div (num + 1)) = unat base + q"
    by (simp add: unat_add_u64 q)
  then show "base \<le> base + (up - base) * num div (num + 1)"
    and "base + (up - base) * num div (num + 1) \<le> up"
    using le_d up by (simp_all add: word_le_nat_alt)
qed

text \<open>The state of the downward loop before entry \<open>j\<close>: entries above \<open>j\<close> are final and sorted,
  and entry \<open>j + 1\<close> bounds every kept entry below.\<close>

definition descending :: "u64 list \<Rightarrow> u64 list \<Rightarrow> nat \<Rightarrow> nat \<Rightarrow> u64 list \<Rightarrow> bool" where
  "descending ms ys N j zs \<longleftrightarrow>
     length zs = N + 1 \<and> zs ! N = ms ! N \<and> (\<forall>k. k \<le> j \<longrightarrow> zs ! k = ys ! k) \<and>
     (\<forall>k. j < k \<longrightarrow> k < N \<longrightarrow> zs ! k \<le> zs ! (k + 1)) \<and>
     ms ! 0 \<le> zs ! (j + 1) \<and> zs ! (j + 1) \<le> ms ! N \<and>
     (\<forall>k. 1 \<le> k \<longrightarrow> k \<le> j \<longrightarrow> ms ! k \<noteq> 0 \<longrightarrow> ms ! k \<le> zs ! (j + 1))"

lemma descending_step:
  assumes zs: "descending ms ys N i zs" and ys: "numbered ms N ys"
    and ms: "kept_increasing (ms ! 0) (ms ! N) N ms" and i: "1 \<le> i" "i < N"
    and v: "ms ! i = 0 \<Longrightarrow> ms ! 0 \<le> v \<and> v \<le> zs ! (i + 1) \<and>
        (\<forall>k. 1 \<le> k \<longrightarrow> k < i \<longrightarrow> ms ! k \<noteq> 0 \<longrightarrow> ms ! k \<le> v)"
    and v': "ms ! i \<noteq> 0 \<Longrightarrow> v = ms ! i"
  shows "descending ms ys N (i - 1) (zs[i := v])"
proof -
  have len: "length zs = N + 1" using zs by (simp add: descending_def)
  have above: "v \<le> zs ! (i + 1)"
    using v v' zs i by (cases "ms ! i = 0") (auto simp: descending_def)
  have low: "ms ! 0 \<le> v"
    using v v' ms i by (cases "ms ! i = 0") (auto simp: kept_increasing_def less_imp_le)
  have kept: "ms ! k \<le> v" if "1 \<le> k" "k < i" "ms ! k \<noteq> 0" for k
    using v v' ms i that by (cases "ms ! i = 0") (auto simp: kept_increasing_def less_imp_le)
  have "v \<le> ms ! N" using above zs by (auto simp: descending_def)
  then show ?thesis
    using zs len i low kept above unfolding descending_def
    by (auto simp: nth_list_update)
qed

lemma numbered_entry:
  assumes "numbered ms N ys" and "1 \<le> j" and "j < N"
  shows "if ms ! j \<noteq> 0 then ys ! j = ms ! j
    else \<exists>c. 1 \<le> c \<and> masked_run ms j c \<and> ys ! j = word_of_nat c"
  using assms unfolding numbered_def by blast

lemma interpolate_down_sorted:
  assumes zs: "descending ms ys N j zs" and ys: "numbered ms N ys"
    and ms: "kept_increasing (ms ! 0) (ms ! N) N ms" and j: "j < N" and len: "length ms = N + 1"
    and N: "N \<le> unat (ms ! 0)" "N * unat (ms ! N) < 2 ^ 64"
  shows "\<exists>rs. interpolate_down N j zs = Some rs \<and> descending ms ys N 0 rs"
  using zs j
proof (induction j arbitrary: zs)
  case 0
  then show ?case by simp
next
  case (Suc j)
  let ?i = "Suc j"
  have i: "1 \<le> ?i" "?i < N" using Suc.prems by simp_all
  have zi: "zs ! ?i = ys ! ?i" using Suc.prems(1) by (simp add: descending_def)
  have zlen: "length zs = N + 1" using Suc.prems(1) by (simp add: descending_def)
  have N1: "N < 2 ^ 64" using N(1) unat_u64_lt [of "ms ! 0"] by linarith
  show ?case
  proof (cases "ms ! ?i = 0")
    case False
    then have yi: "ys ! ?i = ms ! ?i" using numbered_entry [OF ys i] by simp
    have same: "zs[?i := ms ! ?i] = zs" using zi yi by (metis list_update_id)
    have "N < unat (ms ! ?i)"
      using ms i False N(1) by (auto simp: kept_increasing_def word_less_nat_alt)
    then have "interpolate_down N ?i zs = interpolate_down N j (zs[?i := ms ! ?i])"
      unfolding same by (simp add: zi yi)
    moreover have "descending ms ys N (?i - 1) (zs[?i := ms ! ?i])"
      by (rule descending_step [OF Suc.prems(1) ys ms i]) (use False in auto)
    ultimately show ?thesis using Suc.IH i by simp
  next
    case True
    then obtain c where c: "1 \<le> c" "masked_run ms ?i c" "ys ! ?i = word_of_nat c"
      using numbered_entry [OF ys i] by auto
    have cN: "c \<le> ?i" "c < N" using c(2) i by (simp_all add: masked_run_def)
    have num: "unat (zs ! ?i) = c" using cN N1 by (simp add: zi c(3) unat_of_nat)
    define base where "base = zs ! (?i - c)"
    have base: "base = (if ?i - c = 0 then ms ! 0 else ms ! (?i - c))"
      using Suc.prems(1) ys c(1,2) cN i
      by (auto simp: base_def descending_def numbered_def masked_run_def)
    have b0: "ms ! 0 \<le> base"
      using ms c(2) i c(1) by (auto simp: base masked_run_def kept_increasing_def less_imp_le)
    have bup: "base \<le> zs ! (?i + 1)"
      using Suc.prems(1) c(1,2) i by (auto simp: base descending_def masked_run_def)
    have kept: "ms ! k \<le> base" if k: "1 \<le> k" "k < ?i" "ms ! k \<noteq> 0" for k
    proof -
      have "k \<le> ?i - c" using c(2) k unfolding masked_run_def by (meson less_imp_le not_le)
      then have "?i - c \<noteq> 0" "ms ! (?i - c) \<noteq> 0" using k(1) c(2) by (auto simp: masked_run_def)
      with \<open>k \<le> ?i - c\<close> show ?thesis
        using ms k i c(1) by (cases "k = ?i - c") (auto simp: base kept_increasing_def less_imp_le)
    qed
    let ?v = "base + (zs ! (?i + 1) - base) * (zs ! ?i) div (zs ! ?i + 1)"
    have "zs ! (?i + 1) \<le> ms ! N" using Suc.prems(1) by (simp add: descending_def)
    then have "c * unat (zs ! (?i + 1)) \<le> N * unat (ms ! N)"
      using cN by (intro mult_le_mono) (simp_all add: word_le_nat_alt)
    then have small: "unat (zs ! ?i) * unat (zs ! (?i + 1)) < 2 ^ 64"
      unfolding num using N(2) by linarith
    note bet = interpolated_between [OF bup small]
    have "interpolate_down N ?i zs = interpolate_down N j (zs[?i := ?v])"
      using num cN by (simp add: base_def Let_def)
    moreover have "descending ms ys N (?i - 1) (zs[?i := ?v])"
      by (rule descending_step [OF Suc.prems(1) ys ms i])
        (use True bet b0 kept num cN N1 in \<open>auto intro: order_trans\<close>)
    ultimately show ?thesis using Suc.IH i by simp
  qed
qed

lemma interpolate_timestamps_sorted:
  assumes len: "length ts = N + 1" and N: "1 \<le> N" "N \<le> unat (ts ! 0)"
    and le: "ts ! 0 \<le> ts ! N" and small: "N * unat (ts ! N) < 2 ^ 64"
  shows "\<exists>rs. interpolate_timestamps N ts = Some rs \<and> length rs = N + 1 \<and> sorted rs
    \<and> rs ! 0 = ts ! 0 \<and> rs ! N = ts ! N"
proof -
  define ms where "ms = mask_timestamps N ts"
  define ys where "ys = number_masked (N - 1) 1 0 ms"
  note mask = mask_timestamps_kept [OF len N(1) ms_def]
  have num: "numbered ms N ys" unfolding ys_def by (rule number_masked_all [OF mask(1) N(1)])
  have desc: "descending ms ys N (N - 1) ys"
    using num mask N le by (auto simp: descending_def numbered_def kept_increasing_def less_imp_le)
  have "\<exists>rs. interpolate_down N (N - 1) ys = Some rs \<and> descending ms ys N 0 rs"
    by (rule interpolate_down_sorted [OF desc num]) (use mask N small in auto)
  then obtain rs where rs: "interpolate_down N (N - 1) ys = Some rs" "descending ms ys N 0 rs"
    by blast
  have rs0: "rs ! 0 = ts ! 0" using rs(2) num mask by (simp add: descending_def numbered_def)
  have "sorted rs"
    unfolding sorted_iff_nth_Suc
  proof (intro allI impI)
    fix i assume "Suc i < length rs"
    then show "rs ! i \<le> rs ! Suc i"
      using rs(2) rs0 mask by (cases "i = 0") (auto simp: descending_def)
  qed
  then show ?thesis using rs rs0 mask by (auto simp: interpolate_timestamps_def ms_def ys_def descending_def)
qed

text \<open>Timestamps that already increase strictly are left alone.\<close>

lemma findLastValid_pred: "1 \<le> i \<Longrightarrow> i = 1 \<or> ts ! (i - 1) \<noteq> 0 \<Longrightarrow> findLastValid ts i = ts ! (i - 1)"
  by (cases i) (auto simp: Suc_le_eq)

lemma interpolate_timestamps_increasing:
  assumes inc: "\<And>i j. i < j \<Longrightarrow> j \<le> N \<Longrightarrow> ts ! i < ts ! j" and N: "N \<le> unat (ts ! 0)"
  shows "interpolate_timestamps N ts = Some ts"
proof -
  have nz: "ts ! i \<noteq> 0 \<and> N < unat (ts ! i)" if "1 \<le> i" "i \<le> N" for i
    using inc [of 0 i] that N by (auto simp: word_less_nat_alt)
  have step: "mask_step (ts ! N) i ts = ts" if "1 \<le> i" "i < N" for i
  proof -
    have "findLastValid ts i = ts ! (i - 1)"
      using that nz [of "i - 1"] by (intro findLastValid_pred; cases "i = 1"; simp)
    then show ?thesis using inc [of "i - 1" i] inc [of i N] that by (auto simp: mask_step_def)
  qed
  have "fold (mask_step (ts ! N)) is ts = ts" if "set is \<subseteq> {1 ..< N}" for "is"
    using that by (induction "is") (auto simp: step)
  then have mask: "mask_timestamps N ts = ts" by (simp add: mask_timestamps_def)
  have "number_masked k i m ts = ts" if "1 \<le> i" "i + k \<le> N" for k i m
    using that by (induction k arbitrary: i m) (use nz in auto)
  then have num: "number_masked (N - 1) 1 0 ts = ts" by (cases N) auto
  have "interpolate_down N j ts = Some ts" if "j \<le> N" for j
    using that
  proof (induction j)
    case (Suc j)
    then show ?case using nz [of "Suc j"] by simp
  qed simp
  then show ?thesis by (simp add: interpolate_timestamps_def mask num [simplified])
qed

lemma v4_prepare_props:
  assumes len: "length ts = 46" and lt: "\<And>t. t \<in> set ts \<Longrightarrow> unat t < 2 ^ 57"
  shows "length (v4_prepare ts) = 46" "v4_prepare ts ! 0 = ts ! 0"
    and "v4_prepare ts ! 0 < v4_prepare ts ! 45" "unat (v4_prepare ts ! 45) < 2 ^ 57 + 1200"
proof -
  define m where "m = min (max (ts ! 45) (ts ! 44)) (ts ! 44 + 1200)"
  have p: "v4_prepare ts = ts[45 := max m (ts ! 0 + 1)]"
    using len by (simp add: v4_prepare_def DIFFICULTY_WINDOW_V4_def DIFFICULTY_TARGET_def Let_def m_def)
  show "length (v4_prepare ts) = 46" "v4_prepare ts ! 0 = ts ! 0" using len by (simp_all add: p)
  have b: "unat (ts ! i) < 2 ^ 57" if "i < 46" for i using lt len that by simp
  have "ts ! 0 < ts ! 0 + 1"
    using b [of 0] by (simp add: word_less_nat_alt unat_add_u64)
  then have "ts ! 0 < max m (ts ! 0 + 1)" by (simp add: less_max_iff_disj)
  then show "v4_prepare ts ! 0 < v4_prepare ts ! 45" using len by (simp add: p)
  have "unat m \<le> unat (ts ! 44 + 1200)" by (simp add: m_def word_le_nat_alt [symmetric])
  also have "\<dots> = unat (ts ! 44) + 1200" using b [of 44] by (simp add: unat_add_u64)
  finally have "unat m < 2 ^ 57 + 1200" using b [of 44] by simp
  moreover have "unat (ts ! 0 + 1) < 2 ^ 57 + 1200" using b [of 0] by (simp add: unat_add_u64)
  ultimately have "unat (max m (ts ! 0 + 1)) < 2 ^ 57 + 1200" by (simp add: max_def)
  then show "unat (v4_prepare ts ! 45) < 2 ^ 57 + 1200" using len by (simp add: p)
qed

lemma v4_interpolated:
  assumes len: "length ts = 46" and lt: "\<And>t. t \<in> set ts \<Longrightarrow> unat t < 2 ^ 57" and low: "45 \<le> unat (ts ! 0)"
  obtains rs where "interpolate_timestamps DIFFICULTY_WINDOW_V4 (v4_prepare ts) = Some rs"
    "length rs = 46" "sorted rs" "rs ! 0 = ts ! 0"
proof -
  note p = v4_prepare_props [OF len lt]
  have "45 * unat (v4_prepare ts ! 45) < 2 ^ 64" using p(4) by simp
  with interpolate_timestamps_sorted [of "v4_prepare ts" 45] p low obtain rs
    where "interpolate_timestamps 45 (v4_prepare ts) = Some rs"
      "length rs = 46" "sorted rs" "rs ! 0 = ts ! 0"
    by (auto simp: less_imp_le)
  then show ?thesis using that by (simp add: DIFFICULTY_WINDOW_V4_def)
qed

lemma next_difficulty_v4_limits:
  assumes res: "next_difficulty_v4 ts cd = Some d" and prev: "prev = unat (cd ! 45 - cd ! 44)"
    and small: "prev * 150 < 2 ^ 64"
  shows "prev * 67 div 100 \<le> unat d" and "unat d \<le> prev * 150 div 100"
proof -
  define p where "p = cd ! 45 - cd ! 44"
  have p: "unat p = prev" by (simp add: p_def prev)
  have lo: "unat (p * 67 div 100) = prev * 67 div 100"
    using small by (simp add: unat_div unat_mult_u64 p)
  have hi: "unat (p * 150 div 100) = prev * 150 div 100"
    using small by (simp add: unat_div unat_mult_u64 p)
  obtain n where d: "d = max (p * 67 div 100) (min n (p * 150 div 100))"
    using res by (auto simp: next_difficulty_v4_def DIFFICULTY_WINDOW_V4_def Let_def p_def
        split: option.splits)
  have "p * 67 div 100 \<le> p * 150 div 100"
    unfolding word_le_nat_alt lo hi by (intro div_le_mono) simp
  then have "p * 67 div 100 \<le> d" "d \<le> p * 150 div 100" by (auto simp: d)
  then show "prev * 67 div 100 \<le> unat d" "unat d \<le> prev * 150 div 100"
    by (simp_all add: word_le_nat_alt lo hi)
qed

section \<open>Properties\<close>

text \<open>C16: \<open>check_hash\<close> accepts a 32-byte hash exactly when the hash, read as a little-endian
  256-bit number, times the difficulty does not overflow 256 bits.\<close>

theorem check_hash_iff:
  assumes "length hash = 32"
  shows "check_hash mul_x86_64 hash difficulty \<longleftrightarrow> le_nat hash * unat difficulty < 2 ^ 256"
  by (rule mul_x86.check_hash_correct [OF assms])

theorem check_hash_iff_witness:
  "length (replicate 31 (0 :: byte) @ [16]) = 32 \<and>
   check_hash mul_x86_64 (replicate 31 0 @ [16]) 15 \<and>
   \<not> check_hash mul_x86_64 (replicate 31 0 @ [16]) 16"
proof -
  have len: "length (replicate 31 (0 :: byte) @ [16]) = 32" by simp
  have val: "le_nat (replicate 31 0 @ [16]) = 2 ^ 252"
    by (simp add: le_nat_append)
  show ?thesis using len check_hash_iff [OF len, of 15] check_hash_iff [OF len, of 16]
    by (simp add: val)
qed

text \<open>Version 1 returns the work done in the kept window times the target, divided by the
  time spent and rounded up, and 0 exactly when that computation leaves 64 bits (or the work is
  0); cumulative difficulties do not decrease along the chain.\<close>

theorem next_difficulty_v1_rounds_up:
  assumes "length cd = length ts" and "2 \<le> length ts" and "sorted cd"
    and "work = window_work DIFFICULTY_WINDOW_V1 600 cd"
    and "span = window_span DIFFICULTY_WINDOW_V1 600 ts"
  shows "unat (next_difficulty_v1 mul_x86_64 ts cd target) =
    (if work * unat target + span - 1 < 2 ^ 64 then (work * unat target + span - 1) div span else 0)"
  by (rule mul_x86.next_difficulty_v1_exact [OF assms])

theorem next_difficulty_v1_rounds_up_witness:
  "unat (next_difficulty_v1 mul_x86_64 [1000, 1240, 1481] [0, 5000, 10000] 240) = 4990"
proof -
  have s: "sorted [0, 5000, 10000 :: u64]" by simp
  have w: "10000 = window_work DIFFICULTY_WINDOW_V1 600 [0, 5000, 10000]"
    by (simp add: window_work_def v1_consts cut_window_def)
  have t: "481 = window_span DIFFICULTY_WINDOW_V1 600 [1000, 1240, 1481]"
    by (simp add: window_span_def v1_consts cut_window_def)
  show ?thesis using next_difficulty_v1_rounds_up [OF _ _ s w t, of 240] by simp
qed

text \<open>Version 2 clamps the average block time to between 10 seconds and 24 minutes: while
  the scaled work fits in 64 bits, the next difficulty \<open>r\<close> is at least 1, covers the work at 24
  minutes a block and, unless it is 1, exceeds the work at 10 seconds a block by less than one
  step.\<close>

theorem next_difficulty_v2_clamped:
  assumes "length cd = length ts" and "2 \<le> length ts" and "sorted cd"
    and "work = window_work DIFFICULTY_BLOCKS_COUNT_V2 17 cd"
    and "k = v2_intervals (min 29 (length ts))"
    and "work * unat target + 1440 * k < 2 ^ 64"
    and "r = unat (next_difficulty_v2 mul_x86_64 ts cd target)"
  shows "1 \<le> r \<and> work * unat target \<le> r * (1440 * k)
    \<and> (r = 1 \<or> (r - 1) * (10 * k) < work * unat target)"
  using mul_x86.next_difficulty_v2_bounds [OF assms] by blast

theorem next_difficulty_v2_clamped_witness:
  "1 \<le> unat (next_difficulty_v2 mul_x86_64 [1000, 1240] [0, 5000] 240) \<and>
   5000 * 240 \<le> unat (next_difficulty_v2 mul_x86_64 [1000, 1240] [0, 5000] 240) * 1440"
proof -
  have s: "sorted [0, 5000 :: u64]" by simp
  have w: "5000 = window_work DIFFICULTY_BLOCKS_COUNT_V2 17 [0, 5000]"
    by (simp add: window_work_def v2_consts cut_window_def)
  have k: "1 = v2_intervals (min 29 (length [1000, 1240 :: u64]))"
    by (simp add: v2_intervals_def cut_window_def)
  show ?thesis using next_difficulty_v2_clamped [OF _ _ s w k _ refl, of 240] by simp
qed

text \<open>Version 3 changes the difficulty by a bounded factor: for any timestamps, while the
  scaled work fits in 64 bits, the result is 0.99 times the work times 14640 over twice a
  weighted time span between 173923 and 2174040, so it lies between two fixed multiples of the
  work of the window.\<close>

theorem next_difficulty_v3_limited:
  assumes "length cd = 61" and "sorted cd" and "work = unat (cd ! 60) - unat (cd ! 0)"
    and "work * 14640 < 2 ^ 64"
  shows "unat (next_difficulty_v3 ts cd) = work * 14640 div (2 * v3_timespan ts) * 99 div 100
    \<and> work * 14640 div 4348080 * 99 div 100 \<le> unat (next_difficulty_v3 ts cd)
    \<and> unat (next_difficulty_v3 ts cd) \<le> work * 14640 div 347846 * 99 div 100"
  using next_difficulty_v3_exact [OF assms] next_difficulty_v3_bounds [OF assms] by blast

theorem next_difficulty_v3_limited_witness:
  "unat (next_difficulty_v3 [] (map (\<lambda>i. word_of_nat (1000 * i)) [0 ..< 61])) \<le> 2499"
proof -
  let ?cd = "map (\<lambda>i. word_of_nat (1000 * i)) [0 ..< 61] :: u64 list"
  have nth: "?cd ! i = word_of_nat (1000 * i)" if "i < 61" for i using that by (simp del: upt_Suc)
  have u: "unat (word_of_nat (1000 * i) :: u64) = 1000 * i" if "i < 61" for i
    using that by (simp add: unsigned_of_nat take_bit_nat_eq_self del: of_nat_mult)
  have "sorted ?cd"
    unfolding sorted_iff_nth_mono using nth u by (simp add: word_le_nat_alt)
  moreover have "60000 = unat (?cd ! 60) - unat (?cd ! 0)"
    using nth [of 60] nth [of 0] u [of 60] u [of 0] by simp
  ultimately show ?thesis using next_difficulty_v3_limited [of ?cd 60000 "[]"] by simp
qed

text \<open>C18: The assertions of version 4 hold. For 46 timestamps below \<open>2 ^ 57\<close> of which the first is
  at least 45, the interpolation reads inside the vector and returns timestamps that do not
  decrease and are not 0.\<close>

theorem v4_assertions_hold:
  assumes "length ts = 46" and "\<forall>t \<in> set ts. unat t < 2 ^ 57" and "45 \<le> unat (ts ! 0)"
  shows "\<exists>rs. interpolate_timestamps DIFFICULTY_WINDOW_V4 (v4_prepare ts) = Some rs
    \<and> length rs = 46 \<and> (\<forall>i. 1 \<le> i \<longrightarrow> i \<le> 45 \<longrightarrow> rs ! (i - 1) \<le> rs ! i \<and> rs ! i \<noteq> 0)"
proof -
  obtain rs where rs: "interpolate_timestamps DIFFICULTY_WINDOW_V4 (v4_prepare ts) = Some rs"
    "length rs = 46" "sorted rs" "rs ! 0 = ts ! 0"
    using v4_interpolated assms by blast
  have "rs ! (i - 1) \<le> rs ! i \<and> rs ! i \<noteq> 0" if "1 \<le> i" "i \<le> 45" for i
  proof -
    have "ts ! 0 \<le> rs ! i" using sorted_nth_mono [OF rs(3), of 0 i] rs that by simp
    then have "0 < unat (rs ! i)" using assms(3) by (simp add: word_le_nat_alt)
    then show ?thesis using sorted_nth_mono [OF rs(3), of "i - 1" i] rs that by (auto simp: unat_gt_0)
  qed
  with rs show ?thesis by blast
qed

theorem v4_assertions_hold_witness:
  "\<exists>rs. interpolate_timestamps DIFFICULTY_WINDOW_V4 (v4_prepare (replicate 46 1000)) = Some rs
    \<and> length rs = 46 \<and> rs ! 0 \<le> rs ! 1"
proof -
  have "length (replicate 46 (1000 :: u64)) = 46" "\<forall>t \<in> set (replicate 46 (1000 :: u64)). unat t < 2 ^ 57"
    "45 \<le> unat (replicate 46 (1000 :: u64) ! 0)" by simp_all
  from v4_assertions_hold [OF this] show ?thesis by force
qed



text \<open>Without the bound on the first timestamp the interpolation can leave the vector: an entry
  that is kept but at most 45 is taken for the number of masked entries before it.\<close>

theorem interpolate_reads_out_of_range:
  "interpolate_timestamps 4 [1, 4, 5, 6, 7] = None"
  by code_simp

end
