(* ===== verification/Config.thy ===== *)
theory Config
  imports Prelude
begin

text \<open>The constants of \<open>src/cryptonote_config.h\<close> that the components use. The specialisations of
  the template \<open>config\<close> for the three networks are values of the record \<open>net_config\<close>;
  \<open>FAKECHAIN\<close> and \<open>UNDEFINED\<close> have none.\<close>

section \<open>Networks\<close>

datatype network_type = MAINNET | TESTNET | STAGENET | FAKECHAIN | UNDEFINED

definition MK_COINS :: "u64 \<Rightarrow> u64" where
  "MK_COINS coins = coins * 1000000000"

record net_config =
  LEGACY_LONG_ADDRESS_BASE58_PREFIX :: u64
  LEGACY_LONG_INTEGRATED_ADDRESS_BASE58_PREFIX :: u64
  LEGACY_LONG_SUBADDRESS_BASE58_PREFIX :: u64
  RYO_KURZ_SUBADDRESS_BASE58_PREFIX :: u64
  RYO_KURZ_ADDRESS_BASE58_PREFIX :: u64
  RYO_LONG_ADDRESS_BASE58_PREFIX :: u64
  RYO_LONG_INTEGRATED_ADDRESS_BASE58_PREFIX :: u64
  RYO_LONG_SUBADDRESS_BASE58_PREFIX :: u64
  DEV_FUND_PERIOD :: u64
  DEV_FUND_AMOUNT :: u64
  DEV_FUND_LENGTH :: u64
  DEV_FUND_START :: u64
  DEV_FUND_V2_START :: u64

definition DEV_FUND_V2_INCREASE :: "net_config \<Rightarrow> u64" where
  "DEV_FUND_V2_INCREASE c = DEV_FUND_AMOUNT c div DEV_FUND_LENGTH c"

definition DEV_FUND_V2_AMOUNT :: "net_config \<Rightarrow> u64" where
  "DEV_FUND_V2_AMOUNT c =
     (DEV_FUND_LENGTH c - (DEV_FUND_V2_START c - DEV_FUND_START c) div DEV_FUND_PERIOD c)
       * DEV_FUND_V2_INCREASE c"

definition config_MAINNET :: net_config where
  "config_MAINNET = \<lparr>
     LEGACY_LONG_ADDRESS_BASE58_PREFIX = 0x2bb39a,
     LEGACY_LONG_INTEGRATED_ADDRESS_BASE58_PREFIX = 0x29339a,
     LEGACY_LONG_SUBADDRESS_BASE58_PREFIX = 0x8319a,
     RYO_KURZ_SUBADDRESS_BASE58_PREFIX = 0x3fe192,
     RYO_KURZ_ADDRESS_BASE58_PREFIX = 0x2c6192,
     RYO_LONG_ADDRESS_BASE58_PREFIX = 0x2ce192,
     RYO_LONG_INTEGRATED_ADDRESS_BASE58_PREFIX = 0x2de192,
     RYO_LONG_SUBADDRESS_BASE58_PREFIX = 0x2fe192,
     DEV_FUND_PERIOD = 15 * 24 * 7,
     DEV_FUND_AMOUNT = MK_COINS 8000000,
     DEV_FUND_LENGTH = 52 * 6,
     DEV_FUND_START = 161500,
     DEV_FUND_V2_START = 388300\<rparr>"

definition config_TESTNET :: net_config where
  "config_TESTNET = \<lparr>
     LEGACY_LONG_ADDRESS_BASE58_PREFIX = 0x37751a,
     LEGACY_LONG_INTEGRATED_ADDRESS_BASE58_PREFIX = 0x34f51a,
     LEGACY_LONG_SUBADDRESS_BASE58_PREFIX = 0x1d351a,
     RYO_KURZ_SUBADDRESS_BASE58_PREFIX = 0x2ae192,
     RYO_KURZ_ADDRESS_BASE58_PREFIX = 0x2b6192,
     RYO_LONG_ADDRESS_BASE58_PREFIX = 0x306192,
     RYO_LONG_INTEGRATED_ADDRESS_BASE58_PREFIX = 0x29e192,
     RYO_LONG_SUBADDRESS_BASE58_PREFIX = 0x30e192,
     DEV_FUND_PERIOD = 15 * 24,
     DEV_FUND_AMOUNT = MK_COINS 8000000,
     DEV_FUND_LENGTH = 7 * 52 * 6,
     DEV_FUND_START = 129750,
     DEV_FUND_V2_START = 283110\<rparr>"

definition config_STAGENET :: net_config where
  "config_STAGENET = \<lparr>
     LEGACY_LONG_ADDRESS_BASE58_PREFIX = 0x37751a,
     LEGACY_LONG_INTEGRATED_ADDRESS_BASE58_PREFIX = 0x34f51a,
     LEGACY_LONG_SUBADDRESS_BASE58_PREFIX = 0x1d351a,
     RYO_KURZ_SUBADDRESS_BASE58_PREFIX = 0xdc2192,
     RYO_KURZ_ADDRESS_BASE58_PREFIX = 0x1fc2192,
     RYO_LONG_ADDRESS_BASE58_PREFIX = 0xd1c2192,
     RYO_LONG_INTEGRATED_ADDRESS_BASE58_PREFIX = 0x1fbbe192,
     RYO_LONG_SUBADDRESS_BASE58_PREFIX = 0xe3c2192,
     DEV_FUND_PERIOD = 15 * 24,
     DEV_FUND_AMOUNT = MK_COINS 8000000,
     DEV_FUND_LENGTH = 7 * 52 * 6,
     DEV_FUND_START = 129750,
     DEV_FUND_V2_START = 283110\<rparr>"

text \<open>The dispatch on the network that every \<open>switch(nettype)\<close> of the code does.\<close>

definition network_config :: "network_type \<Rightarrow> net_config option" where
  "network_config nettype =
     (case nettype of
        MAINNET \<Rightarrow> Some config_MAINNET
      | TESTNET \<Rightarrow> Some config_TESTNET
      | STAGENET \<Rightarrow> Some config_STAGENET
      | _ \<Rightarrow> None)"

lemmas network_configs = network_config_def config_MAINNET_def config_TESTNET_def config_STAGENET_def

lemma network_config_cases:
  assumes "network_config nettype = Some c"
  obtains "c = config_MAINNET" | "c = config_TESTNET" | "c = config_STAGENET"
  using assms by (auto simp: network_config_def split: network_type.splits)

section \<open>Emission\<close>

definition MONEY_SUPPLY :: u64 where "MONEY_SUPPLY = 88888888000000000"
definition FINAL_SUBSIDY :: u64 where "FINAL_SUBSIDY = 4000000000"
definition GENESIS_BLOCK_REWARD :: u64 where "GENESIS_BLOCK_REWARD = 8800000000000000"

text \<open>\<open>6 * (30.4375 * 24 * 3600) / 240\<close>, which is an integer.\<close>

definition COIN_EMISSION_HEIGHT_INTERVAL :: u64 where
  "COIN_EMISSION_HEIGHT_INTERVAL = 6 * 304375 * 24 * 3600 div (10000 * 240)"

definition COIN_EMISSION_STEPS :: "u64 list" where
  "COIN_EMISSION_STEPS =
    [32000000000, 36450000000, 41970000000, 48590000000, 56280000000,
     65070000000, 65070000000, 60820000000, 56840000000, 53130000000,
     49660000000, 46420000000, 43390000000, 40550000000, 37910000000,
     35430000000, 33120000000, 30950000000, 28930000000, 27040000000,
     25280000000, 23630000000, 22080000000, 20640000000, 19290000000,
     18030000000, 16850000000, 15750000000, 14720000000, 13760000000,
     12860000000, 12020000000, 11240000000, 10500000000, 9820000000,
     9180000000, 8580000000, 8020000000, 7490000000, 7000000000,
     6540000000, 6120000000, 5720000000, 5340000000, 4990000000,
     4670000000, 4360000000, 4080000000]"

definition CRYPTONOTE_BLOCK_GRANTED_FULL_REWARD_ZONE :: u64 where
  "CRYPTONOTE_BLOCK_GRANTED_FULL_REWARD_ZONE = 240 * 1024"

definition BLOCK_SIZE_GROWTH_FAVORED_ZONE :: u64 where
  "BLOCK_SIZE_GROWTH_FAVORED_ZONE = CRYPTONOTE_BLOCK_GRANTED_FULL_REWARD_ZONE * 4"

definition TRANSACTION_SIZE_LIMIT :: u64 where "TRANSACTION_SIZE_LIMIT = 300 * 1024"

section \<open>Hard fork features\<close>

datatype hard_fork_feature =
    FORK_POW_CN_HEAVY | FORK_POW_CN_GPU | FORK_V2_DIFFICULTY | FORK_V3_DIFFICULTY
  | FORK_V4_DIFFICULTY | FORK_FIXED_FEE | FORK_NEED_V3_TXES | FORK_RINGSIZE_INC
  | FORK_RINGSIZE_INC_REQ | FORK_BULLETPROOFS | FORK_BULLETPROOFS_REQ
  | FORK_STRICT_TX_SEMANTICS | FORK_DEV_FUND | FORK_FEE_V2 | FORK_UNIFORM_IDS
  | FORK_UNIFORM_IDS_REQ | FORK_CHECK_BLOCK_BACKDATE

record hardfork_conf =
  ft :: hard_fork_feature
  mainnet :: u8
  testnet :: u8
  stagenet :: u8

definition FORK_ID_DISABLED :: u8 where "FORK_ID_DISABLED = 0xff"

definition FORK_CONFIG :: "hardfork_conf list" where
  "FORK_CONFIG = map (\<lambda>(f, m, t, s). \<lparr>ft = f, mainnet = m, testnet = t, stagenet = s\<rparr>)
    [(FORK_POW_CN_HEAVY, 3, 3, 1),
     (FORK_POW_CN_GPU, 6, 9, 1),
     (FORK_V2_DIFFICULTY, 2, 2, 1),
     (FORK_V3_DIFFICULTY, 4, 4, 1),
     (FORK_V4_DIFFICULTY, 6, 9, 1),
     (FORK_FIXED_FEE, 4, 4, 1),
     (FORK_NEED_V3_TXES, 4, 4, 1),
     (FORK_STRICT_TX_SEMANTICS, 5, 5, 1),
     (FORK_DEV_FUND, 5, 5, 1),
     (FORK_FEE_V2, 5, 6, 1),
     (FORK_RINGSIZE_INC, 6, 8, 1),
     (FORK_RINGSIZE_INC_REQ, 7, 9, 1),
     (FORK_BULLETPROOFS, 6, 8, 1),
     (FORK_BULLETPROOFS_REQ, 7, 9, 1),
     (FORK_UNIFORM_IDS, 6, 7, 1),
     (FORK_UNIFORM_IDS_REQ, 7, 8, 1),
     (FORK_CHECK_BLOCK_BACKDATE, 9, 10, 1)]"

end
