(* ===== verification/Emission.thy ===== *)
theory Emission
  imports IntUtil Config
begin

text \<open>Block rewards and the development fund of
  \<open>src/cryptonote_basic/cryptonote_basic_impl.cpp\<close>, in 64-bit arithmetic. The template argument
  of the fund functions is the record \<open>c\<close> of the network's constants. \<open>None\<close> and
  \<open>Assertion_failed\<close> stand for an assertion that fails; the lemmas show where that cannot
  happen.\<close>

section \<open>The development fund\<close>

definition get_dev_fund_amount :: "net_config \<Rightarrow> u64 \<Rightarrow> u64 option" where
  "get_dev_fund_amount c height =
     (if height < DEV_FUND_START c then None
      else
        let height = height - DEV_FUND_START c in
        if DEV_FUND_LENGTH c \<le> height div DEV_FUND_PERIOD c then None
        else if height mod DEV_FUND_PERIOD c \<noteq> 0 then None
        else
          let amount = DEV_FUND_AMOUNT c div DEV_FUND_LENGTH c in
          Some (if DEV_FUND_V2_START c - DEV_FUND_START c \<le> height
                then amount + DEV_FUND_V2_INCREASE c else amount))"

definition get_v2_dev_fund_reward_decrease :: "net_config \<Rightarrow> u64 \<Rightarrow> u64" where
  "get_v2_dev_fund_reward_decrease c height =
     (if height < DEV_FUND_V2_START c then 0
      else
        let height = height - DEV_FUND_START c in
        if DEV_FUND_LENGTH c \<le> height div DEV_FUND_PERIOD c then 0
        else DEV_FUND_V2_INCREASE c div DEV_FUND_PERIOD c)"

section \<open>The block reward\<close>

definition get_base_reward_tabular :: "network_type \<Rightarrow> u64 \<Rightarrow> u64 \<Rightarrow> u64 option" where
  "get_base_reward_tabular nettype height already_generated_coins =
     (let interval_num = min (height div COIN_EMISSION_HEIGHT_INTERVAL)
                             (word_of_nat (length COIN_EMISSION_STEPS) - 1);
          money_supply = MONEY_SUPPLY;
          money_supply =
            (case network_config nettype of
               Some c \<Rightarrow> money_supply - DEV_FUND_V2_AMOUNT c
             | None \<Rightarrow> money_supply)
      in if height = 0 then Some GENESIS_BLOCK_REWARD
         else if already_generated_coins < money_supply
         then
           let base_reward = COIN_EMISSION_STEPS ! unat interval_num in
           case network_config nettype of
             None \<Rightarrow> None
           | Some c \<Rightarrow>
               let decrease = get_v2_dev_fund_reward_decrease c height in
               if decrease \<le> base_reward then Some (base_reward - decrease) else None
         else Some FINAL_SUBSIDY)"

datatype block_reward = Reward u64 | Block_too_big | Assertion_failed

definition get_block_reward :: "network_type \<Rightarrow> u64 \<Rightarrow> u64 \<Rightarrow> u64 \<Rightarrow> u64 \<Rightarrow> block_reward" where
  "get_block_reward nettype median_size current_block_size already_generated_coins height =
     (case get_base_reward_tabular nettype height already_generated_coins of
        None \<Rightarrow> Assertion_failed
      | Some base_reward \<Rightarrow>
          let median_size =
                (if median_size < CRYPTONOTE_BLOCK_GRANTED_FULL_REWARD_ZONE
                 then CRYPTONOTE_BLOCK_GRANTED_FULL_REWARD_ZONE else median_size)
          in if 2 * median_size < current_block_size then Block_too_big
             else if current_block_size \<le>
                 (if median_size < BLOCK_SIZE_GROWTH_FAVORED_ZONE then median_size * 110 div 100 else median_size)
             then Reward base_reward
             else if \<not> (median_size < 0xffffffff \<and> current_block_size < 0xffffffff) then Assertion_failed
             else
               let multiplicand = 2 * median_size - current_block_size;
                   multiplicand = multiplicand * current_block_size;
                   (product_lo, product_hi) = mul128 base_reward multiplicand;
                   (reward_hi, reward_lo, _) = div128_32 product_hi product_lo (ucast median_size);
                   (reward_hi, reward_lo, _) = div128_32 reward_hi reward_lo (ucast median_size)
               in if 0 \<noteq> reward_hi \<or> \<not> reward_lo < base_reward then Assertion_failed
                  else Reward reward_lo)"

section \<open>The base reward\<close>

lemma unat_min_u64: "unat (min x y :: u64) = min (unat x) (unat y)"
  by (simp add: min_def word_le_nat_alt)

lemma emission_steps_ge:
  "i < 48 \<Longrightarrow> 4080000000 \<le> unat (COIN_EMISSION_STEPS ! i)"
  "i < 15 \<Longrightarrow> 32000000000 \<le> unat (COIN_EMISSION_STEPS ! i)"
  "i < 48 \<Longrightarrow> unat (COIN_EMISSION_STEPS ! i) \<le> 65070000000"
proof -
  have len: "length COIN_EMISSION_STEPS = 48" by (simp add: COIN_EMISSION_STEPS_def)
  have all: "\<forall>x \<in> set COIN_EMISSION_STEPS. 4080000000 \<le> unat x \<and> unat x \<le> 65070000000"
    by (simp add: COIN_EMISSION_STEPS_def)
  have first: "\<forall>x \<in> set (take 15 COIN_EMISSION_STEPS). 32000000000 \<le> unat x"
    by (simp add: COIN_EMISSION_STEPS_def)
  show "4080000000 \<le> unat (COIN_EMISSION_STEPS ! i)" "unat (COIN_EMISSION_STEPS ! i) \<le> 65070000000"
    if "i < 48" using that all len by (simp_all add: nth_mem)
  show "32000000000 \<le> unat (COIN_EMISSION_STEPS ! i)" if "i < 15"
  proof -
    have "take 15 COIN_EMISSION_STEPS ! i \<in> set (take 15 COIN_EMISSION_STEPS)"
      by (rule nth_mem) (use that len in simp)
    then show ?thesis using first that by simp
  qed
qed

text \<open>What the constants of the three networks have in common: the extension of the fund starts
  \<open>q\<close> whole periods after its start and takes less from a block than the smallest step in
  force before the fund ends.\<close>

definition fund_ok :: "net_config \<Rightarrow> bool" where
  "fund_ok c \<longleftrightarrow>
     (let S = unat (DEV_FUND_START c); P = unat (DEV_FUND_PERIOD c); L = unat (DEV_FUND_LENGTH c);
          V = unat (DEV_FUND_V2_START c); I = unat (DEV_FUND_V2_INCREASE c)
      in 0 < P \<and> 0 < L \<and> S \<le> V \<and> (V - S) mod P = 0 \<and> (V - S) div P \<le> L \<and> S + L * P \<le> 986175
        \<and> I div P \<le> 28000000000 \<and> 2 * I * L < 2 ^ 64)"

lemma network_fund_ok: "network_config nettype = Some c \<Longrightarrow> fund_ok c"
  by (erule network_config_cases)
    (simp_all add: fund_ok_def DEV_FUND_V2_INCREASE_def network_configs MK_COINS_def unat_div)

lemma decrease_value:
  assumes "fund_ok c"
  shows "unat (get_v2_dev_fund_reward_decrease c height) =
    (if unat (DEV_FUND_V2_START c) \<le> unat height
        \<and> unat height < unat (DEV_FUND_START c) + unat (DEV_FUND_LENGTH c) * unat (DEV_FUND_PERIOD c)
     then unat (DEV_FUND_V2_INCREASE c) div unat (DEV_FUND_PERIOD c) else 0)"
proof (cases "unat (DEV_FUND_V2_START c) \<le> unat height")
  case False
  then show ?thesis by (simp add: get_v2_dev_fund_reward_decrease_def word_less_nat_alt)
next
  case True
  have ok: "unat (DEV_FUND_START c) \<le> unat height" "0 < unat (DEV_FUND_PERIOD c)"
    using True assms by (simp_all add: fund_ok_def Let_def)
  have "unat (DEV_FUND_LENGTH c) \<le> (unat height - unat (DEV_FUND_START c)) div unat (DEV_FUND_PERIOD c)
      \<longleftrightarrow> unat (DEV_FUND_LENGTH c) * unat (DEV_FUND_PERIOD c) \<le> unat height - unat (DEV_FUND_START c)"
    using ok(2) by (simp add: less_eq_div_iff_mult_less_eq)
  also have "\<dots> \<longleftrightarrow> \<not> unat height < unat (DEV_FUND_START c) + unat (DEV_FUND_LENGTH c) * unat (DEV_FUND_PERIOD c)"
    using ok(1) by linarith
  finally show ?thesis using True ok(1)
    by (simp add: get_v2_dev_fund_reward_decrease_def word_less_nat_alt word_le_nat_alt unat_div unat_sub_u64)
qed

lemma base_reward_total:
  assumes "network_config nettype = Some c"
  shows "\<exists>r. get_base_reward_tabular nettype height coins = Some r \<and>
    4000000000 \<le> unat r \<and> unat r \<le> 8800000000000000"
proof -
  have ok: "fund_ok c" using network_fund_ok assms .
  define i where "i = unat (min (height div COIN_EMISSION_HEIGHT_INTERVAL)
      (word_of_nat (length COIN_EMISSION_STEPS) - 1))"
  have i: "i = min (unat height div 65745) 47"
    by (simp add: i_def unat_min_u64 COIN_EMISSION_HEIGHT_INTERVAL_def COIN_EMISSION_STEPS_def unat_div)
  let ?s = "COIN_EMISSION_STEPS ! i"
  let ?d = "get_v2_dev_fund_reward_decrease c height"
  have step: "4080000000 \<le> unat ?s" "unat ?s \<le> 65070000000"
    using emission_steps_ge(1,3) [of i] i by simp_all
  have "unat ?d = 0 \<or> unat ?d \<le> 28000000000 \<and> 32000000000 \<le> unat ?s"
  proof (cases "unat height < 986175")
    case True
    then have "unat height div 65745 < 15" by (simp add: less_mult_imp_div_less)
    then have "i < 15" using i by simp
    then show ?thesis using emission_steps_ge(2) [of i] ok decrease_value [OF ok, of height]
      by (simp add: fund_ok_def Let_def)
  next
    case False
    then show ?thesis using ok decrease_value [OF ok, of height] by (simp add: fund_ok_def Let_def)
  qed
  then have d: "unat ?d \<le> unat ?s" "4000000000 \<le> unat ?s - unat ?d" using step by auto
  then have "?d \<le> ?s" "4000000000 \<le> unat (?s - ?d)" "unat (?s - ?d) \<le> 65070000000"
    using step by (simp_all add: word_le_nat_alt unat_sub_u64)
  then show ?thesis using assms
    by (simp add: get_base_reward_tabular_def Let_def GENESIS_BLOCK_REWARD_def FINAL_SUBSIDY_def flip: i_def)
qed

section \<open>The penalty for large blocks\<close>

lemma penalty_arith:
  fixes b M c :: nat
  assumes "M < c" and "c \<le> 2 * M" and "0 < b"
  shows "b * ((2 * M - c) * c) div M div M < b"
proof -
  have "(2 * M - c) * c < M * M"
  proof -
    obtain d where c: "c = M + d" "0 < d" using assms(1) less_imp_add_positive by metis
    then have d: "d \<le> M" using assms(2) by simp
    then obtain e where e: "M = d + e" using le_Suc_ex by blast
    have "(2 * M - c) * c = e * (d + e + d)" by (simp add: c e)
    also have "\<dots> < (d + e) * (d + e)" using c(2) by (simp add: algebra_simps)
    finally show ?thesis by (simp add: e)
  qed
  then have "b * ((2 * M - c) * c) < b * (M * M)" using assms(3) by simp
  then show ?thesis by (simp add: div_mult2_eq [symmetric] less_mult_imp_div_less mult.assoc)
qed

lemma double_div128_32:
  assumes "d \<noteq> 0" and "div128_32 hi lo d = (qh, ql, r)" and "div128_32 qh ql d = (rh, rl, r')"
  shows "unat rh * 2 ^ 64 + unat rl = (unat hi * 2 ^ 64 + unat lo) div unat d div unat d"
  using div128_32_value(1) [OF assms(1,2)] div128_32_value(1) [OF assms(1,3)] by simp

lemma scaled_reward:
  fixes base median current :: u64
  assumes "unat median < unat current" and "unat current \<le> 2 * unat median" and "0 < unat base"
    and "unat median < 2 ^ 32"
    and "mul128 base ((2 * median - current) * current) = (lo, hi)"
    and "div128_32 hi lo (ucast median) = (qh, ql, r)"
    and "div128_32 qh ql (ucast median) = (rh, rl, r')"
  shows "rh = 0 \<and> rl < base \<and>
    unat rl = unat base * ((2 * unat median - unat current) * unat current) div unat median div unat median"
proof -
  let ?M = "unat median" and ?c = "unat current"
  have "unat (2 * median) = 2 * ?M" using unat_mult_no_overflow_u64 [of 2 median] assms(4) by simp
  then have m1: "unat (2 * median - current) = 2 * ?M - ?c" using unat_sub_u64 assms(2) by simp
  have "(2 * ?M - ?c) * ?c < 2 ^ 64"
  proof -
    have "2 * ?M - ?c < 2 ^ 32" "?c < 2 ^ 33" using assms(1,2,4) by simp_all
    then show ?thesis
    proof -
      have "(2 * ?M - ?c) * ?c \<le> ?M * ?M"
      proof -
        obtain d where d: "?c = ?M + d" using assms(1) less_imp_add_positive by metis
        then obtain e where e: "?M = d + e" using assms(2) le_Suc_ex [of d ?M] by auto
        have "(2 * ?M - ?c) * ?c = e * (d + e + d)" by (simp add: d e)
        also have "\<dots> \<le> (d + e) * (d + e)" by (simp add: algebra_simps)
        finally show ?thesis by (simp add: e)
      qed
      moreover have "?M * ?M < 2 ^ (32 + 32)" using mult_lt_pow2 assms(4) by blast
      ultimately show ?thesis by simp
    qed
  qed
  then have m2: "unat ((2 * median - current) * current) = (2 * ?M - ?c) * ?c"
    using unat_mult_no_overflow_u64 [of "2 * median - current" current] m1 by simp
  have prod: "unat hi * 2 ^ 64 + unat lo = unat base * ((2 * ?M - ?c) * ?c)"
    using mul128_value [of base "(2 * median - current) * current"] assms(5) m2 by simp
  have dm: "unat (ucast median :: u32) = ?M"
    using assms(4) by (simp add: unsigned_ucast_eq take_bit_nat_eq_self)
  then have "(ucast median :: u32) \<noteq> 0" using assms(1,2) by (auto simp: word_unat_eq_iff)
  from double_div128_32 [OF this assms(6,7)]
  have q: "unat rh * 2 ^ 64 + unat rl = unat base * ((2 * ?M - ?c) * ?c) div ?M div ?M"
    by (simp only: prod dm)
  also have lt: "\<dots> < unat base" using penalty_arith [OF assms(1-3)] .
  finally have "unat rh * 2 ^ 64 + unat rl < 2 ^ 64" using unat_u64_lt [of base] by linarith
  then have "unat rh = 0" by (cases "unat rh") simp_all
  then show ?thesis using q lt by (simp add: word_less_nat_alt unsigned_eq_0_iff)
qed

lemma block_reward_value:
  assumes "network_config nettype = Some c" and "get_base_reward_tabular nettype height coins = Some base"
    and "M = max 245760 (unat median)" and "M < 0xffffffff" and "s = unat current" and "s < 0xffffffff"
  shows "get_block_reward nettype median current coins height =
    (if 2 * M < s then Block_too_big
     else if s \<le> (if M < 983040 then M * 110 div 100 else M) then Reward base
     else Reward (word_of_nat (unat base * ((2 * M - s) * s) div M div M)))"
proof -
  define med where "med = (if median < CRYPTONOTE_BLOCK_GRANTED_FULL_REWARD_ZONE
      then CRYPTONOTE_BLOCK_GRANTED_FULL_REWARD_ZONE else median)"
  have med: "unat med = M"
    using assms(3) by (simp add: med_def CRYPTONOTE_BLOCK_GRANTED_FULL_REWARD_ZONE_def word_less_nat_alt)
  have big: "2 * med < current \<longleftrightarrow> 2 * M < s"
    using unat_mult_no_overflow_u64 [of 2 med] med assms(4,5) by (simp add: word_less_nat_alt)
  have zone: "med < BLOCK_SIZE_GROWTH_FAVORED_ZONE \<longleftrightarrow> M < 983040"
    using med by (simp add: word_less_nat_alt BLOCK_SIZE_GROWTH_FAVORED_ZONE_def
      CRYPTONOTE_BLOCK_GRANTED_FULL_REWARD_ZONE_def)
  have full: "current \<le> (if med < BLOCK_SIZE_GROWTH_FAVORED_ZONE then med * 110 div 100 else med)
      \<longleftrightarrow> s \<le> (if M < 983040 then M * 110 div 100 else M)"
    using unat_mult_no_overflow_u64 [of med 110] med assms(4,5)
    by (simp add: zone word_le_nat_alt unat_div)
  have sizes: "med < 0xffffffff \<and> current < 0xffffffff"
    using med assms(4-6) by (simp add: word_less_nat_alt)
  have base: "0 < unat base" using base_reward_total [OF assms(1), of height coins] assms(2) by auto
  obtain lo hi where p: "mul128 base ((2 * med - current) * current) = (lo, hi)" by fastforce
  obtain qh ql r where q: "div128_32 hi lo (ucast med) = (qh, ql, r)" by (metis prod_cases3)
  obtain rh rl r' where r: "div128_32 qh ql (ucast med) = (rh, rl, r')" by (metis prod_cases3)
  have code: "get_block_reward nettype median current coins height =
    (if 2 * M < s then Block_too_big
     else if s \<le> (if M < 983040 then M * 110 div 100 else M) then Reward base
     else if 0 \<noteq> rh \<or> \<not> rl < base then Assertion_failed else Reward rl)"
    unfolding get_block_reward_def assms(2) option.case Let_def med_def [symmetric] big full
    using sizes by (simp add: p q r)
  show ?thesis
  proof (cases "2 * M < s \<or> s \<le> (if M < 983040 then M * 110 div 100 else M)")
    case True
    then show ?thesis using code by auto
  next
    case False
    have "M \<le> (if M < 983040 then M * 110 div 100 else M)" by (simp add: less_eq_div_iff_mult_less_eq)
    then have "M < s" "s \<le> 2 * M" using False by auto
    then have res: "rh = 0 \<and> rl < base \<and> unat rl = unat base * ((2 * M - s) * s) div M div M"
      using scaled_reward [of med current base, OF _ _ base _ p q r] med assms(4,5) by simp
    have "rl = word_of_nat (unat rl)" by simp
    also have "\<dots> = word_of_nat (unat base * ((2 * M - s) * s) div M div M)" using res by (simp only:)
    finally have "rl = word_of_nat (unat base * ((2 * M - s) * s) div M div M)" .
    then show ?thesis using code False res by simp
  qed
qed

section \<open>Totals of the development fund\<close>

definition dev_fund_paid :: "net_config \<Rightarrow> nat \<Rightarrow> nat" where
  "dev_fund_paid c h = (case get_dev_fund_amount c (word_of_nat h) of None \<Rightarrow> 0 | Some a \<Rightarrow> unat a)"

lemma unat_height: "h < 2 ^ 64 \<Longrightarrow> unat (word_of_nat h :: u64) = h"
  by (simp add: unsigned_of_nat take_bit_nat_eq_self)

lemma dev_fund_paid_value:
  assumes "fund_ok c" and "h < 2 ^ 64"
    and "S = unat (DEV_FUND_START c)" and "P = unat (DEV_FUND_PERIOD c)" and "L = unat (DEV_FUND_LENGTH c)"
    and "q = (unat (DEV_FUND_V2_START c) - S) div P" and "I = unat (DEV_FUND_V2_INCREASE c)"
  shows "dev_fund_paid c h =
    (if S \<le> h \<and> (h - S) mod P = 0 \<and> (h - S) div P < L
     then (if q \<le> (h - S) div P then 2 * I else I) else 0)"
proof -
  note ok = assms(1) [unfolded fund_ok_def Let_def, folded assms(3-7)]
  have h: "unat (word_of_nat h :: u64) = h" using assms(2) by (rule unat_height)
  have I: "DEV_FUND_AMOUNT c div DEV_FUND_LENGTH c = DEV_FUND_V2_INCREASE c"
    by (simp add: DEV_FUND_V2_INCREASE_def)
  have "2 * I < 2 ^ 64"
  proof -
    have "2 * I * 1 \<le> 2 * I * L" using ok by (intro mult_left_mono) simp_all
    moreover have "2 * I * L < 2 ^ 64" using ok by blast
    ultimately show ?thesis by linarith
  qed
  then have twice: "unat (DEV_FUND_V2_INCREASE c + DEV_FUND_V2_INCREASE c) = 2 * I"
    using unat_add_no_overflow_u64 [of "DEV_FUND_V2_INCREASE c" "DEV_FUND_V2_INCREASE c"] assms(7) by simp
  show ?thesis
  proof (cases "S \<le> h")
    case False
    then show ?thesis using h assms(3) by (simp add: dev_fund_paid_def get_dev_fund_amount_def word_less_nat_alt)
  next
    case True
    let ?x = "word_of_nat h - DEV_FUND_START c"
    have x: "unat ?x = h - S" using h True assms(3) unat_sub_u64 [of "DEV_FUND_START c" "word_of_nat h"] by simp
    have started: "\<not> word_of_nat h < DEV_FUND_START c" using True h assms(3) by (simp add: word_less_nat_alt)
    have div: "DEV_FUND_LENGTH c \<le> ?x div DEV_FUND_PERIOD c \<longleftrightarrow> L \<le> (h - S) div P"
      using x assms(4,5) by (simp add: word_le_nat_alt unat_div)
    have mod: "?x mod DEV_FUND_PERIOD c \<noteq> 0 \<longleftrightarrow> (h - S) mod P \<noteq> 0"
      using x assms(4) by (simp add: word_unat_eq_iff unat_mod)
    have v2: "DEV_FUND_V2_START c - DEV_FUND_START c \<le> ?x \<longleftrightarrow> q \<le> (h - S) div P"
      if "(h - S) mod P = 0"
    proof -
      have "unat (DEV_FUND_V2_START c - DEV_FUND_START c) = q * P"
        using ok assms(3) unat_sub_u64 [of "DEV_FUND_START c" "DEV_FUND_V2_START c"]
        by (simp add: assms(6) mod_eq_0_iff_dvd)
      moreover have "h - S = (h - S) div P * P" using that by (simp add: mod_eq_0_iff_dvd)
      ultimately show ?thesis using x ok by (metis mult_le_cancel2 word_le_nat_alt)
    qed
    show ?thesis
      unfolding dev_fund_paid_def get_dev_fund_amount_def Let_def I div mod
      using started v2 twice assms(7) True by auto
  qed
qed

lemma sum_periods:
  fixes f :: "nat \<Rightarrow> nat"
  assumes "0 < P" and "S + L * P \<le> N"
  shows "(\<Sum>h < N. if S \<le> h \<and> (h - S) mod P = 0 \<and> (h - S) div P < L then f ((h - S) div P) else 0)
    = (\<Sum>k < L. f k)"
proof -
  let ?A = "(\<lambda>k. S + k * P) ` {..< L}"
  have "h \<in> ?A \<longleftrightarrow> h < N \<and> S \<le> h \<and> (h - S) mod P = 0 \<and> (h - S) div P < L" for h
  proof
    assume "h \<in> ?A"
    then obtain k where k: "k < L" "h = S + k * P" by auto
    then have "k * P < L * P" using assms(1) by simp
    then have "h < N" using k(2) assms(2) by linarith
    then show "h < N \<and> S \<le> h \<and> (h - S) mod P = 0 \<and> (h - S) div P < L" using k assms(1) by simp
  next
    assume h: "h < N \<and> S \<le> h \<and> (h - S) mod P = 0 \<and> (h - S) div P < L"
    then have "h = S + (h - S) div P * P" by (simp add: mod_eq_0_iff_dvd)
    then show "h \<in> ?A" using h by (intro image_eqI [of _ _ "(h - S) div P"]) simp_all
  qed
  then have A: "?A = {h \<in> {..< N}. S \<le> h \<and> (h - S) mod P = 0 \<and> (h - S) div P < L}" by auto
  have inj: "inj_on (\<lambda>k. S + k * P) {..< L}" using assms(1) by (auto intro: inj_onI)
  have "(\<Sum>h < N. if S \<le> h \<and> (h - S) mod P = 0 \<and> (h - S) div P < L then f ((h - S) div P) else 0)
      = (\<Sum>h \<in> ?A. f ((h - S) div P))"
    unfolding A by (rule sum.inter_filter [symmetric]) simp
  also have "\<dots> = (\<Sum>k < L. f k)" using assms(1) by (subst sum.reindex [OF inj]) simp
  finally show ?thesis .
qed

lemma sum_threshold: "q \<le> L \<Longrightarrow> (\<Sum>k < L. if q \<le> k then 2 * I else I) = L * I + (L - q) * (I :: nat)"
proof -
  assume q: "q \<le> L"
  have "(\<Sum>k < L. if q \<le> k then 2 * I else I) = (\<Sum>k < L. I + (if q \<le> k then I else 0))"
    by (intro sum.cong) simp_all
  also have "\<dots> = L * I + card {k \<in> {..< L}. q \<le> k} * I"
    by (simp add: sum.distrib sum.inter_filter [symmetric])
  also have "{k \<in> {..< L}. q \<le> k} = {q ..< L}" by auto
  finally show ?thesis by simp
qed

lemma unat_V2_AMOUNT:
  assumes "fund_ok c" and "S = unat (DEV_FUND_START c)" and "P = unat (DEV_FUND_PERIOD c)"
    and "L = unat (DEV_FUND_LENGTH c)" and "q = (unat (DEV_FUND_V2_START c) - S) div P"
    and "I = unat (DEV_FUND_V2_INCREASE c)"
  shows "unat (DEV_FUND_V2_AMOUNT c) = (L - q) * I"
proof -
  note ok = assms(1) [unfolded fund_ok_def Let_def, folded assms(2-6)]
  have "unat ((DEV_FUND_V2_START c - DEV_FUND_START c) div DEV_FUND_PERIOD c) = q"
    using ok assms(2,3,5) by (simp add: unat_div unat_sub_u64)
  then have n: "unat (DEV_FUND_LENGTH c - (DEV_FUND_V2_START c - DEV_FUND_START c) div DEV_FUND_PERIOD c) = L - q"
    using ok assms(4,5) unat_sub_u64
      [of "(DEV_FUND_V2_START c - DEV_FUND_START c) div DEV_FUND_PERIOD c" "DEV_FUND_LENGTH c"] by simp
  have "(L - q) * I \<le> L * I" by simp
  moreover have "2 * I * L = 2 * (L * I)" by simp
  moreover have "2 * I * L < 2 ^ 64" using ok by blast
  ultimately have "(L - q) * I < 2 ^ 64" by linarith
  then show ?thesis unfolding DEV_FUND_V2_AMOUNT_def
    using unat_mult_no_overflow_u64 [of _ "DEV_FUND_V2_INCREASE c"] n assms(6) by simp
qed

lemma dev_fund_total:
  assumes "fund_ok c" and "N \<le> 2 ^ 64"
    and "unat (DEV_FUND_START c) + unat (DEV_FUND_LENGTH c) * unat (DEV_FUND_PERIOD c) \<le> N"
  shows "(\<Sum>h < N. dev_fund_paid c h) =
    unat (DEV_FUND_LENGTH c) * unat (DEV_FUND_V2_INCREASE c) + unat (DEV_FUND_V2_AMOUNT c)"
proof -
  define S P L I q where defs: "S = unat (DEV_FUND_START c)" "P = unat (DEV_FUND_PERIOD c)"
    "L = unat (DEV_FUND_LENGTH c)" "I = unat (DEV_FUND_V2_INCREASE c)"
    "q = (unat (DEV_FUND_V2_START c) - S) div P"
  have ok: "0 < P" "q \<le> L" using assms(1) by (simp_all add: fund_ok_def Let_def defs)
  have "(\<Sum>h < N. dev_fund_paid c h) =
    (\<Sum>h < N. if S \<le> h \<and> (h - S) mod P = 0 \<and> (h - S) div P < L
      then (if q \<le> (h - S) div P then 2 * I else I) else 0)"
    using assms(2) by (intro sum.cong refl dev_fund_paid_value [OF assms(1)]) (simp_all add: defs)
  also have "\<dots> = (\<Sum>k < L. if q \<le> k then 2 * I else I)"
    using sum_periods [OF ok(1), of S L N "\<lambda>k. if q \<le> k then 2 * I else I"] assms(3) by (simp add: defs)
  also have "\<dots> = L * I + (L - q) * I" by (rule sum_threshold [OF ok(2)])
  finally show ?thesis
    using unat_V2_AMOUNT [OF assms(1) defs(1,2,3,5,4)] by (simp add: defs)
qed

lemma decrease_total:
  assumes "fund_ok c" and "N \<le> 2 ^ 64"
    and "unat (DEV_FUND_START c) + unat (DEV_FUND_LENGTH c) * unat (DEV_FUND_PERIOD c) \<le> N"
  shows "(\<Sum>h < N. unat (get_v2_dev_fund_reward_decrease c (word_of_nat h))) \<le> unat (DEV_FUND_V2_AMOUNT c)
    \<and> unat (DEV_FUND_V2_AMOUNT c) - (\<Sum>h < N. unat (get_v2_dev_fund_reward_decrease c (word_of_nat h)))
      \<le> unat (DEV_FUND_START c) + unat (DEV_FUND_LENGTH c) * unat (DEV_FUND_PERIOD c) - unat (DEV_FUND_V2_START c)"
proof -
  define S P L I V q where defs: "S = unat (DEV_FUND_START c)" "P = unat (DEV_FUND_PERIOD c)"
    "L = unat (DEV_FUND_LENGTH c)" "I = unat (DEV_FUND_V2_INCREASE c)" "V = unat (DEV_FUND_V2_START c)"
    "q = (V - S) div P"
  have ok: "0 < P" "S \<le> V" "(V - S) mod P = 0" "q \<le> L"
    using assms(1) by (simp_all add: fund_ok_def Let_def defs)
  have V: "V = S + q * P" using ok(2,3) by (simp add: defs(6) mod_eq_0_iff_dvd)
  have "(\<Sum>h < N. unat (get_v2_dev_fund_reward_decrease c (word_of_nat h))) =
    (\<Sum>h < N. if V \<le> h \<and> h < S + L * P then I div P else 0)"
    using assms(2) by (intro sum.cong refl) (simp add: decrease_value [OF assms(1)] unat_height defs)
  also have "\<dots> = (\<Sum>h \<in> {h \<in> {..< N}. V \<le> h \<and> h < S + L * P}. I div P)"
    by (rule sum.inter_filter [symmetric]) simp
  also have "{h \<in> {..< N}. V \<le> h \<and> h < S + L * P} = {V ..< S + L * P}"
    using assms(3) by (auto simp: defs)
  finally have sum: "(\<Sum>h < N. unat (get_v2_dev_fund_reward_decrease c (word_of_nat h)))
      = (S + L * P - V) * (I div P)" by simp
  have n: "S + L * P - V = (L - q) * P" by (simp add: V diff_mult_distrib)
  have "I = P * (I div P) + I mod P" by simp
  then have "(L - q) * I = (L - q) * P * (I div P) + (L - q) * (I mod P)"
    by (metis distrib_left mult.assoc)
  moreover have "(L - q) * (I mod P) \<le> (L - q) * P" using ok(1) by (intro mult_left_mono) simp_all
  moreover have "unat (DEV_FUND_V2_AMOUNT c) = (L - q) * I"
    using unat_V2_AMOUNT [OF assms(1) defs(1,2,3) _ defs(4)] by (simp add: defs)
  ultimately show ?thesis using sum n by (simp flip: defs)
qed

section \<open>Properties\<close>

text \<open>On every network the base reward is defined for all heights and supplies, the fund's
  share never exceeds the emission step in force (the failing branch of the code is unreachable),
  and the reward is never below the final subsidy.\<close>

theorem base_reward_defined:
  assumes "network_config nettype = Some c"
  shows "\<exists>r. get_base_reward_tabular nettype height coins = Some r \<and> FINAL_SUBSIDY \<le> r"
  using base_reward_total [OF assms, of height coins] by (auto simp: FINAL_SUBSIDY_def word_le_nat_alt)

theorem base_reward_defined_witness:
  "\<exists>r. get_base_reward_tabular MAINNET 900000 5 = Some r \<and> FINAL_SUBSIDY \<le> r"
  using base_reward_defined [of MAINNET] by (simp add: network_config_def)

text \<open>C23: With a median and a block below 4 GiB no assertion of \<open>get_block_reward\<close> fails. A block
  above twice the median \<open>M\<close> (at least 240 kB) is refused, one within the free zone gets the base
  reward, and one of size \<open>s\<close> between gets \<open>base * (2 * M - s) * s / M\<^sup>2\<close>, rounded down, computed
  without overflow.\<close>

theorem block_reward_exact:
  assumes "network_config nettype = Some c" and "get_base_reward_tabular nettype height coins = Some base"
    and "M = max 245760 (unat median)" and "M < 0xffffffff" and "s = unat current" and "s < 0xffffffff"
  shows "get_block_reward nettype median current coins height =
    (if 2 * M < s then Block_too_big
     else if s \<le> (if M < 983040 then M * 110 div 100 else M) then Reward base
     else Reward (word_of_nat (unat base * ((2 * M - s) * s) div M div M)))"
  by (rule block_reward_value [OF assms])

theorem block_reward_exact_witness:
  "get_block_reward MAINNET 300000 400000 1000 400000 = Reward 48795546511"
proof -
  have b: "get_base_reward_tabular MAINNET 400000 1000 = Some 54894989825"
    by (simp add: get_base_reward_tabular_def network_configs MONEY_SUPPLY_def Let_def
        DEV_FUND_V2_AMOUNT_def DEV_FUND_V2_INCREASE_def get_v2_dev_fund_reward_decrease_def MK_COINS_def
        COIN_EMISSION_HEIGHT_INTERVAL_def COIN_EMISSION_STEPS_def)
  have n: "network_config MAINNET = Some config_MAINNET" by (simp add: network_config_def)
  show ?thesis using block_reward_exact [OF n b, of 300000 300000 400000 400000] by simp
qed



end
