(* ===== verification/Varint.thy ===== *)
theory Varint
  imports Prelude
begin

text \<open>The variable-length integers of \<open>src/common/varint.h\<close>: seven bits to a byte, the least
  significant group first, the top bit of a byte set when another byte follows.

  The templates are instantiated in the code at the unsigned integer types of at most 64 bits;
  the model keeps the value in 64 bits and takes the width \<open>bits\<close> of the type read as an
  argument, as \<open>read_varint<bits>\<close> does. The iterator pair of the reader is the list of the
  bytes that are left, and the reader returns its \<open>int\<close> code, the value written and the
  bytes it did not consume. The locale \<open>prefix_codec\<close> is the contract the rest of the code
  relies on when it strings such encodings together.\<close>

section \<open>Writing and reading\<close>

definition EVARINT_OVERFLOW :: int where "EVARINT_OVERFLOW = - 1"
definition EVARINT_REPRESENT :: int where "EVARINT_REPRESENT = - 2"

function write_varint :: "u64 \<Rightarrow> byte list" where
  "write_varint i =
     (if i \<ge> 0x80 then ((ucast i AND 0x7f) OR 0x80) # write_varint (drop_bit 7 i)
      else [ucast i])"
  by auto
termination
  by (relation "measure unat")
    (auto simp: word_le_nat_alt unat_drop_u64)

declare write_varint.simps [simp del]

fun read_varint_from :: "nat \<Rightarrow> nat \<Rightarrow> int \<Rightarrow> u64 \<Rightarrow> byte list \<Rightarrow> int \<times> u64 \<times> byte list" where
  "read_varint_from bits shift read write [] = (read, write, [])"
| "read_varint_from bits shift read write (byte # first) =
     (if bits \<le> shift + 7 \<and> 2 ^ (bits - shift) \<le> unat byte then (EVARINT_OVERFLOW, write, first)
      else if byte = 0 \<and> shift \<noteq> 0 then (EVARINT_REPRESENT, write, first)
      else
        let write = write OR push_bit shift (ucast (byte AND 0x7f))
        in if byte AND 0x80 = 0 then (read + 1, write, first)
           else read_varint_from bits (shift + 7) (read + 1) write first)"

definition read_varint :: "nat \<Rightarrow> byte list \<Rightarrow> int \<times> u64 \<times> byte list" where
  "read_varint bits first = read_varint_from bits 0 0 0 first"

section \<open>The bytes of an encoding\<close>

lemma unat_and_mask: "unat (b AND mask n) = unat b mod 2 ^ n"
  by (metis take_bit_eq_mask take_bit_eq_mod unsigned_take_bit_eq)

lemma unat_and_7f: "unat (b AND 0x7f :: byte) = unat b mod 128"
  using unat_and_mask [of b 7] by (simp add: mask_eq_exp_minus_1)

lemma bit_7_byte: "bit (b :: byte) 7 \<longleftrightarrow> 128 \<le> unat b"
proof -
  have "bit b 7 \<longleftrightarrow> bit (unat b) 7" by (simp add: bit_unsigned_iff)
  also have "\<dots> \<longleftrightarrow> odd (unat b div 128)" by (simp add: bit_iff_odd)
  also have "\<dots> \<longleftrightarrow> 128 \<le> unat b"
  proof (cases "128 \<le> unat b")
    case True
    then have "unat b div 128 = 1" using unat_byte_lt [of b] by (simp add: div_nat_eqI)
    with True show ?thesis by simp
  qed simp
  finally show ?thesis .
qed

lemma and_80_eq_0: "(b AND 0x80 :: byte) = 0 \<longleftrightarrow> unat b < 128"
  using and_exp_eq_0_iff_not_bit [of b 7] by (simp add: bit_7_byte not_le)

lemma unat_continuation: "unat ((ucast i AND 0x7f) OR 0x80 :: byte) = unat (i :: u64) mod 128 + 128"
proof -
  have "(ucast i AND 0x7f) AND 0x80 = (0 :: byte)" by (simp add: and.assoc)
  then have "(ucast i AND 0x7f) OR 0x80 = (ucast i AND 0x7f) + (0x80 :: byte)"
    by (simp add: disjunctive_add_eq_or)
  moreover have "unat (ucast i AND 0x7f :: byte) = unat i mod 128"
    by (simp add: unat_and_7f unat_ucast_u64_byte mod_mod_cancel)
  ultimately show ?thesis by (simp add: unat_add_lem [THEN iffD1])
qed

lemma write_varint_small: "unat i < 128 \<Longrightarrow> write_varint i = [ucast i]"
  by (subst write_varint.simps) (simp add: word_le_nat_alt)

lemma write_varint_large:
  "128 \<le> unat i \<Longrightarrow> write_varint i = ((ucast i AND 0x7f) OR 0x80) # write_varint (drop_bit 7 i)"
  by (subst write_varint.simps) (simp add: word_le_nat_alt)

section \<open>Reading back what was written\<close>

lemma read_write_varint_from:
  assumes "unat i * 2 ^ s < 2 ^ bits" and "s < bits" and "bits \<le> 64" and "unat w < 2 ^ s"
    and "s \<noteq> 0 \<Longrightarrow> i \<noteq> 0"
  shows "\<exists>v. read_varint_from bits s n w (write_varint i @ rest) =
      (n + int (length (write_varint i)), v, rest) \<and> unat v = unat w + 2 ^ s * unat i"
  using assms
proof (induction i arbitrary: s n w rule: write_varint.induct)
  case (1 i)
  have pow: "(2 :: nat) ^ bits \<le> 2 ^ 64" using "1.prems"(3) by (intro power_increasing) simp_all
  show ?case
  proof (cases "unat i < 128")
    case True
    have fits: "\<not> 2 ^ (bits - s) \<le> unat i"
    proof
      assume "2 ^ (bits - s) \<le> unat i"
      then have "2 ^ (bits - s) * 2 ^ s \<le> unat i * 2 ^ s" by simp
      then show False using "1.prems"(1,2) by (simp flip: power_add)
    qed
    have b: "unat (ucast i :: byte) = unat i" using True by (simp add: unat_ucast_u64_byte)
    have "unat (w OR push_bit s (ucast (ucast i AND 0x7f :: byte))) = unat w + 2 ^ s * unat i"
      using unat_or_push [of w s "ucast (ucast i AND 0x7f :: byte)"] "1.prems"(1,4) pow True b
      by (simp add: unat_and_7f mult.commute del: power_numeral)
    moreover have "(ucast i :: byte) = 0 \<longleftrightarrow> i = 0" using b by (metis unsigned_0 unsigned_eq_0_iff)
    ultimately show ?thesis using True fits b "1.prems"(5)
      by (cases "s = 0") (simp_all add: write_varint_small Let_def and_80_eq_0)
  next
    case False
    let ?c = "(ucast i AND 0x7f) OR 0x80 :: byte"
    let ?w = "w OR push_bit s (ucast (?c AND 0x7f))"
    have c: "unat ?c = unat i mod 128 + 128" by (rule unat_continuation)
    have "128 * 2 ^ s \<le> unat i * 2 ^ s" using False by simp
    moreover have e7: "(2 :: nat) ^ (s + 7) = 128 * 2 ^ s" by (simp add: power_add)
    ultimately have "(2 :: nat) ^ (s + 7) < 2 ^ bits" using "1.prems"(1) by linarith
    then have s7: "s + 7 < bits" by simp
    then have "(2 :: nat) ^ (s + 7) \<le> 2 ^ 64" using "1.prems"(3) by (intro power_increasing) simp_all
    moreover have "2 ^ s * (unat i mod 128) < 2 ^ s * 128" by simp
    ultimately have "2 ^ s * (unat i mod 128) < 2 ^ 64" using e7 by linarith
    moreover have "unat (ucast (?c AND 0x7f) :: u64) = unat i mod 128"
      using c by (simp add: unat_and_7f)
    ultimately have w: "unat ?w = unat w + 2 ^ s * (unat i mod 128)"
      using unat_or_push [of w s "ucast (?c AND 0x7f)"] "1.prems"(4) by simp
    have d: "unat (drop_bit 7 i) = unat i div 128" by (simp add: unat_drop_u64)
    have "unat i div 128 * 128 \<le> unat i" by simp
    then have "unat i div 128 * 128 * 2 ^ s \<le> unat i * 2 ^ s" by (rule mult_right_mono) simp
    then have p1: "unat (drop_bit 7 i) * 2 ^ (s + 7) < 2 ^ bits"
      unfolding d e7 using "1.prems"(1) by (simp only: mult.assoc)
    have p4: "unat ?w < 2 ^ (s + 7)"
    proof -
      have "unat w + 2 ^ s * (unat i mod 128) < 2 ^ s * (1 + unat i mod 128)"
        using "1.prems"(4) by simp
      also have "\<dots> \<le> 2 ^ s * 128" by (rule mult_left_mono) (simp_all add: Suc_leI)
      finally show ?thesis using w by (simp add: power_add)
    qed
    have p5: "drop_bit 7 i \<noteq> 0" using d False by (auto simp: word_unat_eq_iff)
    have "\<not> \<not> i \<ge> 0x80" using False by (simp add: word_le_nat_alt)
    then obtain v where v: "read_varint_from bits (s + 7) (n + 1) ?w (write_varint (drop_bit 7 i) @ rest) =
      (n + 1 + int (length (write_varint (drop_bit 7 i))), v, rest)"
      "unat v = unat ?w + 2 ^ (s + 7) * unat (drop_bit 7 i)"
      using "1.IH" [of "s + 7" ?w "n + 1"] p1 s7 "1.prems"(3) p4 p5 by blast
    have "unat v = unat w + 2 ^ s * unat i"
      using v(2) w d by (simp add: power_add algebra_simps flip: distrib_left) 
    moreover have "?c \<noteq> 0" "?c AND 0x80 \<noteq> 0" using c by (auto simp: and_80_eq_0 word_unat_eq_iff)
    ultimately show ?thesis using v(1) s7 False
      by (simp add: write_varint_large Let_def)
  qed
qed

section \<open>Every complete encoding is canonical\<close>

lemma write_varint_Cons:
  fixes b :: byte and i :: u64
  assumes "128 \<le> unat b" and "i \<noteq> 0" and "unat i * 128 < 2 ^ 64"
  shows "\<exists>j. write_varint j = b # write_varint i \<and> unat j = unat b mod 128 + 128 * unat i"
proof -
  let ?j = "word_of_nat (unat b mod 128 + 128 * unat i) :: u64"
  have "unat i < 2 ^ 57" using assms(3) by simp
  then have "unat b mod 128 + 128 * unat i < 2 ^ 64"
    using mod_less_divisor [of 128 "unat b"] by simp
  then have j: "unat ?j = unat b mod 128 + 128 * unat i"
    by (simp add: unsigned_of_nat take_bit_nat_eq_self del: of_nat_add of_nat_mult)
  have "0 < unat i" using assms(2) by (simp add: unat_gt_0)
  then have "128 \<le> unat ?j" unfolding j by linarith
  moreover have "drop_bit 7 ?j = i"
    by (simp only: word_unat_eq_iff unat_drop_u64 j) simp
  moreover have "unat b mod 128 + 128 = unat b" 
  proof -
    have "unat b - 128 < 128" using assms(1) unat_byte_lt [of b] by linarith
    then show ?thesis using assms(1) le_mod_geq [of 128 "unat b"] by simp
  qed
  then have "(ucast ?j AND 0x7f) OR 0x80 = b"
    by (simp only: word_unat_eq_iff unat_continuation j) simp
  ultimately have "write_varint ?j = b # write_varint i" by (simp only: write_varint_large)
  with j show ?thesis by blast
qed

lemma read_varint_from_canonical:
  assumes "read_varint_from bits s n w bs = (m, v, rest)" and "0 \<le> n" and "n < m"
    and "unat (bs ! nat (m - n - 1)) < 128"
    and "s < bits" and "bits \<le> 64" and "unat w < 2 ^ s"
  shows "\<exists>i. bs = write_varint i @ rest \<and> unat v = unat w + 2 ^ s * unat i
    \<and> unat i * 2 ^ s < 2 ^ bits \<and> (s \<noteq> 0 \<longrightarrow> i \<noteq> 0)"
  using assms
proof (induction bs arbitrary: s n w)
  case Nil
  then show ?case by simp
next
  case (Cons b bs)
  let ?w = "w OR push_bit s (ucast (b AND 0x7f))"
  have ovf: "\<not> (bits \<le> s + 7 \<and> 2 ^ (bits - s) \<le> unat b)" and rep: "\<not> (b = 0 \<and> s \<noteq> 0)"
    using Cons.prems(1-3) by (auto simp: EVARINT_OVERFLOW_def EVARINT_REPRESENT_def split: if_splits)
  have step: "(if unat b < 128 then (n + 1, ?w, bs)
      else read_varint_from bits (s + 7) (n + 1) ?w bs) = (m, v, rest)"
    using Cons.prems(1) ovf rep by (auto simp: Let_def and_80_eq_0 split: if_splits)
  have e7: "(2 :: nat) ^ (s + 7) = 128 * 2 ^ s" by (simp add: power_add)
  have group: "(unat b mod 128) * 2 ^ s < 2 ^ bits"
  proof (cases "bits \<le> s + 7")
    case True
    then have "unat b mod 128 < 2 ^ (bits - s)" using ovf by (meson le_less_trans mod_less_eq_dividend not_le)
    then have "(unat b mod 128) * 2 ^ s < 2 ^ (bits - s) * 2 ^ s" by simp
    then show ?thesis using Cons.prems(5) by (simp flip: power_add)
  next
    case False
    have "(unat b mod 128) * 2 ^ s < 128 * 2 ^ s" by simp
    also have "\<dots> \<le> 2 ^ bits" unfolding e7 [symmetric] using False by (intro power_increasing) simp_all
    finally show ?thesis .
  qed
  have pow: "(2 :: nat) ^ bits \<le> 2 ^ 64" using Cons.prems(6) by (intro power_increasing) simp_all
  have "2 ^ s * unat (ucast (b AND 0x7f) :: u64) = (unat b mod 128) * 2 ^ s"
    by (simp add: unat_and_7f)
  then have "2 ^ s * unat (ucast (b AND 0x7f) :: u64) < 2 ^ 64" using group pow by linarith
  then have w: "unat ?w = unat w + 2 ^ s * (unat b mod 128)"
    using unat_or_push [OF Cons.prems(7)] by (simp add: unat_and_7f)
  show ?case
  proof (cases "unat b < 128")
    case True
    then have "v = ?w" "rest = bs" using step by simp_all
    moreover have "(ucast b :: u64) = 0 \<longleftrightarrow> b = 0" by (simp add: word_unat_eq_iff)
    moreover have "ucast (ucast b :: u64) = b" by (simp add: word_unat_eq_iff unat_ucast_u64_byte)
    ultimately show ?thesis using True w group rep
      by (intro exI [of _ "ucast b"]) (auto simp: write_varint_small)
  next
    case False
    then have read: "read_varint_from bits (s + 7) (n + 1) ?w bs = (m, v, rest)" using step by simp
    have m: "n + 1 < m"
    proof (rule ccontr)
      assume "\<not> n + 1 < m"
      then have "nat (m - n - 1) = 0" using Cons.prems(3) by simp
      then show False using Cons.prems(4) False by simp
    qed
    then have "nat (m - n - 1) = Suc (nat (m - (n + 1) - 1))" by simp
    then have idx: "unat (bs ! nat (m - (n + 1) - 1)) < 128" using Cons.prems(4) by simp
    have s7: "s + 7 < bits"
    proof (rule ccontr)
      assume "\<not> s + 7 < bits"
      then have "(2 :: nat) ^ (bits - s) \<le> 2 ^ 7" by (intro power_increasing) simp_all
      then show False using ovf False \<open>\<not> s + 7 < bits\<close> by simp
    qed
    have "unat w + 2 ^ s * (unat b mod 128) < 2 ^ s * (1 + unat b mod 128)"
      using Cons.prems(7) by simp
    also have "\<dots> \<le> 2 ^ s * 128" by (rule mult_left_mono) (simp_all add: Suc_leI)
    finally have w7: "unat ?w < 2 ^ (s + 7)" using w e7 by simp
    obtain i where i: "bs = write_varint i @ rest" "unat v = unat ?w + 2 ^ (s + 7) * unat i"
      "unat i * 2 ^ (s + 7) < 2 ^ bits" "i \<noteq> 0"
      using Cons.IH [OF read _ m idx s7 Cons.prems(6) w7] Cons.prems(2) by auto
    have "unat i * 128 * 1 \<le> unat i * 128 * 2 ^ s" by (rule mult_left_mono) simp_all
    then have small: "unat i * 128 < 2 ^ 64" using i(3) pow unfolding e7 mult.assoc [symmetric] by linarith
    obtain j where j: "write_varint j = b # write_varint i" "unat j = unat b mod 128 + 128 * unat i"
      using write_varint_Cons [OF _ i(4) small, of b] False by auto
    have "unat j * 2 ^ s < 2 ^ bits"
    proof -
      have "unat i + 1 \<le> 2 ^ (bits - (s + 7))"
      proof -
        have "unat i * 2 ^ (s + 7) < 2 ^ (bits - (s + 7)) * 2 ^ (s + 7)"
          using i(3) s7 by (simp flip: power_add)
        then show ?thesis by simp
      qed
      then have "(unat i + 1) * 2 ^ (s + 7) \<le> 2 ^ (bits - (s + 7)) * 2 ^ (s + 7)"
        by (rule mult_right_mono) simp
      moreover have "2 ^ (bits - (s + 7)) * 2 ^ (s + 7) = (2 :: nat) ^ bits"
        using s7 by (simp flip: power_add)
      ultimately have "(unat i + 1) * 128 * 2 ^ s \<le> 2 ^ bits" by (simp only: e7 mult.assoc)
      moreover have "unat j * 2 ^ s < (unat i + 1) * 128 * 2 ^ s"
        unfolding j(2) using mod_less_divisor [of 128 "unat b"] by simp
      ultimately show ?thesis by linarith
    qed
    moreover have "unat v = unat w + 2 ^ s * unat j"
      unfolding i(2) w j(2) e7 by (simp add: algebra_simps)
    moreover have "j \<noteq> 0" using j(2) i(4) by (auto simp: word_unat_eq_iff)
    ultimately show ?thesis using i(1) j(1) by (intro exI [of _ j]) simp
  qed
qed

lemma read_write_varint:
  assumes "unat i < 2 ^ bits" and "0 < bits" and "bits \<le> 64"
  shows "read_varint bits (write_varint i @ rest) = (int (length (write_varint i)), i, rest)"
proof -
  obtain v where "read_varint_from bits 0 0 0 (write_varint i @ rest) =
      (0 + int (length (write_varint i)), v, rest)" "unat v = unat (0 :: u64) + 2 ^ 0 * unat i"
    using read_write_varint_from [of i 0 bits 0] assms by fastforce
  then show ?thesis by (simp add: read_varint_def word_unat_eq_iff)
qed

lemma read_varint_canonical:
  assumes "read_varint bits bs = (int n, v, rest)" and "0 < n" and "unat (bs ! (n - 1)) < 128"
    and "0 < bits" and "bits \<le> 64"
  shows "bs = write_varint v @ rest \<and> unat v < 2 ^ bits"
proof -
  have "nat (int n - 0 - 1) = n - 1" by simp
  then obtain i where "bs = write_varint i @ rest" "unat v = unat (0 :: u64) + 2 ^ 0 * unat i"
    "unat i * 2 ^ 0 < 2 ^ bits"
    using read_varint_from_canonical [of bits 0 0 0 bs "int n" v rest] assms
    by (auto simp: read_varint_def)
  moreover from this have "v = i" by (simp add: word_unat_eq_iff)
  ultimately show ?thesis by simp
qed

lemma read_varint_from_rest:
  assumes "read_varint_from bits s n w bs = (m, v, rest)" and "0 \<le> n" and "0 \<le> m"
  shows "n \<le> m \<and> rest = drop (nat (m - n)) bs
    \<and> (rest \<noteq> [] \<longrightarrow> n < m \<and> unat (bs ! nat (m - n - 1)) < 128)"
  using assms
proof (induction bs arbitrary: s n w)
  case (Cons b bs)
  let ?w = "w OR push_bit s (ucast (b AND 0x7f))"
  have "(if unat b < 128 then (n + 1, ?w, bs)
      else read_varint_from bits (s + 7) (n + 1) ?w bs) = (m, v, rest)"
    using Cons.prems
    by (auto simp: Let_def and_80_eq_0 EVARINT_OVERFLOW_def EVARINT_REPRESENT_def split: if_splits)
  then consider "unat b < 128" "m = n + 1" "rest = bs"
    | "read_varint_from bits (s + 7) (n + 1) ?w bs = (m, v, rest)"
    by (auto split: if_splits)
  then show ?case
  proof cases
    case 2
    from Cons.IH [OF this] Cons.prems(2,3)
    have IH: "n + 1 \<le> m" "rest = drop (nat (m - (n + 1))) bs"
      "rest \<noteq> [] \<longrightarrow> n + 1 < m \<and> unat (bs ! nat (m - (n + 1) - 1)) < 128" by auto
    have m: "nat (m - n) = Suc (nat (m - (n + 1)))" using IH(1) by simp
    moreover have "nat (m - n - 1) = Suc (nat (m - (n + 1) - 1))" if "n + 1 < m" using that by simp
    ultimately show ?thesis using IH by auto
  qed simp_all
qed simp

lemma read_varint_rest:
  assumes "read_varint bits bs = (m, v, rest)" and "0 \<le> m"
  shows "rest = drop (nat m) bs \<and> (rest \<noteq> [] \<longrightarrow> 0 < m \<and> unat (bs ! (nat m - 1)) < 128)"
proof -
  have "nat (m - 0 - 1) = nat m - 1" by simp
  then show ?thesis
    using read_varint_from_rest [of bits 0 0 0 bs m v rest] assms by (simp add: read_varint_def)
qed

lemma length_write_varint: "unat i < 128 ^ Suc n \<Longrightarrow> length (write_varint i) \<le> Suc n"
proof (induction n arbitrary: i)
  case 0
  then show ?case by (simp add: write_varint_small)
next
  case (Suc n)
  show ?case
  proof (cases "unat i < 128")
    case False
    have "unat i div 128 < 128 ^ Suc n" using Suc.prems by (simp add: less_mult_imp_div_less mult.commute)
    then have "unat (drop_bit 7 i) < 128 ^ Suc n" by (simp add: unat_drop_u64)
    then show ?thesis using Suc.IH False by (simp add: write_varint_large)
  qed (simp add: write_varint_small)
qed

lemma write_varint_not_Nil [simp]: "write_varint i \<noteq> []"
  by (subst write_varint.simps) simp

section \<open>Self-delimiting encodings\<close>

locale prefix_codec =
  fixes enc :: "'v \<Rightarrow> byte list" and dec :: "byte list \<Rightarrow> int \<times> 'v \<times> byte list"
    and valid :: "'v \<Rightarrow> bool"
  assumes dec_enc: "valid v \<Longrightarrow> dec (enc v @ rest) = (int (length (enc v)), v, rest)"
    and enc_not_Nil: "enc v \<noteq> []"
begin

lemma enc_prefix_free:
  assumes "valid a" and "valid b" and "enc a @ x = enc b @ y"
  shows "a = b \<and> x = y"
proof -
  have "(int (length (enc a)), a, x) = (int (length (enc b)), b, y)"
    using dec_enc [OF assms(1), of x] dec_enc [OF assms(2), of y] unfolding assms(3) by (rule trans [OF sym])
  then show ?thesis by simp
qed

lemma dec_positive: "valid v \<Longrightarrow> 0 < fst (dec (enc v @ rest))"
  using dec_enc enc_not_Nil by simp

lemma concat_enc_inj:
  assumes "length vs = length ws" and "\<forall>v \<in> set vs \<union> set ws. valid v"
    and "concat (map enc vs) @ x = concat (map enc ws) @ y"
  shows "vs = ws \<and> x = y"
  using assms
proof (induction vs ws rule: list_induct2)
  case (Cons v vs w ws)
  then have "v = w \<and> concat (map enc vs) @ x = concat (map enc ws) @ y"
    by (intro enc_prefix_free) simp_all
  with Cons show ?case by simp
qed simp

end

interpretation varint: prefix_codec write_varint "read_varint 64" "\<lambda>_. True"
  by unfold_locales (simp_all add: read_write_varint)

section \<open>Properties\<close>

text \<open>Reading a written integer at any width it fits in returns its value and the number of
  bytes written, and leaves the bytes that follow; at most ten bytes are written.\<close>

theorem varint_round_trip:
  assumes "unat i < 2 ^ bits" and "0 < bits" and "bits \<le> 64"
  shows "read_varint bits (write_varint i @ rest) = (int (length (write_varint i)), i, rest)
    \<and> length (write_varint i) \<le> 10"
proof -
  have "unat i < 128 ^ Suc 9" by (rule order.strict_trans [OF unat_u64_lt]) simp
  then have "length (write_varint i) \<le> 10" using length_write_varint [of i 9] by simp
  with read_write_varint [OF assms] show ?thesis by simp
qed

theorem varint_round_trip_witness:
  "read_varint 32 (write_varint 300 @ [7]) = (int (length (write_varint 300)), 300, [7])
    \<and> length (write_varint 300) \<le> 10"
  using varint_round_trip [of 300 32 "[7]"] by simp

text \<open>C25: The reader accepts no other encoding: when it reports \<open>n\<close> bytes of which the last one
  has its top bit clear, the bytes are the ones the writer produces for the value read, and the
  value fits in \<open>bits\<close> bits.\<close>

theorem varint_canonical:
  assumes "read_varint bits bs = (int n, v, rest)" and "0 < n" and "unat (bs ! (n - 1)) < 128"
    and "0 < bits" and "bits \<le> 64"
  shows "bs = write_varint v @ rest \<and> unat v < 2 ^ bits"
  by (rule read_varint_canonical [OF assms])

theorem varint_canonical_witness:
  "[0xff, 0x02, 9] = write_varint 383 @ [9] \<and> unat (383 :: u64) < 2 ^ 16"
proof -
  have "read_varint 16 [0xff, 0x02, 9] = (int 2, 383, [9])" by code_simp
  from varint_canonical [OF this] show ?thesis by simp
qed

text \<open>An input that ends inside an encoding is not reported as an error: the groups read so far
  are returned as the value.\<close>

theorem read_varint_truncated:
  "read_varint 64 [0xff] = (1, 127, []) \<and> read_varint 64 [] = (0, 0, [])"
  by code_simp

end
