(* ===== verification/Base58.thy ===== *)
theory Base58
  imports IntUtil Varint
begin

text \<open>Base-58 text of \<open>src/common/base58.cpp\<close>: data is cut into blocks of eight bytes, each
  written as eleven characters, a shorter last block as the number of characters that its size
  needs. \<open>encode_addr\<close> and \<open>decode_addr\<close> put a varint tag before the data and the first four
  bytes of a hash after it. The hash is an argument here; the locale \<open>hash32\<close> states what the
  address functions rely on, that it has 32 bytes, and its provider is the Keccak component.

  A buffer that the code passes as a pointer is the list of the characters from there to the end
  of the block, and the functions return it updated. \<open>None\<close> is a write before the buffer in
  \<open>encode_block\<close> and the result \<open>false\<close> in the decoders.\<close>

section \<open>Tables\<close>

definition alphabet :: string where
  "alphabet = ''123456789ABCDEFGHJKLMNPQRSTUVWXYZabcdefghijkmnopqrstuvwxyz''"

definition alphabet_size :: nat where "alphabet_size = length alphabet"

definition encoded_block_sizes :: "nat list" where
  "encoded_block_sizes = [0, 2, 3, 5, 6, 7, 9, 10, 11]"

definition full_block_size :: nat where "full_block_size = length encoded_block_sizes - 1"

definition full_encoded_block_size :: nat where
  "full_encoded_block_size = encoded_block_sizes ! full_block_size"

definition addr_checksum_size :: nat where "addr_checksum_size = 4"

definition letter_index :: "char \<Rightarrow> int" where
  "letter_index letter = int (of_char letter) - int (of_char (alphabet ! 0))"

definition reverse_alphabet_data :: "int list" where
  "reverse_alphabet_data =
     fold (\<lambda>i m_data. m_data[nat (letter_index (alphabet ! i)) := int i]) [0 ..< alphabet_size]
       (replicate (nat (letter_index (alphabet ! (alphabet_size - 1)) + 1)) (- 1))"

definition reverse_alphabet :: "char \<Rightarrow> int" where
  "reverse_alphabet letter =
     (let idx = letter_index letter in
      if 0 \<le> idx \<and> nat idx < length reverse_alphabet_data then reverse_alphabet_data ! nat idx else - 1)"

definition decoded_block_sizes_data :: "int list" where
  "decoded_block_sizes_data =
     fold (\<lambda>i m_data. m_data[encoded_block_sizes ! i := int i]) [0 ..< full_block_size + 1]
       (replicate (encoded_block_sizes ! full_block_size + 1) (- 1))"

definition decoded_block_sizes :: "nat \<Rightarrow> int" where
  "decoded_block_sizes encoded_block_size = decoded_block_sizes_data ! encoded_block_size"

section \<open>Blocks\<close>

definition shift_in :: "u64 \<Rightarrow> byte \<Rightarrow> u64" where
  "shift_in res d = push_bit 8 res OR ucast d"

definition uint_8be_to_64 :: "byte list \<Rightarrow> u64" where
  "uint_8be_to_64 data =
     (if 9 - length data = 1 then foldl shift_in (0 OR ucast (hd data)) (tl data)
      else foldl shift_in 0 data)"

definition uint_64_to_8be :: "u64 \<Rightarrow> nat \<Rightarrow> byte list" where
  "uint_64_to_8be num n = (let num_be = SWAP64 num in take n (drop (8 - n) (u64_bytes num_be)))"

function encode_digits :: "u64 \<Rightarrow> int \<Rightarrow> string \<Rightarrow> string option" where
  "encode_digits num i res =
     (if 0 < num
      then
        let remainder = num mod word_of_nat alphabet_size;
            num' = num div word_of_nat alphabet_size
        in if i < 0 then None
           else encode_digits num' (i - 1) (res[nat i := alphabet ! unat remainder])
      else Some res)"
  by pat_completeness auto
termination
proof (relation "measure (\<lambda>(num, i, res). unat num)")
  fix num :: u64 and i :: int and res :: string and remainder num'
  assume "0 < num" and num': "num' = num div word_of_nat alphabet_size"
  then have "0 < unat num" by (simp add: unat_gt_0)
  then have "unat num div 58 < unat num" by simp
  then show "((num', i - 1, res[nat i := alphabet ! unat remainder]), num, i, res)
      \<in> measure (\<lambda>(num, i, res). unat num)"
    by (simp add: num' alphabet_size_def alphabet_def unat_div)
qed simp

declare encode_digits.simps [simp del]

definition encode_block :: "byte list \<Rightarrow> string \<Rightarrow> string option" where
  "encode_block block res =
     encode_digits (uint_8be_to_64 block) (int (encoded_block_sizes ! length block) - 1) res"

fun decode_digits :: "string \<Rightarrow> u64 \<Rightarrow> u64 \<Rightarrow> u64 option" where
  "decode_digits [] res_num order = Some res_num"
| "decode_digits (letter # letters) res_num order =
     (let digit = reverse_alphabet letter in
      if digit < 0 then None
      else
        let (product_lo, product_hi) = mul128 order (word_of_int digit);
            tmp = res_num + product_lo
        in if tmp < res_num \<or> 0 \<noteq> product_hi then None
           else decode_digits letters tmp (order * word_of_nat alphabet_size))"

definition decode_block :: "string \<Rightarrow> byte list option" where
  "decode_block block =
     (let res_size = decoded_block_sizes (length block) in
      if res_size \<le> 0 then None
      else
        case decode_digits (rev block) 0 1 of
          None \<Rightarrow> None
        | Some res_num \<Rightarrow>
            if nat res_size < full_block_size \<and> push_bit (8 * nat res_size) 1 \<le> res_num then None
            else Some (uint_64_to_8be res_num (nat res_size)))"

section \<open>Strings\<close>

definition block_at :: "nat \<Rightarrow> 'a list \<Rightarrow> nat \<Rightarrow> 'a list" where
  "block_at n data i = take n (drop (i * n) data)"

definition encode :: "byte list \<Rightarrow> string option" where
  "encode data =
     (if data = [] then Some []
      else
        let full_block_count = length data div full_block_size;
            last_block_size = length data mod full_block_size;
            blocks = map (\<lambda>i. encode_block (block_at full_block_size data i)
                          (replicate full_encoded_block_size (alphabet ! 0))) [0 ..< full_block_count];
            last_block =
              (if 0 < last_block_size
               then [encode_block (drop (full_block_count * full_block_size) data)
                      (replicate (encoded_block_sizes ! last_block_size) (alphabet ! 0))]
               else [])
        in map_option concat (those (blocks @ last_block)))"

definition decode :: "string \<Rightarrow> byte list option" where
  "decode enc =
     (if enc = [] then Some []
      else
        let full_block_count = length enc div full_encoded_block_size;
            last_block_size = length enc mod full_encoded_block_size;
            last_block_decoded_size = decoded_block_sizes last_block_size
        in if last_block_decoded_size < 0 then None
           else
             let blocks = map (\<lambda>i. decode_block (block_at full_encoded_block_size enc i))
                            [0 ..< full_block_count];
                 last_block =
                   (if 0 < last_block_size
                    then [decode_block (drop (full_block_count * full_encoded_block_size) enc)]
                    else [])
             in map_option concat (those (blocks @ last_block)))"

section \<open>Addresses\<close>

definition encode_addr :: "(byte list \<Rightarrow> byte list) \<Rightarrow> u64 \<Rightarrow> byte list \<Rightarrow> string option" where
  "encode_addr cn_fast_hash tag data =
     (let buf = write_varint tag @ data;
          hash = cn_fast_hash buf
      in encode (buf @ take addr_checksum_size hash))"

definition decode_addr :: "(byte list \<Rightarrow> byte list) \<Rightarrow> string \<Rightarrow> (u64 \<times> byte list) option" where
  "decode_addr cn_fast_hash addr =
     (case decode addr of
        None \<Rightarrow> None
      | Some addr_data \<Rightarrow>
          if length addr_data \<le> addr_checksum_size then None
          else
            let checksum = drop (length addr_data - addr_checksum_size) addr_data;
                addr_data = take (length addr_data - addr_checksum_size) addr_data;
                expected_checksum = take addr_checksum_size (cn_fast_hash addr_data)
            in if expected_checksum \<noteq> checksum then None
               else
                 let (read, tag, _) = read_varint 64 addr_data
                 in if read \<le> 0 then None else Some (tag, drop (nat read) addr_data))"

section \<open>The tables\<close>

lemma alphabet_size_58 [simp]: "alphabet_size = 58"
  by (simp add: alphabet_size_def alphabet_def)

lemma length_alphabet [simp]: "length alphabet = 58"
  by (simp add: alphabet_def)

lemma block_sizes [simp]: "full_block_size = 8" "full_encoded_block_size = 11"
  by (simp_all add: full_block_size_def full_encoded_block_size_def encoded_block_sizes_def)

text \<open>A table that is filled with \<open>-1\<close> and then maps the index \<open>f i\<close> back to \<open>i\<close> inverts \<open>f\<close>.\<close>

lemma fold_table_length: "length (fold (\<lambda>i m. m[f i := int i]) is m) = length m"
  by (induction "is" arbitrary: m) auto

lemma fold_table_nth:
  assumes "inj_on f {..< n}" and "k < length m"
  shows "fold (\<lambda>i m. m[f i := int i]) [0 ..< n] m ! k =
    (if k \<in> f ` {..< n} then int (inv_into {..< n} f k) else m ! k)"
  using assms
proof (induction n)
  case (Suc n)
  have inj: "inj_on f {..< n}" using Suc.prems(1) by (rule inj_on_subset) auto
  have inv: "inv_into {..< Suc n} f (f i) = i" if "i < Suc n" for i
    using that Suc.prems(1) by (simp add: inv_into_f_f)
  have inv': "inv_into {..< n} f (f i) = i" if "i < n" for i
    using that inj by (simp add: inv_into_f_f)
  show ?case
  proof (cases "k = f n")
    case True
    then show ?thesis using Suc.prems(2) inv [of n] by (simp add: fold_table_length)
  next
    case False
    then have "k \<in> f ` {..< Suc n} \<longleftrightarrow> k \<in> f ` {..< n}" by (auto simp: less_Suc_eq)
    moreover have "inv_into {..< Suc n} f k = inv_into {..< n} f k" if "k \<in> f ` {..< n}"
      using that inv inv' by auto
    ultimately show ?thesis using Suc.IH [OF inj Suc.prems(2)] False by simp
  qed
qed simp

lemma letter_indices:
  "map letter_index alphabet =
    [0, 1, 2, 3, 4, 5, 6, 7, 8, 16, 17, 18, 19, 20, 21, 22, 23, 25, 26, 27, 28, 29, 31, 32, 33, 34,
     35, 36, 37, 38, 39, 40, 41, 48, 49, 50, 51, 52, 53, 54, 55, 56, 57, 58, 60, 61, 62, 63, 64, 65,
     66, 67, 68, 69, 70, 71, 72, 73]"
  by (simp add: letter_index_def alphabet_def)

lemma letter_index_eq: "letter_index c = letter_index d \<longleftrightarrow> c = d"
  by (simp add: letter_index_def)

lemma letter_index_alphabet:
  assumes "i < 58"
  shows "0 \<le> letter_index (alphabet ! i)" and "letter_index (alphabet ! i) < 74"
proof -
  have "\<forall>x \<in> set (map letter_index alphabet). 0 \<le> x \<and> x < 74"
    by (simp only: letter_indices) simp
  moreover have "alphabet ! i \<in> set alphabet" using assms by simp
  ultimately show "0 \<le> letter_index (alphabet ! i)" and "letter_index (alphabet ! i) < 74"
    by auto
qed

lemma distinct_alphabet: "distinct alphabet"
proof -
  have "distinct (map letter_index alphabet)" by (simp only: letter_indices) simp
  then show ?thesis by (simp add: distinct_map)
qed

lemma inj_letter_position: "inj_on (\<lambda>i. nat (letter_index (alphabet ! i))) {..< 58}"
proof (rule inj_onI)
  fix i j assume ij: "i \<in> {..< 58}" "j \<in> {..< (58 :: nat)}"
    and "nat (letter_index (alphabet ! i)) = nat (letter_index (alphabet ! j))"
  then have "letter_index (alphabet ! i) = letter_index (alphabet ! j)"
    using letter_index_alphabet by (simp add: nat_eq_iff)
  then show "i = j" using ij distinct_alphabet by (simp add: letter_index_eq nth_eq_iff_index_eq)
qed

lemma reverse_alphabet_data_nth:
  "k < 74 \<Longrightarrow> reverse_alphabet_data ! k =
    (if k \<in> (\<lambda>i. nat (letter_index (alphabet ! i))) ` {..< 58}
     then int (inv_into {..< 58} (\<lambda>i. nat (letter_index (alphabet ! i))) k) else - 1)"
proof -
  have "letter_index (alphabet ! 57) = 73" by (simp add: letter_index_def alphabet_def)
  then show "k < 74 \<Longrightarrow> ?thesis"
    unfolding reverse_alphabet_data_def by (simp add: fold_table_nth [OF inj_letter_position] del: upt_Suc upt_rec_numeral)
qed

lemma length_reverse_alphabet_data: "length reverse_alphabet_data = 74"
  by (simp add: reverse_alphabet_data_def fold_table_length letter_index_def alphabet_def del: upt_Suc upt_rec_numeral)

lemma reverse_alphabet_letter: "d < 58 \<Longrightarrow> reverse_alphabet (alphabet ! d) = int d"
  using letter_index_alphabet [of d] inv_into_f_f [OF inj_letter_position, of d]
  by (simp add: reverse_alphabet_def Let_def length_reverse_alphabet_data reverse_alphabet_data_nth nat_less_iff)

lemma reverse_alphabet_digit:
  assumes "0 \<le> reverse_alphabet c"
  shows "\<exists>d < 58. c = alphabet ! d \<and> reverse_alphabet c = int d"
proof -
  let ?k = "nat (letter_index c)"
  have idx: "0 \<le> letter_index c" "?k < 74" "0 \<le> reverse_alphabet_data ! ?k"
    using assms by (auto simp: reverse_alphabet_def Let_def length_reverse_alphabet_data split: if_splits)
  then obtain d where "d < 58" "?k = nat (letter_index (alphabet ! d))"
    by (auto simp: reverse_alphabet_data_nth split: if_splits)
  then have "c = alphabet ! d" using idx(1) letter_index_alphabet [of d] letter_index_eq
    by (simp add: eq_nat_nat_iff)
  then show ?thesis using reverse_alphabet_letter \<open>d < 58\<close> by blast
qed

lemma decoded_sizes:
  "decoded_block_sizes_data = [0, - 1, 1, 2, - 1, 3, 4, 5, - 1, 6, 7, 8]"
  by code_simp

lemma decoded_encoded_size:
  "n \<le> 8 \<Longrightarrow> decoded_block_sizes (encoded_block_sizes ! n) = int n"
  by (auto simp: decoded_block_sizes_def decoded_sizes encoded_block_sizes_def le_Suc_eq numeral_eq_Suc)

lemma encoded_decoded_size:
  assumes "m \<le> 11" and "0 \<le> decoded_block_sizes m"
  shows "\<exists>n \<le> 8. m = encoded_block_sizes ! n \<and> decoded_block_sizes m = int n"
proof -
  have "m \<in> set [0 ..< 12]" using assms(1) by simp
  moreover have "\<forall>m \<in> set [0 ..< 12]. 0 \<le> decoded_block_sizes m \<longrightarrow>
    nat (decoded_block_sizes m) \<le> 8 \<and> m = encoded_block_sizes ! nat (decoded_block_sizes m)"
    by code_simp
  ultimately show ?thesis using assms(2) by (intro exI [of _ "nat (decoded_block_sizes m)"]) simp
qed

lemma encoded_size_fits:
  assumes "n \<le> 8"
  shows "(256 :: nat) ^ n \<le> 58 ^ (encoded_block_sizes ! n)" and "encoded_block_sizes ! n \<le> 11"
proof -
  have "n \<in> {0, 1, 2, 3, 4, 5, 6, 7, 8}" using assms by auto
  then show "(256 :: nat) ^ n \<le> 58 ^ (encoded_block_sizes ! n)" and "encoded_block_sizes ! n \<le> 11"
    by (auto simp: encoded_block_sizes_def)
qed

section \<open>Blocks\<close>

lemma unat_shift_in: "unat res < 2 ^ 56 \<Longrightarrow> unat (shift_in res d) = unat res * 256 + unat d"
  using unat_or_push [of "ucast d" 8 res] by (simp add: shift_in_def or.commute)

lemma unat_foldl_shift_in:
  assumes "unat res < 256 ^ k" and "k + length ds \<le> 8"
  shows "unat (foldl shift_in res ds) = unat res * 256 ^ length ds + be_nat ds
    \<and> unat (foldl shift_in res ds) < 256 ^ (k + length ds)"
  using assms
proof (induction ds rule: rev_induct)
  case (snoc d ds)
  let ?x = "foldl shift_in res ds"
  have IH: "unat ?x = unat res * 256 ^ length ds + be_nat ds" "unat ?x < 256 ^ (k + length ds)"
    using snoc by simp_all
  have "(256 :: nat) ^ (k + length ds) \<le> 256 ^ 7" using snoc.prems(2) by (intro power_increasing) simp_all
  then have "unat ?x < 2 ^ 56" using IH(2) by simp
  then have step: "unat (shift_in ?x d) = unat ?x * 256 + unat d" by (rule unat_shift_in)
  moreover have "unat ?x * 256 + unat d < 256 ^ (k + length ds) * 256"
    using IH(2) unat_byte_lt [of d] by linarith
  ultimately show ?case using IH(1) by (simp add: be_nat_snoc algebra_simps)
qed simp

lemma unat_uint_8be_to_64:
  assumes "length data \<le> 8"
  shows "unat (uint_8be_to_64 data) = be_nat data"
proof (cases "length data = 8")
  case True
  then obtain d ds where data: "data = d # ds" "length ds = 7" by (cases data) auto
  have "unat (foldl shift_in (ucast d) ds) = unat d * 256 ^ 7 + be_nat ds"
    using unat_foldl_shift_in [of "ucast d" 1 ds] data by simp
  then show ?thesis using data by (simp add: uint_8be_to_64_def)
next
  case False
  then have "9 - length data \<noteq> 1" using assms by arith
  then show ?thesis using unat_foldl_shift_in [of 0 0 data] assms by (simp add: uint_8be_to_64_def)
qed

lemma uint_64_to_8be_eq: "n \<le> 8 \<Longrightarrow> uint_64_to_8be num n = rev (le_bytes n (unat num))"
proof -
  assume n: "n \<le> 8"
  have "take n (drop (8 - n) (rev (le_bytes 8 (unat num)))) = rev (take n (le_bytes 8 (unat num)))"
    using n by (simp add: drop_rev)
  then show ?thesis using n
    unfolding uint_64_to_8be_def Let_def u64_bytes_SWAP64 by (simp add: u64_bytes_def take_le_bytes)
qed

definition b58_text :: "nat list \<Rightarrow> string" where
  "b58_text ds = map (\<lambda>d. alphabet ! d) (rev ds)"

lemma encode_digits_text:
  "unat num < 58 ^ i \<Longrightarrow> encode_digits num (int i - 1) (replicate i (alphabet ! 0) @ tail) =
    Some (b58_text (base_digits 58 i (unat num)) @ tail)"
proof (induction i arbitrary: num tail)
  case 0
  then show ?case by (simp add: encode_digits.simps b58_text_def word_gt_0 word_unat_eq_iff)
next
  case (Suc i)
  show ?case
  proof (cases "num = 0")
    case True
    then show ?thesis
      by (subst encode_digits.simps) (simp add: b58_text_def base_digits_0 replicate_append_same)
  next
    case False
    then have "0 < num" by (simp add: word_gt_0)
    moreover have "unat (num div 58) < 58 ^ i"
      using Suc.prems by (simp add: unat_div less_mult_imp_div_less mult.commute)
    note Suc.IH [OF this, of "alphabet ! (unat num mod 58) # tail"]
    moreover have "(replicate (Suc i) (alphabet ! 0) @ tail)[i := c] = replicate i (alphabet ! 0) @ c # tail" for c
    proof -
      have "replicate (Suc i) (alphabet ! 0) = replicate i (alphabet ! 0) @ [alphabet ! 0]"
        by (simp add: replicate_append_same)
      then show ?thesis by (simp only: append_assoc list_update_append) simp
    qed
    ultimately show ?thesis
      by (subst encode_digits.simps) (simp add: Let_def unat_div unat_mod b58_text_def del: replicate_Suc)
  qed
qed

lemma encode_block_text:
  assumes "length block \<le> 8"
  shows "encode_block block (replicate (encoded_block_sizes ! length block) (alphabet ! 0)) =
    Some (b58_text (base_digits 58 (encoded_block_sizes ! length block) (be_nat block)))"
proof -
  have "be_nat block < 58 ^ (encoded_block_sizes ! length block)"
    using be_nat_bound [of block] encoded_size_fits(1) [OF assms] by linarith
  then show ?thesis using encode_digits_text [of "uint_8be_to_64 block" _ "[]"] assms
    by (simp add: encode_block_def unat_uint_8be_to_64)
qed

lemma decode_digits_letters:
  "decode_digits cs res order = Some v \<Longrightarrow> \<exists>ds. cs = map (\<lambda>d. alphabet ! d) ds \<and> (\<forall>d \<in> set ds. d < 58)"
proof (induction cs arbitrary: res order)
  case (Cons c cs)
  have "0 \<le> reverse_alphabet c" using Cons.prems by (auto simp: Let_def split: if_splits)
  then obtain d where d: "d < 58" "c = alphabet ! d" using reverse_alphabet_digit by blast
  obtain ds where "cs = map (\<lambda>d. alphabet ! d) ds" "\<forall>d \<in> set ds. d < 58"
    using Cons by (auto simp: Let_def split: if_splits prod.splits)
  with d show ?case by (intro exI [of _ "d # ds"]) simp
qed simp

lemma add_product_overflow:
  fixes res order :: u64
  assumes "mul128 order d = (lo, hi)"
  shows "res + lo < res \<or> 0 \<noteq> hi \<longleftrightarrow> 2 ^ 64 \<le> unat res + unat order * unat d"
    and "unat res + unat order * unat d < 2 ^ 64 \<Longrightarrow> unat (res + lo) = unat res + unat order * unat d"
proof -
  have p: "unat lo + 2 ^ 64 * unat hi = unat order * unat d" using mul128_value [of order d] assms by simp
  show "res + lo < res \<or> 0 \<noteq> hi \<longleftrightarrow> 2 ^ 64 \<le> unat res + unat order * unat d"
  proof (cases "hi = 0")
    case True
    then show ?thesis using p carry_u64 [of res lo] by simp
  next
    case False
    then have "1 \<le> unat hi" by (simp add: unat_gt_0 Suc_leI)
    then have "2 ^ 64 \<le> 2 ^ 64 * unat hi" by simp
    then have "2 ^ 64 \<le> unat res + unat order * unat d" using p by linarith
    then show ?thesis using False by simp
  qed
  show "unat (res + lo) = unat res + unat order * unat d" if "unat res + unat order * unat d < 2 ^ 64"
  proof -
    have "2 ^ 64 * unat hi < 2 ^ 64" using p that by linarith
    then have "unat hi = 0" by simp
    then show ?thesis using p that by (simp add: unat_add_no_overflow_u64)
  qed
qed

lemma decode_digits_value:
  assumes "\<forall>d \<in> set ds. d < 58" and "k + length ds \<le> 11" and "ds \<noteq> [] \<longrightarrow> unat order = 58 ^ k"
  shows "decode_digits (map (\<lambda>d. alphabet ! d) ds) res order =
    (if unat res + 58 ^ k * base_val 58 ds < 2 ^ 64
     then Some (word_of_nat (unat res + 58 ^ k * base_val 58 ds)) else None)"
  using assms
proof (induction ds arbitrary: k order res)
  case Nil
  then show ?case by simp
next
  case (Cons d ds)
  obtain lo hi where m: "mul128 order (word_of_int (int d)) = (lo, hi)" by fastforce
  have d: "d < 58" "unat (word_of_int (int d) :: u64) = d"
    using Cons.prems(1) by (simp_all add: unsigned_of_nat take_bit_nat_eq_self)
  have o: "unat order = 58 ^ k" using Cons.prems(3) by simp
  have dec: "decode_digits (map (\<lambda>d. alphabet ! d) (d # ds)) res order =
      (if 2 ^ 64 \<le> unat res + 58 ^ k * d then None
       else decode_digits (map (\<lambda>d. alphabet ! d) ds) (res + lo) (order * 58))"
    using add_product_overflow(1) [OF m, of res] m d o by (simp add: reverse_alphabet_letter Let_def)
  have val: "58 ^ k * base_val 58 (d # ds) = 58 ^ k * d + 58 ^ Suc k * base_val 58 ds"
    by (simp add: algebra_simps)
  show ?case
  proof (cases "2 ^ 64 \<le> unat res + 58 ^ k * d")
    case True
    then show ?thesis unfolding dec val by simp
  next
    case False
    have "unat (order * 58) = 58 ^ Suc k" if "ds \<noteq> []"
    proof -
      have "Suc k \<le> 10" using that Cons.prems(2) by (cases ds) simp_all
      then have "(58 :: nat) ^ Suc k \<le> 58 ^ 10" by (intro power_increasing) simp_all
      then show ?thesis using o by (simp add: unat_mult_u64 mult.commute)
    qed
    then have "decode_digits (map (\<lambda>d. alphabet ! d) ds) (res + lo) (order * 58) =
      (if unat (res + lo) + 58 ^ Suc k * base_val 58 ds < 2 ^ 64
       then Some (word_of_nat (unat (res + lo) + 58 ^ Suc k * base_val 58 ds)) else None)"
      using Cons.IH [of "Suc k" "order * 58" "res + lo"] Cons.prems by simp
    moreover have "unat (res + lo) = unat res + 58 ^ k * d"
      using add_product_overflow(2) [OF m, of res] False d o by simp
    ultimately show ?thesis unfolding dec val using False by (simp add: add.assoc)
  qed
qed

lemma decode_block_value:
  assumes "\<forall>d \<in> set ds. d < 58" and "length ds = encoded_block_sizes ! n" and "1 \<le> n" and "n \<le> 8"
  shows "decode_block (b58_text ds) =
    (if base_val 58 ds < 256 ^ n then Some (rev (le_bytes n (base_val 58 ds))) else None)"
proof -
  let ?v = "base_val 58 ds"
  have size: "decoded_block_sizes (length (b58_text ds)) = int n"
    using decoded_encoded_size [OF assms(4)] assms(2) by (simp add: b58_text_def)
  have pow: "(256 :: nat) ^ n \<le> 2 ^ 64"
    using power_increasing [OF assms(4), of "256 :: nat"] by simp
  have dec: "decode_digits (rev (b58_text ds)) 0 1 = (if ?v < 2 ^ 64 then Some (word_of_nat ?v) else None)"
    using decode_digits_value [OF assms(1), of 0 1 0] encoded_size_fits(2) [OF assms(4)] assms(2)
    by (simp add: b58_text_def rev_map)
  show ?thesis
  proof (cases "?v < 2 ^ 64")
    case False
    then show ?thesis using size dec pow assms(3) by (simp add: decode_block_def)
  next
    case True
    then have v: "unat (word_of_nat ?v :: u64) = ?v" by (simp add: unsigned_of_nat take_bit_nat_eq_self)
    have small: "n < 8 \<and> push_bit (8 * n) 1 \<le> (word_of_nat ?v :: u64) \<longleftrightarrow> 256 ^ n \<le> ?v"
    proof (cases "n = 8")
      case True
      then show ?thesis using \<open>?v < 2 ^ 64\<close> by simp
    next
      case False
      then have "n < 8" using assms(4) by simp
      then have "(2 :: nat) ^ (8 * n) < 2 ^ 64" by (intro power_strict_increasing) simp_all
      moreover have "(2 :: nat) ^ (8 * n) = 256 ^ n" by (simp add: power_mult)
      ultimately have "unat (push_bit (8 * n) 1 :: u64) = 256 ^ n" by (simp add: unat_push_u64 del: push_bit_of_1)
      then show ?thesis using v \<open>n < 8\<close> by (simp add: word_le_nat_alt)
    qed
    show ?thesis using size dec small True assms(3,4) v
      by (simp add: decode_block_def Let_def uint_64_to_8be_eq not_less del: push_bit_of_1)
  qed
qed

lemma decode_block_iff:
  assumes "1 \<le> n" and "n \<le> 8" and "length text = encoded_block_sizes ! n"
  shows "decode_block text = Some block \<longleftrightarrow> length block = n \<and>
    encode_block block (replicate (encoded_block_sizes ! n) (alphabet ! 0)) = Some text"
proof
  assume dec: "decode_block text = Some block"
  then obtain v where "decode_digits (rev text) 0 1 = Some v"
    by (auto simp: decode_block_def Let_def split: if_splits option.splits)
  from decode_digits_letters [OF this]
  obtain ds where ds: "rev text = map (\<lambda>d. alphabet ! d) ds" "\<forall>d \<in> set ds. d < 58" by blast
  have tx: "text = b58_text ds" using ds(1) by (simp add: b58_text_def rev_map rev_swap)
  then have len: "length ds = encoded_block_sizes ! n" using assms(3) by (simp add: b58_text_def)
  have "base_val 58 ds < 256 ^ n" "block = rev (le_bytes n (base_val 58 ds))"
    using dec decode_block_value [OF ds(2) len assms(1,2)] by (auto simp: tx split: if_splits)
  then have blk: "length block = n" "be_nat block = base_val 58 ds" by (simp_all add: be_nat_rev_le_bytes)
  then show "length block = n \<and>
    encode_block block (replicate (encoded_block_sizes ! n) (alphabet ! 0)) = Some text"
    using encode_block_text [of block] assms(2) base_digits_base_val [OF ds(2)] tx len by simp
next
  assume blk: "length block = n \<and>
    encode_block block (replicate (encoded_block_sizes ! n) (alphabet ! 0)) = Some text"
  let ?ds = "base_digits 58 (encoded_block_sizes ! n) (be_nat block)"
  have tx: "text = b58_text ?ds" using encode_block_text [of block] blk assms(2) by simp
  have bound: "be_nat block < 256 ^ n" using be_nat_bound [of block] blk by simp
  then have val: "base_val 58 ?ds = be_nat block"
    using encoded_size_fits(1) [OF assms(2)] by (simp add: base_val_base_digits)
  have "\<forall>d \<in> set ?ds. d < 58" by (simp add: base_digits_lt)
  from decode_block_value [OF this _ assms(1,2)] bound val blk
  show "decode_block text = Some block" by (simp add: tx rev_le_bytes_be_nat)
qed

section \<open>Strings of blocks\<close>

definition block_text :: "byte list \<Rightarrow> string" where
  "block_text block = b58_text (base_digits 58 (encoded_block_sizes ! length block) (be_nat block))"

lemma length_block_text [simp]: "length (block_text block) = encoded_block_sizes ! length block"
  by (simp add: block_text_def b58_text_def)

lemma block_text_Nil [simp]: "block_text [] = []"
  by (simp add: block_text_def encoded_block_sizes_def b58_text_def)

lemma decode_block_text:
  assumes "1 \<le> n" and "n \<le> 8" and "length text = encoded_block_sizes ! n"
  shows "decode_block text = Some block \<longleftrightarrow> length block = n \<and> text = block_text block"
  using decode_block_iff [OF assms] encode_block_text [of block] assms(2)
  by (auto simp: block_text_def)

lemma encode_blocks:
  assumes "\<forall>b \<in> set bs. length b = 8" and "length r < 8"
  shows "encode (concat bs @ r) = Some (concat (map block_text bs) @ block_text r)"
proof -
  note view = blocks_div_mod [OF assms] 
  have "map (\<lambda>i. encode_block (block_at 8 (concat bs @ r) i) (replicate 11 (alphabet ! 0))) [0 ..< length bs]
      = map (Some \<circ> block_text) bs"
  proof (rule nth_equalityI)
    fix i assume "i < length (map (\<lambda>i. encode_block (block_at 8 (concat bs @ r) i)
        (replicate 11 (alphabet ! 0))) [0 ..< length bs])"
    then have i: "i < length bs" by simp
    then have "length (bs ! i) = 8" using assms(1) by simp
    then have "encode_block (bs ! i) (replicate 11 (alphabet ! 0)) = Some (block_text (bs ! i))"
      using encode_block_text [of "bs ! i"] by (simp add: block_text_def encoded_block_sizes_def)
    then show "map (\<lambda>i. encode_block (block_at 8 (concat bs @ r) i) (replicate 11 (alphabet ! 0)))
        [0 ..< length bs] ! i = map (Some \<circ> block_text) bs ! i"
      using i nth_block [OF assms(1) i, of r] by (simp add: block_at_def)
  qed simp
  moreover have "encode_block r (replicate (encoded_block_sizes ! length r) (alphabet ! 0)) = Some (block_text r)"
    using encode_block_text [of r] assms(2) by (simp add: block_text_def)
  moreover have "those (map (Some \<circ> block_text) bs @ map Some ts) = Some (map block_text bs @ ts)" for ts
    by (simp add: those_eq_Some)
  from this [of "[]"] this [of "[block_text r]"]
  have "those (map (Some \<circ> block_text) bs) = Some (map block_text bs)"
    "those (map (Some \<circ> block_text) bs @ [Some (block_text r)]) = Some (map block_text bs @ [block_text r])"
    by simp_all
  ultimately show ?thesis using view by (cases r) (auto simp: encode_def Let_def)
qed

lemma map_decode_block:
  assumes "\<forall>c \<in> set cs. length c = 11"
  shows "map decode_block cs = map Some bs \<longleftrightarrow> (\<forall>b \<in> set bs. length b = 8) \<and> cs = map block_text bs"
  using assms
proof (induction cs arbitrary: bs)
  case (Cons c cs)
  have "decode_block c = Some b \<longleftrightarrow> length b = 8 \<and> c = block_text b" for b
    using decode_block_text [of 8 c b] Cons.prems by (simp add: encoded_block_sizes_def)
  then show ?case using Cons by (cases bs) auto
qed auto

lemma block_text_eq_Nil:
  assumes "length r < 8"
  shows "block_text r = [] \<longleftrightarrow> r = []"
proof
  assume "block_text r = []"
  then have "encoded_block_sizes ! length r = 0" using length_block_text [of r] by simp
  then show "r = []"
    using decoded_encoded_size [of "length r"] decoded_encoded_size [of 0] assms
    by (simp add: encoded_block_sizes_def)
qed simp

lemma decode_last_block:
  assumes "length t < 11" and "t \<noteq> []" and "0 \<le> decoded_block_sizes (length t)"
  shows "decode_block t = Some r \<longleftrightarrow> length r < 8 \<and> t = block_text r"
proof -
  obtain n where n: "n \<le> 8" "length t = encoded_block_sizes ! n"
    using encoded_decoded_size [OF _ assms(3)] assms(1) by auto
  have "encoded_block_sizes ! 0 = 0" "encoded_block_sizes ! 8 = 11"
    by (simp_all add: encoded_block_sizes_def)
  then have "n \<noteq> 0" and "n \<noteq> 8" using n(2) assms(1,2) by (metis length_0_conv, metis less_irrefl)
  then have n': "1 \<le> n" "n < 8" using n(1) by simp_all
  have "length r = n" if "length r < 8" and "t = block_text r"
    using decoded_encoded_size [of n] decoded_encoded_size [of "length r"] n(2) n' that by simp
  then show ?thesis using decode_block_text [OF n'(1) n(1) n(2)] n' by auto
qed

lemma decode_blocks:
  assumes "\<forall>c \<in> set cs. length c = 11" and "length t < 11"
  shows "decode (concat cs @ t) = Some data \<longleftrightarrow>
    (\<exists>bs r. data = concat bs @ r \<and> (\<forall>b \<in> set bs. length b = 8) \<and> length r < 8
      \<and> cs = map block_text bs \<and> t = block_text r)" (is "_ \<longleftrightarrow> ?R")
proof -
  note view = blocks_div_mod [OF assms]
  have blocks: "map (\<lambda>i. decode_block (block_at 11 (concat cs @ t) i)) [0 ..< length cs] = map decode_block cs"
    by (rule nth_equalityI) (simp_all add: block_at_def nth_block [OF assms(1)] del: take_append drop_append)
  have empty: "concat cs @ t = [] \<longleftrightarrow> cs = [] \<and> t = []" using assms(1) by (cases cs) auto
  have dec: "decode (concat cs @ t) =
    (if cs = [] \<and> t = [] then Some []
     else if decoded_block_sizes (length t) < 0 then None
     else map_option concat (those (map decode_block cs @ (if t = [] then [] else [decode_block t]))))"
    unfolding decode_def Let_def block_sizes view blocks empty by simp
  have size_ok: "0 \<le> decoded_block_sizes (length (block_text r))" if "length r < 8" for r
    using decoded_encoded_size [of "length r"] that by simp
  show ?thesis
  proof (cases "t = []")
    case True
    have "decoded_block_sizes 0 = 0" by (simp add: decoded_block_sizes_def decoded_sizes)
    then have "decode (concat cs @ t) = map_option concat (those (map decode_block cs))"
      unfolding dec using True by simp
    then have "decode (concat cs @ t) = Some data \<longleftrightarrow> (\<exists>bs. map decode_block cs = map Some bs \<and> data = concat bs)"
      by (auto simp: those_eq_Some)
    also have "\<dots> \<longleftrightarrow> ?R"
    proof
      assume "\<exists>bs. map decode_block cs = map Some bs \<and> data = concat bs"
      then show ?R using True unfolding map_decode_block [OF assms(1)]
        by (metis append_Nil2 block_text_Nil list.size(3) zero_less_numeral)
    next
      assume ?R
      then show "\<exists>bs. map decode_block cs = map Some bs \<and> data = concat bs"
        using True unfolding map_decode_block [OF assms(1)] by (metis append_Nil2 block_text_eq_Nil)
    qed
    finally show ?thesis .
  next
    case False
    show ?thesis
    proof (cases "decoded_block_sizes (length t) < 0")
      case True
      then show ?thesis using False size_ok by (auto simp: dec not_le [symmetric])
    next
      case ok: False
      have "decode (concat cs @ t) = map_option concat (those (map decode_block cs @ [decode_block t]))"
        using False ok by (simp add: dec)
      then have "decode (concat cs @ t) = Some data \<longleftrightarrow>
          (\<exists>bs r. map decode_block cs = map Some bs \<and> decode_block t = Some r \<and> data = concat bs @ r)"
        by (auto simp: those_eq_Some append_eq_map_conv Cons_eq_map_conv)
      also have "\<dots> \<longleftrightarrow> ?R"
        unfolding map_decode_block [OF assms(1)] using decode_last_block [OF assms(2) False] ok
        by (auto simp: not_less)
      finally show ?thesis .
    qed
  qed
qed

lemma decode_iff_encode: "decode enc = Some data \<longleftrightarrow> encode data = Some enc"
proof
  assume dec: "decode enc = Some data"
  obtain cs t where enc: "enc = concat cs @ t" "\<forall>c \<in> set cs. length c = 11" "length t < 11"
    using blocks_view [of 11 enc] by auto
  obtain bs r where "data = concat bs @ r" "\<forall>b \<in> set bs. length b = 8" "length r < 8"
    "cs = map block_text bs" "t = block_text r"
    using dec decode_blocks [OF enc(2,3)] unfolding enc(1) by blast
  then show "encode data = Some enc" using encode_blocks enc(1) by simp
next
  assume en: "encode data = Some enc"
  obtain bs r where data: "data = concat bs @ r" "\<forall>b \<in> set bs. length b = 8" "length r < 8"
    using blocks_view [of 8 data] by auto
  then have enc: "enc = concat (map block_text bs) @ block_text r"
    using en encode_blocks by simp
  have "\<forall>c \<in> set (map block_text bs). length c = 11"
    using data(2) by (simp add: encoded_block_sizes_def)
  moreover have "length (block_text r) < 11"
  proof -
    have "encoded_block_sizes ! length r \<noteq> encoded_block_sizes ! 8"
      using decoded_encoded_size [of 8] decoded_encoded_size [of "length r"] data(3) by auto
    then show ?thesis using encoded_size_fits(2) [of "length r"] data(3)
      by (simp add: encoded_block_sizes_def)
  qed
  ultimately show "decode enc = Some data" unfolding enc using decode_blocks data by blast
qed

lemma encode_total: "\<exists>enc. encode data = Some enc"
proof -
  obtain bs r where "data = concat bs @ r" "\<forall>b \<in> set bs. length b = 8" "length r < 8"
    using blocks_view [of 8 data] by auto
  then show ?thesis using encode_blocks by blast
qed

lemma encode_length:
  assumes "encode data = Some enc"
  shows "length enc = length data div 8 * 11 + encoded_block_sizes ! (length data mod 8)"
proof -
  obtain bs r where data: "data = concat bs @ r" "\<forall>b \<in> set bs. length b = 8" "length r < 8"
    using blocks_view [of 8 data] by auto
  then have enc: "enc = concat (map block_text bs) @ block_text r"
    using assms encode_blocks by simp
  have "\<forall>c \<in> set (map block_text bs). length c = 11" using data(2) by (simp add: encoded_block_sizes_def)
  then have "length enc = length bs * 11 + encoded_block_sizes ! length r"
    by (simp add: enc length_concat_blocks [of "map block_text bs" 11] del: map_map)
  then show ?thesis unfolding data(1) blocks_div_mod [OF data(2,3)] .
qed

section \<open>Addresses over any 32-byte hash\<close>

locale hash32 =
  fixes hash :: "byte list \<Rightarrow> byte list"
  assumes length_hash: "length (hash bs) = 32"
begin

lemma decode_encode_addr:
  assumes "encode_addr hash tag data = Some addr"
  shows "decode_addr hash addr = Some (tag, data)"
proof -
  let ?buf = "write_varint tag @ data"
  let ?sum = "take 4 (hash ?buf)"
  have sum: "length ?sum = 4" by (simp add: length_hash)
  have "decode addr = Some (?buf @ ?sum)"
    using assms by (simp add: encode_addr_def decode_iff_encode addr_checksum_size_def)
  moreover have "length (?buf @ ?sum) - 4 = length ?buf" using sum by simp
  ultimately show ?thesis using sum varint.dec_enc [of tag data]
    by (simp add: decode_addr_def addr_checksum_size_def Let_def)
qed

lemma encode_decode_addr:
  assumes "decode_addr hash addr = Some (tag, data)" and "data \<noteq> []"
  shows "encode_addr hash tag data = Some addr"
proof -
  obtain d where d: "decode addr = Some d" "4 < length d"
    and sum: "take 4 (hash (take (length d - 4) d)) = drop (length d - 4) d"
    using assms(1) by (auto simp: decode_addr_def addr_checksum_size_def Let_def split: option.splits if_splits)
  let ?body = "take (length d - 4) d"
  obtain m rest where rd: "read_varint 64 ?body = (m, tag, rest)" "0 < m" "data = drop (nat m) ?body"
    using assms(1) d sum
    by (auto simp: decode_addr_def addr_checksum_size_def Let_def split: if_splits prod.splits)
  have rest: "rest = data" "unat (?body ! (nat m - 1)) < 128"
    using read_varint_rest [OF rd(1)] rd assms(2) by auto
  then have "?body = write_varint tag @ data"
    using read_varint_canonical [of 64 ?body "nat m" tag rest] rd by simp
  moreover have "encode d = Some addr" using d(1) by (simp add: decode_iff_encode)
  ultimately show ?thesis using sum
    by (simp add: encode_addr_def addr_checksum_size_def Let_def) (metis append_take_drop_id append_assoc)
qed

end

section \<open>Properties\<close>

text \<open>C19: Base-58 text and data correspond one to one: every byte string has a text, of the length
  the code allocates for it, and \<open>decode\<close> accepts exactly the texts that \<open>encode\<close> produces and
  returns the bytes they came from.\<close>

theorem base58_bijective:
  "(\<exists>enc. encode data = Some enc \<and>
      length enc = length data div full_block_size * full_encoded_block_size
        + encoded_block_sizes ! (length data mod full_block_size))
   \<and> (decode str = Some data \<longleftrightarrow> encode data = Some str)"
  using encode_total [of data] encode_length [of data] decode_iff_encode [of str data]
  unfolding block_sizes by blast

end
