(* ===== verification/Keccak.thy ===== *)
theory Keccak
  imports Base58
begin

text \<open>The Keccak permutation and hash of \<open>src/crypto/keccak.c\<close> and \<open>cn_fast_hash\<close> of
  \<open>src/crypto/hash.c\<close>, on a little-endian target as the code has it.

  The permutation works in place on 25 words; the model updates a list at the same indices in
  the same order. The chain of 24 assignments of the rho and pi steps is the table \<open>rho_pi_moves\<close>,
  one row for a line of the code. The reference it is compared with is the Keccak-f[1600]
  permutation as the standard defines it, on lanes addressed by coordinates, with the rotation
  offsets and the round constants computed by their defining recurrences.\<close>

section \<open>The permutation\<close>

definition keccakf_rndc :: "u64 list" where
  "keccakf_rndc =
    [0x0000000000000001, 0x0000000000008082, 0x800000000000808a,
     0x8000000080008000, 0x000000000000808b, 0x0000000080000001,
     0x8000000080008081, 0x8000000000008009, 0x000000000000008a,
     0x0000000000000088, 0x0000000080008009, 0x000000008000000a,
     0x000000008000808b, 0x800000000000008b, 0x8000000000008089,
     0x8000000000008003, 0x8000000000008002, 0x8000000000000080,
     0x000000000000800a, 0x800000008000000a, 0x8000000080008081,
     0x8000000000008080, 0x0000000080000001, 0x8000000080008008]"

definition ROTL64 :: "u64 \<Rightarrow> nat \<Rightarrow> u64" where
  "ROTL64 x y = push_bit y x OR drop_bit (64 - y) x"

definition theta_columns :: "u64 list \<Rightarrow> u64 list" where
  "theta_columns st =
     (let bc0 = st ! 0 XOR st ! 5 XOR st ! 10 XOR st ! 15 XOR st ! 20;
          bc1 = st ! 1 XOR st ! 6 XOR st ! 11 XOR st ! 16 XOR st ! 21;
          bc2 = st ! 2 XOR st ! 7 XOR st ! 12 XOR st ! 17 XOR st ! 22;
          bc3 = st ! 3 XOR st ! 8 XOR st ! 13 XOR st ! 18 XOR st ! 23;
          bc4 = st ! 4 XOR st ! 9 XOR st ! 14 XOR st ! 19 XOR st ! 24;
          t0 = bc0;
          t1 = bc1;
          bc0 = bc0 XOR ROTL64 bc2 1;
          bc1 = bc1 XOR ROTL64 bc3 1;
          bc2 = bc2 XOR ROTL64 bc4 1;
          bc3 = bc3 XOR ROTL64 t0 1;
          bc4 = bc4 XOR ROTL64 t1 1
      in [bc0, bc1, bc2, bc3, bc4])"

text \<open>A row \<open>(d, s, c, r)\<close> is the line \<open>st[d] = ROTL64(st[s] ^ bc<c>, r)\<close>.\<close>

definition rho_pi_moves :: "(nat \<times> nat \<times> nat \<times> nat) list" where
  "rho_pi_moves =
    [(1, 6, 0, 44), (6, 9, 3, 20), (9, 22, 1, 61), (22, 14, 3, 39), (14, 20, 4, 18), (20, 2, 1, 62),
     (2, 12, 1, 43), (12, 13, 2, 25), (13, 19, 3, 8), (19, 23, 2, 56), (23, 15, 4, 41), (15, 4, 3, 27),
     (4, 24, 3, 14), (24, 21, 0, 2), (21, 8, 2, 55), (8, 16, 0, 45), (16, 5, 4, 36), (5, 3, 2, 28),
     (3, 18, 2, 21), (18, 17, 1, 15), (17, 11, 0, 10), (11, 7, 1, 6), (7, 10, 4, 3)]"

definition theta_rho_pi :: "u64 list \<Rightarrow> u64 list" where
  "theta_rho_pi st =
     (let bc = theta_columns st;
          t0 = st ! 1 XOR bc ! 0;
          st = st[0 := st ! 0 XOR bc ! 4];
          st = fold (\<lambda>(d, s, c, r) st. st[d := ROTL64 (st ! s XOR bc ! c) r]) rho_pi_moves st
      in st[10 := ROTL64 t0 1])"

definition chi_row :: "nat \<Rightarrow> u64 list \<Rightarrow> u64 list" where
  "chi_row k st =
     (let bc0 = st ! k;
          bc1 = st ! (k + 1);
          st = st[k := st ! k XOR (NOT (st ! (k + 1)) AND st ! (k + 2))];
          st = st[k + 1 := st ! (k + 1) XOR (NOT (st ! (k + 2)) AND st ! (k + 3))];
          st = st[k + 2 := st ! (k + 2) XOR (NOT (st ! (k + 3)) AND st ! (k + 4))];
          st = st[k + 3 := st ! (k + 3) XOR (NOT (st ! (k + 4)) AND bc0)]
      in st[k + 4 := st ! (k + 4) XOR (NOT bc0 AND bc1)])"

definition chi_last_row :: "u64 list \<Rightarrow> u64 list" where
  "chi_last_row st =
     (let bc0 = st ! 20;
          bc1 = st ! 21;
          bc2 = st ! 22;
          bc3 = st ! 23;
          bc4 = st ! 24;
          st = st[20 := st ! 20 XOR (NOT bc1 AND bc2)];
          st = st[21 := st ! 21 XOR (NOT bc2 AND bc3)];
          st = st[22 := st ! 22 XOR (NOT bc3 AND bc4)];
          st = st[23 := st ! 23 XOR (NOT bc4 AND bc0)]
      in st[24 := st ! 24 XOR (NOT bc0 AND bc1)])"

definition keccakf_round :: "nat \<Rightarrow> u64 list \<Rightarrow> u64 list" where
  "keccakf_round round st =
     (let st = theta_rho_pi st;
          st = chi_last_row (chi_row 15 (chi_row 10 (chi_row 5 (chi_row 0 st))))
      in st[0 := st ! 0 XOR keccakf_rndc ! round])"

definition keccakf :: "u64 list \<Rightarrow> u64 list" where
  "keccakf st = fold keccakf_round [0 ..< 24] st"

section \<open>The hash\<close>

definition HASH_SIZE :: nat where "HASH_SIZE = 32"
definition HASH_DATA_AREA :: nat where "HASH_DATA_AREA = 136"

definition xor_block :: "nat \<Rightarrow> byte list \<Rightarrow> u64 list \<Rightarrow> u64 list" where
  "xor_block rsizw bytes st =
     fold (\<lambda>i st. st[i := st ! i XOR u64_of_bytes (take 8 (drop (8 * i) bytes))]) [0 ..< rsizw] st"

text \<open>The loop over whole blocks; it does not end for \<open>rsiz = 0\<close>.\<close>

function keccak_absorb :: "nat \<Rightarrow> byte list \<Rightarrow> u64 list \<Rightarrow> (byte list \<times> u64 list) option" where
  "keccak_absorb rsiz bytes st =
     (if rsiz = 0 then None
      else if rsiz \<le> length bytes
      then keccak_absorb rsiz (drop rsiz bytes) (keccakf (xor_block (rsiz div 8) bytes st))
      else Some (bytes, st))"
  by pat_completeness auto
termination by (relation "measure (\<lambda>(rsiz, bytes, st). length bytes)") auto

declare keccak_absorb.simps [simp del]

definition keccak :: "byte list \<Rightarrow> nat \<Rightarrow> byte list option" where
  "keccak bytes mdlen =
     (if mdlen = 0 \<or> (100 < mdlen \<and> 200 \<noteq> mdlen) then None
      else
        let rsiz = (if 200 = mdlen then HASH_DATA_AREA else 200 - 2 * mdlen);
            rsizw = rsiz div 8
        in case keccak_absorb rsiz bytes (replicate 25 0) of
             None \<Rightarrow> None
           | Some (bytes, st) \<Rightarrow>
               let inlen = length bytes in
               if inlen + 1 \<ge> 144 \<or> inlen > rsiz \<or> rsiz - inlen + inlen + 1 \<ge> 144 \<or> rsiz = 0
                  \<or> rsiz - 1 \<ge> 144 \<or> rsizw * 8 > 144
               then None
               else
                 let temp = bytes @ [1] @ replicate (rsiz - (inlen + 1)) 0;
                     temp = temp[rsiz - 1 := temp ! (rsiz - 1) OR 0x80];
                     st = keccakf (xor_block rsizw temp st)
                 in Some (take mdlen (concat (map u64_bytes st))))"

definition cn_fast_hash :: "byte list \<Rightarrow> byte list" where
  "cn_fast_hash data = (case keccak data 32 of Some md \<Rightarrow> md | None \<Rightarrow> [])"

section \<open>The standard permutation\<close>

text \<open>A lane is addressed by its coordinates modulo 5.\<close>

definition lane :: "u64 list \<Rightarrow> nat \<Rightarrow> nat \<Rightarrow> u64" where
  "lane A x y = A ! (x mod 5 + 5 * (y mod 5))"

definition lanes :: "(nat \<Rightarrow> nat \<Rightarrow> u64) \<Rightarrow> u64 list" where
  "lanes f = map (\<lambda>i. f (i mod 5) (i div 5)) [0 ..< 25]"

definition column_parity :: "u64 list \<Rightarrow> nat \<Rightarrow> u64" where
  "column_parity A x = lane A x 0 XOR lane A x 1 XOR lane A x 2 XOR lane A x 3 XOR lane A x 4"

definition theta :: "u64 list \<Rightarrow> u64 list" where
  "theta A = lanes (\<lambda>x y. lane A x y XOR
     (column_parity A (x + 4) XOR ROTL64 (column_parity A (x + 1)) 1))"

fun rho_walk :: "nat \<Rightarrow> nat \<Rightarrow> nat \<Rightarrow> (nat \<times> nat) list" where
  "rho_walk 0 x y = []"
| "rho_walk (Suc n) x y = (x, y) # rho_walk n y ((2 * x + 3 * y) mod 5)"

definition rho_table :: "((nat \<times> nat) \<times> nat) list" where
  "rho_table = zip (rho_walk 24 1 0) (map (\<lambda>t. (t + 1) * (t + 2) div 2 mod 64) [0 ..< 24])"

definition rho_offset :: "nat \<Rightarrow> nat \<Rightarrow> nat" where
  "rho_offset x y = (case map_of rho_table (x, y) of None \<Rightarrow> 0 | Some r \<Rightarrow> r)"

definition rho :: "u64 list \<Rightarrow> u64 list" where
  "rho A = lanes (\<lambda>x y. ROTL64 (lane A x y) (rho_offset x y))"

definition pi_step :: "u64 list \<Rightarrow> u64 list" where
  "pi_step A = lanes (\<lambda>x y. lane A (x + 3 * y) x)"

definition chi :: "u64 list \<Rightarrow> u64 list" where
  "chi A = lanes (\<lambda>x y. lane A x y XOR (NOT (lane A (x + 1) y) AND lane A (x + 2) y))"

text \<open>The round constants come from the feedback register with polynomial
  \<open>x^8 + x^6 + x^5 + x^4 + 1\<close>: bit \<open>2^j - 1\<close> of constant \<open>i\<close> is its output at step \<open>7 * i + j\<close>.\<close>

definition lfsr_step :: "u8 \<Rightarrow> u8" where
  "lfsr_step r = (if bit r 7 then push_bit 1 r XOR 0x71 else push_bit 1 r)"

fun lfsr_bits :: "nat \<Rightarrow> u8 \<Rightarrow> bool list" where
  "lfsr_bits 0 r = []"
| "lfsr_bits (Suc n) r = bit r 0 # lfsr_bits n (lfsr_step r)"

definition round_constant :: "nat \<Rightarrow> u64" where
  "round_constant i =
     fold (\<lambda>j w. if lfsr_bits (24 * 7) 1 ! (7 * i + j) then set_bit (2 ^ j - 1) w else w) [0 ..< 7] 0"

definition keccak_round :: "nat \<Rightarrow> u64 list \<Rightarrow> u64 list" where
  "keccak_round i A = (let B = chi (pi_step (rho (theta A))) in B[0 := B ! 0 XOR round_constant i])"

section \<open>The code computes it\<close>

lemma length_25E:
  assumes "length st = 25"
  obtains s0 s1 s2 s3 s4 s5 s6 s7 s8 s9 s10 s11 s12 s13 s14 s15 s16 s17 s18 s19 s20 s21 s22 s23 s24
  where "st = [s0, s1, s2, s3, s4, s5, s6, s7, s8, s9, s10, s11, s12, s13, s14, s15, s16, s17, s18,
    s19, s20, s21, s22, s23, s24]"
  using assms by (auto simp: length_Suc_conv numeral_eq_Suc)

lemma lanes_list: "lanes f =
  [f 0 0, f 1 0, f 2 0, f 3 0, f 4 0, f 0 1, f 1 1, f 2 1, f 3 1, f 4 1, f 0 2, f 1 2, f 2 2, f 3 2,
   f 4 2, f 0 3, f 1 3, f 2 3, f 3 3, f 4 3, f 0 4, f 1 4, f 2 4, f 3 4, f 4 4]"
proof -
  have "[0 ..< 25] = [0, 1, 2, 3, 4, 5, 6, 7, 8, 9, 10, 11, 12, 13, 14, 15, 16, 17, 18, 19, 20, 21, 22, 23, 24]"
    by (simp add: upt_rec)
  then show ?thesis unfolding lanes_def by simp
qed

lemma rho_walk_list: "rho_walk 24 1 0 =
    [(1, 0), (0, 2), (2, 1), (1, 2), (2, 3), (3, 3), (3, 0), (0, 1), (1, 3), (3, 1), (1, 4), (4,
     4), (4, 0), (0, 3), (3, 4), (4, 3), (3, 2), (2, 2), (2, 0), (0, 4), (4, 2), (2, 4), (4, 1),
     (1, 1)]"
  by code_simp

lemma rho_table_list: "rho_table =
    [((1, 0), 1), ((0, 2), 3), ((2, 1), 6), ((1, 2), 10), ((2, 3), 15), ((3, 3), 21), ((3, 0),
     28), ((0, 1), 36), ((1, 3), 45), ((3, 1), 55), ((1, 4), 2), ((4, 4), 14), ((4, 0), 27), ((0,
     3), 41), ((3, 4), 56), ((4, 3), 8), ((3, 2), 25), ((2, 2), 43), ((2, 0), 62), ((0, 4), 18),
     ((4, 2), 39), ((2, 4), 61), ((4, 1), 20), ((1, 1), 44)]"
  by (simp add: rho_table_def rho_walk_list upt_rec del: One_nat_def)

lemma lfsr_bits_168: "lfsr_bits (24 * 7) 1 =
    [True, False, False, False, False, False, False, False, True, False, True, True, False,
     False, False, True, True, True, True, False, True, False, False, False, False, True, True,
     True, True, True, True, True, True, False, False, True, False, False, False, False, True,
     False, True, False, False, True, True, True, True, True, False, True, False, True, False,
     True, False, True, True, True, False, False, False, False, False, True, True, False,
     False, False, True, False, True, False, True, True, False, False, True, True, False,
     False, True, False, True, True, True, True, True, True, False, True, True, True, True,
     False, False, True, True, False, True, True, True, False, True, True, True, False, False,
     True, False, True, False, True, False, False, True, False, True, False, False, False,
     True, False, False, True, False, True, True, False, True, False, False, False, True, True,
     False, False, True, True, True, False, False, True, True, True, True, False, False, False,
     True, True, False, True, True, False, False, False, False, True, False, False, False,
     True, False, True, True, True]"
  by code_simp

lemma round_constants: "map round_constant [0 ..< 24] = keccakf_rndc"
  unfolding round_constant_def lfsr_bits_168 keccakf_rndc_def
  by (simp add: upt_rec set_bit_eq_or push_bit_of_1)

lemma rho_offset_table:
  "rho_offset 0 0 = 0" "rho_offset 1 0 = 1" "rho_offset 2 0 = 62" "rho_offset 3 0 = 28" "rho_offset 4 0 = 27"
  "rho_offset 0 1 = 36" "rho_offset 1 1 = 44" "rho_offset 2 1 = 6" "rho_offset 3 1 = 55" "rho_offset 4 1 = 20"
  "rho_offset 0 2 = 3" "rho_offset 1 2 = 10" "rho_offset 2 2 = 43" "rho_offset 3 2 = 25" "rho_offset 4 2 = 39"
  "rho_offset 0 3 = 41" "rho_offset 1 3 = 45" "rho_offset 2 3 = 15" "rho_offset 3 3 = 21" "rho_offset 4 3 = 8"
  "rho_offset 0 4 = 18" "rho_offset 1 4 = 2" "rho_offset 2 4 = 61" "rho_offset 3 4 = 56" "rho_offset 4 4 = 14"
  by (simp_all add: rho_offset_def rho_table_list)

lemma ROTL64_0 [simp]: "ROTL64 x 0 = x"
  by (simp add: ROTL64_def)

lemma rho_pi_moves_state:
  "fold (\<lambda>(d, s, c, r) st. st[d := ROTL64 (st ! s XOR [b0, b1, b2, b3, b4] ! c) r]) rho_pi_moves
    [s0, s1, s2, s3, s4, s5, s6, s7, s8, s9, s10, s11, s12, s13, s14, s15, s16, s17, s18, s19, s20, s21,
     s22, s23, s24] =
    [s0, ROTL64 (s6 XOR b0) 44, ROTL64 (s12 XOR b1) 43, ROTL64 (s18 XOR b2) 21, ROTL64 (s24 XOR
     b3) 14, ROTL64 (s3 XOR b2) 28, ROTL64 (s9 XOR b3) 20, ROTL64 (s10 XOR b4) 3, ROTL64 (s16 XOR
     b0) 45, ROTL64 (s22 XOR b1) 61, s10, ROTL64 (s7 XOR b1) 6, ROTL64 (s13 XOR b2) 25, ROTL64
     (s19 XOR b3) 8, ROTL64 (s20 XOR b4) 18, ROTL64 (s4 XOR b3) 27, ROTL64 (s5 XOR b4) 36, ROTL64
     (s11 XOR b0) 10, ROTL64 (s17 XOR b1) 15, ROTL64 (s23 XOR b2) 56, ROTL64 (s2 XOR b1) 62,
     ROTL64 (s8 XOR b2) 55, ROTL64 (s14 XOR b3) 39, ROTL64 (s15 XOR b4) 41, ROTL64 (s21 XOR b0) 2]"
  by (simp add: rho_pi_moves_def)

lemma chi_row_append:
  "k = length xs \<Longrightarrow> chi_row k (xs @ [a, b, c, d, e] @ ys) =
    xs @ [a XOR (NOT b AND c), b XOR (NOT c AND d), c XOR (NOT d AND e), d XOR (NOT e AND a),
      e XOR (NOT a AND b)] @ ys"
  by (simp add: chi_row_def nth_append list_update_append)

lemma theta_columns_parity:
  "theta_columns st =
    [column_parity st 0 XOR ROTL64 (column_parity st 2) 1, column_parity st 1 XOR ROTL64 (column_parity st 3) 1,
     column_parity st 2 XOR ROTL64 (column_parity st 4) 1, column_parity st 3 XOR ROTL64 (column_parity st 0) 1,
     column_parity st 4 XOR ROTL64 (column_parity st 1) 1]"
  by (simp add: theta_columns_def column_parity_def lane_def Let_def)

lemma column_parity_mod: "column_parity A x = column_parity A (x mod 5)"
  by (simp add: column_parity_def lane_def)

lemma theta_rho_pi_columns:
  assumes "st = [s0, s1, s2, s3, s4, s5, s6, s7, s8, s9, s10, s11, s12, s13, s14, s15, s16, s17, s18,
    s19, s20, s21, s22, s23, s24]"
    and "theta_columns st = [b0, b1, b2, b3, b4]"
  shows "theta_rho_pi st = pi_step (rho (lanes (\<lambda>x y. lane st x y XOR [b4, b0, b1, b2, b3] ! x)))"
proof -
  have code: "theta_rho_pi st = (fold (\<lambda>(d, s, c, r) st. st[d := ROTL64 (st ! s XOR [b0, b1, b2, b3, b4] ! c) r])
      rho_pi_moves (st[0 := st ! 0 XOR b4]))[10 := ROTL64 (st ! 1 XOR b0) 1]"
    using assms(2) by (simp add: theta_rho_pi_def Let_def)
  have th: "lanes (\<lambda>x y. lane st x y XOR [b4, b0, b1, b2, b3] ! x) =
    [s0 XOR b4, s1 XOR b0, s2 XOR b1, s3 XOR b2, s4 XOR b3, s5 XOR b4, s6 XOR b0, s7 XOR b1, s8 XOR b2,
     s9 XOR b3, s10 XOR b4, s11 XOR b0, s12 XOR b1, s13 XOR b2, s14 XOR b3, s15 XOR b4, s16 XOR b0,
     s17 XOR b1, s18 XOR b2, s19 XOR b3, s20 XOR b4, s21 XOR b0, s22 XOR b1, s23 XOR b2, s24 XOR b3]"
    by (simp add: assms(1) lanes_list lane_def)
  show ?thesis unfolding th code unfolding assms(1)
    by (simp add: rho_pi_moves_state pi_step_def rho_def lanes_list lane_def rho_offset_table
      rho_offset_table [unfolded One_nat_def])
qed

lemma theta_rho_pi_standard:
  assumes "length st = 25"
  shows "theta_rho_pi st = pi_step (rho (theta st))"
proof -
  define b0 b1 b2 b3 b4 where b: "b0 = theta_columns st ! 0" "b1 = theta_columns st ! 1"
    "b2 = theta_columns st ! 2" "b3 = theta_columns st ! 3" "b4 = theta_columns st ! 4"
  have cols: "theta_columns st = [b0, b1, b2, b3, b4]"
    by (simp add: b theta_columns_parity)
  have "column_parity st (x + 4) XOR ROTL64 (column_parity st (x + 1)) 1 = [b4, b0, b1, b2, b3] ! x" if "x < 5" for x
  proof -
    have "x \<in> {0, 1, 2, 3, 4}" using that by auto
    then show ?thesis
      using column_parity_mod [of st "x + 4"] column_parity_mod [of st "x + 1"]
      by (auto simp: b theta_columns_parity numeral_2_eq_2)
  qed
  then have "theta st = lanes (\<lambda>x y. lane st x y XOR [b4, b0, b1, b2, b3] ! x)"
    by (simp add: theta_def lanes_def del: One_nat_def)
  then show ?thesis using assms cols by (elim length_25E) (simp only: theta_rho_pi_columns)
qed

lemma chi_last_row_append:
  "length xs = 20 \<Longrightarrow> chi_last_row (xs @ [a, b, c, d, e]) =
    xs @ [a XOR (NOT b AND c), b XOR (NOT c AND d), c XOR (NOT d AND e), d XOR (NOT e AND a),
      e XOR (NOT a AND b)]"
  by (simp add: chi_last_row_def nth_append list_update_append)

lemma chi_standard:
  assumes "length st = 25"
  shows "chi_last_row (chi_row 15 (chi_row 10 (chi_row 5 (chi_row 0 st)))) = chi st"
proof -
  obtain s0 s1 s2 s3 s4 s5 s6 s7 s8 s9 s10 s11 s12 s13 s14 s15 s16 s17 s18 s19 s20 s21 s22 s23 s24
    where st: "st = [s0, s1, s2, s3, s4, s5, s6, s7, s8, s9, s10, s11, s12, s13, s14, s15, s16, s17, s18,
      s19, s20, s21, s22, s23, s24]"
    using assms by (rule length_25E)
  note rows = chi_row_append [of 0 "[]", simplified] chi_row_append [of 5 "[_, _, _, _, _]", simplified]
    chi_row_append [of 10 "[_, _, _, _, _, _, _, _, _, _]", simplified]
    chi_row_append [of 15 "[_, _, _, _, _, _, _, _, _, _, _, _, _, _, _]", simplified]
    chi_last_row_append [of "[_, _, _, _, _, _, _, _, _, _, _, _, _, _, _, _, _, _, _, _]", simplified]
  show ?thesis unfolding st by (simp only: rows chi_def lanes_list lane_def) simp
qed

lemma length_lanes [simp]: "length (lanes f) = 25"
  by (simp add: lanes_def)

lemma length_keccak_round [simp]: "length (keccak_round i A) = 25"
  by (simp add: keccak_round_def chi_def Let_def)

lemma keccakf_round_standard:
  assumes "length st = 25" and "round < 24"
  shows "keccakf_round round st = keccak_round round st"
proof -
  have "length (pi_step (rho (theta st))) = 25" by (simp add: pi_step_def)
  moreover have "keccakf_rndc ! round = round_constant round"
    using assms(2) by (simp add: round_constants [symmetric])
  ultimately show ?thesis
    using assms(1) by (simp add: keccakf_round_def keccak_round_def theta_rho_pi_standard chi_standard)
qed

lemma keccakf_standard:
  assumes "length st = 25"
  shows "keccakf st = fold keccak_round [0 ..< 24] st \<and> length (keccakf st) = 25"
proof -
  have "fold keccakf_round [0 ..< n] st = fold keccak_round [0 ..< n] st
      \<and> length (fold keccak_round [0 ..< n] st) = 25" if "n \<le> 24" for n
    using that by (induction n) (simp_all add: assms keccakf_round_standard)
  from this [of 24] show ?thesis by (simp add: keccakf_def)
qed

section \<open>The sponge\<close>

text \<open>The padding of Keccak, a 1 bit, zeros and a 1 bit up to a whole number of 136-byte blocks,
  and the absorption of a block into the first 17 lanes.\<close>

definition keccak_pad :: "byte list \<Rightarrow> byte list" where
  "keccak_pad M =
     (let z = 136 - length M mod 136 in
      if z = 1 then M @ [0x81] else M @ [0x01] @ replicate (z - 2) 0 @ [0x80])"

definition absorb_block :: "byte list \<Rightarrow> u64 list \<Rightarrow> u64 list" where
  "absorb_block b st = fold keccak_round [0 ..< 24]
     (map (\<lambda>i. if i < 17 then st ! i XOR u64_of_bytes (take 8 (drop (8 * i) b)) else st ! i) [0 ..< 25])"

definition sponge :: "byte list \<Rightarrow> u64 list" where
  "sponge P = fold absorb_block (map (block_at 136 P) [0 ..< length P div 136]) (replicate 25 0)"

lemma xor_block_nth:
  assumes "n \<le> length st"
  shows "length (xor_block n bytes st) = length st \<and>
    (\<forall>i < length st. xor_block n bytes st ! i =
      (if i < n then st ! i XOR u64_of_bytes (take 8 (drop (8 * i) bytes)) else st ! i))"
  using assms
  by (induction n) (auto simp: xor_block_def nth_list_update less_Suc_eq)

lemma xor_block_absorb:
  assumes "length st = 25" and "length b = 136"
  shows "keccakf (xor_block 17 (b @ rest) st) = absorb_block b st"
proof -
  have "xor_block 17 (b @ rest) st =
    map (\<lambda>i. if i < 17 then st ! i XOR u64_of_bytes (take 8 (drop (8 * i) b)) else st ! i) [0 ..< 25]"
    using xor_block_nth [of 17 st "b @ rest"] assms
    by (intro nth_equalityI) (auto simp: nth_append)
  then show ?thesis using keccakf_standard by (simp add: absorb_block_def)
qed

lemma length_absorb_block [simp]: "length (absorb_block b st) = 25"
proof -
  have "length (map (\<lambda>i. if i < 17 then st ! i XOR u64_of_bytes (take 8 (drop (8 * i) b)) else st ! i)
      [0 ..< 25]) = 25" by simp
  from keccakf_standard [OF this] show ?thesis unfolding absorb_block_def by metis
qed

lemma length_absorb_blocks: "length st = 25 \<Longrightarrow> length (fold absorb_block bs st) = 25"
  by (induction bs arbitrary: st) auto

lemma keccak_absorb_blocks:
  assumes "\<forall>b \<in> set bs. length b = 136" and "length r < 136" and "length st = 25"
  shows "keccak_absorb 136 (concat bs @ r) st = Some (r, fold absorb_block bs st)"
  using assms
proof (induction bs arbitrary: st)
  case Nil
  then show ?case by (simp add: keccak_absorb.simps)
next
  case (Cons b bs)
  then show ?case
    using xor_block_absorb [of st b "concat bs @ r"]
    by (subst keccak_absorb.simps) simp
qed

lemma sponge_blocks:
  assumes "\<forall>b \<in> set bs. length b = 136"
  shows "sponge (concat bs) = fold absorb_block bs (replicate 25 0)"
proof -
  have "length (concat bs) div 136 = length bs" using length_concat_blocks [OF assms] by simp
  moreover have "map (block_at 136 (concat bs)) [0 ..< length bs] = bs"
    using nth_block [OF assms, of _ "[]"] by (intro nth_equalityI) (simp_all add: block_at_def)
  ultimately show ?thesis by (simp add: sponge_def)
qed

lemma keccak_pad_blocks:
  assumes "\<forall>b \<in> set bs. length b = 136" and "length r < 136"
  shows "keccak_pad (concat bs @ r) = concat bs @
    (let temp = r @ [1] @ replicate (135 - length r) 0 in temp[135 := temp ! 135 OR 0x80])"
proof -
  have m: "length (concat bs @ r) mod 136 = length r" by (rule blocks_div_mod [OF assms])
  show ?thesis
  proof (cases "length r = 135")
    case True
    then show ?thesis using m by (simp add: keccak_pad_def nth_append list_update_append)
  next
    case False
    then obtain k where k: "135 - length r = Suc k" using assms(2) by (cases "135 - length r") simp_all
    then have z: "136 - length r = Suc (Suc k)" by simp
    let ?p = "r @ [1] @ replicate k 0 :: byte list"
    have len: "length ?p = 135" using k assms(2) by simp
    have temp: "r @ [1] @ replicate (135 - length r) 0 = ?p @ [0]"
      using k by (simp add: replicate_append_same)
    have "(?p @ [0])[135 := (?p @ [0]) ! 135 OR 0x80] = ?p @ [0x80]"
      unfolding len [symmetric] nth_append_length list_update_length by simp
    then show ?thesis unfolding keccak_pad_def m Let_def temp using z by simp
  qed
qed

lemma keccak_sponge:
  assumes "mdlen = 32 \<or> mdlen = 200"
  shows "keccak bytes mdlen = Some (take mdlen (concat (map u64_bytes (sponge (keccak_pad bytes)))))"
proof -
  obtain bs r where bytes: "bytes = concat bs @ r" "\<forall>b \<in> set bs. length b = 136" "length r < 136"
    using blocks_view [of 136 bytes] by auto
  let ?temp = "r @ [1] @ replicate (135 - length r) 0"
  let ?last = "?temp[135 := ?temp ! 135 OR 0x80]"
  let ?st = "fold absorb_block bs (replicate 25 0)"
  have last: "length ?last = 136" using bytes(3) by simp
  have "keccak_pad bytes = concat (bs @ [?last])"
    using keccak_pad_blocks [OF bytes(2,3)] by (simp add: bytes(1) Let_def)
  then have "sponge (keccak_pad bytes) = absorb_block ?last ?st"
    using sponge_blocks [of "bs @ [?last]"] bytes(2) last by simp
  moreover have "keccakf (xor_block 17 ?last ?st) = absorb_block ?last ?st"
    using xor_block_absorb [of ?st ?last "[]"] last length_absorb_blocks [of "replicate 25 0" bs] by simp
  moreover have "keccak_absorb 136 bytes (replicate 25 0) = Some (r, ?st)"
    using keccak_absorb_blocks [OF bytes(2,3)] by (simp add: bytes(1))
  ultimately show ?thesis using assms bytes(3)
    by (auto simp: keccak_def HASH_DATA_AREA_def Let_def)
qed

section \<open>The hash as a provider\<close>

lemma length_concat_map: "(\<And>x. length (f x) = n) \<Longrightarrow> length (concat (map f xs)) = length xs * n"
  by (induction xs) auto

lemma cn_fast_hash_sponge:
  "cn_fast_hash data = take 32 (concat (map u64_bytes (sponge (keccak_pad data))))"
  by (simp add: cn_fast_hash_def keccak_sponge)

lemma length_sponge: "length (sponge P) = 25"
  by (simp add: sponge_def length_absorb_blocks)

interpretation keccak: hash32 cn_fast_hash
  by unfold_locales (simp add: cn_fast_hash_sponge length_concat_map [of _ 8] length_sponge)

section \<open>Properties\<close>

text \<open>C20: The unrolled in-place permutation computes the 24 rounds of Keccak-f[1600] as the
  standard defines them: the theta, rho, pi and chi steps on lanes addressed by coordinates, with
  the rotation offsets and the round constants given by their recurrences.\<close>

theorem keccakf_is_standard:
  assumes "length st = 25"
  shows "keccakf st = fold keccak_round [0 ..< 24] st"
  using keccakf_standard [OF assms] by (rule conjunct1)

theorem keccakf_is_standard_witness:
  "keccakf (replicate 25 0) = fold keccak_round [0 ..< 24] (replicate 25 0)"
  using keccakf_is_standard [of "replicate 25 0"] by simp

text \<open>C21: \<open>keccak\<close> with a 32-byte or a 200-byte result never aborts and returns the first bytes
  of the sponge state after it has absorbed the padded input in 136-byte blocks;
  \<open>cn_fast_hash\<close> is the 32-byte case.\<close>

theorem keccak_is_sponge:
  "keccak bytes 32 = Some (take 32 (concat (map u64_bytes (sponge (keccak_pad bytes)))))
   \<and> keccak bytes 200 = Some (take 200 (concat (map u64_bytes (sponge (keccak_pad bytes)))))
   \<and> keccak bytes 32 = Some (cn_fast_hash bytes) \<and> length (cn_fast_hash bytes) = 32"
  using keccak_sponge [of 32 bytes] keccak_sponge [of 200 bytes] cn_fast_hash_sponge [of bytes]
    keccak.length_hash [of bytes] by simp

end
