(* ===== verification/Serialization.thy ===== *)
theory Serialization
  imports Varint IntUtil "HOL-Library.Monad_Syntax"
begin

text \<open>The binary archive of \<open>src/serialization\<close>. An archive that is written is the list of the
  bytes put so far, so a writer is a function to byte strings; an archive that is read is the
  list of the bytes left, so a reader returns its value and the bytes after it, or \<open>None\<close>.

  \<open>None\<close> is both a \<open>do_serialize\<close> that returns false and a stream that is no longer good: every
  field macro tests \<open>stream().good()\<close> right after the field, so a failed stream ends the parse
  with false in the code as well. A varint that is malformed or cut off leaves the stream good, and
  \<open>serialize_uvarint\<close> ignores the result of \<open>read_varint\<close>; the model does the same.

  The locale \<open>codec\<close> is the contract between a type's writer and reader; the containers are proved
  correct once for any element codec and used at the types of the transaction format.\<close>

named_theorems codec "reader after writer"

section \<open>Archives\<close>

fun serialize_uint_put :: "nat \<Rightarrow> u64 \<Rightarrow> byte list" where
  "serialize_uint_put 0 v = []"
| "serialize_uint_put (Suc n) v = ucast (v AND 0xff) # serialize_uint_put n (drop_bit 8 v)"

fun serialize_uint_loop :: "nat \<Rightarrow> nat \<Rightarrow> u64 \<Rightarrow> byte list \<Rightarrow> (u64 \<times> byte list) option" where
  "serialize_uint_loop 0 shift ret bs = Some (ret, bs)"
| "serialize_uint_loop (Suc n) shift ret [] = None"
| "serialize_uint_loop (Suc n) shift ret (c # bs) =
     serialize_uint_loop n (shift + 8) (ret + push_bit shift (ucast c)) bs"

definition serialize_uint_get :: "nat \<Rightarrow> byte list \<Rightarrow> (u64 \<times> byte list) option" where
  "serialize_uint_get width bs = serialize_uint_loop width 0 0 bs"

definition serialize_blob_get :: "nat \<Rightarrow> byte list \<Rightarrow> (byte list \<times> byte list) option" where
  "serialize_blob_get len bs = (if length bs < len then None else Some (take len bs, drop len bs))"

definition serialize_varint_get :: "nat \<Rightarrow> byte list \<Rightarrow> (u64 \<times> byte list) option" where
  "serialize_varint_get bits bs = (case read_varint bits bs of (_, v, rest) \<Rightarrow> Some (v, rest))"

section \<open>Containers\<close>

fun get_elements :: "(byte list \<Rightarrow> ('a \<times> byte list) option) \<Rightarrow> nat \<Rightarrow> byte list \<Rightarrow> ('a list \<times> byte list) option" where
  "get_elements get 0 bs = Some ([], bs)"
| "get_elements get (Suc n) bs = do {
     (e, bs) \<leftarrow> get bs;
     (es, bs) \<leftarrow> get_elements get n bs;
     Some (e # es, bs)
   }"

definition do_serialize_container_get ::
    "(byte list \<Rightarrow> ('a \<times> byte list) option) \<Rightarrow> byte list \<Rightarrow> ('a list \<times> byte list) option" where
  "do_serialize_container_get get bs = do {
     (cnt, bs) \<leftarrow> serialize_varint_get 64 bs;
     if length bs < unat cnt then None else get_elements get (unat cnt) bs
   }"

definition do_serialize_container_put :: "('a \<Rightarrow> byte list) \<Rightarrow> 'a list \<Rightarrow> byte list" where
  "do_serialize_container_put put v = write_varint (word_of_nat (length v)) @ concat (map put v)"

definition do_serialize_string_get :: "byte list \<Rightarrow> (byte list \<times> byte list) option" where
  "do_serialize_string_get bs = do {
     (len, bs) \<leftarrow> serialize_varint_get 64 bs;
     if length bs < unat len then None else serialize_blob_get (unat len) bs
   }"

definition do_serialize_string_put :: "byte list \<Rightarrow> byte list" where
  "do_serialize_string_put str = write_varint (word_of_nat (length str)) @ str"

text \<open>\<open>serialize\<close> succeeds when the value has been read and nothing is left.\<close>

definition parse_binary :: "(byte list \<Rightarrow> ('a \<times> byte list) option) \<Rightarrow> byte list \<Rightarrow> 'a option" where
  "parse_binary get blob = (case get blob of Some (v, []) \<Rightarrow> Some v | _ \<Rightarrow> None)"

section \<open>The contract of a codec\<close>

locale codec =
  fixes put :: "'a \<Rightarrow> byte list" and get :: "byte list \<Rightarrow> ('a \<times> byte list) option"
    and ok :: "'a \<Rightarrow> bool"
  assumes get_put: "ok v \<Longrightarrow> get (put v @ rest) = Some (v, rest)"
begin

lemma parse_put: "ok v \<Longrightarrow> parse_binary get (put v) = Some v"
  using get_put [of v "[]"] by (simp add: parse_binary_def)

lemma put_unique:
  assumes "ok v" and "ok w" and "put v @ x = put w @ y"
  shows "v = w \<and> x = y"
proof -
  have "Some (v, x) = Some (w, y)"
    using get_put [OF assms(1), of x] get_put [OF assms(2), of y] unfolding assms(3) by (rule trans [OF sym])
  then show ?thesis by simp
qed

lemma get_elements_put:
  "list_all ok vs \<Longrightarrow> get_elements get (length vs) (concat (map put vs) @ rest) = Some (vs, rest)"
  by (induction vs) (simp_all add: get_put)

end

locale element_codec = codec +
  assumes put_nonempty: "ok v \<Longrightarrow> put v \<noteq> []"
begin

lemma length_put_all: "list_all ok vs \<Longrightarrow> length vs \<le> length (concat (map put vs))"
proof (induction vs)
  case (Cons v vs)
  then have "1 \<le> length (put v)" using put_nonempty [of v] by (cases "put v") simp_all
  then show ?case using Cons by simp
qed simp

lemma get_container_put:
  assumes "list_all ok vs" and "length vs < 2 ^ 64"
  shows "do_serialize_container_get get (do_serialize_container_put put vs @ rest) = Some (vs, rest)"
proof -
  have n: "unat (word_of_nat (length vs) :: u64) = length vs"
    using assms(2) by (simp add: unsigned_of_nat take_bit_nat_eq_self)
  show ?thesis
    using length_put_all [OF assms(1)] get_elements_put [OF assms(1)] varint.dec_enc n
    by (simp add: do_serialize_container_get_def do_serialize_container_put_def serialize_varint_get_def)
qed

end

section \<open>The basic codecs\<close>

lemma serialize_varint_get_write [codec]:
  "serialize_varint_get 64 (write_varint v @ rest) = Some (v, rest)"
  using varint.dec_enc [of v rest] by (simp add: serialize_varint_get_def)

lemma serialize_varint_get_write_narrow:
  "0 < bits \<Longrightarrow> bits \<le> 64 \<Longrightarrow> unat v < 2 ^ bits \<Longrightarrow>
    serialize_varint_get bits (write_varint v @ rest) = Some (v, rest)"
  using read_write_varint [of v bits rest] by (simp add: serialize_varint_get_def)

lemma serialize_blob_get_put [codec]:
  "length b = n \<Longrightarrow> serialize_blob_get n (b @ rest) = Some (b, rest)"
  by (simp add: serialize_blob_get_def)

interpretation varint64: element_codec write_varint "serialize_varint_get 64" "\<lambda>_. True"
  by unfold_locales (simp_all add: serialize_varint_get_write)

interpretation blob32: element_codec "\<lambda>b. b" "serialize_blob_get 32" "\<lambda>b. length b = 32"
  by unfold_locales (auto simp: serialize_blob_get_put)

lemma serialize_uint_loop_put:
  "unat v < 2 ^ (8 * n) \<Longrightarrow> serialize_uint_loop n shift ret (serialize_uint_put n v @ rest) =
    Some (ret + push_bit shift v, rest)"
proof (induction n arbitrary: v shift ret)
  case 0
  then have "v = 0" by (simp add: word_unat_eq_iff)
  then show ?case by simp
next
  case (Suc n)
  have low: "ucast (ucast (v AND 0xff) :: byte) = take_bit 8 v"
  proof -
    have "unat (v AND 0xff) = unat v mod 256"
      using unat_and_mask [of v 8] by (simp add: mask_eq_exp_minus_1)
    moreover have "unat (take_bit 8 v) = unat v mod 256"
      using unsigned_take_bit_eq [of 8 v] by (simp only: take_bit_eq_mod) simp
    ultimately show ?thesis by (simp only: word_unat_eq_iff unat_ucast_byte_u64 unat_ucast_u64_byte) simp
  qed
  have "unat (drop_bit 8 v) < 2 ^ (8 * n)"
    using Suc.prems by (simp add: unat_drop_u64 power_add less_mult_imp_div_less mult.commute)
  from Suc.IH [OF this, of "shift + 8" "ret + push_bit shift (take_bit 8 v)"]
  have "serialize_uint_loop (Suc n) shift ret (serialize_uint_put (Suc n) v @ rest) =
      Some (ret + push_bit shift (take_bit 8 v) + push_bit (shift + 8) (drop_bit 8 v), rest)"
    by (simp add: low)
  also have "push_bit (shift + 8) (drop_bit 8 v) = push_bit shift (push_bit 8 (drop_bit 8 v))"
    by (simp only: push_bit_push_bit)
  also have "ret + push_bit shift (take_bit 8 v) + push_bit shift (push_bit 8 (drop_bit 8 v))
      = ret + push_bit shift (push_bit 8 (drop_bit 8 v) + take_bit 8 v)"
    by (simp only: push_bit_add ac_simps)
  also have "push_bit 8 (drop_bit 8 v) + take_bit 8 v = v" by (rule bits_ident)
  finally show ?case .
qed

lemma serialize_uint_get_put [codec]:
  "unat v < 2 ^ (8 * n) \<Longrightarrow> serialize_uint_get n (serialize_uint_put n v @ rest) = Some (v, rest)"
  using serialize_uint_loop_put [of v n 0 0 rest] by (simp add: serialize_uint_get_def)

lemma length_serialize_uint_put [simp]: "length (serialize_uint_put n v) = n"
  by (induction n arbitrary: v) auto

lemma string_get_put [codec]:
  assumes "length str < 2 ^ 64"
  shows "do_serialize_string_get (do_serialize_string_put str @ rest) = Some (str, rest)"
proof -
  have "unat (word_of_nat (length str) :: u64) = length str"
    using assms by (simp add: unsigned_of_nat take_bit_nat_eq_self)
  then show ?thesis
    by (simp add: do_serialize_string_get_def do_serialize_string_put_def codec)
qed

text \<open>Bytes, as the elements of a \<open>std::vector<uint8_t>\<close>, are written by \<open>serialize_int\<close>.\<close>

definition put_byte :: "byte \<Rightarrow> byte list" where
  "put_byte b = serialize_uint_put 1 (ucast b)"

definition get_byte :: "byte list \<Rightarrow> (byte \<times> byte list) option" where
  "get_byte bs = do { (v, bs) \<leftarrow> serialize_uint_get 1 bs; Some (ucast v, bs) }"

interpretation byte_elem: element_codec put_byte get_byte "\<lambda>_. True"
proof
  fix v :: byte and rest
  have "ucast (ucast v :: u64) = v" by (simp add: word_unat_eq_iff unat_ucast_u64_byte)
  then show "get_byte (put_byte v @ rest) = Some (v, rest)"
    using serialize_uint_get_put [of "ucast v" 1 rest] by (simp add: get_byte_def put_byte_def)
next
  fix v :: byte
  show "put_byte v \<noteq> []" using length_serialize_uint_put [of 1 "ucast v"] by (auto simp: put_byte_def)
qed

end
