(* ===== verification/TxFormat.thy ===== *)
theory TxFormat
  imports Serialization
begin

text \<open>The binary format of transactions and blocks: the \<open>do_serialize\<close> members of
  \<open>src/cryptonote_basic/cryptonote_basic.h\<close> and \<open>src/ringct/rctTypes.h\<close> on the binary archive.
  Keys, hashes, key images and signatures are byte strings of their size. The members that are
  never serialised (the hash caches, \<open>message\<close>, \<open>mixRing\<close>, \<open>senderPk\<close>, \<open>V\<close>, \<open>II\<close> and the \<open>dest\<close>
  of \<open>outPk\<close>) are left out of the records. A writer that can return false has an optional
  result.\<close>

type_synonym key = "byte list"

definition MAX_TRANSACTION_VERSION :: u64 where "MAX_TRANSACTION_VERSION = 3"

section \<open>Data\<close>

datatype txout_target_v =
    Txout_to_script "key list" "byte list"
  | Txout_to_scripthash key
  | Txout_to_key key

datatype txin_v =
    Txin_gen u64
  | Txin_to_script key u64 "byte list"
  | Txin_to_scripthash key u64 "key list" "byte list" "byte list"
  | Txin_to_key u64 "u64 list" key

record tx_out =
  amount :: u64
  target :: txout_target_v

record transaction_prefix =
  version :: u64
  unlock_time :: u64
  vin :: "txin_v list"
  vout :: "tx_out list"
  extra :: "byte list"

record ecdhTuple =
  ecdh_mask :: key
  ecdh_amount :: key

record rangeSig =
  asig :: "byte list"
  Ci :: "byte list"

record Bulletproof =
  bp_A :: key
  bp_S :: key
  bp_T1 :: key
  bp_T2 :: key
  bp_taux :: key
  bp_mu :: key
  bp_L :: "key list"
  bp_R :: "key list"
  bp_a :: key
  bp_b :: key
  bp_t :: key

record mgSig =
  mg_ss :: "key list list"
  mg_cc :: key

record rctSigBase =
  rct_type :: u8
  pseudoOuts :: "key list"
  ecdhInfo :: "ecdhTuple list"
  outPk :: "key list"
  txnFee :: u64

record rctSigPrunable =
  rangeSigs :: "rangeSig list"
  bulletproofs :: "Bulletproof list"
  MGs :: "mgSig list"
  p_pseudoOuts :: "key list"

record transaction = transaction_prefix +
  signatures :: "byte list list list"
  rct_base :: rctSigBase
  rct_p :: rctSigPrunable

record block_header =
  major_version :: u8
  minor_version :: u8
  timestamp :: u64
  prev_id :: key
  nonce :: u32

record block = block_header +
  miner_tx :: transaction
  tx_hashes :: "key list"

definition RCTTypeNull :: u8 where "RCTTypeNull = 0"
definition RCTTypeFull :: u8 where "RCTTypeFull = 1"
definition RCTTypeSimple :: u8 where "RCTTypeSimple = 2"
definition RCTTypeBulletproof :: u8 where "RCTTypeBulletproof = 3"

section \<open>Inputs and outputs\<close>

abbreviation put_keys :: "key list \<Rightarrow> byte list" where
  "put_keys \<equiv> do_serialize_container_put (\<lambda>k. k)"

abbreviation get_keys :: "byte list \<Rightarrow> (key list \<times> byte list) option" where
  "get_keys \<equiv> do_serialize_container_get (serialize_blob_get 32)"

abbreviation put_bytes :: "byte list \<Rightarrow> byte list" where
  "put_bytes \<equiv> do_serialize_container_put put_byte"

abbreviation get_bytes :: "byte list \<Rightarrow> (byte list \<times> byte list) option" where
  "get_bytes \<equiv> do_serialize_container_get get_byte"

fun put_txout_target :: "txout_target_v \<Rightarrow> byte list" where
  "put_txout_target (Txout_to_script keys script) = put_byte 0x0 @ put_keys keys @ put_bytes script"
| "put_txout_target (Txout_to_scripthash hash) = put_byte 0x1 @ hash"
| "put_txout_target (Txout_to_key key) = put_byte 0x2 @ key"

definition get_txout_target :: "byte list \<Rightarrow> (txout_target_v \<times> byte list) option" where
  "get_txout_target bs = do {
     (tag, bs) \<leftarrow> get_byte bs;
     if tag = 0x0 then do {
       (keys, bs) \<leftarrow> get_keys bs;
       (script, bs) \<leftarrow> get_bytes bs;
       Some (Txout_to_script keys script, bs)
     }
     else if tag = 0x1 then do { (hash, bs) \<leftarrow> serialize_blob_get 32 bs; Some (Txout_to_scripthash hash, bs) }
     else if tag = 0x2 then do { (key, bs) \<leftarrow> serialize_blob_get 32 bs; Some (Txout_to_key key, bs) }
     else None
   }"

definition put_tx_out :: "tx_out \<Rightarrow> byte list" where
  "put_tx_out out = write_varint (amount out) @ put_txout_target (target out)"

definition get_tx_out :: "byte list \<Rightarrow> (tx_out \<times> byte list) option" where
  "get_tx_out bs = do {
     (a, bs) \<leftarrow> serialize_varint_get 64 bs;
     (t, bs) \<leftarrow> get_txout_target bs;
     Some (\<lparr>amount = a, target = t\<rparr>, bs)
   }"

fun put_txin :: "txin_v \<Rightarrow> byte list" where
  "put_txin (Txin_gen height) = put_byte 0xff @ write_varint height"
| "put_txin (Txin_to_script prev prevout sigset) =
     put_byte 0x0 @ prev @ write_varint prevout @ put_bytes sigset"
| "put_txin (Txin_to_scripthash prev prevout keys script sigset) =
     put_byte 0x1 @ prev @ write_varint prevout @ put_keys keys @ put_bytes script @ put_bytes sigset"
| "put_txin (Txin_to_key amt key_offsets k_image) =
     put_byte 0x2 @ write_varint amt @ do_serialize_container_put write_varint key_offsets @ k_image"

definition get_txin :: "byte list \<Rightarrow> (txin_v \<times> byte list) option" where
  "get_txin bs = do {
     (tag, bs) \<leftarrow> get_byte bs;
     if tag = 0xff then do { (height, bs) \<leftarrow> serialize_varint_get 64 bs; Some (Txin_gen height, bs) }
     else if tag = 0x0 then do {
       (prev, bs) \<leftarrow> serialize_blob_get 32 bs;
       (prevout, bs) \<leftarrow> serialize_varint_get 64 bs;
       (sigset, bs) \<leftarrow> get_bytes bs;
       Some (Txin_to_script prev prevout sigset, bs)
     }
     else if tag = 0x1 then do {
       (prev, bs) \<leftarrow> serialize_blob_get 32 bs;
       (prevout, bs) \<leftarrow> serialize_varint_get 64 bs;
       (keys, bs) \<leftarrow> get_keys bs;
       (script, bs) \<leftarrow> get_bytes bs;
       (sigset, bs) \<leftarrow> get_bytes bs;
       Some (Txin_to_scripthash prev prevout keys script sigset, bs)
     }
     else if tag = 0x2 then do {
       (amt, bs) \<leftarrow> serialize_varint_get 64 bs;
       (key_offsets, bs) \<leftarrow> do_serialize_container_get (serialize_varint_get 64) bs;
       (k_image, bs) \<leftarrow> serialize_blob_get 32 bs;
       Some (Txin_to_key amt key_offsets k_image, bs)
     }
     else None
   }"

section \<open>The prefix\<close>

definition put_transaction_prefix :: "'a transaction_prefix_scheme \<Rightarrow> byte list option" where
  "put_transaction_prefix p =
     (if version p = 0 \<or> MAX_TRANSACTION_VERSION < version p then None
      else Some (write_varint (version p) @ write_varint (unlock_time p)
        @ do_serialize_container_put put_txin (vin p) @ do_serialize_container_put put_tx_out (vout p)
        @ put_bytes (extra p)))"

definition get_transaction_prefix :: "byte list \<Rightarrow> (transaction_prefix \<times> byte list) option" where
  "get_transaction_prefix bs = do {
     (ver, bs) \<leftarrow> serialize_varint_get 64 bs;
     if ver = 0 \<or> MAX_TRANSACTION_VERSION < ver then None else do {
       (ut, bs) \<leftarrow> serialize_varint_get 64 bs;
       (ins, bs) \<leftarrow> do_serialize_container_get get_txin bs;
       (outs, bs) \<leftarrow> do_serialize_container_get get_tx_out bs;
       (ext, bs) \<leftarrow> get_bytes bs;
       Some (\<lparr>version = ver, unlock_time = ut, vin = ins, vout = outs, extra = ext\<rparr>, bs)
     }
   }"

section \<open>Signatures of version 1\<close>

fun get_signature_size :: "txin_v \<Rightarrow> nat" where
  "get_signature_size (Txin_to_key _ key_offsets _) = length key_offsets"
| "get_signature_size _ = 0"

fun put_signature_lists :: "txin_v list \<Rightarrow> byte list list list \<Rightarrow> byte list option" where
  "put_signature_lists [] sigs = Some []"
| "put_signature_lists (i # ins) [] = None"
| "put_signature_lists (i # ins) (s # sigs) =
     (if get_signature_size i \<noteq> length s then None
      else map_option (\<lambda>r. concat s @ r) (put_signature_lists ins sigs))"

definition put_signatures :: "txin_v list \<Rightarrow> byte list list list \<Rightarrow> byte list option" where
  "put_signatures ins sigs =
     (if sigs = [] then (if list_all (\<lambda>i. get_signature_size i = 0) ins then Some [] else None)
      else if length ins \<noteq> length sigs then None
      else put_signature_lists ins sigs)"

definition get_signature_vector :: "nat \<Rightarrow> byte list \<Rightarrow> (byte list list \<times> byte list) option" where
  "get_signature_vector cnt bs =
     (if length bs < cnt * 64 then None else get_elements (serialize_blob_get 64) cnt bs)"

fun get_signatures :: "txin_v list \<Rightarrow> byte list \<Rightarrow> (byte list list list \<times> byte list) option" where
  "get_signatures [] bs = Some ([], bs)"
| "get_signatures (i # ins) bs = do {
     (s, bs) \<leftarrow> get_signature_vector (get_signature_size i) bs;
     (sigs, bs) \<leftarrow> get_signatures ins bs;
     Some (s # sigs, bs)
   }"

section \<open>Ring confidential transaction data\<close>

definition put_ecdhTuple :: "ecdhTuple \<Rightarrow> byte list" where
  "put_ecdhTuple e = ecdh_mask e @ ecdh_amount e"

definition get_ecdhTuple :: "byte list \<Rightarrow> (ecdhTuple \<times> byte list) option" where
  "get_ecdhTuple bs = do {
     (m, bs) \<leftarrow> serialize_blob_get 32 bs;
     (a, bs) \<leftarrow> serialize_blob_get 32 bs;
     Some (\<lparr>ecdh_mask = m, ecdh_amount = a\<rparr>, bs)
   }"

text \<open>\<open>boroSig\<close> is the blob of two times 64 keys and one more, \<open>key64\<close> that of 64 keys.\<close>

definition put_rangeSig :: "rangeSig \<Rightarrow> byte list" where
  "put_rangeSig r = asig r @ Ci r"

definition get_rangeSig :: "byte list \<Rightarrow> (rangeSig \<times> byte list) option" where
  "get_rangeSig bs = do {
     (a, bs) \<leftarrow> serialize_blob_get (2 * 64 * 32 + 32) bs;
     (c, bs) \<leftarrow> serialize_blob_get (64 * 32) bs;
     Some (\<lparr>asig = a, Ci = c\<rparr>, bs)
   }"

definition put_Bulletproof :: "Bulletproof \<Rightarrow> byte list option" where
  "put_Bulletproof p =
     (if bp_L p = [] \<or> length (bp_L p) \<noteq> length (bp_R p) then None
      else Some (bp_A p @ bp_S p @ bp_T1 p @ bp_T2 p @ bp_taux p @ bp_mu p
        @ put_keys (bp_L p) @ put_keys (bp_R p) @ bp_a p @ bp_b p @ bp_t p))"

definition get_Bulletproof :: "byte list \<Rightarrow> (Bulletproof \<times> byte list) option" where
  "get_Bulletproof bs = do {
     (A, bs) \<leftarrow> serialize_blob_get 32 bs;
     (S, bs) \<leftarrow> serialize_blob_get 32 bs;
     (T1, bs) \<leftarrow> serialize_blob_get 32 bs;
     (T2, bs) \<leftarrow> serialize_blob_get 32 bs;
     (taux, bs) \<leftarrow> serialize_blob_get 32 bs;
     (mu, bs) \<leftarrow> serialize_blob_get 32 bs;
     (L, bs) \<leftarrow> get_keys bs;
     (R, bs) \<leftarrow> get_keys bs;
     (a, bs) \<leftarrow> serialize_blob_get 32 bs;
     (b, bs) \<leftarrow> serialize_blob_get 32 bs;
     (t, bs) \<leftarrow> serialize_blob_get 32 bs;
     if L = [] \<or> length L \<noteq> length R then None
     else Some (\<lparr>bp_A = A, bp_S = S, bp_T1 = T1, bp_T2 = T2, bp_taux = taux, bp_mu = mu,
       bp_L = L, bp_R = R, bp_a = a, bp_b = b, bp_t = t\<rparr>, bs)
   }"

definition n_bulletproof_max_amounts :: "Bulletproof \<Rightarrow> nat" where
  "n_bulletproof_max_amounts proof =
     (if \<not> 6 \<le> length (bp_L proof) \<or> length (bp_L proof) \<noteq> length (bp_R proof)
         \<or> \<not> length (bp_L proof) \<le> 6 + 4 then 0
      else 2 ^ (length (bp_L proof) - 6))"

fun n_bulletproofs_max_amounts_from :: "nat \<Rightarrow> Bulletproof list \<Rightarrow> nat" where
  "n_bulletproofs_max_amounts_from n [] = n"
| "n_bulletproofs_max_amounts_from n (proof # proofs) =
     (let n2 = n_bulletproof_max_amounts proof in
      if \<not> n2 < 2 ^ 32 - 1 - n then 0
      else if n2 = 0 then 0
      else n_bulletproofs_max_amounts_from (n + n2) proofs)"

definition n_bulletproofs_max_amounts :: "Bulletproof list \<Rightarrow> nat" where
  "n_bulletproofs_max_amounts proofs = n_bulletproofs_max_amounts_from 0 proofs"

definition known_rct_type :: "u8 \<Rightarrow> bool" where
  "known_rct_type t \<longleftrightarrow> \<not> (t \<noteq> RCTTypeFull \<and> t \<noteq> RCTTypeSimple \<and> t \<noteq> RCTTypeBulletproof)"

definition put_rctsig_base :: "rctSigBase \<Rightarrow> nat \<Rightarrow> nat \<Rightarrow> byte list option" where
  "put_rctsig_base r inputs outputs =
     (if rct_type r = RCTTypeNull then Some (put_byte (rct_type r))
      else if \<not> known_rct_type (rct_type r) then None
      else if rct_type r = RCTTypeSimple \<and> length (pseudoOuts r) \<noteq> inputs then None
      else if length (ecdhInfo r) \<noteq> outputs then None
      else if length (outPk r) \<noteq> outputs then None
      else Some (put_byte (rct_type r) @ write_varint (txnFee r)
        @ (if rct_type r = RCTTypeSimple then concat (pseudoOuts r) else [])
        @ concat (map put_ecdhTuple (ecdhInfo r)) @ concat (outPk r)))"

definition null_rct_base :: rctSigBase where
  "null_rct_base = \<lparr>rct_type = RCTTypeNull, pseudoOuts = [], ecdhInfo = [], outPk = [], txnFee = 0\<rparr>"

definition get_rctsig_base :: "nat \<Rightarrow> nat \<Rightarrow> byte list \<Rightarrow> (rctSigBase \<times> byte list) option" where
  "get_rctsig_base inputs outputs bs = do {
     (t, bs) \<leftarrow> get_byte bs;
     if t = RCTTypeNull then Some (null_rct_base, bs)
     else if \<not> known_rct_type t then None
     else do {
       (fee, bs) \<leftarrow> serialize_varint_get 64 bs;
       (pouts, bs) \<leftarrow> (if t = RCTTypeSimple then get_elements (serialize_blob_get 32) inputs bs else Some ([], bs));
       (ecdh, bs) \<leftarrow> get_elements get_ecdhTuple outputs bs;
       (pks, bs) \<leftarrow> get_elements (serialize_blob_get 32) outputs bs;
       Some (\<lparr>rct_type = t, pseudoOuts = pouts, ecdhInfo = ecdh, outPk = pks, txnFee = fee\<rparr>, bs)
     }
   }"

text \<open>The matrix of a signature is stored without its sizes: \<open>rows\<close> rows of \<open>cols\<close> keys.\<close>

definition put_mgSig :: "nat \<Rightarrow> nat \<Rightarrow> mgSig \<Rightarrow> byte list option" where
  "put_mgSig rows cols g =
     (if length (mg_ss g) \<noteq> rows then None
      else if \<not> list_all (\<lambda>row. length row = cols) (mg_ss g) then None
      else Some (concat (map concat (mg_ss g)) @ mg_cc g))"

definition get_mgSig :: "nat \<Rightarrow> nat \<Rightarrow> byte list \<Rightarrow> (mgSig \<times> byte list) option" where
  "get_mgSig rows cols bs = do {
     (ss, bs) \<leftarrow> get_elements (get_elements (serialize_blob_get 32) cols) rows bs;
     (cc, bs) \<leftarrow> serialize_blob_get 32 bs;
     Some (\<lparr>mg_ss = ss, mg_cc = cc\<rparr>, bs)
   }"

fun put_all :: "('a \<Rightarrow> byte list option) \<Rightarrow> 'a list \<Rightarrow> byte list option" where
  "put_all put [] = Some []"
| "put_all put (x # xs) = do { b \<leftarrow> put x; bs \<leftarrow> put_all put xs; Some (b @ bs) }"

definition mg_elements :: "u8 \<Rightarrow> nat \<Rightarrow> nat" where
  "mg_elements t inputs = (if t = RCTTypeSimple \<or> t = RCTTypeBulletproof then inputs else 1)"

definition mg_columns :: "u8 \<Rightarrow> nat \<Rightarrow> nat" where
  "mg_columns t inputs = (if t = RCTTypeSimple \<or> t = RCTTypeBulletproof then 1 else inputs) + 1"

definition put_rctsig_prunable :: "rctSigPrunable \<Rightarrow> u8 \<Rightarrow> nat \<Rightarrow> nat \<Rightarrow> u64 \<Rightarrow> byte list option" where
  "put_rctsig_prunable p t inputs outputs mixin =
     (if t = RCTTypeNull then Some []
      else if \<not> known_rct_type t then None
      else do {
        proofs \<leftarrow>
          (if t = RCTTypeBulletproof then do {
             let nbp = (word_of_nat (length (bulletproofs p)) :: u32);
             bps \<leftarrow> (if outputs < unat nbp then None
                    else put_all put_Bulletproof (take (unat nbp) (bulletproofs p)));
             if n_bulletproofs_max_amounts (bulletproofs p) < outputs then None
             else Some (serialize_uint_put 4 (ucast nbp) @ bps)
           }
           else if length (rangeSigs p) \<noteq> outputs then None
           else Some (concat (map put_rangeSig (rangeSigs p))));
        mgs \<leftarrow>
          (if length (MGs p) \<noteq> mg_elements t inputs then None
           else put_all (put_mgSig (unat (mixin + 1)) (mg_columns t inputs)) (MGs p));
        pouts \<leftarrow>
          (if t = RCTTypeBulletproof
           then (if length (p_pseudoOuts p) \<noteq> inputs then None else Some (concat (p_pseudoOuts p)))
           else Some []);
        Some (proofs @ mgs @ pouts)
      })"

definition null_rct_p :: rctSigPrunable where
  "null_rct_p = \<lparr>rangeSigs = [], bulletproofs = [], MGs = [], p_pseudoOuts = []\<rparr>"

definition get_rctsig_prunable ::
    "u8 \<Rightarrow> nat \<Rightarrow> nat \<Rightarrow> u64 \<Rightarrow> byte list \<Rightarrow> (rctSigPrunable \<times> byte list) option" where
  "get_rctsig_prunable t inputs outputs mixin bs =
     (if t = RCTTypeNull then Some (null_rct_p, bs)
      else if \<not> known_rct_type t then None
      else do {
        (rs, bps, bs) \<leftarrow>
          (if t = RCTTypeBulletproof then do {
             (nbp, bs) \<leftarrow> serialize_uint_get 4 bs;
             if outputs < unat nbp then None else do {
               (bps, bs) \<leftarrow> get_elements get_Bulletproof (unat nbp) bs;
               if n_bulletproofs_max_amounts bps < outputs then None else Some ([], bps, bs)
             }
           }
           else do {
             (rs, bs) \<leftarrow> get_elements get_rangeSig outputs bs;
             Some (rs, [], bs)
           });
        (mgs, bs) \<leftarrow>
          get_elements (get_mgSig (unat (mixin + 1)) (mg_columns t inputs)) (mg_elements t inputs) bs;
        (pouts, bs) \<leftarrow>
          (if t = RCTTypeBulletproof then get_elements (serialize_blob_get 32) inputs bs else Some ([], bs));
        Some (\<lparr>rangeSigs = rs, bulletproofs = bps, MGs = mgs, p_pseudoOuts = pouts\<rparr>, bs)
      })"

section \<open>Transactions and blocks\<close>

definition tx_mixin :: "txin_v list \<Rightarrow> u64" where
  "tx_mixin ins =
     (case ins of Txin_to_key _ key_offsets _ # _ \<Rightarrow> word_of_nat (length key_offsets) - 1 | _ \<Rightarrow> 0)"

definition put_transaction :: "transaction \<Rightarrow> byte list option" where
  "put_transaction tx = do {
     prefix \<leftarrow> put_transaction_prefix tx;
     if version tx = 1 then do {
       sigs \<leftarrow> put_signatures (vin tx) (signatures tx);
       Some (prefix @ sigs)
     }
     else if vin tx = [] then Some prefix
     else do {
       base \<leftarrow> put_rctsig_base (rct_base tx) (length (vin tx)) (length (vout tx));
       prunable \<leftarrow>
         (if rct_type (rct_base tx) \<noteq> RCTTypeNull
          then put_rctsig_prunable (rct_p tx) (rct_type (rct_base tx)) (length (vin tx)) (length (vout tx))
                 (tx_mixin (vin tx))
          else Some []);
       Some (prefix @ base @ prunable)
     }
   }"

definition get_transaction :: "byte list \<Rightarrow> (transaction \<times> byte list) option" where
  "get_transaction bs = do {
     (p, bs) \<leftarrow> get_transaction_prefix bs;
     (sigs, base, prunable, bs) \<leftarrow>
       (if version p = 1 then do {
          (sigs, bs) \<leftarrow> get_signatures (vin p) bs;
          Some (sigs, null_rct_base, null_rct_p, bs)
        }
        else if vin p = [] then Some ([], null_rct_base, null_rct_p, bs)
        else do {
          (base, bs) \<leftarrow> get_rctsig_base (length (vin p)) (length (vout p)) bs;
          (prunable, bs) \<leftarrow>
            (if rct_type base \<noteq> RCTTypeNull
             then get_rctsig_prunable (rct_type base) (length (vin p)) (length (vout p)) (tx_mixin (vin p)) bs
             else Some (null_rct_p, bs));
          Some ([], base, prunable, bs)
        });
     Some (transaction_prefix.extend p (transaction.fields sigs base prunable), bs)
   }"

definition put_block_header :: "'a block_header_scheme \<Rightarrow> byte list" where
  "put_block_header b =
     write_varint (ucast (major_version b)) @ write_varint (ucast (minor_version b))
     @ write_varint (timestamp b) @ prev_id b @ serialize_uint_put 4 (ucast (nonce b))"

definition get_block_header :: "byte list \<Rightarrow> (block_header \<times> byte list) option" where
  "get_block_header bs = do {
     (maj, bs) \<leftarrow> serialize_varint_get 8 bs;
     (mi, bs) \<leftarrow> serialize_varint_get 8 bs;
     (ts, bs) \<leftarrow> serialize_varint_get 64 bs;
     (prev, bs) \<leftarrow> serialize_blob_get 32 bs;
     (n, bs) \<leftarrow> serialize_uint_get 4 bs;
     Some (\<lparr>major_version = ucast maj, minor_version = ucast mi, timestamp = ts, prev_id = prev,
       nonce = ucast n\<rparr>, bs)
   }"

definition put_block :: "block \<Rightarrow> byte list option" where
  "put_block b = do {
     tx \<leftarrow> put_transaction (miner_tx b);
     Some (put_block_header b @ tx @ put_keys (tx_hashes b))
   }"

definition get_block :: "byte list \<Rightarrow> (block \<times> byte list) option" where
  "get_block bs = do {
     (h, bs) \<leftarrow> get_block_header bs;
     (tx, bs) \<leftarrow> get_transaction bs;
     (hs, bs) \<leftarrow> get_keys bs;
     Some (block_header.extend h (block.fields tx hs), bs)
   }"

section \<open>Well-formed values\<close>

text \<open>Byte strings have the size of their type and vectors fit in memory; members that the type
  of a transaction does not use have the value a parsed object has there.\<close>

definition key_ok :: "key \<Rightarrow> bool" where "key_ok k \<longleftrightarrow> length k = 32"

definition vector_ok :: "('a \<Rightarrow> bool) \<Rightarrow> 'a list \<Rightarrow> bool" where
  "vector_ok ok v \<longleftrightarrow> list_all ok v \<and> length v < 2 ^ 64"

abbreviation bytes_ok :: "byte list \<Rightarrow> bool" where
  "bytes_ok \<equiv> vector_ok (\<lambda>_. True)"

fun txout_target_ok :: "txout_target_v \<Rightarrow> bool" where
  "txout_target_ok (Txout_to_script keys script) \<longleftrightarrow> vector_ok key_ok keys \<and> bytes_ok script"
| "txout_target_ok (Txout_to_scripthash hash) \<longleftrightarrow> key_ok hash"
| "txout_target_ok (Txout_to_key key) \<longleftrightarrow> key_ok key"

definition tx_out_ok :: "tx_out \<Rightarrow> bool" where
  "tx_out_ok out \<longleftrightarrow> txout_target_ok (target out)"

fun txin_ok :: "txin_v \<Rightarrow> bool" where
  "txin_ok (Txin_gen height) \<longleftrightarrow> True"
| "txin_ok (Txin_to_script prev prevout sigset) \<longleftrightarrow> key_ok prev \<and> bytes_ok sigset"
| "txin_ok (Txin_to_scripthash prev prevout keys script sigset) \<longleftrightarrow>
     key_ok prev \<and> vector_ok key_ok keys \<and> bytes_ok script \<and> bytes_ok sigset"
| "txin_ok (Txin_to_key amt key_offsets k_image) \<longleftrightarrow>
     vector_ok (\<lambda>_. True) key_offsets \<and> key_ok k_image"

definition prefix_ok :: "'a transaction_prefix_scheme \<Rightarrow> bool" where
  "prefix_ok p \<longleftrightarrow> vector_ok txin_ok (vin p) \<and> vector_ok tx_out_ok (vout p) \<and> bytes_ok (extra p)"

definition ecdh_ok :: "ecdhTuple \<Rightarrow> bool" where
  "ecdh_ok e \<longleftrightarrow> key_ok (ecdh_mask e) \<and> key_ok (ecdh_amount e)"

definition rangeSig_ok :: "rangeSig \<Rightarrow> bool" where
  "rangeSig_ok r \<longleftrightarrow> length (asig r) = 2 * 64 * 32 + 32 \<and> length (Ci r) = 64 * 32"

definition Bulletproof_ok :: "Bulletproof \<Rightarrow> bool" where
  "Bulletproof_ok p \<longleftrightarrow> list_all key_ok [bp_A p, bp_S p, bp_T1 p, bp_T2 p, bp_taux p, bp_mu p, bp_a p, bp_b p, bp_t p]
     \<and> vector_ok key_ok (bp_L p) \<and> vector_ok key_ok (bp_R p)"

definition mgSig_ok :: "mgSig \<Rightarrow> bool" where
  "mgSig_ok g \<longleftrightarrow> list_all (list_all key_ok) (mg_ss g) \<and> key_ok (mg_cc g)"

definition rct_base_ok :: "rctSigBase \<Rightarrow> bool" where
  "rct_base_ok r \<longleftrightarrow>
     (if rct_type r = RCTTypeNull then r = null_rct_base
      else list_all key_ok (pseudoOuts r) \<and> list_all ecdh_ok (ecdhInfo r) \<and> list_all key_ok (outPk r)
        \<and> (rct_type r \<noteq> RCTTypeSimple \<longrightarrow> pseudoOuts r = []))"

definition rct_p_ok :: "u8 \<Rightarrow> rctSigPrunable \<Rightarrow> bool" where
  "rct_p_ok t p \<longleftrightarrow>
     (if t = RCTTypeNull then p = null_rct_p
      else list_all rangeSig_ok (rangeSigs p) \<and> list_all Bulletproof_ok (bulletproofs p)
        \<and> length (bulletproofs p) < 2 ^ 32
        \<and> list_all mgSig_ok (MGs p) \<and> list_all key_ok (p_pseudoOuts p)
        \<and> (if t = RCTTypeBulletproof then rangeSigs p = [] else bulletproofs p = [] \<and> p_pseudoOuts p = []))"

definition transaction_ok :: "transaction \<Rightarrow> bool" where
  "transaction_ok tx \<longleftrightarrow> prefix_ok tx \<and>
     (if version tx = 1
      then length (signatures tx) = length (vin tx) \<and> list_all (list_all (\<lambda>s. length s = 64)) (signatures tx)
        \<and> rct_base tx = null_rct_base \<and> rct_p tx = null_rct_p
      else signatures tx = [] \<and>
        (if vin tx = [] then rct_base tx = null_rct_base \<and> rct_p tx = null_rct_p
         else rct_base_ok (rct_base tx) \<and> rct_p_ok (rct_type (rct_base tx)) (rct_p tx)))"

definition block_ok :: "block \<Rightarrow> bool" where
  "block_ok b \<longleftrightarrow> key_ok (prev_id b) \<and> transaction_ok (miner_tx b) \<and> vector_ok key_ok (tx_hashes b)"

section \<open>Round trips\<close>

lemma key_get [codec]: "key_ok k \<Longrightarrow> serialize_blob_get 32 (k @ rest) = Some (k, rest)"
  by (simp add: key_ok_def serialize_blob_get_put)

lemma byte_get [codec]: "get_byte (put_byte b @ rest) = Some (b, rest)"
  by (simp add: byte_elem.get_put)

lemma keys_get [codec]: "vector_ok key_ok ks \<Longrightarrow> get_keys (put_keys ks @ rest) = Some (ks, rest)"
  using blob32.get_container_put [of ks] by (simp add: vector_ok_def key_ok_def [abs_def])

lemma bytes_get [codec]: "bytes_ok v \<Longrightarrow> get_bytes (put_bytes v @ rest) = Some (v, rest)"
  using byte_elem.get_container_put [of v] by (simp add: vector_ok_def)

lemma offsets_get [codec]: "vector_ok (\<lambda>_. True) v \<Longrightarrow>
    do_serialize_container_get (serialize_varint_get 64) (do_serialize_container_put write_varint v @ rest) = Some (v, rest)"
  using varint64.get_container_put [of v] by (simp add: vector_ok_def)

lemma put_byte_not_Nil [simp]: "put_byte b \<noteq> []"
  using byte_elem.put_nonempty by simp

interpretation txout_target: element_codec put_txout_target get_txout_target txout_target_ok
proof
  fix v rest
  assume "txout_target_ok v"
  then show "get_txout_target (put_txout_target v @ rest) = Some (v, rest)"
    by (cases v) (simp_all add: get_txout_target_def codec)
next
  fix v
  show "put_txout_target v \<noteq> []" by (cases v) simp_all
qed

interpretation tx_out_elem: element_codec put_tx_out get_tx_out tx_out_ok
  by unfold_locales (simp_all add: put_tx_out_def get_tx_out_def tx_out_ok_def codec txout_target.get_put)

interpretation txin: element_codec put_txin get_txin txin_ok
proof
  fix v rest
  assume "txin_ok v"
  then show "get_txin (put_txin v @ rest) = Some (v, rest)"
    by (cases v) (simp_all add: get_txin_def codec)
next
  fix v
  show "put_txin v \<noteq> []" by (cases v) simp_all
qed

lemma prefix_get:
  assumes "prefix_ok p" and "put_transaction_prefix p = Some b"
  shows "get_transaction_prefix (b @ rest) = Some (transaction_prefix.truncate p, rest)"
proof -
  have ver: "\<not> (version p = 0 \<or> MAX_TRANSACTION_VERSION < version p)"
    using assms(2) by (auto simp: put_transaction_prefix_def split: if_splits)
  then have b: "b = write_varint (version p) @ write_varint (unlock_time p)
        @ do_serialize_container_put put_txin (vin p) @ do_serialize_container_put put_tx_out (vout p)
        @ put_bytes (extra p)"
    using assms(2) by (auto simp: put_transaction_prefix_def)
  show ?thesis using assms(1) ver
    by (simp add: b get_transaction_prefix_def codec prefix_ok_def vector_ok_def [of txin_ok]
        vector_ok_def [of tx_out_ok] txin.get_container_put tx_out_elem.get_container_put
        transaction_prefix.truncate_def)
qed

lemma elements_get:
  assumes "\<And>v rest. ok v \<Longrightarrow> get (put v @ rest) = Some (v, rest)" and "list_all ok vs"
  shows "get_elements get (length vs) (concat (map put vs) @ rest) = Some (vs, rest)"
  using codec.get_elements_put [OF codec.intro, of ok get put vs rest] assms by blast

lemma keys_elements_get [codec]:
  "list_all key_ok ks \<Longrightarrow> length ks = n \<Longrightarrow> get_elements (serialize_blob_get 32) n (concat ks @ rest) = Some (ks, rest)"
  using elements_get [of key_ok "serialize_blob_get 32" "\<lambda>k. k" ks rest] by (simp add: key_get)

lemma signature_vector_get:
  assumes "list_all (\<lambda>s. length s = 64) v"
  shows "get_signature_vector (length v) (concat v @ rest) = Some (v, rest)"
proof -
  have "length (concat v) = length v * 64"
    using length_concat_blocks [of v 64] assms by (simp add: list_all_iff)
  then show ?thesis
    using elements_get [of "\<lambda>s. length s = 64" "serialize_blob_get 64" "\<lambda>k. k" v rest] assms
    by (simp add: get_signature_vector_def serialize_blob_get_put)
qed

lemma signature_lists_get:
  "put_signature_lists ins sigs = Some b \<Longrightarrow> length ins = length sigs \<Longrightarrow>
   list_all (list_all (\<lambda>s. length s = 64)) sigs \<Longrightarrow> get_signatures ins (b @ rest) = Some (sigs, rest)"
proof (induction ins sigs arbitrary: b rule: put_signature_lists.induct)
  case (3 i ins s sigs)
  then obtain r where "get_signature_size i = length s" "put_signature_lists ins sigs = Some r" "b = concat s @ r"
    by (auto split: if_splits)
  then show ?case using 3 by (simp add: signature_vector_get)
qed auto

lemma signatures_get:
  assumes "put_signatures ins sigs = Some b" and "length ins = length sigs"
    and "list_all (list_all (\<lambda>s. length s = 64)) sigs"
  shows "get_signatures ins (b @ rest) = Some (sigs, rest)"
proof (cases "sigs = []")
  case True
  then show ?thesis using assms by (auto simp: put_signatures_def split: if_splits)
next
  case False
  then show ?thesis using assms signature_lists_get by (auto simp: put_signatures_def split: if_splits)
qed

lemma ecdh_get: "ecdh_ok e \<Longrightarrow> get_ecdhTuple (put_ecdhTuple e @ rest) = Some (e, rest)"
  by (simp add: ecdh_ok_def get_ecdhTuple_def put_ecdhTuple_def codec)

lemma rangeSig_get: "rangeSig_ok r \<Longrightarrow> get_rangeSig (put_rangeSig r @ rest) = Some (r, rest)"
  by (simp add: rangeSig_ok_def get_rangeSig_def put_rangeSig_def serialize_blob_get_put)

lemma rct_base_get:
  assumes "rct_base_ok r" and "put_rctsig_base r inputs outputs = Some b"
  shows "get_rctsig_base inputs outputs (b @ rest) = Some (r, rest)"
proof (cases "rct_type r = RCTTypeNull")
  case True
  then have "b = put_byte RCTTypeNull" "r = null_rct_base"
    using assms by (simp_all add: rct_base_ok_def put_rctsig_base_def)
  then show ?thesis by (simp add: get_rctsig_base_def codec)
next
  case False
  have ok: "known_rct_type (rct_type r)" "rct_type r = RCTTypeSimple \<longrightarrow> length (pseudoOuts r) = inputs"
    "length (ecdhInfo r) = outputs" "length (outPk r) = outputs"
    and b: "b = put_byte (rct_type r) @ write_varint (txnFee r)
        @ (if rct_type r = RCTTypeSimple then concat (pseudoOuts r) else [])
        @ concat (map put_ecdhTuple (ecdhInfo r)) @ concat (outPk r)"
    using assms(2) False by (auto simp: put_rctsig_base_def split: if_splits)
  have ecdh: "get_elements get_ecdhTuple outputs (concat (map put_ecdhTuple (ecdhInfo r)) @ x) = Some (ecdhInfo r, x)" for x
    using elements_get [of ecdh_ok get_ecdhTuple put_ecdhTuple "ecdhInfo r" x] ecdh_get assms(1) ok(3) False
    by (simp add: rct_base_ok_def)
  have keys: "list_all key_ok (pseudoOuts r)" "list_all key_ok (outPk r)"
    "rct_type r \<noteq> RCTTypeSimple \<Longrightarrow> pseudoOuts r = []"
    using assms(1) False by (simp_all add: rct_base_ok_def)
  show ?thesis
    using False ok keys by (cases "rct_type r = RCTTypeSimple") (simp_all add: b get_rctsig_base_def codec ecdh)
qed

section \<open>Codecs whose writer can fail\<close>

locale opt_codec =
  fixes put :: "'a \<Rightarrow> byte list option" and get :: "byte list \<Rightarrow> ('a \<times> byte list) option"
    and ok :: "'a \<Rightarrow> bool"
  assumes get_put: "ok v \<Longrightarrow> put v = Some b \<Longrightarrow> get (b @ rest) = Some (v, rest)"
begin

lemma get_put_all:
  "list_all ok vs \<Longrightarrow> put_all put vs = Some b \<Longrightarrow> get_elements get (length vs) (b @ rest) = Some (vs, rest)"
proof (induction vs arbitrary: b)
  case (Cons v vs)
  then obtain x y where "put v = Some x" "put_all put vs = Some y" "b = x @ y"
    by (auto split: Option.bind_splits)
  moreover have "get (x @ y @ rest) = Some (v, y @ rest)" using get_put \<open>put v = Some x\<close> Cons.prems by simp
  ultimately show ?case using Cons by simp
qed simp

lemma put_unique:
  assumes "ok v" and "ok w" and "put v = Some b" and "put w = Some b"
  shows "v = w"
  using get_put [OF assms(1,3), of "[]"] get_put [OF assms(2,4), of "[]"] by simp

lemma parse_put: "ok v \<Longrightarrow> put v = Some b \<Longrightarrow> parse_binary get b = Some v"
  using get_put [of v b "[]"] by (simp add: parse_binary_def)

end

interpretation bulletproof: opt_codec put_Bulletproof get_Bulletproof Bulletproof_ok
proof
  fix v b rest
  assume "Bulletproof_ok v" "put_Bulletproof v = Some b"
  then show "get_Bulletproof (b @ rest) = Some (v, rest)"
    by (auto simp: Bulletproof_ok_def put_Bulletproof_def get_Bulletproof_def codec split: if_splits)
qed

interpretation mgsig: opt_codec "put_mgSig rows cols" "get_mgSig rows cols" mgSig_ok for rows cols
proof
  fix v b rest
  assume ok: "mgSig_ok v" and put: "put_mgSig rows cols v = Some b"
  have rows: "length (mg_ss v) = rows" "list_all (\<lambda>row. length row = cols) (mg_ss v)"
    and b: "b = concat (map concat (mg_ss v)) @ mg_cc v"
    using put by (auto simp: put_mgSig_def split: if_splits)
  have "list_all (\<lambda>row. list_all key_ok row \<and> length row = cols) (mg_ss v)"
    using ok rows(2) by (simp add: mgSig_ok_def list_all_iff)
  from elements_get [of "\<lambda>row. list_all key_ok row \<and> length row = cols"
      "get_elements (serialize_blob_get 32) cols" concat, OF _ this]
  have "get_elements (get_elements (serialize_blob_get 32) cols) rows (concat (map concat (mg_ss v)) @ x) = Some (mg_ss v, x)" for x
    using rows(1) by (simp add: keys_elements_get)
  then show "get_mgSig rows cols (b @ rest) = Some (v, rest)"
    using ok by (simp add: b get_mgSig_def mgSig_ok_def codec)
qed

lemma rct_p_get:
  assumes "rct_p_ok t p" and "put_rctsig_prunable p t inputs outputs mixin = Some b"
  shows "get_rctsig_prunable t inputs outputs mixin (b @ rest) = Some (p, rest)"
proof (cases "t = RCTTypeNull")
  case True
  then show ?thesis using assms by (simp add: rct_p_ok_def put_rctsig_prunable_def get_rctsig_prunable_def)
next
  case False
  note ok = assms(1) [unfolded rct_p_ok_def if_not_P [OF False]]
  have known: "known_rct_type t" using assms(2) False by (auto simp: put_rctsig_prunable_def split: if_splits)
  obtain proofs mgs pouts where b: "b = proofs @ mgs @ pouts"
    and len: "length (MGs p) = mg_elements t inputs"
    and mgs: "put_all (put_mgSig (unat (mixin + 1)) (mg_columns t inputs)) (MGs p) = Some mgs"
    and pouts: "if t = RCTTypeBulletproof then length (p_pseudoOuts p) = inputs \<and> pouts = concat (p_pseudoOuts p)
      else pouts = []"
    and proofs: "if t = RCTTypeBulletproof
      then \<not> outputs < unat (word_of_nat (length (bulletproofs p)) :: u32)
        \<and> \<not> n_bulletproofs_max_amounts (bulletproofs p) < outputs
        \<and> (\<exists>bps. put_all put_Bulletproof (take (unat (word_of_nat (length (bulletproofs p)) :: u32)) (bulletproofs p)) = Some bps
            \<and> proofs = serialize_uint_put 4 (ucast (word_of_nat (length (bulletproofs p)) :: u32)) @ bps)
      else length (rangeSigs p) = outputs \<and> proofs = concat (map put_rangeSig (rangeSigs p))"
    using assms(2) False known
    by (cases "t = RCTTypeBulletproof")
      (auto simp: put_rctsig_prunable_def Let_def split: if_splits Option.bind_splits)
  have M: "get_elements (get_mgSig (unat (mixin + 1)) (mg_columns t inputs)) (mg_elements t inputs) (mgs @ x) = Some (MGs p, x)" for x
    using mgsig.get_put_all [OF _ mgs, of x] ok len by simp
  show ?thesis
  proof (cases "t = RCTTypeBulletproof")
    case True
    let ?n = "length (bulletproofs p)"
    have n: "unat (word_of_nat ?n :: u32) = ?n"
      using ok by (simp add: unsigned_of_nat take_bit_nat_eq_self)
    then have n64: "unat (ucast (word_of_nat ?n :: u32) :: u64) = ?n" by simp
    have "?n < 2 ^ (8 * 4)" using ok by simp
    then have count: "serialize_uint_get 4 (serialize_uint_put 4 (ucast (word_of_nat ?n :: u32)) @ x)
        = Some (ucast (word_of_nat ?n :: u32), x)" for x
      by (intro serialize_uint_get_put) (simp only: n64)
    obtain bps where bps: "put_all put_Bulletproof (bulletproofs p) = Some bps"
      "proofs = serialize_uint_put 4 (ucast (word_of_nat ?n :: u32)) @ bps"
      "\<not> outputs < ?n" "\<not> n_bulletproofs_max_amounts (bulletproofs p) < outputs"
      using proofs True n by auto
    have B: "get_elements get_Bulletproof ?n (bps @ x) = Some (bulletproofs p, x)" for x
      using bulletproof.get_put_all [OF _ bps(1), of x] ok by simp
    have P: "get_elements (serialize_blob_get 32) inputs (pouts @ rest) = Some (p_pseudoOuts p, rest)"
      using pouts True ok by (simp add: keys_elements_get)
    show ?thesis using True False known ok bps(3,4) n64
      by (simp add: b bps(2) get_rctsig_prunable_def count B M [unfolded True] P)
  next
    case notbp: False
    have R: "get_elements get_rangeSig outputs (concat (map put_rangeSig (rangeSigs p)) @ x) = Some (rangeSigs p, x)" for x
      using elements_get [of rangeSig_ok get_rangeSig put_rangeSig "rangeSigs p" x] rangeSig_get ok proofs notbp by simp
    show ?thesis using notbp False known ok pouts proofs
      by (simp add: b get_rctsig_prunable_def R M)
  qed
qed

interpretation tx: opt_codec put_transaction get_transaction transaction_ok
proof
  fix tx b rest
  assume ok: "transaction_ok tx" and put: "put_transaction tx = Some b"
  obtain pre where pre: "put_transaction_prefix tx = Some pre"
    using put by (auto simp: put_transaction_def split: Option.bind_splits)
  have P: "get_transaction_prefix (pre @ x) = Some (transaction_prefix.truncate tx, x)" for x
    using prefix_get [OF _ pre, of x] ok by (simp add: transaction_ok_def)
  have T: "version (transaction_prefix.truncate tx) = version tx" "vin (transaction_prefix.truncate tx) = vin tx"
    "vout (transaction_prefix.truncate tx) = vout tx"
    by (simp_all add: transaction_prefix.truncate_def)
  have E: "transaction_prefix.extend (transaction_prefix.truncate tx)
      (transaction.fields (signatures tx) (rct_base tx) (rct_p tx)) = tx"
    by (cases tx) (simp add: transaction_prefix.truncate_def transaction_prefix.extend_def transaction.fields_def)
  consider (v1) "version tx = 1" | (noin) "version tx \<noteq> 1" "vin tx = []" | (rct) "version tx \<noteq> 1" "vin tx \<noteq> []"
    by blast
  then show "get_transaction (b @ rest) = Some (tx, rest)"
  proof cases
    case v1
    then obtain sigs where sigs: "put_signatures (vin tx) (signatures tx) = Some sigs" "b = pre @ sigs"
      using put pre by (auto simp: put_transaction_def split: Option.bind_splits)
    have "get_signatures (vin tx) (sigs @ rest) = Some (signatures tx, rest)"
      using signatures_get [OF sigs(1)] ok v1 by (simp add: transaction_ok_def)
    then show ?thesis using ok v1 E by (simp add: sigs(2) get_transaction_def P T transaction_ok_def)
  next
    case noin
    then have "b = pre" using put pre by (simp add: put_transaction_def)
    then show ?thesis using ok noin E by (simp add: get_transaction_def P T transaction_ok_def)
  next
    case rct
    then obtain base pr where base: "put_rctsig_base (rct_base tx) (length (vin tx)) (length (vout tx)) = Some base"
      and pr: "(if rct_type (rct_base tx) \<noteq> RCTTypeNull
          then put_rctsig_prunable (rct_p tx) (rct_type (rct_base tx)) (length (vin tx)) (length (vout tx)) (tx_mixin (vin tx))
          else Some []) = Some pr" and b: "b = pre @ base @ pr"
      using put pre by (auto simp: put_transaction_def split: Option.bind_splits)
    have okb: "rct_base_ok (rct_base tx)" "rct_p_ok (rct_type (rct_base tx)) (rct_p tx)"
      using ok rct by (simp_all add: transaction_ok_def)
    have B: "get_rctsig_base (length (vin tx)) (length (vout tx)) (base @ x) = Some (rct_base tx, x)" for x
      by (rule rct_base_get [OF okb(1) base])
    have R: "(if rct_type (rct_base tx) \<noteq> RCTTypeNull
        then get_rctsig_prunable (rct_type (rct_base tx)) (length (vin tx)) (length (vout tx)) (tx_mixin (vin tx)) (pr @ rest)
        else Some (null_rct_p, pr @ rest)) = Some (rct_p tx, rest)"
      using pr okb(2) rct_p_get [OF okb(2)] by (auto simp: rct_p_ok_def split: if_splits)
    have sig: "signatures tx = []" using ok rct by (simp add: transaction_ok_def)
    show ?thesis
      using rct R E sig by (simp add: b get_transaction_def P T B cong: if_cong)
  qed
qed

lemma unat_ucast_u64_u32: "unat (ucast (x :: u64) :: u32) = unat x mod 2 ^ 32"
  by (simp add: unsigned_ucast_eq take_bit_eq_mod)

lemma block_header_get:
  assumes "key_ok (prev_id b)"
  shows "get_block_header (put_block_header b @ rest) = Some (block_header.truncate b, rest)"
proof -
  have byte: "unat (ucast x :: u64) < 2 ^ 8" "ucast (ucast x :: u64) = x" for x :: u8
    by (simp_all add: word_unat_eq_iff unat_ucast_u64_byte)
  have word: "unat (ucast x :: u64) < 2 ^ (8 * 4)" "ucast (ucast x :: u64) = x" for x :: u32
    using unat_u32_lt [of x] by (simp_all add: word_unat_eq_iff unat_ucast_u64_u32)
  show ?thesis using assms byte word
    by (simp add: put_block_header_def get_block_header_def codec serialize_varint_get_write_narrow
        block_header.truncate_def)
qed

interpretation blk: opt_codec put_block get_block block_ok
proof
  fix b :: block and bytes rest
  assume ok: "block_ok b" and put: "put_block b = Some bytes"
  obtain t where t: "put_transaction (miner_tx b) = Some t"
    "bytes = put_block_header b @ t @ put_keys (tx_hashes b)"
    using put by (auto simp: put_block_def split: Option.bind_splits)
  have "block_header.extend (block_header.truncate b) (block.fields (miner_tx b) (tx_hashes b)) = b"
    by (cases b) (simp add: block_header.truncate_def block_header.extend_def block.fields_def)
  then show "get_block (bytes @ rest) = Some (b, rest)"
    using ok tx.get_put [OF _ t(1)]
    by (simp add: t(2) get_block_def block_ok_def block_header_get codec)
qed

section \<open>Properties\<close>


definition sample_coinbase :: transaction where
  "sample_coinbase = \<lparr>version = 3, unlock_time = 60, vin = [Txin_gen 5],
     vout = [\<lparr>amount = 1000, target = Txout_to_key (replicate 32 7)\<rparr>], extra = [1, 2, 3],
     signatures = [], rct_base = null_rct_base, rct_p = null_rct_p\<rparr>"

lemma sample_coinbase_ok: "transaction_ok sample_coinbase"
  by (simp add: sample_coinbase_def transaction_ok_def prefix_ok_def vector_ok_def tx_out_ok_def key_ok_def
      rct_base_ok_def rct_p_ok_def null_rct_base_def null_rct_p_def)

lemma sample_coinbase_put: "\<exists>blob. put_transaction sample_coinbase = Some blob"
  by (simp add: sample_coinbase_def put_transaction_def put_transaction_prefix_def MAX_TRANSACTION_VERSION_def
      put_rctsig_base_def null_rct_base_def)



definition sample_block :: block where
  "sample_block = \<lparr>major_version = 7, minor_version = 7, timestamp = 1600000000, prev_id = replicate 32 1,
     nonce = 12345, miner_tx = sample_coinbase, tx_hashes = [replicate 32 2]\<rparr>"


text \<open>Two blobs of the same value exist: the archive ignores the error that \<open>read_varint\<close> reports
  for a non-canonical or cut-off integer.\<close>

theorem varint_field_ignores_errors:
  "serialize_varint_get 64 [0x81, 0x00, 5] = Some (1, [5]) \<and> serialize_varint_get 64 [0x01, 5] = Some (1, [5])
   \<and> fst (read_varint 64 [0x81, 0x00, 5]) = EVARINT_REPRESENT"
  by code_simp

end
