(* ===== verification/Addresses.thy ===== *)
theory Addresses
  imports Keccak Config TxFormat
begin

text \<open>Account addresses: \<open>get_public_address_as_str\<close>, \<open>get_account_integrated_address_as_str\<close> and
  \<open>get_account_address_from_str\<close> of \<open>src/cryptonote_basic/cryptonote_basic_impl.cpp\<close>, over the
  text form of \<open>Base58\<close>, the archive of \<open>Serialization\<close> and the network constants of \<open>Config\<close>.

  \<open>crypto::check_key\<close>, which decides whether 32 bytes are a point of the curve, is an argument of
  the parser; the theorems hold for every such test. The parser returns the updated
  \<open>address_parse_info\<close>, or \<open>None\<close> for the result \<open>false\<close>. A network without constants prints the
  empty string and parses nothing.\<close>

section \<open>Data\<close>

record account_public_address =
  m_spend_public_key :: key
  m_view_public_key :: key

record address_parse_info =
  address :: account_public_address
  is_subaddress :: bool
  has_payment_id :: bool
  is_kurz :: bool
  payment_id :: "byte list"

definition put_account_public_address :: "account_public_address \<Rightarrow> byte list" where
  "put_account_public_address adr = m_spend_public_key adr @ m_view_public_key adr"

definition get_account_public_address :: "byte list \<Rightarrow> (account_public_address \<times> byte list) option" where
  "get_account_public_address bs = do {
     (spend, bs) \<leftarrow> serialize_blob_get 32 bs;
     (view, bs) \<leftarrow> serialize_blob_get 32 bs;
     Some (\<lparr>m_spend_public_key = spend, m_view_public_key = view\<rparr>, bs)
   }"

definition put_integrated_address :: "account_public_address \<times> byte list \<Rightarrow> byte list" where
  "put_integrated_address = (\<lambda>(adr, pid). put_account_public_address adr @ pid)"

definition get_integrated_address ::
    "byte list \<Rightarrow> ((account_public_address \<times> byte list) \<times> byte list) option" where
  "get_integrated_address bs = do {
     (adr, bs) \<leftarrow> get_account_public_address bs;
     (pid, bs) \<leftarrow> serialize_blob_get 8 bs;
     Some ((adr, pid), bs)
   }"

section \<open>Printing\<close>

definition get_public_address_as_str_net ::
    "net_config \<Rightarrow> bool \<Rightarrow> account_public_address \<Rightarrow> string option" where
  "get_public_address_as_str_net c subaddress adr =
     (if m_spend_public_key adr = m_view_public_key adr
      then encode_addr cn_fast_hash
             (if subaddress then RYO_KURZ_SUBADDRESS_BASE58_PREFIX c else RYO_KURZ_ADDRESS_BASE58_PREFIX c)
             (m_spend_public_key adr)
      else encode_addr cn_fast_hash
             (if subaddress then RYO_LONG_SUBADDRESS_BASE58_PREFIX c else RYO_LONG_ADDRESS_BASE58_PREFIX c)
             (put_account_public_address adr))"

definition get_public_address_as_str ::
    "network_type \<Rightarrow> bool \<Rightarrow> account_public_address \<Rightarrow> string option" where
  "get_public_address_as_str nettype subaddress adr =
     (case network_config nettype of None \<Rightarrow> Some [] | Some c \<Rightarrow> get_public_address_as_str_net c subaddress adr)"

definition get_account_integrated_address_as_str ::
    "network_type \<Rightarrow> account_public_address \<Rightarrow> byte list \<Rightarrow> string option" where
  "get_account_integrated_address_as_str nettype adr pid =
     (case network_config nettype of
        None \<Rightarrow> Some []
      | Some c \<Rightarrow>
          encode_addr cn_fast_hash (RYO_LONG_INTEGRATED_ADDRESS_BASE58_PREFIX c)
            (put_integrated_address (adr, pid)))"

section \<open>Parsing\<close>

text \<open>The switch on the prefix, after the three flags have been cleared.\<close>

definition address_flags :: "net_config \<Rightarrow> u64 \<Rightarrow> address_parse_info \<Rightarrow> address_parse_info option" where
  "address_flags c prefix info =
     (let info = info\<lparr>has_payment_id := False, is_subaddress := False, is_kurz := False\<rparr> in
      if prefix = RYO_LONG_ADDRESS_BASE58_PREFIX c \<or> prefix = LEGACY_LONG_ADDRESS_BASE58_PREFIX c
      then Some info
      else if prefix = RYO_LONG_INTEGRATED_ADDRESS_BASE58_PREFIX c
        \<or> prefix = LEGACY_LONG_INTEGRATED_ADDRESS_BASE58_PREFIX c
      then Some (info\<lparr>has_payment_id := True\<rparr>)
      else if prefix = RYO_LONG_SUBADDRESS_BASE58_PREFIX c
        \<or> prefix = LEGACY_LONG_SUBADDRESS_BASE58_PREFIX c
      then Some (info\<lparr>is_subaddress := True\<rparr>)
      else if prefix = RYO_KURZ_ADDRESS_BASE58_PREFIX c
      then Some (info\<lparr>is_kurz := True\<rparr>)
      else None)"

definition address_body :: "byte list \<Rightarrow> address_parse_info \<Rightarrow> address_parse_info option" where
  "address_body data info =
     (if has_payment_id info then
        (case parse_binary get_integrated_address data of
           None \<Rightarrow> None
         | Some (adr, pid) \<Rightarrow> Some (info\<lparr>address := adr, payment_id := pid\<rparr>))
      else if is_kurz info then
        (case parse_binary (serialize_blob_get 32) data of
           None \<Rightarrow> None
         | Some k \<Rightarrow> Some (info\<lparr>address := \<lparr>m_spend_public_key = k, m_view_public_key = k\<rparr>\<rparr>))
      else
        (case parse_binary get_account_public_address data of
           None \<Rightarrow> None
         | Some adr \<Rightarrow> Some (info\<lparr>address := adr\<rparr>)))"

definition get_account_address_from_str_net ::
    "(key \<Rightarrow> bool) \<Rightarrow> net_config \<Rightarrow> address_parse_info \<Rightarrow> string \<Rightarrow> address_parse_info option" where
  "get_account_address_from_str_net check_key c info str = do {
     (prefix, data) \<leftarrow> decode_addr cn_fast_hash str;
     info \<leftarrow> address_flags c prefix info;
     info \<leftarrow> address_body data info;
     if \<not> check_key (m_spend_public_key (address info)) \<or> \<not> check_key (m_view_public_key (address info))
     then None else Some info
   }"

definition get_account_address_from_str ::
    "(key \<Rightarrow> bool) \<Rightarrow> network_type \<Rightarrow> address_parse_info \<Rightarrow> string \<Rightarrow> address_parse_info option" where
  "get_account_address_from_str check_key nettype info str =
     (case network_config nettype of
        None \<Rightarrow> None
      | Some c \<Rightarrow> get_account_address_from_str_net check_key c info str)"

section \<open>Codecs\<close>

definition address_ok :: "account_public_address \<Rightarrow> bool" where
  "address_ok adr \<longleftrightarrow> length (m_spend_public_key adr) = 32 \<and> length (m_view_public_key adr) = 32"

interpretation account: codec put_account_public_address get_account_public_address address_ok
  by unfold_locales
    (simp add: put_account_public_address_def get_account_public_address_def address_ok_def codec)

interpretation integrated: codec put_integrated_address get_integrated_address
    "\<lambda>(adr, pid). address_ok adr \<and> length pid = 8"
  by unfold_locales
    (auto simp: put_integrated_address_def get_integrated_address_def account.get_put codec)

lemma parse_blob_iff: "parse_binary (serialize_blob_get n) data = Some k \<longleftrightarrow> k = data \<and> length data = n"
  by (auto simp: parse_binary_def serialize_blob_get_def split: list.splits)

lemma parse_account_iff:
  "parse_binary get_account_public_address data = Some adr \<longleftrightarrow>
    address_ok adr \<and> data = put_account_public_address adr"
proof
  assume "parse_binary get_account_public_address data = Some adr"
  then have "length data = 64 \<and> adr = \<lparr>m_spend_public_key = take 32 data, m_view_public_key = drop 32 data\<rparr>"
    by (auto simp: parse_binary_def get_account_public_address_def serialize_blob_get_def
        split: list.splits if_splits Option.bind_splits)
  then show "address_ok adr \<and> data = put_account_public_address adr"
    by (simp add: address_ok_def put_account_public_address_def)
qed (simp add: account.parse_put)

lemma parse_integrated_iff:
  "parse_binary get_integrated_address data = Some (adr, pid) \<longleftrightarrow>
    address_ok adr \<and> length pid = 8 \<and> data = put_integrated_address (adr, pid)"
proof
  assume a: "parse_binary get_integrated_address data = Some (adr, pid)"
  then have "length data = 72 \<and> pid = drop 64 data \<and>
      adr = \<lparr>m_spend_public_key = take 32 data, m_view_public_key = take 32 (drop 32 data)\<rparr>"
    by (auto simp: parse_binary_def get_integrated_address_def get_account_public_address_def
        serialize_blob_get_def split: list.splits if_splits Option.bind_splits)
  moreover have "take 32 (drop 32 data) @ drop 64 data = drop 32 data"
    using append_take_drop_id [of 32 "drop 32 data"] by simp
  then have "take 32 data @ take 32 (drop 32 data) @ drop 64 data = data" by simp
  ultimately show "address_ok adr \<and> length pid = 8 \<and> data = put_integrated_address (adr, pid)"
    by (simp add: address_ok_def put_integrated_address_def put_account_public_address_def)
qed (use integrated.parse_put in auto)

section \<open>Printing and parsing\<close>

lemma keccak_encode_addr:
  "(encode_addr cn_fast_hash tag data = Some s \<longrightarrow> decode_addr cn_fast_hash s = Some (tag, data)) \<and>
   (decode_addr cn_fast_hash s = Some (tag, data) \<longrightarrow> data \<noteq> [] \<longrightarrow> encode_addr cn_fast_hash tag data = Some s)"
  using keccak.decode_encode_addr keccak.encode_decode_addr by blast

lemma encode_addr_defined: "\<exists>s. encode_addr cn_fast_hash tag data = Some s"
  by (simp add: encode_addr_def Let_def encode_total)

text \<open>The prefixes that the parser accepts, with the flags that each of them sets.\<close>

lemma address_flags_printed:
  assumes "network_config nettype = Some c"
  shows "address_flags c (RYO_LONG_ADDRESS_BASE58_PREFIX c) info =
      Some (info\<lparr>has_payment_id := False, is_subaddress := False, is_kurz := False\<rparr>)"
    and "address_flags c (RYO_LONG_INTEGRATED_ADDRESS_BASE58_PREFIX c) info =
      Some (info\<lparr>has_payment_id := True, is_subaddress := False, is_kurz := False\<rparr>)"
    and "address_flags c (RYO_LONG_SUBADDRESS_BASE58_PREFIX c) info =
      Some (info\<lparr>has_payment_id := False, is_subaddress := True, is_kurz := False\<rparr>)"
    and "address_flags c (RYO_KURZ_ADDRESS_BASE58_PREFIX c) info =
      Some (info\<lparr>has_payment_id := False, is_subaddress := False, is_kurz := True\<rparr>)"
    and "address_flags c (RYO_KURZ_SUBADDRESS_BASE58_PREFIX c) info = None"
  using assms
  by (rule network_config_cases; simp add: address_flags_def network_configs)+

definition printed_prefixes :: "net_config \<Rightarrow> u64 list" where
  "printed_prefixes c = [RYO_LONG_ADDRESS_BASE58_PREFIX c, RYO_LONG_INTEGRATED_ADDRESS_BASE58_PREFIX c,
     RYO_LONG_SUBADDRESS_BASE58_PREFIX c, RYO_KURZ_ADDRESS_BASE58_PREFIX c, RYO_KURZ_SUBADDRESS_BASE58_PREFIX c]"

lemma printed_prefixes_disjoint:
  assumes "network_config nettype = Some c" and "network_config nettype' = Some c'" and "nettype \<noteq> nettype'"
  shows "set (printed_prefixes c) \<inter> set (LEGACY_LONG_ADDRESS_BASE58_PREFIX c' #
    LEGACY_LONG_INTEGRATED_ADDRESS_BASE58_PREFIX c' # LEGACY_LONG_SUBADDRESS_BASE58_PREFIX c' #
    printed_prefixes c') = {}"
  using assms
  by (cases nettype; cases nettype'; clarsimp simp: network_config_def)
     (simp_all add: printed_prefixes_def network_configs)

lemma address_flags_other_network:
  assumes "network_config nettype = Some c" and "network_config nettype' = Some c'" and "nettype \<noteq> nettype'"
    and "prefix \<in> set (printed_prefixes c)"
  shows "address_flags c' prefix info = None"
  using printed_prefixes_disjoint [OF assms(1-3)] assms(4)
  unfolding address_flags_def Let_def disjoint_iff printed_prefixes_def [of c'] by auto

lemma parse_blob: "length k = n \<Longrightarrow> parse_binary (serialize_blob_get n) k = Some k"
  by (simp add: parse_blob_iff)

definition printed_info :: "bool \<Rightarrow> account_public_address \<Rightarrow> address_parse_info \<Rightarrow> address_parse_info" where
  "printed_info subaddress adr info =
     info\<lparr>address := adr, has_payment_id := False, is_subaddress := subaddress,
       is_kurz := (m_spend_public_key adr = m_view_public_key adr)\<rparr>"

lemma address_eta: "\<lparr>m_spend_public_key = m_spend_public_key a, m_view_public_key = m_spend_public_key a\<rparr> = a"
  if "m_spend_public_key a = m_view_public_key a" for a :: account_public_address
  using that by (cases a) simp

section \<open>Properties\<close>

text \<open>C8: Printed addresses can be read back: for an address with two keys that pass
  \<open>check_key\<close>, on each of the three networks, printing succeeds and parsing the text returns the
  address with the flags for its kind. The only exception is the short form of a subaddress, which
  is printed but never accepted.\<close>

theorem address_round_trip:
  assumes "network_config nettype = Some c" and "address_ok adr"
    and "check_key (m_spend_public_key adr)" and "check_key (m_view_public_key adr)"
  shows "\<exists>str. get_public_address_as_str nettype subaddress adr = Some str \<and>
    get_account_address_from_str check_key nettype info str =
      (if subaddress \<and> m_spend_public_key adr = m_view_public_key adr then None
       else Some (printed_info subaddress adr info))"
proof (cases "m_spend_public_key adr = m_view_public_key adr")
  case True
  let ?tag = "if subaddress then RYO_KURZ_SUBADDRESS_BASE58_PREFIX c else RYO_KURZ_ADDRESS_BASE58_PREFIX c"
  obtain str where str: "encode_addr cn_fast_hash ?tag (m_spend_public_key adr) = Some str"
    using encode_addr_defined by blast
  then have "decode_addr cn_fast_hash str = Some (?tag, m_spend_public_key adr)"
    using keccak_encode_addr by blast
  then show ?thesis
    using True str assms address_flags_printed [OF assms(1), of info] address_eta [OF True]
    by (simp add: get_public_address_as_str_def get_public_address_as_str_net_def
        get_account_address_from_str_def get_account_address_from_str_net_def address_body_def
        parse_blob printed_info_def address_ok_def)
next
  case False
  let ?tag = "if subaddress then RYO_LONG_SUBADDRESS_BASE58_PREFIX c else RYO_LONG_ADDRESS_BASE58_PREFIX c"
  obtain str where str: "encode_addr cn_fast_hash ?tag (put_account_public_address adr) = Some str"
    using encode_addr_defined by blast
  then have "decode_addr cn_fast_hash str = Some (?tag, put_account_public_address adr)"
    using keccak_encode_addr by blast
  then show ?thesis
    using False str assms address_flags_printed [OF assms(1), of info]
    by (simp add: get_public_address_as_str_def get_public_address_as_str_net_def
        get_account_address_from_str_def get_account_address_from_str_net_def address_body_def
        account.parse_put printed_info_def)
qed

definition sample_address :: account_public_address where
  "sample_address = \<lparr>m_spend_public_key = replicate 32 1, m_view_public_key = replicate 32 2\<rparr>"

definition sample_info :: address_parse_info where
  "sample_info = \<lparr>address = sample_address, is_subaddress = True, has_payment_id = True, is_kurz = True,
     payment_id = replicate 8 0\<rparr>"

theorem address_round_trip_witness:
  "\<exists>str. get_public_address_as_str STAGENET False sample_address = Some str \<and>
    get_account_address_from_str (\<lambda>_. True) STAGENET sample_info str =
      Some \<lparr>address = sample_address, is_subaddress = False, has_payment_id = False, is_kurz = False,
        payment_id = replicate 8 0\<rparr>"
  using address_round_trip [of STAGENET config_STAGENET sample_address "\<lambda>_. True" False sample_info]
  by (simp add: network_config_def address_ok_def sample_address_def sample_info_def printed_info_def)

text \<open>C9: The parser accepts nothing else: a text that it accepts carries two 32-byte keys that pass
  \<open>check_key\<close>, and it is the one base-58 text of a prefix of the kind that the flags say and of the
  data of the address, with the payment id exactly for the integrated kind.\<close>

theorem parsed_address_sound:
  assumes "network_config nettype = Some c"
    and "get_account_address_from_str check_key nettype info str = Some info'"
  shows "address_ok (address info') \<and> check_key (m_spend_public_key (address info')) \<and>
    check_key (m_view_public_key (address info')) \<and>
    (\<exists>prefix. address_flags c prefix info = Some (info'\<lparr>address := address info, payment_id := payment_id info\<rparr>) \<and>
      encode_addr cn_fast_hash prefix
        (if has_payment_id info' then put_integrated_address (address info', payment_id info')
         else if is_kurz info' then m_spend_public_key (address info')
         else put_account_public_address (address info')) = Some str)"
proof -
  obtain prefix data info1 where dec: "decode_addr cn_fast_hash str = Some (prefix, data)"
    and flags: "address_flags c prefix info = Some info1" and body: "address_body data info1 = Some info'"
    and keys: "check_key (m_spend_public_key (address info'))" "check_key (m_view_public_key (address info'))"
    using assms by (auto simp: get_account_address_from_str_def get_account_address_from_str_net_def
        bind_eq_Some_conv split: if_splits)
  have kept: "address info1 = address info" "payment_id info1 = payment_id info"
    using flags by (auto simp: address_flags_def Let_def split: if_splits)
  let ?data = "if has_payment_id info' then put_integrated_address (address info', payment_id info')
    else if is_kurz info' then m_spend_public_key (address info')
    else put_account_public_address (address info')"
  have ok: "address_ok (address info') \<and> data \<noteq> [] \<and>
      info1 = info'\<lparr>address := address info, payment_id := payment_id info\<rparr>"
    and data: "data = ?data"
    using body by (auto simp: address_body_def parse_blob_iff parse_account_iff parse_integrated_iff
        address_ok_def put_integrated_address_def put_account_public_address_def
        simp flip: kept split: option.splits if_splits)
  have "encode_addr cn_fast_hash prefix data = Some str"
    by (rule keccak.encode_decode_addr [OF dec]) (use ok in blast)
  then have "encode_addr cn_fast_hash prefix ?data = Some str" by (simp only: data)
  moreover have "address_flags c prefix info = Some (info'\<lparr>address := address info, payment_id := payment_id info\<rparr>)"
    using flags ok by simp
  ultimately show ?thesis using ok keys by (intro conjI exI [of _ prefix]) simp_all
qed

theorem parsed_address_sound_witness:
  "\<exists>str info'. get_account_address_from_str (\<lambda>_. True) MAINNET sample_info str = Some info' \<and>
    address_ok (address info')"
proof -
  obtain str where "encode_addr cn_fast_hash 0x2c6192 (replicate 32 7) = Some str"
    using encode_addr_defined by blast
  then have "decode_addr cn_fast_hash str = Some (0x2c6192, replicate 32 7)" using keccak_encode_addr by blast
  then have "get_account_address_from_str (\<lambda>_. True) MAINNET sample_info str =
      Some \<lparr>address = \<lparr>m_spend_public_key = replicate 32 7, m_view_public_key = replicate 32 7\<rparr>,
        is_subaddress = False, has_payment_id = False, is_kurz = True, payment_id = replicate 8 0\<rparr>"
    by (simp add: get_account_address_from_str_def get_account_address_from_str_net_def network_configs
        address_flags_def address_body_def parse_blob sample_info_def)
  moreover from parsed_address_sound [OF _ this] have
    "address_ok \<lparr>m_spend_public_key = replicate 32 7, m_view_public_key = replicate 32 7\<rparr>"
    by (simp add: network_config_def)
  ultimately show ?thesis by (metis address_parse_info.select_convs(1))
qed

text \<open>C10: Networks are separated: an address, also an integrated one, that is printed for one
  network is not accepted by the parser of another network.\<close>

theorem address_network_separation:
  assumes "network_config nettype = Some c" and "nettype \<noteq> nettype'"
    and "get_public_address_as_str nettype subaddress adr = Some str
      \<or> get_account_integrated_address_as_str nettype adr pid = Some str"
  shows "get_account_address_from_str check_key nettype' info str = None"
proof (cases "network_config nettype'")
  case None
  then show ?thesis by (simp add: get_account_address_from_str_def)
next
  case (Some c')
  obtain tag data where "encode_addr cn_fast_hash tag data = Some str"
    and tag: "tag \<in> set (printed_prefixes c)"
    using assms(1,3)
    by (auto simp: get_public_address_as_str_def get_public_address_as_str_net_def printed_prefixes_def
        get_account_integrated_address_as_str_def split: if_splits)
  then have "decode_addr cn_fast_hash str = Some (tag, data)" using keccak_encode_addr by blast
  then show ?thesis
    using Some address_flags_other_network [OF assms(1) Some assms(2) tag]
    by (simp add: get_account_address_from_str_def get_account_address_from_str_net_def)
qed

theorem address_network_separation_witness:
  "\<exists>str. get_public_address_as_str MAINNET False sample_address = Some str \<and>
    get_account_address_from_str (\<lambda>_. True) TESTNET sample_info str = None"
proof -
  obtain str where "get_public_address_as_str MAINNET False sample_address = Some str"
    using encode_addr_defined [of "RYO_LONG_ADDRESS_BASE58_PREFIX config_MAINNET" "put_account_public_address sample_address"]
    by (auto simp: get_public_address_as_str_def get_public_address_as_str_net_def network_config_def
        sample_address_def)
  moreover from this have "get_account_address_from_str (\<lambda>_. True) TESTNET sample_info str = None"
    by (intro address_network_separation [of MAINNET config_MAINNET _ False sample_address str "[]"])
      (simp_all add: network_config_def)
  ultimately show ?thesis by blast
qed

end
