(* ===== verification/TreeHash.thy ===== *)
theory TreeHash
  imports Keccak
begin

text \<open>The transaction tree hash of \<open>src/crypto/tree-hash.c\<close>. A hash is a list of 32 bytes,
  \<open>hashes\<close> the array of them and \<open>ints\<close> the working array that is overwritten in place. The
  hash function is an argument; it is \<open>cn_fast_hash\<close> in the code. \<open>None\<close> is a failed assertion,
  and in \<open>tree_hash_pow\<close> also a loop that does not end. The reference is a balanced binary tree
  over the leaves, \<open>merkle\<close>.\<close>

section \<open>The code\<close>

partial_function (option) tree_hash_pow :: "u64 \<Rightarrow> u64 \<Rightarrow> u64 option" where
  "tree_hash_pow count pow = (if pow < count then tree_hash_pow count (push_bit 1 pow) else Some pow)"

definition tree_hash_cnt :: "u64 \<Rightarrow> u64 option" where
  "tree_hash_cnt count =
     (if \<not> (3 \<le> count \<and> count \<le> 0x10000000) then None
      else map_option (drop_bit 1) (tree_hash_pow count 2))"

text \<open>The two loops that hash adjacent entries: from \<open>hashes\<close> into \<open>ints\<close>, and within \<open>ints\<close>;
  \<open>n\<close> is the number of iterations left.\<close>

fun hash_leaves :: "(byte list \<Rightarrow> byte list) \<Rightarrow> byte list list \<Rightarrow> nat \<Rightarrow> nat \<Rightarrow> nat \<Rightarrow> byte list list
    \<Rightarrow> nat \<times> byte list list" where
  "hash_leaves h hashes 0 i j ints = (i, ints)"
| "hash_leaves h hashes (Suc n) i j ints =
     hash_leaves h hashes n (i + 2) (j + 1) (ints[j := h (hashes ! i @ hashes ! (i + 1))])"

fun hash_level :: "(byte list \<Rightarrow> byte list) \<Rightarrow> nat \<Rightarrow> nat \<Rightarrow> nat \<Rightarrow> byte list list \<Rightarrow> byte list list" where
  "hash_level h 0 i j ints = ints"
| "hash_level h (Suc n) i j ints =
     hash_level h n (i + 2) (j + 1) (ints[j := h (ints ! i @ ints ! (i + 1))])"

function hash_levels :: "(byte list \<Rightarrow> byte list) \<Rightarrow> nat \<Rightarrow> byte list list \<Rightarrow> byte list list" where
  "hash_levels h cnt ints =
     (if cnt > 2 then hash_levels h (cnt div 2) (hash_level h (cnt div 2) 0 0 ints) else ints)"
  by pat_completeness auto
termination by (relation "measure (\<lambda>(h, cnt, ints). cnt)") auto

declare hash_levels.simps [simp del]

definition tree_hash :: "(byte list \<Rightarrow> byte list) \<Rightarrow> byte list list \<Rightarrow> byte list option" where
  "tree_hash h hashes =
     (let count = length hashes in
      if count = 0 then None
      else if count = 1 then Some (hashes ! 0)
      else if count = 2 then Some (h (hashes ! 0 @ hashes ! 1))
      else
        case tree_hash_cnt (word_of_nat count) of
          None \<Rightarrow> None
        | Some c \<Rightarrow>
            let cnt = unat c;
                start = 2 * cnt - count;
                ints = take start hashes @ replicate (cnt - start) (replicate HASH_SIZE 0);
                (i, ints) = hash_leaves h hashes (cnt - start) start start ints
            in if i \<noteq> count then None
               else let ints = hash_levels h cnt ints in Some (h (ints ! 0 @ ints ! 1)))"

section \<open>The reference tree\<close>

fun merkle :: "(byte list \<Rightarrow> byte list) \<Rightarrow> nat \<Rightarrow> byte list list \<Rightarrow> byte list" where
  "merkle h 0 xs = hd xs"
| "merkle h (Suc k) xs = h (merkle h k (take (2 ^ k) xs) @ merkle h k (drop (2 ^ k) xs))"

fun pair_up :: "(byte list \<Rightarrow> byte list) \<Rightarrow> byte list list \<Rightarrow> byte list list" where
  "pair_up h (x # y # xs) = h (x @ y) # pair_up h xs"
| "pair_up h xs = []"

section \<open>The number of leaves\<close>

lemma tree_hash_pow_value:
  assumes "2 ^ k < unat count" and "unat count \<le> 2 ^ (k + n)" and "k + n \<le> 28"
  shows "\<exists>m. tree_hash_pow count (push_bit k 1) = Some (push_bit (Suc m) 1) \<and>
    2 ^ m < unat count \<and> unat count \<le> 2 ^ Suc m \<and> k \<le> m"
  using assms
proof (induction n arbitrary: k)
  case 0
  then show ?case by simp
next
  case (Suc n)
  have pow: "unat (push_bit j 1 :: u64) = 2 ^ j" if "j \<le> 28" for j
  proof -
    have "(2 :: nat) ^ j \<le> 2 ^ 28" using that by (intro power_increasing) simp_all
    then show ?thesis by (simp add: unat_push_u64 del: push_bit_of_1)
  qed
  have "push_bit k 1 < count" using pow [of k] Suc.prems by (simp add: word_less_nat_alt del: push_bit_of_1)
  then have step: "tree_hash_pow count (push_bit k 1) = tree_hash_pow count (push_bit (Suc k) 1)"
    by (subst tree_hash_pow.simps) (simp add: push_bit_push_bit del: push_bit_of_1)
  show ?case
  proof (cases "2 ^ Suc k < unat count")
    case True
    from Suc.IH [OF this] Suc.prems step show ?thesis by fastforce
  next
    case False
    then have "\<not> push_bit (Suc k) 1 < count"
      using pow [of "Suc k"] Suc.prems by (simp add: word_less_nat_alt del: push_bit_of_1)
    then have "tree_hash_pow count (push_bit k 1) = Some (push_bit (Suc k) 1)"
      unfolding step by (subst tree_hash_pow.simps) simp
    then show ?thesis using False Suc.prems by (intro exI [of _ k]) simp
  qed
qed

lemma tree_hash_cnt_value:
  assumes "3 \<le> unat count" and "unat count \<le> 2 ^ 28"
  shows "\<exists>m c. tree_hash_cnt count = Some c \<and> unat c = 2 ^ m \<and> 1 \<le> m \<and>
    2 ^ m < unat count \<and> unat count \<le> 2 ^ Suc m"
proof -
  obtain m where m: "tree_hash_pow count (push_bit 1 1) = Some (push_bit (Suc m) 1)"
    "2 ^ m < unat count" "unat count \<le> 2 ^ Suc m" "1 \<le> m"
    using tree_hash_pow_value [of 1 count 27] assms by auto
  have "(2 :: nat) ^ m < 2 ^ 28" using m(2) assms(2) by linarith
  then have "m < 28" by (rule power_less_imp_less_exp [rotated]) simp
  then have "(2 :: nat) ^ Suc m \<le> 2 ^ 28" by (intro power_increasing) simp_all
  then have "unat (drop_bit 1 (push_bit (Suc m) 1 :: u64)) = 2 ^ m"
    by (simp add: unat_push_u64 unat_drop_u64 del: push_bit_of_1)
  moreover have "3 \<le> count" "count \<le> 0x10000000" using assms by (simp_all add: word_le_nat_alt)
  moreover have "tree_hash_pow count 2 = Some (push_bit (Suc m) 1)" using m(1) by simp
  ultimately show ?thesis using m(2-4) unfolding tree_hash_cnt_def
    by (intro exI [of _ m] exI [of _ "drop_bit 1 (push_bit (Suc m) 1)"]) (simp del: push_bit_of_1)
qed

section \<open>In-place hashing of pairs\<close>

lemma length_hash_level [simp]: "length (hash_level h n i j ints) = length ints"
  by (induction n arbitrary: i j ints) auto

lemma take_hash_level:
  "j \<le> i \<Longrightarrow> i + 2 * n \<le> length ints \<Longrightarrow>
   take (j + n) (hash_level h n i j ints) = take j ints @ pair_up h (take (2 * n) (drop i ints))"
proof (induction n arbitrary: i j ints)
  case (Suc n)
  let ?v = "h (ints ! i @ ints ! (i + 1))"
  have "drop i ints = ints ! i # ints ! (i + 1) # drop (i + 2) ints"
    using Suc.prems by (simp add: Cons_nth_drop_Suc)
  then have "pair_up h (take (2 * Suc n) (drop i ints)) = ?v # pair_up h (take (2 * n) (drop (i + 2) ints))"
    by simp
  moreover have "take (Suc j) (ints[j := ?v]) = take j ints @ [?v]"
    using Suc.prems by (simp add: take_Suc_conv_app_nth)
  moreover have "take (Suc j + n) (hash_level h n (i + 2) (j + 1) (ints[j := ?v])) =
      take (Suc j) (ints[j := ?v]) @ pair_up h (take (2 * n) (drop (i + 2) (ints[j := ?v])))"
    using Suc.IH [of "j + 1" "i + 2" "ints[j := ?v]"] Suc.prems by simp
  moreover have "drop (i + 2) (ints[j := ?v]) = drop (i + 2) ints"
    using Suc.prems(1) by (simp add: drop_update_cancel)
  ultimately show ?case by simp
qed simp

lemma hash_leaves_value:
  "j + n \<le> length ints \<Longrightarrow> i + 2 * n \<le> length hashes \<Longrightarrow>
   \<exists>res. hash_leaves h hashes n i j ints = (i + 2 * n, res) \<and> length res = length ints \<and>
     take (j + n) res = take j ints @ pair_up h (take (2 * n) (drop i hashes))"
proof (induction n arbitrary: i j ints)
  case (Suc n)
  let ?v = "h (hashes ! i @ hashes ! (i + 1))"
  have "drop i hashes = hashes ! i # hashes ! (i + 1) # drop (i + 2) hashes"
    using Suc.prems by (simp add: Cons_nth_drop_Suc)
  then have "pair_up h (take (2 * Suc n) (drop i hashes)) = ?v # pair_up h (take (2 * n) (drop (i + 2) hashes))"
    by simp
  moreover have "take (Suc j) (ints[j := ?v]) = take j ints @ [?v]"
    using Suc.prems by (simp add: take_Suc_conv_app_nth)
  moreover obtain res where "hash_leaves h hashes n (i + 2) (j + 1) (ints[j := ?v]) = (i + 2 + 2 * n, res)"
    "length res = length ints"
    "take (j + 1 + n) res = take (j + 1) (ints[j := ?v]) @ pair_up h (take (2 * n) (drop (i + 2) hashes))"
    using Suc.IH [of "j + 1" "ints[j := ?v]" "i + 2"] Suc.prems by auto
  ultimately show ?case by (intro exI [of _ res]) simp
qed simp

section \<open>Levels of the tree\<close>

lemma length_pair_up [simp]: "length (pair_up h xs) = length xs div 2"
  by (induction h xs rule: pair_up.induct) auto

lemma take_pair_up: "pair_up h (take (2 * m) xs) = take m (pair_up h xs)"
proof (induction h xs arbitrary: m rule: pair_up.induct)
  case (1 h x y xs)
  then show ?case by (cases m) simp_all
qed (auto simp: take_Cons')

lemma drop_pair_up: "pair_up h (drop (2 * m) xs) = drop m (pair_up h xs)"
proof (induction h xs arbitrary: m rule: pair_up.induct)
  case (1 h x y xs)
  then show ?case by (cases m) simp_all
qed (auto simp: drop_Cons')

lemma merkle_pair_up: "length xs = 2 ^ Suc k \<Longrightarrow> merkle h (Suc k) xs = merkle h k (pair_up h xs)"
proof (induction k arbitrary: xs)
  case 0
  then obtain x y where "xs = [x, y]" by (auto simp: length_Suc_conv numeral_2_eq_2)
  then show ?case by simp
next
  case (Suc k)
  have half: "length (take (2 ^ Suc k) xs) = 2 ^ Suc k" "length (drop (2 ^ Suc k) xs) = 2 ^ Suc k"
    using Suc.prems by simp_all
  have "merkle h (Suc (Suc k)) xs =
      h (merkle h k (pair_up h (take (2 * 2 ^ k) xs)) @ merkle h k (pair_up h (drop (2 * 2 ^ k) xs)))"
    using Suc.IH [OF half(1)] Suc.IH [OF half(2)] by simp
  then show ?case by (simp only: take_pair_up drop_pair_up merkle.simps)
qed

lemma merkle_hash_levels:
  assumes "1 \<le> k" and "2 ^ k \<le> length ints"
  shows "h (hash_levels h (2 ^ k) ints ! 0 @ hash_levels h (2 ^ k) ints ! 1) = merkle h k (take (2 ^ k) ints)"
  using assms
proof (induction k arbitrary: ints rule: nat_induct_at_least)
  case base
  then obtain x y r where "ints = x # y # r" by (cases ints; cases "tl ints") auto
  then show ?case by (simp add: hash_levels.simps)
next
  case (Suc k)
  let ?l = "hash_level h (2 ^ k) 0 0 ints"
  have "hash_levels h (2 ^ Suc k) ints = hash_levels h (2 ^ k) ?l"
  proof -
    have "(2 :: nat) ^ 1 < 2 ^ Suc k" using Suc.hyps by (intro power_strict_increasing) simp_all
    then show ?thesis by (subst hash_levels.simps) simp
  qed
  moreover have "take (2 ^ k) ?l = pair_up h (take (2 ^ Suc k) ints)"
    using take_hash_level [of 0 0 "2 ^ k" ints h] Suc.prems by simp
  moreover have "2 ^ k \<le> length ?l" using Suc.prems by simp
  ultimately show ?case
    using Suc.IH [of ?l] merkle_pair_up [of "take (2 ^ Suc k) ints" k h] Suc.prems by simp
qed

section \<open>The whole hash\<close>

text \<open>With \<open>2 ^ k\<close> leaves, the first \<open>2 * 2 ^ k - n\<close> of \<open>n\<close> hashes are leaves themselves and the
  others are paired.\<close>

definition tree_leaves :: "(byte list \<Rightarrow> byte list) \<Rightarrow> nat \<Rightarrow> byte list list \<Rightarrow> byte list list" where
  "tree_leaves h k hashes =
     (let start = 2 * 2 ^ k - length hashes in take start hashes @ pair_up h (drop start hashes))"

lemma tree_hash_merkle:
  assumes "3 \<le> length hashes" and "length hashes \<le> 2 ^ 28"
  shows "\<exists>k c. tree_hash h hashes = Some (merkle h k (tree_leaves h k hashes)) \<and> 1 \<le> k \<and>
    2 ^ k < length hashes \<and> length hashes \<le> 2 ^ Suc k \<and>
    tree_hash_cnt (word_of_nat (length hashes)) = Some c \<and> unat c = 2 ^ k"
proof -
  let ?n = "length hashes"
  have n: "unat (word_of_nat ?n :: u64) = ?n"
    using assms(2) by (simp add: unsigned_of_nat take_bit_nat_eq_self)
  obtain k c where k: "tree_hash_cnt (word_of_nat ?n) = Some c" "unat c = 2 ^ k" "1 \<le> k" "2 ^ k < ?n" "?n \<le> 2 ^ Suc k"
    using tree_hash_cnt_value [of "word_of_nat ?n"] assms unfolding n by blast
  define start where "start = 2 * 2 ^ k - ?n"
  have start: "start < 2 ^ k" "start + 2 * (2 ^ k - start) = ?n" using k(4,5) by (simp_all add: start_def)
  let ?ints = "take start hashes @ replicate (2 ^ k - start) (replicate HASH_SIZE 0)"
  have len: "length ?ints = 2 ^ k" using start by simp
  obtain res where res: "hash_leaves h hashes (2 ^ k - start) start start ?ints = (?n, res)" "length res = 2 ^ k"
    "take (start + (2 ^ k - start)) res = take start ?ints @ pair_up h (take (2 * (2 ^ k - start)) (drop start hashes))"
    using hash_leaves_value [of start "2 ^ k - start" ?ints start hashes h] len start by auto
  have "res = tree_leaves h k hashes"
    using res(2,3) start by (simp add: tree_leaves_def Let_def flip: start_def)
  moreover have "h (hash_levels h (2 ^ k) res ! 0 @ hash_levels h (2 ^ k) res ! 1) = merkle h k res"
    using merkle_hash_levels [OF k(3), of res h] res(2) by simp
  ultimately have "tree_hash h hashes = Some (merkle h k (tree_leaves h k hashes))"
    using assms(1) k(1) k(2) res(1) by (auto simp: tree_hash_def Let_def simp flip: start_def)
  with k show ?thesis by blast
qed

text \<open>The byte strings that are hashed on the way to the root. Two computations are free of
  collisions when no two strings in corresponding places differ and have the same hash.\<close>

definition collision_free :: "(byte list \<Rightarrow> byte list) \<Rightarrow> byte list list \<Rightarrow> byte list list \<Rightarrow> bool" where
  "collision_free h as bs \<longleftrightarrow> list_all (\<lambda>(a, b). h a = h b \<longrightarrow> a = b) (zip as bs)"

lemma collision_free_Cons [simp]:
  "collision_free h (a # as) (b # bs) \<longleftrightarrow> (h a = h b \<longrightarrow> a = b) \<and> collision_free h as bs"
  by (simp add: collision_free_def)

lemma collision_free_Nil [simp]: "collision_free h [] bs" "collision_free h as []"
  by (simp_all add: collision_free_def)

lemma collision_free_append:
  "length as = length bs \<Longrightarrow>
    collision_free h (as @ as') (bs @ bs') \<longleftrightarrow> collision_free h as bs \<and> collision_free h as' bs'"
  by (simp add: collision_free_def)

lemma collision_free_refl [simp]: "collision_free h as as"
  by (induction as) simp_all

text \<open>A hash without collisions on the strings that occur is a special case.\<close>

lemma inj_on_collision_free: "inj_on h (set as \<union> set bs) \<Longrightarrow> collision_free h as bs"
  by (auto simp: collision_free_def list_all_iff dest: set_zip_leftD set_zip_rightD inj_onD)

fun pair_inputs :: "byte list list \<Rightarrow> byte list list" where
  "pair_inputs (x # y # xs) = (x @ y) # pair_inputs xs"
| "pair_inputs xs = []"

function level_inputs :: "(byte list \<Rightarrow> byte list) \<Rightarrow> byte list list \<Rightarrow> byte list list" where
  "level_inputs h xs = (if length xs < 2 then [] else pair_inputs xs @ level_inputs h (pair_up h xs))"
  by pat_completeness auto
termination by (relation "measure (\<lambda>(h, xs). length xs)") auto

declare level_inputs.simps [simp del]

definition tree_start :: "nat \<Rightarrow> nat" where
  "tree_start n =
     (if n \<le> 2 then 0 else case tree_hash_cnt (word_of_nat n) of None \<Rightarrow> 0 | Some c \<Rightarrow> 2 * unat c - n)"

definition tree_inputs :: "(byte list \<Rightarrow> byte list) \<Rightarrow> byte list list \<Rightarrow> byte list list" where
  "tree_inputs h hashes =
     (let start = tree_start (length hashes) in
      pair_inputs (drop start hashes) @ level_inputs h (take start hashes @ pair_up h (drop start hashes)))"

context hash32
begin

lemma length_pair_inputs [simp]: "length (pair_inputs xs) = length xs div 2"
  by (induction xs rule: pair_inputs.induct) auto

lemma length_in_pair_up: "x \<in> set (pair_up hash zs) \<Longrightarrow> length x = 32"
  by (induction zs rule: induct_list012) (auto simp: length_hash)

lemma pair_up_binding:
  assumes "length xs = length ys" and "even (length xs)" and "\<forall>x \<in> set xs \<union> set ys. length x = 32"
    and "collision_free hash (pair_inputs xs) (pair_inputs ys)"
    and "pair_up hash xs = pair_up hash ys"
  shows "xs = ys"
  using assms
proof (induction xs arbitrary: ys rule: induct_list012)
  case (3 x y xs)
  then obtain x' y' ys' where ys: "ys = x' # y' # ys'" by (cases ys; cases "tl ys") auto
  have "x @ y = x' @ y'" using "3.prems"(4,5) by (simp add: ys)
  then have "x = x' \<and> y = y'" using "3.prems"(3) by (simp add: ys)
  moreover have "xs = ys'" using 3 by (simp add: ys)
  ultimately show ?case by (simp add: ys)
qed auto

lemma merkle_binding:
  assumes "length xs = 2 ^ k" and "length ys = 2 ^ k" and "\<forall>x \<in> set xs \<union> set ys. length x = 32"
    and "collision_free hash (level_inputs hash xs) (level_inputs hash ys)"
    and "merkle hash k xs = merkle hash k ys"
  shows "xs = ys"
  using assms
proof (induction k arbitrary: xs ys)
  case 0
  then show ?case by (cases xs; cases ys) auto
next
  case (Suc k)
  have step: "level_inputs hash zs = pair_inputs zs @ level_inputs hash (pair_up hash zs)" if "length zs = 2 ^ Suc k" for zs
    using that one_le_power [of "2 :: nat" k] by (subst level_inputs.simps) simp
  have "merkle hash k (pair_up hash xs) = merkle hash k (pair_up hash ys)"
    using merkle_pair_up [of xs k hash] merkle_pair_up [of ys k hash] Suc.prems by simp
  moreover have free: "collision_free hash (pair_inputs xs) (pair_inputs ys)"
    "collision_free hash (level_inputs hash (pair_up hash xs)) (level_inputs hash (pair_up hash ys))"
    using Suc.prems(1,2,4) by (simp_all add: step collision_free_append)
  ultimately have "pair_up hash xs = pair_up hash ys"
    using Suc.IH [of "pair_up hash xs" "pair_up hash ys"] Suc.prems(1,2) length_in_pair_up by auto
  then show ?case using pair_up_binding [of xs ys] free(1) Suc.prems by simp
qed

lemma tree_leaves_binding:
  assumes "length xs = length ys" and "length xs \<le> 2 * 2 ^ k" and "\<forall>x \<in> set xs \<union> set ys. length x = 32"
    and "s = 2 * 2 ^ k - length xs"
    and "collision_free hash (pair_inputs (drop s xs)) (pair_inputs (drop s ys))"
    and "tree_leaves hash k xs = tree_leaves hash k ys"
  shows "xs = ys"
proof -
  have eq: "take s xs = take s ys" "pair_up hash (drop s xs) = pair_up hash (drop s ys)"
    using assms(1,4,6) by (simp_all add: tree_leaves_def Let_def)
  have "even (length (drop s xs))"
  proof (cases "s \<le> length xs")
    case True
    then have "length (drop s xs) = 2 * (length xs - 2 ^ k)" using assms(2,4) by simp
    then show ?thesis by simp
  qed simp
  then have "drop s xs = drop s ys"
    using pair_up_binding [OF _ _ _ assms(5) eq(2)] assms(1,3) by (auto dest: in_set_dropD)
  then show ?thesis using eq(1) append_take_drop_id by metis
qed

lemma length_tree_leaves:
  assumes "2 ^ k < length xs" and "length xs \<le> 2 ^ Suc k"
  shows "length (tree_leaves h k xs) = 2 ^ k"
proof -
  obtain d where d: "length xs = 2 ^ k + d" using assms(1) less_imp_add_positive by metis
  define m where "m = (2 :: nat) ^ k"
  have "d \<le> m" using assms(2) d by (simp add: m_def)
  then have "2 * m - (m + d) = m - d" "m + d - (m - d) = 2 * d" by simp_all
  then show ?thesis using \<open>d \<le> m\<close> by (simp add: tree_leaves_def Let_def d flip: m_def)
qed

lemma tree_hash_binding:
  assumes "length xs = length ys" and "0 < length xs" and "length xs \<le> 2 ^ 28"
    and "\<forall>x \<in> set xs \<union> set ys. length x = 32"
    and free: "collision_free hash (tree_inputs hash xs) (tree_inputs hash ys)"
    and eq: "tree_hash hash xs = tree_hash hash ys"
  shows "xs = ys"
proof (cases "length xs \<le> 2")
  case True
  then consider "length xs = 1" | "length xs = 2" using assms(2) by linarith
  then show ?thesis
  proof cases
    case 1
    then obtain x y where "xs = [x]" "ys = [y]" using assms(1) by (auto simp: length_Suc_conv)
    then show ?thesis using eq by (simp add: tree_hash_def)
  next
    case 2
    moreover have "length ys = 2" using 2 assms(1) by simp
    ultimately obtain x x' y y' where xy: "xs = [x, x']" "ys = [y, y']"
      by (auto simp: length_Suc_conv numeral_2_eq_2)
    have "x @ x' = y @ y'"
      using free eq by (simp add: xy tree_hash_def tree_inputs_def tree_start_def)
    then show ?thesis using assms(4) by (simp add: xy)
  qed
next
  case False
  then have n: "3 \<le> length xs" "3 \<le> length ys" using assms(1) by simp_all
  obtain k c where k: "tree_hash hash xs = Some (merkle hash k (tree_leaves hash k xs))"
    "2 ^ k < length xs" "length xs \<le> 2 ^ Suc k" "tree_hash_cnt (word_of_nat (length xs)) = Some c" "unat c = 2 ^ k"
    using tree_hash_merkle [OF n(1) assms(3)] by blast
  obtain l where l: "tree_hash hash ys = Some (merkle hash l (tree_leaves hash l ys))"
    "2 ^ l < length ys" "length ys \<le> 2 ^ Suc l"
    using tree_hash_merkle [OF n(2)] assms(1,3) by auto
  have "(2 :: nat) ^ k < 2 ^ Suc l" "(2 :: nat) ^ l < 2 ^ Suc k" using k l assms(1) by linarith+
  then have kl: "k = l" by (simp add: power_strict_increasing_iff del: power_Suc)
  define s where "s = 2 * 2 ^ k - length xs"
  have start: "tree_start (length xs) = s" "tree_start (length ys) = s"
    using k(4,5) n assms(1) by (simp_all add: tree_start_def s_def)
  have inputs: "tree_inputs hash xs = pair_inputs (drop s xs) @ level_inputs hash (tree_leaves hash k xs)"
    "tree_inputs hash ys = pair_inputs (drop s ys) @ level_inputs hash (tree_leaves hash k ys)"
    using start assms(1) by (simp_all add: tree_inputs_def tree_leaves_def Let_def s_def)
  have "\<forall>x \<in> set (tree_leaves hash k xs) \<union> set (tree_leaves hash k ys). length x = 32"
    using assms(4) by (auto simp: tree_leaves_def Let_def dest: in_set_takeD length_in_pair_up)
  moreover have free: "collision_free hash (pair_inputs (drop s xs)) (pair_inputs (drop s ys))"
    "collision_free hash (level_inputs hash (tree_leaves hash k xs)) (level_inputs hash (tree_leaves hash k ys))"
    using free assms(1) by (simp_all add: inputs collision_free_append)
  ultimately have "tree_leaves hash k xs = tree_leaves hash k ys"
    using merkle_binding [of "tree_leaves hash k xs" k "tree_leaves hash k ys"] k l kl eq
    by (simp add: length_tree_leaves)
  then show ?thesis using tree_leaves_binding [of xs ys k s] free(1) assms(1,4) k(3) by (simp add: s_def)
qed

end

section \<open>Properties\<close>

text \<open>C26: For 3 to \<open>2 ^ 28\<close> hashes the loop of \<open>tree_hash_cnt\<close> ends and returns the largest power
  of two strictly below the count.\<close>

theorem tree_hash_cnt_power:
  assumes "3 \<le> unat count" and "unat count \<le> 2 ^ 28"
  shows "\<exists>m c. tree_hash_cnt count = Some c \<and> unat c = 2 ^ m \<and>
    2 ^ m < unat count \<and> unat count \<le> 2 ^ Suc m"
  using tree_hash_cnt_value [OF assms] by blast

theorem tree_hash_cnt_power_witness:
  "\<exists>m c. tree_hash_cnt 5 = Some c \<and> unat c = 2 ^ m \<and> 2 ^ m < (5 :: nat) \<and> 5 \<le> (2 :: nat) ^ Suc m"
  using tree_hash_cnt_power [of 5] by simp

text \<open>The comment in the code says \<open>1 << floor(log2(count))\<close>; at a power of two the code returns
  half of that.\<close>

theorem tree_hash_cnt_at_power: "tree_hash_cnt 4 = Some 2"
  by (simp add: tree_hash_cnt_def tree_hash_pow.simps)

text \<open>C22: Hashing in place computes the root of a balanced tree: for 3 to \<open>2 ^ 28\<close> hashes no
  assertion fails, and the result is the root over \<open>2 ^ k\<close> leaves, the largest power of two
  below the count, where the last hashes have been paired to make the leaves.\<close>

theorem tree_hash_is_merkle:
  assumes "3 \<le> length hashes" and "length hashes \<le> 2 ^ 28"
  shows "\<exists>k. tree_hash h hashes = Some (merkle h k (tree_leaves h k hashes)) \<and>
    2 ^ k < length hashes \<and> length hashes \<le> 2 ^ Suc k"
  using tree_hash_merkle [OF assms] by blast

theorem tree_hash_is_merkle_witness:
  "\<exists>k. tree_hash id [[1], [2], [3]] = Some (merkle id k (tree_leaves id k [[1], [2], [3]])) \<and>
    2 ^ k < (3 :: nat) \<and> (3 :: nat) \<le> 2 ^ Suc k"
  using tree_hash_is_merkle [of "[[1], [2], [3]]" id] by (simp flip: numeral_3_eq_3)

text \<open>The root commits to the transactions: two lists of the same number of 32-byte hashes
  with the same root are equal, unless \<open>cn_fast_hash\<close> collides on two strings that are hashed in
  the same place of the two trees.\<close>

theorem tree_hash_commits:
  assumes "length xs = length ys" and "0 < length xs" and "length xs \<le> 2 ^ 28"
    and "\<forall>x \<in> set xs \<union> set ys. length x = 32"
    and "collision_free cn_fast_hash (tree_inputs cn_fast_hash xs) (tree_inputs cn_fast_hash ys)"
    and "tree_hash cn_fast_hash xs = tree_hash cn_fast_hash ys"
  shows "xs = ys"
  by (rule keccak.tree_hash_binding [OF assms])

definition sample_hashes :: "byte list list" where
  "sample_hashes = [replicate 32 1, replicate 32 2, replicate 32 3]"

theorem tree_hash_commits_witness:
  "list_all (\<lambda>x. length x = 32) sample_hashes \<and>
    collision_free cn_fast_hash (tree_inputs cn_fast_hash sample_hashes) (tree_inputs cn_fast_hash sample_hashes) \<and>
    sample_hashes = [replicate 32 1, replicate 32 2, replicate 32 3]"
proof -
  have "sample_hashes = [replicate 32 1, replicate 32 2, replicate 32 3]"
    by (rule tree_hash_commits) (simp_all add: sample_hashes_def)
  then show ?thesis by (simp add: sample_hashes_def)
qed

end
