(* ===== verification/Hashing.thy ===== *)
theory Hashing
  imports TreeHash TxFormat
begin

text \<open>The identifiers of transactions and blocks: \<open>calculate_transaction_hash\<close>,
  \<open>get_transaction_hash\<close>, \<open>get_block_hashing_blob\<close> and \<open>calculate_block_hash\<close> of
  \<open>src/cryptonote_basic/cryptonote_format_utils.cpp\<close>, over the formats of \<open>TxFormat\<close>, the hash of
  \<open>Keccak\<close> and the tree of \<open>TreeHash\<close>.

  Where the code ignores that an archive has failed, the model hashes what the archive has written
  until then. The members \<open>hash\<close>, \<open>blob_size\<close> and the two validity flags of a transaction, which
  only cache results, are in the record \<open>hash_cache\<close>.\<close>

section \<open>Transaction hashes\<close>

definition null_hash :: key where "null_hash = replicate 32 0"

definition TX_FORK_ID_STR :: "byte list" where
  "TX_FORK_ID_STR = map of_char ''ryo-currency''"

definition prefix_stream :: "'a transaction_prefix_scheme \<Rightarrow> byte list" where
  "prefix_stream tx =
     (case put_transaction_prefix tx of Some bs \<Rightarrow> bs | None \<Rightarrow> write_varint (version tx))"

definition prefix_hash_input :: "'a transaction_prefix_scheme \<Rightarrow> byte list" where
  "prefix_hash_input tx = (if 3 \<le> version tx then TX_FORK_ID_STR else []) @ prefix_stream tx"

definition get_transaction_prefix_hash :: "'a transaction_prefix_scheme \<Rightarrow> key" where
  "get_transaction_prefix_hash tx = cn_fast_hash (prefix_hash_input tx)"

text \<open>The signatures that have been written when the first list of a wrong size is met.\<close>

fun signature_stream :: "txin_v list \<Rightarrow> byte list list list \<Rightarrow> byte list" where
  "signature_stream (i # ins) (s # sigs) =
     (if get_signature_size i \<noteq> length s then [] else concat s @ signature_stream ins sigs)"
| "signature_stream _ _ = []"

definition v1_stream :: "transaction \<Rightarrow> byte list" where
  "v1_stream t = prefix_stream t @
     (if length (vin t) \<noteq> length (signatures t) then [] else signature_stream (vin t) (signatures t))"

definition calculate_transaction_hash :: "transaction \<Rightarrow> key option" where
  "calculate_transaction_hash t =
     (if version t = 1 then Some (cn_fast_hash (v1_stream t))
      else do {
        let h0 = get_transaction_prefix_hash t;
        base \<leftarrow> put_rctsig_base (rct_base t) (length (vin t)) (length (vout t));
        let h1 = cn_fast_hash base;
        h2 \<leftarrow> (if rct_type (rct_base t) = RCTTypeNull then Some null_hash
               else do {
                 prunable \<leftarrow> put_rctsig_prunable (rct_p t) (rct_type (rct_base t)) (length (vin t))
                   (length (vout t)) (tx_mixin (vin t));
                 Some (cn_fast_hash prunable)
               });
        Some (cn_fast_hash (h0 @ h1 @ h2))
      })"

text \<open>\<open>get_object_blobsize\<close>, which the code calls once the hash has been calculated: then the ring
  signature data can be written, and only the version or the signatures of version 1 can be wrong.\<close>

definition get_object_blobsize :: "transaction \<Rightarrow> nat" where
  "get_object_blobsize t =
     (case put_transaction t of
        Some blob \<Rightarrow> length blob
      | None \<Rightarrow> length (if version t = 1 then v1_stream t else write_varint (version t)))"

record hash_cache =
  hash_valid :: bool
  cached_hash :: key
  blob_size_valid :: bool
  blob_size :: nat

definition get_transaction_hash ::
    "transaction \<Rightarrow> hash_cache \<Rightarrow> bool \<Rightarrow> ((key \<times> nat option) option) \<times> hash_cache" where
  "get_transaction_hash t c want_size =
     (if hash_valid c then
        (if want_size then
           let c' = (if blob_size_valid c then c
                     else c\<lparr>blob_size := get_object_blobsize t, blob_size_valid := True\<rparr>)
           in (Some (cached_hash c', Some (blob_size c')), c')
         else (Some (cached_hash c, None), c))
      else
        case calculate_transaction_hash t of
          None \<Rightarrow> (None, c)
        | Some h \<Rightarrow>
            let c' = c\<lparr>cached_hash := h, hash_valid := True\<rparr> in
            if want_size
            then (Some (h, Some (get_object_blobsize t)),
                  c'\<lparr>blob_size := get_object_blobsize t, blob_size_valid := True\<rparr>)
            else (Some (h, None), c'))"

definition invalidate_hashes :: "hash_cache \<Rightarrow> hash_cache" where
  "invalidate_hashes c = c\<lparr>hash_valid := False, blob_size_valid := False\<rparr>"

section \<open>Block hashes\<close>

text \<open>The identifiers of the transactions of a block; when the hash of the miner's transaction cannot
  be calculated, the zero hash takes its place.\<close>

definition block_tx_ids :: "block \<Rightarrow> key list" where
  "block_tx_ids b =
     (case calculate_transaction_hash (miner_tx b) of None \<Rightarrow> null_hash | Some h \<Rightarrow> h) # tx_hashes b"

definition get_tx_tree_hash :: "block \<Rightarrow> key option" where
  "get_tx_tree_hash b = tree_hash cn_fast_hash (block_tx_ids b)"

definition get_block_hashing_blob :: "block \<Rightarrow> byte list option" where
  "get_block_hashing_blob b = do {
     tree_root_hash \<leftarrow> get_tx_tree_hash b;
     Some (put_block_header b @ tree_root_hash @ write_varint (word_of_nat (length (tx_hashes b)) + 1))
   }"

definition calculate_block_hash :: "block \<Rightarrow> key option" where
  "calculate_block_hash b = do {
     blob \<leftarrow> get_block_hashing_blob b;
     Some (cn_fast_hash (do_serialize_string_put blob))
   }"

section \<open>The strings that are hashed\<close>

definition transaction_hash_inputs :: "transaction \<Rightarrow> byte list list" where
  "transaction_hash_inputs t =
     (let base = (case put_rctsig_base (rct_base t) (length (vin t)) (length (vout t)) of Some x \<Rightarrow> x | None \<Rightarrow> []);
          prunable = (if rct_type (rct_base t) = RCTTypeNull then None
            else put_rctsig_prunable (rct_p t) (rct_type (rct_base t)) (length (vin t)) (length (vout t))
              (tx_mixin (vin t)))
      in [prefix_hash_input t, base, (case prunable of Some x \<Rightarrow> x | None \<Rightarrow> []),
          get_transaction_prefix_hash t @ cn_fast_hash base @
            (case prunable of Some x \<Rightarrow> cn_fast_hash x | None \<Rightarrow> null_hash)])"

definition block_hash_inputs :: "block \<Rightarrow> byte list list" where
  "block_hash_inputs b =
     (case get_block_hashing_blob b of None \<Rightarrow> [] | Some blob \<Rightarrow> do_serialize_string_put blob)
     # transaction_hash_inputs (miner_tx b) @ tree_inputs cn_fast_hash (block_tx_ids b)"

lemma length_transaction_hash_inputs [simp]: "length (transaction_hash_inputs t) = 4"
  by (simp add: transaction_hash_inputs_def Let_def)

lemma length_null_hash [simp]: "length null_hash = 32"
  by (simp add: null_hash_def)

lemma length_cn_fast_hash [simp]: "length (cn_fast_hash x) = 32"
  by (rule keccak.length_hash)

lemma length_prefix_hash [simp]: "length (get_transaction_prefix_hash t) = 32"
  by (simp add: get_transaction_prefix_hash_def)

lemma version_cases:
  assumes "put_transaction_prefix t = Some pre" and "version t \<noteq> 1"
  obtains "version t = 2" | "version t = 3"
proof -
  have "version t \<noteq> 0" "\<not> 3 < version t"
    using assms(1) by (auto simp: put_transaction_prefix_def MAX_TRANSACTION_VERSION_def split: if_splits)
  then have "unat (version t) \<in> {2, 3}"
    using assms(2) by (auto simp: word_less_nat_alt word_unat_eq_iff)
  then show thesis using that by (auto simp: word_unat_eq_iff)
qed

lemma write_varint_byte: "v < 128 \<Longrightarrow> write_varint v = [ucast v]"
  by (subst write_varint.simps) (simp add: not_le)

lemma prefix_hash_input_inj:
  fixes t t' :: transaction
  assumes "prefix_ok t" and "prefix_ok t'"
    and "put_transaction_prefix t = Some pre" and "put_transaction_prefix t' = Some pre'"
    and "version t \<noteq> 1" and "version t' \<noteq> 1"
    and eq: "prefix_hash_input t = prefix_hash_input t'"
  shows "pre = pre' \<and> transaction_prefix.truncate t = transaction_prefix.truncate t'"
proof -
  have hd: "\<exists>r. p = ucast (version u) # r"
    if "put_transaction_prefix u = Some p" "version u \<noteq> 1" for u :: transaction and p
    using that by (rule version_cases)
      (use that in \<open>auto simp: put_transaction_prefix_def write_varint_byte MAX_TRANSACTION_VERSION_def\<close>)
  have "pre = pre'"
    by (rule version_cases [OF assms(3,5)]; rule version_cases [OF assms(4,6)])
      (use eq hd [OF assms(3,5)] hd [OF assms(4,6)] assms(3,4) in
        \<open>auto simp: prefix_hash_input_def prefix_stream_def TX_FORK_ID_STR_def\<close>)
  then show ?thesis
    using prefix_get [OF assms(1,3), of "[]"] prefix_get [OF assms(2,4), of "[]"] by simp
qed


text \<open>What writing a transaction of a later version means for the calculation of its hash.\<close>

lemma later_version_parts:
  assumes "transaction_ok t" and "put_transaction t = Some blob" and "version t \<noteq> 1"
  obtains pre base prunable where "put_transaction_prefix t = Some pre"
    and "put_rctsig_base (rct_base t) (length (vin t)) (length (vout t)) = Some base"
    and "if rct_type (rct_base t) = RCTTypeNull then prunable = []
      else put_rctsig_prunable (rct_p t) (rct_type (rct_base t)) (length (vin t)) (length (vout t))
        (tx_mixin (vin t)) = Some prunable"
    and "blob = pre @ (if vin t = [] then [] else base @ prunable)"
proof (cases "vin t = []")
  case True
  then show ?thesis
    using assms that by (auto simp: put_transaction_def transaction_ok_def null_rct_base_def
        put_rctsig_base_def RCTTypeNull_def bind_eq_Some_conv)
next
  case False
  then show ?thesis
    using assms that by (auto simp: put_transaction_def bind_eq_Some_conv split: if_splits)
qed

lemma later_version_hash:
  assumes "put_rctsig_base (rct_base t) (length (vin t)) (length (vout t)) = Some base"
    and "if rct_type (rct_base t) = RCTTypeNull then prunable = []
      else put_rctsig_prunable (rct_p t) (rct_type (rct_base t)) (length (vin t)) (length (vout t))
        (tx_mixin (vin t)) = Some prunable"
    and "version t \<noteq> 1"
  defines "root \<equiv> get_transaction_prefix_hash t @ cn_fast_hash base @
    (if rct_type (rct_base t) = RCTTypeNull then null_hash else cn_fast_hash prunable)"
  shows "calculate_transaction_hash t = Some (cn_fast_hash root)"
    and "transaction_hash_inputs t = [prefix_hash_input t, base, prunable, root]"
  using assms
  by (auto simp: calculate_transaction_hash_def transaction_hash_inputs_def Let_def split: if_splits)

lemma rct_base_first: "put_rctsig_base r inputs outputs = Some base \<Longrightarrow> \<exists>rest. base = put_byte (rct_type r) @ rest"
  by (auto simp: put_rctsig_base_def split: if_splits)

lemma transaction_binding:
  assumes ok: "transaction_ok t" "transaction_ok t'"
    and put: "put_transaction t = Some blob" "put_transaction t' = Some blob'"
    and ver: "version t \<noteq> 1" "version t' \<noteq> 1"
    and free: "collision_free cn_fast_hash (transaction_hash_inputs t) (transaction_hash_inputs t')"
    and eq: "calculate_transaction_hash t = calculate_transaction_hash t'"
  shows "t = t'"
proof -
  obtain pre base prunable where p: "put_transaction_prefix t = Some pre"
    "put_rctsig_base (rct_base t) (length (vin t)) (length (vout t)) = Some base"
    "if rct_type (rct_base t) = RCTTypeNull then prunable = []
      else put_rctsig_prunable (rct_p t) (rct_type (rct_base t)) (length (vin t)) (length (vout t))
        (tx_mixin (vin t)) = Some prunable"
    "blob = pre @ (if vin t = [] then [] else base @ prunable)"
    by (rule later_version_parts [OF ok(1) put(1) ver(1)])
  obtain pre' base' prunable' where p': "put_transaction_prefix t' = Some pre'"
    "put_rctsig_base (rct_base t') (length (vin t')) (length (vout t')) = Some base'"
    "if rct_type (rct_base t') = RCTTypeNull then prunable' = []
      else put_rctsig_prunable (rct_p t') (rct_type (rct_base t')) (length (vin t')) (length (vout t'))
        (tx_mixin (vin t')) = Some prunable'"
    "blob' = pre' @ (if vin t' = [] then [] else base' @ prunable')"
    by (rule later_version_parts [OF ok(2) put(2) ver(2)])
  note h = later_version_hash [OF p(2,3) ver(1)] and h' = later_version_hash [OF p'(2,3) ver(2)]
  have "prefix_ok t" "prefix_ok t'" using ok by (simp_all add: transaction_ok_def)
  note prefix = prefix_hash_input_inj [OF this p(1) p'(1) ver]
  have same: "prefix_hash_input t = prefix_hash_input t'" "base = base'"
    and last: "(if rct_type (rct_base t) = RCTTypeNull then null_hash else cn_fast_hash prunable) =
      (if rct_type (rct_base t') = RCTTypeNull then null_hash else cn_fast_hash prunable')"
    and free3: "cn_fast_hash prunable = cn_fast_hash prunable' \<Longrightarrow> prunable = prunable'"
    using eq free h h' by (auto simp: get_transaction_prefix_hash_def)
  have trunc: "pre = pre'" "transaction_prefix.truncate t = transaction_prefix.truncate t'"
    using prefix same(1) by blast+
  obtain x x' where "put_byte (rct_type (rct_base t)) @ x = put_byte (rct_type (rct_base t')) @ x'"
    using rct_base_first [OF p(2)] rct_base_first [OF p'(2)] same(2) by metis
  then have "rct_type (rct_base t) = rct_type (rct_base t')" using byte_elem.put_unique by blast
  then have "prunable = prunable'" using last free3 p(3) p'(3) by (auto split: if_splits)
  moreover have "vin t = vin t'" using trunc(2) by (simp add: transaction_prefix.truncate_def)
  ultimately have "blob = blob'" using p(4) p'(4) same(2) trunc(1) by simp
  then show ?thesis using tx.put_unique [OF ok] put by simp
qed


lemma length_block_tx_ids [simp]: "length (block_tx_ids b) = Suc (length (tx_hashes b))"
  by (simp add: block_tx_ids_def)

lemma calculated_hash_length: "calculate_transaction_hash t = Some h \<Longrightarrow> length h = 32"
  by (auto simp: calculate_transaction_hash_def Let_def bind_eq_Some_conv split: if_splits)

lemma block_tx_ids_lengths: "block_ok b \<Longrightarrow> x \<in> set (block_tx_ids b) \<Longrightarrow> length x = 32"
  by (auto simp: block_tx_ids_def block_ok_def vector_ok_def list_all_iff key_ok_def
      intro: calculated_hash_length split: option.splits)

lemma tree_hash_length:
  assumes "0 < length xs" and "length xs \<le> 2 ^ 28" and "\<forall>x \<in> set xs. length x = 32"
    and "tree_hash cn_fast_hash xs = Some h"
  shows "length h = 32"
proof -
  consider "length xs = 1" | "length xs = 2" | "3 \<le> length xs" using assms(1) by linarith
  then show ?thesis
  proof cases
    case 3
    from tree_hash_merkle [OF this assms(2)] obtain k where
      "tree_hash cn_fast_hash xs = Some (merkle cn_fast_hash k (tree_leaves cn_fast_hash k xs))" "1 \<le> k"
      by blast
    then show ?thesis using assms(4) by (cases k) auto
  next
    case 1
    then show ?thesis using assms(3,4) by (auto simp: tree_hash_def length_Suc_conv)
  next
    case 2
    then show ?thesis using assms(4) by (auto simp: tree_hash_def length_Suc_conv numeral_2_eq_2)
  qed
qed

lemma block_binding:
  assumes ok: "block_ok b" "block_ok b'"
    and len: "length (tx_hashes b) < 2 ^ 28" "length (tx_hashes b') < 2 ^ 28"
    and free: "collision_free cn_fast_hash (block_hash_inputs b) (block_hash_inputs b')"
    and hash: "calculate_block_hash b = Some h" "calculate_block_hash b' = Some h"
  shows "block_header.truncate b = block_header.truncate b' \<and> block_tx_ids b = block_tx_ids b'"
proof -
  have blob: "\<exists>root. tree_hash cn_fast_hash (block_tx_ids d) = Some root \<and> length root = 32 \<and>
      get_block_hashing_blob d = Some (put_block_header d @ root @ write_varint (word_of_nat (length (tx_hashes d)) + 1))"
    if "block_ok d" "length (tx_hashes d) < 2 ^ 28" "calculate_block_hash d = Some h" for d
    using that tree_hash_length [of "block_tx_ids d"] block_tx_ids_lengths [of d]
    by (auto simp: calculate_block_hash_def get_block_hashing_blob_def get_tx_tree_hash_def bind_eq_Some_conv)
  obtain r r' where r: "tree_hash cn_fast_hash (block_tx_ids b) = Some r" "length r = 32"
      "get_block_hashing_blob b = Some (put_block_header b @ r @ write_varint (word_of_nat (length (tx_hashes b)) + 1))"
    and r': "tree_hash cn_fast_hash (block_tx_ids b') = Some r'" "length r' = 32"
      "get_block_hashing_blob b' = Some (put_block_header b' @ r' @ write_varint (word_of_nat (length (tx_hashes b')) + 1))"
    using blob [OF ok(1) len(1) hash(1)] blob [OF ok(2) len(2) hash(2)] by blast
  let ?s = "put_block_header b @ r @ write_varint (word_of_nat (length (tx_hashes b)) + 1)"
  let ?s' = "put_block_header b' @ r' @ write_varint (word_of_nat (length (tx_hashes b')) + 1)"
  have "do_serialize_string_put ?s = do_serialize_string_put ?s'"
    using free hash r(3) r'(3) by (simp add: block_hash_inputs_def calculate_block_hash_def)
  then have "?s = ?s'" unfolding do_serialize_string_put_def using varint64.put_unique by blast
  moreover have "key_ok (prev_id b)" "key_ok (prev_id b')" using ok by (simp_all add: block_ok_def)
  ultimately have hdr: "block_header.truncate b = block_header.truncate b'"
    and "r @ write_varint (word_of_nat (length (tx_hashes b)) + 1) =
      r' @ write_varint (word_of_nat (length (tx_hashes b')) + 1)"
    using block_header_get [of b "r @ write_varint (word_of_nat (length (tx_hashes b)) + 1)"]
      block_header_get [of b' "r' @ write_varint (word_of_nat (length (tx_hashes b')) + 1)"] by simp_all
  then have root: "r = r'" and "write_varint (word_of_nat (length (tx_hashes b)) + 1) @ [] =
      write_varint (word_of_nat (length (tx_hashes b')) + 1) @ []" using r(2) r'(2) by simp_all
  then have "(word_of_nat (length (tx_hashes b)) :: u64) = word_of_nat (length (tx_hashes b'))"
    using varint64.put_unique by fastforce
  from arg_cong [OF this, of unat] have count: "length (tx_hashes b) = length (tx_hashes b')"
    using len by (simp add: unsigned_of_nat take_bit_nat_eq_self)
  have "collision_free cn_fast_hash (tree_inputs cn_fast_hash (block_tx_ids b)) (tree_inputs cn_fast_hash (block_tx_ids b'))"
    using free by (simp add: block_hash_inputs_def collision_free_append)
  then have "block_tx_ids b = block_tx_ids b'"
    using keccak.tree_hash_binding [of "block_tx_ids b" "block_tx_ids b'"] count len ok r(1) r'(1) root
      block_tx_ids_lengths by auto
  then show ?thesis using hdr by blast
qed


section \<open>The cache\<close>

definition cache_ok :: "transaction \<Rightarrow> hash_cache \<Rightarrow> bool" where
  "cache_ok t c \<longleftrightarrow> (hash_valid c \<longrightarrow> calculate_transaction_hash t = Some (cached_hash c)) \<and>
     (blob_size_valid c \<longrightarrow> blob_size c = get_object_blobsize t)"

section \<open>Properties\<close>

text \<open>C11: The transaction hash commits to the whole transaction: two well-formed transactions of
  version 2 or 3 that can be written and have the same hash are equal, unless \<open>cn_fast_hash\<close> collides
  on two strings that are hashed in the same place of the two calculations.\<close>

theorem transaction_hash_commits:
  assumes "transaction_ok t" and "transaction_ok t'"
    and "put_transaction t = Some blob" and "put_transaction t' = Some blob'"
    and "version t \<noteq> 1" and "version t' \<noteq> 1"
    and "collision_free cn_fast_hash (transaction_hash_inputs t) (transaction_hash_inputs t')"
    and "calculate_transaction_hash t = calculate_transaction_hash t'"
  shows "t = t'"
  by (rule transaction_binding [OF assms])

theorem transaction_hash_commits_witness:
  "transaction_ok sample_coinbase \<and>
    collision_free cn_fast_hash (transaction_hash_inputs sample_coinbase) (transaction_hash_inputs sample_coinbase)
    \<and> sample_coinbase = sample_coinbase\<lparr>version := 3\<rparr>"
proof -
  have same: "sample_coinbase\<lparr>version := 3\<rparr> = sample_coinbase" by (simp add: sample_coinbase_def)
  obtain blob where "put_transaction sample_coinbase = Some blob" using sample_coinbase_put by blast
  then have "sample_coinbase = sample_coinbase\<lparr>version := 3\<rparr>"
    by (intro transaction_hash_commits [of _ _ blob blob])
      (simp_all add: same sample_coinbase_ok, simp_all add: sample_coinbase_def)
  then show ?thesis using sample_coinbase_ok by simp
qed

text \<open>C4: The block hash commits to the whole block: two well-formed blocks with fewer than \<open>2^28\<close>
  transactions whose miner transactions are of version 2 or 3, that can be written and have the same
  hash are equal, unless \<open>cn_fast_hash\<close> collides on two strings in the same place of the two
  calculations.\<close>

theorem block_hash_commits:
  assumes "block_ok b" and "block_ok b'"
    and "put_block b = Some blob" and "put_block b' = Some blob'"
    and "version (miner_tx b) \<noteq> 1" and "version (miner_tx b') \<noteq> 1"
    and "length (tx_hashes b) < 2 ^ 28" and "length (tx_hashes b') < 2 ^ 28"
    and "collision_free cn_fast_hash (block_hash_inputs b) (block_hash_inputs b')"
    and "calculate_block_hash b = Some h" and "calculate_block_hash b' = Some h"
  shows "b = b'"
proof -
  have hdr: "block_header.truncate b = block_header.truncate b'" and ids: "block_tx_ids b = block_tx_ids b'"
    using block_binding [OF assms(1,2,7,8,9,10,11)] by blast+
  obtain t t' where t: "put_transaction (miner_tx b) = Some t" "put_transaction (miner_tx b') = Some t'"
    using assms(3,4) by (auto simp: put_block_def bind_eq_Some_conv)
  have ok: "transaction_ok (miner_tx b)" "transaction_ok (miner_tx b')"
    using assms(1,2) by (simp_all add: block_ok_def)
  have defined: "\<exists>h. calculate_transaction_hash d = Some h" if "transaction_ok d" "put_transaction d = Some x" "version d \<noteq> 1" for d x
    by (rule later_version_parts [OF that]) (use later_version_hash(1) that(3) in blast)
  obtain x y where "calculate_transaction_hash (miner_tx b) = Some x"
    "calculate_transaction_hash (miner_tx b') = Some y"
    using defined [OF ok(1) t(1) assms(5)] defined [OF ok(2) t(2) assms(6)] by blast
  then have "calculate_transaction_hash (miner_tx b) = calculate_transaction_hash (miner_tx b')"
    using ids by (simp add: block_tx_ids_def)
  moreover have "collision_free cn_fast_hash (transaction_hash_inputs (miner_tx b)) (transaction_hash_inputs (miner_tx b'))"
    using assms(9) by (simp add: block_hash_inputs_def collision_free_append)
  ultimately have "miner_tx b = miner_tx b'" using transaction_binding [OF ok t assms(5,6)] by blast
  moreover have "tx_hashes b = tx_hashes b'" using ids by (simp add: block_tx_ids_def)
  ultimately show ?thesis using hdr by (cases b; cases b') (simp add: block_header.truncate_def)
qed

theorem block_hash_commits_witness:
  "block_ok sample_block \<and> (\<exists>h. calculate_block_hash sample_block = Some h) \<and>
    sample_block = sample_block\<lparr>nonce := 12345\<rparr>"
proof -
  have same: "sample_block\<lparr>nonce := 12345\<rparr> = sample_block" by (simp add: sample_block_def)
  have ok: "block_ok sample_block"
    by (simp add: sample_block_def block_ok_def key_ok_def vector_ok_def sample_coinbase_ok)
  obtain blob where blob: "put_block sample_block = Some blob"
    using sample_coinbase_put by (auto simp: sample_block_def put_block_def)
  obtain h where h: "calculate_block_hash sample_block = Some h"
    by (simp add: calculate_block_hash_def get_block_hashing_blob_def get_tx_tree_hash_def
        block_tx_ids_def tree_hash_def sample_block_def)
  have "sample_block = sample_block\<lparr>nonce := 12345\<rparr>"
    by (rule block_hash_commits [of _ _ blob blob h])
      (simp_all add: same ok blob h, simp_all add: sample_block_def sample_coinbase_def)
  then show ?thesis using ok h by blast
qed

text \<open>The cached hash is the hash: starting from a cache that agrees with the transaction, as
  it does after \<open>invalidate_hashes\<close>, \<open>get_transaction_hash\<close> returns what
  \<open>calculate_transaction_hash\<close> returns, with the size of the blob when it is asked for, and leaves a
  cache that agrees again.\<close>

theorem cached_hash_exact:
  assumes "cache_ok t c"
  shows "fst (get_transaction_hash t c want_size) =
      map_option (\<lambda>h. (h, if want_size then Some (get_object_blobsize t) else None)) (calculate_transaction_hash t)
    \<and> cache_ok t (snd (get_transaction_hash t c want_size)) \<and> cache_ok t' (invalidate_hashes c)"
  using assms
  by (auto simp: cache_ok_def get_transaction_hash_def invalidate_hashes_def Let_def split: option.splits)

theorem cached_hash_exact_witness:
  "fst (get_transaction_hash sample_coinbase
      \<lparr>hash_valid = False, cached_hash = null_hash, blob_size_valid = False, blob_size = 7\<rparr> False) =
    map_option (\<lambda>h. (h, None)) (calculate_transaction_hash sample_coinbase)"
  using cached_hash_exact [of sample_coinbase
      "\<lparr>hash_valid = False, cached_hash = null_hash, blob_size_valid = False, blob_size = 7\<rparr>" False]
  by (simp add: cache_ok_def)

end
