(* ===== verification/Amounts.thy ===== *)
theory Amounts
  imports TxFormat
begin

text \<open>Amounts of money: the sums over the inputs and outputs of a transaction with their overflow
  checks, the conversion of output offsets, and the text form of amounts, all of
  \<open>src/cryptonote_basic/cryptonote_format_utils.cpp\<close>.

  \<open>boost::algorithm::trim\<close> and \<open>boost::lexical_cast\<close> are not part of the repository and are
  arguments of the parser; the locale \<open>boost_text\<close> states what the parser relies on. The decimal
  point, a global variable of the code, is an argument as well.\<close>

section \<open>Sums and overflow checks\<close>

fun get_inputs_money :: "u64 \<Rightarrow> txin_v list \<Rightarrow> u64 option" where
  "get_inputs_money money [] = Some money"
| "get_inputs_money money (Txin_to_key amt _ _ # ins) = get_inputs_money (money + amt) ins"
| "get_inputs_money money (_ # ins) = None"

definition get_inputs_money_amount :: "'a transaction_prefix_scheme \<Rightarrow> u64 option" where
  "get_inputs_money_amount tx = get_inputs_money 0 (vin tx)"

fun inputs_overflow_from :: "u64 \<Rightarrow> txin_v list \<Rightarrow> bool" where
  "inputs_overflow_from money [] = True"
| "inputs_overflow_from money (Txin_to_key amt _ _ # ins) =
     (if money > amt + money then False else inputs_overflow_from (money + amt) ins)"
| "inputs_overflow_from money (_ # ins) = False"

definition check_inputs_overflow :: "'a transaction_prefix_scheme \<Rightarrow> bool" where
  "check_inputs_overflow tx = inputs_overflow_from 0 (vin tx)"

fun outs_overflow_from :: "u64 \<Rightarrow> tx_out list \<Rightarrow> bool" where
  "outs_overflow_from money [] = True"
| "outs_overflow_from money (out # outs) =
     (if money > amount out + money then False else outs_overflow_from (money + amount out) outs)"

definition check_outs_overflow :: "'a transaction_prefix_scheme \<Rightarrow> bool" where
  "check_outs_overflow tx = outs_overflow_from 0 (vout tx)"

definition get_outs_money_amount :: "'a transaction_prefix_scheme \<Rightarrow> u64" where
  "get_outs_money_amount tx = fold (\<lambda>out money. money + amount out) (vout tx) 0"

definition check_money_overflow :: "'a transaction_prefix_scheme \<Rightarrow> bool" where
  "check_money_overflow tx \<longleftrightarrow> check_inputs_overflow tx \<and> check_outs_overflow tx"

section \<open>Output offsets\<close>

fun absolute_from :: "u64 \<Rightarrow> u64 list \<Rightarrow> u64 list" where
  "absolute_from prev [] = []"
| "absolute_from prev (x # xs) = (x + prev) # absolute_from (x + prev) xs"

definition relative_output_offsets_to_absolute :: "u64 list \<Rightarrow> u64 list" where
  "relative_output_offsets_to_absolute off = (case off of [] \<Rightarrow> [] | x # xs \<Rightarrow> x # absolute_from x xs)"

text \<open>The loop that subtracts runs from the back, so that every element still finds the old value of
  its predecessor.\<close>

fun subtract_down :: "nat \<Rightarrow> u64 list \<Rightarrow> u64 list" where
  "subtract_down 0 res = res"
| "subtract_down (Suc i) res = subtract_down i (res[Suc i := res ! Suc i - res ! i])"

definition absolute_output_offsets_to_relative :: "u64 list \<Rightarrow> u64 list" where
  "absolute_output_offsets_to_relative off =
     (if off = [] then [] else subtract_down (length off - 1) (sort off))"

section \<open>Amounts as text\<close>

abbreviation is_digit :: "char \<Rightarrow> bool" where
  "is_digit c \<equiv> (of_char c :: nat) \<in> {48..57}"

abbreviation is_space :: "char \<Rightarrow> bool" where
  "is_space c \<equiv> (of_char c :: nat) = 32 \<or> (of_char c :: nat) \<in> {9..13}"

text \<open>\<open>std::to_string\<close> of an unsigned number.\<close>

fun to_string :: "nat \<Rightarrow> string" where
  "to_string n = (if n < 10 then [char_of (48 + n)] else to_string (n div 10) @ [char_of (48 + n mod 10)])"

declare to_string.simps [simp del]

definition print_money :: "nat \<Rightarrow> u64 \<Rightarrow> u32 \<Rightarrow> string" where
  "print_money default_decimal_point amt decimal_point =
     (let d = (if decimal_point = - 1 then default_decimal_point else unat decimal_point);
          s = to_string (unat amt);
          s = (if length s < d + 1 then replicate (d + 1 - length s) CHR ''0'' @ s else s)
      in if d > 0 then take (length s - d) s @ ''.'' @ drop (length s - d) s else s)"

fun strip_zeros :: "nat \<Rightarrow> nat \<Rightarrow> string \<Rightarrow> nat \<times> string" where
  "strip_zeros d fraction_size s =
     (if d < fraction_size \<and> last s = CHR ''0'' then strip_zeros d (fraction_size - 1) (butlast s)
      else (fraction_size, s))"

declare strip_zeros.simps [simp del]

definition get_xtype_from_string :: "(string \<Rightarrow> u64 option) \<Rightarrow> string \<Rightarrow> u64 option" where
  "get_xtype_from_string lexical_cast str_id =
     (if list_all is_digit str_id then lexical_cast str_id else None)"

definition parse_amount ::
    "(string \<Rightarrow> string) \<Rightarrow> (string \<Rightarrow> u64 option) \<Rightarrow> nat \<Rightarrow> string \<Rightarrow> u64 option" where
  "parse_amount trim lexical_cast default_decimal_point str_amount =
     (let s = trim str_amount;
          point_index = length (takeWhile (\<lambda>c. c \<noteq> CHR ''.'') s);
          (fraction_size, s) =
            (if point_index < length s
             then strip_zeros default_decimal_point (length s - point_index - 1) s
             else (0, s))
      in if default_decimal_point < fraction_size then None
         else
           let s = take point_index s @ drop (point_index + 1) s
           in if s = [] then None
              else get_xtype_from_string lexical_cast
                (if fraction_size < default_decimal_point
                 then s @ replicate (default_decimal_point - fraction_size) CHR ''0'' else s))"

section \<open>Exactness of the overflow checks\<close>

fun key_amounts :: "txin_v list \<Rightarrow> u64 list option" where
  "key_amounts [] = Some []"
| "key_amounts (Txin_to_key amt _ _ # ins) = map_option ((#) amt) (key_amounts ins)"
| "key_amounts (_ # ins) = None"

lemma wraps_iff: "(money :: u64) > a + money \<longleftrightarrow> 2 ^ 64 \<le> unat money + unat a"
  using carry_u64 [of money a] by (simp add: add.commute)

lemma inputs_overflow_exact:
  "inputs_overflow_from money ins \<longleftrightarrow>
    (\<exists>as. key_amounts ins = Some as \<and> unat money + sum_list (map unat as) < 2 ^ 64)"
proof (induction money ins rule: inputs_overflow_from.induct)
  case (2 money amt o k ins)
  show ?case
  proof (cases "money > amt + money")
    case True
    then show ?thesis by (auto simp: wraps_iff)
  next
    case False
    then have "unat (money + amt) = unat money + unat amt"
      by (simp add: wraps_iff unat_add_no_overflow_u64)
    then show ?thesis using False 2 by auto
  qed
qed auto

lemma outs_overflow_exact:
  "outs_overflow_from money outs \<longleftrightarrow> unat money + sum_list (map (\<lambda>out. unat (amount out)) outs) < 2 ^ 64"
proof (induction outs arbitrary: money)
  case (Cons out outs)
  show ?case
  proof (cases "money > amount out + money")
    case True
    then show ?thesis by (auto simp: wraps_iff)
  next
    case False
    then have "unat (money + amount out) = unat money + unat (amount out)"
      by (simp add: wraps_iff unat_add_no_overflow_u64)
    then show ?thesis using False Cons by auto
  qed
qed auto

lemma inputs_money_exact:
  "key_amounts ins = Some as \<Longrightarrow> get_inputs_money money ins = Some (money + sum_list as)"
  by (induction money ins arbitrary: as rule: get_inputs_money.induct) (auto simp: ac_simps)

lemma outs_money_exact:
  "fold (\<lambda>out money. money + amount out) outs money = money + sum_list (map amount outs)"
  by (induction outs arbitrary: money) (auto simp: ac_simps)

lemma unat_sum_list: "sum_list (map unat as) < 2 ^ 64 \<Longrightarrow> unat (sum_list (as :: u64 list)) = sum_list (map unat as)"
  by (induction as) (simp_all add: unat_add_no_overflow_u64)

section \<open>Offsets\<close>

lemma subtract_down_keeps: "i < j \<Longrightarrow> j < length res \<Longrightarrow> subtract_down i res ! j = res ! j"
  by (induction i res rule: subtract_down.induct) auto

lemma length_subtract_down [simp]: "length (subtract_down i res) = length res"
  by (induction i res rule: subtract_down.induct) auto

lemma subtract_down_nth:
  "i < length res \<Longrightarrow> j \<le> i \<Longrightarrow> subtract_down i res ! j = (if j = 0 then res ! 0 else res ! j - res ! (j - 1))"
proof (induction i res rule: subtract_down.induct)
  case (2 i res)
  show ?case
  proof (cases "j = Suc i")
    case True
    then show ?thesis using 2 by (simp add: subtract_down_keeps)
  next
    case False
    then show ?thesis using 2 by auto
  qed
qed auto

lemma length_absolute_from [simp]: "length (absolute_from p xs) = length xs"
  by (induction p xs rule: absolute_from.induct) auto

lemma absolute_from_nth: "i < length xs \<Longrightarrow> absolute_from p xs ! i = p + sum_list (take (Suc i) xs)"
proof (induction p xs arbitrary: i rule: absolute_from.induct)
  case (2 p x xs)
  then show ?case by (cases i) (auto simp: ac_simps)
qed simp

lemma absolute_nth:
  "i < length xs \<Longrightarrow> relative_output_offsets_to_absolute xs ! i = sum_list (take (Suc i) xs)"
  by (cases xs; cases i) (auto simp: relative_output_offsets_to_absolute_def absolute_from_nth)

lemma length_absolute [simp]: "length (relative_output_offsets_to_absolute xs) = length xs"
  by (cases xs) (auto simp: relative_output_offsets_to_absolute_def)

lemma length_relative [simp]: "length (absolute_output_offsets_to_relative xs) = length xs"
  by (auto simp: absolute_output_offsets_to_relative_def)

lemma relative_nth:
  "i < length xs \<Longrightarrow> absolute_output_offsets_to_relative xs ! i =
    (if i = 0 then sort xs ! 0 else sort xs ! i - sort xs ! (i - 1))"
  by (auto simp: absolute_output_offsets_to_relative_def subtract_down_nth)

lemma sum_relative:
  "i < length xs \<Longrightarrow> sum_list (take (Suc i) (absolute_output_offsets_to_relative xs)) = sort xs ! i"
proof (induction i)
  case 0
  then show ?case by (cases "absolute_output_offsets_to_relative xs")
    (use relative_nth [of 0 xs] length_relative [of xs] in auto)
next
  case (Suc i)
  then have "take (Suc (Suc i)) (absolute_output_offsets_to_relative xs) =
      take (Suc i) (absolute_output_offsets_to_relative xs) @ [absolute_output_offsets_to_relative xs ! Suc i]"
    by (intro take_Suc_conv_app_nth) simp
  then show ?case using Suc by (simp add: relative_nth)
qed

lemma absolute_of_relative:
  "relative_output_offsets_to_absolute (absolute_output_offsets_to_relative xs) = sort xs"
  by (rule nth_equalityI) (simp_all add: absolute_nth sum_relative)

lemma sum_take_mono: "i \<le> j \<Longrightarrow> sum_list (take i (xs :: nat list)) \<le> sum_list (take j xs)"
  by (metis le_add1 le_iff_add sum_list_append take_add)

lemma absolute_sorted:
  assumes "sum_list (map unat xs) < 2 ^ 64"
  shows "sorted (relative_output_offsets_to_absolute xs)"
proof (subst sorted_iff_nth_mono, intro allI impI)
  fix i j
  assume ij: "i \<le> j" "j < length (relative_output_offsets_to_absolute xs)"
  have part: "unat (sum_list (take k xs)) = sum_list (take k (map unat xs))" for k
    using unat_sum_list [of "take k xs"] sum_take_mono [of k "max k (length xs)" "map unat xs"] assms
    by (simp add: take_map)
  have "sum_list (take (Suc i) (map unat xs)) \<le> sum_list (take (Suc j) (map unat xs))"
    using ij by (intro sum_take_mono) simp
  then show "relative_output_offsets_to_absolute xs ! i \<le> relative_output_offsets_to_absolute xs ! j"
    using ij by (simp add: absolute_nth word_le_nat_alt part)
qed

lemma relative_of_absolute:
  assumes "sum_list (map unat xs) < 2 ^ 64"
  shows "absolute_output_offsets_to_relative (relative_output_offsets_to_absolute xs) = xs"
proof (rule nth_equalityI)
  fix i
  assume "i < length (absolute_output_offsets_to_relative (relative_output_offsets_to_absolute xs))"
  then have i: "i < length xs" by simp
  have "sort (relative_output_offsets_to_absolute xs) = relative_output_offsets_to_absolute xs"
    using absolute_sorted [OF assms] by (rule sorted_sort_id)
  then show "absolute_output_offsets_to_relative (relative_output_offsets_to_absolute xs) ! i = xs ! i"
    using i by (cases i) (auto simp: relative_nth absolute_nth take_Suc_conv_app_nth)
qed simp

section \<open>Decimal text\<close>

definition dec_val :: "string \<Rightarrow> nat" where
  "dec_val s = foldl (\<lambda>a c. 10 * a + (of_char c - 48)) 0 s"

text \<open>What the parser relies on in \<open>boost\<close>: \<open>trim\<close> keeps a text that neither starts nor ends with a
  space, and \<open>lexical_cast\<close> to an unsigned 64-bit number converts a non-empty text of digits and
  fails when the value does not fit.\<close>

locale boost_text =
  fixes trim :: "string \<Rightarrow> string" and lexical_cast :: "string \<Rightarrow> u64 option"
  assumes trim_inner: "s \<noteq> [] \<Longrightarrow> \<not> is_space (hd s) \<Longrightarrow> \<not> is_space (last s) \<Longrightarrow> trim s = s"
    and lexical_digits: "s \<noteq> [] \<Longrightarrow> list_all is_digit s \<Longrightarrow>
      lexical_cast s = (if dec_val s < 2 ^ 64 then Some (word_of_nat (dec_val s)) else None)"

lemma dec_val_Nil [simp]: "dec_val [] = 0"
  by (simp add: dec_val_def)

lemma dec_val_snoc [simp]: "dec_val (s @ [c]) = 10 * dec_val s + (of_char c - 48)"
  by (simp add: dec_val_def)

lemma dec_val_zeros [simp]: "dec_val (s @ replicate k CHR ''0'') = dec_val s * 10 ^ k"
  by (induction k) (simp_all add: replicate_append_same [symmetric] dec_val_def)

lemma dec_val_leading_zeros [simp]: "dec_val (replicate k CHR ''0'' @ s) = dec_val s"
proof (induction s rule: rev_induct)
  case Nil
  show ?case using dec_val_zeros [of "[]" k] by simp
next
  case (snoc c s)
  then show ?case using dec_val_snoc [of "replicate k CHR ''0'' @ s" c] by simp
qed

lemma of_char_digit: "n < 10 \<Longrightarrow> of_char (char_of (48 + n)) = 48 + n" for n :: nat
  by simp

lemma to_string_digits: "list_all is_digit (to_string n)" and dec_val_to_string: "dec_val (to_string n) = n"
  and to_string_not_Nil: "to_string n \<noteq> []"
proof (induction n rule: to_string.induct)
  case (1 n)
  {
    case 1
    then show ?case using "1.IH" by (subst to_string.simps) auto
  next
    case 2
    then show ?case using "1.IH" dec_val_snoc [of "[]"] by (subst to_string.simps) (auto simp: dec_val_snoc)
  next
    case 3
    then show ?case by (subst to_string.simps) auto
  }
qed

lemma strip_zeros_spec:
  "\<exists>f' k. f = f' @ replicate k CHR ''0'' \<and> strip_zeros d (length f) (p @ f) = (length f', p @ f') \<and>
    (k = 0 \<or> d \<le> length f') \<and> (length f' \<le> d \<or> f' \<noteq> [] \<and> last f' \<noteq> CHR ''0'')"
proof (induction f rule: rev_induct)
  case Nil
  show ?case by (rule exI [of _ "[]"], rule exI [of _ 0]) (simp add: strip_zeros.simps)
next
  case (snoc c f)
  show ?case
  proof (cases "d < Suc (length f) \<and> c = CHR ''0''")
    case True
    obtain f' k where IH: "f = f' @ replicate k CHR ''0''" "strip_zeros d (length f) (p @ f) = (length f', p @ f')"
      "k = 0 \<or> d \<le> length f'" "length f' \<le> d \<or> f' \<noteq> [] \<and> last f' \<noteq> CHR ''0''"
      using snoc by blast
    have "strip_zeros d (length (f @ [c])) (p @ f @ [c]) = strip_zeros d (length f) (p @ f)"
      using True by (subst strip_zeros.simps) (simp add: butlast_append)
    moreover have "d \<le> length f'" using IH(1,3) True by auto
    ultimately show ?thesis using IH True
      by (intro exI [of _ f'] exI [of _ "Suc k"]) (simp add: replicate_append_same)
  next
    case False
    then show ?thesis
      by (intro exI [of _ "f @ [c]"] exI [of _ 0]) (subst strip_zeros.simps, auto)
  qed
qed

context boost_text
begin

lemma lexical_iff:
  assumes "s \<noteq> []" and "list_all is_digit s"
  shows "get_xtype_from_string lexical_cast s = Some a \<longleftrightarrow> dec_val s = unat a"
  using lexical_digits [OF assms] assms(2)
  by (auto simp: get_xtype_from_string_def unsigned_of_nat take_bit_nat_eq_self)

lemma trim_digits:
  assumes "s \<noteq> []" and "\<forall>c \<in> set s. is_digit c \<or> c = CHR ''.''"
  shows "trim s = s"
proof (rule trim_inner [OF assms(1)])
  have "is_digit (hd s) \<or> hd s = CHR ''.''" "is_digit (last s) \<or> last s = CHR ''.''"
    using assms hd_in_set last_in_set by blast+
  then show "\<not> is_space (hd s)" "\<not> is_space (last s)" by auto
qed

lemma parse_integer_iff:
  assumes "i \<noteq> []" and "list_all is_digit i"
  shows "parse_amount trim lexical_cast d i = Some a \<longleftrightarrow> dec_val i * 10 ^ d = unat a"
proof -
  have all: "\<forall>c \<in> set i. is_digit c" using assms(2) by (simp add: list_all_iff)
  then have "trim i = i" using assms(1) by (intro trim_digits) blast+
  moreover have tw: "takeWhile (\<lambda>c. c \<noteq> CHR ''.'') i = i" using all by (auto simp: takeWhile_eq_all_conv)
  ultimately have "parse_amount trim lexical_cast d i =
      get_xtype_from_string lexical_cast (i @ replicate d CHR ''0'')"
    unfolding parse_amount_def Let_def using assms(1) by (simp only: tw) simp
  also have "\<dots> = Some a \<longleftrightarrow> dec_val (i @ replicate d CHR ''0'') = unat a"
    using assms by (intro lexical_iff) (auto simp: list_all_iff)
  finally show ?thesis by simp
qed

lemma parse_point_iff:
  assumes i: "list_all is_digit i" and f: "list_all is_digit f" and "i \<noteq> [] \<or> f \<noteq> [] \<and> 0 < d"
  shows "parse_amount trim lexical_cast d (i @ CHR ''.'' # f) = Some a \<longleftrightarrow>
    dec_val (i @ f) * 10 ^ d = unat a * 10 ^ length f"
proof -
  let ?s = "i @ CHR ''.'' # f"
  obtain f' k where f': "f = f' @ replicate k CHR ''0''"
    "strip_zeros d (length f) ((i @ ''.'') @ f) = (length f', (i @ ''.'') @ f')"
    "k = 0 \<or> d \<le> length f'" "length f' \<le> d \<or> f' \<noteq> [] \<and> last f' \<noteq> CHR ''0''"
    using strip_zeros_spec by blast
  have digits: "\<forall>c \<in> set i. is_digit c" "\<forall>c \<in> set f. is_digit c"
    using i f by (simp_all add: list_all_iff)
  then have "trim ?s = ?s" by (intro trim_digits) auto
  moreover have "takeWhile (\<lambda>c. c \<noteq> CHR ''.'') ?s = i"
    using digits(1) by (subst takeWhile_append2) auto
  ultimately have parse: "parse_amount trim lexical_cast d ?s =
      (if d < length f' then None else if i @ f' = [] then None
       else get_xtype_from_string lexical_cast ((i @ f') @ replicate (d - length f') CHR ''0''))"
    using f'(2) by (simp add: parse_amount_def Let_def)
  have goal: "dec_val (i @ f) * 10 ^ d = unat a * 10 ^ length f \<longleftrightarrow>
      dec_val (i @ f') * 10 ^ d = unat a * 10 ^ length f'"
    using dec_val_zeros [of "i @ f'" k] by (simp add: f'(1) power_add)
  show ?thesis
  proof (cases "d < length f'")
    case True
    then obtain g c where g: "f' = g @ [c]" "c \<noteq> CHR ''0''" using f'(4) by (cases f' rule: rev_cases) auto
    have "of_char c \<noteq> (of_char CHR ''0'' :: nat)" using g(2) by (simp only: of_char_eq_iff not_False_eq_True)
    moreover have "is_digit c" using digits(2) f'(1) g by auto
    ultimately have "0 < of_char c - (48 :: nat) \<and> of_char c - (48 :: nat) < 10" by auto
    moreover have "dec_val (i @ f') = 10 * dec_val (i @ g) + (of_char c - 48)"
      using dec_val_snoc [of "i @ g" c] by (simp add: g)
    ultimately have "dec_val (i @ f') mod 10 \<noteq> 0" by presburger
    moreover have "dec_val (i @ f') * 10 ^ d \<noteq> unat a * 10 ^ length f'" if "dec_val (i @ f') mod 10 \<noteq> 0"
    proof
      assume e: "dec_val (i @ f') * 10 ^ d = unat a * 10 ^ length f'"
      obtain m where "length f' = d + Suc m" using True less_iff_Suc_add by auto
      then have "dec_val (i @ f') = unat a * 10 ^ Suc m" using e by (simp add: power_add)
      then show False using that by simp
    qed
    ultimately show ?thesis using True by (simp only: parse goal) simp
  next
    case False
    then obtain m where m: "d = length f' + m" using le_iff_add by (meson not_less)
    have ne: "i @ f' \<noteq> []" using assms(3) f'(1,3) False by (cases k) auto
    have "get_xtype_from_string lexical_cast ((i @ f') @ replicate m CHR ''0'') = Some a \<longleftrightarrow>
        dec_val ((i @ f') @ replicate m CHR ''0'') = unat a"
      using ne digits f'(1) by (intro lexical_iff) (auto simp: list_all_iff)
    moreover have "dec_val (i @ f') * 10 ^ d = unat a * 10 ^ length f' \<longleftrightarrow> dec_val (i @ f') * 10 ^ m = unat a"
      by (simp add: m power_add)
    moreover have "parse_amount trim lexical_cast d ?s =
        get_xtype_from_string lexical_cast ((i @ f') @ replicate m CHR ''0'')"
      unfolding parse using False ne m by auto
    ultimately show ?thesis using goal dec_val_zeros [of "i @ f'" m] by simp
  qed
qed

lemma parse_print:
  assumes "decimal_point = - 1 \<or> unat decimal_point = d"
  shows "parse_amount trim lexical_cast d (print_money d amt decimal_point) = Some amt"
proof -
  define s where "s = (let t = to_string (unat amt) in
    if length t < d + 1 then replicate (d + 1 - length t) CHR ''0'' @ t else t)"
  have s: "list_all is_digit s" "dec_val s = unat amt" "d < length s"
    using to_string_digits [of "unat amt"] dec_val_to_string [of "unat amt"]
    by (auto simp: s_def Let_def list_all_iff)
  have print: "print_money d amt decimal_point =
      (if d > 0 then take (length s - d) s @ CHR ''.'' # drop (length s - d) s else s)"
    using assms by (auto simp: print_money_def s_def Let_def)
  show ?thesis
  proof (cases "d > 0")
    case True
    have "list_all is_digit (take (length s - d) s)" "list_all is_digit (drop (length s - d) s)"
      using s(1) by (auto simp: list_all_iff dest: in_set_takeD in_set_dropD)
    moreover have "s \<noteq> []" using s(3) by auto
    ultimately show ?thesis using True s parse_point_iff [of "take (length s - d) s" "drop (length s - d) s" d amt]
      unfolding print by simp
  next
    case False
    then show ?thesis using s parse_integer_iff [of s 0 amt] unfolding print by auto
  qed
qed

end


text \<open>The documented functions, which show that the contract can be met.\<close>

definition trim_spaces :: "string \<Rightarrow> string" where
  "trim_spaces s = rev (dropWhile is_space (rev (dropWhile is_space s)))"

definition cast_digits :: "string \<Rightarrow> u64 option" where
  "cast_digits s = (if s \<noteq> [] \<and> list_all is_digit s \<and> dec_val s < 2 ^ 64 then Some (word_of_nat (dec_val s)) else None)"

interpretation boost: boost_text trim_spaces cast_digits
proof
  fix s :: string
  assume "s \<noteq> []" and sp: "\<not> is_space (hd s)" "\<not> is_space (last s)"
  then have "dropWhile is_space s = s" by (cases s) auto
  moreover have "dropWhile is_space (rev s) = rev s"
    using \<open>s \<noteq> []\<close> sp(2) by (cases s rule: rev_cases) auto
  ultimately show "trim_spaces s = s" by (simp add: trim_spaces_def)
qed (auto simp: cast_digits_def)

section \<open>Properties\<close>

text \<open>C12: The overflow checks are exact: \<open>check_money_overflow\<close> holds exactly when every input spends
  a key and the true sums of the inputs and of the outputs are below \<open>2^64\<close>, and then
  \<open>get_inputs_money_amount\<close> and \<open>get_outs_money_amount\<close> are these sums.\<close>

theorem money_overflow_exact:
  "(check_money_overflow tx \<longleftrightarrow>
     (\<exists>as. key_amounts (vin tx) = Some as \<and> sum_list (map unat as) < 2 ^ 64) \<and>
     sum_list (map (\<lambda>out. unat (amount out)) (vout tx)) < 2 ^ 64) \<and>
   (check_money_overflow tx \<longrightarrow>
     (\<exists>as money. key_amounts (vin tx) = Some as \<and> get_inputs_money_amount tx = Some money \<and>
       unat money = sum_list (map unat as)) \<and>
     unat (get_outs_money_amount tx) = sum_list (map (\<lambda>out. unat (amount out)) (vout tx)))"
proof -
  have iff: "check_money_overflow tx \<longleftrightarrow>
      (\<exists>as. key_amounts (vin tx) = Some as \<and> sum_list (map unat as) < 2 ^ 64) \<and>
      sum_list (map (\<lambda>out. unat (amount out)) (vout tx)) < 2 ^ 64"
    by (simp add: check_money_overflow_def check_inputs_overflow_def check_outs_overflow_def
        inputs_overflow_exact outs_overflow_exact)
  moreover have "unat (get_outs_money_amount tx) = sum_list (map (\<lambda>out. unat (amount out)) (vout tx))"
    if "sum_list (map (\<lambda>out. unat (amount out)) (vout tx)) < 2 ^ 64"
    using that unat_sum_list [of "map amount (vout tx)"]
    by (simp add: get_outs_money_amount_def outs_money_exact comp_def)
  moreover have "\<exists>money. get_inputs_money_amount tx = Some money \<and> unat money = sum_list (map unat as)"
    if "key_amounts (vin tx) = Some as" "sum_list (map unat as) < 2 ^ 64" for as
    using inputs_money_exact [OF that(1), of 0] unat_sum_list [OF that(2)]
    by (simp add: get_inputs_money_amount_def)
  ultimately show ?thesis by blast
qed

theorem money_overflow_exact_witness:
  "check_money_overflow \<lparr>version = 1, unlock_time = 0, vin = [Txin_to_key 5 [1] [], Txin_to_key 7 [2] []],
     vout = [\<lparr>amount = 11, target = Txout_to_key []\<rparr>], extra = []\<rparr> \<and>
   get_inputs_money_amount \<lparr>version = 1, unlock_time = 0, vin = [Txin_to_key 5 [1] [], Txin_to_key 7 [2] []],
     vout = [\<lparr>amount = 11, target = Txout_to_key []\<rparr>], extra = []\<rparr> = Some 12"
  using money_overflow_exact [of "\<lparr>version = 1, unlock_time = 0, vin = [Txin_to_key 5 [1] [], Txin_to_key 7 [2] []],
     vout = [\<lparr>amount = 11, target = Txout_to_key []\<rparr>], extra = []\<rparr>"]
  by (simp add: get_inputs_money_amount_def)

text \<open>Output offsets survive the conversion: making absolute offsets relative and absolute again
  sorts them, and making relative offsets absolute and relative again returns them when their sum is
  below \<open>2^64\<close>.\<close>

theorem offsets_round_trip:
  "relative_output_offsets_to_absolute (absolute_output_offsets_to_relative off) = sort off \<and>
   (sum_list (map unat rel) < 2 ^ 64 \<longrightarrow>
     absolute_output_offsets_to_relative (relative_output_offsets_to_absolute rel) = rel)"
  by (simp add: absolute_of_relative relative_of_absolute)

theorem offsets_round_trip_witness:
  "absolute_output_offsets_to_relative (relative_output_offsets_to_absolute [100, 20, 3]) = [100, 20, 3]"
  using offsets_round_trip [of "[]" "[100, 20, 3]"] by simp

text \<open>C13: Amounts are parsed exactly: a text with a decimal point is accepted as the amount \<open>a\<close> if
  and only if its value times ten to the decimal point is \<open>a\<close>, so that neither rounding nor
  wrap-around can change it, and a printed amount is read back as itself.\<close>

theorem amount_text_exact:
  assumes "boost_text trim lexical_cast" and "list_all is_digit i" and "list_all is_digit f"
    and "i \<noteq> [] \<or> f \<noteq> [] \<and> 0 < d"
  shows "(parse_amount trim lexical_cast d (i @ CHR ''.'' # f) = Some a \<longleftrightarrow>
      dec_val (i @ f) * 10 ^ d = unat a * 10 ^ length f) \<and>
    parse_amount trim lexical_cast d (print_money d a (- 1)) = Some a"
  using boost_text.parse_point_iff [OF assms] boost_text.parse_print [OF assms(1), of "- 1" d a] by blast

theorem amount_text_exact_witness:
  "parse_amount trim_spaces cast_digits 9 (''12'' @ CHR ''.'' # ''50'') = Some 12500000000"
proof -
  have "dec_val (''12'' @ ''50'') * 10 ^ 9 = unat (12500000000 :: u64) * 10 ^ length ''50''"
    by (simp add: dec_val_def)
  then show ?thesis
    using amount_text_exact [OF boost.boost_text_axioms, of "''12''" "''50''" 9 12500000000] by simp
qed

end
