(* ===== verification/HardFork.thy ===== *)
theory HardFork
  imports TxFormat
begin

text \<open>Hard forks: the class \<open>HardFork\<close> of \<open>src/cryptonote_basic/hardfork.cpp\<close> and the place where
  \<open>BlockchainDB::add_block\<close> calls it.

  The object and the part of the database that it uses are one record: the blocks of the main chain
  in the order of their heights and the table of the version that each height is on.
  \<open>get_block_from_height\<close> and \<open>get_hard_fork_version\<close> throw for a height that is not there, which
  is \<open>None\<close>. \<open>last_versions\<close>, an array of 256 counters, is a function on bytes. Locks and the batch
  calls of the database are left out. \<open>heights\<close> is not empty after \<open>init\<close>, so that its accesses
  are in range.\<close>

section \<open>State\<close>

record Params =
  fork_version :: u8
  fork_height :: u64
  threshold :: u8
  fork_time :: int

record hard_fork =
  db_blocks :: "block list"
  db_versions :: "u64 \<rightharpoonup> u8"
  forked_time :: int
  update_time :: int
  window_size :: u64
  default_threshold_percent :: u8
  original_version :: u8
  original_version_till_height :: u64
  heights :: "Params list"
  versions :: "u8 list"
  last_versions :: "u8 \<Rightarrow> u32"
  current_fork_index :: nat

datatype state = LikelyForked | UpdateNeeded | Ready

definition db_height :: "hard_fork \<Rightarrow> u64" where
  "db_height s = word_of_nat (length (db_blocks s))"

definition get_block_from_height :: "hard_fork \<Rightarrow> nat \<Rightarrow> block option" where
  "get_block_from_height s h = (if h < length (db_blocks s) then Some (db_blocks s ! h) else None)"

definition get_block_vote :: "block \<Rightarrow> u8" where
  "get_block_vote b = (if minor_version b = 0 then 1 else minor_version b)"

text \<open>The constructor, which throws for a window of size 0 and a threshold above 100.\<close>

definition new_HardFork ::
    "block list \<Rightarrow> (u64 \<rightharpoonup> u8) \<Rightarrow> u8 \<Rightarrow> u64 \<Rightarrow> int \<Rightarrow> int \<Rightarrow> u64 \<Rightarrow> u8 \<Rightarrow> hard_fork option" where
  "new_HardFork blocks table original till forked updated window threshold_percent =
     (if window = 0 then None
      else if threshold_percent > 100 then None
      else Some \<lparr>db_blocks = blocks, db_versions = table, forked_time = forked, update_time = updated,
        window_size = window, default_threshold_percent = threshold_percent, original_version = original,
        original_version_till_height = till, heights = [], versions = [], last_versions = (\<lambda>_. 0),
        current_fork_index = 0\<rparr>)"

section \<open>Scheduled forks\<close>

definition add_fork :: "u8 \<Rightarrow> u64 \<Rightarrow> u8 \<Rightarrow> int \<Rightarrow> hard_fork \<Rightarrow> bool \<times> hard_fork" where
  "add_fork v h thr t s =
     (if v = 0 then (False, s)
      else if heights s \<noteq> [] \<and> (v \<le> fork_version (last (heights s)) \<or> h \<le> fork_height (last (heights s))
        \<or> t \<le> fork_time (last (heights s))) then (False, s)
      else if thr > 100 then (False, s)
      else (True, s\<lparr>heights := heights s @ [\<lparr>fork_version = v, fork_height = h, threshold = thr, fork_time = t\<rparr>]\<rparr>))"

definition get_effective_version :: "hard_fork \<Rightarrow> u8 \<Rightarrow> u8" where
  "get_effective_version s voting_version =
     (if heights s \<noteq> [] \<and> voting_version > fork_version (last (heights s))
      then fork_version (last (heights s)) else voting_version)"

definition get_current_version_num :: "hard_fork \<Rightarrow> u8" where
  "get_current_version_num s = fork_version (heights s ! current_fork_index s)"

definition do_check :: "hard_fork \<Rightarrow> u8 \<Rightarrow> u8 \<Rightarrow> bool" where
  "do_check s block_version voting_version \<longleftrightarrow>
     block_version = get_current_version_num s \<and> voting_version \<ge> get_current_version_num s"

definition check :: "hard_fork \<Rightarrow> block \<Rightarrow> bool" where
  "check s b = do_check s (major_version b) (get_block_vote b)"

section \<open>Voting\<close>

text \<open>The number of votes a fork needs, calculated with 64 and stored with 32 bits.\<close>

definition votes_needed :: "hard_fork \<Rightarrow> Params \<Rightarrow> u32" where
  "votes_needed s p = ucast ((window_size s * ucast (threshold p) + 99) div 100)"

fun voted_fork_from :: "hard_fork \<Rightarrow> u64 \<Rightarrow> nat \<Rightarrow> u32 \<Rightarrow> nat" where
  "voted_fork_from s height n accumulated_votes =
     (if n \<le> current_fork_index s then current_fork_index s
      else
        let p = heights s ! n;
            accumulated_votes = accumulated_votes + last_versions s (fork_version p)
        in if height \<ge> fork_height p \<and> accumulated_votes \<ge> votes_needed s p then n
           else voted_fork_from s height (n - 1) accumulated_votes)"

declare voted_fork_from.simps [simp del]

definition get_voted_fork_index :: "hard_fork \<Rightarrow> u64 \<Rightarrow> nat" where
  "get_voted_fork_index s height = voted_fork_from s height (length (heights s) - 1) 0"

text \<open>The index is kept in a byte before it is compared.\<close>

definition raise_fork_index :: "u64 \<Rightarrow> hard_fork \<Rightarrow> hard_fork" where
  "raise_fork_index height s =
     (let voted = get_voted_fork_index s height mod 256
      in if voted > current_fork_index s then s\<lparr>current_fork_index := voted\<rparr> else s)"

definition check_for_height :: "hard_fork \<Rightarrow> block \<Rightarrow> u64 \<Rightarrow> bool" where
  "check_for_height s b height \<longleftrightarrow>
     (let v = fork_version (heights s ! get_voted_fork_index s height)
      in major_version b = v \<and> get_block_vote b \<ge> v)"

fun drop_old_votes :: "u64 \<Rightarrow> u8 list \<Rightarrow> (u8 \<Rightarrow> u32) \<Rightarrow> u8 list \<times> (u8 \<Rightarrow> u32)" where
  "drop_old_votes window (old_version # vs) counts =
     (if word_of_nat (length (old_version # vs)) \<ge> window
      then drop_old_votes window vs (counts(old_version := counts old_version - 1))
      else (old_version # vs, counts))"
| "drop_old_votes window [] counts = ([], counts)"

definition count_vote :: "u8 \<Rightarrow> hard_fork \<Rightarrow> hard_fork" where
  "count_vote v s =
     s\<lparr>versions := versions s @ [v], last_versions := (last_versions s)(v := last_versions s v + 1)\<rparr>"

definition add_votes :: "u8 \<Rightarrow> u8 \<Rightarrow> u64 \<Rightarrow> hard_fork \<Rightarrow> bool \<times> hard_fork" where
  "add_votes block_version voting_version height s =
     (if \<not> do_check s block_version voting_version then (False, s)
      else
        let s = s\<lparr>db_versions := (db_versions s)(height \<mapsto> get_current_version_num s)\<rparr>;
            voting_version = get_effective_version s voting_version;
            (vs, counts) = drop_old_votes (window_size s) (versions s) (last_versions s);
            s = count_vote voting_version (s\<lparr>versions := vs, last_versions := counts\<rparr>)
        in (True, raise_fork_index (height + 1) s))"

definition add :: "block \<Rightarrow> u64 \<Rightarrow> hard_fork \<Rightarrow> bool \<times> hard_fork" where
  "add b height s = add_votes (major_version b) (get_block_vote b) height s"

text \<open>\<open>BlockchainDB::add_block\<close> stores the block and then calls \<open>add\<close> without looking at its result.\<close>

definition add_block :: "block \<Rightarrow> hard_fork \<Rightarrow> hard_fork" where
  "add_block b s =
     (let prev_height = db_height s;
          s = s\<lparr>db_blocks := db_blocks s @ [b]\<rparr>
      in snd (add b prev_height s))"

section \<open>Rebuilding the state from the chain\<close>

definition clear_votes :: "hard_fork \<Rightarrow> hard_fork" where
  "clear_votes s = s\<lparr>versions := [], last_versions := (\<lambda>_. 0)\<rparr>"

fun scan_votes :: "nat list \<Rightarrow> hard_fork \<Rightarrow> hard_fork option" where
  "scan_votes [] s = Some s"
| "scan_votes (h # hs) s =
     (case get_block_from_height s h of
        None \<Rightarrow> None
      | Some b \<Rightarrow> scan_votes hs (count_vote (get_effective_version s (get_block_vote b)) s))"

fun lower_fork_index :: "Params list \<Rightarrow> u8 \<Rightarrow> nat \<Rightarrow> nat" where
  "lower_fork_index hs start_version 0 = 0"
| "lower_fork_index hs start_version (Suc i) =
     (if fork_version (hs ! Suc i) > start_version then lower_fork_index hs start_version i else Suc i)"

fun add_stored :: "nat list \<Rightarrow> hard_fork \<Rightarrow> hard_fork option" where
  "add_stored [] s = Some s"
| "add_stored (h # hs) s =
     (case get_block_from_height s h of
        None \<Rightarrow> None
      | Some b \<Rightarrow> add_stored hs (snd (add b (word_of_nat h) s)))"

definition reorganize_from_block_height :: "u64 \<Rightarrow> hard_fork \<Rightarrow> (bool \<times> hard_fork) option" where
  "reorganize_from_block_height height s =
     (if height \<ge> db_height s then Some (False, s)
      else do {
        let s = clear_votes s;
        let rescan_height = (if height \<ge> window_size s - 1 then height - (window_size s - 1) else 0);
        start_version \<leftarrow> (if height = 0 then Some (original_version s) else db_versions s height);
        let s = s\<lparr>current_fork_index := lower_fork_index (heights s) start_version (current_fork_index s)\<rparr>;
        s \<leftarrow> scan_votes [unat rescan_height ..< Suc (unat height)] s;
        let s = raise_fork_index (height + 1) s;
        s \<leftarrow> add_stored [Suc (unat height) ..< length (db_blocks s)] s;
        Some (True, s)
      })"

definition reorganize_from_chain_height :: "u64 \<Rightarrow> hard_fork \<Rightarrow> (bool \<times> hard_fork) option" where
  "reorganize_from_chain_height height s =
     (if height = 0 then Some (False, s) else reorganize_from_block_height (height - 1) s)"

function find_fork_index :: "Params list \<Rightarrow> u8 \<Rightarrow> nat \<Rightarrow> nat" where
  "find_fork_index hs lastv i =
     (if i + 1 < length hs \<and> fork_version (hs ! i) \<noteq> lastv then find_fork_index hs lastv (i + 1) else i)"
  by pat_completeness auto
termination by (relation "measure (\<lambda>(hs, lastv, i). length hs - i)") auto

declare find_fork_index.simps [simp del]

definition rescan_from_block_height :: "u64 \<Rightarrow> hard_fork \<Rightarrow> (bool \<times> hard_fork) option" where
  "rescan_from_block_height height s =
     (if height \<ge> db_height s then Some (False, s)
      else do {
        s \<leftarrow> scan_votes [unat height ..< length (db_blocks s)] (clear_votes s);
        lastv \<leftarrow> db_versions s (db_height s - 1);
        let s = s\<lparr>current_fork_index := find_fork_index (heights s) lastv 0\<rparr>;
        Some (True, raise_fork_index (db_height s) s)
      })"

definition rescan_from_chain_height :: "u64 \<Rightarrow> hard_fork \<Rightarrow> (bool \<times> hard_fork) option" where
  "rescan_from_chain_height height s =
     (if height = 0 then Some (False, s) else rescan_from_block_height (height - 1) s)"

definition hard_fork_init :: "hard_fork \<Rightarrow> hard_fork option" where
  "hard_fork_init s = do {
     let s = (if heights s = []
       then s\<lparr>heights := [\<lparr>fork_version = original_version s, fork_height = 0, threshold = 0, fork_time = 0\<rparr>]\<rparr> else s);
     let s = (clear_votes s)\<lparr>current_fork_index := 0\<rparr>;
     let height = (if db_height s > window_size s then db_height s - (window_size s - 1) else 1);
     if db_versions s 0 = None
     then do {
       (r, s) \<leftarrow> reorganize_from_chain_height 1 s;
       Some (s\<lparr>db_versions := (db_versions s)(0 \<mapsto> original_version s)\<rparr>)
     }
     else map_option snd (rescan_from_chain_height height s)
   }"

section \<open>Queries\<close>

definition get_state :: "int \<Rightarrow> hard_fork \<Rightarrow> state" where
  "get_state t s =
     (if length (heights s) \<le> 1 then Ready
      else if t \<ge> fork_time (last (heights s)) + forked_time s then LikelyForked
      else if t \<ge> fork_time (last (heights s)) + update_time s then UpdateNeeded
      else Ready)"

text \<open>A height above the chain violates an assertion; without assertions the answer is 255.\<close>

definition get :: "u64 \<Rightarrow> hard_fork \<Rightarrow> u8 option" where
  "get height s =
     (if height > db_height s then Some 255
      else if height = db_height s then Some (get_current_version_num s)
      else db_versions s height)"

fun ideal_version_from :: "hard_fork \<Rightarrow> u64 \<Rightarrow> nat \<Rightarrow> u8" where
  "ideal_version_from s height 0 = original_version s"
| "ideal_version_from s height (Suc n) =
     (if height \<ge> fork_height (heights s ! Suc n) then fork_version (heights s ! Suc n)
      else ideal_version_from s height n)"

definition get_ideal_version :: "u64 \<Rightarrow> hard_fork \<Rightarrow> u8" where
  "get_ideal_version height s = ideal_version_from s height (length (heights s) - 1)"

definition get_height_for_version :: "u8 \<Rightarrow> hard_fork \<Rightarrow> u64" where
  "get_height_for_version v s =
     (case find (\<lambda>p. fork_version p = v) (heights s) of None \<Rightarrow> - 1 | Some p \<Rightarrow> fork_height p)"

fun next_version_from :: "hard_fork \<Rightarrow> u64 \<Rightarrow> nat \<Rightarrow> u8" where
  "next_version_from s height 0 = original_version s"
| "next_version_from s height (Suc n) =
     (if height \<ge> fork_height (heights s ! Suc n)
      then fork_version (heights s ! (if Suc n < length (heights s) - 1 then Suc n + 1 else Suc n))
      else next_version_from s height n)"

definition get_next_version :: "hard_fork \<Rightarrow> u8" where
  "get_next_version s = next_version_from s (db_height s) (length (heights s) - 1)"

definition get_voting_info :: "u8 \<Rightarrow> hard_fork \<Rightarrow> bool \<times> u32 \<times> u32 \<times> u32 \<times> u64 \<times> u8" where
  "get_voting_info v s =
     (let current_version = get_current_version_num s;
          window = (word_of_nat (length (versions s)) :: u32);
          votes = fold (\<lambda>n votes. votes + last_versions s (word_of_nat n)) [unat v ..< 256] 0;
          needed = (window * ucast (threshold (heights s ! current_fork_index s)) + 99) div 100
      in (current_version \<ge> v, window, votes, needed, get_height_for_version v s, fork_version (last (heights s))))"

section \<open>Invariant\<close>

definition schedule_ok :: "Params list \<Rightarrow> bool" where
  "schedule_ok hs \<longleftrightarrow> hs \<noteq> [] \<and> sorted_wrt (\<lambda>p q. fork_version p < fork_version q) hs \<and>
     list_all (\<lambda>p. threshold p \<le> 100) hs"

definition last_votes :: "hard_fork \<Rightarrow> u8 list" where
  "last_votes s =
     (let votes = map (\<lambda>b. get_effective_version s (get_block_vote b)) (db_blocks s)
      in drop (length votes - unat (window_size s)) votes)"

definition hf_inv :: "hard_fork \<Rightarrow> bool" where
  "hf_inv s \<longleftrightarrow>
     schedule_ok (heights s) \<and> fork_version (heights s ! 0) = original_version s \<and>
     0 < unat (window_size s) \<and> unat (window_size s) < 2 ^ 32 \<and> length (db_blocks s) \<le> 2 ^ 63 \<and>
     versions s = last_votes s \<and> last_versions s = (\<lambda>v. word_of_nat (count_list (versions s) v)) \<and>
     current_fork_index s < length (heights s) \<and>
     (if db_blocks s = [] then current_fork_index s = 0
      else db_versions s 0 \<noteq> None \<and>
        (\<exists>i < length (heights s). (length (db_blocks s) = 1 \<longrightarrow> i = 0) \<and>
          db_versions s (db_height s - 1) = Some (fork_version (heights s ! i)) \<and>
          current_fork_index s = current_fork_index (raise_fork_index (db_height s) (s\<lparr>current_fork_index := i\<rparr>))))"

lemma schedule_distinct: "schedule_ok hs \<Longrightarrow> i < j \<Longrightarrow> j < length hs \<Longrightarrow> fork_version (hs ! i) < fork_version (hs ! j)"
  by (simp add: schedule_ok_def sorted_wrt_iff_nth_less)

lemma unat_u8_lt [simp]: "unat (x :: u8) < 256"
  using unsigned_less [of x] by simp

lemma schedule_index_le:
  assumes "schedule_ok hs" and "i < length hs"
  shows "i \<le> unat (fork_version (hs ! i))"
  using assms(2)
proof (induction i)
  case (Suc i)
  have "unat (fork_version (hs ! i)) < unat (fork_version (hs ! Suc i))"
    using schedule_distinct [OF assms(1), of i "Suc i"] Suc.prems by (simp add: word_less_nat_alt)
  then show ?case using Suc by simp
qed simp

lemma schedule_length:
  assumes "schedule_ok hs"
  shows "length hs \<le> 256"
proof (cases "length hs")
  case (Suc n)
  then have "n \<le> unat (fork_version (hs ! n))" using schedule_index_le [OF assms, of n] by simp
  also have "\<dots> < 256" by simp
  finally show ?thesis using Suc by simp
qed simp

lemma voted_fork_from_range:
  "n < length (heights s) \<Longrightarrow> current_fork_index s < length (heights s) \<Longrightarrow>
    current_fork_index s \<le> voted_fork_from s height n acc \<and> voted_fork_from s height n acc < length (heights s)"
proof (induction s height n acc rule: voted_fork_from.induct)
  case (1 s height n acc)
  show ?case
    using 1 by (subst (1 2) voted_fork_from.simps) (auto simp: Let_def)
qed

lemma voted_fork_index_range:
  assumes "schedule_ok (heights s)" and "current_fork_index s < length (heights s)"
  shows "current_fork_index s \<le> get_voted_fork_index s height" and "get_voted_fork_index s height < length (heights s)"
    and "get_voted_fork_index s height mod 256 = get_voted_fork_index s height"
proof -
  have "length (heights s) - 1 < length (heights s)" using assms(1) by (simp add: schedule_ok_def)
  from voted_fork_from_range [OF this assms(2), of height 0]
  show "current_fork_index s \<le> get_voted_fork_index s height" and lt: "get_voted_fork_index s height < length (heights s)"
    by (simp_all add: get_voted_fork_index_def)
  show "get_voted_fork_index s height mod 256 = get_voted_fork_index s height"
    using lt schedule_length [OF assms(1)] by simp
qed

lemma raise_fork_index_eq:
  assumes "schedule_ok (heights s)" and "current_fork_index s < length (heights s)"
  shows "raise_fork_index height s = s\<lparr>current_fork_index := get_voted_fork_index s height\<rparr>"
  using voted_fork_index_range [OF assms, of height] by (auto simp: raise_fork_index_def Let_def)

lemma voted_fork_from_cong:
  assumes "heights s = heights t" and "last_versions s = last_versions t" and "window_size s = window_size t"
    and "current_fork_index s = current_fork_index t"
  shows "voted_fork_from s height n acc = voted_fork_from t height n acc"
  using assms
proof (induction s height n acc rule: voted_fork_from.induct)
  case (1 s height n acc)
  then show ?case by (subst (1 2) voted_fork_from.simps) (auto simp: Let_def votes_needed_def)
qed

lemma voted_fork_index_cong:
  assumes "heights s = heights t" and "last_versions s = last_versions t" and "window_size s = window_size t"
    and "current_fork_index s = current_fork_index t"
  shows "get_voted_fork_index s height = get_voted_fork_index t height"
  using voted_fork_from_cong [OF assms] assms(1) by (simp add: get_voted_fork_index_def)

section \<open>The window of votes\<close>

abbreviation vote_counts :: "u8 list \<Rightarrow> u8 \<Rightarrow> u32" where
  "vote_counts vs \<equiv> \<lambda>v. word_of_nat (count_list vs v)"

lemma vote_counts_snoc: "vote_counts (vs @ [x]) = (vote_counts vs)(x := vote_counts vs x + 1)"
  by (auto simp: fun_eq_iff)

lemma vote_counts_Cons: "vote_counts vs = (vote_counts (x # vs))(x := vote_counts (x # vs) x - 1)"
  by (auto simp: fun_eq_iff)

lemma drop_old_votes_eq:
  assumes "unat window = Suc w" and "length vs \<le> Suc w" and "counts = vote_counts vs"
  shows "drop_old_votes window vs counts = (drop (length vs - w) vs, vote_counts (drop (length vs - w) vs))"
proof (cases vs)
  case (Cons x xs)
  have bound: "Suc w < 2 ^ 64" using assms(1) unat_u64_lt [of window] by simp
  have ge: "window \<le> word_of_nat n \<longleftrightarrow> Suc w \<le> n" if "n \<le> Suc w" for n
    using that bound assms(1) by (simp add: word_le_nat_alt unsigned_of_nat take_bit_nat_eq_self)
  have small: "drop_old_votes window ys c = (ys, c)" if "length ys \<le> w" for ys c
    using that ge [of "length ys"] by (cases ys) auto
  show ?thesis
  proof (cases "length vs = Suc w")
    case True
    then show ?thesis
      using Cons assms(3) ge [of "Suc w"] small [of xs] vote_counts_Cons [of xs x] by (simp add: fun_upd_def)
  next
    case False
    then show ?thesis using small [of vs] assms(2,3) by simp
  qed
qed (use assms in auto)

lemma scan_votes_eq:
  "b \<le> length (db_blocks s) \<Longrightarrow> scan_votes [a ..< b] s =
    Some (s\<lparr>versions := versions s @ map (\<lambda>h. get_effective_version s (get_block_vote (db_blocks s ! h))) [a ..< b],
      last_versions := (\<lambda>v. last_versions s v +
        vote_counts (map (\<lambda>h. get_effective_version s (get_block_vote (db_blocks s ! h))) [a ..< b]) v)\<rparr>)"
proof (induction "b - a" arbitrary: a s)
  case (Suc n)
  let ?v = "get_effective_version s (get_block_vote (db_blocks s ! a))"
  have ab: "[a ..< b] = a # [Suc a ..< b]" using Suc.hyps(2) by (simp add: upt_conv_Cons)
  have eff: "get_effective_version (count_vote ?v s) = get_effective_version s"
    by (simp add: fun_eq_iff count_vote_def get_effective_version_def)
  have "scan_votes [a ..< b] s = scan_votes [Suc a ..< b] (count_vote ?v s)"
    using Suc.prems Suc.hyps(2) by (simp add: ab get_block_from_height_def)
  also have "\<dots> = Some (s\<lparr>versions := versions s @ map (\<lambda>h. get_effective_version s (get_block_vote (db_blocks s ! h))) [a ..< b],
      last_versions := (\<lambda>v. last_versions s v +
        vote_counts (map (\<lambda>h. get_effective_version s (get_block_vote (db_blocks s ! h))) [a ..< b]) v)\<rparr>)"
    using Suc.hyps(1) [of "Suc a" "count_vote ?v s"] Suc.hyps(2) Suc.prems
    by (simp add: eff ab) (auto simp: count_vote_def fun_eq_iff)
  finally show ?case .
qed simp


lemma last_votes_slice:
  "last_votes s = map (\<lambda>h. get_effective_version s (get_block_vote (db_blocks s ! h)))
    [length (db_blocks s) - unat (window_size s) ..< length (db_blocks s)]"
  by (rule nth_equalityI) (auto simp: last_votes_def Let_def)

lemma length_last_votes: "length (last_votes s) \<le> unat (window_size s)"
  by (simp add: last_votes_def Let_def)

lemma last_votes_snoc:
  assumes "unat (window_size s) = Suc w"
  shows "last_votes (s\<lparr>db_blocks := db_blocks s @ [b]\<rparr>) =
    drop (length (last_votes s) - w) (last_votes s) @ [get_effective_version s (get_block_vote b)]"
proof -
  have eff: "get_effective_version (s\<lparr>db_blocks := bs\<rparr>) = get_effective_version s" for bs
    by (simp add: fun_eq_iff get_effective_version_def)
  have "length (db_blocks s) - w = length (db_blocks s) - (length (db_blocks s) - Suc w + w) + (length (db_blocks s) - Suc w)"
    by simp
  then show ?thesis using assms by (simp add: last_votes_def Let_def eff)
qed

lemma last_votes_cong:
  assumes "db_blocks s = db_blocks t" and "heights s = heights t" and "window_size s = window_size t"
  shows "last_votes s = last_votes t"
  using assms by (simp add: last_votes_def get_effective_version_def cong: if_cong)

section \<open>Adding blocks\<close>

text \<open>The state after a block that passes the check has been added.\<close>

lemma add_block_eq:
  assumes "hf_inv s" and "check s b"
  defines "vs \<equiv> last_votes (s\<lparr>db_blocks := db_blocks s @ [b]\<rparr>)"
  shows "add_block b s = raise_fork_index (db_height s + 1)
    (s\<lparr>db_blocks := db_blocks s @ [b], db_versions := (db_versions s)(db_height s \<mapsto> get_current_version_num s),
       versions := vs, last_versions := vote_counts vs\<rparr>)"
proof -
  obtain w where w: "unat (window_size s) = Suc w" using assms(1) by (auto simp: hf_inv_def gr0_conv_Suc)
  have inv: "versions s = last_votes s" "last_versions s = vote_counts (last_votes s)"
    using assms(1) by (simp_all add: hf_inv_def)
  have drop: "drop_old_votes (window_size s) (last_votes s) (vote_counts (last_votes s)) =
      (drop (length (last_votes s) - w) (last_votes s), vote_counts (drop (length (last_votes s) - w) (last_votes s)))"
    using drop_old_votes_eq [OF w] length_last_votes [of s] w by simp
  have eff: "get_effective_version (s\<lparr>db_blocks := bs, db_versions := t\<rparr>) = get_effective_version s" for bs t
    by (simp add: fun_eq_iff get_effective_version_def)
  have "add_block b s = raise_fork_index (db_height s + 1)
      (count_vote (get_effective_version s (get_block_vote b))
        (s\<lparr>db_blocks := db_blocks s @ [b], db_versions := (db_versions s)(db_height s \<mapsto> get_current_version_num s),
          versions := drop (length (last_votes s) - w) (last_votes s),
          last_versions := vote_counts (drop (length (last_votes s) - w) (last_votes s))\<rparr>))"
    using assms(2) inv drop
    by (simp add: add_block_def add_def add_votes_def check_def do_check_def get_current_version_num_def Let_def eff)
  then show ?thesis
    unfolding vs_def last_votes_snoc [OF w] count_vote_def vote_counts_snoc by simp
qed

lemma add_block_inv:
  assumes inv: "hf_inv s" and "check s b" and "length (db_blocks s) < 2 ^ 63"
  shows "hf_inv (add_block b s)"
proof -
  define vs where "vs = last_votes (s\<lparr>db_blocks := db_blocks s @ [b]\<rparr>)"
  define t where "t = s\<lparr>db_blocks := db_blocks s @ [b], db_versions := (db_versions s)(db_height s \<mapsto> get_current_version_num s),
       versions := vs, last_versions := vote_counts vs\<rparr>"
  have add: "add_block b s = raise_fork_index (db_height s + 1) t"
    using add_block_eq [OF assms(1,2)] by (simp add: t_def vs_def)
  have sched: "schedule_ok (heights t)" "current_fork_index t < length (heights t)"
    using inv by (simp_all add: t_def hf_inv_def)
  note raise = raise_fork_index_eq [OF sched, of "db_height s + 1"]
  note range = voted_fork_index_range [OF sched, of "db_height s + 1"]
  have h: "db_height (add_block b s) = db_height s + 1"
    by (simp add: add raise) (simp add: t_def db_height_def)
  have votes: "last_votes (add_block b s) = vs"
    unfolding add raise vs_def by (rule last_votes_cong) (simp_all add: t_def)
  have first: "db_versions t 0 \<noteq> None"
    using inv by (cases "db_blocks s = []") (auto simp: t_def hf_inv_def db_height_def)
  have same: "t\<lparr>current_fork_index := current_fork_index s\<rparr> = t" by (simp add: t_def)
  have "(add_block b s)\<lparr>current_fork_index := current_fork_index s\<rparr> = t"
    by (simp add: add raise same)
  then have "current_fork_index (add_block b s) = current_fork_index
      (raise_fork_index (db_height (add_block b s)) ((add_block b s)\<lparr>current_fork_index := current_fork_index s\<rparr>))"
    using h unfolding add by simp
  moreover have "db_versions (add_block b s) (db_height s) = Some (fork_version (heights s ! current_fork_index s))"
    by (simp add: add raise) (simp add: t_def get_current_version_num_def)
  moreover have "length (db_blocks (add_block b s)) = 1 \<longrightarrow> current_fork_index s = 0"
    using inv by (simp add: add raise) (auto simp: t_def hf_inv_def)
  ultimately show ?thesis
    using inv assms(3) first range(2) votes h unfolding hf_inv_def add raise
    by (auto simp: t_def)
qed

section \<open>Restarts and reorganisations\<close>

lemma find_fork_index_eq:
  assumes "schedule_ok hs" and "i < length hs" and "j \<le> i"
  shows "find_fork_index hs (fork_version (hs ! i)) j = i"
  using assms(3)
proof (induction "i - j" arbitrary: j)
  case 0
  then show ?case by (subst find_fork_index.simps) simp
next
  case (Suc n)
  then have "j < i" by simp
  then have "fork_version (hs ! j) \<noteq> fork_version (hs ! i)" "j + 1 < length hs"
    using schedule_distinct [OF assms(1), of j i] assms(2) by auto
  then show ?case using Suc by (subst find_fork_index.simps) simp
qed

lemma lower_fork_index_eq:
  assumes "schedule_ok hs" and "i \<le> c" and "c < length hs"
  shows "lower_fork_index hs (fork_version (hs ! i)) c = i"
  using assms(2,3)
proof (induction c)
  case (Suc c)
  then show ?case using schedule_distinct [OF assms(1), of i "Suc c"] by (cases "i = Suc c") auto
qed simp

lemma hf_inv_current:
  assumes "hf_inv s" and "db_blocks s \<noteq> []"
  obtains i where "i < length (heights s)" and "i \<le> current_fork_index s"
    and "length (db_blocks s) = 1 \<longrightarrow> i = 0"
    and "db_versions s (db_height s - 1) = Some (fork_version (heights s ! i))"
    and "raise_fork_index (db_height s) (s\<lparr>current_fork_index := i\<rparr>) = s"
proof -
  obtain i where i: "i < length (heights s)" "length (db_blocks s) = 1 \<longrightarrow> i = 0"
    "db_versions s (db_height s - 1) = Some (fork_version (heights s ! i))"
    "current_fork_index s = current_fork_index (raise_fork_index (db_height s) (s\<lparr>current_fork_index := i\<rparr>))"
    using assms by (auto simp: hf_inv_def)
  let ?t = "s\<lparr>current_fork_index := i\<rparr>"
  have t: "schedule_ok (heights ?t)" "current_fork_index ?t < length (heights ?t)"
    using assms(1) i(1) by (simp_all add: hf_inv_def)
  note raise = raise_fork_index_eq [OF t] and range = voted_fork_index_range [OF t, of "db_height s"]
  have "current_fork_index s = get_voted_fork_index ?t (db_height s)" using i(4) by (simp add: raise)
  then have "raise_fork_index (db_height s) ?t = s" and "i \<le> current_fork_index s"
    using range(1) by (simp_all add: raise)
  then show thesis using that i by blast
qed

lemma db_height_unat: "hf_inv s \<Longrightarrow> unat (db_height s) = length (db_blocks s)"
  by (simp add: db_height_def hf_inv_def unsigned_of_nat take_bit_nat_eq_self)

lemma unat_minus_one: "x \<noteq> 0 \<Longrightarrow> unat (x - 1 :: u64) = unat x - 1"
  by (rule unat_minus_one)

text \<open>Scanning the last blocks gives the window of votes.\<close>

lemma scan_window:
  assumes "hf_inv s" and "heights t = heights s" and "window_size t = window_size s" and "db_blocks t = db_blocks s"
  shows "scan_votes [length (db_blocks s) - unat (window_size s) ..< length (db_blocks s)] (clear_votes t) =
    Some (t\<lparr>versions := versions s, last_versions := last_versions s\<rparr>)"
proof -
  have eff: "get_effective_version (clear_votes t) = get_effective_version s"
    using assms(2) by (simp add: fun_eq_iff get_effective_version_def clear_votes_def)
  have votes: "versions s = last_votes s" "last_versions s = vote_counts (last_votes s)"
    using assms(1) by (simp_all add: hf_inv_def)
  show ?thesis
    using assms(4) unfolding votes last_votes_slice
    by (subst scan_votes_eq) (simp_all add: eff, simp_all add: clear_votes_def)
qed

lemma restart_restores:
  assumes inv: "hf_inv s" and ne: "db_blocks s \<noteq> []"
  shows "hard_fork_init s = Some s"
proof -
  let ?L = "length (db_blocks s)" and ?w = "unat (window_size s)"
  obtain i where i: "i < length (heights s)" "db_versions s (db_height s - 1) = Some (fork_version (heights s ! i))"
    "raise_fork_index (db_height s) (s\<lparr>current_fork_index := i\<rparr>) = s"
    using hf_inv_current [OF inv ne] by metis
  have basic: "heights s \<noteq> []" "schedule_ok (heights s)" "db_versions s 0 \<noteq> None" "0 < ?w" "0 < ?L" "?L \<le> 2 ^ 63"
    using inv ne by (auto simp: hf_inv_def schedule_ok_def)
  note L = db_height_unat [OF inv]
  define height where "height = (if db_height s > window_size s then db_height s - (window_size s - 1) else 1)"
  have w1: "unat (window_size s - 1) = ?w - 1" using basic(4) by (intro unat_minus_one) auto
  have height: "unat height = (if ?L > ?w then ?L - (?w - 1) else 1)"
    using L w1 by (auto simp: height_def word_less_nat_alt unat_sub_u64)
  then have pos: "height \<noteq> 0" using basic(4) by (auto split: if_splits)
  then have start: "unat (height - 1) = ?L - ?w" using height basic(4) by (simp add: unat_minus_one)
  have "?L - ?w < ?L" using basic(4,5) by simp
  then have lt: "\<not> db_height s \<le> height - 1" using L start by (simp add: word_le_nat_alt not_le)
  define t where "t = s\<lparr>current_fork_index := 0\<rparr>"
  have t: "(clear_votes s)\<lparr>current_fork_index := 0\<rparr> = clear_votes t" by (simp add: clear_votes_def t_def)
  have fields: "db_height (clear_votes t) = db_height s" "db_blocks (clear_votes t) = db_blocks s"
    "db_versions (clear_votes t) = db_versions s" "window_size (clear_votes t) = window_size s"
    by (simp_all add: clear_votes_def t_def db_height_def)
  have idem: "clear_votes (clear_votes t) = clear_votes t" by (simp add: clear_votes_def)
  have restored: "t\<lparr>versions := versions s, last_versions := last_versions s\<rparr> = t" by (simp add: t_def)
  have t_fields: "db_height t = db_height s" "db_versions t = db_versions s" "heights t = heights s"
    "t\<lparr>current_fork_index := j\<rparr> = s\<lparr>current_fork_index := j\<rparr>"
    "db_height (s\<lparr>current_fork_index := j\<rparr>) = db_height s" for j
    by (simp_all add: t_def db_height_def)
  have scan: "scan_votes [?L - ?w ..< ?L] (clear_votes t) = Some t"
    using scan_window [OF inv, of t] by (simp add: t_def)
  have index: "find_fork_index (heights s) (fork_version (heights s ! i)) 0 = i"
    using find_fork_index_eq [OF basic(2) i(1)] by simp
  have "rescan_from_block_height (height - 1) (clear_votes t) = Some (True, s)"
    unfolding rescan_from_block_height_def fields idem start scan
    using lt i(2,3) index by (simp add: t_fields Let_def)
  then have "rescan_from_chain_height height (clear_votes t) = Some (True, s)"
    using pos by (simp add: rescan_from_chain_height_def)
  moreover have "hard_fork_init s =
      map_option snd (rescan_from_chain_height height ((clear_votes s)\<lparr>current_fork_index := 0\<rparr>))"
    using basic(1,3) by (auto simp: hard_fork_init_def Let_def height_def clear_votes_def db_height_def)
  ultimately show ?thesis by (simp add: t)
qed


text \<open>Chains that grow by blocks that pass the check.\<close>

inductive extends :: "hard_fork \<Rightarrow> hard_fork \<Rightarrow> bool" for s where
  refl: "extends s s"
| step: "extends s t \<Longrightarrow> check t b \<Longrightarrow> length (db_blocks t) < 2 ^ 63 \<Longrightarrow> extends s (add_block b t)"

lemma extends_inv: "extends s t \<Longrightarrow> hf_inv s \<Longrightarrow> hf_inv t"
  by (induction rule: extends.induct) (simp_all add: add_block_inv)

lemma extends_keeps:
  assumes "extends s t" and "hf_inv s"
  shows "heights t = heights s \<and> window_size t = window_size s \<and> original_version t = original_version s \<and>
    t\<lparr>db_blocks := db_blocks s, db_versions := db_versions s, versions := versions s,
      last_versions := last_versions s, current_fork_index := current_fork_index s\<rparr> = s \<and>
    length (db_blocks s) \<le> length (db_blocks t) \<and> take (length (db_blocks s)) (db_blocks t) = db_blocks s \<and>
    current_fork_index s \<le> current_fork_index t \<and>
    (\<forall>h < length (db_blocks s). db_versions t (word_of_nat h) = db_versions s (word_of_nat h))"
  using assms
proof (induction rule: extends.induct)
  case (step t b)
  have inv: "hf_inv t" using extends_inv [OF step.hyps(1) step.prems] .
  define u where "u = t\<lparr>db_blocks := db_blocks t @ [b], db_versions := (db_versions t)(db_height t \<mapsto> get_current_version_num t),
       versions := last_votes (t\<lparr>db_blocks := db_blocks t @ [b]\<rparr>),
       last_versions := vote_counts (last_votes (t\<lparr>db_blocks := db_blocks t @ [b]\<rparr>))\<rparr>"
  have u: "schedule_ok (heights u)" "current_fork_index u < length (heights u)"
    using inv by (simp_all add: u_def hf_inv_def)
  have add: "add_block b t = u\<lparr>current_fork_index := get_voted_fork_index u (db_height t + 1)\<rparr>"
    using add_block_eq [OF inv step.hyps(2)] raise_fork_index_eq [OF u] by (simp add: u_def)
  have "word_of_nat h \<noteq> db_height t" if "h < length (db_blocks s)" for h
  proof
    assume "word_of_nat h = db_height t"
    then have "unat (word_of_nat h :: u64) = length (db_blocks t)" using db_height_unat [OF inv] by simp
    then show False using that step.IH step.prems step.hyps(3)
      by (simp add: unsigned_of_nat take_bit_nat_eq_self)
  qed
  moreover have "current_fork_index t \<le> get_voted_fork_index u (db_height t + 1)"
    using voted_fork_index_range(1) [OF u, of "db_height t + 1"] by (simp add: u_def)
  ultimately show ?case
    using step.IH [OF step.prems] by (auto simp: add) (simp_all add: u_def)
qed simp


text \<open>Popping blocks and reorganising leads back to the state before the blocks.\<close>

lemma reorganize_restores:
  assumes inv: "hf_inv s" and ext: "extends s t" and ne: "db_blocks s \<noteq> []"
  shows "reorganize_from_chain_height (db_height s) (t\<lparr>db_blocks := take (length (db_blocks s)) (db_blocks t)\<rparr>) =
    Some (True, s\<lparr>db_versions := db_versions t\<rparr>)"
proof -
  let ?L = "length (db_blocks s)" and ?w = "unat (window_size s)"
  note keeps = extends_keeps [OF ext inv]
  have invt: "hf_inv t" by (rule extends_inv [OF ext inv])
  obtain i where i: "i < length (heights s)" "i \<le> current_fork_index s" "?L = 1 \<longrightarrow> i = 0"
    "db_versions s (db_height s - 1) = Some (fork_version (heights s ! i))"
    "raise_fork_index (db_height s) (s\<lparr>current_fork_index := i\<rparr>) = s"
    using hf_inv_current [OF inv ne] by metis
  have basic: "schedule_ok (heights s)" "0 < ?w" "0 < ?L" "fork_version (heights s ! 0) = original_version s"
    using inv ne by (auto simp: hf_inv_def)
  note L = db_height_unat [OF inv]
  have pos: "db_height s \<noteq> 0" using L basic(3) by auto
  define height where "height = db_height s - 1"
  have height: "unat height = ?L - 1" "height + 1 = db_height s"
    using L unat_minus_one [OF pos] by (simp_all add: height_def)
  define u where "u = t\<lparr>db_blocks := take ?L (db_blocks t)\<rparr>"
  have u: "db_blocks u = db_blocks s" "heights u = heights s" "window_size u = window_size s" "db_versions u = db_versions t"
    "original_version u = original_version s" "current_fork_index u = current_fork_index t" "db_height u = db_height s"
    using keeps by (simp_all add: u_def db_height_def)
  have w1: "unat (window_size s - 1) = ?w - 1" using basic(2) by (intro unat_minus_one) auto
  define low where "low = (if height \<ge> window_size s - 1 then height - (window_size s - 1) else 0)"
  have start: "unat low = ?L - ?w" "Suc (unat height) = ?L"
    using height(1) w1 basic(2,3) by (auto simp: low_def word_le_nat_alt unat_sub_u64)
  have "db_versions t height = db_versions s height"
  proof -
    have "?L \<le> 2 ^ 63" using inv by (simp add: hf_inv_def)
    then have "?L - 1 < 2 ^ 64" by simp
    then have "height = word_of_nat (?L - 1)"
      using height(1) by (simp only: word_unat_eq_iff unsigned_of_nat) (simp add: take_bit_nat_eq_self)
    moreover have "?L - 1 < ?L" using basic(3) by simp
    ultimately show ?thesis using keeps by blast
  qed
  moreover have "i = 0" if "height = 0" using that i(3) start(2) by simp
  ultimately have version: "(if height = 0 then Some (original_version s) else db_versions t height) =
      Some (fork_version (heights s ! i))"
    using i(4) basic(4) by (auto simp flip: height_def)
  have index: "lower_fork_index (heights s) (fork_version (heights s ! i)) (current_fork_index t) = i"
    using lower_fork_index_eq [OF basic(1), of i "current_fork_index t"] i(2) keeps invt by (auto simp: hf_inv_def)
  let ?c = "u\<lparr>current_fork_index := i\<rparr>"
  have scan: "scan_votes [?L - ?w ..< ?L] (clear_votes ?c) = Some (?c\<lparr>versions := versions s, last_versions := last_versions s\<rparr>)"
    by (rule scan_window [OF inv]) (simp_all add: u)
  define r where "r = s\<lparr>db_versions := db_versions t\<rparr>"
  have "t\<lparr>db_blocks := db_blocks s, db_versions := db_versions s, versions := versions s,
      last_versions := last_versions s, current_fork_index := current_fork_index s\<rparr>
      \<lparr>db_versions := db_versions t, current_fork_index := i\<rparr> = r\<lparr>current_fork_index := i\<rparr>"
    using keeps by (simp add: r_def)
  moreover have "db_blocks s = take ?L (db_blocks t)" using keeps by simp
  ultimately have eq: "?c\<lparr>versions := versions s, last_versions := last_versions s\<rparr> = r\<lparr>current_fork_index := i\<rparr>"
    by (simp add: u_def) (cases t; simp)
  have "raise_fork_index (db_height s) (r\<lparr>current_fork_index := i\<rparr>) = r"
  proof -
    have s: "schedule_ok (heights (s\<lparr>current_fork_index := i\<rparr>))"
      "current_fork_index (s\<lparr>current_fork_index := i\<rparr>) < length (heights (s\<lparr>current_fork_index := i\<rparr>))"
      and r: "schedule_ok (heights (r\<lparr>current_fork_index := i\<rparr>))"
      "current_fork_index (r\<lparr>current_fork_index := i\<rparr>) < length (heights (r\<lparr>current_fork_index := i\<rparr>))"
      using basic(1) i(1) by (simp_all add: r_def)
    have "get_voted_fork_index (s\<lparr>current_fork_index := i\<rparr>) (db_height s) = current_fork_index s"
      using arg_cong [OF i(5), of current_fork_index] by (simp add: raise_fork_index_eq [OF s])
    moreover have "get_voted_fork_index (r\<lparr>current_fork_index := i\<rparr>) (db_height s) =
        get_voted_fork_index (s\<lparr>current_fork_index := i\<rparr>) (db_height s)"
      by (rule voted_fork_index_cong) (simp_all add: r_def)
    ultimately show ?thesis by (simp add: raise_fork_index_eq [OF r]) (simp add: r_def)
  qed
  moreover have "(clear_votes u)\<lparr>current_fork_index := i\<rparr> = clear_votes ?c" by (simp add: clear_votes_def)
  moreover have "\<not> db_height s \<le> height" using L start(2) by (simp add: word_le_nat_alt)
  moreover have "db_blocks r = db_blocks s" by (simp add: r_def)
  moreover have fields: "window_size (clear_votes u) = window_size s" "original_version (clear_votes u) = original_version s"
    "db_versions (clear_votes u) = db_versions t" "heights (clear_votes u) = heights s"
    "current_fork_index (clear_votes u) = current_fork_index t"
    by (simp_all add: clear_votes_def u)
  ultimately have "reorganize_from_block_height height u = Some (True, r)"
    unfolding reorganize_from_block_height_def Let_def u(7) fields low_def [symmetric] version
    using index scan start eq height(2) by simp
  then show ?thesis using pos by (simp add: reorganize_from_chain_height_def u_def r_def height_def)
qed

section \<open>Which fork is voted for\<close>

text \<open>A vote for a version counts for every scheduled fork up to the one with this version.\<close>

definition votes_for :: "hard_fork \<Rightarrow> nat \<Rightarrow> nat" where
  "votes_for s n = length (filter (\<lambda>v. v \<in> fork_version ` set (drop n (heights s))) (versions s))"

definition fork_enabled :: "hard_fork \<Rightarrow> u64 \<Rightarrow> nat \<Rightarrow> bool" where
  "fork_enabled s height n \<longleftrightarrow> fork_height (heights s ! n) \<le> height \<and>
     unat (window_size s) * unat (threshold (heights s ! n)) \<le> 100 * votes_for s n"

definition votes_inv :: "hard_fork \<Rightarrow> bool" where
  "votes_inv s \<longleftrightarrow> schedule_ok (heights s) \<and> unat (window_size s) < 2 ^ 32 \<and>
     length (versions s) \<le> unat (window_size s) \<and> last_versions s = vote_counts (versions s) \<and>
     current_fork_index s < length (heights s)"

lemma filter_disjoint_length:
  "(\<And>v. \<not> (P v \<and> Q v)) \<Longrightarrow> length (filter (\<lambda>v. P v \<or> Q v) xs) = length (filter P xs) + length (filter Q xs)"
  by (induction xs) auto

lemma count_list_filter: "count_list xs v = length (filter (\<lambda>x. x = v) xs)"
  by (induction xs) auto

lemma votes_for_step:
  assumes "schedule_ok (heights s)" and "n < length (heights s)"
  shows "votes_for s n = votes_for s (Suc n) + count_list (versions s) (fork_version (heights s ! n))"
proof -
  let ?v = "fork_version (heights s ! n)"
  have drop: "drop n (heights s) = heights s ! n # drop (Suc n) (heights s)" using assms(2) by (simp add: Cons_nth_drop_Suc)
  have "?v \<notin> fork_version ` set (drop (Suc n) (heights s))"
  proof
    assume "?v \<in> fork_version ` set (drop (Suc n) (heights s))"
    then obtain j where "Suc n \<le> j" "j < length (heights s)" "fork_version (heights s ! j) = ?v"
      by (auto simp: set_conv_nth) (metis add.commute add_Suc_right le_add1 less_diff_conv)
    then show False using schedule_distinct [OF assms(1), of n j] by simp
  qed
  then have "length (filter (\<lambda>v. v \<in> fork_version ` set (drop (Suc n) (heights s)) \<or> v = ?v) (versions s)) =
      votes_for s (Suc n) + length (filter (\<lambda>v. v = ?v) (versions s))"
    unfolding votes_for_def by (intro filter_disjoint_length) metis
  moreover have "(\<lambda>v. v \<in> fork_version ` set (drop n (heights s))) =
      (\<lambda>v. v \<in> fork_version ` set (drop (Suc n) (heights s)) \<or> v = ?v)"
    by (auto simp: drop fun_eq_iff)
  ultimately show ?thesis by (simp add: votes_for_def count_list_filter)
qed

lemma ceil_percent: "(w * t + 99) div 100 \<le> v \<longleftrightarrow> w * t \<le> 100 * (v :: nat)"
  using less_mult_imp_div_less [of "w * t + 99" "Suc v" 100] div_mult_mod_eq [of "w * t + 99" 100]
  by (auto simp: not_le)

lemma votes_needed_exact:
  assumes "votes_inv s" and "n < length (heights s)"
  shows "unat (votes_needed s (heights s ! n)) =
    (unat (window_size s) * unat (threshold (heights s ! n)) + 99) div 100"
proof -
  let ?w = "unat (window_size s)" and ?t = "unat (threshold (heights s ! n))"
  have "threshold (heights s ! n) \<le> 100"
    using assms by (simp add: votes_inv_def schedule_ok_def list_all_length)
  then have t: "?t \<le> 100" by (simp add: word_le_nat_alt)
  have w: "?w < 2 ^ 32" using assms(1) by (simp add: votes_inv_def)
  have small: "?w * ?t + 99 < 2 ^ 64" "(?w * ?t + 99) div 100 < 2 ^ 32"
  proof -
    have "?w * ?t \<le> ?w * 100" using t by (rule mult_le_mono2)
    also have "\<dots> \<le> (2 ^ 32 - 1) * 100" using w by simp
    finally have "?w * ?t + 99 \<le> (2 ^ 32 - 1) * 100 + 99" by simp
    moreover from this have "(?w * ?t + 99) div 100 \<le> ((2 ^ 32 - 1) * 100 + 99) div 100" by (rule div_le_mono)
    ultimately show "?w * ?t + 99 < 2 ^ 64" "(?w * ?t + 99) div 100 < 2 ^ 32" by simp_all
  qed
  have "unat (ucast (threshold (heights s ! n)) :: u64) = ?t"
    by (simp add: unsigned_ucast_eq take_bit_nat_eq_self order_less_trans [OF unat_u8_lt])
  then have "unat (window_size s * ucast (threshold (heights s ! n)) + 99) = ?w * ?t + 99"
    using small(1) by (simp add: unat_add_u64 unat_mult_u64)
  then have "unat ((window_size s * ucast (threshold (heights s ! n)) + 99) div 100) = (?w * ?t + 99) div 100"
    by (simp add: unat_div_distrib)
  then show ?thesis
    using small(2) by (simp add: votes_needed_def unat_ucast_u64_u32 take_bit_nat_eq_self)
qed

lemma votes_for_lt: "votes_inv s \<Longrightarrow> votes_for s n < 2 ^ 32"
  unfolding votes_for_def votes_inv_def
  by (rule order_le_less_trans [OF length_filter_le]) linarith

lemma voted_fork_from_exact:
  assumes inv: "votes_inv s"
  shows "n < length (heights s) \<Longrightarrow> current_fork_index s \<le> n \<Longrightarrow> acc = word_of_nat (votes_for s (Suc n)) \<Longrightarrow>
    (let k = voted_fork_from s height n acc in
     (k = current_fork_index s \<or> current_fork_index s < k \<and> k \<le> n \<and> fork_enabled s height k) \<and>
     (\<forall>m. k < m \<longrightarrow> m \<le> n \<longrightarrow> \<not> fork_enabled s height m))"
proof (induction n arbitrary: acc)
  case 0
  then show ?case by (subst voted_fork_from.simps) simp
next
  case (Suc n)
  show ?case
  proof (cases "Suc n = current_fork_index s")
    case True
    then show ?thesis by (subst voted_fork_from.simps) simp
  next
    case False
    let ?p = "heights s ! Suc n"
    let ?acc = "acc + last_versions s (fork_version ?p)"
    have lt: "current_fork_index s < Suc n" using False Suc.prems by simp
    have "last_versions s = vote_counts (versions s)" and sched: "schedule_ok (heights s)"
      using inv by (simp_all add: votes_inv_def)
    then have acc: "?acc = word_of_nat (votes_for s (Suc n))"
      using votes_for_step [OF sched Suc.prems(1)] Suc.prems(3) by simp
    then have "unat ?acc = votes_for s (Suc n)"
      using votes_for_lt [OF inv, of "Suc n"] by (simp add: unsigned_of_nat take_bit_nat_eq_self)
    then have enabled: "fork_height ?p \<le> height \<and> votes_needed s ?p \<le> ?acc \<longleftrightarrow> fork_enabled s height (Suc n)"
      using votes_needed_exact [OF inv Suc.prems(1)] ceil_percent
      by (simp add: fork_enabled_def word_le_nat_alt [of "votes_needed s ?p"])
    have step: "voted_fork_from s height (Suc n) acc =
        (if fork_enabled s height (Suc n) then Suc n else voted_fork_from s height n ?acc)"
      using lt enabled by (subst voted_fork_from.simps) (simp add: Let_def)
    show ?thesis
    proof (cases "fork_enabled s height (Suc n)")
      case True
      then show ?thesis using lt by (simp add: step)
    next
      case False
      then show ?thesis
        using Suc.IH [OF _ _ acc] Suc.prems(1) lt by (auto simp: step Let_def less_Suc_eq_le le_Suc_eq)
    qed
  qed
qed


lemma voted_fork_index_exact:
  assumes "votes_inv s"
  shows "let k = get_voted_fork_index s height in
    (k = current_fork_index s \<or> current_fork_index s < k \<and> k < length (heights s) \<and> fork_enabled s height k) \<and>
    (\<forall>m. k < m \<longrightarrow> m < length (heights s) \<longrightarrow> \<not> fork_enabled s height m)"
proof -
  obtain n where n: "length (heights s) = Suc n" "current_fork_index s \<le> n"
    using assms by (cases "length (heights s)") (auto simp: votes_inv_def schedule_ok_def)
  have "votes_for s (Suc n) = 0" using n(1) by (simp add: votes_for_def)
  then show ?thesis
    using voted_fork_from_exact [OF assms, of n 0 height] n
    by (simp add: get_voted_fork_index_def Let_def less_Suc_eq_le)
qed

section \<open>Starting\<close>

text \<open>Before the first block: a schedule, or none, and no blocks.\<close>

definition hf_configured :: "hard_fork \<Rightarrow> bool" where
  "hf_configured s \<longleftrightarrow> db_blocks s = [] \<and> 0 < unat (window_size s) \<and> unat (window_size s) < 2 ^ 32 \<and>
     (heights s = [] \<or> schedule_ok (heights s) \<and> fork_version (heights s ! 0) = original_version s)"

lemma init_empty:
  assumes "hf_configured s"
  shows "\<exists>s'. hard_fork_init s = Some s' \<and> hf_inv s' \<and> db_blocks s' = []"
  using assms
  by (auto simp: hf_configured_def hard_fork_init_def Let_def reorganize_from_chain_height_def
      reorganize_from_block_height_def rescan_from_chain_height_def rescan_from_block_height_def
      clear_votes_def db_height_def hf_inv_def schedule_ok_def last_votes_def)

text \<open>\<open>add_fork\<close> builds a schedule, whatever its arguments.\<close>

lemma add_fork_schedule:
  assumes "heights s = [] \<or> schedule_ok (heights s)"
  shows "heights (snd (add_fork v h thr t s)) = [] \<or> schedule_ok (heights (snd (add_fork v h thr t s)))"
proof -
  have "fork_version p < v"
    if "schedule_ok (heights s)" "fork_version (last (heights s)) < v" "p \<in> set (heights s)" for p
  proof -
    obtain i where i: "i < length (heights s)" "p = heights s ! i" using \<open>p \<in> set (heights s)\<close> by (auto simp: in_set_conv_nth)
    obtain m where m: "length (heights s) = Suc m" using i by (cases "length (heights s)") auto
    then have "last (heights s) = heights s ! m" by (subst last_conv_nth) auto
    then have "fork_version p \<le> fork_version (last (heights s))"
      using schedule_distinct [OF that(1), of i m] i m by (cases "i = m") auto
    then show ?thesis using that(2) by simp
  qed
  then show ?thesis
    using assms by (auto simp: add_fork_def schedule_ok_def sorted_wrt_append not_le not_less)
qed


section \<open>Properties\<close>

text \<open>C3: A fork is activated exactly when it is due and has the votes. On every chain that has
  grown from an empty database by blocks that pass the check, adding one more such block moves to the
  highest scheduled fork above the current one whose height has come and that at least its threshold
  of the window voted for, and otherwise leaves the current fork, where the votes are those of the
  last \<open>window_size\<close> blocks.\<close>

theorem fork_activation_exact:
  assumes "hf_configured s0" and "hard_fork_init s0 = Some s1" and "extends s1 s"
    and "check s b" and "length (db_blocks s) < 2 ^ 63"
  shows "let t = add_block b s; k = current_fork_index t in
    versions t = last_votes t \<and>
    (k = current_fork_index s \<or>
      current_fork_index s < k \<and> k < length (heights t) \<and> fork_enabled t (db_height t) k) \<and>
    (\<forall>m. k < m \<longrightarrow> m < length (heights t) \<longrightarrow> \<not> fork_enabled t (db_height t) m)"
proof -
  have "hf_inv s1" using init_empty [OF assms(1)] assms(2) by auto
  then have inv: "hf_inv s" using extends_inv [OF assms(3)] by blast
  define u where "u = s\<lparr>db_blocks := db_blocks s @ [b], db_versions := (db_versions s)(db_height s \<mapsto> get_current_version_num s),
       versions := last_votes (s\<lparr>db_blocks := db_blocks s @ [b]\<rparr>),
       last_versions := vote_counts (last_votes (s\<lparr>db_blocks := db_blocks s @ [b]\<rparr>))\<rparr>"
  have u: "schedule_ok (heights u)" "current_fork_index u < length (heights u)"
    using inv by (simp_all add: u_def hf_inv_def)
  have t: "add_block b s = u\<lparr>current_fork_index := get_voted_fork_index u (db_height s + 1)\<rparr>"
    using add_block_eq [OF inv assms(4)] raise_fork_index_eq [OF u] by (simp add: u_def)
  have invt: "hf_inv (add_block b s)" using add_block_inv [OF inv assms(4,5)] .
  have h: "db_height (add_block b s) = db_height s + 1"
    unfolding t by (simp add: u_def db_height_def)
  have "votes_inv u" using inv length_last_votes [of "s\<lparr>db_blocks := db_blocks s @ [b]\<rparr>"]
    by (simp add: votes_inv_def hf_inv_def u_def)
  note exact = voted_fork_index_exact [OF this, of "db_height s + 1"]
  have "fork_enabled (add_block b s) = fork_enabled u" "heights (add_block b s) = heights u"
    by (simp_all add: t fork_enabled_def [abs_def] votes_for_def)
  moreover have "current_fork_index u = current_fork_index s" by (simp add: u_def)
  moreover have "current_fork_index (add_block b s) = get_voted_fork_index u (db_height s + 1)" by (simp add: t)
  moreover have "versions (add_block b s) = last_votes (add_block b s)" using invt by (simp add: hf_inv_def)
  ultimately show ?thesis using exact h by (simp add: Let_def)
qed

text \<open>C6: A restart changes nothing: on every such chain with at least one block, rebuilding the
  object from the database by \<open>init\<close> gives back the state that adding the blocks one by one has
  reached.\<close>

theorem hard_fork_restart:
  assumes "hf_configured s0" and "hard_fork_init s0 = Some s1" and "extends s1 s" and "db_blocks s \<noteq> []"
  shows "hard_fork_init s = Some s"
proof -
  have "hf_inv s1" using init_empty [OF assms(1)] assms(2) by auto
  then show ?thesis using restart_restores extends_inv [OF assms(3)] assms(4) by blast
qed

text \<open>C7: A reorganisation undoes blocks: after any number of blocks have been added to such a chain
  and popped again, \<open>reorganize_from_chain_height\<close> returns to the votes and the fork of the chain
  before them; only entries of the version table above the chain are left over.\<close>

theorem hard_fork_reorganize:
  assumes "hf_configured s0" and "hard_fork_init s0 = Some s1" and "extends s1 s" and "db_blocks s \<noteq> []"
    and "extends s t"
  shows "reorganize_from_chain_height (db_height s) (t\<lparr>db_blocks := take (length (db_blocks s)) (db_blocks t)\<rparr>) =
    Some (True, s\<lparr>db_versions := db_versions t\<rparr>)"
proof -
  have "hf_inv s1" using init_empty [OF assms(1)] assms(2) by auto
  then show ?thesis using reorganize_restores extends_inv [OF assms(3)] assms(4,5) by blast
qed

text \<open>A small schedule: version 1 from the start and version 2 from height 1 on with all votes of a
  window of two blocks.\<close>

definition sample_hard_fork :: hard_fork where
  "sample_hard_fork = \<lparr>db_blocks = [], db_versions = Map.empty, forked_time = 100, update_time = 50, window_size = 2,
     default_threshold_percent = 80, original_version = 1, original_version_till_height = 0,
     heights = [\<lparr>fork_version = 1, fork_height = 0, threshold = 0, fork_time = 1\<rparr>,
       \<lparr>fork_version = 2, fork_height = 1, threshold = 100, fork_time = 2\<rparr>],
     versions = [], last_versions = (\<lambda>_. 0), current_fork_index = 0\<rparr>"

definition sample_started :: hard_fork where
  "sample_started = sample_hard_fork\<lparr>db_versions := [0 \<mapsto> 1]\<rparr>"

definition sample_vote :: block where
  "sample_vote = sample_block\<lparr>major_version := 1, minor_version := 2\<rparr>"

lemma sample_hard_fork_start: "hf_configured sample_hard_fork" "hard_fork_init sample_hard_fork = Some sample_started"
  by (simp_all add: hf_configured_def sample_hard_fork_def schedule_ok_def sample_started_def hard_fork_init_def
      clear_votes_def db_height_def reorganize_from_chain_height_def reorganize_from_block_height_def)

lemma sample_check: "check sample_started sample_vote"
  by (simp add: check_def do_check_def get_current_version_num_def sample_started_def sample_hard_fork_def
      sample_vote_def sample_block_def get_block_vote_def)

lemma sample_second_check: "check (add_block sample_vote sample_started) sample_vote"
  by code_simp

lemma sample_extends: "extends sample_started (add_block sample_vote sample_started)"
  by (rule extends.step [OF extends.refl sample_check]) (simp add: sample_started_def sample_hard_fork_def)

theorem fork_activation_exact_witness:
  "check (add_block sample_vote sample_started) sample_vote \<and>
   (let t = add_block sample_vote (add_block sample_vote sample_started)
    in versions t = last_votes t \<and> current_fork_index t = 1)"
proof -
  let ?s = "add_block sample_vote sample_started"
  have "length (db_blocks ?s) = 1" by code_simp
  then have len: "length (db_blocks ?s) < 2 ^ 63" by simp
  have "current_fork_index (add_block sample_vote ?s) = 1" by code_simp
  then show ?thesis
    using fork_activation_exact [OF sample_hard_fork_start sample_extends sample_second_check len] sample_second_check
    by (simp add: Let_def)
qed

theorem hard_fork_restart_witness:
  "hard_fork_init (add_block sample_vote sample_started) = Some (add_block sample_vote sample_started)"
proof -
  have "db_blocks (add_block sample_vote sample_started) \<noteq> []" by code_simp
  then show ?thesis by (rule hard_fork_restart [OF sample_hard_fork_start sample_extends])
qed

theorem hard_fork_reorganize_witness:
  "\<exists>t. extends (add_block sample_vote sample_started) t \<and> length (db_blocks t) = 2 \<and>
    reorganize_from_chain_height (db_height (add_block sample_vote sample_started))
      (t\<lparr>db_blocks := take (length (db_blocks (add_block sample_vote sample_started))) (db_blocks t)\<rparr>) =
    Some (True, (add_block sample_vote sample_started)\<lparr>db_versions := db_versions t\<rparr>)"
proof -
  let ?s = "add_block sample_vote sample_started"
  have one: "length (db_blocks ?s) = 1" and two: "length (db_blocks (add_block sample_vote ?s)) = 2" by code_simp+
  have ne: "db_blocks ?s \<noteq> []" and len: "length (db_blocks ?s) < 2 ^ 63" using one by auto
  have "extends ?s (add_block sample_vote ?s)" by (rule extends.step [OF extends.refl sample_second_check len])
  then show ?thesis
    using hard_fork_reorganize [OF sample_hard_fork_start sample_extends ne] two by blast
qed

end
