(* ===== verification/BlockQueue.thy ===== *)
theory BlockQueue
  imports TxFormat
begin

text \<open>
  The queue of block spans of \<open>src/cryptonote_protocol/block_queue.cpp\<close>, which a synchronising node
  uses to decide which blocks to ask which peer for. \<open>blocks\<close>, a \<open>std::set\<close> ordered by the start
  height, is the list of its spans in that order; inserting an element that compares equal to a
  present one does nothing. Connection identifiers are 128-bit words, \<open>0\<close> is the nil identifier. The
  entries received from a peer, rates and times are only stored and are type parameters. Locks are
  left out, and so are \<open>get_speed\<close>, which computes with floating-point rates, and the two functions
  that print.
\<close>

type_synonym uuid = "128 word"

record ('e, 'r, 't) span =
  start_block_height :: u64
  hashes :: "key list"
  entries :: "'e list"
  connection_id :: uuid
  nblocks :: u64
  rate :: 'r
  size :: u64
  time :: 't

type_synonym ('e, 'r, 't) block_map = "('e, 'r, 't) span list"

section \<open>Operations\<close>

text \<open>\<open>std::set::insert\<close>\<close>

fun insert_span :: "('e, 'r, 't) span \<Rightarrow> ('e, 'r, 't) block_map \<Rightarrow> ('e, 'r, 't) block_map" where
  "insert_span s [] = [s]"
| "insert_span s (x # xs) =
     (if start_block_height s < start_block_height x then s # x # xs
      else if start_block_height x < start_block_height s then x # insert_span s xs
      else x # xs)"

definition filled_span :: "'t \<Rightarrow> u64 \<Rightarrow> 'e list \<Rightarrow> uuid \<Rightarrow> 'r \<Rightarrow> u64 \<Rightarrow> ('e, 'r, 't) span" where
  "filled_span no_time height bcel conn r sz =
     \<lparr>start_block_height = height, hashes = [], entries = bcel, connection_id = conn,
      nblocks = word_of_nat (length bcel), rate = r, size = sz, time = no_time\<rparr>"

definition scheduled_span :: "'r \<Rightarrow> u64 \<Rightarrow> u64 \<Rightarrow> uuid \<Rightarrow> 't \<Rightarrow> ('e, 'r, 't) span" where
  "scheduled_span zero_rate height n conn t =
     \<lparr>start_block_height = height, hashes = [], entries = [], connection_id = conn,
      nblocks = n, rate = zero_rate, size = 0, time = t\<rparr>"

fun remove_span :: "u64 \<Rightarrow> ('e, 'r, 't) block_map \<Rightarrow> (key list \<times> ('e, 'r, 't) block_map) option" where
  "remove_span height [] = None"
| "remove_span height (x # xs) =
     (if start_block_height x = height then Some (hashes x, xs)
      else map_option (\<lambda>(hs, ys). (hs, x # ys)) (remove_span height xs))"

text \<open>The loop finds the span, erases it and inserts the changed copy; \<open>erased\<close> are the spans that
  the loop has passed.\<close>

fun set_span_hashes_from :: "('e, 'r, 't) block_map \<Rightarrow> u64 \<Rightarrow> uuid \<Rightarrow> key list \<Rightarrow> ('e, 'r, 't) block_map
    \<Rightarrow> ('e, 'r, 't) block_map" where
  "set_span_hashes_from passed height conn hs [] = passed"
| "set_span_hashes_from passed height conn hs (x # xs) =
     (if start_block_height x = height \<and> connection_id x = conn
      then insert_span (x\<lparr>hashes := hs\<rparr>) (passed @ xs)
      else set_span_hashes_from (passed @ [x]) height conn hs xs)"

definition set_span_hashes :: "u64 \<Rightarrow> uuid \<Rightarrow> key list \<Rightarrow> ('e, 'r, 't) block_map \<Rightarrow> ('e, 'r, 't) block_map" where
  "set_span_hashes = set_span_hashes_from []"

definition add_blocks :: "'t \<Rightarrow> u64 \<Rightarrow> 'e list \<Rightarrow> uuid \<Rightarrow> 'r \<Rightarrow> u64 \<Rightarrow> ('e, 'r, 't) block_map \<Rightarrow> ('e, 'r, 't) block_map" where
  "add_blocks no_time height bcel conn r sz q = (
     case remove_span height q of
       None \<Rightarrow> insert_span (filled_span no_time height bcel conn r sz) q
     | Some (hs, q') \<Rightarrow>
         set_span_hashes height conn hs (insert_span (filled_span no_time height bcel conn r sz) q'))"

text \<open>\<open>None\<close>: the assertion that the span is not empty throws.\<close>

definition add_blocks_scheduled :: "'r \<Rightarrow> u64 \<Rightarrow> u64 \<Rightarrow> uuid \<Rightarrow> 't \<Rightarrow> ('e, 'r, 't) block_map
    \<Rightarrow> ('e, 'r, 't) block_map option" where
  "add_blocks_scheduled zero_rate height n conn t q =
     (if 0 < n then Some (insert_span (scheduled_span zero_rate height n conn t) q) else None)"

definition flush_spans :: "uuid \<Rightarrow> bool \<Rightarrow> ('e, 'r, 't) block_map \<Rightarrow> ('e, 'r, 't) block_map" where
  "flush_spans conn every q = filter (\<lambda>j. \<not> (connection_id j = conn \<and> (every \<or> length (entries j) = 0))) q"

definition is_blockchain_placeholder :: "('e, 'r, 't) span \<Rightarrow> bool" where
  "is_blockchain_placeholder s \<longleftrightarrow> connection_id s = 0"

text \<open>The iterator after a placeholder at the start.\<close>

fun skip_placeholder :: "('e, 'r, 't) block_map \<Rightarrow> ('e, 'r, 't) block_map" where
  "skip_placeholder [] = []"
| "skip_placeholder (x # xs) = (if is_blockchain_placeholder x then xs else x # xs)"

definition flush_stale_spans :: "uuid set \<Rightarrow> ('e, 'r, 't) block_map \<Rightarrow> ('e, 'r, 't) block_map" where
  "flush_stale_spans live q = (
     let flush = filter (\<lambda>j. \<not> (connection_id j \<notin> live \<and> length (entries j) = 0)) in
     case q of
       [] \<Rightarrow> []
     | x # xs \<Rightarrow> if is_blockchain_placeholder x then x # flush xs else flush (x # xs))"

definition remove_spans :: "uuid \<Rightarrow> u64 \<Rightarrow> ('e, 'r, 't) block_map \<Rightarrow> ('e, 'r, 't) block_map" where
  "remove_spans conn height q = filter (\<lambda>j. \<not> (connection_id j = conn \<and> start_block_height j \<le> height)) q"

definition last_height :: "('e, 'r, 't) span \<Rightarrow> u64" where
  "last_height s = start_block_height s + nblocks s - 1"

definition get_max_block_height :: "('e, 'r, 't) block_map \<Rightarrow> u64" where
  "get_max_block_height q = fold (\<lambda>s height. let h = last_height s in if h > height then h else height) q 0"

definition requested :: "key \<Rightarrow> ('e, 'r, 't) block_map \<Rightarrow> bool" where
  "requested h q \<longleftrightarrow> list_ex (\<lambda>s. list_ex (\<lambda>h'. h' = h) (hashes s)) q"

text \<open>The two loops of \<open>reserve_span\<close>.\<close>

fun skip_requested :: "('e, 'r, 't) block_map \<Rightarrow> key list \<Rightarrow> u64 \<Rightarrow> key list \<times> u64" where
  "skip_requested q [] start = ([], start)"
| "skip_requested q (h # hs) start =
     (if requested h q then skip_requested q hs (start + 1) else (h # hs, start))"

fun take_hashes :: "u64 \<Rightarrow> key list \<Rightarrow> u64 \<Rightarrow> key list \<times> u64" where
  "take_hashes max_blocks [] n = ([], n)"
| "take_hashes max_blocks (h # hs) n =
     (if n < max_blocks then let (r, n') = take_hashes max_blocks hs (n + 1) in (h # r, n') else ([], n))"

text \<open>The result is the pair of the code and the queue; \<open>None\<close> is the assertion in \<open>add_blocks\<close>.\<close>

definition reserve_span :: "'r \<Rightarrow> u64 \<Rightarrow> u64 \<Rightarrow> u64 \<Rightarrow> uuid \<Rightarrow> key list \<Rightarrow> 't \<Rightarrow> ('e, 'r, 't) block_map
    \<Rightarrow> ((u64 \<times> u64) \<times> ('e, 'r, 't) block_map) option" where
  "reserve_span zero_rate first_block_height last_block_height max_blocks conn block_hashes t q = (
     if last_block_height < first_block_height \<or> max_blocks = 0 then Some ((0, 0), q)
     else
       let (rest, start) = skip_requested q block_hashes (last_block_height - word_of_nat (length block_hashes) + 1);
           (hs, n) = take_hashes max_blocks rest 0
       in if n = 0 then Some ((0, 0), q)
          else map_option (\<lambda>q'. ((start, n), set_span_hashes start conn hs q'))
                 (add_blocks_scheduled zero_rate start n conn t q))"

fun get_start_gap_span :: "('e, 'r, 't) block_map \<Rightarrow> u64 \<times> u64" where
  "get_start_gap_span (x # y # _) =
     (if \<not> is_blockchain_placeholder x then (0, 0)
      else
        let current_height = last_height x; first_span_height = start_block_height y in
        if first_span_height \<le> current_height + 1 then (0, 0)
        else (current_height + 1, first_span_height - current_height - 1))"
| "get_start_gap_span _ = (0, 0)"

text \<open>\<open>None\<close> is the result \<open>(0, 0)\<close>, for which the code leaves its output arguments alone.\<close>

definition get_next_span_if_scheduled :: "('e, 'r, 't) block_map \<Rightarrow> (key list \<times> uuid \<times> 't \<times> u64 \<times> u64) option" where
  "get_next_span_if_scheduled q = (
     case skip_placeholder q of
       [] \<Rightarrow> None
     | i # _ \<Rightarrow> if entries i \<noteq> [] then None
                else Some (hashes i, connection_id i, time i, start_block_height i, nblocks i))"

definition get_next_span :: "bool \<Rightarrow> ('e, 'r, 't) block_map \<Rightarrow> (u64 \<times> 'e list \<times> uuid) option" where
  "get_next_span filled q =
     map_option (\<lambda>i. (start_block_height i, entries i, connection_id i))
       (find (\<lambda>i. \<not> filled \<or> entries i \<noteq> []) (skip_placeholder q))"

definition has_next_span :: "uuid \<Rightarrow> ('e, 'r, 't) block_map \<Rightarrow> bool option" where
  "has_next_span conn q = (
     case skip_placeholder q of
       [] \<Rightarrow> None
     | i # _ \<Rightarrow> if connection_id i \<noteq> conn then None else Some (entries i \<noteq> []))"

definition get_data_size :: "('e, 'r, 't) block_map \<Rightarrow> u64" where
  "get_data_size q = fold (\<lambda>s n. n + size s) q 0"

definition get_num_filled_spans_prefix :: "('e, 'r, 't) block_map \<Rightarrow> nat" where
  "get_num_filled_spans_prefix q = length (takeWhile (\<lambda>s. entries s \<noteq> []) (skip_placeholder q))"

definition get_num_filled_spans :: "('e, 'r, 't) block_map \<Rightarrow> nat" where
  "get_num_filled_spans q = fold (\<lambda>s n. if entries s \<noteq> [] then n + 1 else n) q 0"

text \<open>\<open>None\<close> is \<open>back()\<close> of an empty list.\<close>

fun last_known_hash_from :: "uuid \<Rightarrow> key \<Rightarrow> u64 \<Rightarrow> ('e, 'r, 't) block_map \<Rightarrow> key option" where
  "last_known_hash_from conn hash highest_height [] = Some hash"
| "last_known_hash_from conn hash highest_height (s # ss) =
     (if connection_id s \<noteq> conn then last_known_hash_from conn hash highest_height ss
      else
        let h = last_height s in
        if h > highest_height \<and> word_of_nat (length (hashes s)) = nblocks s
        then if hashes s = [] then None else last_known_hash_from conn (last (hashes s)) h ss
        else last_known_hash_from conn hash highest_height ss)"

definition get_last_known_hash :: "uuid \<Rightarrow> ('e, 'r, 't) block_map \<Rightarrow> key option" where
  "get_last_known_hash conn q = last_known_hash_from conn (replicate 32 0) 0 q"

definition has_spans :: "uuid \<Rightarrow> ('e, 'r, 't) block_map \<Rightarrow> bool" where
  "has_spans conn q \<longleftrightarrow> list_ex (\<lambda>s. connection_id s = conn) q"

fun foreach_span :: "(('e, 'r, 't) span \<Rightarrow> bool) \<Rightarrow> ('e, 'r, 't) block_map \<Rightarrow> bool" where
  "foreach_span f [] = True"
| "foreach_span f (x # xs) = (if \<not> f x then False else foreach_span f xs)"

definition block_queue_foreach :: "(('e, 'r, 't) span \<Rightarrow> bool) \<Rightarrow> bool \<Rightarrow> ('e, 'r, 't) block_map \<Rightarrow> bool" where
  "block_queue_foreach f include_blockchain_placeholder q =
     foreach_span f (if include_blockchain_placeholder then q else skip_placeholder q)"

section \<open>The queue as a map from heights to spans\<close>

definition queue_ok :: "('e, 'r, 't) block_map \<Rightarrow> bool" where
  "queue_ok q \<longleftrightarrow> sorted_wrt (<) (map start_block_height q)"

definition span_at :: "('e, 'r, 't) block_map \<Rightarrow> u64 \<Rightarrow> ('e, 'r, 't) span option" where
  "span_at q = map_of (map (\<lambda>s. (start_block_height s, s)) q)"

lemma span_at_simps [simp]:
  "span_at [] = Map.empty"
  "span_at (x # xs) = (span_at xs)(start_block_height x \<mapsto> x)"
  by (simp_all add: span_at_def)

lemma queue_ok_simps [simp]:
  "queue_ok []"
  "queue_ok (x # xs) \<longleftrightarrow> (\<forall>y \<in> set xs. start_block_height x < start_block_height y) \<and> queue_ok xs"
  by (auto simp: queue_ok_def)

lemma span_at_append: "span_at (xs @ ys) = span_at ys ++ span_at xs"
  by (simp add: span_at_def)

lemma span_at_None: "span_at q h = None \<longleftrightarrow> (\<forall>s \<in> set q. start_block_height s \<noteq> h)"
  by (induction q) auto

lemma span_at_Some: "queue_ok q \<Longrightarrow> span_at q h = Some s \<longleftrightarrow> s \<in> set q \<and> start_block_height s = h"
proof (induction q)
  case (Cons a q)
  have "s \<in> set q \<Longrightarrow> start_block_height a < start_block_height s" using Cons(2) by simp
  then show ?case using Cons by (cases "start_block_height a = h") auto
qed simp

lemma queue_ok_filter: "queue_ok q \<Longrightarrow> queue_ok (filter P q)"
  by (induction q) auto

lemma span_at_filter:
  "queue_ok q \<Longrightarrow> span_at (filter P q) h = (case span_at q h of None \<Rightarrow> None | Some s \<Rightarrow> if P s then Some s else None)"
proof (induction q)
  case (Cons x xs)
  then have "start_block_height x = h \<Longrightarrow> span_at xs h = None" by (auto simp: span_at_None)
  then show ?case using Cons by (auto split: option.splits)
qed simp

lemma set_insert_span: "set (insert_span s q) \<subseteq> insert s (set q)"
  by (induction s q rule: insert_span.induct) auto

lemma insert_span_ok: "queue_ok q \<Longrightarrow> queue_ok (insert_span s q)"
  using set_insert_span by (induction s q rule: insert_span.induct) fastforce+

lemma span_at_insert:
  "queue_ok q \<Longrightarrow> span_at (insert_span s q) =
     (if span_at q (start_block_height s) = None then (span_at q)(start_block_height s \<mapsto> s) else span_at q)"
proof (induction s q rule: insert_span.induct)
  case (2 s x xs)
  show ?case
  proof (cases "start_block_height s < start_block_height x")
    case True
    then have "span_at (x # xs) (start_block_height s) = None" using 2 by (auto simp: span_at_None)
    then show ?thesis using True by simp
  next
    case False
    then show ?thesis using 2 by (auto simp: fun_upd_twist)
  qed
qed simp

lemma remove_span_None: "remove_span h q = None \<longleftrightarrow> span_at q h = None"
  by (induction h q rule: remove_span.induct) auto

lemma remove_span_Some:
  "queue_ok q \<Longrightarrow> remove_span h q = Some (hs, q') \<Longrightarrow>
     queue_ok q' \<and> set q' \<subseteq> set q \<and> span_at q' = (span_at q)(h := None) \<and> (\<exists>s. span_at q h = Some s \<and> hashes s = hs)"
proof (induction h q arbitrary: q' rule: remove_span.induct)
  case (2 h x xs)
  show ?case
  proof (cases "start_block_height x = h")
    case True
    then have "span_at xs h = None" using 2 by (auto simp: span_at_None)
    then show ?thesis using True 2 by auto
  next
    case False
    then show ?thesis using 2 by (auto simp: fun_upd_twist subset_eq)
  qed
qed simp

lemma set_span_hashes_from_ok:
  assumes "queue_ok (passed @ q)"
  shows "queue_ok (set_span_hashes_from passed h conn hs q) \<and>
    span_at (set_span_hashes_from passed h conn hs q) =
      (case span_at q h of
         Some s \<Rightarrow> if connection_id s = conn then (span_at (passed @ q))(h \<mapsto> s\<lparr>hashes := hs\<rparr>) else span_at (passed @ q)
       | None \<Rightarrow> span_at (passed @ q))"
  using assms
proof (induction passed h conn hs q rule: set_span_hashes_from.induct)
  case (2 passed h conn hs x xs)
  have notin: "span_at passed (start_block_height x) = None" "span_at xs (start_block_height x) = None"
    using 2(2) by (fastforce simp: span_at_None queue_ok_def sorted_wrt_append)+
  show ?case
  proof (cases "start_block_height x = h \<and> connection_id x = conn")
    case True
    have ok: "queue_ok (passed @ xs)" using 2(2) by (auto simp: queue_ok_def sorted_wrt_append)
    show ?thesis
      using True notin insert_span_ok [OF ok] span_at_insert [OF ok, of "x\<lparr>hashes := hs\<rparr>"]
      by (auto simp: span_at_append map_add_def fun_eq_iff split: option.splits)
  next
    case False
    then show ?thesis
      using 2(1) [OF False] 2(2) notin by (cases "start_block_height x = h") (auto split: option.splits)
  qed
qed simp

lemma set_span_hashes_ok:
  assumes "queue_ok q"
  shows "queue_ok (set_span_hashes h conn hs q)"
    and "span_at (set_span_hashes h conn hs q) =
      (case span_at q h of
         Some s \<Rightarrow> if connection_id s = conn then (span_at q)(h \<mapsto> s\<lparr>hashes := hs\<rparr>) else span_at q
       | None \<Rightarrow> span_at q)"
  using set_span_hashes_from_ok [of "[]" q h conn hs] assms unfolding append_Nil by (simp_all add: set_span_hashes_def)

lemma add_blocks_ok:
  assumes "queue_ok q"
  shows "queue_ok (add_blocks no_time h bcel conn r sz q)"
    and "span_at (add_blocks no_time h bcel conn r sz q) =
      (span_at q)(h \<mapsto> (filled_span no_time h bcel conn r sz)\<lparr>hashes := case span_at q h of None \<Rightarrow> [] | Some s \<Rightarrow> hashes s\<rparr>)"
proof -
  let ?f = "filled_span no_time h bcel conn r sz"
  have f: "start_block_height ?f = h" "connection_id ?f = conn" "?f\<lparr>hashes := []\<rparr> = ?f" by (simp_all add: filled_span_def)
  have "queue_ok (add_blocks no_time h bcel conn r sz q) \<and> span_at (add_blocks no_time h bcel conn r sz q) =
      (span_at q)(h \<mapsto> ?f\<lparr>hashes := case span_at q h of None \<Rightarrow> [] | Some s \<Rightarrow> hashes s\<rparr>)"
  proof (cases "remove_span h q")
    case None
    then have "span_at q h = None" by (simp add: remove_span_None)
    then show ?thesis using None insert_span_ok [OF assms, of ?f] span_at_insert [OF assms, of ?f]
      by (simp add: add_blocks_def f)
  next
    case (Some a)
    then obtain hs q' where a: "remove_span h q = Some (hs, q')" by (cases a) auto
    note r = remove_span_Some [OF assms a]
    then have ok: "queue_ok q'" by simp
    show ?thesis
      using a r set_span_hashes_ok [OF insert_span_ok [OF ok, of ?f], of h conn hs] span_at_insert [OF ok, of ?f]
      by (auto simp: add_blocks_def f)
  qed
  then show "queue_ok (add_blocks no_time h bcel conn r sz q)"
    "span_at (add_blocks no_time h bcel conn r sz q) =
      (span_at q)(h \<mapsto> ?f\<lparr>hashes := case span_at q h of None \<Rightarrow> [] | Some s \<Rightarrow> hashes s\<rparr>)" by simp_all
qed

lemma skip_requested_eq:
  "skip_requested q hs start = (dropWhile (\<lambda>h. requested h q) hs, start + word_of_nat (length (takeWhile (\<lambda>h. requested h q) hs)))"
  by (induction q hs start rule: skip_requested.induct) (auto simp: algebra_simps)

lemma take_hashes_eq:
  "n \<le> m \<Longrightarrow> take_hashes m hs n = (take (unat (m - n)) hs, n + word_of_nat (length (take (unat (m - n)) hs)))"
proof (induction hs arbitrary: n)
  case (Cons h hs)
  show ?case
  proof (cases "n < m")
    case True
    then have le: "n + 1 \<le> m" by (simp add: inc_le)
    have "m - n \<noteq> 0" using True by auto
    then have "unat (m - n) = Suc (unat (m - n - 1))" using unat_minus_one [of "m - n"] by (simp add: unat_gt_0)
    then have "unat (m - n) = Suc (unat (m - (n + 1)))" by (simp add: algebra_simps)
    then show ?thesis using True Cons(1) [OF le] by simp
  next
    case False
    then have "n = m" using Cons(2) by simp
    then show ?thesis by simp
  qed
qed simp

lemma requested_iff: "requested h q \<longleftrightarrow> (\<exists>s \<in> set q. h \<in> set (hashes s))"
  by (auto simp: requested_def list_ex_iff)

lemma requested_span_at: "queue_ok q \<Longrightarrow> requested h q \<longleftrightarrow> (\<exists>k s. span_at q k = Some s \<and> h \<in> set (hashes s))"
  by (auto simp: requested_iff span_at_Some)

section \<open>Reservations\<close>

text \<open>The hashes of a list that no span has yet, from the first such on, and the height of that one.\<close>

definition unrequested :: "('e, 'r, 't) block_map \<Rightarrow> key list \<Rightarrow> key list" where
  "unrequested q hs = dropWhile (\<lambda>h. requested h q) hs"

definition unrequested_start :: "('e, 'r, 't) block_map \<Rightarrow> u64 \<Rightarrow> key list \<Rightarrow> u64" where
  "unrequested_start q last_block_height hs =
     last_block_height - word_of_nat (length hs) + 1 + word_of_nat (length (takeWhile (\<lambda>h. requested h q) hs))"

definition reserved_map :: "'r \<Rightarrow> u64 \<Rightarrow> u64 \<Rightarrow> uuid \<Rightarrow> key list \<Rightarrow> 't \<Rightarrow> (u64 \<rightharpoonup> ('e, 'r, 't) span) \<Rightarrow> u64 \<rightharpoonup> ('e, 'r, 't) span" where
  "reserved_map zero_rate start n conn hs t m = (
     case m start of
       None \<Rightarrow> m(start \<mapsto> (scheduled_span zero_rate start n conn t)\<lparr>hashes := hs\<rparr>)
     | Some s \<Rightarrow> if connection_id s = conn then m(start \<mapsto> s\<lparr>hashes := hs\<rparr>) else m)"

lemma scheduled_map:
  assumes "queue_ok q"
  shows "queue_ok (set_span_hashes start conn hs (insert_span (scheduled_span zero_rate start n conn t) q))"
    and "span_at (set_span_hashes start conn hs (insert_span (scheduled_span zero_rate start n conn t) q))
      = reserved_map zero_rate start n conn hs t (span_at q)"
proof -
  let ?s = "scheduled_span zero_rate start n conn t"
  have s: "start_block_height ?s = start" "connection_id ?s = conn" by (simp_all add: scheduled_span_def)
  note i = insert_span_ok [OF assms, of ?s]
  show "queue_ok (set_span_hashes start conn hs (insert_span ?s q))" by (rule set_span_hashes_ok(1) [OF i])
  show "span_at (set_span_hashes start conn hs (insert_span ?s q)) = reserved_map zero_rate start n conn hs t (span_at q)"
    unfolding set_span_hashes_ok(2) [OF i] using span_at_insert [OF assms, of ?s]
    by (cases "span_at q start") (simp_all add: reserved_map_def s)
qed

lemma reserve_span_some:
  assumes "queue_ok q" and "first_block_height \<le> last_block_height" and "max_blocks \<noteq> 0" and "unrequested q bh \<noteq> []"
  obtains q' n where "reserve_span zero_rate first_block_height last_block_height max_blocks conn bh t q
      = Some ((unrequested_start q last_block_height bh, n), q')"
    and "unat n = min (unat max_blocks) (length (unrequested q bh))" and "queue_ok q'"
    and "span_at q' = reserved_map zero_rate (unrequested_start q last_block_height bh) n conn
           (take (unat max_blocks) (unrequested q bh)) t (span_at q)"
proof -
  let ?r = "unrequested q bh" and ?s = "unrequested_start q last_block_height bh"
  define n :: u64 where "n = word_of_nat (length (take (unat max_blocks) ?r))"
  have "length (take (unat max_blocks) ?r) < 2 ^ 64" using unat_u64_lt [of max_blocks] by (simp add: min_less_iff_disj)
  then have n: "unat n = min (unat max_blocks) (length ?r)"
    unfolding n_def by (simp add: unat_of_nat take_bit_nat_eq_self min.commute)
  then have "n \<noteq> 0" using assms(3,4) by (auto simp: unat_eq_0 min_def split: if_splits)
  then have "reserve_span zero_rate first_block_height last_block_height max_blocks conn bh t q
      = Some ((?s, n), set_span_hashes ?s conn (take (unat max_blocks) ?r) (insert_span (scheduled_span zero_rate ?s n conn t) q))"
    using assms(2,3) unfolding reserve_span_def skip_requested_eq unrequested_def [symmetric] unrequested_start_def [symmetric]
    by (auto simp: take_hashes_eq add_blocks_scheduled_def word_neq_0_conv simp flip: n_def [unfolded length_take])
  then show thesis using that [OF _ n scheduled_map [OF assms(1)]] by blast
qed

lemma reserve_span_none:
  "unrequested q bh = [] \<Longrightarrow> reserve_span zero_rate first_block_height last_block_height max_blocks conn bh t q = Some ((0, 0), q)"
  unfolding reserve_span_def skip_requested_eq unrequested_def [symmetric] by (simp add: take_hashes_eq)

text \<open>Every span at its height or replaced, a reservation adds exactly the taken hashes.\<close>

lemma requested_reserved:
  assumes "queue_ok q" and "queue_ok q'" and "span_at q start = None"
    and "span_at q' = reserved_map zero_rate start n conn hs t (span_at q)"
  shows "requested h q' \<longleftrightarrow> requested h q \<or> h \<in> set hs"
  using assms(3,4) unfolding requested_span_at [OF assms(1)] requested_span_at [OF assms(2)]
  by (auto simp: reserved_map_def split: if_splits) (metis option.distinct(1))

text \<open>Requests of several peers for the same list of hashes, one after the other.\<close>

fun reserve_all :: "'r \<Rightarrow> u64 \<Rightarrow> u64 \<Rightarrow> key list \<Rightarrow> (u64 \<times> uuid \<times> 't) list \<Rightarrow> ('e, 'r, 't) block_map
    \<Rightarrow> ('e, 'r, 't) block_map option" where
  "reserve_all zero_rate first_block_height last_block_height bh [] q = Some q"
| "reserve_all zero_rate first_block_height last_block_height bh ((max_blocks, conn, t) # calls) q =
     (case reserve_span zero_rate first_block_height last_block_height max_blocks conn bh t q of
        None \<Rightarrow> None
      | Some (_, q') \<Rightarrow> reserve_all zero_rate first_block_height last_block_height bh calls q')"

definition open_hashes :: "('e, 'r, 't) block_map \<Rightarrow> key list \<Rightarrow> nat set" where
  "open_hashes q bh = {k. k < length bh \<and> \<not> requested (bh ! k) q}"

lemma unrequested_cases:
  assumes "unrequested q bh \<noteq> []"
  obtains k where "k \<in> open_hashes q bh" and "unrequested q bh = drop k bh"
    and "unrequested_start q l bh = l - word_of_nat (length bh) + 1 + word_of_nat k"
proof -
  let ?k = "length (takeWhile (\<lambda>h. requested h q) bh)"
  have d: "unrequested q bh = drop ?k bh" by (simp add: unrequested_def dropWhile_eq_drop)
  then have "?k < length bh" using assms by (metis drop_all not_le)
  moreover have "\<not> requested (bh ! ?k) q" using nth_length_takeWhile calculation by fast
  ultimately show thesis using that [of ?k] d by (simp add: open_hashes_def unrequested_start_def)
qed

lemma open_hashes_empty: "open_hashes q bh = {} \<longleftrightarrow> (\<forall>h \<in> set bh. requested h q)"
  by (auto simp: open_hashes_def in_set_conv_nth) (metis nth_mem)

lemma unrequested_empty: "unrequested q bh = [] \<longleftrightarrow> open_hashes q bh = {}"
  by (simp add: open_hashes_empty unrequested_def)

definition heights_free :: "('e, 'r, 't) block_map \<Rightarrow> u64 \<Rightarrow> key list \<Rightarrow> bool" where
  "heights_free q l bh \<longleftrightarrow>
     (\<forall>k \<in> open_hashes q bh. span_at q (l - word_of_nat (length bh) + 1 + word_of_nat k) = None)"

lemma reserve_progress:
  assumes "queue_ok q" and "first_block_height \<le> l" and "max_blocks \<noteq> 0" and "heights_free q l bh"
    and "open_hashes q bh \<noteq> {}" and "length bh \<le> 2 ^ 64"
  obtains q' r where "reserve_span zero_rate first_block_height l max_blocks conn bh t q = Some (r, q')"
    and "queue_ok q'" and "heights_free q' l bh" and "open_hashes q' bh \<subset> open_hashes q bh"
    and "\<And>h. requested h q \<Longrightarrow> requested h q'"
proof -
  have ne: "unrequested q bh \<noteq> []" using assms(5) by (simp add: unrequested_empty)
  obtain q' n where r: "reserve_span zero_rate first_block_height l max_blocks conn bh t q = Some ((unrequested_start q l bh, n), q')"
    and q': "queue_ok q'" and m: "span_at q' = reserved_map zero_rate (unrequested_start q l bh) n conn
      (take (unat max_blocks) (unrequested q bh)) t (span_at q)"
    using reserve_span_some [OF assms(1-3) ne] by metis
  obtain k where k: "k \<in> open_hashes q bh" "unrequested q bh = drop k bh"
    and st: "unrequested_start q l bh = l - word_of_nat (length bh) + 1 + word_of_nat k"
    using unrequested_cases [OF ne] by metis
  have free: "span_at q (unrequested_start q l bh) = None" using assms(4) k(1) by (simp add: heights_free_def st)
  note req = requested_reserved [OF assms(1) q' free m]
  have "bh ! k \<in> set (take (unat max_blocks) (drop k bh))"
  proof -
    have "k < length bh" using k(1) by (simp add: open_hashes_def)
    then have "drop k bh = bh ! k # drop (Suc k) bh" by (rule Cons_nth_drop_Suc [symmetric])
    moreover have "unat max_blocks \<noteq> 0" using assms(3) by (simp add: unat_eq_0)
    ultimately show ?thesis by (cases "unat max_blocks") simp_all
  qed
  then have gone: "k \<notin> open_hashes q' bh" by (simp add: open_hashes_def req k(2))
  have sub: "open_hashes q' bh \<subseteq> open_hashes q bh" by (auto simp: open_hashes_def req)
  have "heights_free q' l bh"
    unfolding heights_free_def
  proof
    fix j assume j: "j \<in> open_hashes q' bh"
    then have "j \<noteq> k" "j < 2 ^ 64" "k < 2 ^ 64" using gone assms(6) k(1) by (auto simp: open_hashes_def)
    then have "(word_of_nat j :: u64) \<noteq> word_of_nat k" by (simp add: word_unat_eq_iff unat_of_nat take_bit_nat_eq_self)
    then show "span_at q' (l - word_of_nat (length bh) + 1 + word_of_nat j) = None"
      using j sub assms(4) free by (auto simp: heights_free_def m reserved_map_def st)
  qed
  then show thesis using that [OF r q'] sub gone k(1) req by blast
qed

section \<open>Properties\<close>

text \<open>C30: The queue is a map from start heights to spans, and its operations are the map operations:
  \<open>add_blocks\<close> puts the received span at its height and keeps the hashes that were known there,
  \<open>remove_span\<close> deletes and returns the hashes, \<open>set_span_hashes\<close> changes only the span of that
  connection, and the flushing operations restrict the map. The order of the set is kept by
  all of them.\<close>

theorem queue_refines_map:
  assumes "queue_ok q"
  shows "(queue_ok (add_blocks no_time h bcel conn r sz q) \<and> span_at (add_blocks no_time h bcel conn r sz q) =
        (span_at q)(h \<mapsto> (filled_span no_time h bcel conn r sz)\<lparr>hashes := case span_at q h of None \<Rightarrow> [] | Some s \<Rightarrow> hashes s\<rparr>))
    \<and> (case remove_span h q of
         None \<Rightarrow> span_at q h = None
       | Some (hs, q') \<Rightarrow> queue_ok q' \<and> span_at q' = (span_at q)(h := None) \<and> map_option hashes (span_at q h) = Some hs)
    \<and> (queue_ok (set_span_hashes h conn hs q) \<and> span_at (set_span_hashes h conn hs q) =
        (case span_at q h of
           Some s \<Rightarrow> if connection_id s = conn then (span_at q)(h \<mapsto> s\<lparr>hashes := hs\<rparr>) else span_at q
         | None \<Rightarrow> span_at q))
    \<and> (queue_ok (flush_spans conn every q) \<and> (\<forall>k. span_at (flush_spans conn every q) k =
        Option.bind (span_at q k) (\<lambda>s. if connection_id s = conn \<and> (every \<or> entries s = []) then None else Some s)))
    \<and> (queue_ok (remove_spans conn h q) \<and> (\<forall>k. span_at (remove_spans conn h q) k =
        Option.bind (span_at q k) (\<lambda>s. if connection_id s = conn \<and> k \<le> h then None else Some s)))"
proof -
  have "case remove_span h q of
         None \<Rightarrow> span_at q h = None
       | Some (hs, q') \<Rightarrow> queue_ok q' \<and> span_at q' = (span_at q)(h := None) \<and> map_option hashes (span_at q h) = Some hs"
    using remove_span_None [of h q] remove_span_Some [OF assms, of h]
    by (auto split: option.split)
  moreover have "queue_ok (flush_spans conn every q) \<and> (\<forall>k. span_at (flush_spans conn every q) k =
      Option.bind (span_at q k) (\<lambda>s. if connection_id s = conn \<and> (every \<or> entries s = []) then None else Some s))"
    using queue_ok_filter [OF assms] span_at_filter [OF assms] by (auto simp: flush_spans_def split: option.splits)
  moreover have "queue_ok (remove_spans conn h q) \<and> (\<forall>k. span_at (remove_spans conn h q) k =
      Option.bind (span_at q k) (\<lambda>s. if connection_id s = conn \<and> k \<le> h then None else Some s))"
  proof (intro conjI allI)
    show "span_at (remove_spans conn h q) k =
        Option.bind (span_at q k) (\<lambda>s. if connection_id s = conn \<and> k \<le> h then None else Some s)" for k
    proof (cases "span_at q k")
      case (Some s)
      then have "start_block_height s = k" using span_at_Some [OF assms] by simp
      then show ?thesis using span_at_filter [OF assms, of _ k] Some by (simp add: remove_spans_def)
    qed (use span_at_filter [OF assms, of _ k] in \<open>simp add: remove_spans_def\<close>)
  qed (simp add: queue_ok_filter [OF assms] remove_spans_def)
  ultimately show ?thesis using add_blocks_ok [OF assms] set_span_hashes_ok [OF assms] by blast
qed

text \<open>C31: \<open>reserve_span\<close> skips the hashes at the start of the list that some span has already, and
  returns the height of the first one left and the number of hashes from there, at most
  \<open>max_blocks\<close>. When no span starts at that height, the queue gets a span for the connection with
  these hashes. When another connection has a span there, the queue stays as it is although the
  result reports a reservation.\<close>

theorem reserve_span_exact:
  assumes "queue_ok q" and "first_block_height \<le> last_block_height" and "max_blocks \<noteq> 0"
    and "rest = dropWhile (\<lambda>h. requested h q) bh" and "rest \<noteq> []"
    and "start = last_block_height - word_of_nat (length bh) + 1 + word_of_nat (length bh - length rest)"
  shows "\<exists>q' n. reserve_span zero_rate first_block_height last_block_height max_blocks conn bh t q = Some ((start, n), q')
    \<and> unat n = min (unat max_blocks) (length rest) \<and> queue_ok q'
    \<and> span_at q' = (case span_at q start of
         None \<Rightarrow> (span_at q)(start \<mapsto> (scheduled_span zero_rate start n conn t)\<lparr>hashes := take (unat max_blocks) rest\<rparr>)
       | Some s \<Rightarrow> if connection_id s = conn then (span_at q)(start \<mapsto> s\<lparr>hashes := take (unat max_blocks) rest\<rparr>)
                   else span_at q)"
proof -
  have rest: "rest = unrequested q bh" using assms(4) by (simp add: unrequested_def)
  have "length bh - length rest = length (takeWhile (\<lambda>h. requested h q) bh)"
    using length_append [of "takeWhile (\<lambda>h. requested h q) bh" "dropWhile (\<lambda>h. requested h q) bh"] by (simp add: assms(4))
  then have start: "start = unrequested_start q last_block_height bh" using assms(6) by (simp add: unrequested_start_def)
  show ?thesis
    by (rule reserve_span_some [OF assms(1-3) assms(5) [unfolded rest], of zero_rate conn t])
      (unfold rest start reserved_map_def, blast)
qed


text \<open>A queue with the placeholder of the chain up to height 9 and a span of connection 1 at 12.\<close>

definition sample_queue :: "(unit, unit, unit) block_map" where
  "sample_queue =
    [\<lparr>start_block_height = 0, hashes = [], entries = [], connection_id = 0, nblocks = 10, rate = (), size = 0, time = ()\<rparr>,
     \<lparr>start_block_height = 12, hashes = [replicate 32 12], entries = [], connection_id = 1, nblocks = 1, rate = (), size = 0, time = ()\<rparr>]"

lemma sample_queue_ok: "queue_ok sample_queue"
  by (simp add: sample_queue_def)

theorem queue_refines_map_witness:
  "queue_ok (add_blocks () 12 [()] 2 () 7 sample_queue) \<and>
   map_option hashes (span_at (add_blocks () 12 [()] 2 () 7 sample_queue) 12) = Some [replicate 32 12]"
  using queue_refines_map [OF sample_queue_ok, of "()" 12 "[()]" 2 "()" 7] by (simp add: sample_queue_def)

theorem reserve_span_exact_witness:
  "\<exists>q' n. reserve_span () 12 12 5 2 [replicate 32 13] () sample_queue = Some ((12, n), q') \<and> unat n = 1
     \<and> span_at q' = span_at sample_queue"
  using reserve_span_exact [OF sample_queue_ok, of 12 12 5 "[replicate 32 13]" "[replicate 32 13]" 12 "()" 2 "()"]
  by (simp add: sample_queue_def requested_def) blast


end
