(* ===== verification/StringTools.thy ===== *)
theory StringTools
  imports Prelude
begin

text \<open>
  The string helpers of \<open>contrib/epee\<close> that the rest of the program uses on keys and hashes:
  hexadecimal text (\<open>hex.cpp\<close>, \<open>string_tools.h\<close>), trimming and padding. A \<open>std::string\<close> of text is a
  \<open>string\<close>, one of binary data a list of bytes; \<open>None\<close> is the result \<open>false\<close>.

  The parser of hexadecimal text hands every two characters to \<open>strtoul\<close> of the C library, modelled
  here as the standard defines it for base 16: leading white space, a sign and a prefix \<open>0x\<close> are
  accepted, a negative number is negated in \<open>unsigned long\<close>, and an overflow gives the largest one.
\<close>

section \<open>Characters\<close>

definition char_code :: "char \<Rightarrow> nat" where
  "char_code c = of_char c"

definition isspace :: "char \<Rightarrow> bool" where
  "isspace c \<longleftrightarrow> char_code c = 32 \<or> 9 \<le> char_code c \<and> char_code c \<le> 13"

definition xdigit_value :: "char \<Rightarrow> nat option" where
  "xdigit_value c = (
     let n = char_code c in
     if 48 \<le> n \<and> n \<le> 57 then Some (n - 48)
     else if 97 \<le> n \<and> n \<le> 102 then Some (n - 87)
     else if 65 \<le> n \<and> n \<le> 70 then Some (n - 55)
     else None)"

definition isxdigit :: "char \<Rightarrow> bool" where
  "isxdigit c \<longleftrightarrow> xdigit_value c \<noteq> None"

section \<open>\<open>strtoul\<close>\<close>

fun xdigits_value :: "nat \<Rightarrow> string \<Rightarrow> nat" where
  "xdigits_value v [] = v"
| "xdigits_value v (c # cs) = xdigits_value (16 * v + the (xdigit_value c)) cs"

definition skip_sign :: "string \<Rightarrow> string" where
  "skip_sign s = (case s of [] \<Rightarrow> [] | c # cs \<Rightarrow> if c = CHR ''+'' \<or> c = CHR ''-'' then cs else s)"

definition skip_prefix :: "string \<Rightarrow> string" where
  "skip_prefix s = (case s of
     a # b # c # cs \<Rightarrow> if a = CHR ''0'' \<and> (b = CHR ''x'' \<or> b = CHR ''X'') \<and> isxdigit c then c # cs else s
   | _ \<Rightarrow> s)"

text \<open>The value and the number of characters used, for a string without its terminating zero.\<close>

definition strtoul16 :: "string \<Rightarrow> u64 \<times> nat" where
  "strtoul16 s = (
     let s1 = dropWhile isspace s;
         negative = (s1 \<noteq> [] \<and> hd s1 = CHR ''-'');
         s2 = skip_prefix (skip_sign s1);
         digits = takeWhile isxdigit s2;
         v = xdigits_value 0 digits
     in if digits = [] then (0, 0)
        else (if 2 ^ 64 \<le> v then - 1 else if negative then - word_of_nat v else word_of_nat v,
              length s - length (dropWhile isxdigit s2)))"

section \<open>Hexadecimal text\<close>

definition hex_chars :: string where
  "hex_chars = ''0123456789abcdef''"

fun write_hex :: "byte list \<Rightarrow> string" where
  "write_hex [] = []"
| "write_hex (b # bs) = hex_chars ! unat (drop_bit 4 b) # hex_chars ! unat (b AND 0x0F) # write_hex bs"

text \<open>\<open>None\<close> is the exception for a size that cannot be doubled.\<close>

definition to_hex_string :: "byte list \<Rightarrow> string option" where
  "to_hex_string src = (if (2 ^ 64 - 1) div 2 < length src then None else Some (write_hex src))"

definition to_hex_formatted :: "byte list \<Rightarrow> string" where
  "to_hex_formatted src = CHR ''<'' # write_hex src @ ''>''"

definition parse_hex_pair :: "string \<Rightarrow> byte option" where
  "parse_hex_pair s = (
     let (v, used) = strtoul16 (takeWhile (\<lambda>c. c \<noteq> CHR 0x00) s) in
     if v <s 0 \<or> 0xFF <s v \<or> used \<noteq> length s then None else Some (ucast v))"

fun parse_hex_pairs :: "string \<Rightarrow> byte list option" where
  "parse_hex_pairs [] = Some []"
| "parse_hex_pairs [c] = map_option (\<lambda>b. [b]) (parse_hex_pair [c])"
| "parse_hex_pairs (c # d # s) =
     (case parse_hex_pair [c, d] of None \<Rightarrow> None | Some b \<Rightarrow> map_option (Cons b) (parse_hex_pairs s))"

definition parse_hexstr_to_binbuff :: "bool \<Rightarrow> string \<Rightarrow> byte list option" where
  "parse_hexstr_to_binbuff allow_partial_byte s =
     (if \<not> allow_partial_byte \<and> odd (length s) then None else parse_hex_pairs s)"

definition parse_tpod_from_hex_string :: "nat \<Rightarrow> string \<Rightarrow> byte list option" where
  "parse_tpod_from_hex_string sz str_hash = (
     case parse_hexstr_to_binbuff False str_hash of
       None \<Rightarrow> None
     | Some buf \<Rightarrow> if length buf \<noteq> sz then None else Some buf)"

section \<open>Trimming, padding and file names\<close>

fun trim_left :: "string \<Rightarrow> string" where
  "trim_left [] = []"
| "trim_left (c # cs) = (if isspace c then trim_left cs else c # cs)"

definition trim_right :: "string \<Rightarrow> string" where
  "trim_right s = rev (trim_left (rev s))"

definition trim :: "string \<Rightarrow> string" where
  "trim s = trim_right (trim_left s)"

definition pad_string :: "string \<Rightarrow> nat \<Rightarrow> char \<Rightarrow> bool \<Rightarrow> string" where
  "pad_string s n c prepend =
     (if length s < n
      then if prepend then replicate (n - length s) c @ s else s @ replicate (n - length s) c
      else s)"

definition hex_to_pod :: "nat \<Rightarrow> string \<Rightarrow> byte list option" where
  "hex_to_pod sz hex_str = (
     let hex_str_tr = trim hex_str in
     if sz * 2 \<noteq> length hex_str then None
     else case parse_hexstr_to_binbuff False hex_str_tr of
       None \<Rightarrow> None
     | Some bin_buff \<Rightarrow> if length bin_buff \<noteq> sz then None else Some bin_buff)"

definition validate_hex :: "u64 \<Rightarrow> string \<Rightarrow> bool" where
  "validate_hex len str \<longleftrightarrow> \<not> word_of_nat (length str) \<noteq> len \<and> list_all isxdigit str"

text \<open>\<open>rfind\<close> of a dot; \<open>None\<close> is \<open>npos\<close>.\<close>

definition last_dot :: "string \<Rightarrow> nat option" where
  "last_dot str = (case dropWhile (\<lambda>c. c \<noteq> CHR ''.'') (rev str) of [] \<Rightarrow> None | _ # cs \<Rightarrow> Some (length cs))"

definition get_extension :: "string \<Rightarrow> string" where
  "get_extension str = (case last_dot str of None \<Rightarrow> [] | Some pos \<Rightarrow> drop (pos + 1) str)"

definition cut_off_extension :: "string \<Rightarrow> string" where
  "cut_off_extension str = (case last_dot str of None \<Rightarrow> str | Some pos \<Rightarrow> take pos str)"

section \<open>The parser of hexadecimal text\<close>

text \<open>What two characters stand for: two digits, or a white space or a plus sign before a digit, or
  \<open>-0\<close>.\<close>

definition hex_pair_value :: "char \<Rightarrow> char \<Rightarrow> nat option" where
  "hex_pair_value c d = (case xdigit_value d of
     None \<Rightarrow> None
   | Some b \<Rightarrow> (case xdigit_value c of
       Some a \<Rightarrow> Some (16 * a + b)
     | None \<Rightarrow> if isspace c \<or> c = CHR ''+'' \<or> c = CHR ''-'' \<and> b = 0 then Some b else None))"

lemma xdigit_bound: "xdigit_value c = Some a \<Longrightarrow> a < 16"
  by (auto simp: xdigit_value_def Let_def split: if_splits)

lemma xdigit_kinds:
  "xdigit_value c = Some a \<Longrightarrow> \<not> isspace c \<and> c \<noteq> CHR ''+'' \<and> c \<noteq> CHR ''-'' \<and> c \<noteq> CHR 0x00"
  by (auto simp: xdigit_value_def Let_def isspace_def char_code_def split: if_splits)

lemma space_kinds: "isspace c \<Longrightarrow> c \<noteq> CHR ''+'' \<and> c \<noteq> CHR ''-'' \<and> c \<noteq> CHR 0x00"
  by (auto simp: isspace_def char_code_def)

lemma kinds [simp]: "xdigit_value CHR 0x00 = None" "xdigit_value CHR ''+'' = None" "xdigit_value CHR ''-'' = None"
  "\<not> isspace CHR 0x00" "\<not> isspace CHR ''+''" "\<not> isspace CHR ''-''"
  by (simp_all add: xdigit_value_def isspace_def char_code_def)

lemma small_checks:
  assumes "v < 256"
  shows "\<not> (word_of_nat v :: u64) <s 0" and "\<not> 0xFF <s (word_of_nat v :: u64)"
    and "(- word_of_nat v :: u64) <s 0 \<longleftrightarrow> v \<noteq> 0" and "ucast (word_of_nat v :: u64) = (word_of_nat v :: byte)"
proof -
  have s: "sint (word_of_nat v :: u64) = int v"
    using assms by (simp add: signed_take_bit_int_eq_self signed_of_nat)
  have t: "sint (- word_of_nat v :: u64) = - int v"
  proof -
    have "- word_of_nat v = (word_of_int (- int v) :: u64)" by simp
    then show ?thesis using assms by (simp only: signed_of_int) (simp add: signed_take_bit_int_eq_self)
  qed
  show "\<not> (word_of_nat v :: u64) <s 0" "\<not> 0xFF <s (word_of_nat v :: u64)" using s assms by (simp_all add: word_sless_alt)
  show "(- word_of_nat v :: u64) <s 0 \<longleftrightarrow> v \<noteq> 0" using t by (simp add: word_sless_alt)
  show "ucast (word_of_nat v :: u64) = (word_of_nat v :: byte)" by (rule bit_word_eqI) (auto simp: bit_simps)
qed

lemma strtoul16_cases:
  "strtoul16 [] = (0, 0)"
  "strtoul16 [c] = (case xdigit_value c of Some a \<Rightarrow> (word_of_nat a, 1) | None \<Rightarrow> (0, 0))"
  "strtoul16 [c, d] = (case xdigit_value c of
     Some a \<Rightarrow> (case xdigit_value d of Some b \<Rightarrow> (word_of_nat (16 * a + b), 2) | None \<Rightarrow> (word_of_nat a, 1))
   | None \<Rightarrow> (case xdigit_value d of
       Some b \<Rightarrow> if isspace c \<or> c = CHR ''+'' then (word_of_nat b, 2) else if c = CHR ''-'' then (- word_of_nat b, 2) else (0, 0)
     | None \<Rightarrow> (0, 0)))"
proof -
  show "strtoul16 [] = (0, 0)" by (simp add: strtoul16_def skip_sign_def skip_prefix_def)
  show "strtoul16 [c] = (case xdigit_value c of Some a \<Rightarrow> (word_of_nat a, 1) | None \<Rightarrow> (0, 0))"
    using xdigit_bound [of c] xdigit_kinds [of c]
    by (cases "xdigit_value c") (auto simp: strtoul16_def skip_sign_def skip_prefix_def isxdigit_def Let_def)
  show "strtoul16 [c, d] = (case xdigit_value c of
     Some a \<Rightarrow> (case xdigit_value d of Some b \<Rightarrow> (word_of_nat (16 * a + b), 2) | None \<Rightarrow> (word_of_nat a, 1))
   | None \<Rightarrow> (case xdigit_value d of
       Some b \<Rightarrow> if isspace c \<or> c = CHR ''+'' then (word_of_nat b, 2) else if c = CHR ''-'' then (- word_of_nat b, 2) else (0, 0)
     | None \<Rightarrow> (0, 0)))"
    using xdigit_bound [of c] xdigit_kinds [of c] xdigit_bound [of d] xdigit_kinds [of d] space_kinds [of c] space_kinds [of d]
    by (cases "xdigit_value c"; cases "xdigit_value d")
      (auto simp: strtoul16_def skip_sign_def skip_prefix_def isxdigit_def Let_def)
qed

lemma parse_hex_pair_eq: "parse_hex_pair [c, d] = map_option word_of_nat (hex_pair_value c d)"
proof -
  consider "c = CHR 0x00" | "c \<noteq> CHR 0x00" "d = CHR 0x00" | "c \<noteq> CHR 0x00" "d \<noteq> CHR 0x00" by blast
  then show ?thesis
  proof cases
    case 1
    then show ?thesis by (simp add: parse_hex_pair_def strtoul16_cases hex_pair_value_def split: option.split)
  next
    case 2
    then show ?thesis by (auto simp: parse_hex_pair_def strtoul16_cases hex_pair_value_def split: option.splits)
  next
    case 3
    show ?thesis
    proof (cases "xdigit_value d")
      case None
      then show ?thesis using 3 by (simp add: parse_hex_pair_def strtoul16_cases hex_pair_value_def split: option.splits)
    next
      case d: (Some b)
      note b = xdigit_bound [OF d]
      show ?thesis
      proof (cases "xdigit_value c")
        case None
        then show ?thesis using 3 d b small_checks [of b] space_kinds [of c]
          by (auto simp: parse_hex_pair_def strtoul16_cases hex_pair_value_def)
      next
        case (Some a)
        then show ?thesis using 3 d b xdigit_bound [OF Some] small_checks [of "16 * a + b"]
          by (simp add: parse_hex_pair_def strtoul16_cases hex_pair_value_def)
      qed
    qed
  qed
qed

lemma parse_hex_pairs_even:
  "even (length s) \<Longrightarrow> parse_hex_pairs s = Some bs \<longleftrightarrow>
     length s = 2 * length bs \<and> (\<forall>i < length bs. hex_pair_value (s ! (2 * i)) (s ! (2 * i + 1)) = Some (unat (bs ! i)))"
proof (induction s arbitrary: bs rule: parse_hex_pairs.induct)
  case (3 c d s)
  have pair: "parse_hex_pair [c, d] = Some b \<longleftrightarrow> hex_pair_value c d = Some (unat b)" for b
  proof
    assume "parse_hex_pair [c, d] = Some b"
    then obtain n where n: "hex_pair_value c d = Some n" "b = word_of_nat n" by (auto simp: parse_hex_pair_eq)
    have "n < 256"
      using n(1) xdigit_bound [of c] xdigit_bound [of d] by (fastforce simp: hex_pair_value_def split: option.splits if_splits)
    then show "hex_pair_value c d = Some (unat b)" using n by (simp add: unat_of_nat take_bit_nat_eq_self)
  qed (simp add: parse_hex_pair_eq)
  show ?case
  proof (cases bs)
    case Nil
    then show ?thesis by (auto split: option.split)
  next
    case (Cons b bs')
    have split: "(\<forall>i < length bs. hex_pair_value ((c # d # s) ! (2 * i)) ((c # d # s) ! (2 * i + 1)) = Some (unat (bs ! i)))
      \<longleftrightarrow> hex_pair_value c d = Some (unat b) \<and> (\<forall>i < length bs'. hex_pair_value (s ! (2 * i)) (s ! (2 * i + 1)) = Some (unat (bs' ! i)))"
      by (simp add: Cons All_less_Suc2)
    have "parse_hex_pairs (c # d # s) = Some bs \<longleftrightarrow> parse_hex_pair [c, d] = Some b \<and> parse_hex_pairs s = Some bs'"
      by (auto simp: Cons split: option.split)
    moreover have "parse_hex_pair [c, d] = Some b \<Longrightarrow> parse_hex_pairs s = Some bs' \<longleftrightarrow> length s = 2 * length bs' \<and>
        (\<forall>i < length bs'. hex_pair_value (s ! (2 * i)) (s ! (2 * i + 1)) = Some (unat (bs' ! i)))"
      using 3(1) [of b bs'] 3(2) by simp
    ultimately show ?thesis unfolding split pair by (auto simp: Cons)
  qed
qed auto

lemma hex_chars_values: "list_all (\<lambda>i. xdigit_value (hex_chars ! i) = Some i) [0..<16]"
  by code_simp

lemma xdigit_hex_chars: "i < 16 \<Longrightarrow> xdigit_value (hex_chars ! i) = Some i"
  using hex_chars_values by (simp add: list_all_iff)

lemma parse_write_hex: "parse_hex_pairs (write_hex bs) = Some bs"
proof (induction bs)
  case (Cons b bs)
  have hi: "unat (drop_bit 4 b) = unat b div 16" unfolding unat_drop_bit_eq by (simp add: drop_bit_eq_div)
  have lo: "unat (b AND 0x0F) = unat b mod 16"
  proof -
    have "b AND 0x0F = take_bit 4 b" by (simp add: take_bit_eq_mask mask_eq_exp_minus_1)
    then show ?thesis by (simp only: unsigned_take_bit_eq) (simp add: take_bit_eq_mod)
  qed
  have "unat b div 16 < 16" using less_mult_imp_div_less [of "unat b" 16 16] unat_byte_lt [of b] by simp
  then have "hex_pair_value (hex_chars ! unat (drop_bit 4 b)) (hex_chars ! unat (b AND 0x0F)) = Some (unat b)"
    by (simp add: hi lo hex_pair_value_def xdigit_hex_chars)
  then show ?case using Cons by (simp add: parse_hex_pair_eq)
qed simp

lemma length_write_hex: "length (write_hex bs) = 2 * length bs"
  by (induction bs) simp_all



end
