(* ===== verification/Checkpoints.thy ===== *)
theory Checkpoints
  imports StringTools Config
begin

text \<open>
  The checkpoints of \<open>src/checkpoints/checkpoints.cpp\<close>: block hashes that are fixed in the program or
  loaded from a file. \<open>m_points\<close>, a \<open>std::map\<close>, is the list of its entries in the order of their
  heights. The JSON file is an argument: whether it exists and what its parser returns. \<open>None\<close> is
  reading through the end iterator of an empty map; the result \<open>false\<close> comes with the map as it is
  at that point. \<open>load_checkpoints_from_dns\<close> returns \<open>true\<close> in its first line.
\<close>

type_synonym checkpoint_map = "(u64 \<times> byte list) list"

section \<open>Operations\<close>

text \<open>\<open>m_points[height] = h\<close>\<close>

fun put_point :: "u64 \<Rightarrow> byte list \<Rightarrow> checkpoint_map \<Rightarrow> checkpoint_map" where
  "put_point height h [] = [(height, h)]"
| "put_point height h ((k, x) # m) =
     (if height < k then (height, h) # (k, x) # m
      else if k < height then (k, x) # put_point height h m
      else (k, h) # m)"

definition add_checkpoint :: "u64 \<Rightarrow> string \<Rightarrow> checkpoint_map \<Rightarrow> bool \<times> checkpoint_map" where
  "add_checkpoint height hash_str m = (
     case parse_tpod_from_hex_string 32 hash_str of
       None \<Rightarrow> (False, m)
     | Some h \<Rightarrow>
         (case map_of m height of
            Some x \<Rightarrow> if h \<noteq> x then (False, m) else (True, put_point height h m)
          | None \<Rightarrow> (True, put_point height h m)))"

definition is_in_checkpoint_zone :: "checkpoint_map \<Rightarrow> u64 \<Rightarrow> bool" where
  "is_in_checkpoint_zone m height \<longleftrightarrow> m \<noteq> [] \<and> height \<le> fst (last m)"

text \<open>The result and \<open>is_a_checkpoint\<close>.\<close>

definition check_block :: "checkpoint_map \<Rightarrow> u64 \<Rightarrow> byte list \<Rightarrow> bool \<times> bool" where
  "check_block m height h = (
     case map_of m height of
       None \<Rightarrow> (True, False)
     | Some x \<Rightarrow> (x = h, True))"

text \<open>The entries before \<open>upper_bound(height)\<close>.\<close>

definition before_upper_bound :: "u64 \<Rightarrow> checkpoint_map \<Rightarrow> checkpoint_map" where
  "before_upper_bound height m = takeWhile (\<lambda>p. \<not> height < fst p) m"

definition is_alternative_block_allowed :: "checkpoint_map \<Rightarrow> u64 \<Rightarrow> u64 \<Rightarrow> bool" where
  "is_alternative_block_allowed m blockchain_height block_height = (
     if block_height = 0 then False
     else
       let before = before_upper_bound blockchain_height m in
       if before = [] then True
       else fst (last before) < block_height)"

fun max_element :: "u64 \<Rightarrow> checkpoint_map \<Rightarrow> u64" where
  "max_element largest [] = largest"
| "max_element largest (p # m) = max_element (if largest < fst p then fst p else largest) m"

definition get_max_height :: "checkpoint_map \<Rightarrow> u64 option" where
  "get_max_height m = (case m of [] \<Rightarrow> None | p # m' \<Rightarrow> Some (max_element (fst p) m'))"

fun check_for_conflicts :: "checkpoint_map \<Rightarrow> checkpoint_map \<Rightarrow> bool" where
  "check_for_conflicts m [] = True"
| "check_for_conflicts m ((k, h) # others) =
     (case map_of m k of
        Some x \<Rightarrow> if h \<noteq> x then False else check_for_conflicts m others
      | None \<Rightarrow> check_for_conflicts m others)"

text \<open>A sequence of \<open>ADD_CHECKPOINT\<close>, which returns \<open>false\<close> at the first failure.\<close>

fun add_checkpoints :: "(u64 \<times> string) list \<Rightarrow> checkpoint_map \<Rightarrow> bool \<times> checkpoint_map" where
  "add_checkpoints [] m = (True, m)"
| "add_checkpoints ((height, hash_str) # ps) m =
     (let (ok, m') = add_checkpoint height hash_str m in if ok then add_checkpoints ps m' else (False, m'))"

definition testnet_checkpoints :: "(u64 \<times> string) list" where
  "testnet_checkpoints =
    [(1,      ''770309bd74bcebf90eb6f1197ad51601f917314088c5b1343316a4f581c51193''),
     (10,     ''d5f139ed1cdc14ff2dda722de9ee2236f4030d18670e4ef6b41ab74e57a0a816''),
     (50000,  ''3d251e3802cc5f6721babf8762bc13fdbc57df694c59759f3baba8d28b7d97c0''),
     (122670, ''6ba1f78526997681363b2800c942fc56d3a92ac462e3393ba27d0c5611614193''),
     (129749, ''8393ff500fd806fd2364416076b7231af623d614dc080bfd1c7d59102c14c25a'')]"

definition mainnet_checkpoints :: "(u64 \<times> string) list" where
  "mainnet_checkpoints =
    [(1,      ''82e8f378ea29d152146b6317903249751b809e97c0b6655f86e120b9de95c38a''),
     (10,     ''e097b62bba41e5fd583d3a68de074cddd77c85a6158b031d963232146494a2d6''),
     (100,    ''f3bd44c626cc12d449183ca84b58615d792523ba229385ff6717ab29a3e88926''),
     (1000,   ''d284c992cb570f86c2e0bcfaa552b1d73bd40417e1c2a40f82bc6432217f0873''),
     (3000,   ''81e040955b710dc5a5056668c4eaf3fbc4da2f72c0a63763250ede32a92e0f06''),
     (5000,   ''e838c077bc66356d9bb321d4eb60f0851ef766f0619ddc4c6568a0f149aacea0''),
     (10000,  ''360b96c3d0a5202c548672d550700d982ca15ad5627f70bce0a89dda840b3611''),
     (20000,  ''603a45b60dd92ef4524c80d58411d09480b4668c54bc08dd651d838832bd399e''),
     (21300,  ''d0a76e98ebb4d8e928d931a1807bba11a2fafdf544c119761b0ed6de4e1898cf''),
     (50000,  ''ae36641cf06ed788375bfb32f0038cbcd98f1d7bfb09937148fb1a57c6b52dd8''),
     (75000,  ''b26f4e1225569da282b77659020bace52e5e89abbdee33e9e52266b1e71803a5''),
     (100000, ''ffe474fe8353f90700c8138ddea3547d5c1e4a6facb1df85897e7a6e4daab540''),
     (116520, ''da1cb8f30305cd5fad7d6c33b3ed88fede053e0926102d8e544b65e93e33a08b''),
     (137500, ''86a5ccbf6ef872e074a63440b980f0543b3177745bf2c6fd268f93164a277e8b''),
     (137512, ''008f4867478e8060352610b145055ad81b655a0f082f350505def8267275a1bd''),
     (150000, ''debc58ac64fc8dc7ae35b0b8782ae33a0fe5855dc85930bc52b8fec3c1aee94a''),
     (161500, ''bd612bd580e3add2c41a2a3222bca09ff1d16755405c0d11e4c00dec637e574d'')]"

definition init_default_checkpoints :: "network_type \<Rightarrow> checkpoint_map \<Rightarrow> bool \<times> checkpoint_map" where
  "init_default_checkpoints nettype m =
     (if nettype = TESTNET then add_checkpoints testnet_checkpoints m
      else if nettype = STAGENET then (True, m)
      else add_checkpoints mainnet_checkpoints m)"

text \<open>\<open>file\<close> is \<open>None\<close> when the file does not exist and \<open>Some None\<close> when it cannot be parsed.\<close>

definition load_checkpoints_from_json :: "(u64 \<times> string) list option option \<Rightarrow> checkpoint_map
    \<Rightarrow> (bool \<times> checkpoint_map) option" where
  "load_checkpoints_from_json file m = (
     case file of
       None \<Rightarrow> Some (True, m)
     | Some json \<Rightarrow>
         (case get_max_height m of
            None \<Rightarrow> None
          | Some prev_max_height \<Rightarrow>
              (case json of
                 None \<Rightarrow> Some (False, m)
               | Some hashlines \<Rightarrow>
                   Some (add_checkpoints (filter (\<lambda>(height, hash). \<not> height \<le> prev_max_height) hashlines) m))))"

definition load_checkpoints_from_dns :: "network_type \<Rightarrow> checkpoint_map \<Rightarrow> bool \<times> checkpoint_map" where
  "load_checkpoints_from_dns nettype m = (True, m)"

definition load_new_checkpoints :: "(u64 \<times> string) list option option \<Rightarrow> network_type \<Rightarrow> bool \<Rightarrow> checkpoint_map
    \<Rightarrow> (bool \<times> checkpoint_map) option" where
  "load_new_checkpoints file nettype dns m = (
     case load_checkpoints_from_json file m of
       None \<Rightarrow> None
     | Some (result, m') \<Rightarrow>
         if dns then let (r, m'') = load_checkpoints_from_dns nettype m' in Some (result \<and> r, m'')
         else Some (result, m'))"

section \<open>The map of checkpoints\<close>

definition points_ok :: "checkpoint_map \<Rightarrow> bool" where
  "points_ok m \<longleftrightarrow> sorted_wrt (<) (map fst m)"

lemma points_ok_simps [simp]:
  "points_ok []" "points_ok (p # m) \<longleftrightarrow> (\<forall>q \<in> set m. fst p < fst q) \<and> points_ok m"
  by (auto simp: points_ok_def)

lemma put_point_keys: "fst ` set (put_point k h m) = insert k (fst ` set m)"
  by (induction k h m rule: put_point.induct) auto

lemma put_point_ok: "points_ok m \<Longrightarrow> points_ok (put_point k h m)"
proof (induction k h m rule: put_point.induct)
  case (2 k h k' x m)
  have "k' < fst q" if "k' < k" "q \<in> set (put_point k h m)" for q
  proof -
    have "fst q \<in> insert k (fst ` set m)" using that(2) put_point_keys [of k h m] by blast
    then show ?thesis using that(1) 2(2) by auto
  qed
  then show ?case using 2 by (cases k k' rule: linorder_cases) auto
qed simp

lemma map_of_put_point: "points_ok m \<Longrightarrow> map_of (put_point k h m) = (map_of m)(k \<mapsto> h)"
  by (induction k h m rule: put_point.induct) (auto simp: fun_upd_twist)

lemma add_checkpoint_ok:
  assumes "points_ok m" and "add_checkpoint k s m = (r, m')"
  shows "points_ok m'" and "map_of m \<subseteq>\<^sub>m map_of m'"
    and "r \<longleftrightarrow> (\<exists>h. parse_tpod_from_hex_string 32 s = Some h \<and> map_of m k \<in> {None, Some h} \<and> map_of m' = (map_of m)(k \<mapsto> h))"
  using assms put_point_ok [OF assms(1)] map_of_put_point [OF assms(1)]
  by (auto simp: add_checkpoint_def map_le_def split: option.splits if_splits)

lemma add_checkpoints_ok:
  "points_ok m \<Longrightarrow> add_checkpoints ps m = (r, m') \<Longrightarrow> points_ok m' \<and> map_of m \<subseteq>\<^sub>m map_of m'"
proof (induction ps m rule: add_checkpoints.induct)
  case (2 k s ps m)
  obtain ok m1 where a: "add_checkpoint k s m = (ok, m1)" by (cases "add_checkpoint k s m")
  note a1 = add_checkpoint_ok(1,2) [OF 2(2) a]
  show ?case using 2(1) [OF a [symmetric] refl] 2(3) a a1 by (cases ok) (auto intro: map_le_trans)
qed simp

lemma load_new_checkpoints_ok:
  "points_ok m \<Longrightarrow> load_new_checkpoints file net dns m = Some (r, m') \<Longrightarrow> points_ok m' \<and> map_of m \<subseteq>\<^sub>m map_of m'"
  using add_checkpoints_ok [of m]
  by (auto simp: load_new_checkpoints_def load_checkpoints_from_json_def load_checkpoints_from_dns_def split: option.splits prod.splits if_splits)

lemma before_upper_bound_eq: "points_ok m \<Longrightarrow> before_upper_bound h m = filter (\<lambda>p. fst p \<le> h) m"
proof (induction m)
  case (Cons p m)
  show ?case
  proof (cases "h < fst p")
    case True
    then have "filter (\<lambda>p. fst p \<le> h) m = []" using Cons(2) by (fastforce simp: filter_empty_conv)
    then show ?thesis using True by (simp add: before_upper_bound_def)
  qed (use Cons in \<open>simp add: before_upper_bound_def not_less\<close>)
qed (simp add: before_upper_bound_def)

lemma points_ok_filter: "points_ok m \<Longrightarrow> points_ok (filter P m)"
  by (induction m) auto

lemma last_is_largest: "points_ok m \<Longrightarrow> p \<in> set m \<Longrightarrow> fst p \<le> fst (last m)"
proof (induction m)
  case (Cons a m)
  show ?case
  proof (cases "m = []")
    case False
    then have "fst a < fst (last m)" using Cons(2) last_in_set [of m] by simp
    then show ?thesis using Cons False by (cases "p = a") (auto intro: less_imp_le)
  qed (use Cons in simp)
qed simp

lemma alternative_allowed_iff:
  assumes "points_ok m"
  shows "is_alternative_block_allowed m H b \<longleftrightarrow> b \<noteq> 0 \<and> (\<forall>k. k \<in> dom (map_of m) \<longrightarrow> k \<le> H \<longrightarrow> k < b)"
proof (cases "filter (\<lambda>p. fst p \<le> H) m = []")
  case True
  then show ?thesis
    by (auto simp: is_alternative_block_allowed_def before_upper_bound_eq [OF assms] filter_empty_conv dom_map_of_conv_image_fst)
next
  case False
  define l where "l = last (filter (\<lambda>p. fst p \<le> H) m)"
  have "l \<in> set (filter (\<lambda>p. fst p \<le> H) m)" unfolding l_def by (rule last_in_set [OF False])
  then have l: "l \<in> set m" "fst l \<le> H" by simp_all
  have "fst p \<le> fst l" if "p \<in> set m" "fst p \<le> H" for p
    unfolding l_def using that by (intro last_is_largest points_ok_filter assms) simp
  then have "fst l < b \<longleftrightarrow> (\<forall>p \<in> set m. fst p \<le> H \<longrightarrow> fst p < b)" using l by (meson order.strict_trans1)
  then show ?thesis using False
    by (auto simp: is_alternative_block_allowed_def before_upper_bound_eq [OF assms] dom_map_of_conv_image_fst simp flip: l_def)
qed

text \<open>A string of hexadecimal digits is always parsed.\<close>

lemma parse_hex_digits: "even (length s) \<Longrightarrow> list_all isxdigit s \<Longrightarrow> \<exists>bs. parse_hex_pairs s = Some bs \<and> 2 * length bs = length s"
  by (induction s rule: parse_hex_pairs.induct)
    (auto simp: parse_hex_pair_eq hex_pair_value_def isxdigit_def)

definition valid_hash :: "string \<Rightarrow> bool" where
  "valid_hash s \<longleftrightarrow> length s = 64 \<and> list_all isxdigit s"

lemma valid_hash_parses: "valid_hash s \<Longrightarrow> \<exists>h. parse_tpod_from_hex_string 32 s = Some h"
  using parse_hex_digits [of s] by (auto simp: valid_hash_def parse_tpod_from_hex_string_def parse_hexstr_to_binbuff_def)

lemma add_checkpoints_fresh:
  assumes "points_ok m" and "list_all (\<lambda>p. valid_hash (snd p)) ps" and "distinct (map fst ps)"
    and "fst ` set ps \<inter> dom (map_of m) = {}"
  shows "\<exists>m'. add_checkpoints ps m = (True, m') \<and> dom (map_of m') = dom (map_of m) \<union> fst ` set ps
    \<and> (\<forall>(k, s) \<in> set ps. map_of m' k = parse_tpod_from_hex_string 32 s)"
  using assms
proof (induction ps arbitrary: m)
  case (Cons p ps)
  obtain k s where p: "p = (k, s)" by (cases p)
  obtain h where h: "parse_tpod_from_hex_string 32 s = Some h" using valid_hash_parses [of s] Cons(3) by (auto simp: p)
  have "map_of m k = None" using Cons(5) by (auto simp: p)
  then have a: "add_checkpoint k s m = (True, put_point k h m)" by (simp add: add_checkpoint_def h)
  note m1 = put_point_ok [OF Cons(2), of k h] map_of_put_point [OF Cons(2), of k h]
  have "fst ` set ps \<inter> dom (map_of (put_point k h m)) = {}" using Cons(4,5) m1(2) by (auto simp: p)
  then obtain m' where m': "add_checkpoints ps (put_point k h m) = (True, m')"
    "dom (map_of m') = dom (map_of (put_point k h m)) \<union> fst ` set ps"
    "\<forall>(k, s) \<in> set ps. map_of m' k = parse_tpod_from_hex_string 32 s"
    using Cons(1) [OF m1(1)] Cons(3,4) by auto
  have "map_of (put_point k h m) \<subseteq>\<^sub>m map_of m'" using add_checkpoints_ok [OF m1(1) m'(1)] by simp
  then have "map_of m' k = Some h" using m1(2) by (auto simp: map_le_def)
  then show ?case using m' a m1(2) by (auto simp: p h)
qed simp

lemma isxdigit_chars:
  "isxdigit CHR ''0''" "isxdigit CHR ''1''" "isxdigit CHR ''2''" "isxdigit CHR ''3''" "isxdigit CHR ''4''" "isxdigit CHR ''5''" "isxdigit CHR ''6''" "isxdigit CHR ''7''"
  "isxdigit CHR ''8''" "isxdigit CHR ''9''" "isxdigit CHR ''a''" "isxdigit CHR ''b''" "isxdigit CHR ''c''" "isxdigit CHR ''d''" "isxdigit CHR ''e''" "isxdigit CHR ''f''"
  by (simp_all add: isxdigit_def xdigit_value_def char_code_def)

lemma default_hashes_valid:
  "list_all (\<lambda>p. valid_hash (snd p)) testnet_checkpoints" "list_all (\<lambda>p. valid_hash (snd p)) mainnet_checkpoints"
  unfolding testnet_checkpoints_def mainnet_checkpoints_def valid_hash_def
  by (simp_all only: list.pred_inject isxdigit_chars snd_conv simp_thms list.size)

section \<open>Properties\<close>

text \<open>C34: Loading checkpoints never changes or drops one that is there, and an alternative block is
  allowed exactly when it is not the first block and lies above every checkpoint that the chain has
  passed; so a block at or below a passed checkpoint stays final however many checkpoints are
  loaded.\<close>

theorem checkpoint_safety:
  assumes "points_ok m" and "load_new_checkpoints file nettype dns m = Some (r, m')"
  shows "points_ok m' \<and> map_of m \<subseteq>\<^sub>m map_of m'
    \<and> (is_alternative_block_allowed m' blockchain_height block_height \<longleftrightarrow>
         block_height \<noteq> 0 \<and> (\<forall>k \<in> dom (map_of m'). k \<le> blockchain_height \<longrightarrow> k < block_height))
    \<and> (is_alternative_block_allowed m' blockchain_height block_height \<longrightarrow>
         is_alternative_block_allowed m blockchain_height block_height)"
proof -
  have m': "points_ok m'" "map_of m \<subseteq>\<^sub>m map_of m'" using load_new_checkpoints_ok [OF assms] by simp_all
  have "dom (map_of m) \<subseteq> dom (map_of m')" by (rule map_le_implies_dom_le [OF m'(2)])
  then show ?thesis using m' by (auto simp: alternative_allowed_iff assms(1))
qed

text \<open>C35: The built-in checkpoints of every network are parsed and added without a conflict, and each is
  in force afterwards. The staging network has none; there a checkpoint file, if it exists, makes the
  loader read through the end iterator of the empty map.\<close>

theorem default_checkpoints_loaded:
  "(\<exists>m. init_default_checkpoints TESTNET [] = (True, m) \<and> dom (map_of m) = fst ` set testnet_checkpoints)
    \<and> (\<exists>m. init_default_checkpoints MAINNET [] = (True, m) \<and> dom (map_of m) = fst ` set mainnet_checkpoints
         \<and> check_block m 161500 h = (Some h = parse_tpod_from_hex_string 32 (snd (last mainnet_checkpoints)), True))
    \<and> load_new_checkpoints (Some json) STAGENET dns (snd (init_default_checkpoints STAGENET [])) = None"
proof -
  have t: "distinct (map fst testnet_checkpoints)" and d: "distinct (map fst mainnet_checkpoints)"
    by (simp_all add: testnet_checkpoints_def mainnet_checkpoints_def)
  obtain m where m: "add_checkpoints mainnet_checkpoints [] = (True, m)" "dom (map_of m) = fst ` set mainnet_checkpoints"
    "\<forall>(k, s) \<in> set mainnet_checkpoints. map_of m k = parse_tpod_from_hex_string 32 s"
    using add_checkpoints_fresh [OF points_ok_simps(1) default_hashes_valid(2) d] by auto
  define s where "s = snd (last mainnet_checkpoints)"
  have ne: "mainnet_checkpoints \<noteq> []" and l: "fst (last mainnet_checkpoints) = 161500"
    by (simp_all add: mainnet_checkpoints_def)
  have in_m: "(161500, s) \<in> set mainnet_checkpoints" using last_in_set [OF ne] l by (simp add: s_def flip: l)
  then have s: "map_of m 161500 = parse_tpod_from_hex_string 32 s" using m(3) by blast
  have "161500 \<in> dom (map_of m)" unfolding m(2) using image_eqI [OF _ in_m, of _ fst] by simp
  then have "check_block m 161500 h = (Some h = parse_tpod_from_hex_string 32 s, True)"
    unfolding s [symmetric] by (auto simp: check_block_def)
  moreover obtain m2 where "add_checkpoints testnet_checkpoints [] = (True, m2)" "dom (map_of m2) = fst ` set testnet_checkpoints"
    using add_checkpoints_fresh [OF points_ok_simps(1) default_hashes_valid(1) t] by auto
  ultimately show ?thesis using m unfolding s_def
    by (simp add: init_default_checkpoints_def load_new_checkpoints_def load_checkpoints_from_json_def get_max_height_def)
qed

theorem checkpoint_safety_witness:
  "\<exists>m'. load_new_checkpoints (Some (Some [(5, write_hex (replicate 32 7))])) MAINNET True [(3, replicate 32 1)] = Some (True, m')
     \<and> \<not> is_alternative_block_allowed m' 6 5 \<and> map_of m' 3 = Some (replicate 32 1)"
proof -
  have p: "parse_tpod_from_hex_string 32 (write_hex (replicate 32 7)) = Some (replicate 32 7)"
    by (simp add: parse_tpod_from_hex_string_def parse_hexstr_to_binbuff_def parse_write_hex length_write_hex)
  have l: "load_new_checkpoints (Some (Some [(5, write_hex (replicate 32 7))])) MAINNET True [(3, replicate 32 1)]
      = Some (True, [(3, replicate 32 1), (5, replicate 32 7)])"
    by (simp add: load_new_checkpoints_def load_checkpoints_from_json_def load_checkpoints_from_dns_def get_max_height_def
      add_checkpoint_def p)
  show ?thesis using checkpoint_safety [OF _ l, of 6 5] l by simp
qed

end
