(* ===== verification/Mnemonics.thy ===== *)
theory Mnemonics
  imports StringTools "HOL-Library.Multiset"
begin

text \<open>
  Mnemonic seeds: \<open>src/mnemonics/electrum-words.cpp\<close> and the base class of the languages in
  \<open>src/mnemonics/language_base.h\<close>. Three words of a list of 1626 stand for 32 bits. A seed of 14 words
  holds 16 bytes, an extra byte and a checksum of 12 bits; a seed of 25 words holds 32 bytes, and its
  last word repeats the word that a CRC-32 of the others selects.

  A word is a \<open>string\<close> of the bytes of its UTF-8 form. The hash maps of a language are partial
  functions. \<open>boost::trim\<close>, \<open>boost::split\<close>, \<open>boost::crc_32_type\<close>, \<open>boost::locale::to_title\<close> and
  \<open>std::sort\<close>, whose order of equal elements is not specified, are arguments. So is the list of languages,
  which \<open>Languages\<close> defines. \<open>None\<close> is the result \<open>false\<close>; \<open>words\<close>, which the code appends to, starts empty.

  The lemmas show that three words and 32 bits determine each other, that the table of the checksum is
  the division by its polynomial, and that the decoders read what the encoders write, for any language
  whose constructor returned.
\<close>

section \<open>Languages\<close>

definition utf8_continuation :: "char \<Rightarrow> bool" where
  "utf8_continuation c \<longleftrightarrow> (of_char c :: byte) AND 0xc0 = 0x80"

text \<open>The first \<open>n\<close> characters; the string ends at its first zero byte.\<close>

function utf8prefix :: "string \<Rightarrow> nat \<Rightarrow> string" where
  "utf8prefix s 0 = []"
| "utf8prefix [] (Suc n) = []"
| "utf8prefix (c # cs) (Suc n) =
     (if c = CHR 0x00 then []
      else c # takeWhile utf8_continuation cs @ utf8prefix (dropWhile utf8_continuation cs) n)"
  by pat_completeness auto
termination by (relation "measure snd") auto

record Language =
  word_list :: "string list"
  word_map :: "string \<rightharpoonup> u32"
  trimmed_word_map :: "string \<rightharpoonup> u32"
  language_name :: string
  english_language_name :: string
  unique_prefix_length :: u32

definition Language_Base :: "string \<Rightarrow> string \<Rightarrow> string list \<Rightarrow> u32 \<Rightarrow> Language" where
  "Language_Base name english_name words prefix_length =
     \<lparr>word_list = words, word_map = Map.empty, trimmed_word_map = Map.empty, language_name = name,
      english_language_name = english_name, unique_prefix_length = prefix_length\<rparr>"

definition trimmed_word :: "string \<Rightarrow> u32 \<Rightarrow> string" where
  "trimmed_word w prefix_length =
     (if length w > unat prefix_length then utf8prefix w (unat prefix_length) else w)"

text \<open>The loop over the list; \<open>None\<close> is an exception. The flags are those of \<open>populate_maps\<close>.\<close>

fun populate_from :: "bool \<Rightarrow> bool \<Rightarrow> u32 \<Rightarrow> string list \<Rightarrow> Language \<Rightarrow> Language option" where
  "populate_from allow_short allow_duplicate ii [] lang = Some lang"
| "populate_from allow_short allow_duplicate ii (w # ws) lang = (
     let lang = lang\<lparr>word_map := (word_map lang)(w \<mapsto> ii)\<rparr>;
         trimmed = trimmed_word w (unique_prefix_length lang)
     in if length w < unat (unique_prefix_length lang) \<and> \<not> allow_short then None
        else if trimmed_word_map lang trimmed \<noteq> None \<and> \<not> allow_duplicate then None
        else populate_from allow_short allow_duplicate (ii + 1) ws
               (lang\<lparr>trimmed_word_map := (trimmed_word_map lang)(trimmed \<mapsto> ii)\<rparr>))"

definition populate_maps :: "bool \<Rightarrow> bool \<Rightarrow> Language \<Rightarrow> Language option" where
  "populate_maps allow_short allow_duplicate lang =
     (if length (word_list lang) \<noteq> 1626 then None
      else populate_from allow_short allow_duplicate 0 (word_list lang) lang)"

section \<open>The checksum of 12 bits\<close>

definition crc12_table :: "u16 list" where
  "crc12_table =
    [0x000, 0x987, 0xa89, 0x30e, 0xc95, 0x512, 0x61c, 0xf9b, 0x0ad, 0x92a, 0xa24, 0x3a3, 0xc38, 0x5bf, 0x6b1, 0xf36,
     0x15a, 0x8dd, 0xbd3, 0x254, 0xdcf, 0x448, 0x746, 0xec1, 0x1f7, 0x870, 0xb7e, 0x2f9, 0xd62, 0x4e5, 0x7eb, 0xe6c,
     0x2b4, 0xb33, 0x83d, 0x1ba, 0xe21, 0x7a6, 0x4a8, 0xd2f, 0x219, 0xb9e, 0x890, 0x117, 0xe8c, 0x70b, 0x405, 0xd82,
     0x3ee, 0xa69, 0x967, 0x0e0, 0xf7b, 0x6fc, 0x5f2, 0xc75, 0x343, 0xac4, 0x9ca, 0x04d, 0xfd6, 0x651, 0x55f, 0xcd8,
     0x568, 0xcef, 0xfe1, 0x666, 0x9fd, 0x07a, 0x374, 0xaf3, 0x5c5, 0xc42, 0xf4c, 0x6cb, 0x950, 0x0d7, 0x3d9, 0xa5e,
     0x432, 0xdb5, 0xebb, 0x73c, 0x8a7, 0x120, 0x22e, 0xba9, 0x49f, 0xd18, 0xe16, 0x791, 0x80a, 0x18d, 0x283, 0xb04,
     0x7dc, 0xe5b, 0xd55, 0x4d2, 0xb49, 0x2ce, 0x1c0, 0x847, 0x771, 0xef6, 0xdf8, 0x47f, 0xbe4, 0x263, 0x16d, 0x8ea,
     0x686, 0xf01, 0xc0f, 0x588, 0xa13, 0x394, 0x09a, 0x91d, 0x62b, 0xfac, 0xca2, 0x525, 0xabe, 0x339, 0x037, 0x9b0,
     0xad0, 0x357, 0x059, 0x9de, 0x645, 0xfc2, 0xccc, 0x54b, 0xa7d, 0x3fa, 0x0f4, 0x973, 0x6e8, 0xf6f, 0xc61, 0x5e6,
     0xb8a, 0x20d, 0x103, 0x884, 0x71f, 0xe98, 0xd96, 0x411, 0xb27, 0x2a0, 0x1ae, 0x829, 0x7b2, 0xe35, 0xd3b, 0x4bc,
     0x864, 0x1e3, 0x2ed, 0xb6a, 0x4f1, 0xd76, 0xe78, 0x7ff, 0x8c9, 0x14e, 0x240, 0xbc7, 0x45c, 0xddb, 0xed5, 0x752,
     0x93e, 0x0b9, 0x3b7, 0xa30, 0x5ab, 0xc2c, 0xf22, 0x6a5, 0x993, 0x014, 0x31a, 0xa9d, 0x506, 0xc81, 0xf8f, 0x608,
     0xfb8, 0x63f, 0x531, 0xcb6, 0x32d, 0xaaa, 0x9a4, 0x023, 0xf15, 0x692, 0x59c, 0xc1b, 0x380, 0xa07, 0x909, 0x08e,
     0xee2, 0x765, 0x46b, 0xdec, 0x277, 0xbf0, 0x8fe, 0x179, 0xe4f, 0x7c8, 0x4c6, 0xd41, 0x2da, 0xb5d, 0x853, 0x1d4,
     0xd0c, 0x48b, 0x785, 0xe02, 0x199, 0x81e, 0xb10, 0x297, 0xda1, 0x426, 0x728, 0xeaf, 0x134, 0x8b3, 0xbbd, 0x23a,
     0xc56, 0x5d1, 0x6df, 0xf58, 0x0c3, 0x944, 0xa4a, 0x3cd, 0xcfb, 0x57c, 0x672, 0xff5, 0x06e, 0x9e9, 0xae7, 0x360]"

definition update_crc12 :: "u32 \<Rightarrow> byte \<Rightarrow> u32" where
  "update_crc12 crcv data = (
     let idx = ucast (drop_bit 4 crcv XOR ucast data) :: byte in
     ucast (crc12_table ! unat idx) XOR push_bit 8 crcv)"

definition calc_crc12 :: "byte list \<Rightarrow> byte \<Rightarrow> u32" where
  "calc_crc12 key extra = update_crc12 (fold (\<lambda>d crcv. update_crc12 crcv d) (take 16 key) 0) extra AND 0xfff"

section \<open>Finding the language\<close>

definition language_score :: "string list \<Rightarrow> Language \<Rightarrow> nat" where
  "language_score seed lang = fold (\<lambda>word score. if word_map lang word \<noteq> None then score + 1 else score) seed 0"

definition find_seed_language :: "((Language \<times> nat) list \<Rightarrow> (Language \<times> nat) list) \<Rightarrow> Language list \<Rightarrow> string list
    \<Rightarrow> Language option" where
  "find_seed_language std_sort language_instances seed = (
     let sorted = std_sort (map (\<lambda>inst. (inst, language_score seed inst)) language_instances) in
     if snd (last sorted) > 0 then Some (fst (last sorted)) else None)"

fun match_words :: "Language \<Rightarrow> string list \<Rightarrow> u32 list option" where
  "match_words lang [] = Some []"
| "match_words lang (word # seed) =
     (case trimmed_word_map lang (utf8prefix word (unat (unique_prefix_length lang))) of
        Some i \<Rightarrow> map_option (Cons i) (match_words lang seed)
      | None \<Rightarrow> None)"

definition find_language :: "Language list \<Rightarrow> string \<Rightarrow> Language option" where
  "find_language langs name = find (\<lambda>b. language_name b = name \<or> english_language_name b = name) langs"

definition language_names :: "Language list \<Rightarrow> bool \<Rightarrow> string list" where
  "language_names langs english = map (\<lambda>l. if english then english_language_name l else language_name l) langs"

definition verify_language_input :: "(string \<Rightarrow> string) \<Rightarrow> Language list \<Rightarrow> string \<Rightarrow> string" where
  "verify_language_input to_title langs input = (
     case find_language langs (to_title input) of
       Some l \<Rightarrow> language_name l
     | None \<Rightarrow> [])"

definition get_english_name_for :: "Language list \<Rightarrow> string \<Rightarrow> string" where
  "get_english_name_for langs name = (
     case find (\<lambda>l. language_name l = name) langs of
       Some l \<Rightarrow> english_language_name l
     | None \<Rightarrow> ''<language not found>'')"

section \<open>Words and numbers\<close>

definition number_to_words :: "u32 \<Rightarrow> u32 \<Rightarrow> u32 \<times> u32 \<times> u32" where
  "number_to_words n val = (
     let w1 = val mod n;
         w2 = (val div n + w1) mod n;
         w3 = (val div n div n + w2) mod n
     in (w1, w2, w3))"

definition words_to_number :: "u32 \<Rightarrow> u32 \<Rightarrow> u32 \<Rightarrow> u32 \<Rightarrow> u32 option" where
  "words_to_number n w1 w2 w3 = (
     let val = w1 + n * (((n - w1) + w2) mod n) + n * n * (((n - w2) + w3) mod n) in
     if \<not> (val mod n = w1) then None else Some val)"

text \<open>The loop of both decoders over the indices, \<open>i\<close> from 0 to \<open>size / 3\<close>.\<close>

fun decode_words :: "u32 \<Rightarrow> u32 list \<Rightarrow> byte list option" where
  "decode_words n (w1 # w2 # w3 # ws) =
     (case words_to_number n w1 w2 w3 of
        None \<Rightarrow> None
      | Some val \<Rightarrow> map_option (\<lambda>bs. le_bytes 4 (unat val) @ bs) (decode_words n ws))"
| "decode_words n _ = Some []"

fun encode_words :: "string list \<Rightarrow> byte list \<Rightarrow> string list" where
  "encode_words wl (a # b # c # d # bs) = (
     let (w1, w2, w3) = number_to_words (word_of_nat (length wl)) (word_of_nat (le_nat [a, b, c, d]))
     in wl ! unat w1 # wl ! unat w2 # wl ! unat w3 # encode_words wl bs)"
| "encode_words wl _ = []"

fun join_words :: "string list \<Rightarrow> string" where
  "join_words [] = []"
| "join_words [w] = w"
| "join_words (w # ws) = w @ '' '' @ join_words ws"

section \<open>Seeds of 14 words\<close>

definition words_to_bytes_14 :: "(string \<Rightarrow> string) \<Rightarrow> (string \<Rightarrow> string list) \<Rightarrow> ((Language \<times> nat) list \<Rightarrow> (Language \<times> nat) list)
    \<Rightarrow> Language list \<Rightarrow> string \<Rightarrow> (byte list \<times> byte option \<times> string) option" where
  "words_to_bytes_14 boost_trim boost_split std_sort langs words = (
     let seed = boost_split (boost_trim words) in
     if length seed \<noteq> 14 \<and> length seed \<noteq> 12 then None
     else case find_seed_language std_sort langs seed of
       None \<Rightarrow> None
     | Some lang \<Rightarrow>
         (case match_words lang seed of
            None \<Rightarrow> None
          | Some ws \<Rightarrow>
              let n = word_of_nat (length (word_list lang)) in
              (case decode_words n ws of
                 None \<Rightarrow> None
               | Some dst \<Rightarrow>
                   if length seed = 14
                   then
                     let w1 = ws ! 12; w2 = ws ! 13;
                         val = (w1 + n * (((n - w1) + w2) mod n)) AND 0xfffff;
                         extra = ucast (val AND 0xff)
                     in if calc_crc12 dst extra \<noteq> drop_bit 8 val then None
                        else Some (dst, Some extra, language_name lang)
                   else Some (dst, None, language_name lang))))"

definition bytes_to_words_14 :: "Language list \<Rightarrow> byte list \<Rightarrow> byte \<Rightarrow> string \<Rightarrow> string option" where
  "bytes_to_words_14 langs src extra name = (
     case find_language langs name of
       None \<Rightarrow> None
     | Some lang \<Rightarrow>
         let wl = word_list lang;
             n = word_of_nat (length wl);
             checksum = push_bit 8 (calc_crc12 src extra) OR ucast extra;
             w1 = checksum mod n;
             w2 = (checksum div n + w1) mod n
         in Some (join_words (encode_words wl (take 16 src) @ [wl ! unat w1, wl ! unat w2])))"

section \<open>Seeds of 25 words\<close>

definition seed_length :: u32 where "seed_length = 24"

definition create_checksum_index :: "(string \<Rightarrow> u32) \<Rightarrow> string list \<Rightarrow> u32 \<Rightarrow> u32" where
  "create_checksum_index crc32 wl prefix_length =
     crc32 (concat (map (\<lambda>w. trimmed_word w prefix_length) wl)) mod seed_length"

text \<open>\<open>None\<close> is an access outside of the vector.\<close>

definition checksum_test :: "(string \<Rightarrow> u32) \<Rightarrow> string list \<Rightarrow> u32 \<Rightarrow> bool option" where
  "checksum_test crc32 seed prefix_length = (
     if seed = [] then Some False
     else
       let last_word = last seed; seed = butlast seed;
           i = unat (create_checksum_index crc32 seed prefix_length)
       in if i < length seed then Some (trimmed_word (seed ! i) prefix_length = trimmed_word last_word prefix_length)
          else None)"

definition seed_words :: "(string \<Rightarrow> string) \<Rightarrow> (string \<Rightarrow> string list) \<Rightarrow> string \<Rightarrow> string list" where
  "seed_words boost_trim boost_split words = (
     let seed = boost_split (boost_trim words) in
     if length seed = 26 then butlast seed else seed)"

definition words_to_bytes_25 :: "(string \<Rightarrow> string) \<Rightarrow> (string \<Rightarrow> string list) \<Rightarrow> ((Language \<times> nat) list \<Rightarrow> (Language \<times> nat) list)
    \<Rightarrow> (string \<Rightarrow> u32) \<Rightarrow> Language list \<Rightarrow> string \<Rightarrow> nat \<Rightarrow> (byte list \<times> string) option" where
  "words_to_bytes_25 boost_trim boost_split std_sort crc32 langs words len = (
     if len mod 4 \<noteq> 0 then None
     else
       let seed = seed_words boost_trim boost_split words;
           expected = len * 8 * 3 div 32
       in if len \<noteq> 0 \<and> length seed \<noteq> expected div 2 \<and> length seed \<noteq> expected \<and> length seed \<noteq> expected + 1 then None
          else
            let has_checksum = (len \<noteq> 0 \<longrightarrow> length seed = expected + 1) in
            case find_seed_language std_sort langs seed of
              None \<Rightarrow> None
            | Some lang \<Rightarrow>
                (case match_words lang seed of
                   None \<Rightarrow> None
                 | Some ws \<Rightarrow>
                     if has_checksum \<and> checksum_test crc32 seed (unique_prefix_length lang) \<noteq> Some True then None
                     else
                       map_option (\<lambda>dst. (dst, language_name lang))
                         (decode_words (word_of_nat (length (word_list lang)))
                           (take ((if has_checksum then length seed - 1 else length seed) div 3 * 3) ws))))"

definition words_to_key :: "(string \<Rightarrow> string) \<Rightarrow> (string \<Rightarrow> string list) \<Rightarrow> ((Language \<times> nat) list \<Rightarrow> (Language \<times> nat) list)
    \<Rightarrow> (string \<Rightarrow> u32) \<Rightarrow> Language list \<Rightarrow> string \<Rightarrow> (byte list \<times> string) option" where
  "words_to_key boost_trim boost_split std_sort crc32 langs words = (
     case words_to_bytes_25 boost_trim boost_split std_sort crc32 langs words 32 of
       None \<Rightarrow> None
     | Some (s, name) \<Rightarrow> if length s \<noteq> 32 then None else Some (s, name))"

text \<open>\<open>None\<close> is \<open>false\<close>; for less than 32 bytes it also is a read behind the end of \<open>words_store\<close>, whose
  index the checksum selects among 24.\<close>

definition bytes_to_words_25 :: "(string \<Rightarrow> u32) \<Rightarrow> Language list \<Rightarrow> byte list \<Rightarrow> string \<Rightarrow> string option" where
  "bytes_to_words_25 crc32 langs src name = (
     if length src mod 4 \<noteq> 0 \<or> length src = 0 then None
     else case find_language langs name of
       None \<Rightarrow> None
     | Some lang \<Rightarrow>
         let words_store = encode_words (word_list lang) src;
             i = unat (create_checksum_index crc32 words_store (unique_prefix_length lang))
         in if i < length words_store then Some (join_words words_store @ '' '' @ words_store ! i) else None)"

section \<open>Three words for 32 bits\<close>

definition triple_value :: "nat \<Rightarrow> nat \<Rightarrow> nat \<Rightarrow> nat" where
  "triple_value w1 w2 w3 = w1 + 1626 * ((1626 - w1 + w2) mod 1626) + 1626 * 1626 * ((1626 - w2 + w3) mod 1626)"

lemma offset_mod:
  assumes "w < (n :: nat)"
  shows "(n - w + (q + w) mod n) mod n = q mod n" and "((n - w + q) mod n + w) mod n = q mod n"
proof -
  have e: "n - w + (q + w) = q + n" using assms by simp
  have "(n - w + (q + w) mod n) mod n = (n - w + (q + w)) mod n" by (simp add: mod_simps)
  then show "(n - w + (q + w) mod n) mod n = q mod n" by (simp add: e)
  have "((n - w + q) mod n + w) mod n = (n - w + q + w) mod n" by (simp add: mod_simps)
  then show "((n - w + q) mod n + w) mod n = q mod n" using assms by simp
qed

lemma triple_value_encode:
  assumes "v < 2 ^ 32"
  shows "triple_value (v mod 1626) ((v div 1626 + v mod 1626) mod 1626)
      ((v div 1626 div 1626 + (v div 1626 + v mod 1626) mod 1626) mod 1626) = v"
proof -
  define q where "q = v div 1626"
  define w1 where "w1 = v mod 1626"
  define w2 where "w2 = (q + w1) mod 1626"
  have "w1 < 1626" "w2 < 1626" by (simp_all add: w1_def w2_def)
  then have "(1626 - w1 + w2) mod 1626 = q mod 1626" "(1626 - w2 + (q div 1626 + w2) mod 1626) mod 1626 = q div 1626 mod 1626"
    using offset_mod(1) [of w1 1626 q] offset_mod(1) [of w2 1626 "q div 1626"] by (simp_all add: w2_def)
  moreover have "q div 1626 mod 1626 = q div 1626" using assms by (simp add: q_def less_mult_imp_div_less)
  ultimately have "triple_value w1 w2 ((q div 1626 + w2) mod 1626) = w1 + 1626 * (q mod 1626) + 1626 * 1626 * (q div 1626)"
    by (simp add: triple_value_def)
  also have "\<dots> = w1 + 1626 * q" using mod_mult_div_eq [of q 1626] by linarith
  also have "\<dots> = v" by (simp add: w1_def q_def)
  finally show ?thesis by (simp add: w1_def w2_def q_def)
qed

lemma triple_value_decode:
  assumes "w1 < 1626" "w2 < 1626" "w3 < 1626"
  defines "v \<equiv> triple_value w1 w2 w3"
  shows "v mod 1626 = w1" and "(v div 1626 + w1) mod 1626 = w2" and "(v div 1626 div 1626 + w2) mod 1626 = w3"
proof -
  define x where "x = (1626 - w1 + w2) mod 1626"
  define y where "y = (1626 - w2 + w3) mod 1626"
  have v: "v = w1 + 1626 * (x + 1626 * y)" by (simp add: v_def triple_value_def x_def y_def)
  have x: "x < 1626" by (simp add: x_def)
  have d: "v div 1626 = x + 1626 * y" "v div 1626 div 1626 = y" using assms(1) x by (simp_all add: v)
  show "v mod 1626 = w1" using assms(1) unfolding v by (subst mod_mult_self2) simp
  have "(v div 1626 + w1) mod 1626 = (x + w1 + 1626 * y) mod 1626" unfolding d(1) by (simp only: add.assoc add.commute)
  also have "\<dots> = (x + w1) mod 1626" by (rule mod_mult_self2)
  finally show "(v div 1626 + w1) mod 1626 = w2" using offset_mod(2) [OF assms(1), of w2] assms(2) by (simp add: x_def)
  show "(v div 1626 div 1626 + w2) mod 1626 = w3"
    using offset_mod(2) [OF assms(2), of w3] assms(3) d(2) by (simp add: y_def)
qed

lemma triple_value_bound: "w1 < 1626 \<Longrightarrow> triple_value w1 w2 w3 < 1626 * 1626 * 1626"
proof -
  assume "w1 < 1626"
  moreover have "(1626 - w1 + w2) mod 1626 < 1626" "(1626 - w2 + w3) mod 1626 < 1626" by simp_all
  ultimately show ?thesis unfolding triple_value_def by linarith
qed

lemma unat_mod_u32: "unat (x mod y :: u32) = unat x mod unat y" and unat_div_u32: "unat (x div y :: u32) = unat x div unat y"
  by (simp_all add: unat_mod unat_div)

lemma unat_add_mod_u32: "unat x + unat y < 2 ^ 32 \<Longrightarrow> unat ((x + y) mod n :: u32) = (unat x + unat y) mod unat n"
  by (simp add: unat_mod_u32 unat_word_ariths)

lemma number_to_words_eq:
  "number_to_words 1626 v = (w1, w2, w3) \<longleftrightarrow> unat w1 = unat v mod 1626 \<and> unat w2 = (unat v div 1626 + unat w1) mod 1626
     \<and> unat w3 = (unat v div 1626 div 1626 + unat w2) mod 1626"
proof -
  define a where "a = v mod 1626"
  define b where "b = (v div 1626 + a) mod 1626"
  define c where "c = (v div 1626 div 1626 + b) mod 1626"
  have n: "unat (1626 :: u32) = 1626" by simp
  have v: "unat v div 1626 < 2642000"
    by (rule less_mult_imp_div_less, rule less_le_trans [OF unat_u32_lt]) simp
  then have v2: "unat v div 1626 div 1626 < 2642000" by (rule le_less_trans [OF div_le_dividend])
  have a: "unat a = unat v mod 1626" unfolding a_def unat_mod_u32 n by (rule refl)
  have "unat a < 1626" unfolding a by simp
  then have b: "unat b = (unat v div 1626 + unat a) mod 1626"
    using v unfolding b_def by (subst unat_add_mod_u32) (simp_all only: unat_div_u32 n, simp)
  have "unat b < 1626" unfolding b by simp
  then have c: "unat c = (unat v div 1626 div 1626 + unat b) mod 1626"
    using v2 unfolding c_def by (subst unat_add_mod_u32) (simp_all only: unat_div_u32 n, simp)
  have "number_to_words 1626 v = (a, b, c)" by (simp add: number_to_words_def Let_def a_def b_def c_def)
  then have "number_to_words 1626 v = (w1, w2, w3) \<longleftrightarrow> unat w1 = unat a \<and> unat w2 = unat b \<and> unat w3 = unat c"
    by (auto simp only: prod.inject word_unat_eq_iff)
  then show ?thesis unfolding a [symmetric] by (simp only: b c cong: conj_cong)
qed

lemma words_to_number_eq:
  assumes "unat w1 < 1626" and "unat w2 < 1626" and "unat w3 < 1626"
  shows "words_to_number 1626 w1 w2 w3 = Some v \<longleftrightarrow> unat v = triple_value (unat w1) (unat w2) (unat w3)"
proof -
  define V where "V = triple_value (unat w1) (unat w2) (unat w3)"
  define x where "x = ((1626 - w1) + w2) mod 1626"
  define y where "y = ((1626 - w2) + w3) mod 1626"
  define val where "val = w1 + 1626 * x + 1626 * 1626 * y"
  have n: "unat (1626 :: u32) = 1626" by simp
  have d: "unat (((1626 - a) + b) mod 1626) = (1626 - unat a + unat b) mod 1626" if "unat a < 1626" "unat b < 1626" for a b :: u32
  proof -
    have "unat (1626 - a) = 1626 - unat a" using that by (simp add: unat_sub word_le_nat_alt)
    moreover from this that have "unat (1626 - a) + unat b < 2 ^ 32" by simp
    ultimately show ?thesis using unat_add_mod_u32 [of "1626 - a" b 1626] by (simp only: n)
  qed
  have "word_of_nat V = val"
    unfolding V_def triple_value_def val_def x_def y_def d [OF assms(1,2), symmetric] d [OF assms(2,3), symmetric]
    by simp
  then have val: "unat val = V mod 2 ^ 32" using unat_of_nat [of V, where 'a = 32] by (simp add: take_bit_eq_mod)
  have V: "V < 1626 * 1626 * 1626" "V mod 1626 = unat w1"
    using triple_value_bound [OF assms(1)] triple_value_decode(1) [OF assms] by (simp_all only: V_def)
  have m: "val mod 1626 = w1 \<longleftrightarrow> V mod 2 ^ 32 mod 1626 = V mod 1626"
    unfolding word_unat_eq_iff unat_mod_u32 n val V(2) by (rule refl)
  have "val mod 1626 = w1 \<longleftrightarrow> V < 2 ^ 32"
  proof (cases "V < 2 ^ 32")
    case False
    then obtain k where k: "V = 2 ^ 32 + k" using le_Suc_ex not_less by metis
    then have "V mod 2 ^ 32 = k" using V(1) by simp
    moreover have "V mod 1626 = (490 + k mod 1626) mod 1626" 
      unfolding k using mod_add_eq [of "2 ^ 32" 1626 k] by simp
    moreover have "(490 + r) mod 1626 \<noteq> r" if "r < 1626" for r :: nat
      using that by (cases "490 + r < 1626") (simp_all add: le_mod_geq)
    ultimately show ?thesis using False m by (metis mod_less_divisor zero_less_numeral)
  qed (simp add: m)
  moreover have "words_to_number 1626 w1 w2 w3 = (if val mod 1626 = w1 then Some val else None)"
    by (simp add: words_to_number_def Let_def val_def x_def y_def)
  moreover have "V < 2 ^ 32 \<Longrightarrow> unat val = V" unfolding val by (rule mod_less)
  ultimately show ?thesis using unat_u32_lt [of v] unfolding V_def [symmetric] by (metis option.inject option.distinct(1) word_unat_eq_iff)
qed

lemma triple_code:
  assumes "unat w1 < 1626" and "unat w2 < 1626" and "unat w3 < 1626"
  shows "words_to_number 1626 w1 w2 w3 = Some v \<longleftrightarrow> number_to_words 1626 v = (w1, w2, w3)"
  using triple_value_encode [OF unat_u32_lt [of v]] triple_value_decode [OF assms]
  unfolding words_to_number_eq [OF assms] number_to_words_eq by metis

section \<open>The maps of a language\<close>

lemma utf8prefix_short: "CHR 0x00 \<notin> set w \<Longrightarrow> length w \<le> n \<Longrightarrow> utf8prefix w n = w"
proof (induction w n rule: utf8prefix.induct)
  case (3 c cs n)
  then have "utf8prefix (dropWhile utf8_continuation cs) n = dropWhile utf8_continuation cs"
    using set_dropWhileD [of "CHR 0x00" utf8_continuation cs] length_dropWhile_le [of utf8_continuation cs] by force
  then show ?case using 3(2) by auto
qed simp_all

lemma trimmed_word_eq: "CHR 0x00 \<notin> set w \<Longrightarrow> trimmed_word w p = utf8prefix w (unat p)"
  by (simp add: trimmed_word_def utf8prefix_short)

lemma populate_from_keeps:
  "populate_from short dup ii ws lang = Some lang' \<Longrightarrow>
     word_list lang' = word_list lang \<and> language_name lang' = language_name lang
     \<and> english_language_name lang' = english_language_name lang \<and> unique_prefix_length lang' = unique_prefix_length lang
     \<and> (\<forall>w. word_map lang' w \<noteq> None \<longleftrightarrow> w \<in> set ws \<or> word_map lang w \<noteq> None)"
  by (induction ws arbitrary: ii lang) (fastforce simp: Let_def split: if_splits)+

lemma populate_from_trimmed:
  assumes "populate_from short False ii ws lang = Some lang'"
  defines "T \<equiv> \<lambda>w. trimmed_word w (unique_prefix_length lang)"
  shows "distinct (map T ws) \<and> (\<forall>w \<in> set ws. trimmed_word_map lang (T w) = None \<and> (short \<or> unat (unique_prefix_length lang) \<le> length w))
    \<and> (\<forall>t. t \<notin> T ` set ws \<longrightarrow> trimmed_word_map lang' t = trimmed_word_map lang t)
    \<and> (\<forall>i < length ws. trimmed_word_map lang' (T (ws ! i)) = Some (ii + word_of_nat i))"
  using assms(1) unfolding T_def
proof (induction ws arbitrary: ii lang)
  case (Cons w ws)
  define p where "p = unique_prefix_length lang"
  define t where "t = trimmed_word w p"
  define lang1 where "lang1 = lang\<lparr>word_map := (word_map lang)(w \<mapsto> ii), trimmed_word_map := (trimmed_word_map lang)(t \<mapsto> ii)\<rparr>"
  have new: "trimmed_word_map lang t = None" "short \<or> unat p \<le> length w" and rest: "populate_from short False (ii + 1) ws lang1 = Some lang'"
    using Cons.prems by (auto simp: Let_def lang1_def t_def p_def split: if_splits)
  have l1: "unique_prefix_length lang1 = p" "trimmed_word_map lang1 = (trimmed_word_map lang)(t \<mapsto> ii)"
    by (simp_all add: lang1_def p_def)
  note IH = Cons.IH [OF rest, unfolded l1]
  then have notin: "t \<notin> (\<lambda>w. trimmed_word w p) ` set ws" by (auto split: if_splits)
  moreover have "\<forall>i < length (w # ws). trimmed_word_map lang' (trimmed_word ((w # ws) ! i) p) = Some (ii + word_of_nat i)"
    using IH notin by (auto simp: nth_Cons t_def add.assoc split: nat.split)
  ultimately show ?case using IH new unfolding p_def [symmetric] by (auto simp: t_def split: if_splits)
qed simp

lemma populate_from_total:
  "distinct (map (\<lambda>w. trimmed_word w (unique_prefix_length lang)) ws) \<Longrightarrow>
   \<forall>w \<in> set ws. trimmed_word_map lang (trimmed_word w (unique_prefix_length lang)) = None
     \<and> (short \<or> unat (unique_prefix_length lang) \<le> length w) \<Longrightarrow>
   \<exists>lang'. populate_from short False ii ws lang = Some lang'"
proof (induction ws arbitrary: ii lang)
  case (Cons w ws)
  define lang1 where "lang1 = lang\<lparr>word_map := (word_map lang)(w \<mapsto> ii),
    trimmed_word_map := (trimmed_word_map lang)(trimmed_word w (unique_prefix_length lang) \<mapsto> ii)\<rparr>"
  have "\<exists>lang'. populate_from short False (ii + 1) ws lang1 = Some lang'"
    using Cons.prems by (intro Cons.IH) (auto simp: lang1_def image_iff dest: sym)
  then show ?case using Cons.prems(2) by (auto simp: Let_def lang1_def)
qed simp

text \<open>When the constructor of a language returns: the list has 1626 words, none shorter than the
  prefix unless that is allowed, and no two words have the same prefix.\<close>

lemma populate_maps_iff:
  "(\<exists>lang. populate_maps short False (Language_Base name english_name words p) = Some lang) \<longleftrightarrow>
     length words = 1626 \<and> (\<forall>w \<in> set words. short \<or> unat p \<le> length w) \<and> distinct (map (\<lambda>w. trimmed_word w p) words)"
  (is "?returns \<longleftrightarrow> ?good")
proof
  assume ?returns
  then show ?good using populate_from_trimmed [of short 0 words "Language_Base name english_name words p"]
    by (auto simp: populate_maps_def Language_Base_def split: if_splits)
next
  assume ?good
  then show ?returns using populate_from_total [of "Language_Base name english_name words p" words short 0]
    by (auto simp: populate_maps_def Language_Base_def)
qed

section \<open>Reading back the words of a list\<close>

definition plain_word :: "string \<Rightarrow> bool" where
  "plain_word w \<longleftrightarrow> w \<noteq> [] \<and> list_all (\<lambda>c. \<not> isspace c \<and> c \<noteq> CHR 0x00) w"

locale seed_language =
  fixes lang :: Language
  assumes list_size: "length (word_list lang) = 1626"
    and plain: "w \<in> set (word_list lang) \<Longrightarrow> plain_word w"
    and known: "word_map lang w \<noteq> None \<longleftrightarrow> w \<in> set (word_list lang)"
    and trimmed: "i < 1626 \<Longrightarrow>
      trimmed_word_map lang (utf8prefix (word_list lang ! i) (unat (unique_prefix_length lang))) = Some (word_of_nat i)"

lemma populated_language:
  assumes "populate_maps short False (Language_Base name english_name words p) = Some lang" and "list_all plain_word words"
  shows "seed_language lang" and "word_list lang = words" and "language_name lang = name" and "english_language_name lang = english_name"
    and "unique_prefix_length lang = p"
proof -
  let ?base = "Language_Base name english_name words p"
  have base: "length words = 1626" "populate_from short False 0 words ?base = Some lang"
    using assms(1) by (auto simp: populate_maps_def Language_Base_def split: if_splits)
  note kept = populate_from_keeps [OF base(2)] and found = populate_from_trimmed [OF base(2)]
  show l: "word_list lang = words" "language_name lang = name" "english_language_name lang = english_name" "unique_prefix_length lang = p"
    using kept by (simp_all add: Language_Base_def)
  have plain: "plain_word w" if "w \<in> set words" for w using assms(2) that by (simp add: list_all_iff)
  show "seed_language lang"
  proof
    fix i :: nat assume "i < 1626"
    moreover then have "CHR 0x00 \<notin> set (words ! i)" using plain [of "words ! i"] base(1) by (auto simp: plain_word_def list_all_iff)
    ultimately show "trimmed_word_map lang (utf8prefix (word_list lang ! i) (unat (unique_prefix_length lang))) = Some (word_of_nat i)"
      using found base(1) by (simp add: l Language_Base_def flip: trimmed_word_eq)
  qed (use kept plain base(1) in \<open>auto simp: l Language_Base_def\<close>)
qed

primrec group_of :: "nat \<Rightarrow> byte list \<Rightarrow> u32 list" where
  "group_of 0 bs = []"
| "group_of (Suc k) bs = (case number_to_words 1626 (word_of_nat (le_nat (take 4 bs))) of
     (w1, w2, w3) \<Rightarrow> w1 # w2 # w3 # group_of k (drop 4 bs))"

lemma length_group_of: "length (group_of k bs) = 3 * k"
  by (induction k arbitrary: bs) (auto split: prod.split)

lemma number_to_words_range: "number_to_words 1626 v = (w1, w2, w3) \<Longrightarrow> unat w1 < 1626 \<and> unat w2 < 1626 \<and> unat w3 < 1626"
  by (simp add: number_to_words_eq)

lemma group_of_range: "i \<in> set (group_of k bs) \<Longrightarrow> unat i < 1626"
  by (induction k arbitrary: bs) (fastforce split: prod.splits dest: number_to_words_range [OF sym])+

lemma decode_group_of:
  "length bs = 4 * k \<Longrightarrow> length rest < 3 \<Longrightarrow> decode_words 1626 (group_of k bs @ rest) = Some bs"
proof (induction k arbitrary: bs)
  case 0
  then show ?case by (cases "(1626 :: u32, rest)" rule: decode_words.cases) auto
next
  case (Suc k)
  obtain w1 w2 w3 where w: "number_to_words 1626 (word_of_nat (le_nat (take 4 bs))) = (w1, w2, w3)" by (metis prod_cases3)
  have four: "length (take 4 bs) = 4" using Suc.prems by simp
  have "le_nat (take 4 bs) < 2 ^ 32" using le_nat_bound [of "take 4 bs"] four by simp
  then have "unat (word_of_nat (le_nat (take 4 bs)) :: u32) = le_nat (take 4 bs)" by (simp add: unat_of_nat take_bit_eq_mod)
  moreover have "words_to_number 1626 w1 w2 w3 = Some (word_of_nat (le_nat (take 4 bs)))"
    using number_to_words_range [OF w] w by (simp add: triple_code)
  moreover have "decode_words 1626 (group_of k (drop 4 bs) @ rest) = Some (drop 4 bs)" using Suc by simp
  ultimately show ?case by (simp add: w le_bytes_le_nat [OF four])
qed

lemma encode_words_eq:
  assumes "length wl = 1626" and "length bs = 4 * k"
  shows "encode_words wl bs = map (\<lambda>i. wl ! unat i) (group_of k bs)"
  using assms(2)
proof (induction k arbitrary: bs)
  case 0
  then show ?case by simp
next
  case (Suc k)
  then obtain a b c d cs where bs: "bs = a # b # c # d # cs" by (auto simp: length_Suc_conv numeral_eq_Suc)
  have "encode_words wl cs = map (\<lambda>i. wl ! unat i) (group_of k cs)" using Suc by (simp add: bs)
  then show ?case by (auto simp: bs assms(1) split: prod.split)
qed

lemma language_score_eq: "language_score seed l = length (filter (\<lambda>w. word_map l w \<noteq> None) seed)"
proof -
  have "fold (\<lambda>word score. if word_map l word \<noteq> None then score + 1 else score) seed n = n + length (filter (\<lambda>w. word_map l w \<noteq> None) seed)" for n
    by (induction seed arbitrary: n) auto
  then show ?thesis by (simp add: language_score_def)
qed

context seed_language
begin

lemma matched: "\<forall>i \<in> set is. unat i < 1626 \<Longrightarrow> match_words lang (map (\<lambda>i. word_list lang ! unat i) is) = Some is"
  by (induction "is") (simp_all add: trimmed)

lemma plain_words: "\<forall>i \<in> set is. unat i < 1626 \<Longrightarrow> w \<in> set (map (\<lambda>i. word_list lang ! unat i) is) \<Longrightarrow> plain_word w"
  using plain list_size by auto

lemma full_score: "\<forall>i \<in> set is. unat i < 1626 \<Longrightarrow> language_score (map (\<lambda>i. word_list lang ! unat i) is) lang = length is"
proof -
  assume "\<forall>i \<in> set is. unat i < 1626"
  then have "\<forall>w \<in> set (map (\<lambda>i. word_list lang ! unat i) is). word_map lang w \<noteq> None" unfolding known using list_size by auto
  then show ?thesis unfolding language_score_eq by (simp only: filter_True length_map)
qed

end

text \<open>What the decoders use of \<open>boost::trim\<close>, of \<open>boost::split\<close> at spaces and of \<open>std::sort\<close> by the scores.\<close>

locale seed_libraries =
  fixes boost_trim :: "string \<Rightarrow> string" and boost_split :: "string \<Rightarrow> string list"
    and std_sort :: "(Language \<times> nat) list \<Rightarrow> (Language \<times> nat) list"
  assumes trim_plain: "s \<noteq> [] \<Longrightarrow> \<not> isspace (hd s) \<Longrightarrow> \<not> isspace (last s) \<Longrightarrow> boost_trim s = s"
    and split_joined: "ws \<noteq> [] \<Longrightarrow> \<forall>w \<in> set ws. w \<noteq> [] \<and> CHR '' '' \<notin> set w \<Longrightarrow> boost_split (join_words ws) = ws"
    and sort_permutes: "mset (std_sort xs) = mset xs"
    and sort_sorted: "sorted (map snd (std_sort xs))"

lemma join_words_ends:
  "ws \<noteq> [] \<Longrightarrow> \<forall>w \<in> set ws. w \<noteq> [] \<Longrightarrow> join_words ws \<noteq> [] \<and> hd (join_words ws) = hd (hd ws) \<and> last (join_words ws) = last (last ws)"
  by (induction ws rule: join_words.induct) auto

lemma join_words_snoc: "ws \<noteq> [] \<Longrightarrow> join_words (ws @ [w]) = join_words ws @ '' '' @ w"
  by (induction ws rule: join_words.induct) auto

lemma isspace_blank: "isspace CHR '' ''"
  by (simp add: isspace_def char_code_def)

context seed_libraries
begin

lemma split_words:
  assumes "ws \<noteq> []" and "\<forall>w \<in> set ws. plain_word w"
  shows "boost_split (boost_trim (join_words ws)) = ws"
proof -
  have w: "w \<noteq> [] \<and> \<not> isspace (hd w) \<and> \<not> isspace (last w) \<and> CHR '' '' \<notin> set w" if "w \<in> set ws" for w
    using assms(2) that hd_in_set [of w] last_in_set [of w] isspace_blank by (fastforce simp only: plain_word_def list_all_iff)
  then have "boost_trim (join_words ws) = join_words ws"
    using join_words_ends [OF assms(1)] assms(1) by (intro trim_plain) auto
  then show ?thesis using w assms(1) by (simp add: split_joined)
qed

lemma language_found:
  assumes "lang \<in> set langs" and "seed \<noteq> []" and "language_score seed lang = length seed"
    and "\<forall>l \<in> set langs. l \<noteq> lang \<longrightarrow> language_score seed l < length seed"
  shows "find_seed_language std_sort langs seed = Some lang"
proof -
  define scores where "scores = map (\<lambda>l. (l, language_score seed l)) langs"
  define ys where "ys = std_sort scores"
  have set: "set ys = set scores" using arg_cong [OF sort_permutes [of scores], of set_mset] by (simp add: ys_def)
  have mem: "(lang, length seed) \<in> set ys" unfolding set using assms(1,3) by (auto simp: scores_def)
  then have "ys \<noteq> []" by auto
  then have "last ys \<in> set scores" unfolding set [symmetric] by (rule last_in_set)
  then obtain l where l: "last ys = (l, language_score seed l)" "l \<in> set langs" by (auto simp: scores_def)
  have "length seed \<le> snd (last ys)"
  proof -
    obtain i where i: "i < length ys" "ys ! i = (lang, length seed)" using mem by (auto simp: in_set_conv_nth)
    have "map snd ys ! i \<le> map snd ys ! (length ys - 1)" using i(1) sort_sorted [of scores] by (intro sorted_nth_mono) (auto simp: ys_def)
    then show ?thesis using i \<open>ys \<noteq> []\<close> by (simp add: last_conv_nth)
  qed
  then have "l = lang" using l assms(4) by (auto simp: not_less [symmetric])
  then show ?thesis using l assms(2,3) by (simp add: find_seed_language_def Let_def ys_def scores_def)
qed

end

section \<open>An instance of the libraries\<close>

primrec split_blanks :: "string \<Rightarrow> string list" where
  "split_blanks [] = [[]]"
| "split_blanks (c # cs) =
     (if c = CHR '' '' then [] # split_blanks cs else (c # hd (split_blanks cs)) # tl (split_blanks cs))"

lemma split_blanks_word: "CHR '' '' \<notin> set w \<Longrightarrow> split_blanks w = [w] \<and> split_blanks (w @ '' '' @ s) = w # split_blanks s"
  by (induction w) auto

lemma split_blanks_joined:
  "ws \<noteq> [] \<Longrightarrow> \<forall>w \<in> set ws. w \<noteq> [] \<and> CHR '' '' \<notin> set w \<Longrightarrow> split_blanks (join_words ws) = ws"
  by (induction ws rule: join_words.induct) (simp_all add: split_blanks_word del: append.simps)

lemma trim_left_start: "s \<noteq> [] \<Longrightarrow> \<not> isspace (hd s) \<Longrightarrow> trim_left s = s"
  by (cases s) simp_all

lemma trim_ends: "s \<noteq> [] \<Longrightarrow> \<not> isspace (hd s) \<Longrightarrow> \<not> isspace (last s) \<Longrightarrow> trim s = s"
  by (simp add: trim_def trim_right_def trim_left_start hd_rev)

interpretation libraries: seed_libraries trim split_blanks "sort_key snd"
proof
  show "mset (sort_key snd xs) = mset xs" for xs :: "(Language \<times> nat) list" by simp
qed (simp_all add: trim_ends split_blanks_joined)

section \<open>Seeds\<close>

text \<open>The words that stand for a key: those of the list at the indices, and for 25 words the one the
  checksum selects.\<close>

definition key_indices :: "(string \<Rightarrow> u32) \<Rightarrow> Language \<Rightarrow> byte list \<Rightarrow> u32 list" where
  "key_indices crc32 lang key = (
     let is = group_of (length key div 4) key;
         ws = map (\<lambda>i. word_list lang ! unat i) is
     in is @ [is ! unat (create_checksum_index crc32 ws (unique_prefix_length lang))])"

definition seed_indices_14 :: "byte list \<Rightarrow> byte \<Rightarrow> u32 list" where
  "seed_indices_14 key extra = (
     let c = push_bit 8 (calc_crc12 key extra) OR ucast extra; w1 = c mod 1626
     in group_of 4 key @ [w1, (c div 1626 + w1) mod 1626])"

definition spelled :: "Language \<Rightarrow> u32 list \<Rightarrow> string list" where
  "spelled lang is = map (\<lambda>i. word_list lang ! unat i) is"

lemma unat_seed_index: "unat (create_checksum_index crc32 ws p) < 24"
  by (simp add: create_checksum_index_def seed_length_def unat_mod_u32)

lemma key_indices_range: "length key = 32 \<Longrightarrow> i \<in> set (key_indices crc32 lang key) \<Longrightarrow> unat i < 1626"
  using group_of_range [OF nth_mem] unat_seed_index by (auto simp: key_indices_def Let_def length_group_of intro: group_of_range)

lemma seed_indices_14_range: "i \<in> set (seed_indices_14 key extra) \<Longrightarrow> unat i < 1626"
  using group_of_range by (auto simp: seed_indices_14_def Let_def unat_mod_u32)

lemma checksum_unpacked:
  fixes c :: u32
  assumes "unat c < 2 ^ 20"
  defines "w1 \<equiv> c mod 1626"
  defines "w2 \<equiv> (c div 1626 + w1) mod 1626"
  shows "w1 + 1626 * (((1626 - w1) + w2) mod 1626) = c"
proof -
  have n: "unat (1626 :: u32) = 1626" by simp
  have w1: "unat w1 = unat c mod 1626" unfolding w1_def unat_mod_u32 n by (rule refl)
  then have "unat w1 < 1626" by simp
  have d: "unat c div 1626 < 1626" using assms(1) by (intro less_mult_imp_div_less) simp
  have w2: "unat w2 = (unat c div 1626 + unat w1) mod 1626"
    using d \<open>unat w1 < 1626\<close> unfolding w2_def by (subst unat_add_mod_u32) (simp_all only: unat_div_u32 n, simp)
  then have "unat w2 < 1626" by simp
  have s: "unat (1626 - w1) = 1626 - unat w1" using \<open>unat w1 < 1626\<close> by (simp add: unat_sub word_le_nat_alt)
  have "unat (((1626 - w1) + w2) mod 1626) = (1626 - unat w1 + unat w2) mod 1626"
    using \<open>unat w1 < 1626\<close> \<open>unat w2 < 1626\<close> by (subst unat_add_mod_u32) (simp_all only: s n, simp)
  also have "\<dots> = unat c div 1626"
    unfolding w2 using offset_mod(1) [OF \<open>unat w1 < 1626\<close>, of "unat c div 1626"] d by simp
  finally have q: "((1626 - w1) + w2) mod 1626 = c div 1626" by (simp add: word_unat_eq_iff unat_div_u32)
  show ?thesis unfolding q unfolding w1_def by (metis mod_mult_div_eq)
qed

lemma crc12_masked: "calc_crc12 key extra AND 0xfff = calc_crc12 key extra"
  by (simp add: calc_crc12_def and.assoc)

lemma crc12_bits: "\<forall>i. bit (calc_crc12 key extra) i \<longrightarrow> i < 12"
proof -
  have "calc_crc12 key extra = take_bit 12 (calc_crc12 key extra)"
    by (simp add: calc_crc12_def take_bit_eq_mask mask_eq_exp_minus_1 and.assoc)
  then show ?thesis by (metis bit_take_bit_iff)
qed

lemma checksum_fields:
  fixes crc :: u32 and extra :: byte
  assumes "\<forall>i. bit crc i \<longrightarrow> i < 12"
  defines "c \<equiv> push_bit 8 crc OR ucast extra"
  shows "unat c < 2 ^ 20" and "c AND 0xfffff = c" and "drop_bit 8 c = crc" and "ucast (c AND 0xff) = extra"
proof -
  have c: "bit c i \<longleftrightarrow> 8 \<le> i \<and> bit crc (i - 8) \<or> bit extra i" for i
    using spec [OF assms(1), of "i - 8"] bit_imp_le_length [of extra i] by (auto simp: c_def bit_simps)
  have e: "bit extra i \<Longrightarrow> i < 8" for i using bit_imp_le_length [of extra i] by simp
  have t: "take_bit 20 c = c" using assms(1) e by (fastforce simp: bit_eq_iff bit_take_bit_iff c)
  then show "unat c < 2 ^ 20" by (metis take_bit_nat_less_exp unsigned_take_bit_eq)
  show "c AND 0xfffff = c" using t by (simp add: take_bit_eq_mask mask_eq_exp_minus_1)
  show "drop_bit 8 c = crc" using e by (fastforce simp: bit_eq_iff bit_drop_bit_eq c)
  have "c AND 0xff = take_bit 8 c" by (simp add: take_bit_eq_mask mask_eq_exp_minus_1)
  then have "bit (ucast (c AND 0xff) :: byte) i \<longleftrightarrow> bit extra i" for i using e [of i] by (auto simp: bit_simps c)
  then show "ucast (c AND 0xff) = extra" by (simp add: bit_eq_iff)
qed

lemma decode_key_indices:
  assumes "length key = 32"
  shows "length (key_indices crc32 lang key) = 25" and "decode_words 1626 (take 24 (key_indices crc32 lang key)) = Some key"
proof -
  have l: "length (group_of 8 key) = 24" by (simp add: length_group_of)
  have "key_indices crc32 lang key = group_of 8 key @ [last (key_indices crc32 lang key)]"
    using assms by (simp add: key_indices_def Let_def)
  then have "take 24 (key_indices crc32 lang key) = group_of 8 key" using l by (metis append_eq_conv_conj)
  then show "decode_words 1626 (take 24 (key_indices crc32 lang key)) = Some key"
    using decode_group_of [of key 8 "[]"] assms by simp
  show "length (key_indices crc32 lang key) = 25" using assms l by (simp add: key_indices_def Let_def)
qed

context seed_language
begin

lemma key_words:
  fixes crc32 :: "string \<Rightarrow> u32"
  assumes "length key = 32"
  defines "vs \<equiv> map (\<lambda>i. word_list lang ! unat i) (group_of 8 key)"
  defines "j \<equiv> unat (create_checksum_index crc32 vs (unique_prefix_length lang))"
  shows "spelled lang (key_indices crc32 lang key) = vs @ [vs ! j]" and "encode_words (word_list lang) key = vs"
    and "length vs = 24"
proof -
  have j: "j < 24" unfolding j_def by (rule unat_seed_index)
  show "length vs = 24" by (simp add: vs_def length_group_of)
  show "encode_words (word_list lang) key = vs" using encode_words_eq [OF list_size, of key 8] assms(1) by (simp add: vs_def)
  show "spelled lang (key_indices crc32 lang key) = vs @ [vs ! j]"
    using assms(1) j by (simp add: spelled_def key_indices_def Let_def j_def [symmetric] vs_def [symmetric])
      (simp add: vs_def length_group_of)
qed

lemma key_written:
  assumes "length key = 32" and "find_language langs name = Some lang"
  shows "bytes_to_words_25 crc32 langs key name = Some (join_words (spelled lang (key_indices crc32 lang key)))"
proof -
  note words = key_words(1-3) [OF assms(1)]
  have "map (\<lambda>i. word_list lang ! unat i) (group_of 8 key) \<noteq> []" using words(3) by auto
  then show ?thesis
    unfolding words(1) using assms words(3) unat_seed_index by (simp add: bytes_to_words_25_def Let_def words(2) join_words_snoc)
qed

lemma key_checksum:
  assumes "length key = 32"
  shows "checksum_test crc32 (spelled lang (key_indices crc32 lang key)) (unique_prefix_length lang) = Some True"
  unfolding key_words(1) [OF assms] using key_words(3) [OF assms] unat_seed_index by (simp add: checksum_test_def Let_def)

lemma seed_words_14:
  assumes "length key = 16" and "find_language langs name = Some lang"
  shows "bytes_to_words_14 langs key extra name = Some (join_words (spelled lang (seed_indices_14 key extra)))"
  using assms encode_words_eq [OF list_size, of key 4]
  by (simp add: bytes_to_words_14_def seed_indices_14_def spelled_def Let_def list_size)

end

lemma spelled_split:
  assumes "seed_language lang" and "seed_libraries boost_trim boost_split std_sort" and "ix \<noteq> []" and "\<forall>i \<in> set ix. unat i < 1626"
  shows "boost_split (boost_trim (join_words (spelled lang ix))) = spelled lang ix"
  using assms(3) seed_language.plain_words [OF assms(1,4)]
  by (intro seed_libraries.split_words [OF assms(2)]) (auto simp: spelled_def)

lemma key_split:
  assumes "seed_language lang" and "seed_libraries boost_trim boost_split std_sort" and "length key = 32"
  shows "boost_split (boost_trim (join_words (spelled lang (key_indices crc32 lang key)))) = spelled lang (key_indices crc32 lang key)"
  using decode_key_indices(1) [OF assms(3), of crc32 lang] key_indices_range [OF assms(3)] by (intro spelled_split [OF assms(1,2)]) auto

lemma seed_14_split:
  assumes "seed_language lang" and "seed_libraries boost_trim boost_split std_sort"
  shows "boost_split (boost_trim (join_words (spelled lang (seed_indices_14 key extra)))) = spelled lang (seed_indices_14 key extra)"
  using seed_indices_14_range by (intro spelled_split [OF assms]) (auto simp: seed_indices_14_def Let_def)

lemma found_spelled:
  assumes "seed_language lang" and "seed_libraries boost_trim boost_split std_sort" and "lang \<in> set langs"
    and "ix \<noteq> []" and "\<forall>i \<in> set ix. unat i < 1626"
    and "\<forall>l \<in> set langs. l \<noteq> lang \<longrightarrow> language_score (spelled lang ix) l < length ix"
  shows "boost_split (boost_trim (join_words (spelled lang ix))) = spelled lang ix"
    and "find_seed_language std_sort langs (spelled lang ix) = Some lang" and "match_words lang (spelled lang ix) = Some ix"
proof -
  show "find_seed_language std_sort langs (spelled lang ix) = Some lang"
    using assms(3-6) seed_language.full_score [OF assms(1,5)]
    by (intro seed_libraries.language_found [OF assms(2)]) (simp_all add: spelled_def)
  show "boost_split (boost_trim (join_words (spelled lang ix))) = spelled lang ix"
    by (rule spelled_split [OF assms(1,2,4,5)])
  show "match_words lang (spelled lang ix) = Some ix"
    unfolding spelled_def by (rule seed_language.matched [OF assms(1,5)])
qed

lemma seed_25_read:
  assumes "seed_language lang" and "seed_libraries boost_trim boost_split std_sort" and "lang \<in> set langs"
    and "length key = 32"
    and "\<forall>l \<in> set langs. l \<noteq> lang \<longrightarrow> language_score (spelled lang (key_indices crc32 lang key)) l < 25"
  shows "words_to_key boost_trim boost_split std_sort crc32 langs (join_words (spelled lang (key_indices crc32 lang key)))
    = Some (key, language_name lang)"
proof -
  let ?ix = "key_indices crc32 lang key"
  have ix: "length ?ix = 25" "\<forall>i \<in> set ?ix. unat i < 1626" "?ix \<noteq> []"
    using decode_key_indices(1) [OF assms(4), of crc32 lang] key_indices_range [OF assms(4)] by auto
  note read = found_spelled [OF assms(1-3) ix(3,2)]
  have "checksum_test crc32 (spelled lang ?ix) (unique_prefix_length lang) = Some True"
    by (rule seed_language.key_checksum [OF assms(1,4)])
  moreover have "length (spelled lang ?ix) = 25" by (simp add: spelled_def ix)
  ultimately show ?thesis
    using read assms(4,5) ix(1) decode_key_indices(2) [OF assms(4), of crc32 lang] seed_language.list_size [OF assms(1)]
    by (simp add: words_to_key_def words_to_bytes_25_def seed_words_def Let_def)
qed

lemma seed_14_read:
  assumes "seed_language lang" and "seed_libraries boost_trim boost_split std_sort" and "lang \<in> set langs"
    and "length key = 16"
    and "\<forall>l \<in> set langs. l \<noteq> lang \<longrightarrow> language_score (spelled lang (seed_indices_14 key extra)) l < 14"
  shows "words_to_bytes_14 boost_trim boost_split std_sort langs (join_words (spelled lang (seed_indices_14 key extra)))
    = Some (key, Some extra, language_name lang)"
proof -
  define c where "c = push_bit 8 (calc_crc12 key extra) OR ucast extra"
  define w1 where "w1 = c mod 1626"
  define w2 where "w2 = (c div 1626 + w1) mod 1626"
  note fields = checksum_fields [OF crc12_bits, of key extra extra, folded c_def]
  have ix: "seed_indices_14 key extra = group_of 4 key @ [w1, w2]" by (simp add: seed_indices_14_def Let_def c_def w1_def w2_def)
  have l: "length (group_of 4 key) = 12" by (simp add: length_group_of)
  have n: "word_of_nat (length (word_list lang)) = (1626 :: u32)" using seed_language.list_size [OF assms(1)] by simp
  have "w1 + 1626 * (((1626 - w1) + w2) mod 1626) = c" unfolding w1_def w2_def by (rule checksum_unpacked) (rule fields)
  moreover have "decode_words 1626 (group_of 4 key @ [w1, w2]) = Some key" using decode_group_of [of key 4 "[w1, w2]"] assms(4) by simp
  moreover have "length (spelled lang (group_of 4 key @ [w1, w2])) = 14" using l by (simp add: spelled_def)
  ultimately show ?thesis
    using found_spelled [OF assms(1-3), of "seed_indices_14 key extra"] seed_indices_14_range [of _ key extra] assms(5) l fields
    by (simp add: ix words_to_bytes_14_def Let_def n nth_append crc12_masked)
qed

section \<open>The checksum as a polynomial remainder\<close>

text \<open>One step of the division by the polynomial \<open>0x1987\<close> in a register of 12 bits.\<close>

definition crc12_step :: "u32 \<Rightarrow> u32" where
  "crc12_step r = (push_bit 1 r XOR (if bit r 11 then 0x987 else 0)) AND 0xfff"

definition crc12_steps :: "u32 \<Rightarrow> u32" where
  "crc12_steps r = crc12_step (crc12_step (crc12_step (crc12_step (crc12_step (crc12_step (crc12_step (crc12_step r)))))))"

lemma crc12_step_numeral:
  "crc12_step (numeral n) = (push_bit 1 (numeral n) XOR (if bit (numeral n :: u32) 11 then 0x987 else 0)) AND 0xfff"
  "crc12_step 0 = 0" "crc12_step 1 = 2"
  by (simp_all add: crc12_step_def)

fun crc12_rows :: "u32 \<Rightarrow> u16 list \<Rightarrow> bool" where
  "crc12_rows r [] = True"
| "crc12_rows r (t # ts) = (ucast t = crc12_steps r \<and> crc12_rows (r + 16) ts)"

lemma crc12_rows_nth: "crc12_rows r ts \<Longrightarrow> i < length ts \<Longrightarrow> ucast (ts ! i) = crc12_steps (r + 16 * word_of_nat i)"
proof (induction ts arbitrary: r i)
  case (Cons t ts)
  then show ?case by (cases i) (auto simp: algebra_simps)
qed simp

lemma crc12_table_rows: "crc12_rows 0 crc12_table"
  by (simp add: crc12_table_def crc12_steps_def crc12_step_numeral cong: if_weak_cong)

lemma crc12_step_xor: "crc12_step (a XOR b) = crc12_step a XOR crc12_step b"
  by (rule bit_eqI) (auto simp: crc12_step_def bit_simps)

lemma crc12_steps_xor: "crc12_steps (a XOR b) = crc12_steps a XOR crc12_steps b"
  by (simp only: crc12_steps_def crc12_step_xor)

lemma low_bits: "x AND 0xfff = take_bit 12 (x :: u32)" "x AND 0xf = take_bit 4 (x :: u32)"
  by (simp_all add: take_bit_eq_mask mask_eq_exp_minus_1)

lemma crc12_step_shift:
  assumes "\<forall>i. bit x i \<longrightarrow> i < 4" and "k \<le> 7"
  shows "crc12_step (push_bit k x) = push_bit (Suc k) x"
proof (rule bit_eqI)
  fix i
  have b: "bit (push_bit k x) j \<Longrightarrow> j < 11" for j using assms by (force simp: bit_simps)
  then have "\<not> bit (push_bit k x) 11" by blast
  then have "crc12_step (push_bit k x) = take_bit 12 (push_bit 1 (push_bit k x))" by (simp only: crc12_step_def low_bits if_False xor.right_neutral)
  then show "bit (crc12_step (push_bit k x)) i \<longleftrightarrow> bit (push_bit (Suc k) x) i"
    using assms(1) [rule_format, of "i - Suc k"] assms(2) by (auto simp: bit_take_bit_iff push_bit_push_bit bit_push_bit_iff simp del: push_bit_Suc)
qed

lemma crc12_steps_low:
  assumes "\<forall>i. bit x i \<longrightarrow> i < 4"
  shows "crc12_steps x = push_bit 8 x"
proof -
  note shift = crc12_step_shift [OF assms]
  have "crc12_step x = push_bit 1 x" "crc12_step (push_bit 1 x) = push_bit 2 x" "crc12_step (push_bit 2 x) = push_bit 3 x"
    "crc12_step (push_bit 3 x) = push_bit 4 x" "crc12_step (push_bit 4 x) = push_bit 5 x" "crc12_step (push_bit 5 x) = push_bit 6 x"
    "crc12_step (push_bit 6 x) = push_bit 7 x" "crc12_step (push_bit 7 x) = push_bit 8 x"
    using shift [of 0] shift [of 1] shift [of 2] shift [of 3] shift [of 4] shift [of 5] shift [of 6] shift [of 7]
    by (simp_all add: push_bit_eq_mult)
  then show ?thesis by (simp only: crc12_steps_def)
qed

lemma update_crc12_steps:
  "update_crc12 crcv d AND 0xfff = crc12_steps ((crcv AND 0xfff) XOR push_bit 4 (ucast d))"
proof -
  define idx :: byte where "idx = ucast (drop_bit 4 crcv XOR ucast d)"
  have len: "length crc12_table = 256" by (simp add: crc12_table_def)
  have "16 * word_of_nat (unat idx) = push_bit 4 (ucast idx :: u32)" by (simp add: push_bit_eq_mult)
  then have t: "ucast (crc12_table ! unat idx) = crc12_steps (push_bit 4 (ucast idx))"
    using crc12_rows_nth [OF crc12_table_rows, of "unat idx"] by (simp add: len)
  have parts: "(crcv AND 0xfff) XOR push_bit 4 (ucast d) = push_bit 4 (ucast idx) XOR (crcv AND 0xf)"
    unfolding low_bits by (rule bit_eqI) (auto simp: idx_def bit_simps dest: bit_imp_le_length)
  have "crc12_steps (crcv AND 0xf) = push_bit 8 (crcv AND 0xf)" unfolding low_bits by (rule crc12_steps_low) (simp add: bit_take_bit_iff)
  also have "\<dots> = push_bit 8 crcv AND 0xfff" unfolding low_bits by (rule bit_eqI) (auto simp: bit_simps)
  finally have low: "crc12_steps (crcv AND 0xf) = push_bit 8 crcv AND 0xfff" .
  have masked: "crc12_steps x AND 0xfff = crc12_steps x" for x by (simp add: crc12_steps_def crc12_step_def and.assoc)
  show ?thesis
    unfolding parts crc12_steps_xor low t [symmetric]
    by (simp add: update_crc12_def Let_def idx_def [symmetric] bit.conj_xor_distrib2 masked t)
qed

definition crc12_remainder :: "byte list \<Rightarrow> u32" where
  "crc12_remainder bs = fold (\<lambda>d r. crc12_steps (r XOR push_bit 4 (ucast d))) bs 0"

lemma fold_update_crc12: "fold (\<lambda>d crcv. update_crc12 crcv d) bs r AND 0xfff = fold (\<lambda>d r. crc12_steps (r XOR push_bit 4 (ucast d))) bs (r AND 0xfff)"
proof (induction bs arbitrary: r)
  case (Cons b bs)
  then show ?case by (simp only: fold.simps comp_apply update_crc12_steps)
qed simp

lemma calc_crc12_remainder: "calc_crc12 key extra = crc12_remainder (take 16 key @ [extra])"
  using fold_update_crc12 [of "take 16 key @ [extra]" 0] by (simp add: calc_crc12_def crc12_remainder_def)

lemma crc12_check: "fold (\<lambda>d crcv. update_crc12 crcv d) [0x31, 0x32, 0x33, 0x34, 0x35, 0x36, 0x37, 0x38, 0x39] 0 AND 0xfff = 0xf1a"
  by (simp add: update_crc12_def crc12_table_def)

section \<open>Properties\<close>

text \<open>C38: Three words and 32 bits determine each other: the decoder accepts three indices of the list exactly when the
  encoder writes them for the number it returns, so its check rejects every triple whose value does not
  fit in 32 bits, and every number has its triple.\<close>

theorem word_triples_exact:
  assumes "unat w1 < 1626" and "unat w2 < 1626" and "unat w3 < 1626"
  shows "(words_to_number 1626 w1 w2 w3 = Some v \<longleftrightarrow> number_to_words 1626 v = (w1, w2, w3))
    \<and> (words_to_number 1626 w1 w2 w3 = None \<longleftrightarrow> 2 ^ 32 \<le> unat w1 + 1626 * ((1626 - unat w1 + unat w2) mod 1626)
         + 1626 * 1626 * ((1626 - unat w2 + unat w3) mod 1626))"
proof -
  define V where "V = triple_value (unat w1) (unat w2) (unat w3)"
  have "words_to_number 1626 w1 w2 w3 = None \<longleftrightarrow> 2 ^ 32 \<le> V"
  proof (cases "V < 2 ^ 32")
    case True
    then have "unat (word_of_nat V :: u32) = V" unfolding unat_of_nat take_bit_eq_mod by simp
    then have "words_to_number 1626 w1 w2 w3 = Some (word_of_nat V)" by (simp only: words_to_number_eq [OF assms] V_def)
    then show ?thesis using True by simp
  next
    case False
    then have "words_to_number 1626 w1 w2 w3 \<noteq> Some v" for v
      unfolding words_to_number_eq [OF assms] V_def using unat_u32_lt [of v] by linarith
    then show ?thesis using False by (cases "words_to_number 1626 w1 w2 w3") auto
  qed
  then show ?thesis using triple_code [OF assms] by (simp only: V_def triple_value_def)
qed

theorem word_triples_exact_witness:
  "(words_to_number 1626 1625 0 0 = Some 1625 \<longleftrightarrow> number_to_words 1626 1625 = (1625, 0, 0))
    \<and> words_to_number 1626 0 0 1625 = None"
  using word_triples_exact [of 1625 0 0 1625] word_triples_exact [of 0 0 1625 0] by simp

text \<open>C39: The checksum of a seed of 14 words is the remainder that the division by the polynomial \<open>0x1987\<close>, bit by bit,
  leaves of the 16 bytes and the extra byte; the check value that the comment on the table gives is right.\<close>

theorem crc12_is_remainder:
  "calc_crc12 key extra = crc12_remainder (take 16 key @ [extra])
   \<and> crc12_remainder [0x31, 0x32, 0x33, 0x34, 0x35, 0x36, 0x37, 0x38, 0x39] = 0xf1a"
proof -
  have "crc12_remainder [0x31, 0x32, 0x33, 0x34, 0x35, 0x36, 0x37, 0x38, 0x39] = 0xf1a"
    using crc12_check fold_update_crc12 [of "[0x31, 0x32, 0x33, 0x34, 0x35, 0x36, 0x37, 0x38, 0x39]" 0]
    by (simp only: crc12_remainder_def and_zero_eq zero_and_eq)
  then show ?thesis using calc_crc12_remainder by blast
qed

text \<open>The 20 bits that the decoder keeps of the last two words do not determine them.\<close>

lemma last_words_not_unique:
  "let val = \<lambda>w1 w2. (w1 + 1626 * (((1626 - w1) + w2) mod 1626)) AND 0xfffff :: u32 in val 0 0 = val 1432 450"
  by (simp add: Let_def)

end
