(* ===== verification/WordCheck.thy ===== *)
theory WordCheck
  imports Mnemonics
begin

text \<open>
  A check of a list of words by evaluation: it has no blank or control character, no word shorter than
  the prefix, and no two words with the same prefix. The prefixes are coded as numbers,
  which are told apart bit by bit. \<open>checked_language\<close> shows that the constructor of a
  language with such a list returns.
\<close>

section \<open>Checking a list of words\<close>

text \<open>A number for the first \<open>n\<close> characters of a word, from the six low bits of each byte, the last byte first.\<close>

definition bit_on :: "bool \<Rightarrow> num \<Rightarrow> num" where
  "bit_on b m = (if b then num.Bit1 m else num.Bit0 m)"

lemma bit_on_simps: "bit_on True m = num.Bit1 m" "bit_on False m = num.Bit0 m"
  by (simp_all add: bit_on_def)

definition char_code_on :: "char \<Rightarrow> num \<Rightarrow> num" where
  "char_code_on c m = bit_on (digit0 c) (bit_on (digit1 c) (bit_on (digit2 c) (bit_on (digit3 c) (bit_on (digit4 c) (bit_on (digit5 c) m)))))"

primrec word_code :: "string \<Rightarrow> num \<Rightarrow> num" where
  "word_code [] m = m"
| "word_code (c # cs) m = word_code cs (char_code_on c m)"

primrec prefix_code :: "string \<Rightarrow> nat \<Rightarrow> num \<Rightarrow> num" where
  "prefix_code [] n m = m"
| "prefix_code (c # cs) n m =
     (if digit7 c \<and> \<not> digit6 c then prefix_code cs n (char_code_on c m)
      else case n of 0 \<Rightarrow> m | Suc k \<Rightarrow> prefix_code cs k (char_code_on c m))"

lemma prefix_code_eval:
  "prefix_code (Char b0 b1 b2 b3 b4 b5 False True # cs) n m
     = prefix_code cs n (bit_on b0 (bit_on b1 (bit_on b2 (bit_on b3 (bit_on b4 (bit_on b5 m))))))"
  "prefix_code (Char b0 b1 b2 b3 b4 b5 b6 False # cs) (Suc n) m
     = prefix_code cs n (bit_on b0 (bit_on b1 (bit_on b2 (bit_on b3 (bit_on b4 (bit_on b5 m))))))"
  "prefix_code (Char b0 b1 b2 b3 b4 b5 True True # cs) (Suc n) m
     = prefix_code cs n (bit_on b0 (bit_on b1 (bit_on b2 (bit_on b3 (bit_on b4 (bit_on b5 m))))))"
  "prefix_code (Char b0 b1 b2 b3 b4 b5 b6 False # cs) 0 m = m"
  "prefix_code (Char b0 b1 b2 b3 b4 b5 True True # cs) 0 m = m"
  by (simp_all add: char_code_on_def)

text \<open>No control character, blank or zero byte, and not the middle of a character at the start.\<close>

definition plain_char :: "char \<Rightarrow> bool" where
  "plain_char c \<longleftrightarrow> digit7 c \<or> digit6 c \<or> digit5 c \<and> digit0 c"

primrec plain_chars :: "string \<Rightarrow> bool" where
  "plain_chars [] = True"
| "plain_chars (c # cs) = (plain_char c \<and> plain_chars cs)"

primrec long_enough :: "nat \<Rightarrow> string \<Rightarrow> bool" where
  "long_enough 0 w = True"
| "long_enough (Suc n) w = (case w of [] \<Rightarrow> False | c # cs \<Rightarrow> long_enough n cs)"

text \<open>Numbers are told apart by sorting them into two lists by one bit after the other; at most one of them ends
  at each bit.\<close>

function (sequential) radix :: "nat \<Rightarrow> num list \<Rightarrow> bool" and part :: "bool \<Rightarrow> nat \<Rightarrow> num list \<Rightarrow> num list \<Rightarrow> num list \<Rightarrow> bool" where
  "radix n [] = True"
| "radix n [x] = True"
| "radix 0 (x # y # zs) = False"
| "radix (Suc n) (x # y # zs) = part False n (x # y # zs) [] []"
| "part ended n [] zs us = (radix n zs \<and> radix n us)"
| "part ended n (num.Bit1 b # xs) zs us = part ended n xs zs (b # us)"
| "part ended n (num.Bit0 b # xs) zs us = part ended n xs (b # zs) us"
| "part False n (num.One # xs) zs us = part True n xs zs us"
| "part True n (num.One # xs) zs us = False"
  by pat_completeness auto
termination
  by (relation "inv_image (less_than <*lex*> less_than)
    (\<lambda>s. case s of Inl (n, xs) \<Rightarrow> (2 * n, 0) | Inr (ended, n, xs, zs, us) \<Rightarrow> (2 * n + 1, length xs))") auto

lemma radix_distinct:
  "radix n xs \<Longrightarrow> distinct xs"
  "part ended n xs zs us \<Longrightarrow> distinct (xs @ map num.Bit0 zs @ map num.Bit1 us @ (if ended then [num.One] else []))"
  by (induction n xs and ended n xs zs us rule: radix_part.induct) (auto simp: distinct_map inj_on_def)

section \<open>When the check is enough\<close>

lemma isspace_not_plain: "plain_char c \<Longrightarrow> \<not> isspace c \<and> c \<noteq> CHR 0x00"
proof -
  assume "plain_char c"
  moreover obtain b0 b1 b2 b3 b4 b5 b6 b7 where c: "c = Char b0 b1 b2 b3 b4 b5 b6 b7" by (cases c)
  ultimately have "b7 \<or> b6 \<or> b5 \<and> b0" by (simp add: plain_char_def)
  then show ?thesis unfolding c isspace_def char_code_def
    by (auto simp: of_char_Char)
qed

lemma bit_of_char: "bit (of_char c :: byte) 7 \<longleftrightarrow> digit7 c" "bit (of_char c :: byte) 6 \<longleftrightarrow> digit6 c"
  unfolding of_char_def bit_horner_sum_bit_iff by simp_all

lemma continuation_bits: "utf8_continuation c \<longleftrightarrow> digit7 c \<and> \<not> digit6 c"
proof -
  have "(0xc0 :: byte) = push_bit 6 (mask 2)" "(0x80 :: byte) = push_bit 7 1" by (simp_all add: mask_eq_exp_minus_1 push_bit_eq_mult)
  then have bits: "bit (0xc0 :: byte) n \<longleftrightarrow> n = 6 \<or> n = 7" "bit (0x80 :: byte) n \<longleftrightarrow> n = 7" for n
    by (auto simp only: bit_push_bit_iff bit_mask_iff bit_1_iff possible_bit_word) simp_all
  have "(x = y) \<longleftrightarrow> (\<forall>n. bit x n \<longleftrightarrow> bit y n)" for x y :: byte by (auto intro: bit_eqI)
  then have "utf8_continuation c \<longleftrightarrow> (\<forall>n. bit (of_char c :: byte) n \<and> (n = 6 \<or> n = 7) \<longleftrightarrow> n = 7)"
    by (simp only: utf8_continuation_def bit_and_iff bits)
  also have "\<dots> \<longleftrightarrow> bit (of_char c :: byte) 7 \<and> \<not> bit (of_char c :: byte) 6" by (auto dest: spec [of _ 6] spec [of _ 7])
  finally show ?thesis by (simp only: bit_of_char)
qed

lemma word_code_append: "word_code (xs @ ys) m = word_code ys (word_code xs m)"
  by (induction xs arbitrary: m) simp_all

lemma utf8prefix_empty: "utf8prefix [] n = []"
  by (cases n) simp_all

lemma prefix_code_rest:
  "CHR 0x00 \<notin> set w \<Longrightarrow>
     prefix_code w n m = word_code (takeWhile utf8_continuation w @ utf8prefix (dropWhile utf8_continuation w) n) m"
proof (induction w arbitrary: n m)
  case (Cons c w)
  then show ?case by (cases "utf8_continuation c"; cases n) (auto simp: continuation_bits [symmetric] word_code_append)
qed (simp add: utf8prefix_empty)

lemma prefix_code_eq: "CHR 0x00 \<notin> set w \<Longrightarrow> w = [] \<or> \<not> utf8_continuation (hd w) \<Longrightarrow> prefix_code w n m = word_code (utf8prefix w n) m"
  by (cases w) (simp_all add: prefix_code_rest del: prefix_code.simps)

text \<open>Whether a word starts with a letter of the block that UTF-8 writes with a first byte from \<open>0xD0\<close> to \<open>0xDF\<close>.\<close>

definition cyrillic_start :: "char \<Rightarrow> bool" where
  "cyrillic_start c \<longleftrightarrow> digit7 c \<and> digit6 c \<and> \<not> digit5 c \<and> digit4 c"

definition word_ok :: "bool \<Rightarrow> nat \<Rightarrow> string \<Rightarrow> bool" where
  "word_ok cyrillic n w \<longleftrightarrow> (case w of [] \<Rightarrow> False | c # cs \<Rightarrow> \<not> (digit7 c \<and> \<not> digit6 c) \<and> cyrillic_start c = cyrillic)
     \<and> plain_chars w \<and> long_enough n w"

lemma long_enough_length: "long_enough n w \<longleftrightarrow> n \<le> length w"
  by (induction n arbitrary: w) (auto split: list.split)

lemma word_ok_plain: "word_ok cyrillic n w \<Longrightarrow> plain_word w \<and> n \<le> length w \<and> prefix_code w m num.One = word_code (utf8prefix w m) num.One"
proof -
  assume ok: "word_ok cyrillic n w"
  have "plain_chars v \<Longrightarrow> list_all (\<lambda>c. \<not> isspace c \<and> c \<noteq> CHR 0x00) v" for v
    by (induction v) (auto dest: isspace_not_plain)
  then have plain: "plain_word w" using ok by (auto simp: word_ok_def plain_word_def split: list.splits)
  then have "CHR 0x00 \<notin> set w" by (auto simp: plain_word_def list_all_iff)
  moreover have "\<not> utf8_continuation (hd w)" using ok by (auto simp: word_ok_def continuation_bits split: list.splits)
  ultimately show ?thesis using plain ok by (simp add: prefix_code_eq word_ok_def long_enough_length)
qed

lemma word_ok_start: "word_ok cyrillic n w \<Longrightarrow> cyrillic_start (hd w) = cyrillic"
  by (cases w) (simp_all add: word_ok_def)

text \<open>The check of a part of a list.\<close>

definition part_ok :: "bool \<Rightarrow> nat \<Rightarrow> nat \<Rightarrow> string list \<Rightarrow> bool" where
  "part_ok cyrillic l m ws \<longleftrightarrow> list_all (word_ok cyrillic l) ws \<and> length ws = m"

definition codes :: "nat \<Rightarrow> string list \<Rightarrow> num list" where
  "codes n ws = map (\<lambda>w. prefix_code w n num.One) ws"

lemma codes_append: "codes n (xs @ ys) = codes n xs @ codes n ys"
  by (simp add: codes_def)

lemma checked_language:
  assumes "part_ok cyrillic (if short then 0 else n) 1626 words" and codes: "radix k (codes n words)" and p: "unat p = n"
  shows "\<exists>lang. populate_maps short False (Language_Base name english_name words p) = Some lang" and "list_all plain_word words"
proof -
  have s: "length words = 1626" "list_all (word_ok cyrillic (if short then 0 else n)) words"
    using assms(1) by (simp_all add: part_ok_def)
  have ok: "plain_word w" "(if short then 0 else n) \<le> length w" "prefix_code w m num.One = word_code (utf8prefix w m) num.One"
    if "w \<in> set words" for w m using word_ok_plain [of _ _ w m] s(2) that by (auto simp: list_all_iff)
  then show "list_all plain_word words" by (simp add: list_all_iff)
  have "trimmed_word w p = utf8prefix w n" if "w \<in> set words" for w
    unfolding p [symmetric] using ok(1) [OF that] by (intro trimmed_word_eq) (auto simp: plain_word_def list_all_iff)
  then have "codes n words = map (\<lambda>t. word_code t num.One) (map (\<lambda>w. trimmed_word w p) words)" using ok(3) by (simp add: codes_def)
  then have "distinct (map (\<lambda>w. trimmed_word w p) words)"
    using radix_distinct(1) [OF codes] by (simp only: distinct_map)
  then show "\<exists>lang. populate_maps short False (Language_Base name english_name words p) = Some lang"
    unfolding populate_maps_iff p using s(1) ok(2) by (auto split: if_splits)
qed

text \<open>What the constructor of a language gives: the language, with its names and its words.\<close>

definition constructed :: "bool \<Rightarrow> Language option \<Rightarrow> string \<Rightarrow> string \<Rightarrow> string list \<Rightarrow> bool" where
  "constructed cyrillic l name english_name words \<longleftrightarrow> (\<exists>lang. l = Some lang \<and> seed_language lang \<and> word_list lang = words
     \<and> language_name lang = name \<and> english_language_name lang = english_name \<and> list_all (\<lambda>w. cyrillic_start (hd w) = cyrillic) words)"

lemma constructor_returns:
  assumes "part_ok cyrillic (if short then 0 else n) 1626 words" and "radix k (codes n words)" and "unat p = n"
  shows "constructed cyrillic (populate_maps short False (Language_Base name english_name words p)) name english_name words"
proof -
  have "list_all (\<lambda>w. cyrillic_start (hd w) = cyrillic) words"
    using assms(1) word_ok_start by (auto simp: part_ok_def list_all_iff)
  then show ?thesis using checked_language [OF assms] populated_language unfolding constructed_def by metis
qed

lemma constructed_language: "constructed cyrillic l name english_name words \<Longrightarrow> seed_language (the l)"
  by (auto simp: constructed_def)

lemma part_ok_append: "part_ok cyrillic l i xs \<Longrightarrow> part_ok cyrillic l j ys \<Longrightarrow> part_ok cyrillic l (i + j) (xs @ ys)"
  by (simp add: part_ok_def)

lemma length_plus_1: "length (x # xs) = length xs + 1"
  by simp

lemmas part_eval = part_ok_def list.pred_inject list.size(3) length_plus_1 add_0 one_add_one numeral_plus_one add_num_simps
  word_ok_def cyrillic_start_def list.case char.sel plain_chars.simps plain_char_def long_enough.simps simp_thms refl

lemmas code_eval = codes_def list.map append_Cons append_Nil prefix_code_eval prefix_code.simps(1) bit_on_simps radix.simps part.simps simp_thms

end
