(* ===== verification/WordsSorted.thy ===== *)
theory WordsSorted
  imports WordCheck
begin

text \<open>
  The word lists of \<open>english.h\<close>, \<open>dutch.h\<close>, \<open>french.h\<close>, \<open>italian.h\<close> and \<open>esperanto.h\<close> in
  \<open>src/mnemonics\<close>, and their constructors. 
\<close>

section \<open>English\<close>

definition english_words_1 :: "string list" where
  "english_words_1 = [
    ''abbey'', ''abducts'', ''ability'', ''ablaze'', ''abnormal'', ''abort'', ''abrasive'', ''absorb'', ''abyss'', ''academy'', ''aces'',
    ''aching'', ''acidic'', ''acoustic'', ''acquire'', ''across'', ''actress'', ''acumen'', ''adapt'', ''addicted'', ''adept'', ''adhesive'',
    ''adjust'', ''adopt'', ''adrenalin'', ''adult'', ''adventure'', ''aerial'', ''afar'', ''affair'', ''afield'', ''afloat'', ''afoot'',
    ''afraid'', ''after'', ''against'', ''agenda'', ''aggravate'', ''agile'', ''aglow'', ''agnostic'', ''agony'', ''agreed'', ''ahead'',
    ''aided'', ''ailments'', ''aimless'', ''airport'', ''aisle'', ''ajar'', ''akin'', ''alarms'', ''album'', ''alchemy'', ''alerts'',
    ''algebra'', ''alkaline'', ''alley'', ''almost'', ''aloof'', ''alpine'', ''already'', ''also'', ''altitude'', ''alumni'', ''always'',
    ''amaze'', ''ambush'', ''amended'', ''amidst'', ''ammo'', ''amnesty'', ''among'', ''amply'', ''amused'', ''anchor'', ''android'',
    ''anecdote'', ''angled'', ''ankle'', ''annoyed'', ''answers'', ''antics'', ''anvil'', ''anxiety'', ''anybody'', ''apart'', ''apex'',
    ''aphid'', ''aplomb'', ''apology'', ''apply'', ''apricot'', ''aptitude'', ''aquarium'', ''arbitrary'', ''archer'', ''ardent'', ''arena'',
    ''argue'', ''arises'', ''army'', ''around'', ''arrow'', ''arsenic'', ''artistic'', ''ascend'', ''ashtray'', ''aside'', ''asked'',
    ''asleep'', ''aspire'', ''assorted'', ''asylum'', ''athlete'', ''atlas'', ''atom'', ''atrium'', ''attire'', ''auburn'', ''auctions'',
    ''audio'', ''august'', ''aunt'', ''austere'', ''autumn'', ''avatar'', ''avidly'', ''avoid'', ''awakened'', ''awesome'', ''awful'',
    ''awkward'', ''awning'', ''awoken'', ''axes'', ''axis'', ''axle'', ''aztec'', ''azure'', ''baby'', ''bacon'', ''badge'', ''baffles'',
    ''bagpipe'', ''bailed'', ''bakery'', ''balding'', ''bamboo'', ''banjo'', ''baptism'', ''basin'', ''batch'', ''bawled'', ''bays'',
    ''because'', ''beer'', ''befit'', ''begun'', ''behind'', ''being'', ''below'', ''bemused'', ''benches'', ''berries'', ''bested'',
    ''betting'', ''bevel'', ''beware'', ''beyond'', ''bias'', ''bicycle'', ''bids'', ''bifocals'', ''biggest'', ''bikini'', ''bimonthly'',
    ''binocular'', ''biology'', ''biplane'', ''birth'', ''biscuit'', ''bite'', ''biweekly'', ''blender'', ''blip'', ''bluntly'', ''boat'',
    ''bobsled'', ''bodies'', ''bogeys'', ''boil'', ''boldly'', ''bomb'', ''border'', ''boss'', ''both'', ''bounced'', ''bovine'',
    ''bowling'', ''boxes'', ''boyfriend'', ''broken'', ''brunt'', ''bubble'', ''buckets'', ''budget'', ''buffet'', ''bugs'', ''building'',
    ''bulb'', ''bumper'', ''bunch'', ''business'', ''butter'', ''buying'', ''buzzer'', ''bygones'', ''byline'', ''bypass'', ''cabin'',
    ''cactus'', ''cadets'', ''cafe'', ''cage'', ''cajun'', ''cake'', ''calamity'', ''camp'', ''candy'', ''casket'', ''catch'', ''cause'',
    ''cavernous'', ''cease'', ''cedar'', ''ceiling'', ''cell'', ''cement'', ''cent'', ''certain'', ''chlorine'', ''chrome'', ''cider'',
    ''cigar'', ''cinema'', ''circle'', ''cistern'', ''citadel'', ''civilian'', ''claim'', ''click'', ''clue'', ''coal'', ''cobra'',
    ''cocoa'', ''code'', ''coexist'', ''coffee'', ''cogs'', ''cohesive'', ''coils'', ''colony'', ''comb'', ''cool'', ''copy'', ''corrode'',
    ''costume'', ''cottage'', ''cousin'', ''cowl'', ''criminal'', ''cube'', ''cucumber'', ''cuddled'', ''cuffs'', ''cuisine'', ''cunning'',
    ''cupcake'', ''custom'', ''cycling'', ''cylinder'', ''cynical'', ''dabbing'', ''dads'', ''daft'', ''dagger'', ''daily'', ''damp'',
    ''dangerous'', ''dapper'', ''darted'', ''dash'', ''dating'', ''dauntless'', ''dawn'', ''daytime'', ''dazed'', ''debut'', ''decay'',
    ''dedicated'', ''deepest'', ''deftly'', ''degrees'', ''dehydrate'', ''deity'', ''dejected'', ''delayed'', ''demonstrate'', ''dented'',
    ''deodorant'', ''depth'', ''desk'', ''devoid'', ''dewdrop'', ''dexterity'', ''dialect'', ''dice'', ''diet'', ''different'', ''digit'',
    ''dilute'', ''dime'', ''dinner'', ''diode'', ''diplomat'']"

definition english_words_2 :: "string list" where
  "english_words_2 = [
    ''directed'', ''distance'', ''ditch'', ''divers'', ''dizzy'', ''doctor'', ''dodge'', ''does'', ''dogs'', ''doing'', ''dolphin'',
    ''domestic'', ''donuts'', ''doorway'', ''dormant'', ''dosage'', ''dotted'', ''double'', ''dove'', ''down'', ''dozen'', ''dreams'',
    ''drinks'', ''drowning'', ''drunk'', ''drying'', ''dual'', ''dubbed'', ''duckling'', ''dude'', ''duets'', ''duke'', ''dullness'',
    ''dummy'', ''dunes'', ''duplex'', ''duration'', ''dusted'', ''duties'', ''dwarf'', ''dwelt'', ''dwindling'', ''dying'', ''dynamite'',
    ''dyslexic'', ''each'', ''eagle'', ''earth'', ''easy'', ''eating'', ''eavesdrop'', ''eccentric'', ''echo'', ''eclipse'', ''economics'',
    ''ecstatic'', ''eden'', ''edgy'', ''edited'', ''educated'', ''eels'', ''efficient'', ''eggs'', ''egotistic'', ''eight'', ''either'',
    ''eject'', ''elapse'', ''elbow'', ''eldest'', ''eleven'', ''elite'', ''elope'', ''else'', ''eluded'', ''emails'', ''ember'', ''emerge'',
    ''emit'', ''emotion'', ''empty'', ''emulate'', ''energy'', ''enforce'', ''enhanced'', ''enigma'', ''enjoy'', ''enlist'', ''enmity'',
    ''enough'', ''enraged'', ''ensign'', ''entrance'', ''envy'', ''epoxy'', ''equip'', ''erase'', ''erected'', ''erosion'', ''error'',
    ''eskimos'', ''espionage'', ''essential'', ''estate'', ''etched'', ''eternal'', ''ethics'', ''etiquette'', ''evaluate'', ''evenings'',
    ''evicted'', ''evolved'', ''examine'', ''excess'', ''exhale'', ''exit'', ''exotic'', ''exquisite'', ''extra'', ''exult'', ''fabrics'',
    ''factual'', ''fading'', ''fainted'', ''faked'', ''fall'', ''family'', ''fancy'', ''farming'', ''fatal'', ''faulty'', ''fawns'',
    ''faxed'', ''fazed'', ''feast'', ''february'', ''federal'', ''feel'', ''feline'', ''females'', ''fences'', ''ferry'', ''festival'',
    ''fetches'', ''fever'', ''fewest'', ''fiat'', ''fibula'', ''fictional'', ''fidget'', ''fierce'', ''fifteen'', ''fight'', ''films'',
    ''firm'', ''fishing'', ''fitting'', ''five'', ''fixate'', ''fizzle'', ''fleet'', ''flippant'', ''flying'', ''foamy'', ''focus'',
    ''foes'', ''foggy'', ''foiled'', ''folding'', ''fonts'', ''foolish'', ''fossil'', ''fountain'', ''fowls'', ''foxes'', ''foyer'',
    ''framed'', ''friendly'', ''frown'', ''fruit'', ''frying'', ''fudge'', ''fuel'', ''fugitive'', ''fully'', ''fuming'', ''fungal'',
    ''furnished'', ''fuselage'', ''future'', ''fuzzy'', ''gables'', ''gadget'', ''gags'', ''gained'', ''galaxy'', ''gambit'', ''gang'',
    ''gasp'', ''gather'', ''gauze'', ''gave'', ''gawk'', ''gaze'', ''gearbox'', ''gecko'', ''geek'', ''gels'', ''gemstone'', ''general'',
    ''geometry'', ''germs'', ''gesture'', ''getting'', ''geyser'', ''ghetto'', ''ghost'', ''giant'', ''giddy'', ''gifts'', ''gigantic'',
    ''gills'', ''gimmick'', ''ginger'', ''girth'', ''giving'', ''glass'', ''gleeful'', ''glide'', ''gnaw'', ''gnome'', ''goat'', ''goblet'',
    ''godfather'', ''goes'', ''goggles'', ''going'', ''goldfish'', ''gone'', ''goodbye'', ''gopher'', ''gorilla'', ''gossip'', ''gotten'',
    ''gourmet'', ''governing'', ''gown'', ''greater'', ''grunt'', ''guarded'', ''guest'', ''guide'', ''gulp'', ''gumball'', ''guru'',
    ''gusts'', ''gutter'', ''guys'', ''gymnast'', ''gypsy'', ''gyrate'', ''habitat'', ''hacksaw'', ''haggled'', ''hairy'', ''hamburger'',
    ''happens'', ''hashing'', ''hatchet'', ''haunted'', ''having'', ''hawk'', ''haystack'', ''hazard'', ''hectare'', ''hedgehog'', ''heels'',
    ''hefty'', ''height'', ''hemlock'', ''hence'', ''heron'', ''hesitate'', ''hexagon'', ''hickory'', ''hiding'', ''highway'', ''hijack'',
    ''hiker'', ''hills'', ''himself'', ''hinder'', ''hippo'', ''hire'', ''history'', ''hitched'', ''hive'', ''hoax'', ''hobby'', ''hockey'',
    ''hoisting'', ''hold'', ''honked'', ''hookup'', ''hope'', ''hornet'', ''hospital'', ''hotel'', ''hounded'', ''hover'', ''howls'',
    ''hubcaps'', ''huddle'', ''huge'', ''hull'', ''humid'', ''hunter'', ''hurried'', ''husband'', ''huts'', ''hybrid'', ''hydrogen'',
    ''hyper'', ''iceberg'', ''icing'']"

definition english_words_3 :: "string list" where
  "english_words_3 = [
    ''icon'', ''identity'', ''idiom'', ''idled'', ''idols'', ''igloo'', ''ignore'', ''iguana'', ''illness'', ''imagine'', ''imbalance'',
    ''imitate'', ''impel'', ''inactive'', ''inbound'', ''incur'', ''industrial'', ''inexact'', ''inflamed'', ''ingested'', ''initiate'',
    ''injury'', ''inkling'', ''inline'', ''inmate'', ''innocent'', ''inorganic'', ''input'', ''inquest'', ''inroads'', ''insult'',
    ''intended'', ''inundate'', ''invoke'', ''inwardly'', ''ionic'', ''irate'', ''iris'', ''irony'', ''irritate'', ''island'', ''isolated'',
    ''issued'', ''italics'', ''itches'', ''items'', ''itinerary'', ''itself'', ''ivory'', ''jabbed'', ''jackets'', ''jaded'', ''jagged'',
    ''jailed'', ''jamming'', ''january'', ''jargon'', ''jaunt'', ''javelin'', ''jaws'', ''jazz'', ''jeans'', ''jeers'', ''jellyfish'',
    ''jeopardy'', ''jerseys'', ''jester'', ''jetting'', ''jewels'', ''jigsaw'', ''jingle'', ''jittery'', ''jive'', ''jobs'', ''jockey'',
    ''jogger'', ''joining'', ''joking'', ''jolted'', ''jostle'', ''journal'', ''joyous'', ''jubilee'', ''judge'', ''juggled'', ''juicy'',
    ''jukebox'', ''july'', ''jump'', ''junk'', ''jury'', ''justice'', ''juvenile'', ''kangaroo'', ''karate'', ''keep'', ''kennel'', ''kept'',
    ''kernels'', ''kettle'', ''keyboard'', ''kickoff'', ''kidneys'', ''king'', ''kiosk'', ''kisses'', ''kitchens'', ''kiwi'', ''knapsack'',
    ''knee'', ''knife'', ''knowledge'', ''knuckle'', ''koala'', ''laboratory'', ''ladder'', ''lagoon'', ''lair'', ''lakes'', ''lamb'',
    ''language'', ''laptop'', ''large'', ''last'', ''later'', ''launching'', ''lava'', ''lawsuit'', ''layout'', ''lazy'', ''lectures'',
    ''ledge'', ''leech'', ''left'', ''legion'', ''leisure'', ''lemon'', ''lending'', ''leopard'', ''lesson'', ''lettuce'', ''lexicon'',
    ''liar'', ''library'', ''licks'', ''lids'', ''lied'', ''lifestyle'', ''light'', ''likewise'', ''lilac'', ''limits'', ''linen'', ''lion'',
    ''lipstick'', ''liquid'', ''listen'', ''lively'', ''loaded'', ''lobster'', ''locker'', ''lodge'', ''lofty'', ''logic'', ''loincloth'',
    ''long'', ''looking'', ''lopped'', ''lordship'', ''losing'', ''lottery'', ''loudly'', ''love'', ''lower'', ''loyal'', ''lucky'',
    ''luggage'', ''lukewarm'', ''lullaby'', ''lumber'', ''lunar'', ''lurk'', ''lush'', ''luxury'', ''lymph'', ''lynx'', ''lyrics'',
    ''macro'', ''madness'', ''magically'', ''mailed'', ''major'', ''makeup'', ''malady'', ''mammal'', ''maps'', ''masterful'', ''match'',
    ''maul'', ''maverick'', ''maximum'', ''mayor'', ''maze'', ''meant'', ''mechanic'', ''medicate'', ''meeting'', ''megabyte'', ''melting'',
    ''memoir'', ''menu'', ''merger'', ''mesh'', ''metro'', ''mews'', ''mice'', ''midst'', ''mighty'', ''mime'', ''mirror'', ''misery'',
    ''mittens'', ''mixture'', ''moat'', ''mobile'', ''mocked'', ''mohawk'', ''moisture'', ''molten'', ''moment'', ''money'', ''moon'',
    ''mops'', ''morsel'', ''mostly'', ''motherly'', ''mouth'', ''movement'', ''mowing'', ''much'', ''muddy'', ''muffin'', ''mugged'',
    ''mullet'', ''mumble'', ''mundane'', ''muppet'', ''mural'', ''musical'', ''muzzle'', ''myriad'', ''mystery'', ''myth'', ''nabbing'',
    ''nagged'', ''nail'', ''names'', ''nanny'', ''napkin'', ''narrate'', ''nasty'', ''natural'', ''nautical'', ''navy'', ''nearby'',
    ''necklace'', ''needed'', ''negative'', ''neither'', ''neon'', ''nephew'', ''nerves'', ''nestle'', ''network'', ''neutral'', ''never'',
    ''newt'', ''nexus'', ''nibs'', ''niche'', ''niece'', ''nifty'', ''nightly'', ''nimbly'', ''nineteen'', ''nirvana'', ''nitrogen'',
    ''nobody'', ''nocturnal'', ''nodes'', ''noises'', ''nomad'', ''noodles'', ''northern'', ''nostril'', ''noted'', ''nouns'', ''novelty'',
    ''nowhere'', ''nozzle'', ''nuance'', ''nucleus'', ''nudged'', ''nugget'', ''nuisance'', ''null'', ''number'', ''nuns'', ''nurse'',
    ''nutshell'', ''nylon'', ''oaks'', ''oars'', ''oasis'', ''oatmeal'', ''obedient'', ''object'', ''obliged'', ''obnoxious'', ''observant'',
    ''obtains'', ''obvious'', ''occur'', ''ocean'', ''october'']"

definition english_words_4 :: "string list" where
  "english_words_4 = [
    ''odds'', ''odometer'', ''offend'', ''often'', ''oilfield'', ''ointment'', ''okay'', ''older'', ''olive'', ''olympics'', ''omega'',
    ''omission'', ''omnibus'', ''onboard'', ''oncoming'', ''oneself'', ''ongoing'', ''onion'', ''online'', ''onslaught'', ''onto'',
    ''onward'', ''oozed'', ''opacity'', ''opened'', ''opposite'', ''optical'', ''opus'', ''orange'', ''orbit'', ''orchid'', ''orders'',
    ''organs'', ''origin'', ''ornament'', ''orphans'', ''oscar'', ''ostrich'', ''otherwise'', ''otter'', ''ouch'', ''ought'', ''ounce'',
    ''ourselves'', ''oust'', ''outbreak'', ''oval'', ''oven'', ''owed'', ''owls'', ''owner'', ''oxidant'', ''oxygen'', ''oyster'', ''ozone'',
    ''pact'', ''paddles'', ''pager'', ''pairing'', ''palace'', ''pamphlet'', ''pancakes'', ''paper'', ''paradise'', ''pastry'', ''patio'',
    ''pause'', ''pavements'', ''pawnshop'', ''payment'', ''peaches'', ''pebbles'', ''peculiar'', ''pedantic'', ''peeled'', ''pegs'',
    ''pelican'', ''pencil'', ''people'', ''pepper'', ''perfect'', ''pests'', ''petals'', ''phase'', ''pheasants'', ''phone'', ''phrases'',
    ''physics'', ''piano'', ''picked'', ''pierce'', ''pigment'', ''piloted'', ''pimple'', ''pinched'', ''pioneer'', ''pipeline'', ''pirate'',
    ''pistons'', ''pitched'', ''pivot'', ''pixels'', ''pizza'', ''playful'', ''pledge'', ''pliers'', ''plotting'', ''plus'', ''plywood'',
    ''poaching'', ''pockets'', ''podcast'', ''poetry'', ''point'', ''poker'', ''polar'', ''ponies'', ''pool'', ''popular'', ''portents'',
    ''possible'', ''potato'', ''pouch'', ''poverty'', ''powder'', ''pram'', ''present'', ''pride'', ''problems'', ''pruned'', ''prying'',
    ''psychic'', ''public'', ''puck'', ''puddle'', ''puffin'', ''pulp'', ''pumpkins'', ''punch'', ''puppy'', ''purged'', ''push'', ''putty'',
    ''puzzled'', ''pylons'', ''pyramid'', ''python'', ''queen'', ''quick'', ''quote'', ''rabbits'', ''racetrack'', ''radar'', ''rafts'',
    ''rage'', ''railway'', ''raking'', ''rally'', ''ramped'', ''randomly'', ''rapid'', ''rarest'', ''rash'', ''rated'', ''ravine'', ''rays'',
    ''razor'', ''react'', ''rebel'', ''recipe'', ''reduce'', ''reef'', ''refer'', ''regular'', ''reheat'', ''reinvest'', ''rejoices'',
    ''rekindle'', ''relic'', ''remedy'', ''renting'', ''reorder'', ''repent'', ''request'', ''reruns'', ''rest'', ''return'', ''reunion'',
    ''revamp'', ''rewind'', ''rhino'', ''rhythm'', ''ribbon'', ''richly'', ''ridges'', ''rift'', ''rigid'', ''rims'', ''ringing'', ''riots'',
    ''ripped'', ''rising'', ''ritual'', ''river'', ''roared'', ''robot'', ''rockets'', ''rodent'', ''rogue'', ''roles'', ''romance'',
    ''roomy'', ''roped'', ''roster'', ''rotate'', ''rounded'', ''rover'', ''rowboat'', ''royal'', ''ruby'', ''rudely'', ''ruffled'',
    ''rugged'', ''ruined'', ''ruling'', ''rumble'', ''runway'', ''rural'', ''rustled'', ''ruthless'', ''sabotage'', ''sack'', ''sadness'',
    ''safety'', ''saga'', ''sailor'', ''sake'', ''salads'', ''sample'', ''sanity'', ''sapling'', ''sarcasm'', ''sash'', ''satin'',
    ''saucepan'', ''saved'', ''sawmill'', ''saxophone'', ''sayings'', ''scamper'', ''scenic'', ''school'', ''science'', ''scoop'', ''scrub'',
    ''scuba'', ''seasons'', ''second'', ''sedan'', ''seeded'', ''segments'', ''seismic'', ''selfish'', ''semifinal'', ''sensible'',
    ''september'', ''sequence'', ''serving'', ''session'', ''setup'', ''seventh'', ''sewage'', ''shackles'', ''shelter'', ''shipped'',
    ''shocking'', ''shrugged'', ''shuffled'', ''shyness'', ''siblings'', ''sickness'', ''sidekick'', ''sieve'', ''sifting'', ''sighting'',
    ''silk'', ''simplest'', ''sincerely'', ''sipped'', ''siren'', ''situated'', ''sixteen'', ''sizes'', ''skater'', ''skew'', ''skirting'',
    ''skulls'', ''skydive'', ''slackens'', ''sleepless'', ''slid'', ''slower'', ''slug'', ''smash'', ''smelting'', ''smidgen'', ''smog'',
    ''smuggled'', ''snake'', ''sneeze'', ''sniff'', ''snout'', ''snug'', ''soapy'', ''sober'', ''soccer'', ''soda'', ''software'', ''soggy'',
    ''soil'', ''solved'', ''somewhere'', ''sonic'', ''soothe'', ''soprano'']"

definition english_words_5 :: "string list" where
  "english_words_5 = [
    ''sorry'', ''southern'', ''sovereign'', ''sowed'', ''soya'', ''space'', ''speedy'', ''sphere'', ''spiders'', ''splendid'', ''spout'',
    ''sprig'', ''spud'', ''spying'', ''square'', ''stacking'', ''stellar'', ''stick'', ''stockpile'', ''strained'', ''stunning'',
    ''stylishly'', ''subtly'', ''succeed'', ''suddenly'', ''suede'', ''suffice'', ''sugar'', ''suitcase'', ''sulking'', ''summon'',
    ''sunken'', ''superior'', ''surfer'', ''sushi'', ''suture'', ''swagger'', ''swept'', ''swiftly'', ''sword'', ''swung'', ''syllabus'',
    ''symptoms'', ''syndrome'', ''syringe'', ''system'', ''taboo'', ''tacit'', ''tadpoles'', ''tagged'', ''tail'', ''taken'', ''talent'',
    ''tamper'', ''tanks'', ''tapestry'', ''tarnished'', ''tasked'', ''tattoo'', ''taunts'', ''tavern'', ''tawny'', ''taxi'', ''teardrop'',
    ''technical'', ''tedious'', ''teeming'', ''tell'', ''template'', ''tender'', ''tepid'', ''tequila'', ''terminal'', ''testing'',
    ''tether'', ''textbook'', ''thaw'', ''theatrics'', ''thirsty'', ''thorn'', ''threaten'', ''thumbs'', ''thwart'', ''ticket'', ''tidy'',
    ''tiers'', ''tiger'', ''tilt'', ''timber'', ''tinted'', ''tipsy'', ''tirade'', ''tissue'', ''titans'', ''toaster'', ''tobacco'',
    ''today'', ''toenail'', ''toffee'', ''together'', ''toilet'', ''token'', ''tolerant'', ''tomorrow'', ''tonic'', ''toolbox'', ''topic'',
    ''torch'', ''tossed'', ''total'', ''touchy'', ''towel'', ''toxic'', ''toyed'', ''trash'', ''trendy'', ''tribal'', ''trolling'',
    ''truth'', ''trying'', ''tsunami'', ''tubes'', ''tucks'', ''tudor'', ''tuesday'', ''tufts'', ''tugs'', ''tuition'', ''tulips'',
    ''tumbling'', ''tunnel'', ''turnip'', ''tusks'', ''tutor'', ''tuxedo'', ''twang'', ''tweezers'', ''twice'', ''twofold'', ''tycoon'',
    ''typist'', ''tyrant'', ''ugly'', ''ulcers'', ''ultimate'', ''umbrella'', ''umpire'', ''unafraid'', ''unbending'', ''uncle'', ''under'',
    ''uneven'', ''unfit'', ''ungainly'', ''unhappy'', ''union'', ''unjustly'', ''unknown'', ''unlikely'', ''unmask'', ''unnoticed'',
    ''unopened'', ''unplugs'', ''unquoted'', ''unrest'', ''unsafe'', ''until'', ''unusual'', ''unveil'', ''unwind'', ''unzip'', ''upbeat'',
    ''upcoming'', ''update'', ''upgrade'', ''uphill'', ''upkeep'', ''upload'', ''upon'', ''upper'', ''upright'', ''upstairs'', ''uptight'',
    ''upwards'', ''urban'', ''urchins'', ''urgent'', ''usage'', ''useful'', ''usher'', ''using'', ''usual'', ''utensils'', ''utility'',
    ''utmost'', ''utopia'', ''uttered'', ''vacation'', ''vague'', ''vain'', ''value'', ''vampire'', ''vane'', ''vapidly'', ''vary'',
    ''vastness'', ''vats'', ''vaults'', ''vector'', ''veered'', ''vegan'', ''vehicle'', ''vein'', ''velvet'', ''venomous'', ''verification'',
    ''vessel'', ''veteran'', ''vexed'', ''vials'', ''vibrate'', ''victim'', ''video'', ''viewpoint'', ''vigilant'', ''viking'', ''village'',
    ''vinegar'', ''violin'', ''vipers'', ''virtual'', ''visited'', ''vitals'', ''vivid'', ''vixen'', ''vocal'', ''vogue'', ''voice'',
    ''volcano'', ''vortex'', ''voted'', ''voucher'', ''vowels'', ''voyage'', ''vulture'', ''wade'', ''waffle'', ''wagtail'', ''waist'',
    ''waking'', ''wallets'', ''wanted'', ''warped'', ''washing'', ''water'', ''waveform'', ''waxing'', ''wayside'', ''weavers'', ''website'',
    ''wedge'', ''weekday'', ''weird'', ''welders'', ''went'', ''wept'', ''were'', ''western'', ''wetsuit'', ''whale'', ''when'', ''whipped'',
    ''whole'', ''wickets'', ''width'', ''wield'', ''wife'', ''wiggle'', ''wildly'', ''winter'', ''wipeout'', ''wiring'', ''wise'',
    ''withdrawn'', ''wives'', ''wizard'', ''wobbly'', ''woes'', ''woken'', ''wolf'', ''womanly'', ''wonders'', ''woozy'', ''worry'',
    ''wounded'', ''woven'', ''wrap'', ''wrist'', ''wrong'', ''yacht'', ''yahoo'', ''yanks'', ''yard'', ''yawning'', ''yearbook'', ''yellow'',
    ''yesterday'', ''yeti'', ''yields'', ''yodel'', ''yoga'', ''younger'', ''yoyo'', ''zapped'', ''zeal'', ''zebra'', ''zero'', ''zesty'',
    ''zigzags'', ''zinger'', ''zippers'', ''zodiac'', ''zombie'', ''zones'', ''zoom'']"

abbreviation english_words :: "string list" where
  "english_words \<equiv> english_words_1 @ english_words_2 @ english_words_3 @ english_words_4 @ english_words_5"

lemmas english_words_defs = english_words_1_def english_words_2_def english_words_3_def english_words_4_def english_words_5_def

definition English :: "Language option" where
  "English = populate_maps False False (Language_Base ''English'' ''English'' english_words 3)"

lemma english_1_ok: "part_ok False (Suc (Suc (Suc 0))) 326 english_words_1"
  by (simp only: english_words_1_def part_eval)

lemma english_2_ok: "part_ok False (Suc (Suc (Suc 0))) 325 english_words_2"
  by (simp only: english_words_2_def part_eval)

lemma english_3_ok: "part_ok False (Suc (Suc (Suc 0))) 325 english_words_3"
  by (simp only: english_words_3_def part_eval)

lemma english_4_ok: "part_ok False (Suc (Suc (Suc 0))) 325 english_words_4"
  by (simp only: english_words_4_def part_eval)

lemma english_5_ok: "part_ok False (Suc (Suc (Suc 0))) 325 english_words_5"
  by (simp only: english_words_5_def part_eval)

lemma english_ok: "part_ok False (Suc (Suc (Suc 0))) 1626 english_words"
  using part_ok_append [OF english_1_ok part_ok_append [OF english_2_ok part_ok_append [OF english_3_ok part_ok_append [OF english_4_ok english_5_ok]]]]
  by simp

lemma english_codes: "radix (Suc (Suc (Suc (Suc (Suc (Suc (Suc (Suc (Suc (Suc (Suc (Suc (Suc (Suc (Suc (Suc (Suc (Suc (Suc 0))))))))))))))))))) (codes (Suc (Suc (Suc 0))) english_words)"
  unfolding codes_append by (simp only: english_words_defs code_eval)

lemma english_constructed: "constructed False English ''English'' ''English'' english_words"
  unfolding English_def by (rule constructor_returns [OF _ english_codes]) (simp_all only: if_True if_False english_ok, simp)

interpretation english: seed_language "the English"
  by (rule constructed_language [OF english_constructed])

section \<open>Dutch\<close>

definition dutch_words_1 :: "string list" where
  "dutch_words_1 = [
    ''aalglad'', ''aalscholver'', ''aambeeld'', ''aangeef'', ''aanlandig'', ''aanvaard'', ''aanwakker'', ''aapmens'', ''aarten'',
    ''abdicatie'', ''abnormaal'', ''abrikoos'', ''accu'', ''acuut'', ''adjudant'', ''admiraal'', ''advies'', ''afbidding'', ''afdracht'',
    ''affaire'', ''affiche'', ''afgang'', ''afkick'', ''afknap'', ''aflees'', ''afmijner'', ''afname'', ''afpreekt'', ''afrader'',
    ''afspeel'', ''aftocht'', ''aftrek'', ''afzijdig'', ''ahornboom'', ''aktetas'', ''akzo'', ''alchemist'', ''alcohol'', ''aldaar'',
    ''alexander'', ''alfabet'', ''alfredo'', ''alice'', ''alikruik'', ''allrisk'', ''altsax'', ''alufolie'', ''alziend'', ''amai'',
    ''ambacht'', ''ambieer'', ''amina'', ''amnestie'', ''amok'', ''ampul'', ''amuzikaal'', ''angela'', ''aniek'', ''antje'', ''antwerpen'',
    ''anya'', ''aorta'', ''apache'', ''apekool'', ''appelaar'', ''arganolie'', ''argeloos'', ''armoede'', ''arrenslee'', ''artritis'',
    ''arubaan'', ''asbak'', ''ascii'', ''asgrauw'', ''asjes'', ''asml'', ''aspunt'', ''asurn'', ''asveld'', ''aterling'', ''atomair'',
    ''atrium'', ''atsma'', ''atypisch'', ''auping'', ''aura'', ''avifauna'', ''axiaal'', ''azoriaan'', ''azteek'', ''azuur'', ''bachelor'',
    ''badderen'', ''badhotel'', ''badmantel'', ''badsteden'', ''balie'', ''ballans'', ''balvers'', ''bamibal'', ''banneling'', ''barracuda'',
    ''basaal'', ''batelaan'', ''batje'', ''beambte'', ''bedlamp'', ''bedwelmd'', ''befaamd'', ''begierd'', ''begraaf'', ''behield'',
    ''beijaard'', ''bejaagd'', ''bekaaid'', ''beks'', ''bektas'', ''belaad'', ''belboei'', ''belderbos'', ''beloerd'', ''beluchten'',
    ''bemiddeld'', ''benadeeld'', ''benijd'', ''berechten'', ''beroemd'', ''besef'', ''besseling'', ''best'', ''betichten'', ''bevind'',
    ''bevochten'', ''bevraagd'', ''bewust'', ''bidplaats'', ''biefstuk'', ''biemans'', ''biezen'', ''bijbaan'', ''bijeenkom'', ''bijfiguur'',
    ''bijkaart'', ''bijlage'', ''bijpaard'', ''bijtgaar'', ''bijweg'', ''bimmel'', ''binck'', ''bint'', ''biobak'', ''biotisch'', ''biseks'',
    ''bistro'', ''bitter'', ''bitumen'', ''bizar'', ''blad'', ''bleken'', ''blender'', ''bleu'', ''blief'', ''blijven'', ''blozen'',
    ''bock'', ''boef'', ''boei'', ''boks'', ''bolder'', ''bolus'', ''bolvormig'', ''bomaanval'', ''bombarde'', ''bomma'', ''bomtapijt'',
    ''bookmaker'', ''boos'', ''borg'', ''bosbes'', ''boshuizen'', ''bosloop'', ''botanicus'', ''bougie'', ''bovag'', ''boxspring'',
    ''braad'', ''brasem'', ''brevet'', ''brigade'', ''brinckman'', ''bruid'', ''budget'', ''buffel'', ''buks'', ''bulgaar'', ''buma'',
    ''butaan'', ''butler'', ''buuf'', ''cactus'', ''cafeetje'', ''camcorder'', ''cannabis'', ''canyon'', ''capoeira'', ''capsule'',
    ''carkit'', ''casanova'', ''catalaan'', ''ceintuur'', ''celdeling'', ''celplasma'', ''cement'', ''censeren'', ''ceramisch'',
    ''cerberus'', ''cerebraal'', ''cesium'', ''cirkel'', ''citeer'', ''civiel'', ''claxon'', ''clenbuterol'', ''clicheren'', ''clijsen'',
    ''coalitie'', ''coassistentschap'', ''coaxiaal'', ''codetaal'', ''cofinanciering'', ''cognac'', ''coltrui'', ''comfort'', ''commandant'',
    ''condensaat'', ''confectie'', ''conifeer'', ''convector'', ''copier'', ''corfu'', ''correct'', ''coup'', ''couvert'', ''creatie'',
    ''credit'', ''crematie'', ''cricket'', ''croupier'', ''cruciaal'', ''cruijff'', ''cuisine'', ''culemborg'', ''culinair'', ''curve'',
    ''cyrano'', ''dactylus'', ''dading'', ''dagblind'', ''dagje'', ''daglicht'', ''dagprijs'', ''dagranden'', ''dakdekker'', ''dakpark'',
    ''dakterras'', ''dalgrond'', ''dambord'', ''damkat'', ''damlengte'', ''damman'', ''danenberg'', ''debbie'', ''decibel'', ''defect'',
    ''deformeer'', ''degelijk'', ''degradant'', ''dejonghe'', ''dekken'', ''deppen'', ''derek'', ''derf'', ''derhalve'', ''detineren'',
    ''devalueer'', ''diaken'', ''dicht'', ''dictaat'', ''dief'', ''digitaal'', ''dijbreuk'', ''dijkmans'', ''dimbaar'', ''dinsdag'',
    ''diode'', ''dirigeer'', ''disbalans'', ''dobermann'', ''doenbaar'', ''doerak'', ''dogma'', ''dokhaven'', ''dokwerker'', ''doling'',
    ''dolphijn'', ''dolven'', ''dombo'', ''dooraderd'', ''dopeling'', ''doping'', ''draderig'', ''drama'', ''drenkbak'', ''dreumes'',
    ''drol'', ''drug'', ''duaal'', ''dublin'', ''duplicaat'', ''durven'', ''dusdanig'', ''dutchbat'', ''dutje'', ''dutten'', ''duur'',
    ''duwwerk'']"

definition dutch_words_2 :: "string list" where
  "dutch_words_2 = [
    ''dwaal'', ''dweil'', ''dwing'', ''dyslexie'', ''ecostroom'', ''ecotaks'', ''educatie'', ''eeckhout'', ''eede'', ''eemland'',
    ''eencellig'', ''eeneiig'', ''eenruiter'', ''eenwinter'', ''eerenberg'', ''eerrover'', ''eersel'', ''eetmaal'', ''efteling'', ''egaal'',
    ''egtberts'', ''eickhoff'', ''eidooier'', ''eiland'', ''eind'', ''eisden'', ''ekster'', ''elburg'', ''elevatie'', ''elfkoppig'',
    ''elfrink'', ''elftal'', ''elimineer'', ''elleboog'', ''elma'', ''elodie'', ''elsa'', ''embleem'', ''embolie'', ''emoe'', ''emonds'',
    ''emplooi'', ''enduro'', ''enfin'', ''engageer'', ''entourage'', ''entstof'', ''epileer'', ''episch'', ''eppo'', ''erasmus'',
    ''erboven'', ''erebaan'', ''erelijst'', ''ereronden'', ''ereteken'', ''erfhuis'', ''erfwet'', ''erger'', ''erica'', ''ermitage'',
    ''erna'', ''ernie'', ''erts'', ''ertussen'', ''eruitzien'', ''ervaar'', ''erven'', ''erwt'', ''esbeek'', ''escort'', ''esdoorn'',
    ''essing'', ''etage'', ''eter'', ''ethanol'', ''ethicus'', ''etholoog'', ''eufonisch'', ''eurocent'', ''evacuatie'', ''exact'',
    ''examen'', ''executant'', ''exen'', ''exit'', ''exogeen'', ''exotherm'', ''expeditie'', ''expletief'', ''expres'', ''extase'',
    ''extinctie'', ''faal'', ''faam'', ''fabel'', ''facultair'', ''fakir'', ''fakkel'', ''faliekant'', ''fallisch'', ''famke'', ''fanclub'',
    ''fase'', ''fatsoen'', ''fauna'', ''federaal'', ''feedback'', ''feest'', ''feilbaar'', ''feitelijk'', ''felblauw'', ''figurante'',
    ''fiod'', ''fitheid'', ''fixeer'', ''flap'', ''fleece'', ''fleur'', ''flexibel'', ''flits'', ''flos'', ''flow'', ''fluweel'',
    ''foezelen'', ''fokkelman'', ''fokpaard'', ''fokvee'', ''folder'', ''follikel'', ''folmer'', ''folteraar'', ''fooi'', ''foolen'',
    ''forfait'', ''forint'', ''formule'', ''fornuis'', ''fosfaat'', ''foxtrot'', ''foyer'', ''fragiel'', ''frater'', ''freak'', ''freddie'',
    ''fregat'', ''freon'', ''frijnen'', ''fructose'', ''frunniken'', ''fuiven'', ''funshop'', ''furieus'', ''fysica'', ''gadget'',
    ''galder'', ''galei'', ''galg'', ''galvlieg'', ''galzuur'', ''ganesh'', ''gaswet'', ''gaza'', ''gazelle'', ''geaaid'', ''gebiecht'',
    ''gebufferd'', ''gedijd'', ''geef'', ''geflanst'', ''gefreesd'', ''gegaan'', ''gegijzeld'', ''gegniffel'', ''gegraaid'', ''gehikt'',
    ''gehobbeld'', ''gehucht'', ''geiser'', ''geiten'', ''gekaakt'', ''gekheid'', ''gekijf'', ''gekmakend'', ''gekocht'', ''gekskap'',
    ''gekte'', ''gelubberd'', ''gemiddeld'', ''geordend'', ''gepoederd'', ''gepuft'', ''gerda'', ''gerijpt'', ''geseald'', ''geshockt'',
    ''gesierd'', ''geslaagd'', ''gesnaaid'', ''getracht'', ''getwijfel'', ''geuit'', ''gevecht'', ''gevlagd'', ''gewicht'', ''gezaagd'',
    ''gezocht'', ''ghanees'', ''giebelen'', ''giechel'', ''giepmans'', ''gips'', ''giraal'', ''gistachtig'', ''gitaar'', ''glaasje'',
    ''gletsjer'', ''gleuf'', ''glibberen'', ''glijbaan'', ''gloren'', ''gluipen'', ''gluren'', ''gluur'', ''gnoe'', ''goddelijk'',
    ''godgans'', ''godschalk'', ''godzalig'', ''goeierd'', ''gogme'', ''goklustig'', ''gokwereld'', ''gonggrijp'', ''gonje'', ''goor'',
    ''grabbel'', ''graf'', ''graveer'', ''grif'', ''grolleman'', ''grom'', ''groosman'', ''grubben'', ''gruijs'', ''grut'', ''guacamole'',
    ''guido'', ''guppy'', ''haazen'', ''hachelijk'', ''haex'', ''haiku'', ''hakhout'', ''hakken'', ''hanegem'', ''hans'', ''hanteer'',
    ''harrie'', ''hazebroek'', ''hedonist'', ''heil'', ''heineken'', ''hekhuis'', ''hekman'', ''helbig'', ''helga'', ''helwegen'',
    ''hengelaar'', ''herkansen'', ''hermafrodiet'', ''hertaald'', ''hiaat'', ''hikspoors'', ''hitachi'', ''hitparade'', ''hobo'', ''hoeve'',
    ''holocaust'', ''hond'', ''honnepon'', ''hoogacht'', ''hotelbed'', ''hufter'', ''hugo'', ''huilbier'', ''hulk'', ''humus'', ''huwbaar'',
    ''huwelijk'', ''hype'', ''iconisch'', ''idema'', ''ideogram'', ''idolaat'', ''ietje'', ''ijker'', ''ijkheid'', ''ijklijn'', ''ijkmaat'',
    ''ijkwezen'', ''ijmuiden'', ''ijsbox'', ''ijsdag'', ''ijselijk'', ''ijskoud'', ''ilse'', ''immuun'', ''impliceer'', ''impuls'',
    ''inbijten'', ''inbuigen'', ''indijken'', ''induceer'', ''indy'', ''infecteer'', ''inhaak'', ''inkijk'', ''inluiden'', ''inmijnen'',
    ''inoefenen'', ''inpolder'', ''inrijden'', ''inslaan'', ''invitatie'']"

definition dutch_words_3 :: "string list" where
  "dutch_words_3 = [
    ''inwaaien'', ''ionisch'', ''isaac'', ''isolatie'', ''isotherm'', ''isra'', ''italiaan'', ''ivoor'', ''jacobs'', ''jakob'', ''jammen'',
    ''jampot'', ''jarig'', ''jehova'', ''jenever'', ''jezus'', ''joana'', ''jobdienst'', ''josua'', ''joule'', ''juich'', ''jurk'', ''juut'',
    ''kaas'', ''kabelaar'', ''kabinet'', ''kagenaar'', ''kajuit'', ''kalebas'', ''kalm'', ''kanjer'', ''kapucijn'', ''karregat'', ''kart'',
    ''katvanger'', ''katwijk'', ''kegelaar'', ''keiachtig'', ''keizer'', ''kenletter'', ''kerdijk'', ''keus'', ''kevlar'', ''kezen'',
    ''kickback'', ''kieviet'', ''kijken'', ''kikvors'', ''kilheid'', ''kilobit'', ''kilsdonk'', ''kipschnitzel'', ''kissebis'', ''klad'',
    ''klagelijk'', ''klak'', ''klapbaar'', ''klaver'', ''klene'', ''klets'', ''klijnhout'', ''klit'', ''klok'', ''klonen'', ''klotefilm'',
    ''kluif'', ''klumper'', ''klus'', ''knabbel'', ''knagen'', ''knaven'', ''kneedbaar'', ''knmi'', ''knul'', ''knus'', ''kokhals'',
    ''komiek'', ''komkommer'', ''kompaan'', ''komrij'', ''komvormig'', ''koning'', ''kopbal'', ''kopklep'', ''kopnagel'', ''koppejan'',
    ''koptekst'', ''kopwand'', ''koraal'', ''kosmisch'', ''kostbaar'', ''kram'', ''kraneveld'', ''kras'', ''kreling'', ''krengen'',
    ''kribbe'', ''krik'', ''kruid'', ''krulbol'', ''kuijper'', ''kuipbank'', ''kuit'', ''kuiven'', ''kutsmoes'', ''kuub'', ''kwak'',
    ''kwatong'', ''kwetsbaar'', ''kwezelaar'', ''kwijnen'', ''kwik'', ''kwinkslag'', ''kwitantie'', ''lading'', ''lakbeits'', ''lakken'',
    ''laklaag'', ''lakmoes'', ''lakwijk'', ''lamheid'', ''lamp'', ''lamsbout'', ''lapmiddel'', ''larve'', ''laser'', ''latijn'', ''latuw'',
    ''lawaai'', ''laxeerpil'', ''lebberen'', ''ledeboer'', ''leefbaar'', ''leeman'', ''lefdoekje'', ''lefhebber'', ''legboor'', ''legsel'',
    ''leguaan'', ''leiplaat'', ''lekdicht'', ''lekrijden'', ''leksteen'', ''lenen'', ''leraar'', ''lesbienne'', ''leugenaar'', ''leut'',
    ''lexicaal'', ''lezing'', ''lieten'', ''liggeld'', ''lijdzaam'', ''lijk'', ''lijmstang'', ''lijnschip'', ''likdoorn'', ''likken'',
    ''liksteen'', ''limburg'', ''link'', ''linoleum'', ''lipbloem'', ''lipman'', ''lispelen'', ''lissabon'', ''litanie'', ''liturgie'',
    ''lochem'', ''loempia'', ''loesje'', ''logheid'', ''lonen'', ''lonneke'', ''loom'', ''loos'', ''losbaar'', ''loslaten'', ''losplaats'',
    ''loting'', ''lotnummer'', ''lots'', ''louie'', ''lourdes'', ''louter'', ''lowbudget'', ''luijten'', ''luikenaar'', ''luilak'',
    ''luipaard'', ''luizenbos'', ''lulkoek'', ''lumen'', ''lunzen'', ''lurven'', ''lutjeboer'', ''luttel'', ''lutz'', ''luuk'', ''luwte'',
    ''luyendijk'', ''lyceum'', ''lynx'', ''maakbaar'', ''magdalena'', ''malheid'', ''manchet'', ''manfred'', ''manhaftig'', ''mank'',
    ''mantel'', ''marion'', ''marxist'', ''masmeijer'', ''massaal'', ''matsen'', ''matverf'', ''matze'', ''maude'', ''mayonaise'',
    ''mechanica'', ''meifeest'', ''melodie'', ''meppelink'', ''midvoor'', ''midweeks'', ''midzomer'', ''miezel'', ''mijnraad'', ''minus'',
    ''mirck'', ''mirte'', ''mispakken'', ''misraden'', ''miswassen'', ''mitella'', ''moker'', ''molecule'', ''mombakkes'', ''moonen'',
    ''mopperaar'', ''moraal'', ''morgana'', ''mormel'', ''mosselaar'', ''motregen'', ''mouw'', ''mufheid'', ''mutueel'', ''muzelman'',
    ''naaidoos'', ''naald'', ''nadeel'', ''nadruk'', ''nagy'', ''nahon'', ''naima'', ''nairobi'', ''napalm'', ''napels'', ''napijn'',
    ''napoleon'', ''narigheid'', ''narratief'', ''naseizoen'', ''nasibal'', ''navigatie'', ''nawijn'', ''negatief'', ''nekletsel'',
    ''nekwervel'', ''neolatijn'', ''neonataal'', ''neptunus'', ''nerd'', ''nest'', ''neuzelaar'', ''nihiliste'', ''nijenhuis'', ''nijging'',
    ''nijhoff'', ''nijl'', ''nijptang'', ''nippel'', ''nokkenas'', ''noordam'', ''noren'', ''normaal'', ''nottelman'', ''notulant'',
    ''nout'', ''nuance'', ''nuchter'', ''nudorp'', ''nulde'', ''nullijn'', ''nulmeting'', ''nunspeet'', ''nylon'', ''obelisk'', ''object'',
    ''oblie'', ''obsceen'', ''occlusie'', ''oceaan'', ''ochtend'', ''ockhuizen'', ''oerdom'', ''oergezond'', ''oerlaag'', ''oester'',
    ''okhuijsen'', ''olifant'', ''olijfboer'', ''omaans'', ''ombudsman'', ''omdat'', ''omdijken'', ''omdoen'', ''omgebouwd'', ''omkeer'',
    ''omkomen'', ''ommegaand'', ''ommuren'', ''omroep'']"

definition dutch_words_4 :: "string list" where
  "dutch_words_4 = [
    ''omruil'', ''omslaan'', ''omsmeden'', ''omvaar'', ''onaardig'', ''onedel'', ''onenig'', ''onheilig'', ''onrecht'', ''onroerend'',
    ''ontcijfer'', ''onthaal'', ''ontvallen'', ''ontzadeld'', ''onzacht'', ''onzin'', ''onzuiver'', ''oogappel'', ''ooibos'', ''ooievaar'',
    ''ooit'', ''oorarts'', ''oorhanger'', ''oorijzer'', ''oorklep'', ''oorschelp'', ''oorworm'', ''oorzaak'', ''opdagen'', ''opdien'',
    ''opdweilen'', ''opel'', ''opgebaard'', ''opinie'', ''opjutten'', ''opkijken'', ''opklaar'', ''opkuisen'', ''opkwam'', ''opnaaien'',
    ''opossum'', ''opsieren'', ''opsmeer'', ''optreden'', ''opvijzel'', ''opvlammen'', ''opwind'', ''oraal'', ''orchidee'', ''orkest'',
    ''ossuarium'', ''ostendorf'', ''oublie'', ''oudachtig'', ''oudbakken'', ''oudnoors'', ''oudshoorn'', ''oudtante'', ''oven'', ''over'',
    ''oxidant'', ''pablo'', ''pacht'', ''paktafel'', ''pakzadel'', ''paljas'', ''panharing'', ''papfles'', ''paprika'', ''parochie'',
    ''paus'', ''pauze'', ''paviljoen'', ''peek'', ''pegel'', ''peigeren'', ''pekela'', ''pendant'', ''penibel'', ''pepmiddel'', ''peptalk'',
    ''periferie'', ''perron'', ''pessarium'', ''peter'', ''petfles'', ''petgat'', ''peuk'', ''pfeifer'', ''picknick'', ''pief'',
    ''pieneman'', ''pijlkruid'', ''pijnacker'', ''pijpelink'', ''pikdonker'', ''pikeer'', ''pilaar'', ''pionier'', ''pipet'', ''piscine'',
    ''pissebed'', ''pitchen'', ''pixel'', ''plamuren'', ''plan'', ''plausibel'', ''plegen'', ''plempen'', ''pleonasme'', ''plezant'',
    ''podoloog'', ''pofmouw'', ''pokdalig'', ''ponywagen'', ''popachtig'', ''popidool'', ''porren'', ''positie'', ''potten'', ''pralen'',
    ''prezen'', ''prijzen'', ''privaat'', ''proef'', ''prooi'', ''prozawerk'', ''pruik'', ''prul'', ''publiceer'', ''puck'', ''puilen'',
    ''pukkelig'', ''pulveren'', ''pupil'', ''puppy'', ''purmerend'', ''pustjens'', ''putemmer'', ''puzzelaar'', ''queenie'', ''quiche'',
    ''raam'', ''raar'', ''raat'', ''raes'', ''ralf'', ''rally'', ''ramona'', ''ramselaar'', ''ranonkel'', ''rapen'', ''rapunzel'',
    ''rarekiek'', ''rarigheid'', ''rattenhol'', ''ravage'', ''reactie'', ''recreant'', ''redacteur'', ''redster'', ''reewild'', ''regie'',
    ''reijnders'', ''rein'', ''replica'', ''revanche'', ''rigide'', ''rijbaan'', ''rijdansen'', ''rijgen'', ''rijkdom'', ''rijles'',
    ''rijnwijn'', ''rijpma'', ''rijstafel'', ''rijtaak'', ''rijzwepen'', ''rioleer'', ''ripdeal'', ''riphagen'', ''riskant'', ''rits'',
    ''rivaal'', ''robbedoes'', ''robot'', ''rockact'', ''rodijk'', ''rogier'', ''rohypnol'', ''rollaag'', ''rolpaal'', ''roltafel'',
    ''roof'', ''roon'', ''roppen'', ''rosbief'', ''rosharig'', ''rosielle'', ''rotan'', ''rotleven'', ''rotten'', ''rotvaart'', ''royaal'',
    ''royeer'', ''rubato'', ''ruby'', ''ruche'', ''rudge'', ''ruggetje'', ''rugnummer'', ''rugpijn'', ''rugtitel'', ''rugzak'', ''ruilbaar'',
    ''ruis'', ''ruit'', ''rukwind'', ''rulijs'', ''rumoeren'', ''rumsdorp'', ''rumtaart'', ''runnen'', ''russchen'', ''ruwkruid'',
    ''saboteer'', ''saksisch'', ''salade'', ''salpeter'', ''sambabal'', ''samsam'', ''satelliet'', ''satineer'', ''saus'', ''scampi'',
    ''scarabee'', ''scenario'', ''schobben'', ''schubben'', ''scout'', ''secessie'', ''secondair'', ''seculair'', ''sediment'', ''seeland'',
    ''settelen'', ''setwinst'', ''sheriff'', ''shiatsu'', ''siciliaan'', ''sidderaal'', ''sigma'', ''sijben'', ''silvana'', ''simkaart'',
    ''sinds'', ''situatie'', ''sjaak'', ''sjardijn'', ''sjezen'', ''sjor'', ''skinhead'', ''skylab'', ''slamixen'', ''sleijpen'',
    ''slijkerig'', ''slordig'', ''slowaak'', ''sluieren'', ''smadelijk'', ''smiecht'', ''smoel'', ''smos'', ''smukken'', ''snackcar'',
    ''snavel'', ''sneaker'', ''sneu'', ''snijdbaar'', ''snit'', ''snorder'', ''soapbox'', ''soetekouw'', ''soigneren'', ''sojaboon'',
    ''solo'', ''solvabel'', ''somber'', ''sommatie'', ''soort'', ''soppen'', ''sopraan'', ''soundbar'', ''spanen'', ''spawater'',
    ''spijgat'', ''spinaal'', ''spionage'', ''spiraal'', ''spleet'', ''splijt'', ''spoed'', ''sporen'', ''spul'', ''spuug'', ''spuw'',
    ''stalen'', ''standaard'', ''star'', ''stefan'', ''stencil'', ''stijf'', ''stil'', ''stip'', ''stopdas'', ''stoten'', ''stoven'',
    ''straat'', ''strobbe'', ''strubbel'', ''stucadoor'', ''stuif'', ''stukadoor'', ''subhoofd'', ''subregent'']"

definition dutch_words_5 :: "string list" where
  "dutch_words_5 = [
    ''sudoku'', ''sukade'', ''sulfaat'', ''surinaams'', ''suus'', ''syfilis'', ''symboliek'', ''sympathie'', ''synagoge'', ''synchroon'',
    ''synergie'', ''systeem'', ''taanderij'', ''tabak'', ''tachtig'', ''tackelen'', ''taiwanees'', ''talman'', ''tamheid'', ''tangaslip'',
    ''taps'', ''tarkan'', ''tarwe'', ''tasman'', ''tatjana'', ''taxameter'', ''teil'', ''teisman'', ''telbaar'', ''telco'', ''telganger'',
    ''telstar'', ''tenant'', ''tepel'', ''terzet'', ''testament'', ''ticket'', ''tiesinga'', ''tijdelijk'', ''tika'', ''tiksel'',
    ''tilleman'', ''timbaal'', ''tinsteen'', ''tiplijn'', ''tippelaar'', ''tjirpen'', ''toezeggen'', ''tolbaas'', ''tolgeld'', ''tolhek'',
    ''tolo'', ''tolpoort'', ''toltarief'', ''tolvrij'', ''tomaat'', ''tondeuse'', ''toog'', ''tooi'', ''toonbaar'', ''toos'', ''topclub'',
    ''toppen'', ''toptalent'', ''topvrouw'', ''toque'', ''torment'', ''tornado'', ''tosti'', ''totdat'', ''toucheer'', ''toulouse'',
    ''tournedos'', ''tout'', ''trabant'', ''tragedie'', ''trailer'', ''traject'', ''traktaat'', ''trauma'', ''tray'', ''trechter'', ''tred'',
    ''tref'', ''treur'', ''troebel'', ''tros'', ''trucage'', ''truffel'', ''tsaar'', ''tucht'', ''tuenter'', ''tuitelig'', ''tukje'',
    ''tuktuk'', ''tulp'', ''tuma'', ''tureluurs'', ''twijfel'', ''twitteren'', ''tyfoon'', ''typograaf'', ''ugandees'', ''uiachtig'',
    ''uier'', ''uisnipper'', ''ultiem'', ''unitair'', ''uranium'', ''urbaan'', ''urendag'', ''ursula'', ''uurcirkel'', ''uurglas'',
    ''uzelf'', ''vaat'', ''vakantie'', ''vakleraar'', ''valbijl'', ''valpartij'', ''valreep'', ''valuatie'', ''vanmiddag'', ''vanonder'',
    ''varaan'', ''varken'', ''vaten'', ''veenbes'', ''veeteler'', ''velgrem'', ''vellekoop'', ''velvet'', ''veneberg'', ''venlo'', ''vent'',
    ''venusberg'', ''venw'', ''veredeld'', ''verf'', ''verhaaf'', ''vermaak'', ''vernaaid'', ''verraad'', ''vers'', ''veruit'', ''verzaagd'',
    ''vetachtig'', ''vetlok'', ''vetmesten'', ''veto'', ''vetrek'', ''vetstaart'', ''vetten'', ''veurink'', ''viaduct'', ''vibrafoon'',
    ''vicariaat'', ''vieux'', ''vieveen'', ''vijfvoud'', ''villa'', ''vilt'', ''vimmetje'', ''vindbaar'', ''vips'', ''virtueel'',
    ''visdieven'', ''visee'', ''visie'', ''vlaag'', ''vleugel'', ''vmbo'', ''vocht'', ''voesenek'', ''voicemail'', ''voip'', ''volg'',
    ''vork'', ''vorselaar'', ''voyeur'', ''vracht'', ''vrekkig'', ''vreten'', ''vrije'', ''vrozen'', ''vrucht'', ''vucht'', ''vugt'',
    ''vulkaan'', ''vulmiddel'', ''vulva'', ''vuren'', ''waas'', ''wacht'', ''wadvogel'', ''wafel'', ''waffel'', ''walhalla'', ''walnoot'',
    ''walraven'', ''wals'', ''walvis'', ''wandaad'', ''wanen'', ''wanmolen'', ''want'', ''warklomp'', ''warm'', ''wasachtig'', ''wasteil'',
    ''watt'', ''webhandel'', ''weblog'', ''webpagina'', ''webzine'', ''wedereis'', ''wedstrijd'', ''weeda'', ''weert'', ''wegmaaien'',
    ''wegscheer'', ''wekelijks'', ''wekken'', ''wekroep'', ''wektoon'', ''weldaad'', ''welwater'', ''wendbaar'', ''wenkbrauw'', ''wens'',
    ''wentelaar'', ''wervel'', ''wesseling'', ''wetboek'', ''wetmatig'', ''whirlpool'', ''wijbrands'', ''wijdbeens'', ''wijk'', ''wijnbes'',
    ''wijting'', ''wild'', ''wimpelen'', ''wingebied'', ''winplaats'', ''winter'', ''winzucht'', ''wipstaart'', ''wisgerhof'', ''withaar'',
    ''witmaker'', ''wokkel'', ''wolf'', ''wonenden'', ''woning'', ''worden'', ''worp'', ''wortel'', ''wrat'', ''wrijf'', ''wringen'',
    ''yoghurt'', ''ypsilon'', ''zaaijer'', ''zaak'', ''zacharias'', ''zakelijk'', ''zakkam'', ''zakwater'', ''zalf'', ''zalig'', ''zaniken'',
    ''zebracode'', ''zeeblauw'', ''zeef'', ''zeegaand'', ''zeeuw'', ''zege'', ''zegje'', ''zeil'', ''zesbaans'', ''zesenhalf'',
    ''zeskantig'', ''zesmaal'', ''zetbaas'', ''zetpil'', ''zeulen'', ''ziezo'', ''zigzag'', ''zijaltaar'', ''zijbeuk'', ''zijlijn'',
    ''zijmuur'', ''zijn'', ''zijwaarts'', ''zijzelf'', ''zilt'', ''zimmerman'', ''zinledig'', ''zinnelijk'', ''zionist'', ''zitdag'',
    ''zitruimte'', ''zitzak'', ''zoal'', ''zodoende'', ''zoekbots'', ''zoem'', ''zoiets'', ''zojuist'', ''zondaar'', ''zotskap'',
    ''zottebol'', ''zucht'', ''zuivel'', ''zulk'', ''zult'', ''zuster'', ''zuur'', ''zweedijk'', ''zwendel'', ''zwepen'', ''zwiep'',
    ''zwijmel'', ''zworen'']"

abbreviation dutch_words :: "string list" where
  "dutch_words \<equiv> dutch_words_1 @ dutch_words_2 @ dutch_words_3 @ dutch_words_4 @ dutch_words_5"

lemmas dutch_words_defs = dutch_words_1_def dutch_words_2_def dutch_words_3_def dutch_words_4_def dutch_words_5_def

definition Dutch :: "Language option" where
  "Dutch = populate_maps False False (Language_Base ''Nederlands'' ''Dutch'' dutch_words 4)"

lemma dutch_1_ok: "part_ok False (Suc (Suc (Suc (Suc 0)))) 326 dutch_words_1"
  by (simp only: dutch_words_1_def part_eval)

lemma dutch_2_ok: "part_ok False (Suc (Suc (Suc (Suc 0)))) 325 dutch_words_2"
  by (simp only: dutch_words_2_def part_eval)

lemma dutch_3_ok: "part_ok False (Suc (Suc (Suc (Suc 0)))) 325 dutch_words_3"
  by (simp only: dutch_words_3_def part_eval)

lemma dutch_4_ok: "part_ok False (Suc (Suc (Suc (Suc 0)))) 325 dutch_words_4"
  by (simp only: dutch_words_4_def part_eval)

lemma dutch_5_ok: "part_ok False (Suc (Suc (Suc (Suc 0)))) 325 dutch_words_5"
  by (simp only: dutch_words_5_def part_eval)

lemma dutch_ok: "part_ok False (Suc (Suc (Suc (Suc 0)))) 1626 dutch_words"
  using part_ok_append [OF dutch_1_ok part_ok_append [OF dutch_2_ok part_ok_append [OF dutch_3_ok part_ok_append [OF dutch_4_ok dutch_5_ok]]]]
  by simp

lemma dutch_codes: "radix (Suc (Suc (Suc (Suc (Suc (Suc (Suc (Suc (Suc (Suc (Suc (Suc (Suc (Suc (Suc (Suc (Suc (Suc (Suc (Suc (Suc (Suc (Suc (Suc (Suc 0))))))))))))))))))))))))) (codes (Suc (Suc (Suc (Suc 0)))) dutch_words)"
  unfolding codes_append by (simp only: dutch_words_defs code_eval)

lemma dutch_constructed: "constructed False Dutch ''Nederlands'' ''Dutch'' dutch_words"
  unfolding Dutch_def by (rule constructor_returns [OF _ dutch_codes]) (simp_all only: if_True if_False dutch_ok, simp)

interpretation dutch: seed_language "the Dutch"
  by (rule constructed_language [OF dutch_constructed])

section \<open>French\<close>

definition french_words_1 :: "string list" where
  "french_words_1 = [
    ''abandon'', ''abattre'', ''aboi'', ''abolir'', ''aborder'', ''abri'', ''absence'', ''absolu'', ''abuser'', ''acacia'', ''acajou'',
    ''accent'', ''accord'', ''accrocher'', ''accuser'', ''acerbe'', ''achat'', ''acheter'', ''acide'', ''acier'', ''acquis'', ''acte'',
    ''action'', ''adage'', ''adepte'', ''adieu'', ''admettre'', ''admis'', ''adorer'', ''adresser'', ''aduler'', ''affaire'', ''affirmer'',
    ''afin'', ''agacer'', ''agent'', ''agir'', ''agiter'', ''agonie'', ''agrafe'', ''agrume'', ''aider'', ''aigle'', ''aigre'', ''aile'',
    ''ailleurs'', ''aimant'', ''aimer'', ''ainsi'', ''aise'', ''ajouter'', ''alarme'', ''album'', ''alcool'', ''alerte'', ''algue'',
    ''alibi'', ''aller'', ''allumer'', ''alors'', ''amande'', ''amener'', ''amie'', ''amorcer'', ''amour'', ''ample'', ''amuser'',
    ''ananas'', ''ancien'', ''anglais'', ''angoisse'', ''animal'', ''anneau'', ''annoncer'', ''apercevoir'', ''apparence'', ''appel'',
    ''apporter'', ''apprendre'', ''appuyer'', ''arbre'', ''arcade'', ''arceau'', ''arche'', ''ardeur'', ''argent'', ''argile'', ''aride'',
    ''arme'', ''armure'', ''arracher'', ''arriver'', ''article'', ''asile'', ''aspect'', ''assaut'', ''assez'', ''assister'', ''assurer'',
    ''astre'', ''astuce'', ''atlas'', ''atroce'', ''attacher'', ''attente'', ''attirer'', ''aube'', ''aucun'', ''audace'', ''auparavant'',
    ''auquel'', ''aurore'', ''aussi'', ''autant'', ''auteur'', ''autoroute'', ''autre'', ''aval'', ''avant'', ''avec'', ''avenir'',
    ''averse'', ''aveu'', ''avide'', ''avion'', ''avis'', ''avoir'', ''avouer'', ''avril'', ''azote'', ''azur'', ''badge'', ''bagage'',
    ''bague'', ''bain'', ''baisser'', ''balai'', ''balcon'', ''balise'', ''balle'', ''bambou'', ''banane'', ''banc'', ''bandage'', ''banjo'',
    ''banlieue'', ''bannir'', ''banque'', ''baobab'', ''barbe'', ''barque'', ''barrer'', ''bassine'', ''bataille'', ''bateau'', ''battre'',
    ''baver'', ''bavoir'', ''bazar'', ''beau'', ''beige'', ''berger'', ''besoin'', ''beurre'', ''biais'', ''biceps'', ''bidule'', ''bien'',
    ''bijou'', ''bilan'', ''billet'', ''blanc'', ''blason'', ''bleu'', ''bloc'', ''blond'', ''bocal'', ''boire'', ''boiserie'', ''boiter'',
    ''bonbon'', ''bondir'', ''bonheur'', ''bordure'', ''borgne'', ''borner'', ''bosse'', ''bouche'', ''bouder'', ''bouger'', ''boule'',
    ''bourse'', ''bout'', ''boxe'', ''brader'', ''braise'', ''branche'', ''braquer'', ''bras'', ''brave'', ''brebis'', ''brevet'',
    ''brider'', ''briller'', ''brin'', ''brique'', ''briser'', ''broche'', ''broder'', ''bronze'', ''brosser'', ''brouter'', ''bruit'',
    ''brute'', ''budget'', ''buffet'', ''bulle'', ''bureau'', ''buriner'', ''buste'', ''buter'', ''butiner'', ''cabas'', ''cabinet'',
    ''cabri'', ''cacao'', ''cacher'', ''cadeau'', ''cadre'', ''cage'', ''caisse'', ''caler'', ''calme'', ''camarade'', ''camion'',
    ''campagne'', ''canal'', ''canif'', ''capable'', ''capot'', ''carat'', ''caresser'', ''carie'', ''carpe'', ''cartel'', ''casier'',
    ''casque'', ''casserole'', ''cause'', ''cavale'', ''cave'', ''ceci'', ''cela'', ''celui'', ''cendre'', ''cent'', ''cependant'',
    ''cercle'', ''cerise'', ''cerner'', ''certes'', ''cerveau'', ''cesser'', ''chacun'', ''chair'', ''chaleur'', ''chamois'', ''chanson'',
    ''chaque'', ''charge'', ''chasse'', ''chat'', ''chaud'', ''chef'', ''chemin'', ''cheveu'', ''chez'', ''chicane'', ''chien'', ''chiffre'',
    ''chiner'', ''chiot'', ''chlore'', ''choc'', ''choix'', ''chose'', ''chou'', ''chute'', ''cibler'', ''cidre'', ''ciel'', ''cigale'',
    ''cinq'', ''cintre'', ''cirage'', ''cirque'', ''ciseau'', ''citation'', ''citer'', ''citron'', ''civet'', ''clairon'', ''clan'',
    ''classe'', ''clavier'', ''clef'', ''climat'', ''cloche'', ''cloner'', ''clore'', ''clos'', ''clou'', ''club'', ''cobra'', ''cocon'',
    ''coiffer'', ''coin'', ''colline'', ''colon'', ''combat'', ''comme'', ''compte'', ''conclure'', ''conduire'', ''confier'', ''connu'']"

definition french_words_2 :: "string list" where
  "french_words_2 = [
    ''conseil'', ''contre'', ''convenir'', ''copier'', ''cordial'', ''cornet'', ''corps'', ''cosmos'', ''coton'', ''couche'', ''coude'',
    ''couler'', ''coupure'', ''cour'', ''couteau'', ''couvrir'', ''crabe'', ''crainte'', ''crampe'', ''cran'', ''creuser'', ''crever'',
    ''crier'', ''crime'', ''crin'', ''crise'', ''crochet'', ''croix'', ''cruel'', ''cuisine'', ''cuite'', ''culot'', ''culte'', ''cumul'',
    ''cure'', ''curieux'', ''cuve'', ''dame'', ''danger'', ''dans'', ''davantage'', ''debout'', ''dedans'', ''dehors'', ''delta'',
    ''demain'', ''demeurer'', ''demi'', ''dense'', ''dent'', ''depuis'', ''dernier'', ''descendre'', ''dessus'', ''destin'', ''dette'',
    ''deuil'', ''deux'', ''devant'', ''devenir'', ''devin'', ''devoir'', ''dicton'', ''dieu'', ''difficile'', ''digestion'', ''digue'',
    ''diluer'', ''dimanche'', ''dinde'', ''diode'', ''dire'', ''diriger'', ''discours'', ''disposer'', ''distance'', ''divan'', ''divers'',
    ''docile'', ''docteur'', ''dodu'', ''dogme'', ''doigt'', ''dominer'', ''donation'', ''donjon'', ''donner'', ''dopage'', ''dorer'',
    ''dormir'', ''doseur'', ''douane'', ''double'', ''douche'', ''douleur'', ''doute'', ''doux'', ''douzaine'', ''draguer'', ''drame'',
    ''drap'', ''dresser'', ''droit'', ''duel'', ''dune'', ''duper'', ''durant'', ''durcir'', ''durer'', ''eaux'', ''effacer'', ''effet'',
    ''effort'', ''effrayant'', ''elle'', ''embrasser'', ''emmener'', ''emparer'', ''empire'', ''employer'', ''emporter'', ''enclos'',
    ''encore'', ''endive'', ''endormir'', ''endroit'', ''enduit'', ''enfant'', ''enfermer'', ''enfin'', ''enfler'', ''enfoncer'', ''enfuir'',
    ''engager'', ''engin'', ''enjeu'', ''enlever'', ''ennemi'', ''ennui'', ''ensemble'', ''ensuite'', ''entamer'', ''entendre'', ''entier'',
    ''entourer'', ''entre'', ''envelopper'', ''envie'', ''envoyer'', ''erreur'', ''escalier'', ''espace'', ''espoir'', ''esprit'', ''essai'',
    ''essor'', ''essuyer'', ''estimer'', ''exact'', ''examiner'', ''excuse'', ''exemple'', ''exiger'', ''exil'', ''exister'', ''exode'',
    ''expliquer'', ''exposer'', ''exprimer'', ''extase'', ''fable'', ''facette'', ''facile'', ''fade'', ''faible'', ''faim'', ''faire'',
    ''fait'', ''falloir'', ''famille'', ''faner'', ''farce'', ''farine'', ''fatigue'', ''faucon'', ''faune'', ''faute'', ''faux'',
    ''faveur'', ''favori'', ''faxer'', ''feinter'', ''femme'', ''fendre'', ''fente'', ''ferme'', ''festin'', ''feuille'', ''feutre'',
    ''fiable'', ''fibre'', ''ficher'', ''fier'', ''figer'', ''figure'', ''filet'', ''fille'', ''filmer'', ''fils'', ''filtre'', ''final'',
    ''finesse'', ''finir'', ''fiole'', ''firme'', ''fixe'', ''flacon'', ''flair'', ''flamme'', ''flan'', ''flaque'', ''fleur'', ''flocon'',
    ''flore'', ''flot'', ''flou'', ''fluide'', ''fluor'', ''flux'', ''focus'', ''foin'', ''foire'', ''foison'', ''folie'', ''fonction'',
    ''fondre'', ''fonte'', ''force'', ''forer'', ''forger'', ''forme'', ''fort'', ''fosse'', ''fouet'', ''fouine'', ''foule'', ''four'',
    ''foyer'', ''frais'', ''franc'', ''frapper'', ''freiner'', ''frimer'', ''friser'', ''frite'', ''froid'', ''froncer'', ''fruit'',
    ''fugue'', ''fuir'', ''fuite'', ''fumer'', ''fureur'', ''furieux'', ''fuser'', ''fusil'', ''futile'', ''futur'', ''gagner'', ''gain'',
    ''gala'', ''galet'', ''galop'', ''gamme'', ''gant'', ''garage'', ''garde'', ''garer'', ''gauche'', ''gaufre'', ''gaule'', ''gaver'',
    ''gazon'', ''geler'', ''genou'', ''genre'', ''gens'', ''gercer'', ''germer'', ''geste'', ''gibier'', ''gicler'', ''gilet'', ''girafe'',
    ''givre'', ''glace'', ''glisser'', ''globe'', ''gloire'', ''gluant'', ''gober'', ''golf'', ''gommer'', ''gorge'', ''gosier'', ''goutte'',
    ''grain'', ''gramme'', ''grand'', ''gras'', ''grave'', ''gredin'', ''griffure'', ''griller'', ''gris'', ''gronder'', ''gros'',
    ''grotte'', ''groupe'', ''grue'', ''guerrier'', ''guetter'', ''guider'', ''guise'', ''habiter'']"

definition french_words_3 :: "string list" where
  "french_words_3 = [
    ''hache'', ''haie'', ''haine'', ''halte'', ''hamac'', ''hanche'', ''hangar'', ''hanter'', ''haras'', ''hareng'', ''harpe'', ''hasard'',
    ''hausse'', ''haut'', ''havre'', ''herbe'', ''heure'', ''hibou'', ''hier'', ''histoire'', ''hiver'', ''hochet'', ''homme'', ''honneur'',
    ''honte'', ''horde'', ''horizon'', ''hormone'', ''houle'', ''housse'', ''hublot'', ''huile'', ''huit'', ''humain'', ''humble'',
    ''humide'', ''humour'', ''hurler'', ''idole'', ''igloo'', ''ignorer'', ''illusion'', ''image'', ''immense'', ''immobile'', ''imposer'',
    ''impression'', ''incapable'', ''inconnu'', ''index'', ''indiquer'', ''infime'', ''injure'', ''inox'', ''inspirer'', ''instant'',
    ''intention'', ''intime'', ''inutile'', ''inventer'', ''inviter'', ''iode'', ''iris'', ''issue'', ''ivre'', ''jade'', ''jadis'',
    ''jamais'', ''jambe'', ''janvier'', ''jardin'', ''jauge'', ''jaunisse'', ''jeter'', ''jeton'', ''jeudi'', ''jeune'', ''joie'',
    ''joindre'', ''joli'', ''joueur'', ''journal'', ''judo'', ''juge'', ''juillet'', ''juin'', ''jument'', ''jungle'', ''jupe'', ''jupon'',
    ''jurer'', ''juron'', ''jury'', ''jusque'', ''juste'', ''kayak'', ''ketchup'', ''kilo'', ''kiwi'', ''koala'', ''label'', ''lacet'',
    ''lacune'', ''laine'', ''laisse'', ''lait'', ''lame'', ''lancer'', ''lande'', ''laque'', ''lard'', ''largeur'', ''larme'', ''larve'',
    ''lasso'', ''laver'', ''lendemain'', ''lentement'', ''lequel'', ''lettre'', ''leur'', ''lever'', ''levure'', ''liane'', ''libre'',
    ''lien'', ''lier'', ''lieutenant'', ''ligne'', ''ligoter'', ''liguer'', ''limace'', ''limer'', ''limite'', ''lingot'', ''lion'',
    ''lire'', ''lisser'', ''litre'', ''livre'', ''lobe'', ''local'', ''logis'', ''loin'', ''loisir'', ''long'', ''loque'', ''lors'',
    ''lotus'', ''louer'', ''loup'', ''lourd'', ''louve'', ''loyer'', ''lubie'', ''lucide'', ''lueur'', ''luge'', ''luire'', ''lundi'',
    ''lune'', ''lustre'', ''lutin'', ''lutte'', ''luxe'', ''machine'', ''madame'', ''magie'', ''magnifique'', ''magot'', ''maigre'',
    ''main'', ''mairie'', ''maison'', ''malade'', ''malheur'', ''malin'', ''manche'', ''manger'', ''manier'', ''manoir'', ''manquer'',
    ''marche'', ''mardi'', ''marge'', ''mariage'', ''marquer'', ''mars'', ''masque'', ''masse'', ''matin'', ''mauvais'', ''meilleur'',
    ''melon'', ''membre'', ''menacer'', ''mener'', ''mensonge'', ''mentir'', ''menu'', ''merci'', ''merlu'', ''mesure'', ''mettre'',
    ''meuble'', ''meunier'', ''meute'', ''miche'', ''micro'', ''midi'', ''miel'', ''miette'', ''mieux'', ''milieu'', ''mille'', ''mimer'',
    ''mince'', ''mineur'', ''ministre'', ''minute'', ''mirage'', ''miroir'', ''miser'', ''mite'', ''mixte'', ''mobile'', ''mode'',
    ''module'', ''moins'', ''mois'', ''moment'', ''momie'', ''monde'', ''monsieur'', ''monter'', ''moquer'', ''moral'', ''morceau'',
    ''mordre'', ''morose'', ''morse'', ''mortier'', ''morue'', ''motif'', ''motte'', ''moudre'', ''moule'', ''mourir'', ''mousse'',
    ''mouton'', ''mouvement'', ''moyen'', ''muer'', ''muette'', ''mugir'', ''muguet'', ''mulot'', ''multiple'', ''munir'', ''muret'',
    ''muse'', ''musique'', ''muter'', ''nacre'', ''nager'', ''nain'', ''naissance'', ''narine'', ''narrer'', ''naseau'', ''nasse'',
    ''nation'', ''nature'', ''naval'', ''navet'', ''naviguer'', ''navrer'', ''neige'', ''nerf'', ''nerveux'', ''neuf'', ''neutre'',
    ''neuve'', ''neveu'', ''niche'', ''nier'', ''niveau'', ''noble'', ''noce'', ''nocif'', ''noir'', ''nomade'', ''nombre'', ''nommer'',
    ''nord'', ''norme'', ''notaire'', ''notice'', ''notre'', ''nouer'', ''nougat'', ''nourrir'', ''nous'', ''nouveau'', ''novice'',
    ''noyade'', ''noyer'', ''nuage'', ''nuance'', ''nuire'', ''nuit'', ''nulle'', ''nuque'', ''oasis'', ''objet'', ''obliger'', ''obscur'',
    ''observer'', ''obtenir'', ''obus'', ''occasion'', ''occuper'', ''ocre'', ''octet'', ''odeur'']"

definition french_words_4 :: "string list" where
  "french_words_4 = [
    ''odorat'', ''offense'', ''officier'', ''offrir'', ''ogive'', ''oiseau'', ''olive'', ''ombre'', ''onctueux'', ''onduler'', ''ongle'',
    ''onze'', ''opter'', ''option'', ''orageux'', ''oral'', ''orange'', ''orbite'', ''ordinaire'', ''ordre'', ''oreille'', ''organe'',
    ''orgie'', ''orgueil'', ''orient'', ''origan'', ''orner'', ''orteil'', ''ortie'', ''oser'', ''osselet'', ''otage'', ''otarie'',
    ''ouate'', ''oublier'', ''ouest'', ''ours'', ''outil'', ''outre'', ''ouvert'', ''ouvrir'', ''ovale'', ''ozone'', ''pacte'', ''page'',
    ''paille'', ''pain'', ''paire'', ''paix'', ''palace'', ''palissade'', ''palmier'', ''palpiter'', ''panda'', ''panneau'', ''papa'',
    ''papier'', ''paquet'', ''parc'', ''pardi'', ''parfois'', ''parler'', ''parmi'', ''parole'', ''partir'', ''parvenir'', ''passer'',
    ''pastel'', ''patin'', ''patron'', ''paume'', ''pause'', ''pauvre'', ''paver'', ''pavot'', ''payer'', ''pays'', ''peau'', ''peigne'',
    ''peinture'', ''pelage'', ''pelote'', ''pencher'', ''pendre'', ''penser'', ''pente'', ''percer'', ''perdu'', ''perle'', ''permettre'',
    ''personne'', ''perte'', ''peser'', ''pesticide'', ''petit'', ''peuple'', ''peur'', ''phase'', ''photo'', ''phrase'', ''piano'',
    ''pied'', ''pierre'', ''pieu'', ''pile'', ''pilier'', ''pilote'', ''pilule'', ''piment'', ''pincer'', ''pinson'', ''pinte'', ''pion'',
    ''piquer'', ''pirate'', ''pire'', ''piste'', ''piton'', ''pitre'', ''pivot'', ''pizza'', ''placer'', ''plage'', ''plaire'', ''plan'',
    ''plaque'', ''plat'', ''plein'', ''pleurer'', ''pliage'', ''plier'', ''plonger'', ''plot'', ''pluie'', ''plume'', ''plus'', ''pneu'',
    ''poche'', ''podium'', ''poids'', ''poil'', ''point'', ''poire'', ''poison'', ''poitrine'', ''poivre'', ''police'', ''pollen'',
    ''pomme'', ''pompier'', ''poncer'', ''pondre'', ''pont'', ''portion'', ''poser'', ''position'', ''possible'', ''poste'', ''potage'',
    ''potin'', ''pouce'', ''poudre'', ''poulet'', ''poumon'', ''poupe'', ''pour'', ''pousser'', ''poutre'', ''pouvoir'', ''prairie'',
    ''premier'', ''prendre'', ''presque'', ''preuve'', ''prier'', ''primeur'', ''prince'', ''prison'', ''priver'', ''prix'', ''prochain'',
    ''produire'', ''profond'', ''proie'', ''projet'', ''promener'', ''prononcer'', ''propre'', ''prose'', ''prouver'', ''prune'', ''public'',
    ''puce'', ''pudeur'', ''puiser'', ''pull'', ''pulpe'', ''puma'', ''punir'', ''purge'', ''putois'', ''quand'', ''quartier'', ''quasi'',
    ''quatre'', ''quel'', ''question'', ''queue'', ''quiche'', ''quille'', ''quinze'', ''quitter'', ''quoi'', ''rabais'', ''raboter'',
    ''race'', ''racheter'', ''racine'', ''racler'', ''raconter'', ''radar'', ''radio'', ''rafale'', ''rage'', ''ragot'', ''raideur'',
    ''raie'', ''rail'', ''raison'', ''ramasser'', ''ramener'', ''rampe'', ''rance'', ''rang'', ''rapace'', ''rapide'', ''rapport'',
    ''rarement'', ''rasage'', ''raser'', ''rasoir'', ''rassurer'', ''rater'', ''ratio'', ''rature'', ''ravage'', ''ravir'', ''rayer'',
    ''rayon'', ''rebond'', ''recevoir'', ''recherche'', ''record'', ''reculer'', ''redevenir'', ''refuser'', ''regard'', ''regretter'',
    ''rein'', ''rejeter'', ''rejoindre'', ''relation'', ''relever'', ''religion'', ''remarquer'', ''remettre'', ''remise'', ''remonter'',
    ''remplir'', ''remuer'', ''rencontre'', ''rendre'', ''renier'', ''renoncer'', ''rentrer'', ''renverser'', ''repas'', ''repli'',
    ''reposer'', ''reproche'', ''requin'', ''respect'', ''ressembler'', ''reste'', ''retard'', ''retenir'', ''retirer'', ''retour'',
    ''retrouver'', ''revenir'', ''revoir'', ''revue'', ''rhume'', ''ricaner'', ''riche'', ''rideau'', ''ridicule'', ''rien'', ''rigide'',
    ''rincer'', ''rire'', ''risquer'', ''rituel'', ''rivage'', ''rive'', ''robe'', ''robot'', ''robuste'', ''rocade'', ''roche'', ''rodeur'',
    ''rogner'', ''roman'', ''rompre'', ''ronce'', ''rondeur'', ''ronger'', ''roque'', ''rose'', ''rosir'', ''rotation'', ''rotule'',
    ''roue'', ''rouge'', ''rouler'']"

definition french_words_5 :: "string list" where
  "french_words_5 = [
    ''route'', ''ruban'', ''rubis'', ''ruche'', ''rude'', ''ruelle'', ''ruer'', ''rugby'', ''rugir'', ''ruine'', ''rumeur'', ''rural'',
    ''ruse'', ''rustre'', ''sable'', ''sabot'', ''sabre'', ''sacre'', ''sage'', ''saint'', ''saisir'', ''salade'', ''salive'', ''salle'',
    ''salon'', ''salto'', ''salut'', ''salve'', ''samba'', ''sandale'', ''sanguin'', ''sapin'', ''sarcasme'', ''satisfaire'', ''sauce'',
    ''sauf'', ''sauge'', ''saule'', ''sauna'', ''sauter'', ''sauver'', ''savoir'', ''science'', ''scoop'', ''score'', ''second'', ''secret'',
    ''secte'', ''seigneur'', ''sein'', ''seize'', ''selle'', ''selon'', ''semaine'', ''sembler'', ''semer'', ''semis'', ''sensuel'',
    ''sentir'', ''sept'', ''serpe'', ''serrer'', ''sertir'', ''service'', ''seuil'', ''seulement'', ''short'', ''sien'', ''sigle'',
    ''signal'', ''silence'', ''silo'', ''simple'', ''singe'', ''sinon'', ''sinus'', ''sioux'', ''sirop'', ''site'', ''situation'', ''skier'',
    ''snob'', ''sobre'', ''social'', ''socle'', ''sodium'', ''soigner'', ''soir'', ''soixante'', ''soja'', ''solaire'', ''soldat'',
    ''soleil'', ''solide'', ''solo'', ''solvant'', ''sombre'', ''somme'', ''somnoler'', ''sondage'', ''songeur'', ''sonner'', ''sorte'',
    ''sosie'', ''sottise'', ''souci'', ''soudain'', ''souffrir'', ''souhaiter'', ''soulever'', ''soumettre'', ''soupe'', ''sourd'',
    ''soustraire'', ''soutenir'', ''souvent'', ''soyeux'', ''spectacle'', ''sport'', ''stade'', ''stagiaire'', ''stand'', ''star'',
    ''statue'', ''stock'', ''stop'', ''store'', ''style'', ''suave'', ''subir'', ''sucre'', ''suer'', ''suffire'', ''suie'', ''suite'',
    ''suivre'', ''sujet'', ''sulfite'', ''supposer'', ''surf'', ''surprendre'', ''surtout'', ''surveiller'', ''tabac'', ''table'', ''tabou'',
    ''tache'', ''tacler'', ''tacot'', ''tact'', ''taie'', ''taille'', ''taire'', ''talon'', ''talus'', ''tandis'', ''tango'', ''tanin'',
    ''tant'', ''taper'', ''tapis'', ''tard'', ''tarif'', ''tarot'', ''tarte'', ''tasse'', ''taureau'', ''taux'', ''taverne'', ''taxer'',
    ''taxi'', ''tellement'', ''temple'', ''tendre'', ''tenir'', ''tenter'', ''tenu'', ''terme'', ''ternir'', ''terre'', ''test'', ''texte'',
    ''thym'', ''tibia'', ''tiers'', ''tige'', ''tipi'', ''tique'', ''tirer'', ''tissu'', ''titre'', ''toast'', ''toge'', ''toile'',
    ''toiser'', ''toiture'', ''tomber'', ''tome'', ''tonne'', ''tonte'', ''toque'', ''torse'', ''tortue'', ''totem'', ''toucher'',
    ''toujours'', ''tour'', ''tousser'', ''tout'', ''toux'', ''trace'', ''train'', ''trame'', ''tranquille'', ''travail'', ''trembler'',
    ''trente'', ''tribu'', ''trier'', ''trio'', ''tripe'', ''triste'', ''troc'', ''trois'', ''tromper'', ''tronc'', ''trop'', ''trotter'',
    ''trouer'', ''truc'', ''truite'', ''tuba'', ''tuer'', ''tuile'', ''turbo'', ''tutu'', ''tuyau'', ''type'', ''union'', ''unique'',
    ''unir'', ''unisson'', ''untel'', ''urne'', ''usage'', ''user'', ''usiner'', ''usure'', ''utile'', ''vache'', ''vague'', ''vaincre'',
    ''valeur'', ''valoir'', ''valser'', ''valve'', ''vampire'', ''vaseux'', ''vaste'', ''veau'', ''veille'', ''veine'', ''velours'',
    ''velu'', ''vendre'', ''venir'', ''vent'', ''venue'', ''verbe'', ''verdict'', ''version'', ''vertige'', ''verve'', ''veste'', ''veto'',
    ''vexer'', ''vice'', ''victime'', ''vide'', ''vieil'', ''vieux'', ''vigie'', ''vigne'', ''ville'', ''vingt'', ''violent'', ''virer'',
    ''virus'', ''visage'', ''viser'', ''visite'', ''visuel'', ''vitamine'', ''vitrine'', ''vivant'', ''vivre'', ''vocal'', ''vodka'',
    ''vogue'', ''voici'', ''voile'', ''voir'', ''voisin'', ''voiture'', ''volaille'', ''volcan'', ''voler'', ''volt'', ''votant'', ''votre'',
    ''vouer'', ''vouloir'', ''vous'', ''voyage'', ''voyou'', ''vrac'', ''vrai'', ''yacht'', ''yeti'', ''yeux'', ''yoga'', ''zeste'',
    ''zinc'', ''zone'', ''zoom'']"

abbreviation french_words :: "string list" where
  "french_words \<equiv> french_words_1 @ french_words_2 @ french_words_3 @ french_words_4 @ french_words_5"

lemmas french_words_defs = french_words_1_def french_words_2_def french_words_3_def french_words_4_def french_words_5_def

definition French :: "Language option" where
  "French = populate_maps False False (Language_Base [CHR ''F'', CHR ''r'', CHR ''a'', CHR ''n'', CHR 0xC3, CHR 0xA7, CHR ''a'', CHR ''i'', CHR ''s''] ''French'' french_words 4)"

lemma french_1_ok: "part_ok False (Suc (Suc (Suc (Suc 0)))) 326 french_words_1"
  by (simp only: french_words_1_def part_eval)

lemma french_2_ok: "part_ok False (Suc (Suc (Suc (Suc 0)))) 325 french_words_2"
  by (simp only: french_words_2_def part_eval)

lemma french_3_ok: "part_ok False (Suc (Suc (Suc (Suc 0)))) 325 french_words_3"
  by (simp only: french_words_3_def part_eval)

lemma french_4_ok: "part_ok False (Suc (Suc (Suc (Suc 0)))) 325 french_words_4"
  by (simp only: french_words_4_def part_eval)

lemma french_5_ok: "part_ok False (Suc (Suc (Suc (Suc 0)))) 325 french_words_5"
  by (simp only: french_words_5_def part_eval)

lemma french_ok: "part_ok False (Suc (Suc (Suc (Suc 0)))) 1626 french_words"
  using part_ok_append [OF french_1_ok part_ok_append [OF french_2_ok part_ok_append [OF french_3_ok part_ok_append [OF french_4_ok french_5_ok]]]]
  by simp

lemma french_codes: "radix (Suc (Suc (Suc (Suc (Suc (Suc (Suc (Suc (Suc (Suc (Suc (Suc (Suc (Suc (Suc (Suc (Suc (Suc (Suc (Suc (Suc (Suc (Suc (Suc (Suc 0))))))))))))))))))))))))) (codes (Suc (Suc (Suc (Suc 0)))) french_words)"
  unfolding codes_append by (simp only: french_words_defs code_eval)

lemma french_constructed: "constructed False French [CHR ''F'', CHR ''r'', CHR ''a'', CHR ''n'', CHR 0xC3, CHR 0xA7, CHR ''a'', CHR ''i'', CHR ''s''] ''French'' french_words"
  unfolding French_def by (rule constructor_returns [OF _ french_codes]) (simp_all only: if_True if_False french_ok, simp)

interpretation french: seed_language "the French"
  by (rule constructed_language [OF french_constructed])

section \<open>Italian\<close>

definition italian_words_1 :: "string list" where
  "italian_words_1 = [
    ''abbinare'', ''abbonato'', ''abisso'', ''abitare'', ''abominio'', ''accadere'', ''accesso'', ''acciaio'', ''accordo'', ''accumulo'',
    ''acido'', ''acqua'', ''acrobata'', ''acustico'', ''adattare'', ''addetto'', ''addio'', ''addome'', ''adeguato'', ''aderire'',
    ''adorare'', ''adottare'', ''adozione'', ''adulto'', ''aereo'', ''aerobica'', ''affare'', ''affetto'', ''affidare'', ''affogato'',
    ''affronto'', ''africano'', ''afrodite'', ''agenzia'', ''aggancio'', ''aggeggio'', ''aggiunta'', ''agio'', ''agire'', ''agitare'',
    ''aglio'', ''agnello'', ''agosto'', ''aiutare'', ''albero'', ''albo'', ''alce'', ''alchimia'', ''alcool'', ''alfabeto'', ''algebra'',
    ''alimento'', ''allarme'', ''alleanza'', ''allievo'', ''alloggio'', ''alluce'', ''alpi'', ''alterare'', ''altro'', ''aluminio'',
    ''amante'', ''amarezza'', ''ambiente'', ''ambrosia'', ''america'', ''amico'', ''ammalare'', ''ammirare'', ''amnesia'', ''amnistia'',
    ''amore'', ''ampliare'', ''amputare'', ''analisi'', ''anamnesi'', ''ananas'', ''anarchia'', ''anatra'', ''anca'', ''ancorato'',
    ''andare'', ''androide'', ''aneddoto'', ''anello'', ''angelo'', ''angolino'', ''anguilla'', ''anidride'', ''anima'', ''annegare'',
    ''anno'', ''annuncio'', ''anomalia'', ''antenna'', ''anticipo'', ''aperto'', ''apostolo'', ''appalto'', ''appello'', ''appiglio'',
    ''applauso'', ''appoggio'', ''appurare'', ''aprile'', ''aquila'', ''arabo'', ''arachidi'', ''aragosta'', ''arancia'', ''arbitrio'',
    ''archivio'', ''arco'', ''argento'', ''argilla'', ''aria'', ''ariete'', ''arma'', ''armonia'', ''aroma'', ''arrivare'', ''arrosto'',
    ''arsenale'', ''arte'', ''artiglio'', ''asfalto'', ''asfissia'', ''asino'', ''asparagi'', ''aspirina'', ''assalire'', ''assegno'',
    ''assolto'', ''assurdo'', ''asta'', ''astratto'', ''atlante'', ''atletica'', ''atomo'', ''atropina'', ''attacco'', ''attesa'',
    ''attico'', ''atto'', ''attrarre'', ''auguri'', ''aula'', ''aumento'', ''aurora'', ''auspicio'', ''autista'', ''auto'', ''autunno'',
    ''avanzare'', ''avarizia'', ''avere'', ''aviatore'', ''avido'', ''avorio'', ''avvenire'', ''avviso'', ''avvocato'', ''azienda'',
    ''azione'', ''azzardo'', ''azzurro'', ''babbuino'', ''bacio'', ''badante'', ''baffi'', ''bagaglio'', ''bagliore'', ''bagno'',
    ''balcone'', ''balena'', ''ballare'', ''balordo'', ''balsamo'', ''bambola'', ''bancomat'', ''banda'', ''barato'', ''barba'', ''barista'',
    ''barriera'', ''basette'', ''basilico'', ''bassista'', ''bastare'', ''battello'', ''bavaglio'', ''beccare'', ''beduino'', ''bellezza'',
    ''bene'', ''benzina'', ''berretto'', ''bestia'', ''bevitore'', ''bianco'', ''bibbia'', ''biberon'', ''bibita'', ''bici'', ''bidone'',
    ''bilancia'', ''biliardo'', ''binario'', ''binocolo'', ''biologia'', ''biondina'', ''biopsia'', ''biossido'', ''birbante'', ''birra'',
    ''biscotto'', ''bisogno'', ''bistecca'', ''bivio'', ''blindare'', ''bloccare'', ''bocca'', ''bollire'', ''bombola'', ''bonifico'',
    ''borghese'', ''borsa'', ''bottino'', ''botulino'', ''braccio'', ''bradipo'', ''branco'', ''bravo'', ''bresaola'', ''bretelle'',
    ''brevetto'', ''briciola'', ''brigante'', ''brillare'', ''brindare'', ''brivido'', ''broccoli'', ''brontolo'', ''bruciare'', ''brufolo'',
    ''bucare'', ''buddista'', ''budino'', ''bufera'', ''buffo'', ''bugiardo'', ''buio'', ''buono'', ''burrone'', ''bussola'', ''bustina'',
    ''buttare'', ''cabernet'', ''cabina'', ''cacao'', ''cacciare'', ''cactus'', ''cadavere'', ''caffe'', ''calamari'', ''calcio'',
    ''caldaia'', ''calmare'', ''calunnia'', ''calvario'', ''calzone'', ''cambiare'', ''camera'', ''camion'', ''cammello'', ''campana'',
    ''canarino'', ''cancello'', ''candore'', ''cane'', ''canguro'', ''cannone'', ''canoa'', ''cantare'', ''canzone'', ''caos'', ''capanna'',
    ''capello'', ''capire'', ''capo'', ''capperi'', ''capra'', ''capsula'', ''caraffa'', ''carbone'', ''carciofo'', ''cardigan'',
    ''carenza'', ''caricare'', ''carota'', ''carrello'', ''carta'', ''casa'', ''cascare'', ''caserma'', ''cashmere'', ''casino'',
    ''cassetta'', ''castello'', ''catalogo'', ''catena'', ''catorcio'', ''cattivo'', ''causa'', ''cauzione'', ''cavallo'', ''caverna'',
    ''caviglia'', ''cavo'', ''cazzotto'', ''celibato'', ''cemento'', ''cenare'', ''centrale'', ''ceramica'', ''cercare'']"

definition italian_words_2 :: "string list" where
  "italian_words_2 = [
    ''ceretta'', ''cerniera'', ''certezza'', ''cervello'', ''cessione'', ''cestino'', ''cetriolo'', ''chiave'', ''chiedere'', ''chilo'',
    ''chimera'', ''chiodo'', ''chirurgo'', ''chitarra'', ''chiudere'', ''ciabatta'', ''ciao'', ''cibo'', ''ciccia'', ''cicerone'',
    ''ciclone'', ''cicogna'', ''cielo'', ''cifra'', ''cigno'', ''ciliegia'', ''cimitero'', ''cinema'', ''cinque'', ''cintura'', ''ciondolo'',
    ''ciotola'', ''cipolla'', ''cippato'', ''circuito'', ''cisterna'', ''citofono'', ''ciuccio'', ''civetta'', ''civico'', ''clausola'',
    ''cliente'', ''clima'', ''clinica'', ''cobra'', ''coccole'', ''cocktail'', ''cocomero'', ''codice'', ''coesione'', ''cogliere'',
    ''cognome'', ''colla'', ''colomba'', ''colpire'', ''coltello'', ''comando'', ''comitato'', ''commedia'', ''comodino'', ''compagna'',
    ''comune'', ''concerto'', ''condotto'', ''conforto'', ''congiura'', ''coniglio'', ''consegna'', ''conto'', ''convegno'', ''coperta'',
    ''copia'', ''coprire'', ''corazza'', ''corda'', ''corleone'', ''cornice'', ''corona'', ''corpo'', ''corrente'', ''corsa'', ''cortesia'',
    ''corvo'', ''coso'', ''costume'', ''cotone'', ''cottura'', ''cozza'', ''crampo'', ''cratere'', ''cravatta'', ''creare'', ''credere'',
    ''crema'', ''crescere'', ''crimine'', ''criterio'', ''croce'', ''crollare'', ''cronaca'', ''crostata'', ''croupier'', ''cubetto'',
    ''cucciolo'', ''cucina'', ''cultura'', ''cuoco'', ''cuore'', ''cupido'', ''cupola'', ''cura'', ''curva'', ''cuscino'', ''custode'',
    ''danzare'', ''data'', ''decennio'', ''decidere'', ''decollo'', ''dedicare'', ''dedurre'', ''definire'', ''delegare'', ''delfino'',
    ''delitto'', ''demone'', ''dentista'', ''denuncia'', ''deposito'', ''derivare'', ''deserto'', ''designer'', ''destino'', ''detonare'',
    ''dettagli'', ''diagnosi'', ''dialogo'', ''diamante'', ''diario'', ''diavolo'', ''dicembre'', ''difesa'', ''digerire'', ''digitare'',
    ''diluvio'', ''dinamica'', ''dipinto'', ''diploma'', ''diramare'', ''dire'', ''dirigere'', ''dirupo'', ''discesa'', ''disdetta'',
    ''disegno'', ''disporre'', ''dissenso'', ''distacco'', ''dito'', ''ditta'', ''diva'', ''divenire'', ''dividere'', ''divorare'',
    ''docente'', ''dolcetto'', ''dolore'', ''domatore'', ''domenica'', ''dominare'', ''donatore'', ''donna'', ''dorato'', ''dormire'',
    ''dorso'', ''dosaggio'', ''dottore'', ''dovere'', ''download'', ''dragone'', ''dramma'', ''dubbio'', ''dubitare'', ''duetto'',
    ''durata'', ''ebbrezza'', ''eccesso'', ''eccitare'', ''eclissi'', ''economia'', ''edera'', ''edificio'', ''editore'', ''edizione'',
    ''educare'', ''effetto'', ''egitto'', ''egiziano'', ''elastico'', ''elefante'', ''eleggere'', ''elemento'', ''elenco'', ''elezione'',
    ''elmetto'', ''elogio'', ''embrione'', ''emergere'', ''emettere'', ''eminenza'', ''emisfero'', ''emozione'', ''empatia'', ''energia'',
    ''enfasi'', ''enigma'', ''entrare'', ''enzima'', ''epidemia'', ''epilogo'', ''episodio'', ''epoca'', ''equivoco'', ''erba'', ''erede'',
    ''eroe'', ''erotico'', ''errore'', ''eruzione'', ''esaltare'', ''esame'', ''esaudire'', ''eseguire'', ''esempio'', ''esigere'',
    ''esistere'', ''esito'', ''esperto'', ''espresso'', ''essere'', ''estasi'', ''esterno'', ''estrarre'', ''eterno'', ''etica'',
    ''euforico'', ''europa'', ''evacuare'', ''evasione'', ''evento'', ''evidenza'', ''evitare'', ''evolvere'', ''fabbrica'', ''facciata'',
    ''fagiano'', ''fagotto'', ''falco'', ''fame'', ''famiglia'', ''fanale'', ''fango'', ''fantasia'', ''farfalla'', ''farmacia'', ''faro'',
    ''fase'', ''fastidio'', ''faticare'', ''fatto'', ''favola'', ''febbre'', ''femmina'', ''femore'', ''fenomeno'', ''fermata'',
    ''feromoni'', ''ferrari'', ''fessura'', ''festa'', ''fiaba'', ''fiamma'', ''fianco'', ''fiat'', ''fibbia'', ''fidare'', ''fieno'',
    ''figa'', ''figlio'', ''figura'', ''filetto'', ''filmato'', ''filosofo'', ''filtrare'', ''finanza'', ''finestra'', ''fingere'',
    ''finire'', ''finta'', ''finzione'', ''fiocco'', ''fioraio'', ''firewall'', ''firmare'', ''fisico'', ''fissare'', ''fittizio'',
    ''fiume'', ''flacone'', ''flagello'', ''flirtare'', ''flusso'', ''focaccia'', ''foglio'', ''fognario'', ''follia'', ''fonderia'',
    ''fontana'', ''forbici'', ''forcella'', ''foresta'', ''forgiare'', ''formare'', ''fornace'', ''foro'']"

definition italian_words_3 :: "string list" where
  "italian_words_3 = [
    ''fortuna'', ''forzare'', ''fosforo'', ''fotoni'', ''fracasso'', ''fragola'', ''frantumi'', ''fratello'', ''frazione'', ''freccia'',
    ''freddo'', ''frenare'', ''fresco'', ''friggere'', ''frittata'', ''frivolo'', ''frizione'', ''fronte'', ''frullato'', ''frumento'',
    ''frusta'', ''frutto'', ''fucile'', ''fuggire'', ''fulmine'', ''fumare'', ''funzione'', ''fuoco'', ''furbizia'', ''furgone'', ''furia'',
    ''furore'', ''fusibile'', ''fuso'', ''futuro'', ''gabbiano'', ''galassia'', ''gallina'', ''gamba'', ''gancio'', ''garanzia'',
    ''garofano'', ''gasolio'', ''gatto'', ''gazebo'', ''gazzetta'', ''gelato'', ''gemelli'', ''generare'', ''genitori'', ''gennaio'',
    ''geologia'', ''germania'', ''gestire'', ''gettare'', ''ghepardo'', ''ghiaccio'', ''giaccone'', ''giaguaro'', ''giallo'', ''giappone'',
    ''giardino'', ''gigante'', ''gioco'', ''gioiello'', ''giorno'', ''giovane'', ''giraffa'', ''giudizio'', ''giurare'', ''giusto'',
    ''globo'', ''gloria'', ''glucosio'', ''gnocca'', ''gocciola'', ''godere'', ''gomito'', ''gomma'', ''gonfiare'', ''gorilla'', ''governo'',
    ''gradire'', ''graffiti'', ''granchio'', ''grappolo'', ''grasso'', ''grattare'', ''gridare'', ''grissino'', ''grondaia'', ''grugnito'',
    ''gruppo'', ''guadagno'', ''guaio'', ''guancia'', ''guardare'', ''gufo'', ''guidare'', ''guscio'', ''gusto'', ''icona'', ''idea'',
    ''identico'', ''idolo'', ''idoneo'', ''idrante'', ''idrogeno'', ''igiene'', ''ignoto'', ''imbarco'', ''immagine'', ''immobile'',
    ''imparare'', ''impedire'', ''impianto'', ''importo'', ''impresa'', ''impulso'', ''incanto'', ''incendio'', ''incidere'', ''incontro'',
    ''incrocia'', ''incubo'', ''indagare'', ''indice'', ''indotto'', ''infanzia'', ''inferno'', ''infinito'', ''infranto'', ''ingerire'',
    ''inglese'', ''ingoiare'', ''ingresso'', ''iniziare'', ''innesco'', ''insalata'', ''inserire'', ''insicuro'', ''insonnia'', ''insulto'',
    ''interno'', ''introiti'', ''invasori'', ''inverno'', ''invito'', ''invocare'', ''ipnosi'', ''ipocrita'', ''ipotesi'', ''ironia'',
    ''irrigare'', ''iscritto'', ''isola'', ''ispirare'', ''isterico'', ''istinto'', ''istruire'', ''italiano'', ''jazz'', ''labbra'',
    ''labrador'', ''ladro'', ''lago'', ''lamento'', ''lampone'', ''lancetta'', ''lanterna'', ''lapide'', ''larva'', ''lasagne'',
    ''lasciare'', ''lastra'', ''latte'', ''laurea'', ''lavagna'', ''lavorare'', ''leccare'', ''legare'', ''leggere'', ''lenzuolo'',
    ''leone'', ''lepre'', ''letargo'', ''lettera'', ''levare'', ''levitare'', ''lezione'', ''liberare'', ''libidine'', ''libro'',
    ''licenza'', ''lievito'', ''limite'', ''lince'', ''lingua'', ''liquore'', ''lire'', ''listino'', ''litigare'', ''litro'', ''locale'',
    ''lottare'', ''lucciola'', ''lucidare'', ''luglio'', ''luna'', ''macchina'', ''madama'', ''madre'', ''maestro'', ''maggio'', ''magico'',
    ''maglione'', ''magnolia'', ''mago'', ''maialino'', ''maionese'', ''malattia'', ''male'', ''malloppo'', ''mancare'', ''mandorla'',
    ''mangiare'', ''manico'', ''manopola'', ''mansarda'', ''mantello'', ''manubrio'', ''manzo'', ''mappa'', ''mare'', ''margine'',
    ''marinaio'', ''marmotta'', ''marocco'', ''martello'', ''marzo'', ''maschera'', ''matrice'', ''maturare'', ''mazzetta'', ''meandri'',
    ''medaglia'', ''medico'', ''medusa'', ''megafono'', ''melone'', ''membrana'', ''menta'', ''mercato'', ''meritare'', ''merluzzo'',
    ''mese'', ''mestiere'', ''metafora'', ''meteo'', ''metodo'', ''mettere'', ''miele'', ''miglio'', ''miliardo'', ''mimetica'',
    ''minatore'', ''minuto'', ''miracolo'', ''mirtillo'', ''missile'', ''mistero'', ''misura'', ''mito'', ''mobile'', ''moda'', ''moderare'',
    ''moglie'', ''molecola'', ''molle'', ''momento'', ''moneta'', ''mongolia'', ''monologo'', ''montagna'', ''morale'', ''morbillo'',
    ''mordere'', ''mosaico'', ''mosca'', ''mostro'', ''motivare'', ''moto'', ''mulino'', ''mulo'', ''muovere'', ''muraglia'', ''muscolo'',
    ''museo'', ''musica'', ''mutande'', ''nascere'', ''nastro'', ''natale'', ''natura'', ''nave'', ''navigare'', ''negare'', ''negozio'',
    ''nemico'', ''nero'', ''nervo'', ''nessuno'', ''nettare'', ''neutroni'', ''neve'', ''nevicare'', ''nicotina'', ''nido'', ''nipote'',
    ''nocciola'', ''noleggio'', ''nome'', ''nonno'', ''norvegia'', ''notare'']"

definition italian_words_4 :: "string list" where
  "italian_words_4 = [
    ''notizia'', ''nove'', ''nucleo'', ''nuda'', ''nuotare'', ''nutrire'', ''obbligo'', ''occhio'', ''occupare'', ''oceano'', ''odissea'',
    ''odore'', ''offerta'', ''officina'', ''offrire'', ''oggetto'', ''oggi'', ''olfatto'', ''olio'', ''oliva'', ''ombelico'', ''ombrello'',
    ''omuncolo'', ''ondata'', ''onore'', ''opera'', ''opinione'', ''opuscolo'', ''opzione'', ''orario'', ''orbita'', ''orchidea'',
    ''ordine'', ''orecchio'', ''orgasmo'', ''orgoglio'', ''origine'', ''orologio'', ''oroscopo'', ''orso'', ''oscurare'', ''ospedale'',
    ''ospite'', ''ossigeno'', ''ostacolo'', ''ostriche'', ''ottenere'', ''ottimo'', ''ottobre'', ''ovest'', ''pacco'', ''pace'',
    ''pacifico'', ''padella'', ''pagare'', ''pagina'', ''pagnotta'', ''palazzo'', ''palestra'', ''palpebre'', ''pancetta'', ''panfilo'',
    ''panino'', ''pannello'', ''panorama'', ''papa'', ''paperino'', ''paradiso'', ''parcella'', ''parente'', ''parlare'', ''parodia'',
    ''parrucca'', ''partire'', ''passare'', ''pasta'', ''patata'', ''patente'', ''patogeno'', ''patriota'', ''pausa'', ''pazienza'',
    ''peccare'', ''pecora'', ''pedalare'', ''pelare'', ''pena'', ''pendenza'', ''penisola'', ''pennello'', ''pensare'', ''pentirsi'',
    ''percorso'', ''perdono'', ''perfetto'', ''perizoma'', ''perla'', ''permesso'', ''persona'', ''pesare'', ''pesce'', ''peso'',
    ''petardo'', ''petrolio'', ''pezzo'', ''piacere'', ''pianeta'', ''piastra'', ''piatto'', ''piazza'', ''piccolo'', ''piede'', ''piegare'',
    ''pietra'', ''pigiama'', ''pigliare'', ''pigrizia'', ''pilastro'', ''pilota'', ''pinguino'', ''pioggia'', ''piombo'', ''pionieri'',
    ''piovra'', ''pipa'', ''pirata'', ''pirolisi'', ''piscina'', ''pisolino'', ''pista'', ''pitone'', ''piumino'', ''pizza'', ''plastica'',
    ''platino'', ''poesia'', ''poiana'', ''polaroid'', ''polenta'', ''polimero'', ''pollo'', ''polmone'', ''polpetta'', ''poltrona'',
    ''pomodoro'', ''pompa'', ''popolo'', ''porco'', ''porta'', ''porzione'', ''possesso'', ''postino'', ''potassio'', ''potere'',
    ''poverino'', ''pranzo'', ''prato'', ''prefisso'', ''prelievo'', ''premio'', ''prendere'', ''prestare'', ''pretesa'', ''prezzo'',
    ''primario'', ''privacy'', ''problema'', ''processo'', ''prodotto'', ''profeta'', ''progetto'', ''promessa'', ''pronto'', ''proposta'',
    ''proroga'', ''prossimo'', ''proteina'', ''prova'', ''prudenza'', ''pubblico'', ''pudore'', ''pugilato'', ''pulire'', ''pulsante'',
    ''puntare'', ''pupazzo'', ''puzzle'', ''quaderno'', ''qualcuno'', ''quarzo'', ''quercia'', ''quintale'', ''rabbia'', ''racconto'',
    ''radice'', ''raffica'', ''ragazza'', ''ragione'', ''rammento'', ''ramo'', ''rana'', ''randagio'', ''rapace'', ''rapinare'',
    ''rapporto'', ''rasatura'', ''ravioli'', ''reagire'', ''realista'', ''reattore'', ''reazione'', ''recitare'', ''recluso'', ''record'',
    ''recupero'', ''redigere'', ''regalare'', ''regina'', ''regola'', ''relatore'', ''reliquia'', ''remare'', ''rendere'', ''reparto'',
    ''resina'', ''resto'', ''rete'', ''retorica'', ''rettile'', ''revocare'', ''riaprire'', ''ribadire'', ''ribelle'', ''ricambio'',
    ''ricetta'', ''richiamo'', ''ricordo'', ''ridurre'', ''riempire'', ''riferire'', ''riflesso'', ''righello'', ''rilancio'', ''rilevare'',
    ''rilievo'', ''rimanere'', ''rimborso'', ''rinforzo'', ''rinuncia'', ''riparo'', ''ripetere'', ''riposare'', ''ripulire'', ''risalita'',
    ''riscatto'', ''riserva'', ''riso'', ''rispetto'', ''ritaglio'', ''ritmo'', ''ritorno'', ''ritratto'', ''rituale'', ''riunione'',
    ''riuscire'', ''riva'', ''robotica'', ''rondine'', ''rosa'', ''rospo'', ''rosso'', ''rotonda'', ''rotta'', ''roulotte'', ''rubare'',
    ''rubrica'', ''ruffiano'', ''rumore'', ''ruota'', ''ruscello'', ''sabbia'', ''sacco'', ''saggio'', ''sale'', ''salire'', ''salmone'',
    ''salto'', ''salutare'', ''salvia'', ''sangue'', ''sanzioni'', ''sapere'', ''sapienza'', ''sarcasmo'', ''sardine'', ''sartoria'',
    ''sbalzo'', ''sbarcare'', ''sberla'', ''sborsare'', ''scadenza'', ''scafo'', ''scala'', ''scambio'', ''scappare'', ''scarpa'',
    ''scatola'', ''scelta'', ''scena'', ''sceriffo'', ''scheggia'', ''schiuma'', ''sciarpa'', ''scienza'', ''scimmia'', ''sciopero'',
    ''scivolo'', ''sclerare'', ''scolpire'', ''sconto'', ''scopa'', ''scordare'', ''scossa'', ''scrivere'', ''scrupolo'']"

definition italian_words_5 :: "string list" where
  "italian_words_5 = [
    ''scuderia'', ''scultore'', ''scuola'', ''scusare'', ''sdraiare'', ''secolo'', ''sedativo'', ''sedere'', ''sedia'', ''segare'',
    ''segreto'', ''seguire'', ''semaforo'', ''seme'', ''senape'', ''seno'', ''sentiero'', ''separare'', ''sepolcro'', ''sequenza'',
    ''serata'', ''serpente'', ''servizio'', ''sesso'', ''seta'', ''settore'', ''sfamare'', ''sfera'', ''sfidare'', ''sfiorare'', ''sfogare'',
    ''sgabello'', ''sicuro'', ''siepe'', ''sigaro'', ''silenzio'', ''silicone'', ''simbiosi'', ''simpatia'', ''simulare'', ''sinapsi'',
    ''sindrome'', ''sinergia'', ''sinonimo'', ''sintonia'', ''sirena'', ''siringa'', ''sistema'', ''sito'', ''smalto'', ''smentire'',
    ''smontare'', ''soccorso'', ''socio'', ''soffitto'', ''software'', ''soggetto'', ''sogliola'', ''sognare'', ''soldi'', ''sole'',
    ''sollievo'', ''solo'', ''sommario'', ''sondare'', ''sonno'', ''sorpresa'', ''sorriso'', ''sospiro'', ''sostegno'', ''sovrano'',
    ''spaccare'', ''spada'', ''spagnolo'', ''spalla'', ''sparire'', ''spavento'', ''spazio'', ''specchio'', ''spedire'', ''spegnere'',
    ''spendere'', ''speranza'', ''spessore'', ''spezzare'', ''spiaggia'', ''spiccare'', ''spiegare'', ''spiffero'', ''spingere'', ''sponda'',
    ''sporcare'', ''spostare'', ''spremuta'', ''spugna'', ''spumante'', ''spuntare'', ''squadra'', ''squillo'', ''staccare'', ''stadio'',
    ''stagione'', ''stallone'', ''stampa'', ''stancare'', ''starnuto'', ''statura'', ''stella'', ''stendere'', ''sterzo'', ''stilista'',
    ''stimolo'', ''stinco'', ''stiva'', ''stoffa'', ''storia'', ''strada'', ''stregone'', ''striscia'', ''studiare'', ''stufa'',
    ''stupendo'', ''subire'', ''successo'', ''sudare'', ''suono'', ''superare'', ''supporto'', ''surfista'', ''sussurro'', ''svelto'',
    ''svenire'', ''sviluppo'', ''svolta'', ''svuotare'', ''tabacco'', ''tabella'', ''tabu'', ''tacchino'', ''tacere'', ''taglio'',
    ''talento'', ''tangente'', ''tappeto'', ''tartufo'', ''tassello'', ''tastiera'', ''tavolo'', ''tazza'', ''teatro'', ''tedesco'',
    ''telaio'', ''telefono'', ''tema'', ''temere'', ''tempo'', ''tendenza'', ''tenebre'', ''tensione'', ''tentare'', ''teologia'',
    ''teorema'', ''termica'', ''terrazzo'', ''teschio'', ''tesi'', ''tesoro'', ''tessera'', ''testa'', ''thriller'', ''tifoso'', ''tigre'',
    ''timbrare'', ''timido'', ''tinta'', ''tirare'', ''tisana'', ''titano'', ''titolo'', ''toccare'', ''togliere'', ''topolino'', ''torcia'',
    ''torrente'', ''tovaglia'', ''traffico'', ''tragitto'', ''training'', ''tramonto'', ''transito'', ''trapezio'', ''trasloco'',
    ''trattore'', ''trazione'', ''treccia'', ''tregua'', ''treno'', ''triciclo'', ''tridente'', ''trilogia'', ''tromba'', ''troncare'',
    ''trota'', ''trovare'', ''trucco'', ''tubo'', ''tulipano'', ''tumulto'', ''tunisia'', ''tuono'', ''turista'', ''tuta'', ''tutelare'',
    ''tutore'', ''ubriaco'', ''uccello'', ''udienza'', ''udito'', ''uffa'', ''umanoide'', ''umore'', ''unghia'', ''unguento'', ''unicorno'',
    ''unione'', ''universo'', ''uomo'', ''uragano'', ''uranio'', ''urlare'', ''uscire'', ''utente'', ''utilizzo'', ''vacanza'', ''vacca'',
    ''vaglio'', ''vagonata'', ''valle'', ''valore'', ''valutare'', ''valvola'', ''vampiro'', ''vaniglia'', ''vanto'', ''vapore'',
    ''variante'', ''vasca'', ''vaselina'', ''vassoio'', ''vedere'', ''vegetale'', ''veglia'', ''veicolo'', ''vela'', ''veleno'',
    ''velivolo'', ''velluto'', ''vendere'', ''venerare'', ''venire'', ''vento'', ''veranda'', ''verbo'', ''verdura'', ''vergine'',
    ''verifica'', ''vernice'', ''vero'', ''verruca'', ''versare'', ''vertebra'', ''vescica'', ''vespaio'', ''vestito'', ''vesuvio'',
    ''veterano'', ''vetro'', ''vetta'', ''viadotto'', ''viaggio'', ''vibrare'', ''vicenda'', ''vichingo'', ''vietare'', ''vigilare'',
    ''vigneto'', ''villa'', ''vincere'', ''violino'', ''vipera'', ''virgola'', ''virtuoso'', ''visita'', ''vita'', ''vitello'', ''vittima'',
    ''vivavoce'', ''vivere'', ''viziato'', ''voglia'', ''volare'', ''volpe'', ''volto'', ''volume'', ''vongole'', ''voragine'', ''vortice'',
    ''votare'', ''vulcano'', ''vuotare'', ''zabaione'', ''zaffiro'', ''zainetto'', ''zampa'', ''zanzara'', ''zattera'', ''zavorra'',
    ''zenzero'', ''zero'', ''zingaro'', ''zittire'', ''zoccolo'', ''zolfo'', ''zombie'', ''zucchero'']"

abbreviation italian_words :: "string list" where
  "italian_words \<equiv> italian_words_1 @ italian_words_2 @ italian_words_3 @ italian_words_4 @ italian_words_5"

lemmas italian_words_defs = italian_words_1_def italian_words_2_def italian_words_3_def italian_words_4_def italian_words_5_def

definition Italian :: "Language option" where
  "Italian = populate_maps False False (Language_Base ''Italiano'' ''Italian'' italian_words 4)"

lemma italian_1_ok: "part_ok False (Suc (Suc (Suc (Suc 0)))) 326 italian_words_1"
  by (simp only: italian_words_1_def part_eval)

lemma italian_2_ok: "part_ok False (Suc (Suc (Suc (Suc 0)))) 325 italian_words_2"
  by (simp only: italian_words_2_def part_eval)

lemma italian_3_ok: "part_ok False (Suc (Suc (Suc (Suc 0)))) 325 italian_words_3"
  by (simp only: italian_words_3_def part_eval)

lemma italian_4_ok: "part_ok False (Suc (Suc (Suc (Suc 0)))) 325 italian_words_4"
  by (simp only: italian_words_4_def part_eval)

lemma italian_5_ok: "part_ok False (Suc (Suc (Suc (Suc 0)))) 325 italian_words_5"
  by (simp only: italian_words_5_def part_eval)

lemma italian_ok: "part_ok False (Suc (Suc (Suc (Suc 0)))) 1626 italian_words"
  using part_ok_append [OF italian_1_ok part_ok_append [OF italian_2_ok part_ok_append [OF italian_3_ok part_ok_append [OF italian_4_ok italian_5_ok]]]]
  by simp

lemma italian_codes: "radix (Suc (Suc (Suc (Suc (Suc (Suc (Suc (Suc (Suc (Suc (Suc (Suc (Suc (Suc (Suc (Suc (Suc (Suc (Suc (Suc (Suc (Suc (Suc (Suc (Suc 0))))))))))))))))))))))))) (codes (Suc (Suc (Suc (Suc 0)))) italian_words)"
  unfolding codes_append by (simp only: italian_words_defs code_eval)

lemma italian_constructed: "constructed False Italian ''Italiano'' ''Italian'' italian_words"
  unfolding Italian_def by (rule constructor_returns [OF _ italian_codes]) (simp_all only: if_True if_False italian_ok, simp)

interpretation italian: seed_language "the Italian"
  by (rule constructed_language [OF italian_constructed])

section \<open>Esperanto\<close>

definition esperanto_words_1 :: "string list" where
  "esperanto_words_1 = [
    ''abako'', ''abdiki'', ''abelo'', ''abituriento'', ''ablativo'', ''abnorma'', ''abonantoj'', ''abrikoto'', ''absoluta'', ''abunda'',
    ''acetono'', ''acida'', ''adapti'', ''adekvata'', ''adheri'', ''adicii'', ''adjektivo'', ''administri'', ''adolesko'', ''adreso'',
    ''adstringa'', ''adulto'', ''advokato'', ''adzo'', ''aeroplano'', ''aferulo'', ''afgana'', ''afiksi'', ''aflaba'', ''aforismo'',
    ''afranki'', ''aftozo'', ''afusto'', ''agavo'', ''agento'', ''agiti'', ''aglo'', ''agmaniero'', ''agnoski'', ''agordo'', ''agrabla'',
    ''agtipo'', ''agutio'', ''aikido'', ''ailanto'', ''aina'', ''ajatolo'', ''ajgenvaloro'', ''ajlobulbo'', ''ajnlitera'', ''ajuto'',
    ''ajzi'', ''akademio'', ''akcepti'', ''akeo'', ''akiri'', ''aklamado'', ''akmeo'', ''akno'', ''akompani'', ''akrobato'', ''akselo'',
    ''aktiva'', ''akurata'', ''akvofalo'', ''alarmo'', ''albumo'', ''alcedo'', ''aldoni'', ''aleo'', ''alfabeto'', ''algo'', ''alhasti'',
    ''aligatoro'', ''alkoholo'', ''almozo'', ''alnomo'', ''alojo'', ''alpinisto'', ''alrigardi'', ''alskribi'', ''alta'', ''alumeto'',
    ''alveni'', ''alzaca'', ''amaso'', ''ambasado'', ''amdeklaro'', ''amebo'', ''amfibio'', ''amhara'', ''amiko'', ''amkanto'', ''amletero'',
    ''amnestio'', ''amoranto'', ''amplekso'', ''amrakonto'', ''amsterdama'', ''amuzi'', ''ananaso'', ''androido'', ''anekdoto'',
    ''anfrakto'', ''angulo'', ''anheli'', ''animo'', ''anjono'', ''ankro'', ''anonci'', ''anpriskribo'', ''ansero'', ''antikva'',
    ''anuitato'', ''aorto'', ''aparta'', ''aperti'', ''apika'', ''aplikado'', ''apneo'', ''apogi'', ''aprobi'', ''apsido'', ''apterigo'',
    ''apudesto'', ''araneo'', ''arbo'', ''ardeco'', ''aresti'', ''argilo'', ''aristokrato'', ''arko'', ''arlekeno'', ''armi'', ''arniko'',
    ''aromo'', ''arpio'', ''arsenalo'', ''artisto'', ''aruba'', ''arvorto'', ''asaio'', ''asbesto'', ''ascendi'', ''asekuri'', ''asfalto'',
    ''asisti'', ''askalono'', ''asocio'', ''aspekti'', ''astro'', ''asulo'', ''atakonto'', ''atendi'', ''atingi'', ''atleto'', ''atmosfero'',
    ''atomo'', ''atropino'', ''atuto'', ''avataro'', ''aventuro'', ''aviadilo'', ''avokado'', ''azaleo'', ''azbuko'', ''azenino'',
    ''azilpetanto'', ''azoto'', ''azteka'', ''babili'', ''bacilo'', ''badmintono'', ''bagatelo'', ''bahama'', ''bajoneto'', ''baki'',
    ''balai'', ''bambuo'', ''bani'', ''baobabo'', ''bapti'', ''baro'', ''bastono'', ''batilo'', ''bavara'', ''bazalto'', ''beata'',
    ''bebofono'', ''bedo'', ''begonio'', ''behaviorismo'', ''bejlo'', ''bekero'', ''belarto'', ''bemolo'', ''benko'', ''bereto'', ''besto'',
    ''betulo'', ''bevelo'', ''bezoni'', ''biaso'', ''biblioteko'', ''biciklo'', ''bidaro'', ''bieno'', ''bifsteko'', ''bigamiulo'',
    ''bijekcio'', ''bikino'', ''bildo'', ''bimetalismo'', ''bindi'', ''biografio'', ''birdo'', ''biskvito'', ''bitlibro'', ''bivako'',
    ''bizara'', ''bjalistoka'', ''blanka'', ''bleki'', ''blinda'', ''blovi'', ''blua'', ''boato'', ''bobsledo'', ''bocvanano'',
    ''bodisatvo'', ''bofratino'', ''bogefratoj'', ''bohema'', ''boji'', ''bokalo'', ''boli'', ''bombono'', ''bona'', ''bopatrino'',
    ''bordo'', ''bosko'', ''botelo'', ''bovido'', ''brakpleno'', ''bretaro'', ''brikmuro'', ''broso'', ''brulema'', ''bubalo'', ''buctrapi'',
    ''budo'', ''bufedo'', ''bugio'', ''bujabeso'', ''buklo'', ''buldozo'', ''bumerango'', ''bunta'', ''burokrataro'', ''busbileto'',
    ''butero'', ''buzuko'', ''caro'', ''cebo'', ''ceceo'', ''cedro'', ''cefalo'', ''cejana'', ''cekumo'', ''celebri'', ''cemento'', ''cent'',
    ''cepo'', ''certa'', ''cetera'', ''cezio'', ''ciano'', ''cibeto'', ''cico'', ''cidro'', ''cifero'', ''cigaredo'', ''ciklo'',
    ''cilindro'', ''cimbalo'', ''cinamo'', ''cipreso'', ''cirkonstanco'', ''cisterno'', ''citrono'', ''ciumi'', ''civilizado'', ''colo'',
    ''congo'', ''cunamo'', ''cvana'', ''dabi'', ''daco'', ''dadaismo'', ''dafodilo'', ''dago'', ''daimio'', ''dajmono'', ''daktilo'',
    ''dalio'', ''damo'', ''danki'', ''darmo'', ''datumoj'', ''dazipo'', ''deadmoni'', ''debeto'', ''decidi'', ''dedukti'', ''deerigi'',
    ''defendi'', ''degeli'', ''dehaki'', ''deirpunkto'', ''deklaracio'', ''delikata'', ''demandi'', ''dento'', ''dependi'', ''derivi'',
    ''desegni'']"

definition esperanto_words_2 :: "string list" where
  "esperanto_words_2 = [
    ''detrui'', ''devi'', ''deziri'', ''dialogo'', ''dicentro'', ''didaktika'', ''dieto'', ''diferenci'', ''digesti'', ''diino'',
    ''dikfingro'', ''diligenta'', ''dimensio'', ''dinamo'', ''diodo'', ''diplomo'', ''direkte'', ''diskuti'', ''diurno'', ''diversa'',
    ''dizajno'', ''dobrogitaro'', ''docento'', ''dogano'', ''dojeno'', ''doktoro'', ''dolori'', ''domego'', ''donaci'', ''dopado'',
    ''dormi'', ''dosierujo'', ''dotita'', ''dozeno'', ''drato'', ''dresi'', ''drinki'', ''droni'', ''druido'', ''duaranga'', ''dubi'',
    ''ducent'', ''dudek'', ''duelo'', ''dufoje'', ''dugongo'', ''duhufa'', ''duilo'', ''dujare'', ''dukato'', ''duloka'', ''dumtempe'',
    ''dungi'', ''duobla'', ''dupiedulo'', ''dura'', ''dusenca'', ''dutaga'', ''duuma'', ''duvalvuloj'', ''duzo'', ''ebena'', ''eblecoj'',
    ''ebono'', ''ebria'', ''eburo'', ''ecaro'', ''ecigi'', ''ecoj'', ''edelvejso'', ''editoro'', ''edro'', ''eduki'', ''edzino'',
    ''efektiva'', ''efiki'', ''efloreski'', ''egala'', ''egeco'', ''egiptologo'', ''eglefino'', ''egoista'', ''egreto'', ''ejakuli'',
    ''ejlo'', ''ekarto'', ''ekbruligi'', ''ekceli'', ''ekde'', ''ekesti'', ''ekfirmao'', ''ekgliti'', ''ekhavi'', ''ekipi'', ''ekkapti'',
    ''eklezio'', ''ekmalsati'', ''ekonomio'', ''ekpluvi'', ''ekrano'', ''ekster'', ''ektiri'', ''ekumeno'', ''ekvilibro'', ''ekzemplo'',
    ''elasta'', ''elbalai'', ''elcento'', ''eldoni'', ''elektro'', ''elfari'', ''elgliti'', ''elhaki'', ''elipso'', ''elkovi'', ''ellasi'',
    ''elmeti'', ''elnutri'', ''elokventa'', ''elparoli'', ''elrevigi'', ''elstari'', ''elteni'', ''eluzita'', ''elvoki'', ''elzasa'',
    ''emajlo'', ''embaraso'', ''emerito'', ''emfazo'', ''eminenta'', ''emocio'', ''empiria'', ''emulsio'', ''enarkivigi'', ''enboteligi'',
    ''enciklopedio'', ''endorfino'', ''energio'', ''enfermi'', ''engluti'', ''enhavo'', ''enigmo'', ''enjekcio'', ''enketi'', ''enlanda'',
    ''enmeti'', ''enorma'', ''enplanti'', ''enradiki'', ''enspezo'', ''entrepreni'', ''enui'', ''envolvi'', ''enzimo'', ''eono'', ''eosto'',
    ''epitafo'', ''epoko'', ''epriskribebla'', ''epsilono'', ''erari'', ''erbio'', ''erco'', ''erekti'', ''ergonomia'', ''erikejo'',
    ''ermito'', ''erotika'', ''erpilo'', ''erupcio'', ''esameno'', ''escepti'', ''esenco'', ''eskapi'', ''esotera'', ''esperi'', ''estonto'',
    ''etapo'', ''etendi'', ''etfingro'', ''etikedo'', ''etlitero'', ''etmakleristo'', ''etnika'', ''etoso'', ''etradio'', ''etskala'',
    ''etullernejo'', ''evakui'', ''evento'', ''eviti'', ''evolui'', ''ezoko'', ''fabriko'', ''facila'', ''fadeno'', ''fagoto'', ''fajro'',
    ''fakto'', ''fali'', ''familio'', ''fanatiko'', ''farbo'', ''fasko'', ''fatala'', ''favora'', ''fazeolo'', ''febro'', ''federacio'',
    ''feino'', ''fekunda'', ''felo'', ''femuro'', ''fenestro'', ''fermi'', ''festi'', ''fetora'', ''fezo'', ''fiasko'', ''fibro'',
    ''fidela'', ''fiera'', ''fifama'', ''figuro'', ''fiherbo'', ''fiinsekto'', ''fiksa'', ''filmo'', ''fimensa'', ''finalo'', ''fiolo'',
    ''fiparoli'', ''firmao'', ''fisko'', ''fitingo'', ''fiuzanto'', ''fivorto'', ''fiziko'', ''fjordo'', ''flago'', ''flegi'', ''flirti'',
    ''floro'', ''flugi'', ''fobio'', ''foceno'', ''foirejo'', ''fojfoje'', ''fokuso'', ''folio'', ''fomenti'', ''fonto'', ''formulo'',
    ''fosforo'', ''fotografi'', ''fratino'', ''fremda'', ''friti'', ''frosto'', ''frua'', ''ftizo'', ''fuelo'', ''fugo'', ''fuksia'',
    ''fulmilo'', ''fumanto'', ''fundamento'', ''fuorto'', ''furioza'', ''fusilo'', ''futbalo'', ''fuzio'', ''gabardino'', ''gado'',
    ''gaela'', ''gafo'', ''gagato'', ''gaja'', ''gaki'', ''galanta'', ''gamao'', ''ganto'', ''gapulo'', ''gardi'', ''gasto'', ''gavio'',
    ''gazeto'', ''geamantoj'', ''gebani'', ''geedzeco'', ''gefratoj'', ''geheno'', ''gejsero'', ''geko'', ''gelateno'', ''gemisto'',
    ''geniulo'', ''geografio'', ''gepardo'', ''geranio'', ''gestolingvo'', ''geto'', ''geumo'', ''gibono'', ''giganta'', ''gildo'',
    ''gimnastiko'', ''ginekologo'', ''gipsi'', ''girlando'', ''gistfungo'', ''gitaro'', ''glazuro'', ''glebo'', ''gliti'', ''globo'',
    ''gluti'', ''gnafalio'', ''gnejso'', ''gnomo'', ''gnuo'', ''gobio'', ''godetio'', ''goeleto'']"

definition esperanto_words_3 :: "string list" where
  "esperanto_words_3 = [
    ''gojo'', ''golfludejo'', ''gombo'', ''gondolo'', ''gorilo'', ''gospelo'', ''gotika'', ''granda'', ''greno'', ''griza'', ''groto'',
    ''grupo'', ''guano'', ''gubernatoro'', ''gudrotuko'', ''gufo'', ''gujavo'', ''guldeno'', ''gumi'', ''gupio'', ''guruo'', ''gusto'',
    ''guto'', ''guvernistino'', ''gvardio'', ''gverilo'', ''gvidanto'', ''habitato'', ''hadito'', ''hafnio'', ''hagiografio'', ''haitiano'',
    ''hajlo'', ''hakbloko'', ''halti'', ''hamstro'', ''hangaro'', ''hapalo'', ''haro'', ''hasta'', ''hati'', ''havebla'', ''hazardo'',
    ''hebrea'', ''hedero'', ''hegemonio'', ''hejmo'', ''hektaro'', ''helpi'', ''hemisfero'', ''heni'', ''hepato'', ''herbo'', ''hesa'',
    ''heterogena'', ''heziti'', ''hiacinto'', ''hibrida'', ''hidrogeno'', ''hieroglifo'', ''higieno'', ''hihii'', ''hilumo'', ''himno'',
    ''hindino'', ''hiperteksto'', ''hirundo'', ''historio'', ''hobio'', ''hojli'', ''hokeo'', ''hologramo'', ''homido'', ''honesta'',
    ''hopi'', ''horizonto'', ''hospitalo'', ''hotelo'', ''huadi'', ''hubo'', ''hufumo'', ''hugenoto'', ''hukero'', ''huligano'', ''humana'',
    ''hundo'', ''huoj'', ''hupilo'', ''hurai'', ''husaro'', ''hutuo'', ''huzo'', ''iafoje'', ''iagrade'', ''iamaniere'', ''iarelate'',
    ''iaspeca'', ''ibekso'', ''ibiso'', ''idaro'', ''ideala'', ''idiomo'', ''idolo'', ''iele'', ''igluo'', ''ignori'', ''iguamo'',
    ''igvano'', ''ikono'', ''iksodo'', ''ikto'', ''iliaflanke'', ''ilkomputilo'', ''ilobreto'', ''ilremedo'', ''ilumini'', ''imagi'',
    ''imitado'', ''imperio'', ''imuna'', ''incidento'', ''industrio'', ''inerta'', ''infano'', ''ingenra'', ''inhali'', ''iniciati'',
    ''injekti'', ''inklino'', ''inokuli'', ''insekto'', ''inteligenta'', ''inundi'', ''inviti'', ''ioma'', ''ionosfero'', ''iperito'',
    ''ipomeo'', ''irana'', ''irejo'', ''irigacio'', ''ironio'', ''isato'', ''islamo'', ''istempo'', ''itinero'', ''itrio'', ''iuloke'',
    ''iumaniere'', ''iutempe'', ''izolita'', ''jado'', ''jaguaro'', ''jakto'', ''jama'', ''januaro'', ''japano'', ''jarringo'', ''jazo'',
    ''jenoj'', ''jesulo'', ''jetavio'', ''jezuito'', ''jodli'', ''joviala'', ''juano'', ''jubileo'', ''judismo'', ''jufto'', ''juki'',
    ''julio'', ''juneca'', ''jupo'', ''juristo'', ''juste'', ''juvelo'', ''kabineto'', ''kadrato'', ''kafo'', ''kahelo'', ''kajako'',
    ''kakao'', ''kalkuli'', ''kampo'', ''kanti'', ''kapitalo'', ''karaktero'', ''kaserolo'', ''katapulto'', ''kaverna'', ''kazino'',
    ''kebabo'', ''kefiro'', ''keglo'', ''kejlo'', ''kekso'', ''kelka'', ''kemio'', ''kerno'', ''kesto'', ''kiamaniere'', ''kibuco'',
    ''kidnapi'', ''kielo'', ''kikero'', ''kilogramo'', ''kimono'', ''kinejo'', ''kiosko'', ''kirurgo'', ''kisi'', ''kitelo'', ''kivio'',
    ''klavaro'', ''klerulo'', ''klini'', ''klopodi'', ''klubo'', ''knabo'', ''knedi'', ''koalo'', ''kobalto'', ''kodigi'', ''kofro'',
    ''kohera'', ''koincidi'', ''kojoto'', ''kokoso'', ''koloro'', ''komenci'', ''kontrakto'', ''kopio'', ''korekte'', ''kosti'', ''kotono'',
    ''kovri'', ''krajono'', ''kredi'', ''krii'', ''krom'', ''kruco'', ''ksantino'', ''ksenono'', ''ksilofono'', ''ksosa'', ''kubuto'',
    ''kudri'', ''kuglo'', ''kuiri'', ''kuko'', ''kulero'', ''kumuluso'', ''kuneco'', ''kupro'', ''kuri'', ''kuseno'', ''kutimo'', ''kuvo'',
    ''kuzino'', ''kvalito'', ''kverko'', ''kvin'', ''kvoto'', ''labori'', ''laculo'', ''ladbotelo'', ''lafo'', ''laguno'', ''laikino'',
    ''laktobovino'', ''lampolumo'', ''landkarto'', ''laosa'', ''lapono'', ''larmoguto'', ''lastjare'', ''latitudo'', ''lavejo'', ''lazanjo'',
    ''leciono'', ''ledosako'', ''leganto'', ''lekcio'', ''lemura'', ''lentuga'', ''leopardo'', ''leporo'', ''lerni'', ''lesivo'', ''letero'',
    ''levilo'', ''lezi'', ''liano'', ''libera'', ''liceo'', ''lieno'', ''lifto'', ''ligilo'', ''likvoro'', ''lila'', ''limono'', ''lingvo'',
    ''lipo'', ''lirika'', ''listo'', ''literatura'', ''liveri'', ''lobio'', ''logika'', ''lojala'', ''lokalo'', ''longa'', ''lordo'',
    ''lotado'', ''loza'', ''luanto'', ''lubriki'', ''lucida'', ''ludema'', ''luigi'', ''lukso'', ''luli'', ''lumbilda'', ''lunde'',
    ''lupago'']"

definition esperanto_words_4 :: "string list" where
  "esperanto_words_4 = [
    ''lustro'', ''lutilo'', ''luzerno'', ''maato'', ''maceri'', ''madono'', ''mafiano'', ''magazeno'', ''mahometano'', ''maizo'',
    ''majstro'', ''maketo'', ''malgranda'', ''mamo'', ''mandareno'', ''maorio'', ''mapigi'', ''marini'', ''masko'', ''mateno'', ''mazuto'',
    ''meandro'', ''meblo'', ''mecenato'', ''medialo'', ''mefito'', ''megafono'', ''mejlo'', ''mekanika'', ''melodia'', ''membro'', ''mendi'',
    ''mergi'', ''mespilo'', ''metoda'', ''mevo'', ''mezuri'', ''miaflanke'', ''micelio'', ''mielo'', ''migdalo'', ''mikrofilmo'', ''militi'',
    ''mimiko'', ''mineralo'', ''miopa'', ''miri'', ''mistera'', ''mitralo'', ''mizeri'', ''mjelo'', ''mnemoniko'', ''mobilizi'', ''mocio'',
    ''moderna'', ''mohajro'', ''mokadi'', ''molaro'', ''momento'', ''monero'', ''mopso'', ''mordi'', ''moskito'', ''motoro'', ''movimento'',
    ''mozaiko'', ''mueli'', ''mukozo'', ''muldi'', ''mumio'', ''munti'', ''muro'', ''muskolo'', ''mutacio'', ''muzikisto'', ''nabo'',
    ''nacio'', ''nadlo'', ''nafto'', ''naiva'', ''najbaro'', ''nanometro'', ''napo'', ''narciso'', ''naski'', ''naturo'', ''navigi'',
    ''naztruo'', ''neatendite'', ''nebulo'', ''necesa'', ''nedankinde'', ''neebla'', ''nefari'', ''negoco'', ''nehavi'', ''neimagebla'',
    ''nektaro'', ''nelonga'', ''nematura'', ''nenia'', ''neordinara'', ''nepra'', ''nervuro'', ''nesto'', ''nete'', ''neulo'', ''nevino'',
    ''nifo'', ''nigra'', ''nihilisto'', ''nikotino'', ''nilono'', ''nimfeo'', ''nitrogeno'', ''nivelo'', ''nobla'', ''nocio'', ''nodozo'',
    ''nokto'', ''nomkarto'', ''norda'', ''nostalgio'', ''notbloko'', ''novico'', ''nuanco'', ''nuboza'', ''nuda'', ''nugato'', ''nuklea'',
    ''nuligi'', ''numero'', ''nuntempe'', ''nupto'', ''nura'', ''nutri'', ''oazo'', ''obei'', ''objekto'', ''oblikva'', ''obolo'',
    ''observi'', ''obtuza'', ''obuso'', ''oceano'', ''odekolono'', ''odori'', ''oferti'', ''oficiala'', ''ofsajdo'', ''ofte'', ''ogivo'',
    ''ogro'', ''ojstredoj'', ''okaze'', ''okcidenta'', ''okro'', ''oksido'', ''oktobro'', ''okulo'', ''oldulo'', ''oleo'', ''olivo'',
    ''omaro'', ''ombro'', ''omego'', ''omikrono'', ''omleto'', ''omnibuso'', ''onagro'', ''ondo'', ''oneco'', ''onidire'', ''onklino'',
    ''onlajna'', ''onomatopeo'', ''ontologio'', ''opaka'', ''operacii'', ''opinii'', ''oportuna'', ''opresi'', ''optimisto'', ''oratoro'',
    ''orbito'', ''ordinara'', ''orelo'', ''orfino'', ''organizi'', ''orienta'', ''orkestro'', ''orlo'', ''orminejo'', ''ornami'',
    ''ortangulo'', ''orumi'', ''oscedi'', ''osmozo'', ''ostocerbo'', ''ovalo'', ''ovingo'', ''ovoblanko'', ''ovri'', ''ovulado'', ''ozono'',
    ''pacama'', ''padeli'', ''pafilo'', ''pagigi'', ''pajlo'', ''paketo'', ''palaco'', ''pampelmo'', ''pantalono'', ''papero'', ''paroli'',
    ''pasejo'', ''patro'', ''pavimo'', ''peco'', ''pedalo'', ''peklita'', ''pelikano'', ''pensiono'', ''peplomo'', ''pesilo'', ''petanto'',
    ''pezoforto'', ''piano'', ''picejo'', ''piede'', ''pigmento'', ''pikema'', ''pilkoludo'', ''pimento'', ''pinglo'', ''pioniro'',
    ''pipromento'', ''pirato'', ''pistolo'', ''pitoreska'', ''piulo'', ''pivoti'', ''pizango'', ''planko'', ''plektita'', ''plibonigi'',
    ''ploradi'', ''plurlingva'', ''pobo'', ''podio'', ''poeto'', ''pogranda'', ''pohora'', ''pokalo'', ''politekniko'', ''pomarbo'',
    ''ponevosto'', ''populara'', ''porcelana'', ''postkompreno'', ''poteto'', ''poviga'', ''pozitiva'', ''prapatroj'', ''precize'',
    ''pridemandi'', ''probable'', ''pruntanto'', ''psalmo'', ''psikologio'', ''psoriazo'', ''pterido'', ''publiko'', ''pudro'', ''pufo'',
    ''pugnobato'', ''pulovero'', ''pumpi'', ''punkto'', ''pupo'', ''pureo'', ''puso'', ''putrema'', ''puzlo'', ''rabate'', ''racionala'',
    ''radiko'', ''rafinado'', ''raguo'', ''rajto'', ''rakonti'', ''ralio'', ''rampi'', ''rando'', ''rapida'', ''rastruma'', ''ratifiki'',
    ''raviolo'', ''razeno'', ''reakcio'', ''rebildo'', ''recepto'', ''redakti'', ''reenigi'', ''reformi'', ''regiono'', ''rehavi'',
    ''reinspekti'', ''rejesi'', ''reklamo'', ''relativa'', ''rememori'', ''renkonti'', ''reorganizado'', ''reprezenti'', ''respondi'',
    ''retumilo'', ''reuzebla'', ''revidi'', ''rezulti'', ''rialo'', ''ribeli'', ''ricevi'', ''ridiga'']"

definition esperanto_words_5 :: "string list" where
  "esperanto_words_5 = [
    ''rifuginto'', ''rigardi'', ''rikolti'', ''rilati'', ''rimarki'', ''rinocero'', ''ripozi'', ''riski'', ''ritmo'', ''rivero'',
    ''rizokampo'', ''roboto'', ''rododendro'', ''rojo'', ''rokmuziko'', ''rolvorto'', ''romantika'', ''ronroni'', ''rosino'', ''rotondo'',
    ''rovero'', ''rozeto'', ''rubando'', ''rudimenta'', ''rufa'', ''rugbeo'', ''ruino'', ''ruleto'', ''rumoro'', ''runo'', ''rupio'',
    ''rura'', ''rustimuna'', ''ruzulo'', ''sabato'', ''sadismo'', ''safario'', ''sagaca'', ''sakfluto'', ''salti'', ''samtage'', ''sandalo'',
    ''sapejo'', ''sarongo'', ''satelito'', ''savano'', ''sbiro'', ''sciado'', ''seanco'', ''sebo'', ''sedativo'', ''segligno'',
    ''sekretario'', ''selektiva'', ''semajno'', ''senpeza'', ''separeo'', ''servilo'', ''sesangulo'', ''setli'', ''seurigi'', ''severa'',
    ''sezono'', ''sfagno'', ''sfero'', ''sfinkso'', ''siatempe'', ''siblado'', ''sidejo'', ''siesto'', ''sifono'', ''signalo'', ''siklo'',
    ''silenti'', ''simpla'', ''sinjoro'', ''siropo'', ''sistemo'', ''situacio'', ''siverto'', ''sizifa'', ''skatolo'', ''skemo'',
    ''skianto'', ''sklavo'', ''skorpio'', ''skribisto'', ''skulpti'', ''skvamo'', ''slango'', ''sledeto'', ''sliparo'', ''smeraldo'',
    ''smirgi'', ''smokingo'', ''smuto'', ''snoba'', ''snufegi'', ''sobra'', ''sociano'', ''sodakvo'', ''sofo'', ''soifi'', ''sojlo'',
    ''soklo'', ''soldato'', ''somero'', ''sonilo'', ''sopiri'', ''sorto'', ''soulo'', ''soveto'', ''sparkado'', ''speciala'', ''spiri'',
    ''splito'', ''sporto'', ''sprita'', ''spuro'', ''stabila'', ''stelfiguro'', ''stimulo'', ''stomako'', ''strato'', ''studanto'',
    ''subgrupo'', ''suden'', ''suferanta'', ''sugesti'', ''suito'', ''sukero'', ''sulko'', ''sume'', ''sunlumo'', ''super'', ''surskribeto'',
    ''suspekti'', ''suturo'', ''svati'', ''svenfali'', ''svingi'', ''svopo'', ''tabako'', ''taglumo'', ''tajloro'', ''taksimetro'',
    ''talento'', ''tamen'', ''tanko'', ''taoismo'', ''tapioko'', ''tarifo'', ''tasko'', ''tatui'', ''taverno'', ''teatro'', ''tedlaboro'',
    ''tegmento'', ''tehoro'', ''teknika'', ''telefono'', ''tempo'', ''tenisejo'', ''teorie'', ''teraso'', ''testudo'', ''tetablo'',
    ''teujo'', ''tezo'', ''tialo'', ''tibio'', ''tielnomata'', ''tifono'', ''tigro'', ''tikli'', ''timida'', ''tinkturo'', ''tiom'',
    ''tiparo'', ''tirkesto'', ''titolo'', ''tiutempe'', ''tizano'', ''tobogano'', ''tofeo'', ''togo'', ''toksa'', ''tolerema'', ''tombolo'',
    ''tondri'', ''topografio'', ''tordeti'', ''tosti'', ''totalo'', ''traduko'', ''tredi'', ''triangulo'', ''tropika'', ''trumpeto'',
    ''tualeto'', ''tubisto'', ''tufgrebo'', ''tuja'', ''tukano'', ''tulipo'', ''tumulto'', ''tunelo'', ''turisto'', ''tusi'', ''tutmonda'',
    ''tvisto'', ''udono'', ''uesto'', ''ukazo'', ''ukelelo'', ''ulcero'', ''ulmo'', ''ultimato'', ''ululi'', ''umbiliko'', ''unco'',
    ''ungego'', ''uniformo'', ''unkti'', ''unukolora'', ''uragano'', ''urbano'', ''uretro'', ''urino'', ''ursido'', ''uskleco'', ''usonigi'',
    ''utero'', ''utila'', ''utopia'', ''uverturo'', ''uzadi'', ''uzeblo'', ''uzino'', ''uzkutimo'', ''uzofini'', ''uzurpi'', ''uzvaloro'',
    ''vadejo'', ''vafleto'', ''vagono'', ''vahabismo'', ''vajco'', ''vakcino'', ''valoro'', ''vampiro'', ''vangharoj'', ''vaporo'',
    ''varma'', ''vasta'', ''vato'', ''vazaro'', ''veaspekta'', ''vedismo'', ''vegetalo'', ''vehiklo'', ''vejno'', ''vekita'', ''velstango'',
    ''vemieno'', ''vendi'', ''vepro'', ''verando'', ''vespero'', ''veturi'', ''veziko'', ''viando'', ''vibri'', ''vico'', ''videbla'',
    ''vifio'', ''vigla'', ''viktimo'', ''vila'', ''vimeno'', ''vintro'', ''violo'', ''vippuno'', ''virtuala'', ''viskoza'', ''vitro'',
    ''viveca'', ''viziti'', ''vobli'', ''vodko'', ''vojeto'', ''vokegi'', ''volbo'', ''vomema'', ''vono'', ''vortaro'', ''vosto'', ''voti'',
    ''vrako'', ''vringi'', ''vualo'', ''vulkano'', ''vundo'', ''vuvuzelo'', ''zamenhofa'', ''zapi'', ''zebro'', ''zefiro'', ''zeloto'',
    ''zenismo'', ''zeolito'', ''zepelino'', ''zeto'', ''zigzagi'', ''zinko'', ''zipo'', ''zirkonio'', ''zodiako'', ''zoeto'', ''zombio'',
    ''zono'', ''zoologio'', ''zorgi'', ''zukino'', ''zumilo'']"

abbreviation esperanto_words :: "string list" where
  "esperanto_words \<equiv> esperanto_words_1 @ esperanto_words_2 @ esperanto_words_3 @ esperanto_words_4 @ esperanto_words_5"

lemmas esperanto_words_defs = esperanto_words_1_def esperanto_words_2_def esperanto_words_3_def esperanto_words_4_def esperanto_words_5_def

definition Esperanto :: "Language option" where
  "Esperanto = populate_maps False False (Language_Base ''Esperanto'' ''Esperanto'' esperanto_words 4)"

lemma esperanto_1_ok: "part_ok False (Suc (Suc (Suc (Suc 0)))) 326 esperanto_words_1"
  by (simp only: esperanto_words_1_def part_eval)

lemma esperanto_2_ok: "part_ok False (Suc (Suc (Suc (Suc 0)))) 325 esperanto_words_2"
  by (simp only: esperanto_words_2_def part_eval)

lemma esperanto_3_ok: "part_ok False (Suc (Suc (Suc (Suc 0)))) 325 esperanto_words_3"
  by (simp only: esperanto_words_3_def part_eval)

lemma esperanto_4_ok: "part_ok False (Suc (Suc (Suc (Suc 0)))) 325 esperanto_words_4"
  by (simp only: esperanto_words_4_def part_eval)

lemma esperanto_5_ok: "part_ok False (Suc (Suc (Suc (Suc 0)))) 325 esperanto_words_5"
  by (simp only: esperanto_words_5_def part_eval)

lemma esperanto_ok: "part_ok False (Suc (Suc (Suc (Suc 0)))) 1626 esperanto_words"
  using part_ok_append [OF esperanto_1_ok part_ok_append [OF esperanto_2_ok part_ok_append [OF esperanto_3_ok part_ok_append [OF esperanto_4_ok esperanto_5_ok]]]]
  by simp

lemma esperanto_codes: "radix (Suc (Suc (Suc (Suc (Suc (Suc (Suc (Suc (Suc (Suc (Suc (Suc (Suc (Suc (Suc (Suc (Suc (Suc (Suc (Suc (Suc (Suc (Suc (Suc (Suc 0))))))))))))))))))))))))) (codes (Suc (Suc (Suc (Suc 0)))) esperanto_words)"
  unfolding codes_append by (simp only: esperanto_words_defs code_eval)

lemma esperanto_constructed: "constructed False Esperanto ''Esperanto'' ''Esperanto'' esperanto_words"
  unfolding Esperanto_def by (rule constructor_returns [OF _ esperanto_codes]) (simp_all only: if_True if_False esperanto_ok, simp)

interpretation esperanto: seed_language "the Esperanto"
  by (rule constructed_language [OF esperanto_constructed])

end
