(* ===== verification/WordsLatin.thy ===== *)
theory WordsLatin
  imports WordCheck
begin

text \<open>
  The word lists of \<open>spanish.h\<close>, \<open>portuguese.h\<close>, \<open>german.h\<close> and \<open>lojban.h\<close> in \<open>src/mnemonics\<close>, and
  their constructors. A word with letters outside of ASCII is written as the bytes of its UTF-8 form.
\<close>

section \<open>Spanish\<close>

definition spanish_words_1 :: "string list" where
  "spanish_words_1 = [
    [CHR 0xC3, CHR 0xA1, CHR ''b'', CHR ''a'', CHR ''c'', CHR ''o''], ''abdomen'', ''abeja'', ''abierto'', ''abogado'', ''abono'',
    ''aborto'', ''abrazo'', ''abrir'', ''abuelo'', ''abuso'', ''acabar'', ''academia'', ''acceso'',
    [CHR ''a'', CHR ''c'', CHR ''c'', CHR ''i'', CHR 0xC3, CHR 0xB3, CHR ''n''], ''aceite'', ''acelga'', ''acento'', ''aceptar'',
    [CHR 0xC3, CHR 0xA1, CHR ''c'', CHR ''i'', CHR ''d'', CHR ''o''], ''aclarar'', [CHR ''a'', CHR ''c'', CHR ''n'', CHR 0xC3, CHR 0xA9],
    ''acoger'', ''acoso'', ''activo'', ''acto'', ''actriz'', ''actuar'', ''acudir'', ''acuerdo'', ''acusar'', ''adicto'', ''admitir'',
    ''adoptar'', ''adorno'', ''aduana'', ''adulto'', [CHR ''a'', CHR 0xC3, CHR 0xA9, CHR ''r'', CHR ''e'', CHR ''o''], ''afectar'',
    [CHR ''a'', CHR ''f'', CHR ''i'', CHR ''c'', CHR ''i'', CHR 0xC3, CHR 0xB3, CHR ''n''], ''afinar'', ''afirmar'',
    [CHR 0xC3, CHR 0xA1, CHR ''g'', CHR ''i'', CHR ''l''], ''agitar'',
    [CHR ''a'', CHR ''g'', CHR ''o'', CHR ''n'', CHR 0xC3, CHR 0xAD, CHR ''a''], ''agosto'', ''agotar'', ''agregar'', ''agrio'', ''agua'',
    ''agudo'', [CHR 0xC3, CHR 0xA1, CHR ''g'', CHR ''u'', CHR ''i'', CHR ''l'', CHR ''a''], ''aguja'', ''ahogo'', ''ahorro'', ''aire'',
    ''aislar'', ''ajedrez'', ''ajeno'', ''ajuste'', [CHR ''a'', CHR ''l'', CHR ''a'', CHR ''c'', CHR ''r'', CHR 0xC3, CHR 0xA1, CHR ''n''],
    ''alambre'', ''alarma'', ''alba'', [CHR 0xC3, CHR 0xA1, CHR ''l'', CHR ''b'', CHR ''u'', CHR ''m''], ''alcalde'', ''aldea'', ''alegre'',
    ''alejar'', ''alerta'', ''aleta'', ''alfiler'', ''alga'',
    [CHR ''a'', CHR ''l'', CHR ''g'', CHR ''o'', CHR ''d'', CHR 0xC3, CHR 0xB3, CHR ''n''], ''aliado'', ''aliento'', ''alivio'', ''alma'',
    ''almeja'', [CHR ''a'', CHR ''l'', CHR ''m'', CHR 0xC3, CHR 0xAD, CHR ''b'', CHR ''a'', CHR ''r''], ''altar'', ''alteza'', ''altivo'',
    ''alto'', ''altura'', ''alumno'', ''alzar'', ''amable'', ''amante'', ''amapola'', ''amargo'', ''amasar'',
    [CHR 0xC3, CHR 0xA1, CHR ''m'', CHR ''b'', CHR ''a'', CHR ''r''],
    [CHR 0xC3, CHR 0xA1, CHR ''m'', CHR ''b'', CHR ''i'', CHR ''t'', CHR ''o''], ''ameno'', ''amigo'', ''amistad'', ''amor'', ''amparo'',
    ''amplio'', ''ancho'', ''anciano'', ''ancla'', ''andar'', [CHR ''a'', CHR ''n'', CHR ''d'', CHR 0xC3, CHR 0xA9, CHR ''n''], ''anemia'',
    [CHR 0xC3, CHR 0xA1, CHR ''n'', CHR ''g'', CHR ''u'', CHR ''l'', CHR ''o''], ''anillo'',
    [CHR 0xC3, CHR 0xA1, CHR ''n'', CHR ''i'', CHR ''m'', CHR ''o''], [CHR ''a'', CHR ''n'', CHR 0xC3, CHR 0xAD, CHR ''s''], ''anotar'',
    ''antena'', ''antiguo'', ''antojo'', ''anual'', ''anular'', ''anuncio'',
    [CHR ''a'', CHR 0xC3, CHR 0xB1, CHR ''a'', CHR ''d'', CHR ''i'', CHR ''r''],
    [CHR ''a'', CHR 0xC3, CHR 0xB1, CHR ''e'', CHR ''j'', CHR ''o''], [CHR ''a'', CHR 0xC3, CHR 0xB1, CHR ''o''], ''apagar'', ''aparato'',
    ''apetito'', ''apio'', ''aplicar'', ''apodo'', ''aporte'', ''apoyo'', ''aprender'', ''aprobar'', ''apuesta'', ''apuro'', ''arado'',
    [CHR ''a'', CHR ''r'', CHR ''a'', CHR 0xC3, CHR 0xB1, CHR ''a''], ''arar'',
    [CHR 0xC3, CHR 0xA1, CHR ''r'', CHR ''b'', CHR ''i'', CHR ''t'', CHR ''r'', CHR ''o''],
    [CHR 0xC3, CHR 0xA1, CHR ''r'', CHR ''b'', CHR ''o'', CHR ''l''], ''arbusto'', ''archivo'', ''arco'', ''arder'', ''ardilla'', ''arduo'',
    [CHR 0xC3, CHR 0xA1, CHR ''r'', CHR ''e'', CHR ''a''], [CHR 0xC3, CHR 0xA1, CHR ''r'', CHR ''i'', CHR ''d'', CHR ''o''], ''aries'',
    [CHR ''a'', CHR ''r'', CHR ''m'', CHR ''o'', CHR ''n'', CHR 0xC3, CHR 0xAD, CHR ''a''],
    [CHR ''a'', CHR ''r'', CHR ''n'', CHR 0xC3, CHR 0xA9, CHR ''s''], ''aroma'', ''arpa'',
    [CHR ''a'', CHR ''r'', CHR ''p'', CHR 0xC3, CHR 0xB3, CHR ''n''], ''arreglo'', ''arroz'', ''arruga'', ''arte'', ''artista'', ''asa'',
    ''asado'', ''asalto'', ''ascenso'', ''asegurar'', ''aseo'', ''asesor'', ''asiento'', ''asilo'', ''asistir'', ''asno'', ''asombro'',
    [CHR 0xC3, CHR 0xA1, CHR ''s'', CHR ''p'', CHR ''e'', CHR ''r'', CHR ''o''], ''astilla'', ''astro'', ''astuto'', ''asumir'', ''asunto'',
    ''atajo'', ''ataque'', ''atar'', ''atento'', ''ateo'', [CHR 0xC3, CHR 0xA1, CHR ''t'', CHR ''i'', CHR ''c'', CHR ''o''], ''atleta'',
    [CHR 0xC3, CHR 0xA1, CHR ''t'', CHR ''o'', CHR ''m'', CHR ''o''], ''atraer'', ''atroz'',
    [CHR ''a'', CHR ''t'', CHR 0xC3, CHR 0xBA, CHR ''n''], ''audaz'', ''audio'', ''auge'', ''aula'', ''aumento'', ''ausente'', ''autor'',
    ''aval'', ''avance'', ''avaro'', ''ave'', ''avellana'', ''avena'', ''avestruz'',
    [CHR ''a'', CHR ''v'', CHR ''i'', CHR 0xC3, CHR 0xB3, CHR ''n''], ''aviso'', ''ayer'', ''ayuda'', ''ayuno'',
    [CHR ''a'', CHR ''z'', CHR ''a'', CHR ''f'', CHR ''r'', CHR 0xC3, CHR 0xA1, CHR ''n''], ''azar'', ''azote'',
    [CHR ''a'', CHR ''z'', CHR 0xC3, CHR 0xBA, CHR ''c'', CHR ''a'', CHR ''r''], ''azufre'', ''azul'', ''baba'', ''babor'', ''bache'',
    [CHR ''b'', CHR ''a'', CHR ''h'', CHR 0xC3, CHR 0xAD, CHR ''a''], ''baile'', ''bajar'', ''balanza'',
    [CHR ''b'', CHR ''a'', CHR ''l'', CHR ''c'', CHR 0xC3, CHR 0xB3, CHR ''n''], ''balde'',
    [CHR ''b'', CHR ''a'', CHR ''m'', CHR ''b'', CHR 0xC3, CHR 0xBA], ''banco'', ''banda'',
    [CHR ''b'', CHR ''a'', CHR 0xC3, CHR 0xB1, CHR ''o''], ''barba'', ''barco'', ''barniz'', ''barro'',
    [CHR ''b'', CHR 0xC3, CHR 0xA1, CHR ''s'', CHR ''c'', CHR ''u'', CHR ''l'', CHR ''a''],
    [CHR ''b'', CHR ''a'', CHR ''s'', CHR ''t'', CHR 0xC3, CHR 0xB3, CHR ''n''], ''basura'', ''batalla'',
    [CHR ''b'', CHR ''a'', CHR ''t'', CHR ''e'', CHR ''r'', CHR 0xC3, CHR 0xAD, CHR ''a''], ''batir'', ''batuta'',
    [CHR ''b'', CHR ''a'', CHR 0xC3, CHR 0xBA, CHR ''l''], ''bazar'', [CHR ''b'', CHR ''e'', CHR ''b'', CHR 0xC3, CHR 0xA9], ''bebida'',
    ''bello'', ''besar'', ''beso'', ''bestia'', ''bicho'', ''bien'', ''bingo'', ''blanco'', ''bloque'', ''blusa'', ''boa'', ''bobina'',
    ''bobo'', ''boca'', ''bocina'', ''boda'', ''bodega'', ''boina'', ''bola'', ''bolero'', ''bolsa'', ''bomba'', ''bondad'', ''bonito'',
    ''bono'', [CHR ''b'', CHR ''o'', CHR ''n'', CHR ''s'', CHR 0xC3, CHR 0xA1, CHR ''i''], ''borde'', ''borrar'', ''bosque'', ''bote'',
    [CHR ''b'', CHR ''o'', CHR ''t'', CHR 0xC3, CHR 0xAD, CHR ''n''],
    [CHR ''b'', CHR 0xC3, CHR 0xB3, CHR ''v'', CHR ''e'', CHR ''d'', CHR ''a''], ''bozal'', ''bravo'', ''brazo'', ''brecha'', ''breve'',
    ''brillo'', ''brinco'', ''brisa'', ''broca'', ''broma'', ''bronce'', ''brote'', ''bruja'', ''brusco'', ''bruto'', ''buceo'', ''bucle'',
    ''bueno'', ''buey'', ''bufanda'', [CHR ''b'', CHR ''u'', CHR ''f'', CHR 0xC3, CHR 0xB3, CHR ''n''],
    [CHR ''b'', CHR 0xC3, CHR 0xBA, CHR ''h'', CHR ''o''], ''buitre'', ''bulto'', ''burbuja'', ''burla'', ''burro'', ''buscar'', ''butaca'',
    [CHR ''b'', CHR ''u'', CHR ''z'', CHR 0xC3, CHR 0xB3, CHR ''n''], ''caballo'', ''cabeza'', ''cabina'', ''cabra'', ''cacao'',
    [CHR ''c'', CHR ''a'', CHR ''d'', CHR 0xC3, CHR 0xA1, CHR ''v'', CHR ''e'', CHR ''r''], ''cadena'', ''caer'',
    [CHR ''c'', CHR ''a'', CHR ''f'', CHR 0xC3, CHR 0xA9], [CHR ''c'', CHR ''a'', CHR 0xC3, CHR 0xAD, CHR ''d'', CHR ''a''],
    [CHR ''c'', CHR ''a'', CHR ''i'', CHR ''m'', CHR 0xC3, CHR 0xA1, CHR ''n''], ''caja'',
    [CHR ''c'', CHR ''a'', CHR ''j'', CHR 0xC3, CHR 0xB3, CHR ''n''], ''cal'', ''calamar'', ''calcio'', ''caldo'', ''calidad'', ''calle'',
    ''calma'', ''calor'', ''calvo'', ''cama'', ''cambio'', ''camello'', ''camino'']"

definition spanish_words_2 :: "string list" where
  "spanish_words_2 = [
    ''campo'', [CHR ''c'', CHR 0xC3, CHR 0xA1, CHR ''n'', CHR ''c'', CHR ''e'', CHR ''r''], ''candil'', ''canela'', ''canguro'', ''canica'',
    ''canto'', [CHR ''c'', CHR ''a'', CHR 0xC3, CHR 0xB1, CHR ''a''],
    [CHR ''c'', CHR ''a'', CHR 0xC3, CHR 0xB1, CHR 0xC3, CHR 0xB3, CHR ''n''], ''caoba'', ''caos'', ''capaz'',
    [CHR ''c'', CHR ''a'', CHR ''p'', CHR ''i'', CHR ''t'', CHR 0xC3, CHR 0xA1, CHR ''n''], ''capote'', ''captar'', ''capucha'', ''cara'',
    [CHR ''c'', CHR ''a'', CHR ''r'', CHR ''b'', CHR 0xC3, CHR 0xB3, CHR ''n''],
    [CHR ''c'', CHR 0xC3, CHR 0xA1, CHR ''r'', CHR ''c'', CHR ''e'', CHR ''l''], ''careta'', ''carga'',
    [CHR ''c'', CHR ''a'', CHR ''r'', CHR ''i'', CHR 0xC3, CHR 0xB1, CHR ''o''], ''carne'', ''carpeta'', ''carro'', ''carta'', ''casa'',
    ''casco'', ''casero'', ''caspa'', ''castor'', ''catorce'', ''catre'', ''caudal'', ''causa'', ''cazo'', ''cebolla'', ''ceder'', ''cedro'',
    ''celda'', [CHR ''c'', CHR 0xC3, CHR 0xA9, CHR ''l'', CHR ''e'', CHR ''b'', CHR ''r'', CHR ''e''], ''celoso'',
    [CHR ''c'', CHR 0xC3, CHR 0xA9, CHR ''l'', CHR ''u'', CHR ''l'', CHR ''a''], ''cemento'', ''ceniza'', ''centro'', ''cerca'', ''cerdo'',
    ''cereza'', ''cero'', ''cerrar'', ''certeza'', [CHR ''c'', CHR 0xC3, CHR 0xA9, CHR ''s'', CHR ''p'', CHR ''e'', CHR ''d''], ''cetro'',
    ''chacal'', ''chaleco'', [CHR ''c'', CHR ''h'', CHR ''a'', CHR ''m'', CHR ''p'', CHR 0xC3, CHR 0xBA], ''chancla'', ''chapa'', ''charla'',
    ''chico'', ''chiste'', ''chivo'', ''choque'', ''choza'', ''chuleta'', ''chupar'',
    [CHR ''c'', CHR ''i'', CHR ''c'', CHR ''l'', CHR 0xC3, CHR 0xB3, CHR ''n''], ''ciego'', ''cielo'', ''cien'', ''cierto'', ''cifra'',
    ''cigarro'', ''cima'', ''cinco'', ''cine'', ''cinta'', [CHR ''c'', CHR ''i'', CHR ''p'', CHR ''r'', CHR 0xC3, CHR 0xA9, CHR ''s''],
    ''circo'', ''ciruela'', ''cisne'', ''cita'', ''ciudad'', ''clamor'', ''clan'', ''claro'', ''clase'', ''clave'', ''cliente'', ''clima'',
    [CHR ''c'', CHR ''l'', CHR 0xC3, CHR 0xAD, CHR ''n'', CHR ''i'', CHR ''c'', CHR ''a''], ''cobre'',
    [CHR ''c'', CHR ''o'', CHR ''c'', CHR ''c'', CHR ''i'', CHR 0xC3, CHR 0xB3, CHR ''n''], ''cochino'', ''cocina'', ''coco'',
    [CHR ''c'', CHR 0xC3, CHR 0xB3, CHR ''d'', CHR ''i'', CHR ''g'', CHR ''o''], ''codo'', ''cofre'', ''coger'', ''cohete'',
    [CHR ''c'', CHR ''o'', CHR ''j'', CHR 0xC3, CHR 0xAD, CHR ''n''], ''cojo'', ''cola'', ''colcha'', ''colegio'', ''colgar'', ''colina'',
    ''collar'', ''colmo'', ''columna'', ''combate'', ''comer'', ''comida'',
    [CHR ''c'', CHR 0xC3, CHR 0xB3, CHR ''m'', CHR ''o'', CHR ''d'', CHR ''o''], ''compra'', ''conde'', ''conejo'', ''conga'', ''conocer'',
    ''consejo'', ''contar'', ''copa'', ''copia'', [CHR ''c'', CHR ''o'', CHR ''r'', CHR ''a'', CHR ''z'', CHR 0xC3, CHR 0xB3, CHR ''n''],
    ''corbata'', ''corcho'', [CHR ''c'', CHR ''o'', CHR ''r'', CHR ''d'', CHR 0xC3, CHR 0xB3, CHR ''n''], ''corona'', ''correr'', ''coser'',
    ''cosmos'', ''costa'', [CHR ''c'', CHR ''r'', CHR 0xC3, CHR 0xA1, CHR ''n'', CHR ''e'', CHR ''o''],
    [CHR ''c'', CHR ''r'', CHR 0xC3, CHR 0xA1, CHR ''t'', CHR ''e'', CHR ''r''], ''crear'', ''crecer'',
    [CHR ''c'', CHR ''r'', CHR ''e'', CHR 0xC3, CHR 0xAD, CHR ''d'', CHR ''o''], ''crema'',
    [CHR ''c'', CHR ''r'', CHR 0xC3, CHR 0xAD, CHR ''a''], ''crimen'', ''cripta'', ''crisis'', ''cromo'',
    [CHR ''c'', CHR ''r'', CHR 0xC3, CHR 0xB3, CHR ''n'', CHR ''i'', CHR ''c'', CHR ''a''], ''croqueta'', ''crudo'', ''cruz'', ''cuadro'',
    ''cuarto'', ''cuatro'', ''cubo'', ''cubrir'', ''cuchara'', ''cuello'', ''cuento'', ''cuerda'', ''cuesta'', ''cueva'', ''cuidar'',
    ''culebra'', ''culpa'', ''culto'', ''cumbre'', ''cumplir'', ''cuna'', ''cuneta'', ''cuota'',
    [CHR ''c'', CHR ''u'', CHR ''p'', CHR 0xC3, CHR 0xB3, CHR ''n''],
    [CHR ''c'', CHR 0xC3, CHR 0xBA, CHR ''p'', CHR ''u'', CHR ''l'', CHR ''a''], ''curar'', ''curioso'', ''curso'', ''curva'', ''cutis'',
    ''dama'', ''danza'', ''dar'', ''dardo'', [CHR ''d'', CHR 0xC3, CHR 0xA1, CHR ''t'', CHR ''i'', CHR ''l''], ''deber'',
    [CHR ''d'', CHR 0xC3, CHR 0xA9, CHR ''b'', CHR ''i'', CHR ''l''],
    [CHR ''d'', CHR 0xC3, CHR 0xA9, CHR ''c'', CHR ''a'', CHR ''d'', CHR ''a''], ''decir'', ''dedo'', ''defensa'', ''definir'', ''dejar'',
    [CHR ''d'', CHR ''e'', CHR ''l'', CHR ''f'', CHR 0xC3, CHR 0xAD, CHR ''n''], ''delgado'', ''delito'', ''demora'', ''denso'', ''dental'',
    ''deporte'', ''derecho'', ''derrota'', ''desayuno'', ''deseo'', ''desfile'', ''desnudo'', ''destino'',
    [CHR ''d'', CHR ''e'', CHR ''s'', CHR ''v'', CHR 0xC3, CHR 0xAD, CHR ''o''], ''detalle'', ''detener'', ''deuda'',
    [CHR ''d'', CHR 0xC3, CHR 0xAD, CHR ''a''], ''diablo'', ''diadema'', ''diamante'', ''diana'', ''diario'', ''dibujo'', ''dictar'',
    ''diente'', ''dieta'', ''diez'', [CHR ''d'', CHR ''i'', CHR ''f'', CHR 0xC3, CHR 0xAD, CHR ''c'', CHR ''i'', CHR ''l''], ''digno'',
    ''dilema'', ''diluir'', ''dinero'', ''directo'', ''dirigir'', ''disco'',
    [CHR ''d'', CHR ''i'', CHR ''s'', CHR ''e'', CHR 0xC3, CHR 0xB1, CHR ''o''], ''disfraz'', ''diva'', ''divino'', ''doble'', ''doce'',
    ''dolor'', ''domingo'', ''don'', ''donar'', ''dorado'', ''dormir'', ''dorso'', ''dos'', ''dosis'',
    [CHR ''d'', CHR ''r'', CHR ''a'', CHR ''g'', CHR 0xC3, CHR 0xB3, CHR ''n''], ''droga'', ''ducha'', ''duda'', ''duelo'',
    [CHR ''d'', CHR ''u'', CHR ''e'', CHR 0xC3, CHR 0xB1, CHR ''o''], ''dulce'', [CHR ''d'', CHR 0xC3, CHR 0xBA, CHR ''o''], ''duque'',
    ''durar'', ''dureza'', ''duro'', [CHR 0xC3, CHR 0xA9, CHR ''b'', CHR ''a'', CHR ''n'', CHR ''o''], ''ebrio'', ''echar'', ''eco'',
    ''ecuador'', ''edad'', [CHR ''e'', CHR ''d'', CHR ''i'', CHR ''c'', CHR ''i'', CHR 0xC3, CHR 0xB3, CHR ''n''], ''edificio'', ''editor'',
    ''educar'', ''efecto'', ''eficaz'', ''eje'', ''ejemplo'', ''elefante'', ''elegir'', ''elemento'', ''elevar'', ''elipse'',
    [CHR 0xC3, CHR 0xA9, CHR ''l'', CHR ''i'', CHR ''t'', CHR ''e''], ''elixir'', ''elogio'', ''eludir'', ''embudo'', ''emitir'',
    [CHR ''e'', CHR ''m'', CHR ''o'', CHR ''c'', CHR ''i'', CHR 0xC3, CHR 0xB3, CHR ''n''], ''empate'',
    [CHR ''e'', CHR ''m'', CHR ''p'', CHR ''e'', CHR 0xC3, CHR 0xB1, CHR ''o''], ''empleo'', ''empresa'', ''enano'', ''encargo'',
    ''enchufe'', [CHR ''e'', CHR ''n'', CHR ''c'', CHR 0xC3, CHR 0xAD, CHR ''a''], ''enemigo'', ''enero'', ''enfado'', ''enfermo'',
    [CHR ''e'', CHR ''n'', CHR ''g'', CHR ''a'', CHR 0xC3, CHR 0xB1, CHR ''o''], ''enigma'', ''enlace'', ''enorme'', ''enredo'', ''ensayo'',
    [CHR ''e'', CHR ''n'', CHR ''s'', CHR ''e'', CHR 0xC3, CHR 0xB1, CHR ''a'', CHR ''r''], ''entero'', ''entrar'', ''envase'',
    [CHR ''e'', CHR ''n'', CHR ''v'', CHR 0xC3, CHR 0xAD, CHR ''o''], [CHR 0xC3, CHR 0xA9, CHR ''p'', CHR ''o'', CHR ''c'', CHR ''a''],
    ''equipo'', ''erizo'', ''escala'', ''escena'', ''escolar'', ''escribir'', ''escudo'', ''esencia'', ''esfera'', ''esfuerzo'', ''espada'',
    ''espejo'', [CHR ''e'', CHR ''s'', CHR ''p'', CHR 0xC3, CHR 0xAD, CHR ''a''], ''esposa'', ''espuma'',
    [CHR ''e'', CHR ''s'', CHR ''q'', CHR ''u'', CHR 0xC3, CHR 0xAD], ''estar'', ''este'', ''estilo'', ''estufa'', ''etapa'', ''eterno'']"

definition spanish_words_3 :: "string list" where
  "spanish_words_3 = [
    [CHR 0xC3, CHR 0xA9, CHR ''t'', CHR ''i'', CHR ''c'', CHR ''a''], ''etnia'', ''evadir'', ''evaluar'', ''evento'', ''evitar'', ''exacto'',
    ''examen'', ''exceso'', ''excusa'', ''exento'', ''exigir'', ''exilio'', ''existir'',
    [CHR 0xC3, CHR 0xA9, CHR ''x'', CHR ''i'', CHR ''t'', CHR ''o''], ''experto'', ''explicar'', ''exponer'', ''extremo'',
    [CHR ''f'', CHR 0xC3, CHR 0xA1, CHR ''b'', CHR ''r'', CHR ''i'', CHR ''c'', CHR ''a''],
    [CHR ''f'', CHR 0xC3, CHR 0xA1, CHR ''b'', CHR ''u'', CHR ''l'', CHR ''a''], ''fachada'',
    [CHR ''f'', CHR 0xC3, CHR 0xA1, CHR ''c'', CHR ''i'', CHR ''l''], ''factor'', ''faena'', ''faja'', ''falda'', ''fallo'', ''falso'',
    ''faltar'', ''fama'', ''familia'', ''famoso'', [CHR ''f'', CHR ''a'', CHR ''r'', CHR ''a'', CHR 0xC3, CHR 0xB3, CHR ''n''], ''farmacia'',
    ''farol'', ''farsa'', ''fase'', ''fatiga'', ''fauna'', ''favor'', ''fax'', ''febrero'', ''fecha'', ''feliz'', ''feo'', ''feria'',
    ''feroz'', [CHR ''f'', CHR 0xC3, CHR 0xA9, CHR ''r'', CHR ''t'', CHR ''i'', CHR ''l''], ''fervor'',
    [CHR ''f'', CHR ''e'', CHR ''s'', CHR ''t'', CHR 0xC3, CHR 0xAD, CHR ''n''], ''fiable'', ''fianza'', ''fiar'', ''fibra'',
    [CHR ''f'', CHR ''i'', CHR ''c'', CHR ''c'', CHR ''i'', CHR 0xC3, CHR 0xB3, CHR ''n''], ''ficha'', ''fideo'', ''fiebre'', ''fiel'',
    ''fiera'', ''fiesta'', ''figura'', ''fijar'', ''fijo'', ''fila'', ''filete'', ''filial'', ''filtro'', ''fin'', ''finca'', ''fingir'',
    ''finito'', ''firma'', ''flaco'', ''flauta'', ''flecha'', ''flor'', ''flota'', ''fluir'', ''flujo'',
    [CHR ''f'', CHR ''l'', CHR 0xC3, CHR 0xBA, CHR ''o'', CHR ''r''], ''fobia'', ''foca'', ''fogata'',
    [CHR ''f'', CHR ''o'', CHR ''g'', CHR 0xC3, CHR 0xB3, CHR ''n''], ''folio'', ''folleto'', ''fondo'', ''forma'', ''forro'', ''fortuna'',
    ''forzar'', ''fosa'', ''foto'', ''fracaso'', [CHR ''f'', CHR ''r'', CHR 0xC3, CHR 0xA1, CHR ''g'', CHR ''i'', CHR ''l''], ''franja'',
    ''frase'', ''fraude'', [CHR ''f'', CHR ''r'', CHR ''e'', CHR 0xC3, CHR 0xAD, CHR ''r''], ''freno'', ''fresa'',
    [CHR ''f'', CHR ''r'', CHR 0xC3, CHR 0xAD, CHR ''o''], ''frito'', ''fruta'', ''fuego'', ''fuente'', ''fuerza'', ''fuga'', ''fumar'',
    [CHR ''f'', CHR ''u'', CHR ''n'', CHR ''c'', CHR ''i'', CHR 0xC3, CHR 0xB3, CHR ''n''], ''funda'',
    [CHR ''f'', CHR ''u'', CHR ''r'', CHR ''g'', CHR 0xC3, CHR 0xB3, CHR ''n''], ''furia'', ''fusil'',
    [CHR ''f'', CHR 0xC3, CHR 0xBA, CHR ''t'', CHR ''b'', CHR ''o'', CHR ''l''], ''futuro'', ''gacela'', ''gafas'', ''gaita'', ''gajo'',
    ''gala'', [CHR ''g'', CHR ''a'', CHR ''l'', CHR ''e'', CHR ''r'', CHR 0xC3, CHR 0xAD, CHR ''a''], ''gallo'', ''gamba'', ''ganar'',
    ''gancho'', ''ganga'', ''ganso'', ''garaje'', ''garza'', ''gasolina'', ''gastar'', ''gato'',
    [CHR ''g'', CHR ''a'', CHR ''v'', CHR ''i'', CHR ''l'', CHR 0xC3, CHR 0xA1, CHR ''n''], ''gemelo'', ''gemir'', ''gen'',
    [CHR ''g'', CHR 0xC3, CHR 0xA9, CHR ''n'', CHR ''e'', CHR ''r'', CHR ''o''], ''genio'', ''gente'', ''geranio'', ''gerente'', ''germen'',
    ''gesto'', ''gigante'', ''gimnasio'', ''girar'', ''giro'', ''glaciar'', ''globo'', ''gloria'', ''gol'', ''golfo'', ''goloso'', ''golpe'',
    ''goma'', ''gordo'', ''gorila'', ''gorra'', ''gota'', ''goteo'', ''gozar'', ''grada'',
    [CHR ''g'', CHR ''r'', CHR 0xC3, CHR 0xA1, CHR ''f'', CHR ''i'', CHR ''c'', CHR ''o''], ''grano'', ''grasa'', ''gratis'', ''grave'',
    ''grieta'', ''grillo'', ''gripe'', ''gris'', ''grito'', ''grosor'', [CHR ''g'', CHR ''r'', CHR 0xC3, CHR 0xBA, CHR ''a''], ''grueso'',
    ''grumo'', ''grupo'', ''guante'', ''guapo'', ''guardia'', ''guerra'', [CHR ''g'', CHR ''u'', CHR 0xC3, CHR 0xAD, CHR ''a''],
    [CHR ''g'', CHR ''u'', CHR ''i'', CHR 0xC3, CHR 0xB1, CHR ''o''], ''guion'', ''guiso'', ''guitarra'', ''gusano'', ''gustar'', ''haber'',
    [CHR ''h'', CHR 0xC3, CHR 0xA1, CHR ''b'', CHR ''i'', CHR ''l''], ''hablar'', ''hacer'', ''hacha'', ''hada'', ''hallar'', ''hamaca'',
    ''harina'', ''haz'', [CHR ''h'', CHR ''a'', CHR ''z'', CHR ''a'', CHR 0xC3, CHR 0xB1, CHR ''a''], ''hebilla'', ''hebra'', ''hecho'',
    ''helado'', ''helio'', ''hembra'', ''herir'', ''hermano'', [CHR ''h'', CHR 0xC3, CHR 0xA9, CHR ''r'', CHR ''o'', CHR ''e''], ''hervir'',
    ''hielo'', ''hierro'', [CHR ''h'', CHR 0xC3, CHR 0xAD, CHR ''g'', CHR ''a'', CHR ''d'', CHR ''o''], ''higiene'', ''hijo'', ''himno'',
    ''historia'', ''hocico'', ''hogar'', ''hoguera'', ''hoja'', ''hombre'', ''hongo'', ''honor'', ''honra'', ''hora'', ''hormiga'',
    ''horno'', ''hostil'', ''hoyo'', ''hueco'', ''huelga'', ''huerta'', ''hueso'', ''huevo'', ''huida'', ''huir'', ''humano'',
    [CHR ''h'', CHR 0xC3, CHR 0xBA, CHR ''m'', CHR ''e'', CHR ''d'', CHR ''o''], ''humilde'', ''humo'', ''hundir'',
    [CHR ''h'', CHR ''u'', CHR ''r'', CHR ''a'', CHR ''c'', CHR 0xC3, CHR 0xA1, CHR ''n''], ''hurto'', ''icono'', ''ideal'', ''idioma'',
    [CHR 0xC3, CHR 0xAD, CHR ''d'', CHR ''o'', CHR ''l'', CHR ''o''], ''iglesia'', [CHR ''i'', CHR ''g'', CHR ''l'', CHR 0xC3, CHR 0xBA],
    ''igual'', ''ilegal'', [CHR ''i'', CHR ''l'', CHR ''u'', CHR ''s'', CHR ''i'', CHR 0xC3, CHR 0xB3, CHR ''n''], ''imagen'',
    [CHR ''i'', CHR ''m'', CHR 0xC3, CHR 0xA1, CHR ''n''], ''imitar'', ''impar'', ''imperio'', ''imponer'', ''impulso'', ''incapaz'',
    [CHR 0xC3, CHR 0xAD, CHR ''n'', CHR ''d'', CHR ''i'', CHR ''c'', CHR ''e''], ''inerte'', ''infiel'', ''informe'', ''ingenio'',
    ''inicio'', ''inmenso'', ''inmune'', ''innato'', ''insecto'', ''instante'',
    [CHR ''i'', CHR ''n'', CHR ''t'', CHR ''e'', CHR ''r'', CHR 0xC3, CHR 0xA9, CHR ''s''],
    [CHR 0xC3, CHR 0xAD, CHR ''n'', CHR ''t'', CHR ''i'', CHR ''m'', CHR ''o''], ''intuir'',
    [CHR ''i'', CHR ''n'', CHR 0xC3, CHR 0xBA, CHR ''t'', CHR ''i'', CHR ''l''], ''invierno'', ''ira'', ''iris'',
    [CHR ''i'', CHR ''r'', CHR ''o'', CHR ''n'', CHR 0xC3, CHR 0xAD, CHR ''a''], ''isla'', ''islote'',
    [CHR ''j'', CHR ''a'', CHR ''b'', CHR ''a'', CHR ''l'', CHR 0xC3, CHR 0xAD],
    [CHR ''j'', CHR ''a'', CHR ''b'', CHR 0xC3, CHR 0xB3, CHR ''n''], [CHR ''j'', CHR ''a'', CHR ''m'', CHR 0xC3, CHR 0xB3, CHR ''n''],
    ''jarabe'', [CHR ''j'', CHR ''a'', CHR ''r'', CHR ''d'', CHR 0xC3, CHR 0xAD, CHR ''n''], ''jarra'', ''jaula'',
    [CHR ''j'', CHR ''a'', CHR ''z'', CHR ''m'', CHR 0xC3, CHR 0xAD, CHR ''n''], ''jefe'', ''jeringa'', ''jinete'', ''jornada'', ''joroba'',
    ''joven'', ''joya'', ''juerga'', ''jueves'', ''juez'', ''jugador'', ''jugo'', ''juguete'', ''juicio'', ''junco'', ''jungla'', ''junio'',
    ''juntar'', [CHR ''j'', CHR 0xC3, CHR 0xBA, CHR ''p'', CHR ''i'', CHR ''t'', CHR ''e'', CHR ''r''], ''jurar'', ''justo'', ''juvenil'',
    ''juzgar'', ''kilo'', ''koala'', ''labio'', ''lacio'', ''lacra'', ''lado'',
    [CHR ''l'', CHR ''a'', CHR ''d'', CHR ''r'', CHR 0xC3, CHR 0xB3, CHR ''n''], ''lagarto'',
    [CHR ''l'', CHR 0xC3, CHR 0xA1, CHR ''g'', CHR ''r'', CHR ''i'', CHR ''m'', CHR ''a''], ''laguna'']"

definition spanish_words_4 :: "string list" where
  "spanish_words_4 = [
    ''laico'', ''lamer'', [CHR ''l'', CHR 0xC3, CHR 0xA1, CHR ''m'', CHR ''i'', CHR ''n'', CHR ''a''],
    [CHR ''l'', CHR 0xC3, CHR 0xA1, CHR ''m'', CHR ''p'', CHR ''a'', CHR ''r'', CHR ''a''], ''lana'', ''lancha'', ''langosta'', ''lanza'',
    [CHR ''l'', CHR 0xC3, CHR 0xA1, CHR ''p'', CHR ''i'', CHR ''z''], ''largo'', ''larva'',
    [CHR ''l'', CHR 0xC3, CHR 0xA1, CHR ''s'', CHR ''t'', CHR ''i'', CHR ''m'', CHR ''a''], ''lata'',
    [CHR ''l'', CHR 0xC3, CHR 0xA1, CHR ''t'', CHR ''e'', CHR ''x''], ''latir'', ''laurel'', ''lavar'', ''lazo'', ''leal'',
    [CHR ''l'', CHR ''e'', CHR ''c'', CHR ''c'', CHR ''i'', CHR 0xC3, CHR 0xB3, CHR ''n''], ''leche'', ''lector'', ''leer'',
    [CHR ''l'', CHR ''e'', CHR ''g'', CHR ''i'', CHR 0xC3, CHR 0xB3, CHR ''n''], ''legumbre'', ''lejano'', ''lengua'', ''lento'',
    [CHR ''l'', CHR ''e'', CHR 0xC3, CHR 0xB1, CHR ''a''], [CHR ''l'', CHR ''e'', CHR 0xC3, CHR 0xB3, CHR ''n''], ''leopardo'',
    [CHR ''l'', CHR ''e'', CHR ''s'', CHR ''i'', CHR 0xC3, CHR 0xB3, CHR ''n''], ''letal'', ''letra'', ''leve'', ''leyenda'', ''libertad'',
    ''libro'', ''licor'', [CHR ''l'', CHR 0xC3, CHR 0xAD, CHR ''d'', CHR ''e'', CHR ''r''], ''lidiar'', ''lienzo'', ''liga'', ''ligero'',
    ''lima'', [CHR ''l'', CHR 0xC3, CHR 0xAD, CHR ''m'', CHR ''i'', CHR ''t'', CHR ''e''],
    [CHR ''l'', CHR ''i'', CHR ''m'', CHR 0xC3, CHR 0xB3, CHR ''n''], ''limpio'', ''lince'', ''lindo'',
    [CHR ''l'', CHR 0xC3, CHR 0xAD, CHR ''n'', CHR ''e'', CHR ''a''], ''lingote'', ''lino'', ''linterna'',
    [CHR ''l'', CHR 0xC3, CHR 0xAD, CHR ''q'', CHR ''u'', CHR ''i'', CHR ''d'', CHR ''o''], ''liso'', ''lista'', ''litera'', ''litio'',
    ''litro'', ''llaga'', ''llama'', ''llanto'', ''llave'', ''llegar'', ''llenar'', ''llevar'', ''llorar'', ''llover'', ''lluvia'', ''lobo'',
    [CHR ''l'', CHR ''o'', CHR ''c'', CHR ''i'', CHR 0xC3, CHR 0xB3, CHR ''n''], ''loco'', ''locura'',
    [CHR ''l'', CHR 0xC3, CHR 0xB3, CHR ''g'', CHR ''i'', CHR ''c'', CHR ''a''], ''logro'', ''lombriz'', ''lomo'', ''lonja'', ''lote'',
    ''lucha'', ''lucir'', ''lugar'', ''lujo'', ''luna'', ''lunes'', ''lupa'', ''lustro'', ''luto'', ''luz'', ''maceta'', ''macho'',
    ''madera'', ''madre'', ''maduro'', ''maestro'', ''mafia'', ''magia'', ''mago'', [CHR ''m'', CHR ''a'', CHR 0xC3, CHR 0xAD, CHR ''z''],
    ''maldad'', ''maleta'', ''malla'', ''malo'', [CHR ''m'', CHR ''a'', CHR ''m'', CHR 0xC3, CHR 0xA1], ''mambo'', ''mamut'', ''manco'',
    ''mando'', ''manejar'', ''manga'', [CHR ''m'', CHR ''a'', CHR ''n'', CHR ''i'', CHR ''q'', CHR ''u'', CHR 0xC3, CHR 0xAD], ''manjar'',
    ''mano'', ''manso'', ''manta'', [CHR ''m'', CHR ''a'', CHR 0xC3, CHR 0xB1, CHR ''a'', CHR ''n'', CHR ''a''], ''mapa'',
    [CHR ''m'', CHR 0xC3, CHR 0xA1, CHR ''q'', CHR ''u'', CHR ''i'', CHR ''n'', CHR ''a''], ''mar'', ''marco'', ''marea'', ''marfil'',
    ''margen'', ''marido'', [CHR ''m'', CHR 0xC3, CHR 0xA1, CHR ''r'', CHR ''m'', CHR ''o'', CHR ''l''],
    [CHR ''m'', CHR ''a'', CHR ''r'', CHR ''r'', CHR 0xC3, CHR 0xB3, CHR ''n''], ''martes'', ''marzo'', ''masa'',
    [CHR ''m'', CHR 0xC3, CHR 0xA1, CHR ''s'', CHR ''c'', CHR ''a'', CHR ''r'', CHR ''a''], ''masivo'', ''matar'', ''materia'', ''matiz'',
    ''matriz'', [CHR ''m'', CHR 0xC3, CHR 0xA1, CHR ''x'', CHR ''i'', CHR ''m'', CHR ''o''], ''mayor'', ''mazorca'', ''mecha'', ''medalla'',
    ''medio'', [CHR ''m'', CHR 0xC3, CHR 0xA9, CHR ''d'', CHR ''u'', CHR ''l'', CHR ''a''], ''mejilla'', ''mejor'', ''melena'',
    [CHR ''m'', CHR ''e'', CHR ''l'', CHR 0xC3, CHR 0xB3, CHR ''n''], ''memoria'', ''menor'', ''mensaje'', ''mente'',
    [CHR ''m'', CHR ''e'', CHR ''n'', CHR 0xC3, CHR 0xBA], ''mercado'', ''merengue'',
    [CHR ''m'', CHR 0xC3, CHR 0xA9, CHR ''r'', CHR ''i'', CHR ''t'', CHR ''o''], ''mes'',
    [CHR ''m'', CHR ''e'', CHR ''s'', CHR 0xC3, CHR 0xB3, CHR ''n''], ''meta'', ''meter'',
    [CHR ''m'', CHR 0xC3, CHR 0xA9, CHR ''t'', CHR ''o'', CHR ''d'', CHR ''o''], ''metro'', ''mezcla'', ''miedo'', ''miel'', ''miembro'',
    ''miga'', ''mil'', ''milagro'', ''militar'', [CHR ''m'', CHR ''i'', CHR ''l'', CHR ''l'', CHR 0xC3, CHR 0xB3, CHR ''n''], ''mimo'',
    ''mina'', ''minero'', [CHR ''m'', CHR 0xC3, CHR 0xAD, CHR ''n'', CHR ''i'', CHR ''m'', CHR ''o''], ''minuto'', ''miope'', ''mirar'',
    ''misa'', ''miseria'', ''misil'', ''mismo'', ''mitad'', ''mito'', ''mochila'',
    [CHR ''m'', CHR ''o'', CHR ''c'', CHR ''i'', CHR 0xC3, CHR 0xB3, CHR ''n''], ''moda'', ''modelo'', ''moho'', ''mojar'', ''molde'',
    ''moler'', ''molino'', ''momento'', ''momia'', ''monarca'', ''moneda'', ''monja'', ''monto'',
    [CHR ''m'', CHR ''o'', CHR 0xC3, CHR 0xB1, CHR ''o''], ''morada'', ''morder'', ''moreno'', ''morir'', ''morro'', ''morsa'', ''mortal'',
    ''mosca'', ''mostrar'', ''motivo'', ''mover'', [CHR ''m'', CHR 0xC3, CHR 0xB3, CHR ''v'', CHR ''i'', CHR ''l''], ''mozo'', ''mucho'',
    ''mudar'', ''mueble'', ''muela'', ''muerte'', ''muestra'', ''mugre'', ''mujer'', ''mula'', ''muleta'', ''multa'', ''mundo'',
    [CHR ''m'', CHR ''u'', CHR 0xC3, CHR 0xB1, CHR ''e'', CHR ''c'', CHR ''a''], ''mural'', ''muro'',
    [CHR ''m'', CHR 0xC3, CHR 0xBA, CHR ''s'', CHR ''c'', CHR ''u'', CHR ''l'', CHR ''o''], ''museo'', ''musgo'',
    [CHR ''m'', CHR 0xC3, CHR 0xBA, CHR ''s'', CHR ''i'', CHR ''c'', CHR ''a''], ''muslo'',
    [CHR ''n'', CHR 0xC3, CHR 0xA1, CHR ''c'', CHR ''a'', CHR ''r''],
    [CHR ''n'', CHR ''a'', CHR ''c'', CHR ''i'', CHR 0xC3, CHR 0xB3, CHR ''n''], ''nadar'', ''naipe'', ''naranja'', ''nariz'', ''narrar'',
    ''nasal'', ''natal'', ''nativo'', ''natural'', [CHR ''n'', CHR 0xC3, CHR 0xA1, CHR ''u'', CHR ''s'', CHR ''e'', CHR ''a''], ''naval'',
    ''nave'', ''navidad'', ''necio'', [CHR ''n'', CHR 0xC3, CHR 0xA9, CHR ''c'', CHR ''t'', CHR ''a'', CHR ''r''], ''negar'', ''negocio'',
    ''negro'', [CHR ''n'', CHR ''e'', CHR 0xC3, CHR 0xB3, CHR ''n''], ''nervio'', ''neto'', ''neutro'', ''nevar'', ''nevera'', ''nicho'',
    ''nido'', ''niebla'', ''nieto'', [CHR ''n'', CHR ''i'', CHR 0xC3, CHR 0xB1, CHR ''e'', CHR ''z''],
    [CHR ''n'', CHR ''i'', CHR 0xC3, CHR 0xB1, CHR ''o''], [CHR ''n'', CHR 0xC3, CHR 0xAD, CHR ''t'', CHR ''i'', CHR ''d'', CHR ''o''],
    ''nivel'', ''nobleza'', ''noche'', [CHR ''n'', CHR 0xC3, CHR 0xB3, CHR ''m'', CHR ''i'', CHR ''n'', CHR ''a''], ''noria'', ''norma'',
    ''norte'', ''nota'', ''noticia'', ''novato'', ''novela'', ''novio'', ''nube'', ''nuca'',
    [CHR ''n'', CHR 0xC3, CHR 0xBA, CHR ''c'', CHR ''l'', CHR ''e'', CHR ''o''], ''nudillo'', ''nudo'', ''nuera'', ''nueve'', ''nuez'',
    ''nulo'', [CHR ''n'', CHR 0xC3, CHR 0xBA, CHR ''m'', CHR ''e'', CHR ''r'', CHR ''o''], ''nutria'', ''oasis'', ''obeso'', ''obispo'',
    ''objeto'', ''obra'', ''obrero'', ''observar'', ''obtener'', ''obvio'', ''oca'', ''ocaso'',
    [CHR ''o'', CHR ''c'', CHR 0xC3, CHR 0xA9, CHR ''a'', CHR ''n'', CHR ''o''], ''ochenta'', ''ocho'', ''ocio'', ''ocre'', ''octavo'',
    ''octubre'', ''oculto'', ''ocupar'', ''ocurrir'', ''odiar'', ''odio'', ''odisea'', ''oeste'', ''ofensa'', ''oferta'', ''oficio'',
    ''ofrecer'', ''ogro'', [CHR ''o'', CHR 0xC3, CHR 0xAD, CHR ''d'', CHR ''o''], [CHR ''o'', CHR 0xC3, CHR 0xAD, CHR ''r''], ''ojo'',
    ''ola'', ''oleada'', ''olfato'', ''olivo'']"

definition spanish_words_5 :: "string list" where
  "spanish_words_5 = [
    ''olla'', ''olmo'', ''olor'', ''olvido'', ''ombligo'', ''onda'', ''onza'', ''opaco'',
    [CHR ''o'', CHR ''p'', CHR ''c'', CHR ''i'', CHR 0xC3, CHR 0xB3, CHR ''n''],
    [CHR 0xC3, CHR 0xB3, CHR ''p'', CHR ''e'', CHR ''r'', CHR ''a''], ''opinar'', ''oponer'', ''optar'',
    [CHR 0xC3, CHR 0xB3, CHR ''p'', CHR ''t'', CHR ''i'', CHR ''c'', CHR ''a''], ''opuesto'',
    [CHR ''o'', CHR ''r'', CHR ''a'', CHR ''c'', CHR ''i'', CHR 0xC3, CHR 0xB3, CHR ''n''], ''orador'', ''oral'',
    [CHR 0xC3, CHR 0xB3, CHR ''r'', CHR ''b'', CHR ''i'', CHR ''t'', CHR ''a''], ''orca'', ''orden'', ''oreja'',
    [CHR 0xC3, CHR 0xB3, CHR ''r'', CHR ''g'', CHR ''a'', CHR ''n'', CHR ''o''],
    [CHR ''o'', CHR ''r'', CHR ''g'', CHR 0xC3, CHR 0xAD, CHR ''a''], ''orgullo'', ''oriente'', ''origen'', ''orilla'', ''oro'',
    ''orquesta'', ''oruga'', [CHR ''o'', CHR ''s'', CHR ''a'', CHR ''d'', CHR 0xC3, CHR 0xAD, CHR ''a''], ''oscuro'', ''osezno'', ''oso'',
    ''ostra'', [CHR ''o'', CHR ''t'', CHR ''o'', CHR 0xC3, CHR 0xB1, CHR ''o''], ''otro'', ''oveja'',
    [CHR 0xC3, CHR 0xB3, CHR ''v'', CHR ''u'', CHR ''l'', CHR ''o''], [CHR 0xC3, CHR 0xB3, CHR ''x'', CHR ''i'', CHR ''d'', CHR ''o''],
    [CHR ''o'', CHR ''x'', CHR 0xC3, CHR 0xAD, CHR ''g'', CHR ''e'', CHR ''n'', CHR ''o''], ''oyente'', ''ozono'', ''pacto'', ''padre'',
    ''paella'', [CHR ''p'', CHR 0xC3, CHR 0xA1, CHR ''g'', CHR ''i'', CHR ''n'', CHR ''a''], ''pago'',
    [CHR ''p'', CHR ''a'', CHR 0xC3, CHR 0xAD, CHR ''s''], [CHR ''p'', CHR 0xC3, CHR 0xA1, CHR ''j'', CHR ''a'', CHR ''r'', CHR ''o''],
    ''palabra'', ''palco'', ''paleta'', [CHR ''p'', CHR 0xC3, CHR 0xA1, CHR ''l'', CHR ''i'', CHR ''d'', CHR ''o''], ''palma'', ''paloma'',
    ''palpar'', ''pan'', ''panal'', [CHR ''p'', CHR 0xC3, CHR 0xA1, CHR ''n'', CHR ''i'', CHR ''c'', CHR ''o''], ''pantera'',
    [CHR ''p'', CHR ''a'', CHR 0xC3, CHR 0xB1, CHR ''u'', CHR ''e'', CHR ''l'', CHR ''o''],
    [CHR ''p'', CHR ''a'', CHR ''p'', CHR 0xC3, CHR 0xA1], ''papel'', ''papilla'', ''paquete'', ''parar'', ''parcela'', ''pared'', ''parir'',
    ''paro'', [CHR ''p'', CHR 0xC3, CHR 0xA1, CHR ''r'', CHR ''p'', CHR ''a'', CHR ''d'', CHR ''o''], ''parque'',
    [CHR ''p'', CHR 0xC3, CHR 0xA1, CHR ''r'', CHR ''r'', CHR ''a'', CHR ''f'', CHR ''o''], ''parte'', ''pasar'', ''paseo'',
    [CHR ''p'', CHR ''a'', CHR ''s'', CHR ''i'', CHR 0xC3, CHR 0xB3, CHR ''n''], ''paso'', ''pasta'', ''pata'', ''patio'', ''patria'',
    ''pausa'', ''pauta'', ''pavo'', ''payaso'', [CHR ''p'', CHR ''e'', CHR ''a'', CHR ''t'', CHR 0xC3, CHR 0xB3, CHR ''n''], ''pecado'',
    ''pecera'', ''pecho'', ''pedal'', ''pedir'', ''pegar'', ''peine'', ''pelar'',
    [CHR ''p'', CHR ''e'', CHR ''l'', CHR ''d'', CHR ''a'', CHR 0xC3, CHR 0xB1, CHR ''o''], ''pelea'', ''peligro'', ''pellejo'', ''pelo'',
    ''peluca'', ''pena'', ''pensar'', [CHR ''p'', CHR ''e'', CHR 0xC3, CHR 0xB1, CHR 0xC3, CHR 0xB3, CHR ''n''],
    [CHR ''p'', CHR ''e'', CHR 0xC3, CHR 0xB3, CHR ''n''], ''peor'', ''pepino'',
    [CHR ''p'', CHR ''e'', CHR ''q'', CHR ''u'', CHR ''e'', CHR 0xC3, CHR 0xB1, CHR ''o''], ''pera'', ''percha'', ''perder'', ''pereza'',
    ''perfil'', ''perico'', ''perla'', ''permiso'', ''perro'', ''persona'', ''pesa'', ''pesca'',
    [CHR ''p'', CHR 0xC3, CHR 0xA9, CHR ''s'', CHR ''i'', CHR ''m'', CHR ''o''],
    [CHR ''p'', CHR ''e'', CHR ''s'', CHR ''t'', CHR ''a'', CHR 0xC3, CHR 0xB1, CHR ''a''],
    [CHR ''p'', CHR 0xC3, CHR 0xA9, CHR ''t'', CHR ''a'', CHR ''l'', CHR ''o''],
    [CHR ''p'', CHR ''e'', CHR ''t'', CHR ''r'', CHR 0xC3, CHR 0xB3, CHR ''l'', CHR ''e'', CHR ''o''], ''pez'',
    [CHR ''p'', CHR ''e'', CHR ''z'', CHR ''u'', CHR 0xC3, CHR 0xB1, CHR ''a''], ''picar'',
    [CHR ''p'', CHR ''i'', CHR ''c'', CHR ''h'', CHR 0xC3, CHR 0xB3, CHR ''n''], ''pie'', ''piedra'', ''pierna'', ''pieza'', ''pijama'',
    ''pilar'', ''piloto'', ''pimienta'', ''pino'', ''pintor'', ''pinza'', [CHR ''p'', CHR ''i'', CHR 0xC3, CHR 0xB1, CHR ''a''], ''piojo'',
    ''pipa'', ''pirata'', ''pisar'', ''piscina'', ''piso'', ''pista'', [CHR ''p'', CHR ''i'', CHR ''t'', CHR 0xC3, CHR 0xB3, CHR ''n''],
    ''pizca'', ''placa'', ''plan'', ''plata'', ''playa'', ''plaza'', ''pleito'', ''pleno'', ''plomo'', ''pluma'', ''plural'', ''pobre'',
    ''poco'', ''poder'', ''podio'', ''poema'', [CHR ''p'', CHR ''o'', CHR ''e'', CHR ''s'', CHR 0xC3, CHR 0xAD, CHR ''a''], ''poeta'',
    ''polen'', [CHR ''p'', CHR ''o'', CHR ''l'', CHR ''i'', CHR ''c'', CHR 0xC3, CHR 0xAD, CHR ''a''], ''pollo'', ''polvo'', ''pomada'',
    ''pomelo'', ''pomo'', ''pompa'', ''poner'', [CHR ''p'', CHR ''o'', CHR ''r'', CHR ''c'', CHR ''i'', CHR 0xC3, CHR 0xB3, CHR ''n''],
    ''portal'', ''posada'', ''poseer'', ''posible'', ''poste'', ''potencia'', ''potro'', ''pozo'', ''prado'', ''precoz'', ''pregunta'',
    ''premio'', ''prensa'', ''preso'', ''previo'', ''primo'',
    [CHR ''p'', CHR ''r'', CHR 0xC3, CHR 0xAD, CHR ''n'', CHR ''c'', CHR ''i'', CHR ''p'', CHR ''e''],
    [CHR ''p'', CHR ''r'', CHR ''i'', CHR ''s'', CHR ''i'', CHR 0xC3, CHR 0xB3, CHR ''n''], ''privar'', ''proa'', ''probar'', ''proceso'',
    ''producto'', ''proeza'', ''profesor'', ''programa'', ''prole'', ''promesa'', ''pronto'', ''propio'',
    [CHR ''p'', CHR ''r'', CHR 0xC3, CHR 0xB3, CHR ''x'', CHR ''i'', CHR ''m'', CHR ''o''], ''prueba'',
    [CHR ''p'', CHR 0xC3, CHR 0xBA, CHR ''b'', CHR ''l'', CHR ''i'', CHR ''c'', CHR ''o''], ''puchero'', ''pudor'', ''pueblo'', ''puerta'',
    ''puesto'', ''pulga'', ''pulir'', [CHR ''p'', CHR ''u'', CHR ''l'', CHR ''m'', CHR 0xC3, CHR 0xB3, CHR ''n''], ''pulpo'', ''pulso'',
    ''puma'', ''punto'', [CHR ''p'', CHR ''u'', CHR 0xC3, CHR 0xB1, CHR ''a'', CHR ''l''],
    [CHR ''p'', CHR ''u'', CHR 0xC3, CHR 0xB1, CHR ''o''], ''pupa'', ''pupila'', [CHR ''p'', CHR ''u'', CHR ''r'', CHR 0xC3, CHR 0xA9],
    ''quedar'', ''queja'', ''quemar'', ''querer'', ''queso'', ''quieto'',
    [CHR ''q'', CHR ''u'', CHR 0xC3, CHR 0xAD, CHR ''m'', CHR ''i'', CHR ''c'', CHR ''a''], ''quince'', ''quitar'',
    [CHR ''r'', CHR 0xC3, CHR 0xA1, CHR ''b'', CHR ''a'', CHR ''n'', CHR ''o''], ''rabia'', ''rabo'',
    [CHR ''r'', CHR ''a'', CHR ''c'', CHR ''i'', CHR 0xC3, CHR 0xB3, CHR ''n''], ''radical'',
    [CHR ''r'', CHR ''a'', CHR 0xC3, CHR 0xAD, CHR ''z''], ''rama'', ''rampa'', ''rancho'', ''rango'', ''rapaz'',
    [CHR ''r'', CHR 0xC3, CHR 0xA1, CHR ''p'', CHR ''i'', CHR ''d'', CHR ''o''], ''rapto'', ''rasgo'', ''raspa'', ''rato'', ''rayo'',
    ''raza'', [CHR ''r'', CHR ''a'', CHR ''z'', CHR 0xC3, CHR 0xB3, CHR ''n''],
    [CHR ''r'', CHR ''e'', CHR ''a'', CHR ''c'', CHR ''c'', CHR ''i'', CHR 0xC3, CHR 0xB3, CHR ''n''], ''realidad'',
    [CHR ''r'', CHR ''e'', CHR ''b'', CHR ''a'', CHR 0xC3, CHR 0xB1, CHR ''o''], ''rebote'', ''recaer'', ''receta'', ''rechazo'',
    ''recoger'', ''recreo'', ''recto'', ''recurso'', ''red'', ''redondo'', ''reducir'', ''reflejo'', ''reforma'',
    [CHR ''r'', CHR ''e'', CHR ''f'', CHR ''r'', CHR 0xC3, CHR 0xA1, CHR ''n''], ''refugio'', ''regalo'', ''regir'', ''regla'', ''regreso'',
    [CHR ''r'', CHR ''e'', CHR ''h'', CHR 0xC3, CHR 0xA9, CHR ''n''], ''reino'', [CHR ''r'', CHR ''e'', CHR 0xC3, CHR 0xAD, CHR ''r''],
    ''reja'', ''relato'', ''relevo'', ''relieve'', ''relleno'', ''reloj'', ''remar'', ''remedio'', ''remo'', ''rencor'', ''rendir'',
    ''renta'', ''reparto'', ''repetir'', ''reposo'', ''reptil'', ''res'', ''rescate'', ''resina'', ''respeto'', ''resto'', ''resumen'',
    ''retiro'', ''retorno'', ''retrato'', ''reunir'', [CHR ''r'', CHR ''e'', CHR ''v'', CHR 0xC3, CHR 0xA9, CHR ''s''], ''revista'', ''rey'',
    ''rezar'', ''rico'', ''riego'', ''rienda'', ''riesgo'', ''rifa'',
    [CHR ''r'', CHR 0xC3, CHR 0xAD, CHR ''g'', CHR ''i'', CHR ''d'', CHR ''o''], ''rigor'',
    [CHR ''r'', CHR ''i'', CHR ''n'', CHR ''c'', CHR 0xC3, CHR 0xB3, CHR ''n''],
    [CHR ''r'', CHR ''i'', CHR 0xC3, CHR 0xB1, CHR 0xC3, CHR 0xB3, CHR ''n''], [CHR ''r'', CHR 0xC3, CHR 0xAD, CHR ''o''], ''riqueza'',
    ''risa'', ''ritmo'', ''rito'']"

abbreviation spanish_words :: "string list" where
  "spanish_words \<equiv> spanish_words_1 @ spanish_words_2 @ spanish_words_3 @ spanish_words_4 @ spanish_words_5"

lemmas spanish_words_defs = spanish_words_1_def spanish_words_2_def spanish_words_3_def spanish_words_4_def spanish_words_5_def

definition Spanish :: "Language option" where
  "Spanish = populate_maps True False (Language_Base [CHR ''E'', CHR ''s'', CHR ''p'', CHR ''a'', CHR 0xC3, CHR 0xB1, CHR ''o'', CHR ''l''] ''Spanish'' spanish_words 4)"

lemma spanish_1_ok: "part_ok False 0 326 spanish_words_1"
  by (simp only: spanish_words_1_def part_eval)

lemma spanish_2_ok: "part_ok False 0 325 spanish_words_2"
  by (simp only: spanish_words_2_def part_eval)

lemma spanish_3_ok: "part_ok False 0 325 spanish_words_3"
  by (simp only: spanish_words_3_def part_eval)

lemma spanish_4_ok: "part_ok False 0 325 spanish_words_4"
  by (simp only: spanish_words_4_def part_eval)

lemma spanish_5_ok: "part_ok False 0 325 spanish_words_5"
  by (simp only: spanish_words_5_def part_eval)

lemma spanish_ok: "part_ok False 0 1626 spanish_words"
  using part_ok_append [OF spanish_1_ok part_ok_append [OF spanish_2_ok part_ok_append [OF spanish_3_ok part_ok_append [OF spanish_4_ok spanish_5_ok]]]]
  by simp

lemma spanish_codes: "radix (Suc (Suc (Suc (Suc (Suc (Suc (Suc (Suc (Suc (Suc (Suc (Suc (Suc (Suc (Suc (Suc (Suc (Suc (Suc (Suc (Suc (Suc (Suc (Suc (Suc (Suc (Suc (Suc (Suc (Suc (Suc (Suc (Suc (Suc (Suc (Suc (Suc 0))))))))))))))))))))))))))))))))))))) (codes (Suc (Suc (Suc (Suc 0)))) spanish_words)"
  unfolding codes_append by (simp only: spanish_words_defs code_eval)

lemma spanish_constructed: "constructed False Spanish [CHR ''E'', CHR ''s'', CHR ''p'', CHR ''a'', CHR 0xC3, CHR 0xB1, CHR ''o'', CHR ''l''] ''Spanish'' spanish_words"
  unfolding Spanish_def by (rule constructor_returns [OF _ spanish_codes]) (simp_all only: if_True if_False spanish_ok, simp)

interpretation spanish: seed_language "the Spanish"
  by (rule constructed_language [OF spanish_constructed])

section \<open>Portuguese\<close>

definition portuguese_words_1 :: "string list" where
  "portuguese_words_1 = [
    ''abaular'', ''abdominal'', ''abeto'', ''abissinio'', ''abjeto'', ''ablucao'', ''abnegar'', ''abotoar'', ''abrutalhar'', ''absurdo'',
    ''abutre'', ''acautelar'', ''accessorios'', ''acetona'', ''achocolatado'', ''acirrar'', ''acne'', ''acovardar'', ''acrostico'',
    ''actinomicete'', ''acustico'', ''adaptavel'', ''adeus'', ''adivinho'', ''adjunto'', ''admoestar'', ''adnominal'', ''adotivo'',
    ''adquirir'', ''adriatico'', ''adsorcao'', ''adutora'', ''advogar'', ''aerossol'', ''afazeres'', ''afetuoso'', ''afixo'', ''afluir'',
    ''afortunar'', ''afrouxar'', ''aftosa'', ''afunilar'', ''agentes'', ''agito'', ''aglutinar'', ''aiatola'', ''aimore'', ''aino'',
    ''aipo'', ''airoso'', ''ajeitar'', ''ajoelhar'', ''ajudante'', ''ajuste'', ''alazao'', ''albumina'', ''alcunha'', ''alegria'',
    ''alexandre'', ''alforriar'', ''alguns'', ''alhures'', ''alivio'', ''almoxarife'', ''alotropico'', ''alpiste'', ''alquimista'',
    ''alsaciano'', ''altura'', ''aluviao'', ''alvura'', ''amazonico'', ''ambulatorio'', ''ametodico'', ''amizades'', ''amniotico'',
    ''amovivel'', ''amurada'', ''anatomico'', ''ancorar'', ''anexo'', ''anfora'', ''aniversario'', ''anjo'', ''anotar'', ''ansioso'',
    ''anturio'', ''anuviar'', ''anverso'', ''anzol'', ''aonde'', ''apaziguar'', ''apito'', ''aplicavel'', ''apoteotico'', ''aprimorar'',
    ''aprumo'', ''apto'', ''apuros'', ''aquoso'', ''arauto'', ''arbusto'', ''arduo'', ''aresta'', ''arfar'', ''arguto'', ''aritmetico'',
    ''arlequim'', ''armisticio'', ''aromatizar'', ''arpoar'', ''arquivo'', ''arrumar'', ''arsenio'', ''arturiano'', ''aruaque'', ''arvores'',
    ''asbesto'', ''ascorbico'', ''aspirina'', ''asqueroso'', ''assustar'', ''astuto'', ''atazanar'', ''ativo'', ''atletismo'',
    ''atmosferico'', ''atormentar'', ''atroz'', ''aturdir'', ''audivel'', ''auferir'', ''augusto'', ''aula'', ''aumento'', ''aurora'',
    ''autuar'', ''avatar'', ''avexar'', ''avizinhar'', ''avolumar'', ''avulso'', ''axiomatico'', ''azerbaijano'', ''azimute'', ''azoto'',
    ''azulejo'', ''bacteriologista'', ''badulaque'', ''baforada'', ''baixote'', ''bajular'', ''balzaquiana'', ''bambuzal'', ''banzo'',
    ''baoba'', ''baqueta'', ''barulho'', ''bastonete'', ''batuta'', ''bauxita'', ''bavaro'', ''bazuca'', ''bcrepuscular'', ''beato'',
    ''beduino'', ''begonia'', ''behaviorista'', ''beisebol'', ''belzebu'', ''bemol'', ''benzido'', ''beocio'', ''bequer'', ''berro'',
    ''besuntar'', ''betume'', ''bexiga'', ''bezerro'', ''biatlon'', ''biboca'', ''bicuspide'', ''bidirecional'', ''bienio'', ''bifurcar'',
    ''bigorna'', ''bijuteria'', ''bimotor'', ''binormal'', ''bioxido'', ''bipolarizacao'', ''biquini'', ''birutice'', ''bisturi'',
    ''bituca'', ''biunivoco'', ''bivalve'', ''bizarro'', ''blasfemo'', ''blenorreia'', ''blindar'', ''bloqueio'', ''blusao'', ''boazuda'',
    ''bofete'', ''bojudo'', ''bolso'', ''bombordo'', ''bonzo'', ''botina'', ''boquiaberto'', ''bostoniano'', ''botulismo'', ''bourbon'',
    ''bovino'', ''boximane'', ''bravura'', ''brevidade'', ''britar'', ''broxar'', ''bruno'', ''bruxuleio'', ''bubonico'', ''bucolico'',
    ''buda'', ''budista'', ''bueiro'', ''buffer'', ''bugre'', ''bujao'', ''bumerangue'', ''burundines'', ''busto'', ''butique'', ''buzios'',
    ''caatinga'', ''cabuqui'', ''cacunda'', ''cafuzo'', ''cajueiro'', ''camurca'', ''canudo'', ''caquizeiro'', ''carvoeiro'', ''casulo'',
    ''catuaba'', ''cauterizar'', ''cebolinha'', ''cedula'', ''ceifeiro'', ''celulose'', ''cerzir'', ''cesto'', ''cetro'', ''ceus'',
    ''cevar'', ''chavena'', ''cheroqui'', ''chita'', ''chovido'', ''chuvoso'', ''ciatico'', ''cibernetico'', ''cicuta'', ''cidreira'',
    ''cientistas'', ''cifrar'', ''cigarro'', ''cilio'', ''cimo'', ''cinzento'', ''cioso'', ''cipriota'', ''cirurgico'', ''cisto'',
    ''citrico'', ''ciumento'', ''civismo'', ''clavicula'', ''clero'', ''clitoris'', ''cluster'', ''coaxial'', ''cobrir'', ''cocota'',
    ''codorniz'', ''coexistir'', ''cogumelo'', ''coito'', ''colusao'', ''compaixao'', ''comutativo'', ''contentamento'', ''convulsivo'',
    ''coordenativa'', ''coquetel'', ''correto'', ''corvo'', ''costureiro'', ''cotovia'', ''covil'', ''cozinheiro'', ''cretino'', ''cristo'',
    ''crivo'', ''crotalo'', ''cruzes'', ''cubo'', ''cucuia'', ''cueiro'', ''cuidar'', ''cujo'', ''cultural'', ''cunilingua'', ''cupula'',
    ''curvo'', ''custoso'', ''cutucar'', ''czarismo'', ''dablio'', ''dacota'', ''dados'', ''daguerreotipo'', ''daiquiri'', ''daltonismo'',
    ''damista'']"

definition portuguese_words_2 :: "string list" where
  "portuguese_words_2 = [
    ''dantesco'', ''daquilo'', ''darwinista'', ''dasein'', ''dativo'', ''deao'', ''debutantes'', ''decurso'', ''deduzir'', ''defunto'',
    ''degustar'', ''dejeto'', ''deltoide'', ''demover'', ''denunciar'', ''deputado'', ''deque'', ''dervixe'', ''desvirtuar'', ''deturpar'',
    ''deuteronomio'', ''devoto'', ''dextrose'', ''dezoito'', ''diatribe'', ''dicotomico'', ''didatico'', ''dietista'', ''difuso'',
    ''digressao'', ''diluvio'', ''diminuto'', ''dinheiro'', ''dinossauro'', ''dioxido'', ''diplomatico'', ''dique'', ''dirimivel'',
    ''disturbio'', ''diurno'', ''divulgar'', ''dizivel'', ''doar'', ''dobro'', ''docura'', ''dodoi'', ''doer'', ''dogue'', ''doloso'',
    ''domo'', ''donzela'', ''doping'', ''dorsal'', ''dossie'', ''dote'', ''doutro'', ''doze'', ''dravidico'', ''dreno'', ''driver'',
    ''dropes'', ''druso'', ''dubnio'', ''ducto'', ''dueto'', ''dulija'', ''dundum'', ''duodeno'', ''duquesa'', ''durou'', ''duvidoso'',
    ''duzia'', ''ebano'', ''ebrio'', ''eburneo'', ''echarpe'', ''eclusa'', ''ecossistema'', ''ectoplasma'', ''ecumenismo'', ''eczema'',
    ''eden'', ''editorial'', ''edredom'', ''edulcorar'', ''efetuar'', ''efigie'', ''efluvio'', ''egiptologo'', ''egresso'', ''egua'',
    ''einsteiniano'', ''eira'', ''eivar'', ''eixos'', ''ejetar'', ''elastomero'', ''eldorado'', ''elixir'', ''elmo'', ''eloquente'',
    ''elucidativo'', ''emaranhar'', ''embutir'', ''emerito'', ''emfa'', ''emitir'', ''emotivo'', ''empuxo'', ''emulsao'', ''enamorar'',
    ''encurvar'', ''enduro'', ''enevoar'', ''enfurnar'', ''enguico'', ''enho'', ''enigmista'', ''enlutar'', ''enormidade'',
    ''enpreendimento'', ''enquanto'', ''enriquecer'', ''enrugar'', ''entusiastico'', ''enunciar'', ''envolvimento'', ''enxuto'',
    ''enzimatico'', ''eolico'', ''epiteto'', ''epoxi'', ''epura'', ''equivoco'', ''erario'', ''erbio'', ''ereto'', ''erguido'',
    ''erisipela'', ''ermo'', ''erotizar'', ''erros'', ''erupcao'', ''ervilha'', ''esburacar'', ''escutar'', ''esfuziante'', ''esguio'',
    ''esloveno'', ''esmurrar'', ''esoterismo'', ''esperanca'', ''espirito'', ''espurio'', ''essencialmente'', ''esturricar'', ''esvoacar'',
    ''etario'', ''eterno'', ''etiquetar'', ''etnologo'', ''etos'', ''etrusco'', ''euclidiano'', ''euforico'', ''eugenico'', ''eunuco'',
    ''europio'', ''eustaquio'', ''eutanasia'', ''evasivo'', ''eventualidade'', ''evitavel'', ''evoluir'', ''exaustor'', ''excursionista'',
    ''exercito'', ''exfoliado'', ''exito'', ''exotico'', ''expurgo'', ''exsudar'', ''extrusora'', ''exumar'', ''fabuloso'', ''facultativo'',
    ''fado'', ''fagulha'', ''faixas'', ''fajuto'', ''faltoso'', ''famoso'', ''fanzine'', ''fapesp'', ''faquir'', ''fartura'', ''fastio'',
    ''faturista'', ''fausto'', ''favorito'', ''faxineira'', ''fazer'', ''fealdade'', ''febril'', ''fecundo'', ''fedorento'', ''feerico'',
    ''feixe'', ''felicidade'', ''felpudo'', ''feltro'', ''femur'', ''fenotipo'', ''fervura'', ''festivo'', ''feto'', ''feudo'',
    ''fevereiro'', ''fezinha'', ''fiasco'', ''fibra'', ''ficticio'', ''fiduciario'', ''fiesp'', ''fifa'', ''figurino'', ''fijiano'',
    ''filtro'', ''finura'', ''fiorde'', ''fiquei'', ''firula'', ''fissurar'', ''fitoteca'', ''fivela'', ''fixo'', ''flavio'', ''flexor'',
    ''flibusteiro'', ''flotilha'', ''fluxograma'', ''fobos'', ''foco'', ''fofura'', ''foguista'', ''foie'', ''foliculo'', ''fominha'',
    ''fonte'', ''forum'', ''fosso'', ''fotossintese'', ''foxtrote'', ''fraudulento'', ''frevo'', ''frivolo'', ''frouxo'', ''frutose'',
    ''fuba'', ''fucsia'', ''fugitivo'', ''fuinha'', ''fujao'', ''fulustreco'', ''fumo'', ''funileiro'', ''furunculo'', ''fustigar'',
    ''futurologo'', ''fuxico'', ''fuzue'', ''gabriel'', ''gado'', ''gaelico'', ''gafieira'', ''gaguejo'', ''gaivota'', ''gajo'',
    ''galvanoplastico'', ''gamo'', ''ganso'', ''garrucha'', ''gastronomo'', ''gatuno'', ''gaussiano'', ''gaviao'', ''gaxeta'', ''gazeteiro'',
    ''gear'', ''geiser'', ''geminiano'', ''generoso'', ''genuino'', ''geossinclinal'', ''gerundio'', ''gestual'', ''getulista'', ''gibi'',
    ''gigolo'', ''gilete'', ''ginseng'', ''giroscopio'', ''glaucio'', ''glacial'', ''gleba'', ''glifo'', ''glote'', ''glutonia'',
    ''gnostico'', ''goela'', ''gogo'', ''goitaca'', ''golpista'', ''gomo'', ''gonzo'', ''gorro'', ''gostou'', ''goticula'', ''gourmet'',
    ''governo'', ''gozo'', ''graxo'', ''grevista'', ''grito'', ''grotesco'']"

definition portuguese_words_3 :: "string list" where
  "portuguese_words_3 = [
    ''gruta'', ''guaxinim'', ''gude'', ''gueto'', ''guizo'', ''guloso'', ''gume'', ''guru'', ''gustativo'', ''grelhado'', ''gutural'',
    ''habitue'', ''haitiano'', ''halterofilista'', ''hamburguer'', ''hanseniase'', ''happening'', ''harpista'', ''hastear'', ''haveres'',
    ''hebreu'', ''hectometro'', ''hedonista'', ''hegira'', ''helena'', ''helminto'', ''hemorroidas'', ''henrique'', ''heptassilabo'',
    ''hertziano'', ''hesitar'', ''heterossexual'', ''heuristico'', ''hexagono'', ''hiato'', ''hibrido'', ''hidrostatico'', ''hieroglifo'',
    ''hifenizar'', ''higienizar'', ''hilario'', ''himen'', ''hino'', ''hippie'', ''hirsuto'', ''historiografia'', ''hitlerista'',
    ''hodometro'', ''hoje'', ''holograma'', ''homus'', ''honroso'', ''hoquei'', ''horto'', ''hostilizar'', ''hotentote'', ''huguenote'',
    ''humilde'', ''huno'', ''hurra'', ''hutu'', ''iaia'', ''ialorixa'', ''iambico'', ''iansa'', ''iaque'', ''iara'', ''iatista'',
    ''iberico'', ''ibis'', ''icar'', ''iceberg'', ''icosagono'', ''idade'', ''ideologo'', ''idiotice'', ''idoso'', ''iemenita'', ''iene'',
    ''igarape'', ''iglu'', ''ignorar'', ''igreja'', ''iguaria'', ''iidiche'', ''ilativo'', ''iletrado'', ''ilharga'', ''ilimitado'',
    ''ilogismo'', ''ilustrissimo'', ''imaturo'', ''imbuzeiro'', ''imerso'', ''imitavel'', ''imovel'', ''imputar'', ''imutavel'',
    ''inaveriguavel'', ''incutir'', ''induzir'', ''inextricavel'', ''infusao'', ''ingua'', ''inhame'', ''iniquo'', ''injusto'', ''inning'',
    ''inoxidavel'', ''inquisitorial'', ''insustentavel'', ''intumescimento'', ''inutilizavel'', ''invulneravel'', ''inzoneiro'', ''iodo'',
    ''iogurte'', ''ioio'', ''ionosfera'', ''ioruba'', ''iota'', ''ipsilon'', ''irascivel'', ''iris'', ''irlandes'', ''irmaos'', ''iroques'',
    ''irrupcao'', ''isca'', ''isento'', ''islandes'', ''isotopo'', ''isqueiro'', ''israelita'', ''isso'', ''isto'', ''iterbio'',
    ''itinerario'', ''itrio'', ''iuane'', ''iugoslavo'', ''jabuticabeira'', ''jacutinga'', ''jade'', ''jagunco'', ''jainista'', ''jaleco'',
    ''jambo'', ''jantarada'', ''japones'', ''jaqueta'', ''jarro'', ''jasmim'', ''jato'', ''jaula'', ''javel'', ''jazz'', ''jegue'',
    ''jeitoso'', ''jejum'', ''jenipapo'', ''jeova'', ''jequitiba'', ''jersei'', ''jesus'', ''jetom'', ''jiboia'', ''jihad'', ''jilo'',
    ''jingle'', ''jipe'', ''jocoso'', ''joelho'', ''joguete'', ''joio'', ''jojoba'', ''jorro'', ''jota'', ''joule'', ''joviano'',
    ''jubiloso'', ''judoca'', ''jugular'', ''juizo'', ''jujuba'', ''juliano'', ''jumento'', ''junto'', ''jururu'', ''justo'', ''juta'',
    ''juventude'', ''labutar'', ''laguna'', ''laico'', ''lajota'', ''lanterninha'', ''lapso'', ''laquear'', ''lastro'', ''lauto'',
    ''lavrar'', ''laxativo'', ''lazer'', ''leasing'', ''lebre'', ''lecionar'', ''ledo'', ''leguminoso'', ''leitura'', ''lele'', ''lemure'',
    ''lento'', ''leonardo'', ''leopardo'', ''lepton'', ''leque'', ''leste'', ''letreiro'', ''leucocito'', ''levitico'', ''lexicologo'',
    ''lhama'', ''lhufas'', ''liame'', ''licoroso'', ''lidocaina'', ''liliputiano'', ''limusine'', ''linotipo'', ''lipoproteina'',
    ''liquidos'', ''lirismo'', ''lisura'', ''liturgico'', ''livros'', ''lixo'', ''lobulo'', ''locutor'', ''lodo'', ''logro'', ''lojista'',
    ''lombriga'', ''lontra'', ''loop'', ''loquaz'', ''lorota'', ''losango'', ''lotus'', ''louvor'', ''luar'', ''lubrificavel'', ''lucros'',
    ''lugubre'', ''luis'', ''luminoso'', ''luneta'', ''lustroso'', ''luto'', ''luvas'', ''luxuriante'', ''luzeiro'', ''maduro'', ''maestro'',
    ''mafioso'', ''magro'', ''maiuscula'', ''majoritario'', ''malvisto'', ''mamute'', ''manutencao'', ''mapoteca'', ''maquinista'',
    ''marzipa'', ''masturbar'', ''matuto'', ''mausoleu'', ''mavioso'', ''maxixe'', ''mazurca'', ''meandro'', ''mecha'', ''medusa'',
    ''mefistofelico'', ''megera'', ''meirinho'', ''melro'', ''memorizar'', ''menu'', ''mequetrefe'', ''mertiolate'', ''mestria'',
    ''metroviario'', ''mexilhao'', ''mezanino'', ''miau'', ''microssegundo'', ''midia'', ''migratorio'', ''mimosa'', ''minuto'',
    ''miosotis'', ''mirtilo'', ''misturar'', ''mitzvah'', ''miudos'', ''mixuruca'', ''mnemonico'', ''moagem'', ''mobilizar'', ''modulo'',
    ''moer'', ''mofo'', ''mogno'', ''moita'', ''molusco'', ''monumento'', ''moqueca'', ''morubixaba'', ''mostruario'', ''motriz'', ''mouse'',
    ''movivel'', ''mozarela'', ''muarra'']"

definition portuguese_words_4 :: "string list" where
  "portuguese_words_4 = [
    ''muculmano'', ''mudo'', ''mugir'', ''muitos'', ''mumunha'', ''munir'', ''muon'', ''muquira'', ''murros'', ''musselina'', ''nacoes'',
    ''nado'', ''naftalina'', ''nago'', ''naipe'', ''naja'', ''nalgum'', ''namoro'', ''nanquim'', ''napolitano'', ''naquilo'', ''nascimento'',
    ''nautilo'', ''navios'', ''nazista'', ''nebuloso'', ''nectarina'', ''nefrologo'', ''negus'', ''nelore'', ''nenufar'', ''nepotismo'',
    ''nervura'', ''neste'', ''netuno'', ''neutron'', ''nevoeiro'', ''newtoniano'', ''nexo'', ''nhenhenhem'', ''nhoque'', ''nigeriano'',
    ''niilista'', ''ninho'', ''niobio'', ''niponico'', ''niquelar'', ''nirvana'', ''nisto'', ''nitroglicerina'', ''nivoso'', ''nobreza'',
    ''nocivo'', ''noel'', ''nogueira'', ''noivo'', ''nojo'', ''nominativo'', ''nonuplo'', ''noruegues'', ''nostalgico'', ''noturno'',
    ''nouveau'', ''nuanca'', ''nublar'', ''nucleotideo'', ''nudista'', ''nulo'', ''numismatico'', ''nunquinha'', ''nupcias'', ''nutritivo'',
    ''nuvens'', ''oasis'', ''obcecar'', ''obeso'', ''obituario'', ''objetos'', ''oblongo'', ''obnoxio'', ''obrigatorio'', ''obstruir'',
    ''obtuso'', ''obus'', ''obvio'', ''ocaso'', ''occipital'', ''oceanografo'', ''ocioso'', ''oclusivo'', ''ocorrer'', ''ocre'',
    ''octogono'', ''odalisca'', ''odisseia'', ''odorifico'', ''oersted'', ''oeste'', ''ofertar'', ''ofidio'', ''oftalmologo'', ''ogiva'',
    ''ogum'', ''oigale'', ''oitavo'', ''oitocentos'', ''ojeriza'', ''olaria'', ''oleoso'', ''olfato'', ''olhos'', ''oliveira'', ''olmo'',
    ''olor'', ''olvidavel'', ''ombudsman'', ''omeleteira'', ''omitir'', ''omoplata'', ''onanismo'', ''ondular'', ''oneroso'',
    ''onomatopeico'', ''ontologico'', ''onus'', ''onze'', ''opalescente'', ''opcional'', ''operistico'', ''opio'', ''oposto'', ''oprobrio'',
    ''optometrista'', ''opusculo'', ''oratorio'', ''orbital'', ''orcar'', ''orfao'', ''orixa'', ''orla'', ''ornitologo'', ''orquidea'',
    ''ortorrombico'', ''orvalho'', ''osculo'', ''osmotico'', ''ossudo'', ''ostrogodo'', ''otario'', ''otite'', ''ouro'', ''ousar'',
    ''outubro'', ''ouvir'', ''ovario'', ''overnight'', ''oviparo'', ''ovni'', ''ovoviviparo'', ''ovulo'', ''oxala'', ''oxente'', ''oxiuro'',
    ''oxossi'', ''ozonizar'', ''paciente'', ''pactuar'', ''padronizar'', ''paete'', ''pagodeiro'', ''paixao'', ''pajem'', ''paludismo'',
    ''pampas'', ''panturrilha'', ''papudo'', ''paquistanes'', ''pastoso'', ''patua'', ''paulo'', ''pauzinhos'', ''pavoroso'', ''paxa'',
    ''pazes'', ''peao'', ''pecuniario'', ''pedunculo'', ''pegaso'', ''peixinho'', ''pejorativo'', ''pelvis'', ''penuria'', ''pequno'',
    ''petunia'', ''pezada'', ''piauiense'', ''pictorico'', ''pierro'', ''pigmeu'', ''pijama'', ''pilulas'', ''pimpolho'', ''pintura'',
    ''piorar'', ''pipocar'', ''piqueteiro'', ''pirulito'', ''pistoleiro'', ''pituitaria'', ''pivotar'', ''pixote'', ''pizzaria'',
    ''plistoceno'', ''plotar'', ''pluviometrico'', ''pneumonico'', ''poco'', ''podridao'', ''poetisa'', ''pogrom'', ''pois'', ''polvorosa'',
    ''pomposo'', ''ponderado'', ''pontudo'', ''populoso'', ''poquer'', ''porvir'', ''posudo'', ''potro'', ''pouso'', ''povoar'', ''prazo'',
    ''prezar'', ''privilegios'', ''proximo'', ''prussiano'', ''pseudopode'', ''psoriase'', ''pterossauros'', ''ptialina'', ''ptolemaico'',
    ''pudor'', ''pueril'', ''pufe'', ''pugilista'', ''puir'', ''pujante'', ''pulverizar'', ''pumba'', ''punk'', ''purulento'', ''pustula'',
    ''putsch'', ''puxe'', ''quatrocentos'', ''quetzal'', ''quixotesco'', ''quotizavel'', ''rabujice'', ''racista'', ''radonio'', ''rafia'',
    ''ragu'', ''rajado'', ''ralo'', ''rampeiro'', ''ranzinza'', ''raptor'', ''raquitismo'', ''raro'', ''rasurar'', ''ratoeira'', ''ravioli'',
    ''razoavel'', ''reavivar'', ''rebuscar'', ''recusavel'', ''reduzivel'', ''reexposicao'', ''refutavel'', ''regurgitar'',
    ''reivindicavel'', ''rejuvenescimento'', ''relva'', ''remuneravel'', ''renunciar'', ''reorientar'', ''repuxo'', ''requisito'',
    ''resumo'', ''returno'', ''reutilizar'', ''revolvido'', ''rezonear'', ''riacho'', ''ribossomo'', ''ricota'', ''ridiculo'', ''rifle'',
    ''rigoroso'', ''rijo'', ''rimel'', ''rins'', ''rios'', ''riqueza'', ''respeito'', ''rissole'', ''ritualistico'', ''rivalizar'', ''rixa'',
    ''robusto'', ''rococo'', ''rodoviario'', ''roer'', ''rogo'', ''rojao'', ''rolo'', ''rompimento'', ''ronronar'', ''roqueiro'',
    ''rorqual'', ''rosto'', ''rotundo'', ''rouxinol'']"

definition portuguese_words_5 :: "string list" where
  "portuguese_words_5 = [
    ''roxo'', ''royal'', ''ruas'', ''rucula'', ''rudimentos'', ''ruela'', ''rufo'', ''rugoso'', ''ruivo'', ''rule'', ''rumoroso'',
    ''runico'', ''ruptura'', ''rural'', ''rustico'', ''rutilar'', ''saariano'', ''sabujo'', ''sacudir'', ''sadomasoquista'', ''safra'',
    ''sagui'', ''sais'', ''samurai'', ''santuario'', ''sapo'', ''saquear'', ''sartriano'', ''saturno'', ''saude'', ''sauva'', ''saveiro'',
    ''saxofonista'', ''sazonal'', ''scherzo'', ''script'', ''seara'', ''seborreia'', ''secura'', ''seduzir'', ''sefardim'', ''seguro'',
    ''seja'', ''selvas'', ''sempre'', ''senzala'', ''sepultura'', ''sequoia'', ''sestercio'', ''setuplo'', ''seus'', ''seviciar'',
    ''sezonismo'', ''shalom'', ''siames'', ''sibilante'', ''sicrano'', ''sidra'', ''sifilitico'', ''signos'', ''silvo'', ''simultaneo'',
    ''sinusite'', ''sionista'', ''sirio'', ''sisudo'', ''situar'', ''sivan'', ''slide'', ''slogan'', ''soar'', ''sobrio'', ''socratico'',
    ''sodomizar'', ''soerguer'', ''software'', ''sogro'', ''soja'', ''solver'', ''somente'', ''sonso'', ''sopro'', ''soquete'',
    ''sorveteiro'', ''sossego'', ''soturno'', ''sousafone'', ''sovinice'', ''sozinho'', ''suavizar'', ''subverter'', ''sucursal'',
    ''sudoriparo'', ''sufragio'', ''sugestoes'', ''suite'', ''sujo'', ''sultao'', ''sumula'', ''suntuoso'', ''suor'', ''supurar'',
    ''suruba'', ''susto'', ''suturar'', ''suvenir'', ''tabuleta'', ''taco'', ''tadjique'', ''tafeta'', ''tagarelice'', ''taitiano'',
    ''talvez'', ''tampouco'', ''tanzaniano'', ''taoista'', ''tapume'', ''taquion'', ''tarugo'', ''tascar'', ''tatuar'', ''tautologico'',
    ''tavola'', ''taxionomista'', ''tchecoslovaco'', ''teatrologo'', ''tectonismo'', ''tedioso'', ''teflon'', ''tegumento'', ''teixo'',
    ''telurio'', ''temporas'', ''tenue'', ''teosofico'', ''tepido'', ''tequila'', ''terrorista'', ''testosterona'', ''tetrico'',
    ''teutonico'', ''teve'', ''texugo'', ''tiara'', ''tibia'', ''tiete'', ''tifoide'', ''tigresa'', ''tijolo'', ''tilintar'', ''timpano'',
    ''tintureiro'', ''tiquete'', ''tiroteio'', ''tisico'', ''titulos'', ''tive'', ''toar'', ''toboga'', ''tofu'', ''togoles'', ''toicinho'',
    ''tolueno'', ''tomografo'', ''tontura'', ''toponimo'', ''toquio'', ''torvelinho'', ''tostar'', ''toto'', ''touro'', ''toxina'',
    ''trazer'', ''trezentos'', ''trivialidade'', ''trovoar'', ''truta'', ''tuaregue'', ''tubular'', ''tucano'', ''tudo'', ''tufo'',
    ''tuiste'', ''tulipa'', ''tumultuoso'', ''tunisino'', ''tupiniquim'', ''turvo'', ''tutu'', ''ucraniano'', ''udenista'', ''ufanista'',
    ''ufologo'', ''ugaritico'', ''uiste'', ''uivo'', ''ulceroso'', ''ulema'', ''ultravioleta'', ''umbilical'', ''umero'', ''umido'',
    ''umlaut'', ''unanimidade'', ''unesco'', ''ungulado'', ''unheiro'', ''univoco'', ''untuoso'', ''urano'', ''urbano'', ''urdir'',
    ''uretra'', ''urgente'', ''urinol'', ''urna'', ''urologo'', ''urro'', ''ursulina'', ''urtiga'', ''urupe'', ''usavel'', ''usbeque'',
    ''usei'', ''usineiro'', ''usurpar'', ''utero'', ''utilizar'', ''utopico'', ''uvular'', ''uxoricidio'', ''vacuo'', ''vadio'', ''vaguear'',
    ''vaivem'', ''valvula'', ''vampiro'', ''vantajoso'', ''vaporoso'', ''vaquinha'', ''varziano'', ''vasto'', ''vaticinio'', ''vaudeville'',
    ''vazio'', ''veado'', ''vedico'', ''veemente'', ''vegetativo'', ''veio'', ''veja'', ''veludo'', ''venusiano'', ''verdade'', ''verve'',
    ''vestuario'', ''vetusto'', ''vexatorio'', ''vezes'', ''viavel'', ''vibratorio'', ''victor'', ''vicunha'', ''vidros'', ''vietnamita'',
    ''vigoroso'', ''vilipendiar'', ''vime'', ''vintem'', ''violoncelo'', ''viquingue'', ''virus'', ''visualizar'', ''vituperio'', ''viuvo'',
    ''vivo'', ''vizir'', ''voar'', ''vociferar'', ''vodu'', ''vogar'', ''voile'', ''volver'', ''vomito'', ''vontade'', ''vortice'',
    ''vosso'', ''voto'', ''vovozinha'', ''voyeuse'', ''vozes'', ''vulva'', ''vupt'', ''western'', ''xadrez'', ''xale'', ''xampu'', ''xango'',
    ''xarope'', ''xaual'', ''xavante'', ''xaxim'', ''xenonio'', ''xepa'', ''xerox'', ''xicara'', ''xifopago'', ''xiita'', ''xilogravura'',
    ''xinxim'', ''xistoso'', ''xixi'', ''xodo'', ''xogum'', ''xucro'', ''zabumba'', ''zagueiro'', ''zambiano'', ''zanzar'', ''zarpar'',
    ''zebu'', ''zefiro'', ''zeloso'', ''zenite'', ''zumbi'']"

abbreviation portuguese_words :: "string list" where
  "portuguese_words \<equiv> portuguese_words_1 @ portuguese_words_2 @ portuguese_words_3 @ portuguese_words_4 @ portuguese_words_5"

lemmas portuguese_words_defs = portuguese_words_1_def portuguese_words_2_def portuguese_words_3_def portuguese_words_4_def portuguese_words_5_def

definition Portuguese :: "Language option" where
  "Portuguese = populate_maps False False (Language_Base [CHR ''P'', CHR ''o'', CHR ''r'', CHR ''t'', CHR ''u'', CHR ''g'', CHR ''u'', CHR 0xC3, CHR 0xAA, CHR ''s''] ''Portuguese'' portuguese_words 4)"

lemma portuguese_1_ok: "part_ok False (Suc (Suc (Suc (Suc 0)))) 326 portuguese_words_1"
  by (simp only: portuguese_words_1_def part_eval)

lemma portuguese_2_ok: "part_ok False (Suc (Suc (Suc (Suc 0)))) 325 portuguese_words_2"
  by (simp only: portuguese_words_2_def part_eval)

lemma portuguese_3_ok: "part_ok False (Suc (Suc (Suc (Suc 0)))) 325 portuguese_words_3"
  by (simp only: portuguese_words_3_def part_eval)

lemma portuguese_4_ok: "part_ok False (Suc (Suc (Suc (Suc 0)))) 325 portuguese_words_4"
  by (simp only: portuguese_words_4_def part_eval)

lemma portuguese_5_ok: "part_ok False (Suc (Suc (Suc (Suc 0)))) 325 portuguese_words_5"
  by (simp only: portuguese_words_5_def part_eval)

lemma portuguese_ok: "part_ok False (Suc (Suc (Suc (Suc 0)))) 1626 portuguese_words"
  using part_ok_append [OF portuguese_1_ok part_ok_append [OF portuguese_2_ok part_ok_append [OF portuguese_3_ok part_ok_append [OF portuguese_4_ok portuguese_5_ok]]]]
  by simp

lemma portuguese_codes: "radix (Suc (Suc (Suc (Suc (Suc (Suc (Suc (Suc (Suc (Suc (Suc (Suc (Suc (Suc (Suc (Suc (Suc (Suc (Suc (Suc (Suc (Suc (Suc (Suc (Suc 0))))))))))))))))))))))))) (codes (Suc (Suc (Suc (Suc 0)))) portuguese_words)"
  unfolding codes_append by (simp only: portuguese_words_defs code_eval)

lemma portuguese_constructed: "constructed False Portuguese [CHR ''P'', CHR ''o'', CHR ''r'', CHR ''t'', CHR ''u'', CHR ''g'', CHR ''u'', CHR 0xC3, CHR 0xAA, CHR ''s''] ''Portuguese'' portuguese_words"
  unfolding Portuguese_def by (rule constructor_returns [OF _ portuguese_codes]) (simp_all only: if_True if_False portuguese_ok, simp)

interpretation portuguese: seed_language "the Portuguese"
  by (rule constructed_language [OF portuguese_constructed])

section \<open>German\<close>

definition german_words_1 :: "string list" where
  "german_words_1 = [
    ''Abakus'', ''Abart'', ''abbilden'', ''Abbruch'', ''Abdrift'', ''Abendrot'', ''Abfahrt'', ''abfeuern'', ''Abflug'', ''abfragen'',
    ''Abglanz'', [CHR ''a'', CHR ''b'', CHR ''h'', CHR 0xC3, CHR 0xA4, CHR ''r'', CHR ''t'', CHR ''e'', CHR ''n''], ''abheben'', ''Abhilfe'',
    ''Abitur'', ''Abkehr'', ''Ablauf'', ''ablecken'',
    [CHR ''A'', CHR ''b'', CHR ''l'', CHR 0xC3, CHR 0xB6, CHR ''s'', CHR ''u'', CHR ''n'', CHR ''g''], ''Abnehmer'', ''abnutzen'',
    ''Abonnent'', ''Abrasion'', ''Abrede'',
    [CHR ''a'', CHR ''b'', CHR ''r'', CHR 0xC3, CHR 0xBC, CHR ''s'', CHR ''t'', CHR ''e'', CHR ''n''], ''Absicht'', ''Absprung'',
    ''Abstand'', ''absuchen'', ''Abteil'', ''Abundanz'', ''abwarten'', ''Abwurf'', ''Abzug'', ''Achse'', ''Achtung'', ''Acker'',
    ''Aderlass'', ''Adler'', ''Admiral'', ''Adresse'', ''Affe'', ''Affront'', ''Afrika'', ''Aggregat'',
    [CHR ''A'', CHR ''g'', CHR ''i'', CHR ''l'', CHR ''i'', CHR ''t'', CHR 0xC3, CHR 0xA4, CHR ''t''],
    [CHR 0xC3, CHR 0xA4, CHR ''h'', CHR ''n'', CHR ''e'', CHR ''l'', CHR ''n''], ''Ahnung'', ''Ahorn'', ''Akazie'', ''Akkord'', ''Akrobat'',
    ''Aktfoto'', ''Aktivist'', ''Albatros'', ''Alchimie'', ''Alemanne'', ''Alibi'', ''Alkohol'', ''Allee'',
    [CHR ''A'', CHR ''l'', CHR ''l'', CHR 0xC3, CHR 0xBC, CHR ''r'', CHR ''e''], ''Almosen'', ''Almweide'', ''Aloe'', ''Alpaka'',
    ''Alpental'', ''Alphabet'', ''Alpinist'', ''Alraune'', ''Altbier'', ''Alter'',
    [CHR ''A'', CHR ''l'', CHR ''t'', CHR ''f'', CHR ''l'', CHR 0xC3, CHR 0xB6, CHR ''t'', CHR ''e''], ''Altruist'', ''Alublech'',
    ''Aludose'', ''Amateur'', ''Amazonas'', ''Ameise'', ''Amnesie'', ''Amok'', ''Ampel'', ''Amphibie'', ''Ampulle'', ''Amsel'', ''Amulett'',
    ''Anakonda'', ''Analogie'', ''Ananas'', ''Anarchie'', ''Anatomie'', ''Anbau'', ''Anbeginn'', ''anbieten'', ''Anblick'',
    [CHR 0xC3, CHR 0xA4, CHR ''n'', CHR ''d'', CHR ''e'', CHR ''r'', CHR ''n''], ''andocken'', ''Andrang'', ''anecken'', ''Anflug'',
    ''Anfrage'', [CHR ''A'', CHR ''n'', CHR ''f'', CHR 0xC3, CHR 0xBC, CHR ''h'', CHR ''r'', CHR ''e'', CHR ''r''], ''Angebot'', ''Angler'',
    ''Anhalter'', [CHR ''A'', CHR ''n'', CHR ''h'', CHR 0xC3, CHR 0xB6, CHR ''h'', CHR ''e''], ''Animator'', ''Anis'', ''Anker'',
    ''ankleben'', ''Ankunft'', ''Anlage'', ''anlocken'', ''Anmut'', ''Annahme'', ''Anomalie'', ''Anonymus'', ''Anorak'', ''anpeilen'',
    ''Anrecht'', ''Anruf'', ''Ansage'', ''Anschein'', ''Ansicht'', ''Ansporn'', ''Anteil'', ''Antlitz'', ''Antrag'', ''Antwort'',
    ''Anwohner'', ''Aorta'', ''Apfel'', ''Appetit'', ''Applaus'', ''Aquarium'', ''Arbeit'', ''Arche'', ''Argument'', ''Arktis'', ''Armband'',
    ''Aroma'', ''Asche'', ''Askese'', ''Asphalt'', ''Asteroid'',
    [CHR 0xC3, CHR 0x84, CHR ''s'', CHR ''t'', CHR ''h'', CHR ''e'', CHR ''t'', CHR ''i'', CHR ''k''], ''Astronom'', ''Atelier'', ''Athlet'',
    ''Atlantik'', ''Atmung'', ''Audienz'', ''aufatmen'', ''Auffahrt'', ''aufholen'', ''aufregen'', ''Aufsatz'', ''Auftritt'', ''Aufwand'',
    ''Augapfel'', ''Auktion'', ''Ausbruch'', ''Ausflug'', ''Ausgabe'', ''Aushilfe'', ''Ausland'', ''Ausnahme'', ''Aussage'', ''Autobahn'',
    ''Avocado'', ''Axthieb'', ''Bach'', ''backen'', ''Badesee'', ''Bahnhof'', ''Balance'', ''Balkon'', ''Ballett'', ''Balsam'', ''Banane'',
    ''Bandage'', ''Bankett'', ''Barbar'', ''Barde'', ''Barett'', ''Bargeld'', ''Barkasse'', ''Barriere'', ''Bart'', ''Bass'', ''Bastler'',
    ''Batterie'', ''Bauch'', ''Bauer'', ''Bauholz'', ''Baujahr'', ''Baum'', ''Baustahl'', ''Bauteil'', ''Bauweise'', ''Bazar'', ''beachten'',
    ''Beatmung'', ''beben'', ''Becher'', ''Becken'', ''bedanken'', ''beeilen'', ''beenden'', ''Beere'', ''befinden'', ''Befreier'',
    ''Begabung'', ''Begierde'', [CHR ''b'', CHR ''e'', CHR ''g'', CHR ''r'', CHR 0xC3, CHR 0xBC, CHR 0xC3, CHR 0x9F, CHR ''e'', CHR ''n''],
    ''Beiboot'', ''Beichte'', ''Beifall'', ''Beigabe'', ''Beil'', ''Beispiel'', ''Beitrag'', ''beizen'', ''bekommen'', ''beladen'',
    ''Beleg'', ''bellen'', ''belohnen'', ''Bemalung'', ''Bengel'', ''Benutzer'', ''Benzin'', ''beraten'', ''Bereich'', ''Bergluft'',
    ''Bericht'', ''Bescheid'', ''Besitz'', ''besorgen'', ''Bestand'', ''Besuch'', ''betanken'', ''beten'',
    [CHR ''b'', CHR ''e'', CHR ''t'', CHR 0xC3, CHR 0xB6, CHR ''r'', CHR ''e'', CHR ''n''], ''Bett'', ''Beule'', ''Beute'', ''Bewegung'',
    ''bewirken'', ''Bewohner'', ''bezahlen'', ''Bezug'', ''biegen'', ''Biene'', ''Bierzelt'', ''bieten'', ''Bikini'', ''Bildung'',
    ''Billard'', ''binden'', ''Biobauer'', ''Biologe'', ''Bionik'', ''Biotop'', ''Birke'', ''Bison'', ''Bitte'', ''Biwak'', ''Bizeps'',
    ''blasen'', ''Blatt'', ''Blauwal'', ''Blende'', ''Blick'', ''Blitz'', ''Blockade'',
    [CHR ''B'', CHR ''l'', CHR 0xC3, CHR 0xB6, CHR ''d'', CHR ''e'', CHR ''l'', CHR ''e'', CHR ''i''], ''Blondine'', ''Blues'', ''Blume'',
    ''Blut'', ''Bodensee'', ''Bogen'', ''Boje'', ''Bollwerk'', ''Bonbon'', ''Bonus'', ''Boot'', ''Bordarzt'',
    [CHR ''B'', CHR 0xC3, CHR 0xB6, CHR ''r'', CHR ''s'', CHR ''e''],
    [CHR ''B'', CHR 0xC3, CHR 0xB6, CHR ''s'', CHR ''c'', CHR ''h'', CHR ''u'', CHR ''n'', CHR ''g''], ''Boudoir'', ''Boxkampf'',
    ''Boykott'', ''Brahms'', ''Brandung'', ''Brauerei'', ''Brecher'', ''Breitaxt'', ''Bremse'', ''brennen'', ''Brett'', ''Brief'',
    ''Brigade'', ''Brillanz'', ''bringen'', ''brodeln'', ''Brosche'',
    [CHR ''B'', CHR ''r'', CHR 0xC3, CHR 0xB6, CHR ''t'', CHR ''c'', CHR ''h'', CHR ''e'', CHR ''n''],
    [CHR ''B'', CHR ''r'', CHR 0xC3, CHR 0xBC, CHR ''c'', CHR ''k'', CHR ''e''], ''Brunnen'',
    [CHR ''B'', CHR ''r'', CHR 0xC3, CHR 0xBC, CHR ''s'', CHR ''t'', CHR ''e''], ''Brutofen'', ''Buch'',
    [CHR ''B'', CHR 0xC3, CHR 0xBC, CHR ''f'', CHR ''f'', CHR ''e'', CHR ''l''], ''Bugwelle'',
    [CHR ''B'', CHR 0xC3, CHR 0xBC, CHR ''h'', CHR ''n'', CHR ''e''], ''Buletten'', ''Bullauge'', ''Bumerang'', ''bummeln'', ''Buntglas'',
    [CHR ''B'', CHR 0xC3, CHR 0xBC, CHR ''r'', CHR ''d'', CHR ''e''], ''Burgherr'', ''Bursche'', ''Busen'', ''Buslinie'']"

definition german_words_2 :: "string list" where
  "german_words_2 = [
    ''Bussard'', ''Butangas'', ''Butter'', ''Cabrio'', ''campen'', ''Captain'', ''Cartoon'', ''Cello'', ''Chalet'', ''Charisma'',
    ''Chefarzt'', ''Chiffon'', ''Chipsatz'', ''Chirurg'', ''Chor'', ''Chronik'', ''Chuzpe'', ''Clubhaus'', ''Cockpit'', ''Codewort'',
    ''Cognac'', ''Coladose'', ''Computer'', ''Coupon'', ''Cousin'', ''Cracking'', ''Crash'', ''Curry'', ''Dach'', ''Dackel'', ''daddeln'',
    ''daliegen'', ''Dame'', ''Dammbau'', [CHR ''D'', CHR 0xC3, CHR 0xA4, CHR ''m'', CHR ''o'', CHR ''n''], ''Dampflok'', ''Dank'', ''Darm'',
    ''Datei'', ''Datsche'', ''Datteln'', ''Datum'', ''Dauer'', ''Daunen'', ''Deckel'', ''Decoder'', ''Defekt'', ''Degen'', ''Dehnung'',
    ''Deiche'', ''Dekade'', ''Dekor'', ''Delfin'', ''Demut'', ''denken'', ''Deponie'', ''Design'', ''Desktop'', ''Dessert'', ''Detail'',
    ''Detektiv'', ''Dezibel'', ''Diadem'', ''Diagnose'', ''Dialekt'', ''Diamant'', ''Dichter'', ''Dickicht'', ''Diesel'', ''Diktat'',
    ''Diplom'', ''Direktor'', ''Dirne'', ''Diskurs'', ''Distanz'', ''Docht'', ''Dohle'', ''Dolch'',
    [CHR ''D'', CHR ''o'', CHR ''m'', CHR 0xC3, CHR 0xA4, CHR ''n'', CHR ''e''], ''Donner'', ''Dorade'', ''Dorf'',
    [CHR ''D'', CHR 0xC3, CHR 0xB6, CHR ''r'', CHR ''r'', CHR ''o'', CHR ''b'', CHR ''s'', CHR ''t''], ''Dorsch'', ''Dossier'', ''Dozent'',
    ''Drachen'', ''Draht'', ''Drama'', ''Drang'', ''Drehbuch'', ''Dreieck'', ''Dressur'', ''Drittel'', ''Drossel'', ''Druck'', ''Duell'',
    ''Duft'', [CHR ''D'', CHR 0xC3, CHR 0xBC, CHR ''n'', CHR ''e''],
    [CHR ''D'', CHR 0xC3, CHR 0xBC, CHR ''n'', CHR ''u'', CHR ''n'', CHR ''g''],
    [CHR ''d'', CHR 0xC3, CHR 0xBC, CHR ''r'', CHR ''f'', CHR ''e'', CHR ''n''], ''Duschbad'',
    [CHR ''D'', CHR 0xC3, CHR 0xBC, CHR ''s'', CHR ''e'', CHR ''n'', CHR ''j'', CHR ''e'', CHR ''t''], ''Dynamik'', ''Ebbe'', ''Echolot'',
    ''Echse'', ''Eckball'', ''Edding'', [CHR ''E'', CHR ''d'', CHR ''e'', CHR ''l'', CHR ''w'', CHR ''e'', CHR ''i'', CHR 0xC3, CHR 0x9F],
    ''Eden'', ''Edition'', ''Efeu'', ''Effekte'', ''Egoismus'', ''Ehre'', ''Eiablage'', ''Eiche'', ''Eidechse'', ''Eidotter'', ''Eierkopf'',
    ''Eigelb'', ''Eiland'', ''Eilbote'', ''Eimer'', ''einatmen'', ''Einband'', ''Eindruck'', ''Einfall'', ''Eingang'', ''Einkauf'',
    ''einladen'', [CHR ''E'', CHR ''i'', CHR ''n'', CHR 0xC3, CHR 0xB6, CHR ''d'', CHR ''e''], ''Einrad'', ''Eintopf'', ''Einwurf'',
    ''Einzug'', [CHR ''E'', CHR ''i'', CHR ''s'', CHR ''b'', CHR 0xC3, CHR 0xA4, CHR ''r''], ''Eisen'',
    [CHR ''E'', CHR ''i'', CHR ''s'', CHR ''h'', CHR 0xC3, CHR 0xB6, CHR ''h'', CHR ''l'', CHR ''e''], ''Eismeer'',
    [CHR ''E'', CHR ''i'', CHR ''w'', CHR ''e'', CHR ''i'', CHR 0xC3, CHR 0x9F], ''Ekstase'', ''Elan'', ''Elch'', ''Elefant'', ''Eleganz'',
    ''Element'', ''Elfe'', ''Elite'', ''Elixier'', ''Ellbogen'', ''Eloquenz'', ''Emigrant'', ''Emission'', ''Emotion'', ''Empathie'',
    ''Empfang'', ''Endzeit'', ''Energie'', ''Engpass'', ''Enkel'', ''Enklave'', ''Ente'', ''entheben'',
    [CHR ''E'', CHR ''n'', CHR ''t'', CHR ''i'', CHR ''t'', CHR 0xC3, CHR 0xA4, CHR ''t''], ''entladen'', ''Entwurf'', ''Episode'',
    ''Epoche'', ''erachten'', ''Erbauer'', [CHR ''e'', CHR ''r'', CHR ''b'', CHR ''l'', CHR 0xC3, CHR 0xBC, CHR ''h'', CHR ''e'', CHR ''n''],
    ''Erdbeere'', ''Erde'', ''Erdgas'', ''Erdkunde'', ''Erdnuss'', [CHR ''E'', CHR ''r'', CHR ''d'', CHR 0xC3, CHR 0xB6, CHR ''l''],
    ''Erdteil'', ''Ereignis'', ''Eremit'', ''erfahren'', ''Erfolg'', ''erfreuen'',
    [CHR ''e'', CHR ''r'', CHR ''f'', CHR 0xC3, CHR 0xBC, CHR ''l'', CHR ''l'', CHR ''e'', CHR ''n''], ''Ergebnis'', ''erhitzen'',
    ''erkalten'', ''erkennen'', ''erleben'',
    [CHR ''E'', CHR ''r'', CHR ''l'', CHR 0xC3, CHR 0xB6, CHR ''s'', CHR ''u'', CHR ''n'', CHR ''g''],
    [CHR ''e'', CHR ''r'', CHR ''n'', CHR 0xC3, CHR 0xA4, CHR ''h'', CHR ''r'', CHR ''e'', CHR ''n''], ''erneuern'', ''Ernte'', ''Eroberer'',
    [CHR ''e'', CHR ''r'', CHR 0xC3, CHR 0xB6, CHR ''f'', CHR ''f'', CHR ''n'', CHR ''e'', CHR ''n''], ''Erosion'', ''Erotik'', ''Erpel'',
    ''erraten'', ''Erreger'', [CHR ''e'', CHR ''r'', CHR ''r'', CHR 0xC3, CHR 0xB6, CHR ''t'', CHR ''e'', CHR ''n''], ''Ersatz'',
    ''Erstflug'', ''Ertrag'', ''Eruption'', ''erwarten'', ''erwidern'', ''Erzbau'', ''Erzeuger'', ''erziehen'', ''Esel'', ''Eskimo'',
    ''Eskorte'', ''Espe'', ''Espresso'', ''essen'', ''Etage'', ''Etappe'', ''Etat'', ''Ethik'', ''Etikett'',
    [CHR ''E'', CHR ''t'', CHR 0xC3, CHR 0xBC, CHR ''d'', CHR ''e''], ''Eule'', ''Euphorie'', ''Europa'', ''Everest'', ''Examen'', ''Exil'',
    ''Exodus'', ''Extrakt'', ''Fabel'', ''Fabrik'', ''Fachmann'', ''Fackel'', ''Faden'', ''Fagott'', ''Fahne'', ''Faible'', ''Fairness'',
    ''Fakt'', [CHR ''F'', CHR ''a'', CHR ''k'', CHR ''u'', CHR ''l'', CHR ''t'', CHR 0xC3, CHR 0xA4, CHR ''t''], ''Falke'', ''Fallobst'',
    [CHR ''F'', CHR 0xC3, CHR 0xA4, CHR ''l'', CHR ''s'', CHR ''c'', CHR ''h'', CHR ''e'', CHR ''r''], ''Faltboot'', ''Familie'',
    ''Fanclub'', ''Fanfare'', ''Fangarm'', ''Fantasie'', ''Farbe'', ''Farmhaus'', ''Farn'', ''Fasan'', ''Faser'', ''Fassung'', ''fasten'',
    ''Faulheit'', ''Fauna'', ''Faust'', ''Favorit'',
    [CHR ''F'', CHR ''a'', CHR ''x'', CHR ''g'', CHR ''e'', CHR ''r'', CHR 0xC3, CHR 0xA4, CHR ''t''], ''Fazit'', ''fechten'', ''Federboa'',
    ''Fehler'', ''Feier'', ''Feige'', ''feilen'', ''Feinripp'', ''Feldbett'', ''Felge'', ''Fellpony'', ''Felswand'', ''Ferien'', ''Ferkel'',
    ''Fernweh'', ''Ferse'', ''Fest'', ''Fettnapf'', ''Feuer'', ''Fiasko'', ''Fichte'', ''Fiktion'', ''Film'', ''Filter'', ''Filz'',
    ''Finanzen'', ''Findling'', ''Finger'', ''Fink'', ''Finnwal'', ''Fisch'', ''Fitness'', ''Fixpunkt'', ''Fixstern'', ''Fjord'',
    ''Flachbau'', ''Flagge'', ''Flamenco'', ''Flanke'', ''Flasche'', ''Flaute'', ''Fleck'', ''Flegel'', ''flehen'', ''Fleisch'', ''fliegen'',
    ''Flinte'', ''Flirt'', ''Flocke'', ''Floh'', ''Floskel'', [CHR ''F'', CHR ''l'', CHR ''o'', CHR 0xC3, CHR 0x9F],
    [CHR ''F'', CHR ''l'', CHR 0xC3, CHR 0xB6, CHR ''t'', CHR ''e''], ''Flugzeug'', ''Flunder'', ''Flusstal'', ''Flutung'', ''Fockmast'',
    ''Fohlen'', [CHR ''F'', CHR 0xC3, CHR 0xB6, CHR ''h'', CHR ''n'', CHR ''l'', CHR ''a'', CHR ''g'', CHR ''e''], ''Fokus'']"

definition german_words_3 :: "string list" where
  "german_words_3 = [
    ''folgen'', ''Foliant'', ''Folklore'', [CHR ''F'', CHR ''o'', CHR ''n'', CHR ''t'', CHR 0xC3, CHR 0xA4, CHR ''n'', CHR ''e''],
    [CHR ''F'', CHR 0xC3, CHR 0xB6, CHR ''r'', CHR ''d'', CHR ''e''], ''Forelle'', ''Format'', ''Forscher'', ''Fortgang'', ''Forum'',
    ''Fotograf'', ''Frachter'', ''Fragment'', ''Fraktion'', [CHR ''f'', CHR ''r'', CHR 0xC3, CHR 0xA4, CHR ''s'', CHR ''e'', CHR ''n''],
    ''Frauenpo'', ''Freak'', ''Fregatte'', ''Freiheit'', ''Freude'', ''Frieden'', ''Frohsinn'', ''Frosch'', ''Frucht'',
    [CHR ''F'', CHR ''r'', CHR 0xC3, CHR 0xBC, CHR ''h'', CHR ''j'', CHR ''a'', CHR ''h'', CHR ''r''], ''Fuchs'',
    [CHR ''F'', CHR 0xC3, CHR 0xBC, CHR ''g'', CHR ''u'', CHR ''n'', CHR ''g''],
    [CHR ''f'', CHR 0xC3, CHR 0xBC, CHR ''h'', CHR ''l'', CHR ''e'', CHR ''n''],
    [CHR ''F'', CHR 0xC3, CHR 0xBC, CHR ''l'', CHR ''l'', CHR ''e'', CHR ''r''],
    [CHR ''F'', CHR ''u'', CHR ''n'', CHR ''d'', CHR ''b'', CHR 0xC3, CHR 0xBC, CHR ''r'', CHR ''o''], ''Funkboje'', ''Funzel'', ''Furnier'',
    [CHR ''F'', CHR 0xC3, CHR 0xBC, CHR ''r'', CHR ''s'', CHR ''o'', CHR ''r'', CHR ''g'', CHR ''e''], ''Fusel'',
    [CHR ''F'', CHR ''u'', CHR 0xC3, CHR 0x9F, CHR ''b'', CHR ''a'', CHR ''d''], ''Futteral'', ''Gabelung'', ''gackern'', ''Gage'',
    [CHR ''g'', CHR 0xC3, CHR 0xA4, CHR ''h'', CHR ''n'', CHR ''e'', CHR ''n''], ''Galaxie'', ''Galeere'', ''Galopp'', ''Gameboy'',
    ''Gamsbart'', ''Gandhi'', ''Gang'', ''Garage'', ''Gardine'',
    [CHR ''G'', CHR ''a'', CHR ''r'', CHR ''k'', CHR 0xC3, CHR 0xBC, CHR ''c'', CHR ''h'', CHR ''e''], ''Garten'', ''Gasthaus'', ''Gattung'',
    ''gaukeln'', ''Gazelle'', [CHR ''G'', CHR ''e'', CHR ''b'', CHR 0xC3, CHR 0xA4, CHR ''c'', CHR ''k''], ''Gebirge'',
    [CHR ''G'', CHR ''e'', CHR ''b'', CHR ''r'', CHR 0xC3, CHR 0xA4, CHR ''u''], ''Geburt'', ''Gedanke'', ''Gedeck'', ''Gedicht'',
    ''Gefahr'', ''Gefieder'', [CHR ''G'', CHR ''e'', CHR ''f'', CHR ''l'', CHR 0xC3, CHR 0xBC, CHR ''g'', CHR ''e'', CHR ''l''],
    [CHR ''G'', CHR ''e'', CHR ''f'', CHR 0xC3, CHR 0xBC, CHR ''h'', CHR ''l''], ''Gegend'', ''Gehirn'',
    [CHR ''G'', CHR ''e'', CHR ''h'', CHR 0xC3, CHR 0xB6, CHR ''f'', CHR ''t''], ''Gehweg'', ''Geige'', ''Geist'', ''Gelage'', ''Geld'',
    ''Gelenk'', [CHR ''G'', CHR ''e'', CHR ''l'', CHR 0xC3, CHR 0xBC, CHR ''b'', CHR ''d'', CHR ''e''],
    [CHR ''G'', CHR ''e'', CHR ''m'', CHR 0xC3, CHR 0xA4, CHR ''l'', CHR ''d'', CHR ''e''], ''Gemeinde'',
    [CHR ''G'', CHR ''e'', CHR ''m'', CHR 0xC3, CHR 0xBC, CHR ''s'', CHR ''e''], ''genesen'', ''Genuss'',
    [CHR ''G'', CHR ''e'', CHR ''p'', CHR 0xC3, CHR 0xA4, CHR ''c'', CHR ''k''], ''Geranie'', ''Gericht'', ''Germane'', ''Geruch'',
    ''Gesang'', ''Geschenk'', ''Gesetz'', ''Gesindel'', [CHR ''G'', CHR ''e'', CHR ''s'', CHR 0xC3, CHR 0xB6, CHR ''f'', CHR ''f''],
    ''Gespan'', ''Gestade'', ''Gesuch'', ''Getier'', [CHR ''G'', CHR ''e'', CHR ''t'', CHR ''r'', CHR 0xC3, CHR 0xA4, CHR ''n'', CHR ''k''],
    [CHR ''G'', CHR ''e'', CHR ''t'', CHR 0xC3, CHR 0xBC, CHR ''m'', CHR ''m'', CHR ''e'', CHR ''l''], ''Gewand'', ''Geweih'', ''Gewitter'',
    [CHR ''G'', CHR ''e'', CHR ''w'', CHR 0xC3, CHR 0xB6, CHR ''l'', CHR ''b'', CHR ''e''], ''Geysir'', ''Giftzahn'', ''Gipfel'',
    ''Giraffe'', ''Gitarre'', [CHR ''g'', CHR ''l'', CHR 0xC3, CHR 0xA4, CHR ''n'', CHR ''z'', CHR ''e'', CHR ''n''], ''Glasauge'',
    ''Glatze'', ''Gleis'', ''Globus'', [CHR ''G'', CHR ''l'', CHR 0xC3, CHR 0xBC, CHR ''c'', CHR ''k''],
    [CHR ''g'', CHR ''l'', CHR 0xC3, CHR 0xBC, CHR ''h'', CHR ''e'', CHR ''n''], ''Glutofen'', ''Goldzahn'', ''Gondel'',
    [CHR ''g'', CHR 0xC3, CHR 0xB6, CHR ''n'', CHR ''n'', CHR ''e'', CHR ''n''], ''Gottheit'', ''graben'', ''Grafik'', ''Grashalm'',
    ''Graugans'', ''greifen'', ''Grenze'', ''grillen'', ''Groschen'', ''Grotte'', ''Grube'',
    [CHR ''G'', CHR ''r'', CHR 0xC3, CHR 0xBC, CHR ''n'', CHR ''a'', CHR ''l'', CHR ''g'', CHR ''e''], ''Gruppe'', ''gruseln'', ''Gulasch'',
    [CHR ''G'', CHR ''u'', CHR ''m'', CHR ''m'', CHR ''i'', CHR ''b'', CHR 0xC3, CHR 0xA4, CHR ''r''], ''Gurgel'',
    [CHR ''G'', CHR 0xC3, CHR 0xBC, CHR ''r'', CHR ''t'', CHR ''e'', CHR ''l''],
    [CHR ''G'', CHR 0xC3, CHR 0xBC, CHR ''t'', CHR ''e'', CHR ''r'', CHR ''z'', CHR ''u'', CHR ''g''], ''Haarband'', ''Habicht'', ''hacken'',
    ''hadern'', ''Hafen'', ''Hagel'', [CHR ''H'', CHR 0xC3, CHR 0xA4, CHR ''h'', CHR ''n'', CHR ''c'', CHR ''h'', CHR ''e'', CHR ''n''],
    ''Haifisch'', ''Haken'', ''Halbaffe'', ''Halsader'', ''halten'', ''Halunke'', ''Handbuch'', ''Hanf'', ''Harfe'', ''Harnisch'',
    [CHR ''h'', CHR 0xC3, CHR 0xA4, CHR ''r'', CHR ''t'', CHR ''e'', CHR ''n''], ''Harz'', ''Hasenohr'', ''Haube'', ''hauchen'', ''Haupt'',
    ''Haut'', ''Havarie'', ''Hebamme'', ''hecheln'', ''Heck'', ''Hedonist'', ''Heiler'', ''Heimat'', ''Heizung'', ''Hektik'', ''Held'',
    ''helfen'', ''Helium'', ''Hemd'', ''hemmen'', ''Hengst'', ''Herd'', ''Hering'', ''Herkunft'', ''Hermelin'', ''Herrchen'', ''Herzdame'',
    ''Heulboje'', ''Hexe'', ''Hilfe'', ''Himbeere'', ''Himmel'', ''Hingabe'',
    [CHR ''h'', CHR ''i'', CHR ''n'', CHR ''h'', CHR 0xC3, CHR 0xB6, CHR ''r'', CHR ''e'', CHR ''n''], ''Hinweis'', ''Hirsch'', ''Hirte'',
    ''Hitzkopf'', ''Hobel'', ''Hochform'', ''Hocker'', ''hoffen'', ''Hofhund'', ''Hofnarr'',
    [CHR ''H'', CHR 0xC3, CHR 0xB6, CHR ''h'', CHR ''e'', CHR ''n'', CHR ''z'', CHR ''u'', CHR ''g''], ''Hohlraum'',
    [CHR ''H'', CHR 0xC3, CHR 0xB6, CHR ''l'', CHR ''l'', CHR ''e''], ''Holzboot'', ''Honig'', ''Honorar'', ''horchen'',
    [CHR ''H'', CHR 0xC3, CHR 0xB6, CHR ''r'', CHR ''p'', CHR ''r'', CHR ''o'', CHR ''b'', CHR ''e''],
    [CHR ''H'', CHR 0xC3, CHR 0xB6, CHR ''s'', CHR ''c'', CHR ''h'', CHR ''e'', CHR ''n''], ''Hotel'', ''Hubraum'', ''Hufeisen'',
    [CHR ''H'', CHR 0xC3, CHR 0xBC, CHR ''g'', CHR ''e'', CHR ''l''], ''huldigen'',
    [CHR ''H'', CHR 0xC3, CHR 0xBC, CHR ''l'', CHR ''l'', CHR ''e''], ''Humbug'', ''Hummer'', ''Humor'', ''Hund'', ''Hunger'', ''Hupe'',
    [CHR ''H'', CHR 0xC3, CHR 0xBC, CHR ''r'', CHR ''d'', CHR ''e''], ''Hurrikan'', ''Hydrant'', ''Hypnose'', ''Ibis'', ''Idee'', ''Idiot'',
    ''Igel'', ''Illusion'', ''Imitat'', ''impfen'', ''Import'', ''Inferno'', ''Ingwer'', ''Inhalte'', ''Inland'', ''Insekt'', ''Ironie'',
    ''Irrfahrt'', ''Irrtum'', ''Isolator'', ''Istwert'', ''Jacke'', ''Jade'', ''Jagdhund'',
    [CHR ''J'', CHR 0xC3, CHR 0xA4, CHR ''g'', CHR ''e'', CHR ''r''], ''Jaguar'', ''Jahr'',
    [CHR ''J'', CHR 0xC3, CHR 0xA4, CHR ''h'', CHR ''z'', CHR ''o'', CHR ''r'', CHR ''n''], ''Jazzfest'', ''Jetpilot'', ''jobben'',
    ''Jochbein'', ''jodeln'', ''Jodsalz'', ''Jolle'', ''Journal'', ''Jubel'', ''Junge'', ''Junimond'', ''Jupiter'', ''Jutesack'', ''Juwel'',
    ''Kabarett'', ''Kabine'', ''Kabuff'', [CHR ''K'', CHR 0xC3, CHR 0xA4, CHR ''f'', CHR ''e'', CHR ''r''], ''Kaffee'', ''Kahlkopf'',
    ''Kaimauer'', [CHR ''K'', CHR ''a'', CHR ''j'', CHR 0xC3, CHR 0xBC, CHR ''t'', CHR ''e''], ''Kaktus'', ''Kaliber'', ''Kaltluft'',
    ''Kamel'', [CHR ''k'', CHR 0xC3, CHR 0xA4, CHR ''m'', CHR ''m'', CHR ''e'', CHR ''n''], ''Kampagne'', ''Kanal'',
    [CHR ''K'', CHR 0xC3, CHR 0xA4, CHR ''n'', CHR ''g'', CHR ''u'', CHR ''r'', CHR ''u''], ''Kanister'', ''Kanone'', ''Kante'', ''Kanu'',
    ''kapern'', [CHR ''K'', CHR ''a'', CHR ''p'', CHR ''i'', CHR ''t'', CHR 0xC3, CHR 0xA4, CHR ''n''], ''Kapuze'', ''Karneval'',
    ''Karotte'', [CHR ''K'', CHR 0xC3, CHR 0xA4, CHR ''s'', CHR ''e'', CHR ''b'', CHR ''r'', CHR ''o'', CHR ''t''], ''Kasper'', ''Kastanie'',
    ''Katalog'', ''Kathode'', ''Katze'', ''kaufen'', ''Kaugummi'', ''Kauz'', ''Kehle'', ''Keilerei'', ''Keksdose'', ''Kellner'', ''Keramik'',
    ''Kerze'', ''Kessel'', ''Kette'', ''keuchen'', ''kichern'', ''Kielboot'', ''Kindheit'', ''Kinnbart'', ''Kinosaal'', ''Kiosk'',
    ''Kissen'', ''Klammer'', ''Klang'', ''Klapprad'', ''Klartext'', ''kleben'', ''Klee'', ''Kleinod'', ''Klima'', ''Klingel'', ''Klippe'',
    ''Klischee'', ''Kloster'']"

definition german_words_4 :: "string list" where
  "german_words_4 = [
    ''Klugheit'', [CHR ''K'', CHR ''l'', CHR 0xC3, CHR 0xBC, CHR ''n'', CHR ''g'', CHR ''e'', CHR ''l''], ''kneten'', ''Knie'',
    [CHR ''K'', CHR ''n'', CHR 0xC3, CHR 0xB6, CHR ''c'', CHR ''h'', CHR ''e'', CHR ''l''],
    [CHR ''k'', CHR ''n'', CHR 0xC3, CHR 0xBC, CHR ''p'', CHR ''f'', CHR ''e'', CHR ''n''], ''Kobold'', ''Kochbuch'', ''Kohlrabi'', ''Koje'',
    [CHR ''K'', CHR ''o'', CHR ''k'', CHR ''o'', CHR ''s'', CHR 0xC3, CHR 0xB6, CHR ''l''], ''Kolibri'', ''Kolumne'',
    [CHR ''K'', CHR ''o'', CHR ''m'', CHR ''b'', CHR 0xC3, CHR 0xBC, CHR ''s'', CHR ''e''], ''Komiker'', ''kommen'', ''Konto'', ''Konzept'',
    ''Kopfkino'', ''Kordhose'', ''Korken'', ''Korsett'', ''Kosename'', ''Krabbe'', ''Krach'', ''Kraft'',
    [CHR ''K'', CHR ''r'', CHR 0xC3, CHR 0xA4, CHR ''h'', CHR ''e''], ''Kralle'', ''Krapfen'', ''Krater'', ''kraulen'', ''Kreuz'',
    ''Krokodil'', [CHR ''K'', CHR ''r'', CHR 0xC3, CHR 0xB6, CHR ''t'', CHR ''e''], ''Kugel'', ''Kuhhirt'',
    [CHR ''K'', CHR 0xC3, CHR 0xBC, CHR ''h'', CHR ''n'', CHR ''h'', CHR ''e'', CHR ''i'', CHR ''t''],
    [CHR ''K'', CHR 0xC3, CHR 0xBC, CHR ''n'', CHR ''s'', CHR ''t'', CHR ''l'', CHR ''e'', CHR ''r''], ''Kurort'', ''Kurve'', ''Kurzfilm'',
    ''kuscheln'', [CHR ''k'', CHR 0xC3, CHR 0xBC, CHR ''s'', CHR ''s'', CHR ''e'', CHR ''n''], ''Kutter'', ''Labor'', ''lachen'',
    ''Lackaffe'', ''Ladeluke'', ''Lagune'', ''Laib'', ''Lakritze'', ''Lammfell'', ''Land'', ''Langmut'', ''Lappalie'', ''Last'', ''Laterne'',
    ''Latzhose'', [CHR ''L'', CHR ''a'', CHR ''u'', CHR ''b'', CHR ''s'', CHR 0xC3, CHR 0xA4, CHR ''g'', CHR ''e''], ''laufen'', ''Laune'',
    ''Lausbub'', ''Lavasee'', ''Leben'', ''Leder'', ''Leerlauf'', ''Lehm'', ''Lehrer'', ''leihen'',
    [CHR ''L'', CHR ''e'', CHR ''k'', CHR ''t'', CHR 0xC3, CHR 0xBC, CHR ''r'', CHR ''e''], ''Lenker'', ''Lerche'', ''Leseecke'',
    ''Leuchter'', ''Lexikon'', ''Libelle'', ''Libido'', ''Licht'', ''Liebe'', ''liefern'', ''Liftboy'', ''Limonade'', ''Lineal'',
    ''Linoleum'', ''List'', ''Liveband'', ''Lobrede'', ''locken'',
    [CHR ''L'', CHR 0xC3, CHR 0xB6, CHR ''f'', CHR ''f'', CHR ''e'', CHR ''l''], ''Logbuch'', ''Logik'', ''Lohn'', ''Loipe'', ''Lokal'',
    ''Lorbeer'', [CHR ''L'', CHR 0xC3, CHR 0xB6, CHR ''s'', CHR ''u'', CHR ''n'', CHR ''g''],
    [CHR ''l'', CHR 0xC3, CHR 0xB6, CHR ''t'', CHR ''e'', CHR ''n''], ''Lottofee'', [CHR ''L'', CHR 0xC3, CHR 0xB6, CHR ''w'', CHR ''e''],
    ''Luchs'', ''Luder'', ''Luftpost'', ''Luke'', [CHR ''L'', CHR 0xC3, CHR 0xBC, CHR ''m'', CHR ''m'', CHR ''e'', CHR ''l''], ''Lunge'',
    ''lutschen'', ''Luxus'', ''Macht'', ''Magazin'', ''Magier'', ''Magnet'',
    [CHR ''m'', CHR 0xC3, CHR 0xA4, CHR ''h'', CHR ''e'', CHR ''n''], ''Mahlzeit'', ''Mahnmal'', ''Maibaum'', ''Maisbrei'', ''Makel'',
    ''malen'', ''Mammut'', [CHR ''M'', CHR ''a'', CHR ''n'', CHR ''i'', CHR ''k'', CHR 0xC3, CHR 0xBC, CHR ''r'', CHR ''e''], ''Mantel'',
    ''Marathon'', ''Marder'', ''Marine'', ''Marke'', ''Marmor'',
    [CHR ''M'', CHR 0xC3, CHR 0xA4, CHR ''r'', CHR ''z'', CHR ''l'', CHR ''u'', CHR ''f'', CHR ''t''], ''Maske'',
    [CHR ''M'', CHR ''a'', CHR 0xC3, CHR 0x9F, CHR ''a'', CHR ''n'', CHR ''z'', CHR ''u'', CHR ''g''],
    [CHR ''M'', CHR ''a'', CHR 0xC3, CHR 0x9F, CHR ''k'', CHR ''r'', CHR ''u'', CHR ''g''], ''Mastkorb'', ''Material'', ''Matratze'',
    ''Mauerbau'', ''Maulkorb'', [CHR ''M'', CHR 0xC3, CHR 0xA4, CHR ''u'', CHR ''s'', CHR ''c'', CHR ''h'', CHR ''e'', CHR ''n''],
    [CHR ''M'', CHR 0xC3, CHR 0xA4, CHR ''z'', CHR ''e'', CHR ''n''], ''Medium'', ''Meinung'', ''melden'', ''Melodie'', ''Mensch'',
    ''Merkmal'', ''Messe'', ''Metall'', ''Meteor'', ''Methode'', ''Metzger'', ''Mieze'', ''Milchkuh'', ''Mimose'', ''Minirock'', ''Minute'',
    ''mischen'', ''Missetat'', ''mitgehen'', ''Mittag'', ''Mixtape'', [CHR ''M'', CHR 0xC3, CHR 0xB6, CHR ''b'', CHR ''e'', CHR ''l''],
    ''Modul'', [CHR ''m'', CHR 0xC3, CHR 0xB6, CHR ''g'', CHR ''e'', CHR ''n''],
    [CHR ''M'', CHR 0xC3, CHR 0xB6, CHR ''h'', CHR ''r'', CHR ''e''], ''Molch'', ''Moment'', ''Monat'', ''Mondflug'', ''Monitor'',
    ''Monokini'', ''Monster'', ''Monument'', ''Moorhuhn'', ''Moos'', [CHR ''M'', CHR 0xC3, CHR 0xB6, CHR ''p'', CHR ''s'', CHR ''e''],
    ''Moral'', [CHR ''M'', CHR 0xC3, CHR 0xB6, CHR ''r'', CHR ''t'', CHR ''e'', CHR ''l''], ''Motiv'', ''Motorrad'',
    [CHR ''M'', CHR 0xC3, CHR 0xB6, CHR ''w'', CHR ''e''], [CHR ''M'', CHR 0xC3, CHR 0xBC, CHR ''h'', CHR ''e''], ''Mulatte'',
    [CHR ''M'', CHR 0xC3, CHR 0xBC, CHR ''l'', CHR ''l'', CHR ''e'', CHR ''r''], ''Mumie'', ''Mund'',
    [CHR ''M'', CHR 0xC3, CHR 0xBC, CHR ''n'', CHR ''z'', CHR ''e''], ''Muschel'', ''Muster'', ''Mythos'', ''Nabel'', ''Nachtzug'',
    ''Nackedei'', ''Nagel'', [CHR ''N'', CHR 0xC3, CHR 0xA4, CHR ''h'', CHR ''e''],
    [CHR ''N'', CHR 0xC3, CHR 0xA4, CHR ''h'', CHR ''n'', CHR ''a'', CHR ''d'', CHR ''e'', CHR ''l''], ''Namen'', ''Narbe'', ''Narwal'',
    [CHR ''N'', CHR ''a'', CHR ''s'', CHR ''e'', CHR ''n'', CHR ''b'', CHR 0xC3, CHR 0xA4, CHR ''r''], ''Natur'', ''Nebel'', ''necken'',
    ''Neffe'', ''Neigung'', ''Nektar'', ''Nenner'', ''Neptun'', ''Nerz'', ''Nessel'', ''Nestbau'', ''Netz'', ''Neubau'', ''Neuerung'',
    ''Neugier'', ''nicken'', ''Niere'', ''Nilpferd'', ''nisten'', ''Nocke'', ''Nomade'', ''Nordmeer'', ''Notdurft'', ''Notstand'',
    ''Notwehr'', ''Nudismus'', ''Nuss'', ''Nutzhanf'', ''Oase'', ''Obdach'', ''Oberarzt'', ''Objekt'', ''Oboe'', ''Obsthain'', ''Ochse'',
    ''Odyssee'', ''Ofenholz'', [CHR 0xC3, CHR 0xB6, CHR ''f'', CHR ''f'', CHR ''n'', CHR ''e'', CHR ''n''], ''Ohnmacht'', ''Ohrfeige'',
    ''Ohrwurm'', [CHR 0xC3, CHR 0x96, CHR ''k'', CHR ''o'', CHR ''l'', CHR ''o'', CHR ''g'', CHR ''i'', CHR ''e''], ''Oktave'',
    [CHR 0xC3, CHR 0x96, CHR ''l'', CHR ''b'', CHR ''e'', CHR ''r'', CHR ''g''], ''Olive'',
    [CHR 0xC3, CHR 0x96, CHR ''l'', CHR ''k'', CHR ''r'', CHR ''i'', CHR ''s'', CHR ''e''], ''Omelett'', ''Onkel'', ''Oper'', ''Optiker'',
    ''Orange'', ''Orchidee'', ''ordnen'', ''Orgasmus'', ''Orkan'', ''Ortskern'', ''Ortung'', ''Ostasien'', ''Ozean'', ''Paarlauf'',
    ''Packeis'', ''paddeln'', ''Paket'', ''Palast'',
    [CHR ''P'', CHR ''a'', CHR ''n'', CHR ''d'', CHR ''a'', CHR ''b'', CHR 0xC3, CHR 0xA4, CHR ''r''], ''Panik'', ''Panorama'', ''Panther'',
    ''Papagei'', ''Papier'', ''Paprika'', ''Paradies'', ''Parka'', ''Parodie'', ''Partner'', ''Passant'', ''Patent'', ''Patzer'', ''Pause'',
    ''Pavian'', ''Pedal'', ''Pegel'', ''peilen'', ''Perle'', ''Person'', ''Pfad'', ''Pfau'', ''Pferd'', ''Pfleger'', ''Physik'', ''Pier'',
    ''Pilotwal'', ''Pinzette'', ''Piste'', ''Plakat'', ''Plankton'', ''Platin'', ''Plombe'',
    [CHR ''p'', CHR ''l'', CHR 0xC3, CHR 0xBC, CHR ''n'', CHR ''d'', CHR ''e'', CHR ''r'', CHR ''n''], ''Pobacke'', ''Pokal'', ''polieren'',
    ''Popmusik'', [CHR ''P'', CHR ''o'', CHR ''r'', CHR ''t'', CHR ''r'', CHR 0xC3, CHR 0xA4, CHR ''t''], ''Posaune'', ''Postamt'',
    ''Pottwal'', ''Pracht'', ''Pranke'', ''Preis'', ''Primat'', ''Prinzip'', ''Protest'', ''Proviant'',
    [CHR ''P'', CHR ''r'', CHR 0xC3, CHR 0xBC, CHR ''f'', CHR ''u'', CHR ''n'', CHR ''g''],
    [CHR ''P'', CHR ''u'', CHR ''b'', CHR ''e'', CHR ''r'', CHR ''t'', CHR 0xC3, CHR 0xA4, CHR ''t''], ''Pudding'', ''Pullover'',
    ''Pulsader'', ''Punkt'', ''Pute'', ''Putsch'', ''Puzzle'', ''Python'', ''quaken'', ''Qualle'', ''Quark'', ''Quellsee'']"

definition german_words_5 :: "string list" where
  "german_words_5 = [
    ''Querkopf'', ''Quitte'', ''Quote'', ''Rabauke'', ''Rache'', ''Radclub'', ''Radhose'', ''Radio'', ''Radtour'', ''Rahmen'', ''Rampe'',
    ''Randlage'', ''Ranzen'', [CHR ''R'', CHR ''a'', CHR ''p'', CHR ''s'', CHR 0xC3, CHR 0xB6, CHR ''l''], ''Raserei'', ''rasten'',
    ''Rasur'', [CHR ''R'', CHR 0xC3, CHR 0xA4, CHR ''t'', CHR ''s'', CHR ''e'', CHR ''l''], ''Raubtier'', ''Raumzeit'', ''Rausch'',
    ''Reaktor'', [CHR ''R'', CHR ''e'', CHR ''a'', CHR ''l'', CHR ''i'', CHR ''t'', CHR 0xC3, CHR 0xA4, CHR ''t''], ''Rebell'', ''Rede'',
    ''Reetdach'', ''Regatta'', ''Regen'', ''Rehkitz'', ''Reifen'', ''Reim'', ''Reise'', ''Reizung'', ''Rekord'', ''Relevanz'', ''Rennboot'',
    ''Respekt'', [CHR ''R'', CHR ''e'', CHR ''s'', CHR ''t'', CHR ''m'', CHR 0xC3, CHR 0xBC, CHR ''l'', CHR ''l''], ''retten'', ''Reue'',
    ''Revolte'', ''Rhetorik'', ''Rhythmus'', ''Richtung'', ''Riegel'', ''Rindvieh'', ''Rippchen'', ''Ritter'', ''Robbe'', ''Roboter'',
    ''Rockband'', ''Rohdaten'', ''Roller'', ''Roman'',
    [CHR ''r'', CHR 0xC3, CHR 0xB6, CHR ''n'', CHR ''t'', CHR ''g'', CHR ''e'', CHR ''n''], ''Rose'', ''Rosskur'', ''Rost'', ''Rotahorn'',
    ''Rotglut'', ''Rotznase'', ''Rubrik'', [CHR ''R'', CHR 0xC3, CHR 0xBC, CHR ''c'', CHR ''k'', CHR ''w'', CHR ''e'', CHR ''g''],
    ''Rufmord'', ''Ruhe'', ''Ruine'', ''Rumpf'', ''Runde'',
    [CHR ''R'', CHR 0xC3, CHR 0xBC, CHR ''s'', CHR ''t'', CHR ''u'', CHR ''n'', CHR ''g''],
    [CHR ''r'', CHR 0xC3, CHR 0xBC, CHR ''t'', CHR ''t'', CHR ''e'', CHR ''l'', CHR ''n''],
    [CHR ''S'', CHR ''a'', CHR ''a'', CHR ''l'', CHR ''t'', CHR 0xC3, CHR 0xBC, CHR ''r''], ''Saatguts'',
    [CHR ''S'', CHR 0xC3, CHR 0xA4, CHR ''b'', CHR ''e'', CHR ''l''], ''Sachbuch'', ''Sack'', ''Saft'', ''sagen'', ''Sahneeis'', ''Salat'',
    ''Salbe'', ''Salz'', ''Sammlung'', ''Samt'', ''Sandbank'', ''Sanftmut'', ''Sardine'', ''Satire'', ''Sattel'', ''Satzbau'', ''Sauerei'',
    ''Saum'', [CHR ''S'', CHR 0xC3, CHR 0xA4, CHR ''u'', CHR ''r'', CHR ''e''], ''Schall'', ''Scheitel'', ''Schiff'', ''Schlager'',
    ''Schmied'', ''Schnee'', ''Scholle'', ''Schrank'', ''Schulbus'', ''Schwan'', ''Seeadler'', ''Seefahrt'', ''Seehund'', ''Seeufer'',
    ''segeln'', ''Sehnerv'', ''Seide'', ''Seilzug'', ''Senf'', ''Sessel'', ''Seufzer'', ''Sexgott'', ''Sichtung'', ''Signal'', ''Silber'',
    ''singen'', ''Sinn'', ''Sirup'', ''Sitzbank'', ''Skandal'', ''Skikurs'', ''Skipper'', ''Skizze'', ''Smaragd'', ''Socke'', ''Sohn'',
    ''Sommer'', ''Songtext'', ''Sorte'', ''Spagat'', ''Spannung'', ''Spargel'', ''Specht'',
    [CHR ''S'', CHR ''p'', CHR ''e'', CHR ''i'', CHR ''s'', CHR ''e'', CHR 0xC3, CHR 0xB6, CHR ''l''], ''Spiegel'', ''Sport'',
    [CHR ''s'', CHR ''p'', CHR 0xC3, CHR 0xBC, CHR ''l'', CHR ''e'', CHR ''n''], ''Stadtbus'', ''Stall'',
    [CHR ''S'', CHR ''t'', CHR 0xC3, CHR 0xA4, CHR ''r'', CHR ''k'', CHR ''e''], ''Stativ'', ''staunen'', ''Stern'', ''Stiftung'',
    ''Stollen'', [CHR ''S'', CHR ''t'', CHR ''r'', CHR 0xC3, CHR 0xB6, CHR ''m'', CHR ''u'', CHR ''n'', CHR ''g''], ''Sturm'', ''Substanz'',
    [CHR ''S'', CHR 0xC3, CHR 0xBC, CHR ''d'', CHR ''a'', CHR ''l'', CHR ''p'', CHR ''e'', CHR ''n''], ''Sumpf'', ''surfen'', ''Tabak'',
    ''Tafel'', ''Tagebau'', ''takeln'', ''Taktung'', ''Talsohle'', ''Tand'',
    [CHR ''T'', CHR ''a'', CHR ''n'', CHR ''z'', CHR ''b'', CHR 0xC3, CHR 0xA4, CHR ''r''], ''Tapir'', ''Tarantel'', ''Tarnname'', ''Tasse'',
    ''Tatnacht'', ''Tatsache'', ''Tatze'', ''Taube'', ''tauchen'', ''Taufpate'', ''Taumel'', ''Teelicht'', ''Teich'', ''teilen'', ''Tempo'',
    ''Tenor'', ''Terrasse'', ''Testflug'', ''Theater'', ''Thermik'', ''ticken'', ''Tiefflug'', ''Tierart'', ''Tigerhai'', ''Tinte'',
    ''Tischler'', ''toben'', ''Toleranz'', [CHR ''T'', CHR 0xC3, CHR 0xB6, CHR ''l'', CHR ''p'', CHR ''e'', CHR ''l''], ''Tonband'',
    ''Topf'', ''Topmodel'', ''Torbogen'', ''Torlinie'', ''Torte'', ''Tourist'', ''Tragesel'', ''trampeln'', ''Trapez'', ''Traum'',
    ''treffen'', ''Trennung'', ''Treue'', ''Trick'', ''trimmen'',
    [CHR ''T'', CHR ''r'', CHR 0xC3, CHR 0xB6, CHR ''d'', CHR ''e'', CHR ''l''], ''Trost'', ''Trumpf'',
    [CHR ''t'', CHR 0xC3, CHR 0xBC, CHR ''f'', CHR ''t'', CHR ''e'', CHR ''l'', CHR ''n''], ''Turban'', ''Turm'',
    [CHR 0xC3, CHR 0x9C, CHR ''b'', CHR ''e'', CHR ''r'', CHR ''m'', CHR ''u'', CHR ''t''], ''Ufer'', ''Uhrwerk'', ''umarmen'', ''Umbau'',
    ''Umfeld'', ''Umgang'', ''Umsturz'', ''Unart'', ''Unfug'', ''Unimog'', ''Unruhe'', ''Unwucht'', ''Uranerz'', ''Urlaub'', ''Urmensch'',
    ''Utopie'', ''Vakuum'', ''Valuta'', ''Vandale'', ''Vase'', ''Vektor'', ''Ventil'', ''Verb'', ''Verdeck'', ''Verfall'', ''Vergaser'',
    ''verhexen'', ''Verlag'', ''Vers'', ''Vesper'', ''Vieh'', ''Viereck'', ''Vinyl'', ''Virus'', ''Vitrine'', ''Vollblut'', ''Vorbote'',
    ''Vorrat'', ''Vorsicht'', ''Vulkan'', ''Wachstum'', ''Wade'', ''Wagemut'', ''Wahlen'', ''Wahrheit'', ''Wald'', ''Walhai'', ''Wallach'',
    ''Walnuss'', ''Walzer'', ''wandeln'', ''Wanze'', [CHR ''w'', CHR 0xC3, CHR 0xA4, CHR ''r'', CHR ''m'', CHR ''e'', CHR ''n''],
    ''Warnruf'', [CHR ''W'', CHR 0xC3, CHR 0xA4, CHR ''s'', CHR ''c'', CHR ''h'', CHR ''e''], ''Wasser'', ''Weberei'', ''wechseln'',
    ''Wegegeld'', ''wehren'', ''Weiher'', ''Weinglas'',
    [CHR ''W'', CHR ''e'', CHR ''i'', CHR 0xC3, CHR 0x9F, CHR ''b'', CHR ''i'', CHR ''e'', CHR ''r''], ''Weitwurf'', ''Welle'', ''Weltall'',
    ''Werkbank'', ''Werwolf'', ''Wetter'', ''wiehern'', ''Wildgans'', ''Wind'', ''Wohl'', ''Wohnort'', ''Wolf'', ''Wollust'', ''Wortlaut'',
    ''Wrack'', ''Wunder'', ''Wurfaxt'', ''Wurst'', ''Yacht'', ''Yeti'', ''Zacke'', ''Zahl'',
    [CHR ''z'', CHR 0xC3, CHR 0xA4, CHR ''h'', CHR ''m'', CHR ''e'', CHR ''n''], ''Zahnfee'',
    [CHR ''Z'', CHR 0xC3, CHR 0xA4, CHR ''p'', CHR ''f'', CHR ''c'', CHR ''h'', CHR ''e'', CHR ''n''], ''Zaster'', ''Zaumzeug'', ''Zebra'',
    ''zeigen'', ''Zeitlupe'', ''Zellkern'', ''Zeltdach'', ''Zensor'', ''Zerfall'', ''Zeug'', ''Ziege'', ''Zielfoto'', ''Zimteis'', ''Zobel'',
    ''Zollhund'', ''Zombie'', [CHR ''Z'', CHR 0xC3, CHR 0xB6, CHR ''p'', CHR ''f'', CHR ''e''], ''Zucht'', ''Zufahrt'', ''Zugfahrt'',
    ''Zugvogel'', [CHR ''Z'', CHR 0xC3, CHR 0xBC, CHR ''n'', CHR ''d'', CHR ''u'', CHR ''n'', CHR ''g''], ''Zweck'', ''Zyklop'']"

abbreviation german_words :: "string list" where
  "german_words \<equiv> german_words_1 @ german_words_2 @ german_words_3 @ german_words_4 @ german_words_5"

lemmas german_words_defs = german_words_1_def german_words_2_def german_words_3_def german_words_4_def german_words_5_def

definition German :: "Language option" where
  "German = populate_maps False False (Language_Base ''Deutsch'' ''German'' german_words 4)"

lemma german_1_ok: "part_ok False (Suc (Suc (Suc (Suc 0)))) 326 german_words_1"
  by (simp only: german_words_1_def part_eval)

lemma german_2_ok: "part_ok False (Suc (Suc (Suc (Suc 0)))) 325 german_words_2"
  by (simp only: german_words_2_def part_eval)

lemma german_3_ok: "part_ok False (Suc (Suc (Suc (Suc 0)))) 325 german_words_3"
  by (simp only: german_words_3_def part_eval)

lemma german_4_ok: "part_ok False (Suc (Suc (Suc (Suc 0)))) 325 german_words_4"
  by (simp only: german_words_4_def part_eval)

lemma german_5_ok: "part_ok False (Suc (Suc (Suc (Suc 0)))) 325 german_words_5"
  by (simp only: german_words_5_def part_eval)

lemma german_ok: "part_ok False (Suc (Suc (Suc (Suc 0)))) 1626 german_words"
  using part_ok_append [OF german_1_ok part_ok_append [OF german_2_ok part_ok_append [OF german_3_ok part_ok_append [OF german_4_ok german_5_ok]]]]
  by simp

lemma german_codes: "radix (Suc (Suc (Suc (Suc (Suc (Suc (Suc (Suc (Suc (Suc (Suc (Suc (Suc (Suc (Suc (Suc (Suc (Suc (Suc (Suc (Suc (Suc (Suc (Suc (Suc (Suc (Suc (Suc (Suc (Suc (Suc 0))))))))))))))))))))))))))))))) (codes (Suc (Suc (Suc (Suc 0)))) german_words)"
  unfolding codes_append by (simp only: german_words_defs code_eval)

lemma german_constructed: "constructed False German ''Deutsch'' ''German'' german_words"
  unfolding German_def by (rule constructor_returns [OF _ german_codes]) (simp_all only: if_True if_False german_ok, simp)

interpretation german: seed_language "the German"
  by (rule constructed_language [OF german_constructed])

section \<open>Lojban\<close>

definition lojban_words_1 :: "string list" where
  "lojban_words_1 = [
    ''backi'', ''bacru'', ''badna'', ''badri'', ''bajra'', ''bakfu'', ''bakni'', ''bakri'', ''baktu'', ''balji'', ''balni'', ''balre'',
    ''balvi'', ''bambu'', ''bancu'', ''bandu'', ''banfi'', ''bangu'', ''banli'', ''banro'', ''banxa'', ''banzu'', ''bapli'', ''barda'',
    ''bargu'', ''barja'', ''barna'', ''bartu'', ''basfa'', ''basna'', ''basti'', ''batci'', ''batke'', ''bavmi'', ''baxso'', ''bebna'',
    ''bekpi'', ''bemro'', ''bende'', ''bengo'', ''benji'', ''benre'', ''benzo'', ''bergu'', ''bersa'', ''berti'', ''besna'', ''besto'',
    ''betfu'', ''betri'', ''bevri'', ''bidju'', ''bifce'', ''bikla'', ''bilga'', ''bilma'', ''bilni'', ''bindo'', ''binra'', ''binxo'',
    ''birje'', ''birka'', ''birti'', ''bisli'', ''bitmu'', ''bitni'', ''blabi'', ''blaci'', ''blanu'', ''bliku'', ''bloti'', ''bolci'',
    ''bongu'', ''boske'', ''botpi'', ''boxfo'', ''boxna'', ''bradi'', ''brano'', ''bratu'', ''brazo'', ''bredi'', ''bridi'', ''brife'',
    ''briju'', ''brito'', ''brivo'', ''broda'', ''bruna'', ''budjo'', ''bukpu'', ''bumru'', ''bunda'', ''bunre'', ''burcu'', ''burna'',
    ''cabna'', ''cabra'', ''cacra'', ''cadga'', ''cadzu'', ''cafne'', ''cagna'', ''cakla'', ''calku'', ''calse'', ''canci'', ''cando'',
    ''cange'', ''canja'', ''canko'', ''canlu'', ''canpa'', ''canre'', ''canti'', ''carce'', ''carfu'', ''carmi'', ''carna'', ''cartu'',
    ''carvi'', ''casnu'', ''catke'', ''catlu'', ''catni'', ''catra'', ''caxno'', ''cecla'', ''cecmu'', ''cedra'', ''cenba'', ''censa'',
    ''centi'', ''cerda'', ''cerni'', ''certu'', ''cevni'', ''cfale'', ''cfari'', ''cfika'', ''cfila'', ''cfine'', ''cfipu'', ''ciblu'',
    ''cicna'', ''cidja'', ''cidni'', ''cidro'', ''cifnu'', ''cigla'', ''cikna'', ''cikre'', ''ciksi'', ''cilce'', ''cilfu'', ''cilmo'',
    ''cilre'', ''cilta'', ''cimde'', ''cimni'', ''cinba'', ''cindu'', ''cinfo'', ''cinje'', ''cinki'', ''cinla'', ''cinmo'', ''cinri'',
    ''cinse'', ''cinta'', ''cinza'', ''cipni'', ''cipra'', ''cirko'', ''cirla'', ''ciska'', ''cisma'', ''cisni'', ''ciste'', ''citka'',
    ''citno'', ''citri'', ''citsi'', ''civla'', ''cizra'', ''ckabu'', ''ckafi'', ''ckaji'', ''ckana'', ''ckape'', ''ckasu'', ''ckeji'',
    ''ckiku'', ''ckilu'', ''ckini'', ''ckire'', ''ckule'', ''ckunu'', ''cladu'', ''clani'', ''claxu'', ''cletu'', ''clika'', ''clinu'',
    ''clira'', ''clite'', ''cliva'', ''clupa'', ''cmaci'', ''cmalu'', ''cmana'', ''cmavo'', ''cmene'', ''cmeta'', ''cmevo'', ''cmila'',
    ''cmima'', ''cmoni'', ''cnano'', ''cnebo'', ''cnemu'', ''cnici'', ''cnino'', ''cnisa'', ''cnita'', ''cokcu'', ''condi'', ''conka'',
    ''corci'', ''cortu'', ''cpacu'', ''cpana'', ''cpare'', ''cpedu'', ''cpina'', ''cradi'', ''crane'', ''creka'', ''crepu'', ''cribe'',
    ''crida'', ''crino'', ''cripu'', ''crisa'', ''critu'', ''ctaru'', ''ctebi'', ''cteki'', ''ctile'', ''ctino'', ''ctuca'', ''cukla'',
    ''cukre'', ''cukta'', ''culno'', ''cumki'', ''cumla'', ''cunmi'', ''cunso'', ''cuntu'', ''cupra'', ''curmi'', ''curnu'', ''curve'',
    ''cusku'', ''cusna'', ''cutci'', ''cutne'', ''cuxna'', ''dacru'', ''dacti'', ''dadjo'', ''dakfu'', ''dakli'', ''damba'', ''damri'',
    ''dandu'', ''danfu'', ''danlu'', ''danmo'', ''danre'', ''dansu'', ''danti'', ''daplu'', ''dapma'', ''darca'', ''dargu'', ''darlu'',
    ''darno'', ''darsi'', ''darxi'', ''daski'', ''dasni'', ''daspo'', ''dasri'', ''datka'', ''datni'', ''datro'', ''decti'', ''degji'',
    ''dejni'', ''dekpu'', ''dekto'', ''delno'', ''dembi'', ''denci'', ''denmi'', ''denpa'', ''dertu'', ''derxi'', ''desku'', ''detri'',
    ''dicma'', ''dicra'', ''didni'', ''digno'', ''dikca'', ''diklo'', ''dikni'', ''dilcu'', ''dilma'', ''dilnu'', ''dimna'', ''dindi'',
    ''dinju'', ''dinko'']"

definition lojban_words_2 :: "string list" where
  "lojban_words_2 = [
    ''dinso'', ''dirba'', ''dirce'', ''dirgo'', ''disko'', ''ditcu'', ''divzi'', ''dizlo'', ''djacu'', ''djedi'', ''djica'', ''djine'',
    ''djuno'', ''donri'', ''dotco'', ''draci'', ''drani'', ''drata'', ''drudi'', ''dugri'', ''dukse'', ''dukti'', ''dunda'', ''dunja'',
    ''dunku'', ''dunli'', ''dunra'', ''dutso'', ''dzena'', ''dzipo'', ''facki'', ''fadni'', ''fagri'', ''falnu'', ''famti'', ''fancu'',
    ''fange'', ''fanmo'', ''fanri'', ''fanta'', ''fanva'', ''fanza'', ''fapro'', ''farka'', ''farlu'', ''farna'', ''farvi'', ''fasnu'',
    ''fatci'', ''fatne'', ''fatri'', ''febvi'', ''fegli'', ''femti'', ''fendi'', ''fengu'', ''fenki'', ''fenra'', ''fenso'', ''fepni'',
    ''fepri'', ''ferti'', ''festi'', ''fetsi'', ''figre'', ''filso'', ''finpe'', ''finti'', ''firca'', ''fisli'', ''fizbu'', ''flaci'',
    ''flalu'', ''flani'', ''flecu'', ''flese'', ''fliba'', ''flira'', ''foldi'', ''fonmo'', ''fonxa'', ''forca'', ''forse'', ''fraso'',
    ''frati'', ''fraxu'', ''frica'', ''friko'', ''frili'', ''frinu'', ''friti'', ''frumu'', ''fukpi'', ''fulta'', ''funca'', ''fusra'',
    ''fuzme'', ''gacri'', ''gadri'', ''galfi'', ''galtu'', ''galxe'', ''ganlo'', ''ganra'', ''ganse'', ''ganti'', ''ganxo'', ''ganzu'',
    ''gapci'', ''gapru'', ''garna'', ''gasnu'', ''gaspo'', ''gasta'', ''genja'', ''gento'', ''genxu'', ''gerku'', ''gerna'', ''gidva'',
    ''gigdo'', ''ginka'', ''girzu'', ''gismu'', ''glare'', ''gleki'', ''gletu'', ''glico'', ''glife'', ''glosa'', ''gluta'', ''gocti'',
    ''gomsi'', ''gotro'', ''gradu'', ''grafu'', ''grake'', ''grana'', ''grasu'', ''grava'', ''greku'', ''grusi'', ''grute'', ''gubni'',
    ''gugde'', ''gugle'', ''gumri'', ''gundi'', ''gunka'', ''gunma'', ''gunro'', ''gunse'', ''gunta'', ''gurni'', ''guska'', ''gusni'',
    ''gusta'', ''gutci'', ''gutra'', ''guzme'', ''jabre'', ''jadni'', ''jakne'', ''jalge'', ''jalna'', ''jalra'', ''jamfu'', ''jamna'',
    ''janbe'', ''janco'', ''janli'', ''jansu'', ''janta'', ''jarbu'', ''jarco'', ''jarki'', ''jaspu'', ''jatna'', ''javni'', ''jbama'',
    ''jbari'', ''jbena'', ''jbera'', ''jbini'', ''jdari'', ''jdice'', ''jdika'', ''jdima'', ''jdini'', ''jduli'', ''jecta'', ''jeftu'',
    ''jegvo'', ''jelca'', ''jemna'', ''jenca'', ''jendu'', ''jenmi'', ''jensi'', ''jerna'', ''jersi'', ''jerxo'', ''jesni'', ''jetce'',
    ''jetnu'', ''jgalu'', ''jganu'', ''jgari'', ''jgena'', ''jgina'', ''jgira'', ''jgita'', ''jibni'', ''jibri'', ''jicla'', ''jicmu'',
    ''jijnu'', ''jikca'', ''jikfi'', ''jikni'', ''jikru'', ''jilka'', ''jilra'', ''jimca'', ''jimpe'', ''jimte'', ''jinci'', ''jinda'',
    ''jinga'', ''jinku'', ''jinme'', ''jinru'', ''jinsa'', ''jinto'', ''jinvi'', ''jinzi'', ''jipci'', ''jipno'', ''jirna'', ''jisra'',
    ''jitfa'', ''jitro'', ''jivbu'', ''jivna'', ''jmaji'', ''jmifa'', ''jmina'', ''jmive'', ''jonse'', ''jordo'', ''jorne'', ''jubme'',
    ''judri'', ''jufra'', ''jukni'', ''jukpa'', ''julne'', ''julro'', ''jundi'', ''jungo'', ''junla'', ''junri'', ''junta'', ''jurme'',
    ''jursa'', ''jutsi'', ''juxre'', ''jvinu'', ''jviso'', ''kabri'', ''kacma'', ''kadno'', ''kafke'', ''kagni'', ''kajde'', ''kajna'',
    ''kakne'', ''kakpa'', ''kalci'', ''kalri'', ''kalsa'', ''kalte'', ''kamju'', ''kamni'', ''kampu'', ''kamre'', ''kanba'', ''kancu'',
    ''kandi'', ''kanji'', ''kanla'', ''kanpe'', ''kanro'', ''kansa'', ''kantu'', ''kanxe'', ''karbi'', ''karce'', ''karda'', ''kargu'',
    ''karli'', ''karni'', ''katci'', ''katna'', ''kavbu'', ''kazra'', ''kecti'', ''kekli'', ''kelci'', ''kelvo'', ''kenka'', ''kenra'',
    ''kensa'', ''kerfa'', ''kerlo'', ''kesri'', ''ketco'', ''ketsu'', ''kevna'', ''kibro'', ''kicne'', ''kijno'', ''kilto'', ''kinda'',
    ''kinli'']"

definition lojban_words_3 :: "string list" where
  "lojban_words_3 = [
    ''kisto'', ''klaji'', ''klaku'', ''klama'', ''klani'', ''klesi'', ''kliki'', ''klina'', ''kliru'', ''kliti'', ''klupe'', ''kluza'',
    ''kobli'', ''kogno'', ''kojna'', ''kokso'', ''kolme'', ''komcu'', ''konju'', ''korbi'', ''korcu'', ''korka'', ''korvo'', ''kosmu'',
    ''kosta'', ''krali'', ''kramu'', ''krasi'', ''krati'', ''krefu'', ''krici'', ''krili'', ''krinu'', ''krixa'', ''kruca'', ''kruji'',
    ''kruvi'', ''kubli'', ''kucli'', ''kufra'', ''kukte'', ''kulnu'', ''kumfa'', ''kumte'', ''kunra'', ''kunti'', ''kurfa'', ''kurji'',
    ''kurki'', ''kuspe'', ''kusru'', ''labno'', ''lacni'', ''lacpu'', ''lacri'', ''ladru'', ''lafti'', ''lakne'', ''lakse'', ''laldo'',
    ''lalxu'', ''lamji'', ''lanbi'', ''lanci'', ''landa'', ''lanka'', ''lanli'', ''lanme'', ''lante'', ''lanxe'', ''lanzu'', ''larcu'',
    ''larva'', ''lasna'', ''lastu'', ''latmo'', ''latna'', ''lazni'', ''lebna'', ''lelxe'', ''lenga'', ''lenjo'', ''lenku'', ''lerci'',
    ''lerfu'', ''libjo'', ''lidne'', ''lifri'', ''lijda'', ''limfa'', ''limna'', ''lince'', ''lindi'', ''linga'', ''linji'', ''linsi'',
    ''linto'', ''lisri'', ''liste'', ''litce'', ''litki'', ''litru'', ''livga'', ''livla'', ''logji'', ''loglo'', ''lojbo'', ''loldi'',
    ''lorxu'', ''lubno'', ''lujvo'', ''luksi'', ''lumci'', ''lunbe'', ''lunra'', ''lunsa'', ''luska'', ''lusto'', ''mabla'', ''mabru'',
    ''macnu'', ''majga'', ''makcu'', ''makfa'', ''maksi'', ''malsi'', ''mamta'', ''manci'', ''manfo'', ''mango'', ''manku'', ''manri'',
    ''mansa'', ''manti'', ''mapku'', ''mapni'', ''mapra'', ''mapti'', ''marbi'', ''marce'', ''marde'', ''margu'', ''marji'', ''marna'',
    ''marxa'', ''masno'', ''masti'', ''matci'', ''matli'', ''matne'', ''matra'', ''mavji'', ''maxri'', ''mebri'', ''megdo'', ''mekso'',
    ''melbi'', ''meljo'', ''melmi'', ''menli'', ''menre'', ''mensi'', ''mentu'', ''merko'', ''merli'', ''metfo'', ''mexno'', ''midju'',
    ''mifra'', ''mikce'', ''mikri'', ''milti'', ''milxe'', ''minde'', ''minji'', ''minli'', ''minra'', ''mintu'', ''mipri'', ''mirli'',
    ''misno'', ''misro'', ''mitre'', ''mixre'', ''mlana'', ''mlatu'', ''mleca'', ''mledi'', ''mluni'', ''mogle'', ''mokca'', ''moklu'',
    ''molki'', ''molro'', ''morji'', ''morko'', ''morna'', ''morsi'', ''mosra'', ''mraji'', ''mrilu'', ''mruli'', ''mucti'', ''mudri'',
    ''mugle'', ''mukti'', ''mulno'', ''munje'', ''mupli'', ''murse'', ''murta'', ''muslo'', ''mutce'', ''muvdu'', ''muzga'', ''nabmi'',
    ''nakni'', ''nalci'', ''namcu'', ''nanba'', ''nanca'', ''nandu'', ''nanla'', ''nanmu'', ''nanvi'', ''narge'', ''narju'', ''natfe'',
    ''natmi'', ''natsi'', ''navni'', ''naxle'', ''nazbi'', ''nejni'', ''nelci'', ''nenri'', ''nerde'', ''nibli'', ''nicfa'', ''nicte'',
    ''nikle'', ''nilce'', ''nimre'', ''ninja'', ''ninmu'', ''nirna'', ''nitcu'', ''nivji'', ''nixli'', ''nobli'', ''norgo'', ''notci'',
    ''nudle'', ''nukni'', ''nunmu'', ''nupre'', ''nurma'', ''nusna'', ''nutka'', ''nutli'', ''nuzba'', ''nuzlo'', ''pacna'', ''pagbu'',
    ''pagre'', ''pajni'', ''palci'', ''palku'', ''palma'', ''palne'', ''palpi'', ''palta'', ''pambe'', ''pamga'', ''panci'', ''pandi'',
    ''panje'', ''panka'', ''panlo'', ''panpi'', ''panra'', ''pante'', ''panzi'', ''papri'', ''parbi'', ''pardu'', ''parji'', ''pastu'',
    ''patfu'', ''patlu'', ''patxu'', ''paznu'', ''pelji'', ''pelxu'', ''pemci'', ''penbi'', ''pencu'', ''pendo'', ''penmi'', ''pensi'',
    ''pentu'', ''perli'', ''pesxu'', ''petso'', ''pevna'', ''pezli'', ''picti'', ''pijne'', ''pikci'', ''pikta'', ''pilda'', ''pilji'',
    ''pilka'', ''pilno'', ''pimlu'', ''pinca'', ''pindi'', ''pinfu'', ''pinji'', ''pinka'', ''pinsi'', ''pinta'', ''pinxe'', ''pipno'',
    ''pixra'']"

definition lojban_words_4 :: "string list" where
  "lojban_words_4 = [
    ''plana'', ''platu'', ''pleji'', ''plibu'', ''plini'', ''plipe'', ''plise'', ''plita'', ''plixa'', ''pluja'', ''pluka'', ''pluta'',
    ''pocli'', ''polje'', ''polno'', ''ponjo'', ''ponse'', ''poplu'', ''porpi'', ''porsi'', ''porto'', ''prali'', ''prami'', ''prane'',
    ''preja'', ''prenu'', ''preri'', ''preti'', ''prije'', ''prina'', ''pritu'', ''proga'', ''prosa'', ''pruce'', ''pruni'', ''pruri'',
    ''pruxi'', ''pulce'', ''pulji'', ''pulni'', ''punji'', ''punli'', ''pupsu'', ''purci'', ''purdi'', ''purmo'', ''racli'', ''ractu'',
    ''radno'', ''rafsi'', ''ragbi'', ''ragve'', ''rakle'', ''rakso'', ''raktu'', ''ralci'', ''ralju'', ''ralte'', ''randa'', ''rango'',
    ''ranji'', ''ranmi'', ''ransu'', ''ranti'', ''ranxi'', ''rapli'', ''rarna'', ''ratcu'', ''ratni'', ''rebla'', ''rectu'', ''rekto'',
    ''remna'', ''renro'', ''renvi'', ''respa'', ''rexsa'', ''ricfu'', ''rigni'', ''rijno'', ''rilti'', ''rimni'', ''rinci'', ''rindo'',
    ''rinju'', ''rinka'', ''rinsa'', ''rirci'', ''rirni'', ''rirxe'', ''rismi'', ''risna'', ''ritli'', ''rivbi'', ''rokci'', ''romge'',
    ''romlo'', ''ronte'', ''ropno'', ''rorci'', ''rotsu'', ''rozgu'', ''ruble'', ''rufsu'', ''runme'', ''runta'', ''rupnu'', ''rusko'',
    ''rutni'', ''sabji'', ''sabnu'', ''sacki'', ''saclu'', ''sadjo'', ''sakci'', ''sakli'', ''sakta'', ''salci'', ''salpo'', ''salri'',
    ''salta'', ''samcu'', ''sampu'', ''sanbu'', ''sance'', ''sanga'', ''sanji'', ''sanli'', ''sanmi'', ''sanso'', ''santa'', ''sarcu'',
    ''sarji'', ''sarlu'', ''sarni'', ''sarxe'', ''saske'', ''satci'', ''satre'', ''savru'', ''sazri'', ''sefsi'', ''sefta'', ''sekre'',
    ''selci'', ''selfu'', ''semto'', ''senci'', ''sengi'', ''senpi'', ''senta'', ''senva'', ''sepli'', ''serti'', ''sesre'', ''setca'',
    ''sevzi'', ''sfani'', ''sfasa'', ''sfofa'', ''sfubu'', ''sibli'', ''siclu'', ''sicni'', ''sicpi'', ''sidbo'', ''sidju'', ''sigja'',
    ''sigma'', ''sikta'', ''silka'', ''silna'', ''simlu'', ''simsa'', ''simxu'', ''since'', ''sinma'', ''sinso'', ''sinxa'', ''sipna'',
    ''sirji'', ''sirxo'', ''sisku'', ''sisti'', ''sitna'', ''sivni'', ''skaci'', ''skami'', ''skapi'', ''skari'', ''skicu'', ''skiji'',
    ''skina'', ''skori'', ''skoto'', ''skuba'', ''skuro'', ''slabu'', ''slaka'', ''slami'', ''slanu'', ''slari'', ''slasi'', ''sligu'',
    ''slilu'', ''sliri'', ''slovo'', ''sluji'', ''sluni'', ''smacu'', ''smadi'', ''smaji'', ''smaka'', ''smani'', ''smela'', ''smoka'',
    ''smuci'', ''smuni'', ''smusu'', ''snada'', ''snanu'', ''snidu'', ''snime'', ''snipa'', ''snuji'', ''snura'', ''snuti'', ''sobde'',
    ''sodna'', ''sodva'', ''softo'', ''solji'', ''solri'', ''sombo'', ''sonci'', ''sorcu'', ''sorgu'', ''sorni'', ''sorta'', ''sovda'',
    ''spaji'', ''spali'', ''spano'', ''spati'', ''speni'', ''spero'', ''spisa'', ''spita'', ''spofu'', ''spoja'', ''spuda'', ''sputu'',
    ''sraji'', ''sraku'', ''sralo'', ''srana'', ''srasu'', ''srera'', ''srito'', ''sruma'', ''sruri'', ''stace'', ''stagi'', ''staku'',
    ''stali'', ''stani'', ''stapa'', ''stasu'', ''stati'', ''steba'', ''steci'', ''stedu'', ''stela'', ''stero'', ''stici'', ''stidi'',
    ''stika'', ''stizu'', ''stodi'', ''stuna'', ''stura'', ''stuzi'', ''sucta'', ''sudga'', ''sufti'', ''suksa'', ''sumji'', ''sumne'',
    ''sumti'', ''sunga'', ''sunla'', ''surla'', ''sutra'', ''tabno'', ''tabra'', ''tadji'', ''tadni'', ''tagji'', ''taksi'', ''talsa'',
    ''tamca'', ''tamji'', ''tamne'', ''tanbo'', ''tance'', ''tanjo'', ''tanko'', ''tanru'', ''tansi'', ''tanxe'', ''tapla'', ''tarbi'',
    ''tarci'', ''tarla'', ''tarmi'', ''tarti'', ''taske'', ''tasmi'', ''tasta'', ''tatpi'', ''tatru'', ''tavla'', ''taxfu'', ''tcaci'',
    ''tcadu'']"

definition lojban_words_5 :: "string list" where
  "lojban_words_5 = [
    ''tcana'', ''tcati'', ''tcaxe'', ''tcena'', ''tcese'', ''tcica'', ''tcidu'', ''tcika'', ''tcila'', ''tcima'', ''tcini'', ''tcita'',
    ''temci'', ''temse'', ''tende'', ''tenfa'', ''tengu'', ''terdi'', ''terpa'', ''terto'', ''tifri'', ''tigni'', ''tigra'', ''tikpa'',
    ''tilju'', ''tinbe'', ''tinci'', ''tinsa'', ''tirna'', ''tirse'', ''tirxu'', ''tisna'', ''titla'', ''tivni'', ''tixnu'', ''toknu'',
    ''toldi'', ''tonga'', ''tordu'', ''torni'', ''torso'', ''traji'', ''trano'', ''trati'', ''trene'', ''tricu'', ''trina'', ''trixe'',
    ''troci'', ''tsaba'', ''tsali'', ''tsani'', ''tsapi'', ''tsiju'', ''tsina'', ''tsuku'', ''tubnu'', ''tubra'', ''tugni'', ''tujli'',
    ''tumla'', ''tunba'', ''tunka'', ''tunlo'', ''tunta'', ''tuple'', ''turko'', ''turni'', ''tutci'', ''tutle'', ''tutra'', ''vacri'',
    ''vajni'', ''valsi'', ''vamji'', ''vamtu'', ''vanbi'', ''vanci'', ''vanju'', ''vasru'', ''vasxu'', ''vecnu'', ''vedli'', ''venfu'',
    ''vensa'', ''vente'', ''vepre'', ''verba'', ''vibna'', ''vidni'', ''vidru'', ''vifne'', ''vikmi'', ''viknu'', ''vimcu'', ''vindu'',
    ''vinji'', ''vinta'', ''vipsi'', ''virnu'', ''viska'', ''vitci'', ''vitke'', ''vitno'', ''vlagi'', ''vlile'', ''vlina'', ''vlipa'',
    ''vofli'', ''voksa'', ''volve'', ''vorme'', ''vraga'', ''vreji'', ''vreta'', ''vrici'', ''vrude'', ''vrusi'', ''vubla'', ''vujnu'',
    ''vukna'', ''vukro'', ''xabju'', ''xadba'', ''xadji'', ''xadni'', ''xagji'', ''xagri'', ''xajmi'', ''xaksu'', ''xalbo'', ''xalka'',
    ''xalni'', ''xamgu'', ''xampo'', ''xamsi'', ''xance'', ''xango'', ''xanka'', ''xanri'', ''xansa'', ''xanto'', ''xarci'', ''xarju'',
    ''xarnu'', ''xasli'', ''xasne'', ''xatra'', ''xatsi'', ''xazdo'', ''xebni'', ''xebro'', ''xecto'', ''xedja'', ''xekri'', ''xelso'',
    ''xendo'', ''xenru'', ''xexso'', ''xigzo'', ''xindo'', ''xinmo'', ''xirma'', ''xislu'', ''xispo'', ''xlali'', ''xlura'', ''xorbo'',
    ''xorlo'', ''xotli'', ''xrabo'', ''xrani'', ''xriso'', ''xrotu'', ''xruba'', ''xruki'', ''xrula'', ''xruti'', ''xukmi'', ''xulta'',
    ''xunre'', ''xurdo'', ''xusra'', ''xutla'', ''zabna'', ''zajba'', ''zalvi'', ''zanru'', ''zarci'', ''zargu'', ''zasni'', ''zasti'',
    ''zbabu'', ''zbani'', ''zbasu'', ''zbepi'', ''zdani'', ''zdile'', ''zekri'', ''zenba'', ''zepti'', ''zetro'', ''zevla'', ''zgadi'',
    ''zgana'', ''zgike'', ''zifre'', ''zinki'', ''zirpu'', ''zivle'', ''zmadu'', ''zmiku'', ''zucna'', ''zukte'', ''zumri'', ''zungi'',
    ''zunle'', ''zunti'', ''zutse'', ''zvati'', ''zviki'', ''jbobau'', ''jbopre'', ''karsna'', ''cabdei'', ''zunsna'', ''gendra'',
    ''glibau'', ''nintadni'', ''pavyseljirna'', ''vlaste'', ''selbri'',
    [CHR ''l'', CHR ''a'', CHR ''t'', CHR ''r'', CHR ''o'', CHR 0x27, CHR ''a''],
    [CHR ''z'', CHR ''d'', CHR ''a'', CHR ''k'', CHR ''e'', CHR ''m'', CHR ''k'', CHR ''u'', CHR ''l'', CHR ''g'', CHR ''u'', CHR 0x27, CHR ''a''],
    ''mriste'', ''selsku'', [CHR ''f'', CHR ''u'', CHR 0x27, CHR ''i'', CHR ''v'', CHR ''l'', CHR ''a''],
    [CHR ''t'', CHR ''o'', CHR ''l'', CHR ''m'', CHR ''o'', CHR 0x27, CHR ''i''], ''snavei'', ''xagmau'', ''retsku'', ''ckupau'', ''skudji'',
    ''smudra'', ''prulamdei'', [CHR ''v'', CHR ''o'', CHR ''k'', CHR ''t'', CHR ''a'', CHR 0x27, CHR ''a''],
    [CHR ''t'', CHR ''i'', CHR ''n'', CHR ''j'', CHR ''u'', CHR 0x27, CHR ''i''],
    [CHR ''j'', CHR ''e'', CHR ''f'', CHR ''y'', CHR ''f'', CHR ''a'', CHR 0x27, CHR ''o''], ''bavlamdei'', ''kinzga'', ''jbocre'',
    ''jbovla'', ''xauzma'', ''selkei'', ''xuncku'', ''spusku'', [CHR ''j'', CHR ''b'', CHR ''o'', CHR ''g'', CHR ''u'', CHR 0x27, CHR ''e''],
    [CHR ''p'', CHR ''a'', CHR ''m'', CHR ''p'', CHR ''e'', CHR 0x27, CHR ''o''], ''bripre'', ''jbosnu'',
    [CHR ''z'', CHR ''i'', CHR 0x27, CHR ''e'', CHR ''v'', CHR ''l'', CHR ''a''], ''gimste'', ''tolzdi'', ''velski'', ''samselpla'',
    ''cnegau'', ''velcki'', [CHR ''s'', CHR ''e'', CHR ''l'', CHR ''j'', CHR ''a'', CHR 0x27, CHR ''e''], ''fasybau'', ''zanfri'',
    ''reisku'', ''favgau'', [CHR ''j'', CHR ''b'', CHR ''o'', CHR ''t'', CHR ''a'', CHR 0x27, CHR ''a''], ''rejgau'', ''malgli'', ''zilkai'',
    ''keidji'', [CHR ''t'', CHR ''e'', CHR ''r'', CHR ''s'', CHR ''u'', CHR 0x27, CHR ''i''],
    [CHR ''j'', CHR ''b'', CHR ''o'', CHR ''f'', CHR ''i'', CHR 0x27, CHR ''e''],
    [CHR ''c'', CHR ''n'', CHR ''i'', CHR ''m'', CHR ''a'', CHR 0x27, CHR ''o''], ''mulgau'', ''ningau'', ''ponbau'',
    [CHR ''m'', CHR ''r'', CHR ''o'', CHR ''b'', CHR ''i'', CHR 0x27, CHR ''o''], ''rarbau'', ''zmanei'',
    [CHR ''f'', CHR ''a'', CHR ''m'', CHR ''y'', CHR ''m'', CHR ''a'', CHR 0x27, CHR ''o''], ''vacysai'', ''jetmlu'', ''jbonunsla'',
    [CHR ''n'', CHR ''u'', CHR ''n'', CHR ''p'', CHR ''e'', CHR 0x27, CHR ''i''],
    [CHR ''f'', CHR ''a'', CHR 0x27, CHR ''o'', CHR ''r'', CHR ''m'', CHR ''a'', CHR 0x27, CHR ''o''],
    [CHR ''c'', CHR ''r'', CHR ''e'', CHR ''z'', CHR ''e'', CHR ''n'', CHR ''z'', CHR ''u'', CHR 0x27, CHR ''e''], ''jbojbe'',
    [CHR ''c'', CHR ''m'', CHR ''i'', CHR ''c'', CHR ''u'', CHR 0x27, CHR ''a''], ''zilcmi'', ''tolcando'', ''zukcfu'',
    [CHR ''d'', CHR ''e'', CHR ''p'', CHR ''y'', CHR ''b'', CHR ''u'', CHR 0x27, CHR ''i''], ''mencre'', ''matmau'', ''nunctu'',
    [CHR ''s'', CHR ''e'', CHR ''l'', CHR ''m'', CHR ''a'', CHR 0x27, CHR ''o''], ''titnanba'', ''naldra'', ''jvajvo'', ''nunsnu'',
    ''nerkla'', ''cimjvo'', ''muvgau'', ''zipcpi'', ''runbau'', ''faumlu'', ''terbri'',
    [CHR ''b'', CHR ''a'', CHR ''l'', CHR ''c'', CHR ''u'', CHR 0x27, CHR ''e''], ''dragau'', ''smuvelcki'', ''piksku'', ''selpli'',
    ''bregau'', [CHR ''z'', CHR ''v'', CHR ''a'', CHR ''f'', CHR ''a'', CHR 0x27, CHR ''i''],
    [CHR ''c'', CHR ''i'', CHR 0x27, CHR ''i'', CHR ''z'', CHR ''r'', CHR ''a''],
    [CHR ''n'', CHR ''o'', CHR ''l'', CHR ''t'', CHR ''r'', CHR ''u'', CHR ''t'', CHR ''i'', CHR 0x27, CHR ''u''], ''samtci'',
    [CHR ''s'', CHR ''n'', CHR ''a'', CHR ''x'', CHR ''a'', CHR 0x27, CHR ''a'']]"

abbreviation lojban_words :: "string list" where
  "lojban_words \<equiv> lojban_words_1 @ lojban_words_2 @ lojban_words_3 @ lojban_words_4 @ lojban_words_5"

lemmas lojban_words_defs = lojban_words_1_def lojban_words_2_def lojban_words_3_def lojban_words_4_def lojban_words_5_def

definition Lojban :: "Language option" where
  "Lojban = populate_maps False False (Language_Base ''Lojban'' ''Lojban'' lojban_words 4)"

lemma lojban_1_ok: "part_ok False (Suc (Suc (Suc (Suc 0)))) 326 lojban_words_1"
  by (simp only: lojban_words_1_def part_eval)

lemma lojban_2_ok: "part_ok False (Suc (Suc (Suc (Suc 0)))) 325 lojban_words_2"
  by (simp only: lojban_words_2_def part_eval)

lemma lojban_3_ok: "part_ok False (Suc (Suc (Suc (Suc 0)))) 325 lojban_words_3"
  by (simp only: lojban_words_3_def part_eval)

lemma lojban_4_ok: "part_ok False (Suc (Suc (Suc (Suc 0)))) 325 lojban_words_4"
  by (simp only: lojban_words_4_def part_eval)

lemma lojban_5_ok: "part_ok False (Suc (Suc (Suc (Suc 0)))) 325 lojban_words_5"
  by (simp only: lojban_words_5_def part_eval)

lemma lojban_ok: "part_ok False (Suc (Suc (Suc (Suc 0)))) 1626 lojban_words"
  using part_ok_append [OF lojban_1_ok part_ok_append [OF lojban_2_ok part_ok_append [OF lojban_3_ok part_ok_append [OF lojban_4_ok lojban_5_ok]]]]
  by simp

lemma lojban_codes: "radix (Suc (Suc (Suc (Suc (Suc (Suc (Suc (Suc (Suc (Suc (Suc (Suc (Suc (Suc (Suc (Suc (Suc (Suc (Suc (Suc (Suc (Suc (Suc (Suc (Suc 0))))))))))))))))))))))))) (codes (Suc (Suc (Suc (Suc 0)))) lojban_words)"
  unfolding codes_append by (simp only: lojban_words_defs code_eval)

lemma lojban_constructed: "constructed False Lojban ''Lojban'' ''Lojban'' lojban_words"
  unfolding Lojban_def by (rule constructor_returns [OF _ lojban_codes]) (simp_all only: if_True if_False lojban_ok, simp)

interpretation lojban: seed_language "the Lojban"
  by (rule constructed_language [OF lojban_constructed])

end
