(* ===== verification/Languages.thy ===== *)
theory Languages
  imports WordsSorted WordsLatin WordsScripts
begin

text \<open>
  The lists of languages of \<open>electrum-words.cpp\<close>: \<open>get_language_list\<close> and the instances that
  \<open>find_seed_language\<close> tries. Every constructor returns, the names tell the languages apart, and a seed in
  any of the twelve languages is read back to the key it was written for.
\<close>

definition get_language_list :: "Language list option" where
  "get_language_list = those [German, English, Spanish, French, Italian, Dutch, Portuguese, Russian, Japanese,
     Chinese_Simplified, Esperanto, Lojban]"

definition seed_language_instances :: "Language list option" where
  "seed_language_instances = those [Chinese_Simplified, English, Dutch, French, Spanish, German, Italian, Portuguese,
     Japanese, Russian, Esperanto, Lojban]"

section \<open>The languages have different names\<close>

fun names_apart :: "(string \<times> string) list \<Rightarrow> bool" where
  "names_apart [] = True"
| "names_apart ((a, b) # ns) = (list_all (\<lambda>(c, d). a \<noteq> c \<and> a \<noteq> d \<and> b \<noteq> c \<and> b \<noteq> d) ns \<and> names_apart ns)"

definition names_of :: "Language \<Rightarrow> string \<times> string" where
  "names_of l = (language_name l, english_language_name l)"

lemma find_language_named:
  "names_apart (map names_of langs) \<Longrightarrow> l \<in> set langs \<Longrightarrow> name = language_name l \<or> name = english_language_name l \<Longrightarrow>
     find_language langs name = Some l"
proof (induction langs)
  case (Cons x langs)
  show ?case
  proof (cases "l = x")
    case True
    then show ?thesis using Cons.prems by (auto simp: find_language_def)
  next
    case False
    then have "find_language langs name = Some l" using Cons by (simp add: names_of_def)
    moreover have "\<not> (language_name x = name \<or> english_language_name x = name)"
      using Cons.prems False by (auto simp: names_of_def list_all_iff)
    ultimately show ?thesis by (simp add: find_language_def)
  qed
qed simp

lemmas languages_constructed = german_constructed english_constructed spanish_constructed french_constructed italian_constructed
  dutch_constructed portuguese_constructed russian_constructed japanese_constructed chinese_simplified_constructed
  esperanto_constructed lojban_constructed

lemma languages_load:
  obtains langs searched r where "get_language_list = Some langs" and "seed_language_instances = Some searched"
    and "length langs = 12" and "set searched = set langs" and "names_apart (map names_of langs)"
    and "\<forall>l \<in> set langs. seed_language l"
    and "Russian = Some r" and "r \<in> set langs" and "\<forall>l \<in> set langs. list_all (\<lambda>w. cyrillic_start (hd w) = (l = r)) (word_list l)"
proof -
  obtain g en es f i d p r j c eo lo where
    l: "German = Some g" "English = Some en" "Spanish = Some es" "French = Some f" "Italian = Some i" "Dutch = Some d"
      "Portuguese = Some p" "Russian = Some r" "Japanese = Some j" "Chinese_Simplified = Some c" "Esperanto = Some eo" "Lojban = Some lo"
    using languages_constructed unfolding constructed_def by metis
  let ?langs = "[g, en, es, f, i, d, p, r, j, c, eo, lo]"
  note facts = languages_constructed [unfolded constructed_def l option.inject]
  have ok: "\<forall>l \<in> set ?langs. seed_language l" using facts by simp
  have names: "names_apart (map names_of ?langs)" using facts by (simp add: names_of_def)
  then have "l \<noteq> r" if "l \<in> set [g, en, es, f, i, d, p, j, c, eo, lo]" for l using that by (auto simp: names_of_def)
  then have "\<forall>l \<in> set ?langs. list_all (\<lambda>w. cyrillic_start (hd w) = (l = r)) (word_list l)" using facts by simp
  moreover have "get_language_list = Some ?langs" "seed_language_instances = Some [c, en, d, f, es, g, i, p, j, r, eo, lo]"
    by (simp_all add: get_language_list_def seed_language_instances_def l)
  ultimately show thesis using ok names l by (intro that [of ?langs]) auto
qed

text \<open>No word of another language starts with a Cyrillic letter.\<close>

lemma russian_alone:
  assumes "seed_language r" and "list_all (\<lambda>w. cyrillic_start (hd w)) (word_list r)" and "\<forall>i \<in> set ix. unat i < 1626" and "ix \<noteq> []"
    and "seed_language l" and "list_all (\<lambda>w. \<not> cyrillic_start (hd w)) (word_list l)"
  shows "language_score (spelled r ix) l < length ix"
proof -
  have "word_map l w = None" if "w \<in> set (spelled r ix)" for w
    using that assms(2,3,6) seed_language.known [OF assms(5), of w] seed_language.list_size [OF assms(1)]
    by (auto simp: spelled_def list_all_iff)
  then have "filter (\<lambda>w. word_map l w \<noteq> None) (spelled r ix) = []" by (simp add: filter_empty_conv)
  then show ?thesis using assms(4) by (simp add: language_score_eq)
qed

section \<open>Seeds\<close>

text \<open>C36: A seed of 25 words restores its key. All twelve languages load, and in each of them, found by either of
  its names, every key of 32 bytes is written as words that are read back to the same key and language,
  unless another language has all 25 words too.\<close>

theorem seed_25_round_trip:
  assumes "seed_libraries boost_trim boost_split std_sort"
  shows "\<exists>langs searched. get_language_list = Some langs \<and> seed_language_instances = Some searched \<and> length langs = 12
    \<and> (\<forall>lang \<in> set langs. \<forall>key. length key = 32 \<longrightarrow> (\<exists>words.
         bytes_to_words_25 crc32 langs key (language_name lang) = Some words
       \<and> bytes_to_words_25 crc32 langs key (english_language_name lang) = Some words
       \<and> ((\<forall>l \<in> set langs. l \<noteq> lang \<longrightarrow> language_score (boost_split (boost_trim words)) l < 25) \<longrightarrow>
           words_to_key boost_trim boost_split std_sort crc32 searched words = Some (key, language_name lang))))"
proof -
  obtain langs searched where l: "get_language_list = Some langs" "seed_language_instances = Some searched" "length langs = 12"
    "set searched = set langs" "names_apart (map names_of langs)" "\<forall>l \<in> set langs. seed_language l" by (rule languages_load)
  have written: "bytes_to_words_25 crc32 langs key name = Some (join_words (spelled lang (key_indices crc32 lang key)))"
    if "lang \<in> set langs" "length key = 32" "name = language_name lang \<or> name = english_language_name lang" for lang key name
    using that l(6) by (intro seed_language.key_written find_language_named [OF l(5)]) auto
  have read: "words_to_key boost_trim boost_split std_sort crc32 searched (join_words (spelled lang (key_indices crc32 lang key)))
      = Some (key, language_name lang)"
    if "lang \<in> set langs" "length key = 32"
      "\<forall>l \<in> set langs. l \<noteq> lang \<longrightarrow> language_score (boost_split (boost_trim (join_words (spelled lang (key_indices crc32 lang key))))) l < 25" for lang key
    using that l(4,6) key_split [OF _ assms] by (intro seed_25_read [OF _ assms]) auto
  show ?thesis
  proof (rule exI [of _ langs], rule exI [of _ searched], intro conjI ballI allI impI l(1-3))
    fix lang and key :: "byte list" assume "lang \<in> set langs" "length key = 32"
    then show "\<exists>words. bytes_to_words_25 crc32 langs key (language_name lang) = Some words \<and> bytes_to_words_25 crc32 langs key (english_language_name lang) = Some words
      \<and> ((\<forall>l \<in> set langs. l \<noteq> lang \<longrightarrow> language_score (boost_split (boost_trim words)) l < 25) \<longrightarrow>
           words_to_key boost_trim boost_split std_sort crc32 searched words = Some (key, language_name lang))"
      using written read by (intro exI [of _ "join_words (spelled lang (key_indices crc32 lang key))"]) simp
  qed
qed

text \<open>C37: A seed of 14 words restores its 16 bytes and its extra byte: in each of the twelve languages the checksum
  of 12 bits that the last two words hold is accepted and the bytes come back, unless another language has
  all 14 words too.\<close>

theorem seed_14_round_trip:
  assumes "seed_libraries boost_trim boost_split std_sort"
  shows "\<exists>langs searched. get_language_list = Some langs \<and> seed_language_instances = Some searched \<and> length langs = 12
    \<and> (\<forall>lang \<in> set langs. \<forall>key extra. length key = 16 \<longrightarrow> (\<exists>words.
         bytes_to_words_14 langs key extra (language_name lang) = Some words
       \<and> bytes_to_words_14 langs key extra (english_language_name lang) = Some words
       \<and> ((\<forall>l \<in> set langs. l \<noteq> lang \<longrightarrow> language_score (boost_split (boost_trim words)) l < 14) \<longrightarrow>
           words_to_bytes_14 boost_trim boost_split std_sort searched words = Some (key, Some extra, language_name lang))))"
proof -
  obtain langs searched where l: "get_language_list = Some langs" "seed_language_instances = Some searched" "length langs = 12"
    "set searched = set langs" "names_apart (map names_of langs)" "\<forall>l \<in> set langs. seed_language l" by (rule languages_load)
  have written: "bytes_to_words_14 langs key extra name = Some (join_words (spelled lang (seed_indices_14 key extra)))"
    if "lang \<in> set langs" "length key = 16" "name = language_name lang \<or> name = english_language_name lang" for lang key extra name
    using that l(6) by (intro seed_language.seed_words_14 find_language_named [OF l(5)]) auto
  have read: "words_to_bytes_14 boost_trim boost_split std_sort searched (join_words (spelled lang (seed_indices_14 key extra)))
      = Some (key, Some extra, language_name lang)"
    if "lang \<in> set langs" "length key = 16"
      "\<forall>l \<in> set langs. l \<noteq> lang \<longrightarrow> language_score (boost_split (boost_trim (join_words (spelled lang (seed_indices_14 key extra))))) l < 14"
    for lang key extra
    using that l(4,6) seed_14_split [OF _ assms] by (intro seed_14_read [OF _ assms]) auto
  show ?thesis
  proof (rule exI [of _ langs], rule exI [of _ searched], intro conjI ballI allI impI l(1-3))
    fix lang and key :: "byte list" and extra :: byte assume "lang \<in> set langs" "length key = 16"
    then show "\<exists>words. bytes_to_words_14 langs key extra (language_name lang) = Some words \<and> bytes_to_words_14 langs key extra (english_language_name lang) = Some words
      \<and> ((\<forall>l \<in> set langs. l \<noteq> lang \<longrightarrow> language_score (boost_split (boost_trim words)) l < 14) \<longrightarrow>
           words_to_bytes_14 boost_trim boost_split std_sort searched words = Some (key, Some extra, language_name lang))"
      using written read by (intro exI [of _ "join_words (spelled lang (seed_indices_14 key extra))"]) simp
  qed
qed

text \<open>A seed in Russian is read back without a condition.\<close>

lemma russian_unambiguous:
  assumes "get_language_list = Some langs" and "lang \<in> set langs" and "lang = the Russian" and "ix \<noteq> []" and "\<forall>i \<in> set ix. unat i < 1626"
  shows "seed_language lang" and "find_language langs (language_name lang) = Some lang"
    and "\<forall>l \<in> set langs. l \<noteq> lang \<longrightarrow> language_score (spelled lang ix) l < length ix"
proof -
  obtain langs' searched r where l: "get_language_list = Some langs'" "names_apart (map names_of langs')" "\<forall>l \<in> set langs'. seed_language l"
    "Russian = Some r" "\<forall>l \<in> set langs'. list_all (\<lambda>w. cyrillic_start (hd w) = (l = r)) (word_list l)" by (rule languages_load)
  have [simp]: "langs' = langs" using l(1) assms(1) by (metis option.inject)
  have [simp]: "lang = r" using l(4) assms(3) by (metis option.sel)
  show ok: "seed_language lang" using l(3) assms(2) by simp
  show "find_language langs (language_name lang) = Some lang" using l(2) assms(2) by (simp add: find_language_named)
  show "\<forall>l \<in> set langs. l \<noteq> lang \<longrightarrow> language_score (spelled lang ix) l < length ix"
    using russian_alone [OF ok _ assms(5,4)] l(3,5) assms(2) by (fastforce simp: list_all_iff)
qed

lemma sample_key_words:
  assumes "get_language_list = Some langs" and "lang \<in> set langs" and "lang = the Russian" and "length key = 32"
    and "bytes_to_words_25 crc32 langs key (language_name lang) = Some words"
  shows "\<forall>l \<in> set langs. l \<noteq> lang \<longrightarrow> language_score (split_blanks (trim words)) l < 25"
proof -
  have n: "length (key_indices crc32 lang key) = 25" by (rule decode_key_indices(1) [OF assms(4)])
  then have ne: "key_indices crc32 lang key \<noteq> []" by auto
  have range: "\<forall>i \<in> set (key_indices crc32 lang key). unat i < 1626" using key_indices_range [OF assms(4)] by blast
  note r = russian_unambiguous [OF assms(1-3) ne range]
  have "words = join_words (spelled lang (key_indices crc32 lang key))"
    using seed_language.key_written [OF r(1) assms(4) r(2)] assms(5) by simp
  then have "split_blanks (trim words) = spelled lang (key_indices crc32 lang key)"
    using key_split [OF r(1) libraries.seed_libraries_axioms assms(4)] by simp
  then show ?thesis using r(3) n by simp
qed

lemma sample_words_14:
  assumes "get_language_list = Some langs" and "lang \<in> set langs" and "lang = the Russian" and "length key = 16"
    and "bytes_to_words_14 langs key extra (language_name lang) = Some words"
  shows "\<forall>l \<in> set langs. l \<noteq> lang \<longrightarrow> language_score (split_blanks (trim words)) l < 14"
proof -
  have n: "length (seed_indices_14 key extra) = 14" by (simp add: seed_indices_14_def Let_def length_group_of)
  then have ne: "seed_indices_14 key extra \<noteq> []" by auto
  have range: "\<forall>i \<in> set (seed_indices_14 key extra). unat i < 1626" using seed_indices_14_range by blast
  note r = russian_unambiguous [OF assms(1-3) ne range]
  have "words = join_words (spelled lang (seed_indices_14 key extra))"
    using seed_language.seed_words_14 [OF r(1) assms(4) r(2)] assms(5) by simp
  then have "split_blanks (trim words) = spelled lang (seed_indices_14 key extra)"
    using seed_14_split [OF r(1) libraries.seed_libraries_axioms] by simp
  then show ?thesis using r(3) n by simp
qed

theorem seed_25_round_trip_witness:
  "\<exists>langs searched words. get_language_list = Some langs \<and> seed_language_instances = Some searched
     \<and> bytes_to_words_25 (\<lambda>s. 7) langs (replicate 32 5) (language_name (the Russian)) = Some words
     \<and> words_to_key trim split_blanks (sort_key snd) (\<lambda>s. 7) searched words = Some (replicate 32 5, language_name (the Russian))"
proof -
  obtain langs searched where l: "get_language_list = Some langs" "seed_language_instances = Some searched"
    "\<forall>lang \<in> set langs. \<forall>key. length key = 32 \<longrightarrow> (\<exists>words.
         bytes_to_words_25 (\<lambda>s. 7) langs key (language_name lang) = Some words
       \<and> bytes_to_words_25 (\<lambda>s. 7) langs key (english_language_name lang) = Some words
       \<and> ((\<forall>l \<in> set langs. l \<noteq> lang \<longrightarrow> language_score (split_blanks (trim words)) l < 25) \<longrightarrow>
           words_to_key trim split_blanks (sort_key snd) (\<lambda>s. 7) searched words = Some (key, language_name lang)))"
    using seed_25_round_trip [OF libraries.seed_libraries_axioms, of "\<lambda>s. 7"] by blast
  have r: "the Russian \<in> set langs" using l(1) by (metis languages_load option.inject option.sel)
  have key: "length (replicate 32 (5 :: byte)) = 32" by simp
  show ?thesis
    using l(3) [rule_format, OF r key] sample_key_words [OF l(1) r refl key] l(1,2) by blast
qed


theorem seed_14_round_trip_witness:
  "\<exists>langs searched words. get_language_list = Some langs \<and> seed_language_instances = Some searched
     \<and> bytes_to_words_14 langs (replicate 16 5) 9 (language_name (the Russian)) = Some words
     \<and> words_to_bytes_14 trim split_blanks (sort_key snd) searched words = Some (replicate 16 5, Some 9, language_name (the Russian))"
proof -
  obtain langs searched where l: "get_language_list = Some langs" "seed_language_instances = Some searched"
    "\<forall>lang \<in> set langs. \<forall>key extra. length key = 16 \<longrightarrow> (\<exists>words.
         bytes_to_words_14 langs key extra (language_name lang) = Some words
       \<and> bytes_to_words_14 langs key extra (english_language_name lang) = Some words
       \<and> ((\<forall>l \<in> set langs. l \<noteq> lang \<longrightarrow> language_score (split_blanks (trim words)) l < 14) \<longrightarrow>
           words_to_bytes_14 trim split_blanks (sort_key snd) searched words = Some (key, Some extra, language_name lang)))"
    using seed_14_round_trip [OF libraries.seed_libraries_axioms] by blast
  have r: "the Russian \<in> set langs" using l(1) by (metis languages_load option.inject option.sel)
  have key: "length (replicate 16 (5 :: byte)) = 16" by simp
  show ?thesis
    using l(3) [rule_format, OF r key, of 9] sample_words_14 [OF l(1) r refl key] l(1,2) by blast
qed

end
