(* ===== verification/Chacha.thy ===== *)
theory Chacha
  imports Prelude
begin

text \<open>
  The stream cipher of \<open>src/crypto/chacha.c\<close>, with which wallets are encrypted. The sixteen local variables
  are a list, and a block of the key stream is added to 64 bytes of data at a time. The last block goes
  through the buffer \<open>tmp\<close>, whose bytes behind the data are not initialised and are an argument here. The
  cipher text may be written over the data; any other overlap is left out.

  The lemmas show that the code adds a key stream that depends only on the key, the initialisation vector
  and the position, so that the same call decrypts.
\<close>

section \<open>The cipher\<close>

definition rol32 :: "u32 \<Rightarrow> nat \<Rightarrow> u32" where
  "rol32 x r = push_bit (r mod 32) x OR drop_bit ((32 - r mod 32) mod 32) x"

definition U8TO32_LITTLE :: "byte list \<Rightarrow> u32" where
  "U8TO32_LITTLE p = word_of_nat (le_nat (take 4 p))"

definition U32TO8_LITTLE :: "u32 \<Rightarrow> byte list" where
  "U32TO8_LITTLE v = le_bytes 4 (unat v)"

definition QUARTERROUND :: "nat \<Rightarrow> nat \<Rightarrow> nat \<Rightarrow> nat \<Rightarrow> u32 list \<Rightarrow> u32 list" where
  "QUARTERROUND a b c d x = (
     let x = x[a := x ! a + x ! b];
         x = x[d := rol32 (x ! d XOR x ! a) 16];
         x = x[c := x ! c + x ! d];
         x = x[b := rol32 (x ! b XOR x ! c) 12];
         x = x[a := x ! a + x ! b];
         x = x[d := rol32 (x ! d XOR x ! a) 8];
         x = x[c := x ! c + x ! d];
         x = x[b := rol32 (x ! b XOR x ! c) 7]
     in x)"

definition double_round :: "u32 list \<Rightarrow> u32 list" where
  "double_round x = (
     let x = QUARTERROUND 0 4 8 12 x;
         x = QUARTERROUND 1 5 9 13 x;
         x = QUARTERROUND 2 6 10 14 x;
         x = QUARTERROUND 3 7 11 15 x;
         x = QUARTERROUND 0 5 10 15 x;
         x = QUARTERROUND 1 6 11 12 x;
         x = QUARTERROUND 2 7 8 13 x;
         x = QUARTERROUND 3 4 9 14 x
     in x)"

function chacha_rounds :: "int \<Rightarrow> u32 list \<Rightarrow> u32 list" where
  "chacha_rounds i x = (if i > 0 then chacha_rounds (i - 2) (double_round x) else x)"
  by pat_completeness auto
termination by (relation "measure (\<lambda>(i, x). nat i)") auto

declare chacha_rounds.simps [simp del]

definition sigma :: "byte list" where
  "sigma = map of_char ''expand 32-byte k''"

definition chacha_init :: "byte list \<Rightarrow> byte list \<Rightarrow> u32 list" where
  "chacha_init key iv =
     [U8TO32_LITTLE sigma, U8TO32_LITTLE (drop 4 sigma), U8TO32_LITTLE (drop 8 sigma), U8TO32_LITTLE (drop 12 sigma),
      U8TO32_LITTLE key, U8TO32_LITTLE (drop 4 key), U8TO32_LITTLE (drop 8 key), U8TO32_LITTLE (drop 12 key),
      U8TO32_LITTLE (drop 16 key), U8TO32_LITTLE (drop 20 key), U8TO32_LITTLE (drop 24 key), U8TO32_LITTLE (drop 28 key),
      0, 0, U8TO32_LITTLE iv, U8TO32_LITTLE (drop 4 iv)]"

definition chacha_block :: "int \<Rightarrow> u32 list \<Rightarrow> u32 list" where
  "chacha_block rounds j = map2 (+) (chacha_rounds rounds j) j"

definition cipher_block :: "int \<Rightarrow> u32 list \<Rightarrow> byte list \<Rightarrow> byte list" where
  "cipher_block rounds j data =
     concat (map2 (\<lambda>x k. U32TO8_LITTLE (x XOR U8TO32_LITTLE (drop (4 * k) data))) (chacha_block rounds j) [0..<16])"

definition next_counter :: "u32 list \<Rightarrow> u32 list" where
  "next_counter j = (let j = j[12 := j ! 12 + 1] in if j ! 12 = 0 then j[13 := j ! 13 + 1] else j)"

function chacha_loop :: "int \<Rightarrow> byte list \<Rightarrow> u32 list \<Rightarrow> byte list \<Rightarrow> byte list" where
  "chacha_loop rounds tmp j data =
     (if length data < 64 then take (length data) (cipher_block rounds j (data @ drop (length data) tmp))
      else cipher_block rounds j data @
        (if length data \<le> 64 then [] else chacha_loop rounds tmp (next_counter j) (drop 64 data)))"
  by pat_completeness auto
termination by (relation "measure (\<lambda>(rounds, tmp, j, data). length data)") auto

declare chacha_loop.simps [simp del]

definition chacha :: "int \<Rightarrow> byte list \<Rightarrow> byte list \<Rightarrow> byte list \<Rightarrow> byte list \<Rightarrow> byte list" where
  "chacha rounds tmp data key iv = (if data = [] then [] else chacha_loop rounds tmp (chacha_init key iv) data)"

definition chacha8 :: "byte list \<Rightarrow> byte list \<Rightarrow> byte list \<Rightarrow> byte list \<Rightarrow> byte list" where
  "chacha8 tmp data key iv = chacha 8 tmp data key iv"

definition chacha20 :: "byte list \<Rightarrow> byte list \<Rightarrow> byte list \<Rightarrow> byte list \<Rightarrow> byte list" where
  "chacha20 tmp data key iv = chacha 20 tmp data key iv"

section \<open>The key stream\<close>

text \<open>The state of the block with the number \<open>c\<close>, and the byte of the key stream at a position.\<close>

definition block_state :: "byte list \<Rightarrow> byte list \<Rightarrow> nat \<Rightarrow> u32 list" where
  "block_state key iv c = (chacha_init key iv)[12 := word_of_nat c, 13 := word_of_nat (c div 2 ^ 32)]"

definition keystream_block :: "int \<Rightarrow> u32 list \<Rightarrow> byte list" where
  "keystream_block rounds j = concat (map U32TO8_LITTLE (chacha_block rounds j))"

definition keystream :: "int \<Rightarrow> byte list \<Rightarrow> byte list \<Rightarrow> nat \<Rightarrow> byte" where
  "keystream rounds key iv i = keystream_block rounds (block_state key iv (i div 64)) ! (i mod 64)"

lemma bit_le_bytes: "i < 4 \<Longrightarrow> bit (U32TO8_LITTLE v ! i) n \<longleftrightarrow> n < 8 \<and> bit v (8 * i + n)"
proof -
  assume "i < 4"
  then have "U32TO8_LITTLE v ! i = word_of_nat (unat v div 256 ^ i mod 256)" by (simp add: U32TO8_LITTLE_def le_bytes_nth)
  also have "unat v div 256 ^ i mod 256 = take_bit 8 (drop_bit (8 * i) (unat v))"
    by (simp add: take_bit_eq_mod drop_bit_eq_div power_mult)
  finally show ?thesis by (simp add: bit_simps)
qed

lemma U32TO8_xor: "U32TO8_LITTLE (v XOR w) = map2 (XOR) (U32TO8_LITTLE v) (U32TO8_LITTLE w)"
proof (rule nth_equalityI)
  show "length (U32TO8_LITTLE (v XOR w)) = length (map2 (XOR) (U32TO8_LITTLE v) (U32TO8_LITTLE w))" by (simp add: U32TO8_LITTLE_def)
next
  fix i assume "i < length (U32TO8_LITTLE (v XOR w))"
  then have i: "i < 4" by (simp add: U32TO8_LITTLE_def)
  then have "map2 (XOR) (U32TO8_LITTLE v) (U32TO8_LITTLE w) ! i = U32TO8_LITTLE v ! i XOR U32TO8_LITTLE w ! i"
    by (simp add: U32TO8_LITTLE_def)
  then show "U32TO8_LITTLE (v XOR w) ! i = map2 (XOR) (U32TO8_LITTLE v) (U32TO8_LITTLE w) ! i"
    using i by (auto intro: bit_eqI simp: bit_le_bytes bit_xor_iff)
qed

lemma U32TO8_load: "4 \<le> length p \<Longrightarrow> U32TO8_LITTLE (U8TO32_LITTLE p) = take 4 p"
proof -
  assume "4 \<le> length p"
  then have l: "length (take 4 p) = 4" by simp
  then have "le_nat (take 4 p) < 2 ^ 32" using le_nat_bound [of "take 4 p"] by simp
  then show ?thesis using l by (simp add: U32TO8_LITTLE_def U8TO32_LITTLE_def unat_of_nat take_bit_eq_mod le_bytes_le_nat)
qed

lemma length_QUARTERROUND [simp]: "length (QUARTERROUND a b c d x) = length x"
  by (simp add: QUARTERROUND_def Let_def)

lemma length_chacha_rounds: "length (chacha_rounds i x) = length x"
  by (induction i x rule: chacha_rounds.induct) (subst chacha_rounds.simps, simp add: double_round_def Let_def)

lemma length_chacha_block: "length j = 16 \<Longrightarrow> length (chacha_block rounds j) = 16"
  by (simp add: chacha_block_def length_chacha_rounds)

lemma length_U32TO8 [simp]: "length (U32TO8_LITTLE v) = 4"
  by (simp add: U32TO8_LITTLE_def)

lemma concat_map2_xor:
  "length d = 4 * length xs \<Longrightarrow>
     concat (map2 (\<lambda>x k. U32TO8_LITTLE (x XOR U8TO32_LITTLE (drop (4 * k) (e @ d)))) xs [length e div 4..<length e div 4 + length xs])
     = map2 (XOR) (concat (map U32TO8_LITTLE xs)) d"
  if "length e mod 4 = 0"
  using that
proof (induction xs arbitrary: d e)
  case (Cons x xs)
  define m where "m = length e div 4"
  have e: "length e = 4 * m" using Cons.prems(2) by (simp add: m_def mod_0_imp_dvd)
  have d: "length (take 4 d) = 4" "length (drop 4 d) = 4 * length xs" using Cons.prems(1) by simp_all
  have "concat (map2 (\<lambda>x k. U32TO8_LITTLE (x XOR U8TO32_LITTLE (drop (4 * k) ((e @ take 4 d) @ drop 4 d)))) xs
      [length (e @ take 4 d) div 4..<length (e @ take 4 d) div 4 + length xs]) = map2 (XOR) (concat (map U32TO8_LITTLE xs)) (drop 4 d)"
    using d e by (intro Cons.IH) simp_all
  moreover have "length (e @ take 4 d) div 4 = Suc m" using d e by simp
  ultimately have rest: "concat (map2 (\<lambda>x k. U32TO8_LITTLE (x XOR U8TO32_LITTLE (drop (4 * k) (e @ d)))) xs [Suc m..<Suc m + length xs])
      = map2 (XOR) (concat (map U32TO8_LITTLE xs)) (drop 4 d)" by simp
  have first: "U32TO8_LITTLE (x XOR U8TO32_LITTLE (drop (4 * m) (e @ d))) = map2 (XOR) (U32TO8_LITTLE x) (take 4 d)"
    using d e Cons.prems(1) by (simp add: U32TO8_xor U32TO8_load)
  have "map2 (XOR) (concat (map U32TO8_LITTLE (x # xs))) d = map2 (XOR) (U32TO8_LITTLE x @ concat (map U32TO8_LITTLE xs)) (take 4 d @ drop 4 d)" by simp
  also have "\<dots> = map2 (XOR) (U32TO8_LITTLE x) (take 4 d) @ map2 (XOR) (concat (map U32TO8_LITTLE xs)) (drop 4 d)"
    using d by (subst zip_append) simp_all
  finally have right: "map2 (XOR) (concat (map U32TO8_LITTLE (x # xs))) d
      = map2 (XOR) (U32TO8_LITTLE x) (take 4 d) @ map2 (XOR) (concat (map U32TO8_LITTLE xs)) (drop 4 d)" .
  have upt: "[m..<m + length (x # xs)] = m # [Suc m..<Suc m + length xs]" by (simp add: upt_conv_Cons del: upt_Suc)
  show ?case unfolding m_def [symmetric] upt right
    by (simp only: zip_Cons_Cons list.map prod.case concat.simps first rest)
qed simp

lemma length_keystream_block: "length j = 16 \<Longrightarrow> length (keystream_block rounds j) = 64"
  by (simp add: keystream_block_def length_concat comp_def length_chacha_block sum_list_triv)

lemma cipher_block_eq: "length j = 16 \<Longrightarrow> length data = 64 \<Longrightarrow> cipher_block rounds j data = map2 (XOR) (keystream_block rounds j) data"
  using concat_map2_xor [of "[]" data "chacha_block rounds j"]
  by (simp add: cipher_block_def keystream_block_def length_chacha_block)

lemma cipher_block_take: "cipher_block rounds j data = cipher_block rounds j (take 64 data)"
proof -
  have "U8TO32_LITTLE (drop (4 * k) data) = U8TO32_LITTLE (drop (4 * k) (take 64 data))" if "k < 16" for k
    using that by (simp add: U8TO32_LITTLE_def drop_take min_def)
  then show ?thesis unfolding cipher_block_def by (intro arg_cong [of _ _ concat] map_cong refl) (auto simp: set_zip)
qed

lemma length_block_state [simp]: "length (block_state key iv c) = 16"
  by (simp add: block_state_def chacha_init_def)

lemma next_counter_state: "next_counter (block_state key iv c) = block_state key iv (Suc c)"
proof -
  have z: "(1 + word_of_nat c :: u32) = 0 \<longleftrightarrow> 2 ^ 32 dvd Suc c"
    using word_of_nat_eq_0_iff [of "Suc c", where 'a = 32] by simp
  have d: "Suc c div 2 ^ 32 = (if 2 ^ 32 dvd Suc c then Suc (c div 2 ^ 32) else c div 2 ^ 32)"
    by (simp only: div_Suc dvd_eq_mod_eq_0)
  show ?thesis unfolding block_state_def d by (simp add: next_counter_def Let_def chacha_init_def z add.commute)
qed

lemma keystream_at: "i < 64 \<Longrightarrow> keystream rounds key iv (64 * c + i) = keystream_block rounds (block_state key iv c) ! i"
  by (simp add: keystream_def)

lemma cipher_block_stream:
  assumes "64 \<le> length data"
  shows "cipher_block rounds (block_state key iv c) data = map (\<lambda>i. data ! i XOR keystream rounds key iv (64 * c + i)) [0..<64]"
proof -
  have "cipher_block rounds (block_state key iv c) data = map2 (XOR) (keystream_block rounds (block_state key iv c)) (take 64 data)"
    using assms by (subst cipher_block_take) (simp add: cipher_block_eq)
  also have "\<dots> = map (\<lambda>i. data ! i XOR keystream rounds key iv (64 * c + i)) [0..<64]"
    using assms by (intro nth_equalityI) (simp_all add: length_keystream_block keystream_at xor.commute)
  finally show ?thesis .
qed

lemma chacha_loop_stream:
  assumes "length tmp = 64"
  shows "chacha_loop rounds tmp (block_state key iv c) data = map (\<lambda>i. data ! i XOR keystream rounds key iv (64 * c + i)) [0..<length data]"
proof (induction "length data" arbitrary: c data rule: less_induct)
  case less
  show ?case
  proof (cases "length data < 64")
    case True
    then have "64 \<le> length (data @ drop (length data) tmp)" using assms by simp
    then show ?thesis using True
      by (subst chacha_loop.simps) (simp add: cipher_block_stream take_map nth_append)
  next
    case False
    define rest where "rest = (if length data \<le> 64 then [] else chacha_loop rounds tmp (next_counter (block_state key iv c)) (drop 64 data))"
    have "rest = map (\<lambda>i. drop 64 data ! i XOR keystream rounds key iv (64 * Suc c + i)) [0..<length data - 64]"
      using less [of "drop 64 data" "Suc c"] False by (auto simp: rest_def next_counter_state)
    also have "\<dots> = map (\<lambda>i. data ! i XOR keystream rounds key iv (64 * c + i)) [64..<length data]"
      using False by (intro nth_equalityI) (simp_all add: add.assoc add.left_commute)
    finally have "chacha_loop rounds tmp (block_state key iv c) data
        = map (\<lambda>i. data ! i XOR keystream rounds key iv (64 * c + i)) ([0..<64] @ [64..<length data])"
      using False by (subst chacha_loop.simps, fold rest_def) (simp add: cipher_block_stream)
    moreover have "[0..<64] @ [64..<length data] = [0..<length data]" using False upt_add_eq_append [of 0 64 "length data - 64"] by simp
    ultimately show ?thesis by simp
  qed
qed

lemma chacha_stream:
  assumes "length tmp = 64"
  shows "chacha rounds tmp data key iv = map (\<lambda>i. data ! i XOR keystream rounds key iv i) [0..<length data]"
proof -
  have "chacha_init key iv = block_state key iv 0" by (simp add: block_state_def chacha_init_def)
  then show ?thesis using chacha_loop_stream [OF assms, of rounds key iv 0 data] by (simp add: chacha_def)
qed

section \<open>Properties\<close>

text \<open>C40: The cipher adds a key stream to the data: the byte at a position is combined with a byte that depends only on
  the key, the initialisation vector and the position, whatever the buffer for the last block held before.
  So the cipher text has the length of the data, and the same call on it gives the data back.\<close>

theorem chacha_is_stream_cipher:
  assumes "length tmp = 64" and "length tmp' = 64"
  shows "chacha rounds tmp data key iv = map (\<lambda>i. data ! i XOR keystream rounds key iv i) [0..<length data]
    \<and> chacha rounds tmp' (chacha rounds tmp data key iv) key iv = data"
proof -
  have "chacha rounds tmp' (chacha rounds tmp data key iv) key iv ! i = data ! i" if "i < length data" for i
    using that by (simp add: chacha_stream [OF assms(1)] chacha_stream [OF assms(2)] xor.assoc)
  moreover have "length (chacha rounds tmp' (chacha rounds tmp data key iv) key iv) = length data"
    by (simp add: chacha_stream [OF assms(1)] chacha_stream [OF assms(2)])
  ultimately show ?thesis using chacha_stream [OF assms(1)] by (simp add: nth_equalityI)
qed

theorem chacha_is_stream_cipher_witness:
  "chacha 20 (replicate 64 7) (chacha 20 (replicate 64 0) [1, 2, 3] (replicate 32 1) (replicate 8 2)) (replicate 32 1) (replicate 8 2) = [1, 2, 3]"
  using chacha_is_stream_cipher [of "replicate 64 0" "replicate 64 7" 20 "[1, 2, 3]" "replicate 32 1" "replicate 8 2"]
  by (metis length_replicate)

end
