(* ===== verification/Spec2Isabelle.thy ===== *)
theory Spec2Isabelle
  imports CurveScalar CurveGroup Difficulty Emission Addresses Hashing Amounts HardFork BlockQueue Checkpoints Languages Chacha
begin

text \<open>
  A verification development for the node and wallet of the Ryo currency, a CryptoNote coin written
  in C and C++ (\<open>src/\<close>, with the support library \<open>contrib/epee\<close>).

  \<^bold>\<open>The program.\<close> A node keeps a chain of blocks. A block is a header and a list of transaction
  hashes; its identifier is a Keccak hash over the serialised header and the root of a hash tree.
  A block is accepted when its proof of work meets the difficulty computed from the previous blocks,
  when its version is the one the hard-fork votes have reached, and when its first transaction pays
  no more than the reward of its height. Transactions spend outputs that are keys on the curve
  Ed25519; amounts are 64-bit integers. Wallets show keys to their users as base-58 addresses
  and as lists of words, and encrypt them with ChaCha. All objects travel and are stored in the binary
  archive format. A node that catches up with the chain hands out spans of missing blocks to its
  peers and compares the blocks with built-in checkpoints.

  \<^bold>\<open>The theories\<close>, in the order of their dependence:

  \<^item> \<open>Prelude\<close>: names of the machine types, conversions between byte strings and numbers, and the
    lemmas that move word computations to the natural numbers (collection \<open>word_nat\<close>).
  \<^item> \<open>IntUtil\<close>: \<open>common/int-util.h\<close> and the two 128-bit multiplications of \<open>difficulty.cpp\<close>; the
    interface \<open>wide_mul\<close> and its two providers.
  \<^item> \<open>Config\<close>: the constants of \<open>cryptonote_config.h\<close> as records, one for each network.
  \<^item> \<open>Varint\<close>, \<open>Serialization\<close>, \<open>TxFormat\<close>: \<open>common/varint.h\<close>, the archive of \<open>serialization/\<close> and the
    serialisers of \<open>cryptonote_basic.h\<close> and \<open>rctTypes.h\<close>. A writer is a function to byte strings and
    a reader returns a value with the bytes after it. The interfaces \<open>prefix_codec\<close> and \<open>codec\<close>
    state that reading what was written gives the value and the rest of the input back.
  \<^item> \<open>Base58\<close>, \<open>Addresses\<close>: \<open>common/base58.cpp\<close> and the address functions of
    \<open>cryptonote_basic_impl.cpp\<close>.
  \<^item> \<open>Keccak\<close>, \<open>TreeHash\<close>, \<open>Hashing\<close>: \<open>crypto/keccak.c\<close>, \<open>crypto/tree-hash.c\<close> and the transaction and
    block hashes of \<open>cryptonote_format_utils.cpp\<close>.
  \<^item> \<open>Amounts\<close>: sums, overflow checks, output offsets and the text form of amounts in
    \<open>cryptonote_format_utils.cpp\<close>.
  \<^item> \<open>Difficulty\<close>, \<open>Emission\<close>: \<open>difficulty.cpp\<close>, and the rewards and the development fund of
    \<open>cryptonote_basic_impl.cpp\<close>.
  \<^item> \<open>HardFork\<close>: the class of \<open>hardfork.cpp\<close> with the part of the block database that it uses.
  \<^item> \<open>Limbs\<close>, \<open>CurveScalar\<close>, \<open>CurveField\<close>, \<open>CurveGroup\<close>: \<open>crypto/crypto-ops.c\<close>; scalars modulo the
    order of the base point, the field modulo \<open>2 ^ 255 - 19\<close>, and the points.
  \<^item> \<open>BlockQueue\<close>: the spans of \<open>cryptonote_protocol/block_queue.cpp\<close> as an ordered list.
  \<^item> \<open>StringTools\<close>, \<open>Checkpoints\<close>: hexadecimal text and string helpers of \<open>contrib/epee\<close>, and the container,
    the built-in points and the loaders of \<open>checkpoints/checkpoints.cpp\<close>.
  \<^item> \<open>Mnemonics\<close>, \<open>WordCheck\<close>, \<open>WordsSorted\<close>, \<open>WordsLatin\<close>, \<open>WordsScripts\<close>, \<open>Languages\<close>: the seeds of
    \<open>mnemonics/electrum-words.cpp\<close>, a check of word lists by evaluation, the twelve word lists, and the
    lists of languages. The interface \<open>seed_language\<close> is what a constructor of a language gives,
    \<open>seed_libraries\<close> what the decoders use of Boost and of \<open>std::sort\<close>.
  \<^item> \<open>Chacha\<close>: the stream cipher of \<open>crypto/chacha.c\<close>.

  \<^bold>\<open>How the code is rendered.\<close> Unsigned and signed machine integers are words of their width and
  wrap as in the code; a \<open>size_t\<close> that only counts list elements is a natural number. A buffer or
  vector is a list and is returned updated. A function that can fail, throw or trip an assertion
  returns an option or a result type of its own. Loops are structural recursions or folds;
  \<open>tree_hash_pow\<close>, whose termination is a claim, is a partial function. Boost, \<open>std::sort\<close>,
  the bytes of buffers that are not initialised, the tests of curve points in \<open>Addresses\<close> and the choice of
  \<open>mul\<close> are arguments of the definitions that call them.

  \<^bold>\<open>What is shown.\<close> Round trips: varints, archives, transactions, blocks, base-58 text, addresses,
  amounts, offsets, compressed points, hexadecimal text, seeds of 14 and 25 words in twelve languages,
  and encryption. Equivalence with a reference: Keccak-f, the sponge, the hash tree, the arithmetic
  modulo the two primes, decompression, the checksum of seeds, the key stream. Exactness and overflow: the
  difficulty test, the difficulty rules and their limits, rewards, money sums, the 128-bit
  helpers, the three words for 32 bits. State: hard-fork voting, restart and reorganisation, cached
  transaction hashes, the queue of spans as a map, and checkpoints that are never changed. Progress:
  peers that keep asking have all missing blocks requested.
  Commitment: equal block, transaction or tree hashes mean equal contents unless a collision of
  \<open>cn_fast_hash\<close> occurs in the calculations.

  \<^bold>\<open>Bounds.\<close> No model runs on fuel. The limb arithmetic is bounded by the ranges that the comments
  of \<open>crypto-ops.c\<close> state: \<open>fe_bounded 330\<close> is their \<open>1.65 * 2 ^ 26\<close>, and the transformers of ranges
  in \<open>CurveScalar\<close> and \<open>CurveField\<close> fail when a 32-bit or 64-bit variable could overflow.

  \<^bold>\<open>Not modelled.\<close> Network and file input and output, threads and locks, the databases (LMDB and
  Berkeley DB), the user interfaces, the RPC servers, the hardware devices, the proof-of-work hash
  with its processor-specific code, scalar multiplication, ring signatures and range proofs, the
  transaction pool, the acceptance of blocks, the wallet, and the libraries under \<open>external/\<close>. Input
  and output, threads, databases and interfaces are effects outside the logic. The remaining parts
  would need the group law of the curve, which is not proved here, or a model of those effects.
\<close>

end
